(* ===== verification/Prelude.thy ===== *)
theory Prelude
  imports Main "HOL-Library.Word" "HOL-Library.Sublist"
begin

text \<open>
  Shared vocabulary of the development: fallible programs over an explicit state and their
  weakest-precondition calculus (collection \<open>wp\<close>), the HTTP status codes the handlers
  return, list lemmas about tables, and a generic notion of reachable states with the
  interface \<open>invariant_system\<close> that every state machine of the development interprets.
\<close>

named_theorems wp_rules "weakest-precondition equations of programs and of database operations"

section \<open>Machine types and status codes\<close>

type_synonym byte = "8 word"
type_synonym u32 = "32 word"
type_synonym u64 = "64 word"
type_synonym bytes = "byte list"

text \<open>Identifiers (Rust \<^verbatim>\<open>uuid::Uuid\<close>) are opaque; timestamps count microseconds,
  the resolution of a PostgreSQL \<^verbatim>\<open>timestamptz\<close>.\<close>

type_synonym uuid = nat
type_synonym timestamp = int

abbreviation (input) micros_per_sec :: int where "micros_per_sec \<equiv> 1000000"

definition seconds :: "int \<Rightarrow> int" where
  "seconds n = n * micros_per_sec"

definition minutes :: "int \<Rightarrow> int" where
  "minutes n = seconds (n * 60)"

definition hours :: "int \<Rightarrow> int" where
  "hours n = seconds (n * 3600)"

definition days :: "int \<Rightarrow> int" where
  "days n = seconds (n * 86400)"

lemma seconds_mono [simp]: "seconds a \<le> seconds b \<longleftrightarrow> a \<le> b"
  by (simp add: seconds_def)

lemma seconds_pos [simp]: "0 < seconds a \<longleftrightarrow> 0 < a"
  by (simp add: seconds_def)

datatype status =
    OK | CREATED | NO_CONTENT
  | BAD_REQUEST | UNAUTHORIZED | FORBIDDEN | NOT_FOUND | CONFLICT | GONE
  | PAYLOAD_TOO_LARGE | UNPROCESSABLE_ENTITY | LOCKED | TOO_MANY_REQUESTS
  | INTERNAL_SERVER_ERROR | BAD_GATEWAY | SERVICE_UNAVAILABLE

section \<open>Fallible programs over a state\<close>

text \<open>
  A program takes the state and returns its result (\<open>Inl\<close> an error, \<open>Inr\<close> a value) with
  the state it leaves. \<open>andthen\<close> is the \<^verbatim>\<open>?\<close> operator of Rust: an error ends the program,
  and what was done to the state before it stays done.
\<close>

type_synonym ('s, 'e, 'a) prog = "'s \<Rightarrow> ('e + 'a) \<times> 's"

definition ret :: "'a \<Rightarrow> ('s, 'e, 'a) prog" where
  "ret x s = (Inr x, s)"

definition throw :: "'e \<Rightarrow> ('s, 'e, 'a) prog" where
  "throw e s = (Inl e, s)"

definition andthen :: "('s, 'e, 'a) prog \<Rightarrow> ('a \<Rightarrow> ('s, 'e, 'b) prog) \<Rightarrow> ('s, 'e, 'b) prog" where
  "andthen m f s = (case m s of (Inl e, t) \<Rightarrow> (Inl e, t) | (Inr x, t) \<Rightarrow> f x t)"

definition map_err :: "('e \<Rightarrow> 'f) \<Rightarrow> ('s, 'e, 'a) prog \<Rightarrow> ('s, 'f, 'a) prog" where
  "map_err g m s = (case m s of (Inl e, t) \<Rightarrow> (Inl (g e), t) | (Inr x, t) \<Rightarrow> (Inr x, t))"

text \<open>\<open>attempt\<close> keeps an error as a value, for the code's \<^verbatim>\<open>match\<close> and \<^verbatim>\<open>let _ =\<close> on results.\<close>

definition attempt :: "('s, 'e, 'a) prog \<Rightarrow> ('s, 'f, 'e + 'a) prog" where
  "attempt m s = (case m s of (r, t) \<Rightarrow> (Inr r, t))"

definition ok_or :: "'e \<Rightarrow> 'a option \<Rightarrow> ('s, 'e, 'a) prog" where
  "ok_or e x = (case x of None \<Rightarrow> throw e | Some v \<Rightarrow> ret v)"

definition reject_if :: "bool \<Rightarrow> 'e \<Rightarrow> ('s, 'e, unit) prog" where
  "reject_if b e = (if b then throw e else ret ())"

definition get_state :: "('s, 'e, 's) prog" where
  "get_state s = (Inr s, s)"

definition modify :: "('s \<Rightarrow> 's) \<Rightarrow> ('s, 'e, unit) prog" where
  "modify f s = (Inr (), f s)"

text \<open>A \<^verbatim>\<open>for\<close> loop whose body's errors are propagated.\<close>

fun for_each :: "'a list \<Rightarrow> ('a \<Rightarrow> ('s, 'e, unit) prog) \<Rightarrow> ('s, 'e, unit) prog" where
  "for_each [] f = ret ()"
| "for_each (x # xs) f = andthen (f x) (\<lambda>_. for_each xs f)"

section \<open>Weakest preconditions\<close>

definition wp :: "('s, 'e, 'a) prog \<Rightarrow> ('a \<Rightarrow> 's \<Rightarrow> bool) \<Rightarrow> ('e \<Rightarrow> 's \<Rightarrow> bool) \<Rightarrow> 's \<Rightarrow> bool" where
  "wp m Q E s = (case m s of (Inl e, t) \<Rightarrow> E e t | (Inr x, t) \<Rightarrow> Q x t)"

lemma wp_ret [wp_rules]: "wp (ret x) Q E s = Q x s"
  by (simp add: wp_def ret_def)

lemma wp_throw [wp_rules]: "wp (throw e) Q E s = E e s"
  by (simp add: wp_def throw_def)

lemma wp_andthen [wp_rules]: "wp (andthen m f) Q E s = wp m (\<lambda>x. wp (f x) Q E) E s"
  by (simp add: wp_def andthen_def split: prod.splits sum.splits)

lemma wp_map_err [wp_rules]: "wp (map_err g m) Q E s = wp m Q (\<lambda>e. E (g e)) s"
  by (simp add: wp_def map_err_def split: prod.splits sum.splits)

lemma wp_attempt [wp_rules]:
  "wp (attempt m) Q E s = wp m (\<lambda>x. Q (Inr x)) (\<lambda>e. Q (Inl e)) s"
  by (simp add: wp_def attempt_def split: prod.splits sum.splits)

lemma wp_ok_or [wp_rules]:
  "wp (ok_or e x) Q E s = (case x of None \<Rightarrow> E e s | Some v \<Rightarrow> Q v s)"
  by (simp add: ok_or_def wp_rules split: option.split)

lemma wp_reject_if [wp_rules]: "wp (reject_if b e) Q E s = (if b then E e s else Q () s)"
  by (simp add: reject_if_def wp_rules)

lemma wp_get_state [wp_rules]: "wp get_state Q E s = Q s s"
  by (simp add: wp_def get_state_def)

lemma wp_modify [wp_rules]: "wp (modify f) Q E s = Q () (f s)"
  by (simp add: wp_def modify_def)

lemma wp_if [wp_rules]: "wp (if b then m else n) Q E s = (if b then wp m Q E s else wp n Q E s)"
  by simp

lemma wp_finish: "wp (ret x) Q E = Q x" "wp (throw e) Q E = E e"
  by (simp_all add: fun_eq_iff wp_rules)

lemma wp_mono:
  assumes "wp m Q E s"
    and "\<And>x t. Q x t \<Longrightarrow> Q' x t" and "\<And>e t. E e t \<Longrightarrow> E' e t"
  shows "wp m Q' E' s"
  using assms by (auto simp: wp_def split: prod.splits sum.splits)

lemma wp_conj:
  "wp m Q E s \<Longrightarrow> wp m Q' E' s \<Longrightarrow> wp m (\<lambda>x t. Q x t \<and> Q' x t) (\<lambda>e t. E e t \<and> E' e t) s"
  by (auto simp: wp_def split: prod.splits sum.splits)

lemma wp_returns: "wp m Q E s \<Longrightarrow> m s = (Inr x, t) \<Longrightarrow> Q x t"
  by (simp add: wp_def)

lemma wp_fails: "wp m Q E s \<Longrightarrow> m s = (Inl e, t) \<Longrightarrow> E e t"
  by (simp add: wp_def)

text \<open>A property of the state alone, whatever the result.\<close>

abbreviation keeps :: "('s \<Rightarrow> bool) \<Rightarrow> ('s, 'e, 'a) prog \<Rightarrow> 's \<Rightarrow> bool" where
  "keeps I m s \<equiv> wp m (\<lambda>_. I) (\<lambda>_. I) s"

lemma keeps_final: "keeps I m s \<Longrightarrow> I (snd (m s))"
  by (auto simp: wp_def split: prod.splits sum.splits)

lemma keepsI: "I (snd (m s)) \<Longrightarrow> keeps I m s"
  by (auto simp: wp_def split: prod.splits sum.splits)

lemma wp_bind:
  assumes "wp m R E s" and "\<And>x t. R x t \<Longrightarrow> wp (f x) Q E t"
  shows "wp (andthen m f) Q E s"
  using assms by (auto simp: wp_rules intro: wp_mono)

lemma wp_call:
  assumes "wp m R F s" and "\<And>x t. R x t \<Longrightarrow> wp (f x) Q E t" and "\<And>e t. F e t \<Longrightarrow> E (g e) t"
  shows "wp (andthen (map_err g m) f) Q E s"
  unfolding wp_andthen wp_map_err using assms by (rule wp_mono)

lemma keeps_bind:
  assumes "keeps I m s" and "\<And>x t. I t \<Longrightarrow> keeps I (f x) t"
  shows "keeps I (andthen m f) s"
  using assms by (rule wp_bind)

lemma keeps_simps [simp]:
  "keeps I (ret x) s = I s" "keeps I (throw e) s = I s"
  "keeps I (map_err g m) s = keeps I m s"
  "keeps I (attempt m) s = keeps I m s"
  "keeps I (ok_or e v) s = I s" "keeps I (reject_if b e) s = I s"
  by (simp_all add: wp_rules split: option.split)

lemma wp_guard:
  assumes "b \<Longrightarrow> E e s" and "\<not> b \<Longrightarrow> wp (f ()) Q E s"
  shows "wp (andthen (reject_if b e) f) Q E s"
  using assms by (simp add: wp_rules)

lemma wp_need:
  assumes "v = None \<Longrightarrow> E e s" and "\<And>x. v = Some x \<Longrightarrow> wp (f x) Q E s"
  shows "wp (andthen (ok_or e v) f) Q E s"
  using assms by (simp add: wp_rules split: option.split)

lemma wp_andthen_checks:
  "wp (andthen (reject_if b e) f) Q E s = (if b then E e s else wp (f ()) Q E s)"
  "wp (andthen (ok_or e v) g) Q E s = (case v of None \<Rightarrow> E e s | Some x \<Rightarrow> wp (g x) Q E s)"
  by (simp_all add: wp_rules split: option.split)

lemma keeps_for_each:
  assumes "\<And>x s. x \<in> set xs \<Longrightarrow> I s \<Longrightarrow> keeps I (f x) s" and "I s"
  shows "keeps I (for_each xs f) s"
  using assms
proof (induction xs arbitrary: s)
  case Nil
  then show ?case by (simp add: wp_rules)
next
  case (Cons x xs)
  have "keeps I (f x) s" using Cons.prems by simp
  then have "wp (f x) (\<lambda>_ t. keeps I (for_each xs f) t) (\<lambda>_. I) s"
    by (rule wp_mono) (use Cons in auto)
  then show ?case by (simp add: wp_rules)
qed

section \<open>Tables as lists of rows\<close>

text \<open>\<^verbatim>\<open>UPDATE t SET .. WHERE p\<close>, and the number of rows it touches.\<close>

definition update_where :: "('r \<Rightarrow> bool) \<Rightarrow> ('r \<Rightarrow> 'r) \<Rightarrow> 'r list \<Rightarrow> 'r list" where
  "update_where p f rs = map (\<lambda>r. if p r then f r else r) rs"

definition delete_where :: "('r \<Rightarrow> bool) \<Rightarrow> 'r list \<Rightarrow> 'r list" where
  "delete_where p rs = filter (\<lambda>r. \<not> p r) rs"

text \<open>\<^verbatim>\<open>ORDER BY key DESC LIMIT 1\<close>: the first row with the greatest key.\<close>

fun max_by :: "('r \<Rightarrow> 'k::linorder) \<Rightarrow> 'r list \<Rightarrow> 'r option" where
  "max_by k [] = None"
| "max_by k (r # rs) =
     (case max_by k rs of None \<Rightarrow> Some r | Some m \<Rightarrow> Some (if k m \<le> k r then r else m))"

lemma update_where_Nil [simp]: "update_where p f [] = []"
  by (simp add: update_where_def)

lemma update_where_Cons [simp]:
  "update_where p f (r # rs) = (if p r then f r else r) # update_where p f rs"
  by (simp add: update_where_def)

lemma length_update_where [simp]: "length (update_where p f rs) = length rs"
  by (simp add: update_where_def)

lemma set_update_where:
  "set (update_where p f rs) = {f r |r. r \<in> set rs \<and> p r} \<union> {r \<in> set rs. \<not> p r}"
  by (auto simp: update_where_def)

lemma in_update_whereE:
  assumes "r' \<in> set (update_where p f rs)"
  obtains r where "r \<in> set rs" "p r" "r' = f r" | "r' \<in> set rs" "\<not> p r'"
  using assms by (auto simp: set_update_where)

lemma map_update_where_same:
  "(\<And>r. p r \<Longrightarrow> g (f r) = g r) \<Longrightarrow> map g (update_where p f rs) = map g rs"
  by (simp add: update_where_def)

lemma update_where_False [simp]: "(\<And>r. r \<in> set rs \<Longrightarrow> \<not> p r) \<Longrightarrow> update_where p f rs = rs"
  by (induction rs) auto

lemma set_delete_where [simp]: "set (delete_where p rs) = {r \<in> set rs. \<not> p r}"
  by (auto simp: delete_where_def)

lemma filter_update_where:
  assumes "\<And>r. p r \<Longrightarrow> \<not> q r" "\<And>r. q (f r) = q r"
  shows "filter q (update_where p f rs) = filter q rs"
  using assms by (induction rs) auto

lemma filter_delete_where: "(\<And>r. p r \<Longrightarrow> \<not> q r) \<Longrightarrow> filter q (delete_where p rs) = filter q rs"
  by (induction rs) (auto simp: delete_where_def)

lemma distinct_map_delete_where: "distinct (map g rs) \<Longrightarrow> distinct (map g (delete_where p rs))"
  by (simp add: delete_where_def distinct_map_filter)

text \<open>A table with a unique key whose rows satisfy \<open>P\<close>.\<close>

definition table_wf :: "('r \<Rightarrow> 'k) \<Rightarrow> ('r \<Rightarrow> bool) \<Rightarrow> 'r list \<Rightarrow> bool" where
  "table_wf key P rows \<longleftrightarrow> distinct (map key rows) \<and> list_all P rows"

lemma table_mono: "table_wf key P rows \<Longrightarrow> (\<And>r. P r \<Longrightarrow> Q r) \<Longrightarrow> table_wf key Q rows"
  by (auto simp: table_wf_def list_all_iff)

lemma table_append:
  "table_wf key P rows \<Longrightarrow> (\<And>r. P r \<Longrightarrow> Q r) \<Longrightarrow> (\<And>r. P r \<Longrightarrow> key r \<noteq> key new) \<Longrightarrow> Q new \<Longrightarrow> table_wf key Q (rows @ [new])"
  unfolding table_wf_def list_all_iff by (simp add: image_iff) metis

lemma table_insert:
  "table_wf key P rows \<Longrightarrow> \<not> list_ex (\<lambda>r. key r = key new) rows \<Longrightarrow> P new \<Longrightarrow> table_wf key P (rows @ [new])"
  by (auto simp: table_wf_def list_all_iff list_ex_iff)

lemma table_delete: "table_wf key P rows \<Longrightarrow> table_wf key P (delete_where q rows)"
  by (simp add: table_wf_def list_all_iff distinct_map_delete_where)

lemma table_cascade: "table_wf key P rows \<Longrightarrow> (\<And>r. P r \<Longrightarrow> \<not> q r \<Longrightarrow> Q r) \<Longrightarrow> table_wf key Q (delete_where q rows)"
  by (auto simp: table_wf_def list_all_iff distinct_map_delete_where)

lemma table_update:
  assumes "table_wf key P rows" "\<And>r. q r \<Longrightarrow> key (f r) = key r" "\<And>r. P r \<Longrightarrow> q r \<Longrightarrow> P (f r)"
  shows "table_wf key P (update_where q f rows)"
proof -
  have "map key (update_where q f rows) = map key rows" by (rule map_update_where_same) (rule assms(2))
  then show ?thesis using assms by (auto simp: table_wf_def list_all_iff set_update_where)
qed

lemma max_by_None [simp]: "max_by k rs = None \<longleftrightarrow> rs = []"
  by (cases rs) (auto split: option.splits)

lemma max_by_in: "max_by k rs = Some m \<Longrightarrow> m \<in> set rs"
  by (induction rs arbitrary: m) (auto split: option.splits if_splits)

lemma max_by_ge: "max_by k rs = Some m \<Longrightarrow> r \<in> set rs \<Longrightarrow> k r \<le> k m"
proof (induction rs arbitrary: m)
  case (Cons a rs)
  then show ?case
    by (cases "max_by k rs") (fastforce split: if_splits)+
qed simp

lemma find_SomeD: "List.find p rs = Some r \<Longrightarrow> r \<in> set rs \<and> p r"
  by (induction rs) (auto split: if_splits)

lemma find_NoneD: "List.find p rs = None \<longleftrightarrow> (\<forall>r \<in> set rs. \<not> p r)"
  by (auto simp: find_None_iff)

lemma find_unique:
  assumes "distinct (map k rs)" and "r \<in> set rs"
  shows "List.find (\<lambda>x. k x = k r) rs = Some r"
  using assms by (induction rs) (auto simp: image_iff)

lemma distinct_filter_one:
  "distinct (map k rs) \<Longrightarrow> r \<in> set rs \<Longrightarrow> length (filter (\<lambda>x. k x = k r) rs) = 1"
proof (induction rs)
  case (Cons a rs)
  show ?case
  proof (cases "k a = k r")
    case True
    then have "filter (\<lambda>x. k x = k r) rs = []"
      using Cons.prems(1) by (auto simp: filter_empty_conv image_iff)
    then show ?thesis using True by simp
  qed (use Cons in auto)
qed simp

lemma find_key_Some:
  assumes "distinct (map k rs)"
  shows "List.find (\<lambda>x. k x = a) rs = Some r \<longleftrightarrow> r \<in> set rs \<and> k r = a"
  using find_SomeD [of "\<lambda>x. k x = a" rs r] find_unique [OF assms, of r] by auto

section \<open>Reachable states and invariants\<close>

inductive reach :: "('s \<Rightarrow> bool) \<Rightarrow> ('s \<Rightarrow> 's \<Rightarrow> bool) \<Rightarrow> 's \<Rightarrow> bool" for init step where
  reach_init: "init s \<Longrightarrow> reach init step s"
| reach_step: "reach init step s \<Longrightarrow> step s t \<Longrightarrow> reach init step t"

text \<open>The contract of a state machine with an invariant: what a component must show once so
  that the invariant holds in every state it can be in.\<close>

locale invariant_system =
  fixes init :: "'s \<Rightarrow> bool"
    and step :: "'s \<Rightarrow> 's \<Rightarrow> bool"
    and inv :: "'s \<Rightarrow> bool"
  assumes init_inv: "init s \<Longrightarrow> inv s"
    and step_inv: "inv s \<Longrightarrow> step s t \<Longrightarrow> inv t"
begin

lemma reach_inv: "reach init step s \<Longrightarrow> inv s"
  by (induction rule: reach.induct) (auto intro: init_inv step_inv)

lemma steps_inv: "inv s \<Longrightarrow> step\<^sup>*\<^sup>* s t \<Longrightarrow> inv t"
  by (rotate_tac 1, induction rule: rtranclp_induct) (auto intro: step_inv)

end

section \<open>Codecs\<close>

text \<open>The contract of an encoder and a fallible decoder, on the values \<open>ok\<close> the encoder is for.\<close>

locale codec =
  fixes enc :: "'a \<Rightarrow> 'b"
    and dec :: "'b \<Rightarrow> 'e + 'a"
    and ok :: "'a \<Rightarrow> bool"
  assumes dec_enc: "ok x \<Longrightarrow> dec (enc x) = Inr x"
begin

lemma enc_inj: "ok x \<Longrightarrow> ok y \<Longrightarrow> enc x = enc y \<Longrightarrow> x = y"
  by (metis dec_enc sum.inject(2))

lemma decodes_to: "ok x \<Longrightarrow> dec (enc x) = Inr y \<Longrightarrow> y = x"
  using dec_enc [of x] by simp

end

end
