(* ===== verification/Text.thy ===== *)
theory Text
  imports Prelude "HOL-Library.Char_ord"
begin

text \<open>
  What the sources use of Rust's string library. A \<^verbatim>\<open>&str\<close> is its UTF-8 bytes, one HOL
  \<open>char\<close> per byte, so \<open>length\<close> is Rust's \<^verbatim>\<open>len()\<close>. \<^verbatim>\<open>&[u8]\<close> is a list of 8-bit words.
  The theory gives \<^verbatim>\<open>split\<close>, \<^verbatim>\<open>split_once\<close>, \<^verbatim>\<open>rfind\<close>, \<^verbatim>\<open>strip_prefix\<close>, decimal printing
  and parsing of \<^verbatim>\<open>i64\<close>, and UTF-8 validation, with the lemmas their clients share.
\<close>

section \<open>Splitting\<close>

fun split_on :: "char \<Rightarrow> string \<Rightarrow> string list" where
  "split_on c [] = [[]]"
| "split_on c (x # xs) =
     (if x = c then [] # split_on c xs
      else (case split_on c xs of [] \<Rightarrow> [[x]] | p # ps \<Rightarrow> (x # p) # ps))"

fun split_once :: "char \<Rightarrow> string \<Rightarrow> (string \<times> string) option" where
  "split_once c [] = None"
| "split_once c (x # xs) =
     (if x = c then Some ([], xs)
      else (case split_once c xs of None \<Rightarrow> None | Some (a, b) \<Rightarrow> Some (x # a, b)))"

text \<open>\<open>rsplit_once\<close>: the text before and after the last occurrence (\<^verbatim>\<open>rfind\<close>).\<close>

fun rsplit_once :: "char \<Rightarrow> string \<Rightarrow> (string \<times> string) option" where
  "rsplit_once c [] = None"
| "rsplit_once c (x # xs) =
     (case rsplit_once c xs of
        Some (a, b) \<Rightarrow> Some (x # a, b)
      | None \<Rightarrow> if x = c then Some ([], xs) else None)"

definition strip_prefix :: "string \<Rightarrow> string \<Rightarrow> string option" where
  "strip_prefix p s = (if prefix p s then Some (drop (length p) s) else None)"

text \<open>\<^verbatim>\<open>str::trim()\<close> on ASCII text: header values and decimal numbers.\<close>

definition is_space :: "char \<Rightarrow> bool" where
  "is_space c \<longleftrightarrow> (let n = (of_char c :: nat) in n = 32 \<or> (9 \<le> n \<and> n \<le> 13))"

definition trim :: "string \<Rightarrow> string" where
  "trim s = rev (dropWhile is_space (rev (dropWhile is_space s)))"

text \<open>\<^verbatim>\<open>str::trim()\<close> on any text: the characters of the Unicode property \<^verbatim>\<open>White_Space\<close>, in UTF-8.\<close>

definition WHITE_SPACE :: "string list" where
  "WHITE_SPACE = map (map (\<lambda>n. char_of (n :: nat)))
     ([[9], [10], [11], [12], [13], [32], [0xC2, 0x85], [0xC2, 0xA0], [0xE1, 0x9A, 0x80],
       [0xE2, 0x80, 0xA8], [0xE2, 0x80, 0xA9], [0xE2, 0x80, 0xAF], [0xE2, 0x81, 0x9F], [0xE3, 0x80, 0x80]]
      @ map (\<lambda>n. [0xE2, 0x80, n]) [0x80..<0x8B])"

fun strip_front :: "string list \<Rightarrow> string \<Rightarrow> string" where
  "strip_front ws [] = []"
| "strip_front ws (c # s) =
     (case List.find (\<lambda>w. w \<noteq> [] \<and> prefix w (c # s)) ws of
        None \<Rightarrow> c # s
      | Some w \<Rightarrow> strip_front ws (drop (length w - 1) s))"

definition utrim :: "string \<Rightarrow> string" where
  "utrim s = rev (strip_front (map rev WHITE_SPACE) (rev (strip_front WHITE_SPACE s)))"

lemma length_strip_front: "length (strip_front ws s) \<le> length s"
proof (induction ws s rule: strip_front.induct)
  case (2 ws c s)
  show ?case
  proof (cases "List.find (\<lambda>w. w \<noteq> [] \<and> prefix w (c # s)) ws")
    case (Some w)
    with 2 [OF Some] show ?thesis by simp
  qed simp
qed simp

lemma length_utrim: "length (utrim s) \<le> length s"
  using length_strip_front [of "map rev WHITE_SPACE" "rev (strip_front WHITE_SPACE s)"] length_strip_front [of WHITE_SPACE s]
  by (simp add: utrim_def)

lemma strip_prefix_append [simp]: "strip_prefix p (p @ s) = Some s"
  by (simp add: strip_prefix_def)

lemma strip_prefix_Some: "strip_prefix p s = Some t \<longleftrightarrow> s = p @ t"
  by (auto simp: strip_prefix_def prefix_def)

lemma split_on_nonempty [simp]: "split_on c s \<noteq> []"
  by (cases s) (auto split: list.splits)

lemma split_on_absent: "c \<notin> set s \<Longrightarrow> split_on c s = [s]"
  by (induction s) auto

lemma split_on_append: "c \<notin> set p \<Longrightarrow> split_on c (p @ c # q) = p # split_on c q"
  by (induction p) auto

lemma split_on_single: "split_on c s = [p] \<longleftrightarrow> p = s \<and> c \<notin> set s"
proof (cases "c \<in> set s")
  case True
  then obtain a b where s: "s = a @ c # b" "c \<notin> set a"
    using split_list_first by metis
  then show ?thesis using True by (simp add: split_on_append)
next
  case False
  then show ?thesis by (auto simp: split_on_absent)
qed

lemma split_on_pair:
  "split_on c s = [p, q] \<longleftrightarrow> s = p @ c # q \<and> c \<notin> set p \<and> c \<notin> set q"
proof
  assume *: "split_on c s = [p, q]"
  have "c \<in> set s" using * split_on_absent [of c s] by auto
  then obtain a b where s: "s = a @ c # b" "c \<notin> set a"
    using split_list_first by metis
  then have "a = p" "split_on c b = [q]" using * by (simp_all add: split_on_append)
  then show "s = p @ c # q \<and> c \<notin> set p \<and> c \<notin> set q"
    using s by (simp add: split_on_single)
next
  assume "s = p @ c # q \<and> c \<notin> set p \<and> c \<notin> set q"
  then show "split_on c s = [p, q]" by (simp add: split_on_append split_on_absent)
qed

lemma rsplit_once_None: "rsplit_once c s = None \<longleftrightarrow> c \<notin> set s"
  by (induction s) (auto split: option.splits)

lemma rsplit_once_append: "c \<notin> set b \<Longrightarrow> rsplit_once c (a @ c # b) = Some (a, b)"
proof (induction a)
  case Nil
  then show ?case using rsplit_once_None [of c b] by (simp split: option.splits)
qed simp

lemma rsplit_once_Some:
  "rsplit_once c s = Some (a, b) \<longleftrightarrow> s = a @ c # b \<and> c \<notin> set b"
proof
  assume *: "rsplit_once c s = Some (a, b)"
  then have "c \<in> set s" using rsplit_once_None [of c s] by auto
  then obtain a' b' where s: "s = a' @ c # b'" "c \<notin> set b'"
    using split_list_last by metis
  then show "s = a @ c # b \<and> c \<notin> set b"
    using * rsplit_once_append [of c b' a'] by simp
next
  assume "s = a @ c # b \<and> c \<notin> set b"
  then show "rsplit_once c s = Some (a, b)" by (auto simp: rsplit_once_append)
qed

lemma split_once_None: "split_once c s = None \<longleftrightarrow> c \<notin> set s"
  by (induction s) (auto split: option.splits)

lemma split_once_append: "c \<notin> set a \<Longrightarrow> split_once c (a @ c # b) = Some (a, b)"
  by (induction a) auto

lemma split_once_Some:
  "split_once c s = Some (a, b) \<longleftrightarrow> s = a @ c # b \<and> c \<notin> set a"
proof
  assume *: "split_once c s = Some (a, b)"
  then have "c \<in> set s" using split_once_None [of c s] by auto
  then obtain a' b' where s: "s = a' @ c # b'" "c \<notin> set a'"
    using split_list_first by metis
  then show "s = a @ c # b \<and> c \<notin> set a"
    using * split_once_append [of c a' b'] by simp
next
  assume "s = a @ c # b \<and> c \<notin> set a"
  then show "split_once c s = Some (a, b)" by (auto simp: split_once_append)
qed

section \<open>Bytes and text\<close>

definition as_bytes :: "string \<Rightarrow> bytes" where
  "as_bytes s = map (\<lambda>c. word_of_nat (of_char c)) s"

definition bytes_to_text :: "bytes \<Rightarrow> string" where
  "bytes_to_text bs = map (\<lambda>b. char_of (unat b)) bs"

lemma unat_of_char [simp]: "unat (word_of_nat (of_char c) :: byte) = (of_char c :: nat)"
proof -
  have "unat (word_of_nat (of_char c) :: byte) = of_char c mod 2 ^ LENGTH(8)"
    by (rule unat_of_nat)
  also have "2 ^ LENGTH(8) = (256::nat)" by simp
  also have "of_char c mod (256::nat) = of_char c"
    by (rule mod_less) (rule nat_of_char_less_256)
  finally show ?thesis .
qed

lemma bytes_to_text_as_bytes [simp]: "bytes_to_text (as_bytes s) = s"
  by (induction s) (simp_all only: bytes_to_text_def as_bytes_def list.map unat_of_char char_of_char)

lemma as_bytes_inject [simp]: "as_bytes s = as_bytes t \<longleftrightarrow> s = t"
  by (metis bytes_to_text_as_bytes)

lemma length_as_bytes [simp]: "length (as_bytes s) = length s"
  by (simp add: as_bytes_def)

lemma as_bytes_append [simp]: "as_bytes (s @ t) = as_bytes s @ as_bytes t"
  by (simp add: as_bytes_def)

lemma as_bytes_eq_Nil [simp]: "as_bytes s = [] \<longleftrightarrow> s = []"
  by (simp add: as_bytes_def)

text \<open>UTF-8 validity, as \<^verbatim>\<open>std::str::from_utf8\<close> checks it: the well-formed byte sequences of
  the Unicode standard (no overlong forms, no surrogates, nothing above U+10FFFF).\<close>

definition utf8_cont :: "byte \<Rightarrow> bool" where
  "utf8_cont b \<longleftrightarrow> 0x80 \<le> b \<and> b \<le> 0xBF"

definition utf8_width :: "byte \<Rightarrow> nat" where
  "utf8_width a =
     (if a < 0x80 then 1
      else if 0xC2 \<le> a \<and> a \<le> 0xDF then 2
      else if 0xE0 \<le> a \<and> a \<le> 0xEF then 3
      else if 0xF0 \<le> a \<and> a \<le> 0xF4 then 4
      else 0)"

definition utf8_second :: "byte \<Rightarrow> byte \<Rightarrow> bool" where
  "utf8_second a b \<longleftrightarrow> utf8_cont b
     \<and> (a = 0xE0 \<longrightarrow> 0xA0 \<le> b) \<and> (a = 0xED \<longrightarrow> b \<le> 0x9F)
     \<and> (a = 0xF0 \<longrightarrow> 0x90 \<le> b) \<and> (a = 0xF4 \<longrightarrow> b \<le> 0x8F)"

fun utf8_valid :: "bytes \<Rightarrow> bool" where
  "utf8_valid [] = True"
| "utf8_valid (a # bs) =
     (if utf8_width a = 1 then utf8_valid bs
      else if utf8_width a = 2 then
        (case bs of b # r \<Rightarrow> utf8_second a b \<and> utf8_valid r | _ \<Rightarrow> False)
      else if utf8_width a = 3 then
        (case bs of b # c # r \<Rightarrow> utf8_second a b \<and> utf8_cont c \<and> utf8_valid r | _ \<Rightarrow> False)
      else if utf8_width a = 4 then
        (case bs of b # c # d # r \<Rightarrow>
            utf8_second a b \<and> utf8_cont c \<and> utf8_cont d \<and> utf8_valid r
          | _ \<Rightarrow> False)
      else False)"

lemma utf8_valid_append: "utf8_valid xs \<Longrightarrow> utf8_valid ys \<Longrightarrow> utf8_valid (xs @ ys)"
proof (induction xs rule: utf8_valid.induct)
  case 1
  then show ?case by simp
next
  case (2 a bs)
  show ?case
    using "2.prems" "2.IH" by (auto split: if_splits list.splits)
qed

lemma utf8_valid_ascii: "(\<And>b. b \<in> set bs \<Longrightarrow> b < 0x80) \<Longrightarrow> utf8_valid bs"
  by (induction bs) (auto simp: utf8_width_def)

definition from_utf8 :: "bytes \<Rightarrow> string option" where
  "from_utf8 bs = (if utf8_valid bs then Some (bytes_to_text bs) else None)"

lemma from_utf8_as_bytes [simp]: "utf8_valid (as_bytes s) \<Longrightarrow> from_utf8 (as_bytes s) = Some s"
  by (simp add: from_utf8_def)

text \<open>\<^verbatim>\<open>str::chars()\<close>: the code points of a valid UTF-8 text (continuation bytes carry six bits).\<close>

fun utf8_chars :: "bytes \<Rightarrow> nat list" where
  "utf8_chars [] = []"
| "utf8_chars (a # bs) =
     (if utf8_width a = 2 then
        (case bs of b # r \<Rightarrow> ((unat a - 192) * 64 + (unat b - 128)) # utf8_chars r | _ \<Rightarrow> [])
      else if utf8_width a = 3 then
        (case bs of b # c # r \<Rightarrow>
            ((unat a - 224) * 4096 + (unat b - 128) * 64 + (unat c - 128)) # utf8_chars r
          | _ \<Rightarrow> [])
      else if utf8_width a = 4 then
        (case bs of b # c # d # r \<Rightarrow>
            ((unat a - 240) * 262144 + (unat b - 128) * 4096 + (unat c - 128) * 64 + (unat d - 128))
              # utf8_chars r
          | _ \<Rightarrow> [])
      else unat a # utf8_chars bs)"

lemma utf8_chars_ascii: "(\<And>b. b \<in> set bs \<Longrightarrow> b < 0x80) \<Longrightarrow> utf8_chars bs = map unat bs"
  by (induction bs) (auto simp: utf8_width_def)

section \<open>Decimal numbers\<close>

definition digit_char :: "nat \<Rightarrow> char" where
  "digit_char d = char_of (48 + d)"

definition digit_value :: "char \<Rightarrow> nat option" where
  "digit_value c = (let n = (of_char c :: nat) in if 48 \<le> n \<and> n \<le> 57 then Some (n - 48) else None)"

fun show_nat :: "nat \<Rightarrow> string" where
  "show_nat n = (if n < 10 then [digit_char n] else show_nat (n div 10) @ [digit_char (n mod 10)])"

declare show_nat.simps [simp del]

definition show_int :: "int \<Rightarrow> string" where
  "show_int i = (if i < 0 then CHR ''-'' # show_nat (nat (- i)) else show_nat (nat i))"

fun parse_digits :: "nat \<Rightarrow> string \<Rightarrow> nat option" where
  "parse_digits acc [] = Some acc"
| "parse_digits acc (c # cs) =
     (case digit_value c of None \<Rightarrow> None | Some d \<Rightarrow> parse_digits (10 * acc + d) cs)"

definition parse_nat :: "string \<Rightarrow> nat option" where
  "parse_nat s = (if s = [] then None else parse_digits 0 s)"

text \<open>\<^verbatim>\<open>str::parse::<i64>()\<close>: an optional sign, at least one digit, and the range of the type.\<close>

definition parse_i64 :: "string \<Rightarrow> int option" where
  "parse_i64 s =
     (let v = (case s of
                 [] \<Rightarrow> None
               | c # r \<Rightarrow>
                   if c = CHR ''-'' then map_option (\<lambda>n. - int n) (parse_nat r)
                   else if c = CHR ''+'' then map_option int (parse_nat r)
                   else map_option int (parse_nat s))
      in case v of None \<Rightarrow> None
         | Some i \<Rightarrow> if - (2 ^ 63) \<le> i \<and> i < 2 ^ 63 then Some i else None)"

lemma digit_value_digit_char [simp]: "d < 10 \<Longrightarrow> digit_value (digit_char d) = Some d"
  by (simp add: digit_value_def digit_char_def Let_def)

lemma digit_char_neq [simp]:
  assumes "d < 10"
  shows "digit_char d \<noteq> CHR ''-''" "digit_char d \<noteq> CHR ''+''" "digit_char d \<noteq> CHR ''|''"
proof -
  have "d \<in> {0,1,2,3,4,5,6,7,8,9}" using assms by auto
  then show "digit_char d \<noteq> CHR ''-''" "digit_char d \<noteq> CHR ''+''" "digit_char d \<noteq> CHR ''|''"
    by (auto simp: digit_char_def char_of_def)
qed

lemma show_nat_nonempty [simp]: "show_nat n \<noteq> []"
  by (subst show_nat.simps) simp

lemma show_nat_digits: "c \<in> set (show_nat n) \<Longrightarrow> \<exists>d < 10. c = digit_char d"
proof (induction n rule: show_nat.induct)
  case (1 n)
  show ?case
  proof (cases "n < 10")
    case True
    with "1.prems" show ?thesis by (subst (asm) show_nat.simps) auto
  next
    case False
    with "1.prems" have "c \<in> set (show_nat (n div 10)) \<or> c = digit_char (n mod 10)"
      by (subst (asm) show_nat.simps) auto
    then show ?thesis
    proof
      assume "c = digit_char (n mod 10)"
      then show ?thesis by (intro exI [of _ "n mod 10"]) simp
    qed (use "1.IH" False in blast)
  qed
qed

lemma parse_digits_append:
  "parse_digits acc (s @ t) =
     (case parse_digits acc s of None \<Rightarrow> None | Some a \<Rightarrow> parse_digits a t)"
  by (induction s arbitrary: acc) (auto split: option.splits)

lemma parse_digits_show_nat: "parse_digits 0 (show_nat n) = Some n"
proof (induction n rule: show_nat.induct)
  case (1 n)
  show ?case
  proof (cases "n < 10")
    case True
    then show ?thesis by (subst show_nat.simps) simp
  next
    case False
    then show ?thesis
      using "1.IH" by (subst show_nat.simps) (simp add: parse_digits_append)
  qed
qed

lemma parse_nat_show_nat [simp]: "parse_nat (show_nat n) = Some n"
  by (simp add: parse_nat_def parse_digits_show_nat)

lemma show_int_nonempty [simp]: "show_int i \<noteq> []"
  by (simp add: show_int_def)

lemma show_nat_no_bar: "CHR ''|'' \<notin> set (show_nat n)"
proof
  assume "CHR ''|'' \<in> set (show_nat n)"
  then obtain d where "d < 10" "CHR ''|'' = digit_char d" using show_nat_digits by blast
  then show False using digit_char_neq(3) [of d] by simp
qed

lemma show_int_no_bar: "CHR ''|'' \<notin> set (show_int i)"
  by (simp add: show_int_def show_nat_no_bar)

lemma parse_i64_show_int:
  assumes "- (2 ^ 63) \<le> i" and "i < 2 ^ 63"
  shows "parse_i64 (show_int i) = Some i"
proof (cases "i < 0")
  case True
  then show ?thesis using assms by (simp add: parse_i64_def show_int_def)
next
  case False
  obtain c r where cr: "show_nat (nat i) = c # r"
    by (cases "show_nat (nat i)") auto
  then obtain d where "d < 10" "c = digit_char d"
    using show_nat_digits [of c "nat i"] by auto
  then have "c \<noteq> CHR ''-''" "c \<noteq> CHR ''+''" by simp_all
  moreover have "parse_nat (c # r) = Some (nat i)"
    using parse_nat_show_nat [of "nat i"] by (simp add: cr)
  ultimately show ?thesis
    using False assms by (simp add: parse_i64_def show_int_def cr)
qed

definition ascii :: "char \<Rightarrow> bool" where
  "ascii c \<longleftrightarrow> (of_char c :: nat) < 128"

lemma ascii_digit: "d < 10 \<Longrightarrow> ascii (digit_char d)"
  by (simp add: ascii_def digit_char_def)

lemma utf8_valid_ascii_text:
  assumes "\<And>c. c \<in> set s \<Longrightarrow> ascii c"
  shows "utf8_valid (as_bytes s)"
proof (rule utf8_valid_ascii)
  fix b assume "b \<in> set (as_bytes s)"
  then obtain c where "c \<in> set s" "b = word_of_nat (of_char c)"
    by (auto simp: as_bytes_def)
  then show "b < 0x80"
    using assms [of c] by (simp add: ascii_def word_less_nat_alt unat_of_nat)
qed

lemma utf8_valid_show_int: "utf8_valid (as_bytes (show_int i))"
proof (rule utf8_valid_ascii_text)
  fix c assume "c \<in> set (show_int i)"
  then have "c = CHR ''-'' \<or> (\<exists>d < 10. c = digit_char d)"
    using show_nat_digits by (auto simp: show_int_def split: if_splits)
  moreover have "ascii (CHR ''-'')" by (simp add: ascii_def)
  ultimately show "ascii c" using ascii_digit by auto
qed

end
