(* ===== verification/Validation.thy ===== *)
theory Validation
  imports Text
begin

text \<open>
  \<^verbatim>\<open>px_core::validation\<close>: the checks registration and password reset share. Dates are the
  year, month and day the code reads from \<^verbatim>\<open>time::Date\<close>, whose years lie in
  -9999..9999, so the \<^verbatim>\<open>i32\<close> subtraction of \<open>age\<close> never overflows.
\<close>

section \<open>Email and password\<close>

definition valid_email :: "string \<Rightarrow> bool" where
  "valid_email s =
     (case split_on CHR ''@'' s of
        [l, d] \<Rightarrow>
          l \<noteq> [] \<and> CHR ''.'' \<in> set d \<and> \<not> prefix ''.'' d \<and> \<not> suffix ''.'' d
      | _ \<Rightarrow> False)"

definition valid_password :: "string \<Rightarrow> bool" where
  "valid_password s = (8 \<le> length s)"

lemma valid_email_shape:
  "valid_email s \<longleftrightarrow>
     (\<exists>l d. s = l @ CHR ''@'' # d \<and> CHR ''@'' \<notin> set l \<and> CHR ''@'' \<notin> set d
        \<and> l \<noteq> [] \<and> CHR ''.'' \<in> set d \<and> \<not> prefix ''.'' d \<and> \<not> suffix ''.'' d)"
proof
  assume *: "valid_email s"
  then obtain l d where "split_on CHR ''@'' s = [l, d]"
    by (auto simp: valid_email_def split: list.splits)
  then show "\<exists>l d. s = l @ CHR ''@'' # d \<and> CHR ''@'' \<notin> set l \<and> CHR ''@'' \<notin> set d
        \<and> l \<noteq> [] \<and> CHR ''.'' \<in> set d \<and> \<not> prefix ''.'' d \<and> \<not> suffix ''.'' d"
    using * split_on_pair [of "CHR ''@''" s l d] by (auto simp: valid_email_def)
next
  assume "\<exists>l d. s = l @ CHR ''@'' # d \<and> CHR ''@'' \<notin> set l \<and> CHR ''@'' \<notin> set d
        \<and> l \<noteq> [] \<and> CHR ''.'' \<in> set d \<and> \<not> prefix ''.'' d \<and> \<not> suffix ''.'' d"
  then obtain l d where s: "split_on CHR ''@'' s = [l, d]"
      and "l \<noteq> []" "CHR ''.'' \<in> set d" "\<not> prefix ''.'' d" "\<not> suffix ''.'' d"
    by (metis split_on_pair)
  then show "valid_email s" by (simp add: valid_email_def)
qed

lemma valid_email_contains_at: "valid_email s \<Longrightarrow> CHR ''@'' \<in> set s"
  by (auto simp: valid_email_shape)

section \<open>Age gate\<close>

record date =
  year :: int
  month :: nat
  day :: nat

definition month_day_before :: "date \<Rightarrow> date \<Rightarrow> bool" where
  "month_day_before a b \<longleftrightarrow> month a < month b \<or> (month a = month b \<and> day a < day b)"

definition age :: "date \<Rightarrow> date \<Rightarrow> int" where
  "age dob today =
     (let years = year today - year dob
      in if month_day_before today dob then years - 1 else years)"

definition is_adult :: "date \<Rightarrow> date \<Rightarrow> bool" where
  "is_adult dob today \<longleftrightarrow> 18 \<le> age dob today"

text \<open>The calendar order, as \<^verbatim>\<open>time::Date\<close> has it, and the \<open>n\<close>-th birthday as a calendar day.\<close>

instantiation date_ext :: (linorder) linorder
begin

definition less_eq_date_ext :: "'a date_ext \<Rightarrow> 'a date_ext \<Rightarrow> bool" where
  "less_eq_date_ext a b \<longleftrightarrow>
     year a < year b \<or> year a = year b \<and> (month a < month b \<or> month a = month b \<and>
       (day a < day b \<or> day a = day b \<and> date.more a \<le> date.more b))"

definition less_date_ext :: "'a date_ext \<Rightarrow> 'a date_ext \<Rightarrow> bool" where
  "less_date_ext a b \<longleftrightarrow> \<not> b \<le> a"

instance
  by standard (auto simp: less_eq_date_ext_def less_date_ext_def intro: date.equality)

end

lemma date_order: "a \<le> (b :: date) \<longleftrightarrow> year a < year b \<or> year a = year b \<and> \<not> month_day_before b a"
  by (auto simp: less_eq_date_ext_def month_day_before_def)

definition birthday :: "date \<Rightarrow> int \<Rightarrow> date" where
  "birthday dob n = dob\<lparr>year := year dob + n\<rparr>"

lemma birthday_reached: "birthday dob n \<le> today \<longleftrightarrow> n \<le> age dob today"
  by (auto simp: date_order birthday_def age_def month_day_before_def Let_def)

lemma birthday_mono: "m \<le> n \<Longrightarrow> birthday dob n \<le> today \<Longrightarrow> birthday dob m \<le> today"
  by (simp add: birthday_reached)

text \<open>The age computed by \<^verbatim>\<open>validation::age\<close> is the number of birthdays reached: it is
  \<open>n\<close> exactly when \<open>today\<close> is on or after the \<open>n\<close>-th birthday and before the next one; and
  the registration gate \<open>is_adult\<close> opens exactly on the eighteenth birthday.\<close>

theorem age_counts_birthdays:
  "(age dob today = n \<longleftrightarrow> birthday dob n \<le> today \<and> today < birthday dob (n + 1))
   \<and> (is_adult dob today \<longleftrightarrow> birthday dob 18 \<le> today)"
  by (auto simp: birthday_reached is_adult_def not_le [symmetric])

end
