(* ===== verification/Totp.thy ===== *)
theory Totp
  imports Text
begin

text \<open>
  \<^verbatim>\<open>auth_admin::totp\<close>: the base32 codec written by hand for TOTP secrets, on the code's
  \<^verbatim>\<open>u64\<close> buffer, and the envelope around AES-256-GCM. The cipher and the TOTP generator are
  crates: they are parameters. The encoder never masks its buffer, so after eight bytes old
  bits are shifted out of the 64-bit word; the round trip is proved through codecs on
  unbounded numbers that keep only the pending bits.
\<close>

unbundle bit_operations_syntax

datatype auth_error =
    PasswordHash string
  | TotpFormat string
  | TotpDecrypt
  | JwtInvalid string
  | MfaTokenInvalid string
  | KekMissing
  | KekMalformed string
  | RecoveryFormat

section \<open>The code's base32\<close>

definition B32_ALPHABET :: string where
  "B32_ALPHABET = ''ABCDEFGHIJKLMNOPQRSTUVWXYZ234567''"

text \<open>The inner \<^verbatim>\<open>while bits >= 5\<close>: the symbols written and the bits left.\<close>

fun b32_drain :: "u64 \<Rightarrow> nat \<Rightarrow> string \<times> nat" where
  "b32_drain buffer bits =
     (if 5 \<le> bits then
        (let bits' = bits - 5;
             idx = unat (drop_bit bits' buffer AND 0x1f);
             (out, rest) = b32_drain buffer bits'
         in (B32_ALPHABET ! idx # out, rest))
      else ([], bits))"

fun b32_encode_go :: "u64 \<Rightarrow> nat \<Rightarrow> bytes \<Rightarrow> string" where
  "b32_encode_go buffer bits [] =
     (if 0 < bits then [B32_ALPHABET ! unat (push_bit (5 - bits) buffer AND 0x1f)] else [])"
| "b32_encode_go buffer bits (b # bs) =
     (let buffer' = push_bit 8 buffer OR ucast b;
          (out, rest) = b32_drain buffer' (bits + 8)
      in out @ b32_encode_go buffer' rest bs)"

definition raw_to_b32 :: "bytes \<Rightarrow> string" where
  "raw_to_b32 raw = (if raw = [] then [] else b32_encode_go 0 0 raw)"

text \<open>The 256-entry table of \<^verbatim>\<open>decode_base32\<close>, \<^verbatim>\<open>0xff\<close> where the character is not in the
  alphabet.\<close>

definition b32_lookup :: "char \<Rightarrow> byte" where
  "b32_lookup = fold (\<lambda>(i, c) t. t(c := word_of_nat i)) (enumerate 0 B32_ALPHABET) (\<lambda>_. 0xff)"

fun b32_decode_go :: "u64 \<Rightarrow> nat \<Rightarrow> string \<Rightarrow> bytes" where
  "b32_decode_go buffer bits [] = []"
| "b32_decode_go buffer bits (c # cs) =
     (let v = ucast (b32_lookup c);
          buffer' = push_bit 5 buffer OR v;
          bits' = bits + 5
      in if 8 \<le> bits' then
           ucast (drop_bit (bits' - 8) buffer')
             # b32_decode_go (buffer' AND (push_bit (bits' - 8) 1 - 1)) (bits' - 8) cs
         else b32_decode_go buffer' bits' cs)"

text \<open>\<^verbatim>\<open>{:?}\<close> of a \<^verbatim>\<open>char\<close>: between single quotes (escapes are not modelled).\<close>

definition debug_char :: "char \<Rightarrow> string" where
  "debug_char c = [char_of (39 :: nat), c, char_of (39 :: nat)]"

definition decode_base32 :: "string \<Rightarrow> auth_error + bytes" where
  "decode_base32 s =
     (if s = [] then Inl (TotpFormat ''secret vacio'')
      else case List.find (\<lambda>c. b32_lookup c = 0xff) s of
             Some c \<Rightarrow> Inl (TotpFormat (''caracter invalido en base32: '' @ debug_char c))
           | None \<Rightarrow> Inr (b32_decode_go 0 0 s))"

section \<open>Reference codecs on numbers\<close>

text \<open>\<open>p < 2^k\<close> are the \<open>k\<close> bits not yet written.\<close>

fun enc5 :: "nat \<Rightarrow> nat \<Rightarrow> nat list \<Rightarrow> nat list" where
  "enc5 p k [] = (if 0 < k then [p * 2 ^ (5 - k) mod 32] else [])"
| "enc5 p k (y # ys) =
     (let v = p * 256 + y; t = k + 8
      in if 10 \<le> t
         then v div 2 ^ (t - 5) mod 32 # v div 2 ^ (t - 10) mod 32
                # enc5 (v mod 2 ^ (t - 10)) (t - 10) ys
         else v div 2 ^ (t - 5) mod 32 # enc5 (v mod 2 ^ (t - 5)) (t - 5) ys)"

fun dec5 :: "nat \<Rightarrow> nat \<Rightarrow> nat list \<Rightarrow> nat list" where
  "dec5 d j [] = []"
| "dec5 d j (c # cs) =
     (let v = d * 32 + c; t = j + 5
      in if 8 \<le> t then v div 2 ^ (t - 8) # dec5 (v mod 2 ^ (t - 8)) (t - 8) cs
         else dec5 v t cs)"

lemma enc5_bound: "k \<le> 4 \<Longrightarrow> p < 2 ^ k \<Longrightarrow> \<forall>c \<in> set (enc5 p k ys). c < 32"
proof (induction ys arbitrary: p k)
  case (Cons y ys)
  have "m \<le> 4 \<Longrightarrow> \<forall>c \<in> set (enc5 ((p * 256 + y) mod 2 ^ m) m ys). c < 32" for m
    by (intro Cons.IH) simp_all
  from this [of "k - 2"] this [of "3 + k"] show ?case
    using Cons.prems by (cases "2 \<le> k") (simp_all add: Let_def)
qed auto

lemma nat_le_4_cases: "k \<le> (4::nat) \<Longrightarrow> k = 0 \<or> k = 1 \<or> k = 2 \<or> k = 3 \<or> k = 4"
  by auto

lemma high_div: "0 < (m::nat) \<Longrightarrow> (a * m + z) div m = a + z div m"
  by simp

lemma high_mod: "(a * m + z) mod (m::nat) = z mod m"
  by simp

lemma dec5_enc5:
  assumes "k \<le> 4" "p < 2 ^ k" "d < 2 ^ (8 - k)" "k = 0 \<longrightarrow> d = 0" "\<forall>y \<in> set ys. y < 256"
  shows "dec5 d (if k = 0 then 0 else 8 - k) (enc5 p k ys) =
           (if k = 0 then [] else [d * 2 ^ k + p]) @ ys"
  using assms
proof (induction ys arbitrary: d k p)
  case Nil
  then show ?case
    using nat_le_4_cases [OF Nil.prems(1)] by (elim disjE) (simp_all add: Let_def)
next
  case (Cons y ys)
  have y: "y < 256" and ys: "\<forall>y \<in> set ys. y < 256" using Cons.prems by auto
  consider "k = 0" | "k = 1" | "k = 2" | "k = 3" | "k = 4"
    using nat_le_4_cases [OF Cons.prems(1)] by blast
  then show ?case
  proof cases
    case 1
    then show ?thesis
      using Cons.prems Cons.IH [of 3 "y mod 8" "y div 8"] ys y by (simp add: Let_def)
  next
    case 2
    define z where "z = y div 16"
    have z: "z < 16" "z * 16 + y mod 16 = y" using y by (simp_all add: z_def)
    have v: "(p * 256 + y) div 16 = p * 16 + z" "(p * 256 + y) mod 16 = y mod 16"
      using high_div [of 16 "p * 16" y] high_mod [of "p * 16" 16 y] by (simp_all add: z_def algebra_simps)
    have w: "(d * 32 + (p * 16 + z)) div 16 = d * 2 + p" "(d * 32 + (p * 16 + z)) mod 16 = z"
      using high_div [of 16 "d * 2 + p" z] high_mod [of "d * 2 + p" 16 z] z(1)
      by (simp_all add: algebra_simps)
    show ?thesis
      using 2 Cons.prems Cons.IH [of 4 "y mod 16" z] ys y z
      by (simp add: Let_def v w)
  next
    case 3
    define z where "z = y div 32"
    have z: "z < 8" "z * 32 + y mod 32 = y" using y by (simp_all add: z_def)
    have v: "(p * 256 + y) div 32 = p * 8 + z" "(p * 256 + y) mod 32 = y mod 32"
      using high_div [of 32 "p * 8" y] high_mod [of "p * 8" 32 y] by (simp_all add: z_def algebra_simps)
    have w: "(d * 32 + (p * 8 + z)) div 8 = d * 4 + p" "(d * 32 + (p * 8 + z)) mod 8 = z"
      using high_div [of 8 "d * 4 + p" z] high_mod [of "d * 4 + p" 8 z] z(1)
      by (simp_all add: algebra_simps)
    show ?thesis
      using 3 Cons.prems Cons.IH [of 0 0 0] ys y z
      by (simp add: Let_def v w)
  next
    case 4
    define r where "r = y mod 64 div 2"
    define z where "z = y div 64"
    have z: "z < 4" "z * 64 + y mod 64 = y" using y by (simp_all add: z_def)
    have r: "r < 32" "z * 32 + r = y div 2"
      using high_div [of 2 "z * 32" "y mod 64"] z(2) by (simp_all add: r_def algebra_simps)
    have d2: "(p * 256 + y) div 2 = (p * 4 + z) * 32 + r"
      using high_div [of 2 "(p * 4 + z) * 32" "y mod 64"] z(2) by (simp add: r_def algebra_simps)
    have v: "(p * 256 + y) div 64 = p * 4 + z" "(p * 256 + y) div 2 mod 32 = r"
        "(p * 256 + y) mod 2 = y mod 2"
      using high_div [of 64 "p * 4" y] high_mod [of "p * 4 + z" 32 r] r(1) d2
        high_mod [of "p * 128" 2 y] by (simp_all add: z_def algebra_simps)
    have w: "(d * 32 + (p * 4 + z)) div 4 = d * 8 + p" "(d * 32 + (p * 4 + z)) mod 4 = z"
      using high_div [of 4 "d * 8 + p" z] high_mod [of "d * 8 + p" 4 z] z(1)
      by (simp_all add: algebra_simps)
    show ?thesis
      using 4 Cons.prems Cons.IH [of 1 "y mod 2" "y div 2"] ys y z(1) r
      by (simp add: Let_def v w)
  next
    case 5
    define r where "r = y mod 128 div 4"
    define z where "z = y div 128"
    have z: "z < 2" "z * 128 + y mod 128 = y" using y by (simp_all add: z_def)
    have r: "r < 32" "z * 32 + r = y div 4"
      using high_div [of 4 "z * 32" "y mod 128"] z(2) by (simp_all add: r_def algebra_simps)
    have d2: "(p * 256 + y) div 4 = (p * 2 + z) * 32 + r"
      using high_div [of 4 "(p * 2 + z) * 32" "y mod 128"] z(2) by (simp add: r_def algebra_simps)
    have v: "(p * 256 + y) div 128 = p * 2 + z" "(p * 256 + y) div 4 mod 32 = r"
        "(p * 256 + y) mod 4 = y mod 4"
      using high_div [of 128 "p * 2" y] high_mod [of "p * 2 + z" 32 r] r(1) d2
        high_mod [of "p * 64" 4 y] by (simp_all add: z_def algebra_simps)
    have w: "(d * 32 + (p * 2 + z)) div 2 = d * 16 + p" "(d * 32 + (p * 2 + z)) mod 2 = z"
      using high_div [of 2 "d * 16 + p" z] high_mod [of "d * 16 + p" 2 z] z(1)
      by (simp_all add: algebra_simps)
    show ?thesis
      using 5 Cons.prems Cons.IH [of 2 "y mod 4" "y div 4"] ys y z(1) r
      by (simp add: Let_def v w)
  qed
qed

section \<open>From words to numbers\<close>

lemma unat_byte: "unat (b :: byte) < 256"
  using unsigned_less [of b] by simp

lemma unat_u64: "unat (w :: u64) < 2 ^ 64"
  using unsigned_less [of w] by simp

lemma nat_push_or: "y < 2 ^ n \<Longrightarrow> push_bit n x OR y = x * 2 ^ n + (y::nat)"
proof -
  assume y: "y < 2 ^ n"
  have "\<not> bit (push_bit n x) m \<or> \<not> bit y m" for m
  proof (cases "n \<le> m")
    case True
    have "y < 2 ^ m" using y True by (meson less_le_trans one_le_numeral power_increasing)
    then show ?thesis by (simp add: bit_iff_odd)
  next
    case False
    then show ?thesis by (simp add: bit_push_bit_iff)
  qed
  then have "push_bit n x + y = push_bit n x OR y"
    by (rule disjunctive_add)
  then show ?thesis by (simp add: push_bit_eq_mult)
qed

lemma unat_low5: "unat (w AND 0x1f :: u64) = unat w mod 32"
proof -
  have "(0x1f :: u64) = mask 5" by (simp add: mask_eq_exp_minus_1)
  then have "w AND 0x1f = take_bit 5 w" by (simp only: take_bit_eq_mask)
  moreover have "unat (take_bit 5 w) = take_bit 5 (unat w)" by (rule unsigned_take_bit_eq)
  moreover have "take_bit 5 (unat w) = unat w mod 32" by (simp add: take_bit_eq_mod)
  ultimately show ?thesis by simp
qed

lemma unat_symbol: "unat (drop_bit t w AND 0x1f :: u64) = unat w div 2 ^ t mod 32"
  unfolding unat_low5 unat_drop_bit_eq by (simp add: drop_bit_eq_div)

lemma unat_push_or:
  assumes "T \<le> 64" "unat y < 2 ^ n"
  shows "unat (push_bit n w OR y :: u64) mod 2 ^ T = (unat w * 2 ^ n + unat y) mod 2 ^ T"
proof -
  have "unat (push_bit n w OR y) = take_bit 64 (push_bit n (unat w)) OR unat y"
    by (simp add: unsigned_or_eq unsigned_push_bit_eq)
  also have "unat y = take_bit 64 (unat y)"
    using unat_u64 [of y] by (simp add: take_bit_nat_eq_self del: unsigned_less)
  also have "take_bit 64 (push_bit n (unat w)) OR take_bit 64 (unat y)
      = take_bit 64 (push_bit n (unat w) OR unat y)" by simp
  also have "push_bit n (unat w) OR unat y = unat w * 2 ^ n + unat y"
    using assms(2) by (rule nat_push_or)
  finally have "take_bit T (unat (push_bit n w OR y)) = take_bit T (unat w * 2 ^ n + unat y)"
    using assms(1) by (simp add: min_def)
  then show ?thesis by (simp add: take_bit_eq_mod)
qed

lemma low_symbol:
  assumes "t + 5 \<le> T"
  shows "x div 2 ^ t mod 32 = (x mod 2 ^ T) div 2 ^ t mod (32::nat)"
proof -
  have "take_bit 5 (drop_bit t (take_bit T x)) = take_bit 5 (drop_bit t x)"
    using assms by (simp add: drop_bit_take_bit)
  then show ?thesis by (simp add: take_bit_eq_mod drop_bit_eq_div)
qed

lemma mod_pow_mod: "t \<le> T \<Longrightarrow> x mod 2 ^ T mod 2 ^ t = x mod (2::nat) ^ t"
  by (simp add: mod_mod_cancel le_imp_power_dvd)

lemma b32_drain_8:
  assumes "bits \<le> 4"
  shows "b32_drain w (bits + 8) =
    (if 2 \<le> bits
     then ([B32_ALPHABET ! (unat w div 2 ^ (bits + 3) mod 32),
            B32_ALPHABET ! (unat w div 2 ^ (bits - 2) mod 32)], bits - 2)
     else ([B32_ALPHABET ! (unat w div 2 ^ (bits + 3) mod 32)], bits + 3))"
  using nat_le_4_cases [OF assms]
  by (elim disjE) (simp_all add: unat_symbol)

lemma b32_encode_go_enc5:
  "bits \<le> 4 \<Longrightarrow> b32_encode_go w bits bs =
     map (\<lambda>i. B32_ALPHABET ! i) (enc5 (unat w mod 2 ^ bits) bits (map unat bs))"
proof (induction bs arbitrary: w bits)
  case Nil
  have "push_bit (5 - bits) (take_bit bits (unat w)) = take_bit 5 (push_bit (5 - bits) (unat w))"
    using Nil by (simp add: push_bit_take_bit)
  then have "unat w mod 2 ^ bits * 2 ^ (5 - bits) mod 32 = unat w * 2 ^ (5 - bits) mod 32"
    by (simp add: take_bit_eq_mod push_bit_eq_mult)
  moreover have "unat (push_bit (5 - bits) w AND 0x1f) = unat w * 2 ^ (5 - bits) mod 32"
  proof -
    have "unat (push_bit (5 - bits) w) = take_bit 64 (push_bit (5 - bits) (unat w))"
      by (simp add: unsigned_push_bit_eq)
    moreover have "take_bit 5 (take_bit 64 (push_bit (5 - bits) (unat w)))
        = take_bit 5 (push_bit (5 - bits) (unat w))" by simp
    ultimately have "take_bit 5 (unat (push_bit (5 - bits) w)) = take_bit 5 (push_bit (5 - bits) (unat w))"
      by simp
    then show ?thesis
      unfolding unat_low5 by (simp only: take_bit_eq_mod push_bit_eq_mult) simp
  qed
  ultimately show ?case by simp
next
  case (Cons b bs)
  define w' where "w' = push_bit 8 w OR ucast b"
  define v where "v = unat w mod 2 ^ bits * 256 + unat b"
  have b: "unat (ucast b :: u64) = unat b"
    using unat_byte [of b] by (simp add: unsigned_ucast_eq take_bit_nat_eq_self)
  have w': "unat w' mod 2 ^ (bits + 8) = v"
  proof -
    have "unat w' mod 2 ^ (bits + 8) = (unat w * 2 ^ 8 + unat b) mod 2 ^ (bits + 8)"
      using unat_push_or [of "bits + 8" "ucast b" 8 w] Cons.prems b unat_byte [of b]
      by (simp add: w'_def)
    also have "\<dots> = take_bit (bits + 8) (push_bit 8 (unat w) OR unat b)"
      using nat_push_or [of "unat b" 8 "unat w"] unat_byte [of b] by (simp add: take_bit_eq_mod)
    also have "\<dots> = push_bit 8 (take_bit bits (unat w)) OR unat b"
    proof -
      have "unat b < 2 ^ (bits + 8)" using unat_byte [of b] by (rule less_le_trans) (simp add: power_add)
      then show ?thesis by (simp add: take_bit_push_bit take_bit_nat_eq_self)
    qed
    also have "\<dots> = v"
      using nat_push_or [of "unat b" 8 "take_bit bits (unat w)"] unat_byte [of b]
      by (simp add: v_def take_bit_eq_mod)
    finally show ?thesis .
  qed
  have sym: "unat w' div 2 ^ t mod 32 = v div 2 ^ t mod 32" if "t \<le> bits + 3" for t
    using low_symbol [of t "bits + 8" "unat w'"] that w' by simp
  have rest: "unat w' mod 2 ^ t = v mod 2 ^ t" if "t \<le> bits + 8" for t
    using mod_pow_mod [OF that, of "unat w'"] w' by simp
  show ?case
    using Cons.prems Cons.IH [of "bits - 2" w'] Cons.IH [of "bits + 3" w']
      sym [of "bits + 3"] sym [of "bits - 2"] rest [of "bits - 2"] rest [of "bits + 3"]
    by (simp add: Let_def w'_def [symmetric] v_def [symmetric] b32_drain_8 add.commute [of 3 bits]
          del: b32_drain.simps)
qed

section \<open>The decoder\<close>

lemma b32_lookup_alphabet: "i < 32 \<Longrightarrow> b32_lookup (B32_ALPHABET ! i) = word_of_nat i"
proof -
  have "\<forall>i \<in> set [0..<32]. b32_lookup (B32_ALPHABET ! i) = word_of_nat i"
    by code_simp
  then show "i < 32 \<Longrightarrow> ?thesis" by simp
qed

lemma unat_b32_lookup: "i < 32 \<Longrightarrow> unat (b32_lookup (B32_ALPHABET ! i)) = i"
  by (simp add: b32_lookup_alphabet unat_of_nat)

lemma ucast_small: "unat (x :: u64) < 256 \<Longrightarrow> unat (ucast x :: byte) = unat x"
  by (simp add: unsigned_ucast_eq take_bit_nat_eq_self)

lemma b32_decode_go_dec5:
  assumes "bits \<le> 7" "unat w < 2 ^ bits" "\<forall>i \<in> set is. i < 32"
  shows "map unat (b32_decode_go w bits (map (\<lambda>i. B32_ALPHABET ! i) is)) = dec5 (unat w) bits is"
  using assms
proof (induction "is" arbitrary: w bits)
  case Nil
  then show ?case by simp
next
  case (Cons i "is")
  define w' where "w' = push_bit 5 w OR ucast (b32_lookup (B32_ALPHABET ! i))"
  define v where "v = unat w * 32 + i"
  have i: "i < 32" and "is": "\<forall>i \<in> set is. i < 32" using Cons.prems by auto
  have c: "unat (ucast (b32_lookup (B32_ALPHABET ! i)) :: u64) = i"
    using unat_b32_lookup [OF i] i by (simp add: unsigned_ucast_eq take_bit_nat_eq_self)
  have bound: "v < 2 ^ (bits + 5)"
  proof -
    have "v < (unat w + 1) * 32" using i by (simp add: v_def)
    also have "\<dots> \<le> 2 ^ bits * 32" using Cons.prems(2) by (intro mult_le_mono1) simp
    finally show ?thesis by (simp add: power_add)
  qed
  also have "(2::nat) ^ (bits + 5) \<le> 2 ^ 12" using Cons.prems(1) by (intro power_increasing) auto
  finally have small: "v < 4096" by simp
  have w': "unat w' = v"
    using unat_push_or [of 64 "ucast (b32_lookup (B32_ALPHABET ! i))" 5 w] c i small unat_u64 [of w']
    by (simp add: w'_def v_def)
  show ?case
  proof (cases "3 \<le> bits")
    case True
    define n where "n = bits - 3"
    have n: "bits + 5 - 8 = n" "n \<le> 4" using True Cons.prems(1) by (auto simp: n_def)
    have out: "unat (ucast (drop_bit n w') :: byte) = v div 2 ^ n"
    proof -
      have "v < 2 ^ (8 + n)" using bound True by (simp add: n_def add.commute [of 5 bits])
      then have "v div 2 ^ n < 256" by (simp add: less_mult_imp_div_less power_add mult.commute)
      moreover have "unat (drop_bit n w') = v div 2 ^ n"
        unfolding unat_drop_bit_eq w' by (rule drop_bit_eq_div)
      ultimately show ?thesis using ucast_small [of "drop_bit n w'"] by simp
    qed
    have rest: "unat (w' AND (push_bit n 1 - 1)) = v mod 2 ^ n"
    proof -
      have "push_bit n 1 - 1 = (mask n :: u64)" by (simp add: mask_eq_exp_minus_1 push_bit_eq_mult)
      then have "w' AND (push_bit n 1 - 1) = take_bit n w'" by (simp only: take_bit_eq_mask)
      moreover have "unat (take_bit n w') = take_bit n (unat w')" by (rule unsigned_take_bit_eq)
      ultimately show ?thesis using w' by (simp only: take_bit_eq_mod)
    qed
    show ?thesis
      using Cons.IH [of n "w' AND (push_bit n 1 - 1)"] n "is" rest out True
      by (simp add: Let_def w'_def [symmetric] v_def [symmetric] del: drop_bit_or)
  next
    case False
    then show ?thesis
      using Cons.IH [of "bits + 5" w'] "is" w' bound
      by (simp add: Let_def w'_def [symmetric] v_def [symmetric])
  qed
qed

lemma decode_base32_symbols:
  assumes "is \<noteq> []" "\<forall>i \<in> set is. i < 32"
  shows "decode_base32 (map (\<lambda>i. B32_ALPHABET ! i) is) = Inr (b32_decode_go 0 0 (map (\<lambda>i. B32_ALPHABET ! i) is))"
proof -
  have "b32_lookup (B32_ALPHABET ! i) \<noteq> 0xff" if "i \<in> set is" for i
    using unat_b32_lookup [of i] assms(2) that by fastforce
  then have "List.find (\<lambda>c. b32_lookup c = 0xff) (map (\<lambda>i. B32_ALPHABET ! i) is) = None"
    by (auto simp: find_None_iff)
  then show ?thesis using assms(1) by (simp add: decode_base32_def)
qed

lemma decode_raw_to_b32: "bs \<noteq> [] \<Longrightarrow> decode_base32 (raw_to_b32 bs) = Inr bs"
proof -
  assume bs: "bs \<noteq> []"
  define xs where "xs = enc5 0 0 (map unat bs)"
  have enc: "raw_to_b32 bs = map (\<lambda>i. B32_ALPHABET ! i) xs"
    using bs b32_encode_go_enc5 [of 0 0 bs] by (simp add: raw_to_b32_def xs_def)
  have xs: "\<forall>i \<in> set xs. i < 32" using enc5_bound [of 0 0] by (simp add: xs_def)
  have "xs \<noteq> []" using bs by (cases bs) (auto simp: xs_def Let_def)
  moreover have "map unat (b32_decode_go 0 0 (map (\<lambda>i. B32_ALPHABET ! i) xs)) = map unat bs"
    using b32_decode_go_dec5 [of 0 0 xs] xs dec5_enc5 [of 0 0 0 "map unat bs"] unat_byte
    by (simp add: xs_def)
  then have "b32_decode_go 0 0 (map (\<lambda>i. B32_ALPHABET ! i) xs) = bs"
    by (rule map_injective) (rule inj_unsigned)
  ultimately show ?thesis using xs by (simp add: enc decode_base32_symbols)
qed


interpretation b32: codec raw_to_b32 decode_base32 "\<lambda>bs. bs \<noteq> []"
  by unfold_locales (rule decode_raw_to_b32)

lemma length_b32_decode_go:
  "bits \<le> 7 \<Longrightarrow> length (b32_decode_go w bits cs) = (bits + 5 * length cs) div 8"
proof (induction cs arbitrary: w bits)
  case Nil
  then show ?case by simp
next
  case (Cons c cs)
  show ?case
  proof (cases "3 \<le> bits")
    case True
    have "bits + 5 * length (c # cs) = (bits - 3 + 5 * length cs) + 8" using True by simp
    then have "(bits + 5 * length (c # cs)) div 8 = Suc ((bits - 3 + 5 * length cs) div 8)" by simp
    then show ?thesis using Cons.IH [of "bits - 3"] True Cons.prems by (simp add: Let_def)
  next
    case False
    then show ?thesis using Cons.IH [of "bits + 5"] by (simp add: Let_def add.assoc)
  qed
qed

lemma decode_base32_accepts:
  "(\<exists>bs. decode_base32 s = Inr bs) \<longleftrightarrow> s \<noteq> [] \<and> (\<forall>c \<in> set s. b32_lookup c \<noteq> 0xff)"
  by (auto simp: decode_base32_def find_None_iff split: option.splits dest!: find_SomeD)

lemma decode_base32_length: "decode_base32 s = Inr bs \<Longrightarrow> length bs = 5 * length s div 8"
  by (auto simp: decode_base32_def length_b32_decode_go split: if_splits option.splits)

text \<open>C40. The secret a staff member enrols is the secret that is checked: encoding any non-empty
  byte string with \<^verbatim>\<open>raw_to_b32\<close> and decoding it with \<^verbatim>\<open>decode_base32\<close> gives the bytes back,
  for every length above zero, although the encoder's 64-bit buffer overflows after eight bytes; and two
  non-empty secrets with the same encoding are equal. (The empty one encodes to the empty text, which \<^verbatim>\<open>decode_base32\<close>
  refuses.)\<close>

theorem b32_roundtrip:
  assumes "bs \<noteq> []"
  shows "decode_base32 (raw_to_b32 bs) = Inr bs
    \<and> (\<forall>cs. cs \<noteq> [] \<longrightarrow> raw_to_b32 cs = raw_to_b32 bs \<longrightarrow> cs = bs)"
  using assms b32.dec_enc b32.enc_inj by blast

theorem b32_roundtrip_witness:
  "raw_to_b32 [0xde, 0xad, 0xbe, 0xef, 0x01, 0x02, 0x03, 0x04, 0x05, 0xff] = ''32W353YBAIBQIBP7''
   \<and> decode_base32 ''32W353YBAIBQIBP7''
     = Inr [0xde, 0xad, 0xbe, 0xef, 0x01, 0x02, 0x03, 0x04, 0x05, 0xff]"
proof -
  have *: "raw_to_b32 [0xde, 0xad, 0xbe, 0xef, 0x01, 0x02, 0x03, 0x04, 0x05, 0xff]
      = ''32W353YBAIBQIBP7''" by code_simp
  have "decode_base32 (raw_to_b32 [0xde, 0xad, 0xbe, 0xef, 0x01, 0x02, 0x03, 0x04, 0x05, 0xff])
     = Inr [0xde, 0xad, 0xbe, 0xef, 0x01, 0x02, 0x03, 0x04, 0x05, 0xff]"
    by (rule b32_roundtrip [THEN conjunct1]) (rule list.distinct)
  then show ?thesis unfolding * by (intro conjI refl)
qed

text \<open>What \<^verbatim>\<open>decode_base32\<close> accepts: exactly the non-empty texts over the alphabet, of
  any length (a length that no byte string encodes to is not rejected, although the comment
  above the function says it is), and it returns five eighths of the characters, rounded down.\<close>

theorem decode_base32_domain:
  "((\<exists>bs. decode_base32 s = Inr bs) \<longleftrightarrow> s \<noteq> [] \<and> (\<forall>c \<in> set s. b32_lookup c \<noteq> 0xff))
   \<and> (\<forall>bs. decode_base32 s = Inr bs \<longrightarrow> length bs = 5 * length s div 8)"
  using decode_base32_accepts decode_base32_length by blast

theorem decode_base32_domain_witness:
  "decode_base32 ''A'' = Inr [] \<and> (\<exists>bs. decode_base32 ''A'' = Inr bs)"
proof -
  have "decode_base32 ''A'' = Inr []" by code_simp
  then show ?thesis using decode_base32_domain [of "''A''"] by simp
qed

section \<open>The TOTP check\<close>

text \<open>\<^verbatim>\<open>totp_rs\<close> is a parameter: \<open>t_new digits skew step secret\<close> is \<^verbatim>\<open>TOTP::new\<close> with SHA-1,
  \<open>t_check\<close> is \<^verbatim>\<open>check_current\<close>, \<open>t_generate\<close> is \<^verbatim>\<open>generate_current\<close>, at the current time.\<close>

record 't totp_lib =
  t_new :: "nat \<Rightarrow> nat \<Rightarrow> nat \<Rightarrow> bytes \<Rightarrow> string + 't"
  t_check :: "'t \<Rightarrow> string \<Rightarrow> string + bool"
  t_generate :: "'t \<Rightarrow> string + string"

definition STEP_SECS :: nat where
  "STEP_SECS = 30"

definition build_totp :: "'t totp_lib \<Rightarrow> string \<Rightarrow> auth_error + 't" where
  "build_totp T secret_b32 =
     (case decode_base32 secret_b32 of
        Inl e \<Rightarrow> Inl e
      | Inr secret_bytes \<Rightarrow>
          (case t_new T 6 1 STEP_SECS secret_bytes of
             Inl e \<Rightarrow> Inl (TotpFormat (''TOTP::new: '' @ e))
           | Inr t \<Rightarrow> Inr t))"

definition current_code :: "'t totp_lib \<Rightarrow> string \<Rightarrow> auth_error + string" where
  "current_code T secret_b32 =
     (case build_totp T secret_b32 of
        Inl e \<Rightarrow> Inl e
      | Inr t \<Rightarrow> (case t_generate T t of Inl e \<Rightarrow> Inl (TotpFormat e) | Inr c \<Rightarrow> Inr c))"

definition verify_code :: "'t totp_lib \<Rightarrow> string \<Rightarrow> string \<Rightarrow> byte \<Rightarrow> auth_error + bool" where
  "verify_code T secret_b32 code window =
     (case build_totp T secret_b32 of
        Inl e \<Rightarrow> Inl e
      | Inr t \<Rightarrow> (case t_check T t code of
                    Inl e \<Rightarrow> Inl (TotpFormat (''check_current: '' @ e))
                  | Inr b \<Rightarrow> Inr b))"

section \<open>Secrets at rest\<close>

definition NONCE_BYTES :: nat where "NONCE_BYTES = 12"

definition TAG_BYTES :: nat where "TAG_BYTES = 16"

text \<open>AES-256-GCM with empty associated data, a parameter: key, nonce and text to the result.\<close>

record aead =
  seal :: "bytes \<Rightarrow> bytes \<Rightarrow> bytes \<Rightarrow> bytes option"
  unseal :: "bytes \<Rightarrow> bytes \<Rightarrow> bytes \<Rightarrow> bytes option"

definition encrypt_secret :: "aead \<Rightarrow> bytes \<Rightarrow> bytes \<Rightarrow> bytes \<Rightarrow> auth_error + bytes" where
  "encrypt_secret A nonce_bytes kek plaintext =
     (case seal A kek nonce_bytes plaintext of
        None \<Rightarrow> Inl TotpDecrypt
      | Some ciphertext \<Rightarrow> Inr (nonce_bytes @ ciphertext))"

definition decrypt_secret :: "aead \<Rightarrow> bytes \<Rightarrow> bytes \<Rightarrow> auth_error + bytes" where
  "decrypt_secret A kek blob =
     (if length blob < NONCE_BYTES + TAG_BYTES then Inl TotpDecrypt
      else (case unseal A kek (take NONCE_BYTES blob) (drop NONCE_BYTES blob) of
              None \<Rightarrow> Inl TotpDecrypt
            | Some m \<Rightarrow> Inr m))"

text \<open>What the code relies on: a ciphertext is 16 bytes longer than its text, and under a given
  key and nonce exactly the ciphertexts that were made from a text are accepted, with that
  text.\<close>

definition aead_ok :: "aead \<Rightarrow> bool" where
  "aead_ok A \<longleftrightarrow>
     (\<forall>k n m c. (seal A k n m = Some c \<longleftrightarrow> unseal A k n c = Some m)
        \<and> (seal A k n m = Some c \<longrightarrow> length c = length m + TAG_BYTES))"

text \<open>\<^verbatim>\<open>decrypt_secret\<close> returns a secret for exactly the blobs \<^verbatim>\<open>encrypt_secret\<close> makes from it
  under that key with a 12-byte nonce (everything else, a shortened or altered blob included,
  is \<^verbatim>\<open>TotpDecrypt\<close>), and such a blob is 28 bytes longer than the secret.\<close>

theorem decrypt_secret_exact:
  assumes "aead_ok A"
  shows "(decrypt_secret A kek blob = Inr m \<longleftrightarrow>
            (\<exists>nonce. length nonce = NONCE_BYTES \<and> encrypt_secret A nonce kek m = Inr blob))
    \<and> (decrypt_secret A kek blob = Inr m \<longrightarrow> length blob = length m + 28)
    \<and> (\<forall>e. decrypt_secret A kek blob = Inl e \<longrightarrow> e = TotpDecrypt)"
proof -
  have acc: "seal A k n m = Some c \<longleftrightarrow> unseal A k n c = Some m" for k n m c
    using assms by (simp add: aead_ok_def)
  have len: "seal A k n m = Some c \<Longrightarrow> length c = length m + 16" for k n m c
    using assms by (simp add: aead_ok_def TAG_BYTES_def)
  have "decrypt_secret A kek blob = Inr m \<longleftrightarrow>
            (\<exists>nonce. length nonce = NONCE_BYTES \<and> encrypt_secret A nonce kek m = Inr blob)"
  proof
    assume "decrypt_secret A kek blob = Inr m"
    then have "28 \<le> length blob" "unseal A kek (take 12 blob) (drop 12 blob) = Some m"
      by (auto simp: decrypt_secret_def NONCE_BYTES_def TAG_BYTES_def split: if_splits option.splits)
    then have "28 \<le> length blob" "seal A kek (take 12 blob) m = Some (drop 12 blob)"
      using acc [of kek "take 12 blob" m "drop 12 blob"] by simp_all
    then show "\<exists>nonce. length nonce = NONCE_BYTES \<and> encrypt_secret A nonce kek m = Inr blob"
      by (intro exI [of _ "take 12 blob"]) (simp add: NONCE_BYTES_def encrypt_secret_def)
  next
    assume "\<exists>nonce. length nonce = NONCE_BYTES \<and> encrypt_secret A nonce kek m = Inr blob"
    then obtain n c where "length n = 12" "seal A kek n m = Some c" "blob = n @ c"
      by (auto simp: encrypt_secret_def NONCE_BYTES_def split: option.splits)
    then show "decrypt_secret A kek blob = Inr m"
      using acc len by (simp add: decrypt_secret_def NONCE_BYTES_def TAG_BYTES_def)
  qed
  moreover have "length blob = length m + 28" if dec: "decrypt_secret A kek blob = Inr m"
  proof -
    from dec have "28 \<le> length blob" "unseal A kek (take 12 blob) (drop 12 blob) = Some m"
      by (auto simp: decrypt_secret_def NONCE_BYTES_def TAG_BYTES_def split: if_splits option.splits)
    then show ?thesis using len [of kek "take 12 blob" m "drop 12 blob"] acc by simp
  qed
  moreover have "decrypt_secret A kek blob = Inl e \<Longrightarrow> e = TotpDecrypt" for e
    by (auto simp: decrypt_secret_def split: if_splits option.splits)
  ultimately show ?thesis by blast
qed

theorem decrypt_secret_exact_witness:
  "\<exists>A. aead_ok A \<and> decrypt_secret A [7] (replicate 12 0 @ [65] @ replicate 16 0) = Inr [65]
     \<and> length (replicate 12 0 @ [65] @ replicate 16 (0 :: byte)) = length [65 :: byte] + 28"
proof -
  let ?A = "\<lparr>seal = (\<lambda>k n m. Some (m @ replicate 16 0)),
       unseal = (\<lambda>k n c. if 16 \<le> length c \<and> drop (length c - 16) c = replicate 16 0
                         then Some (take (length c - 16) c) else None)\<rparr>"
  have "m @ replicate 16 0 = c \<longleftrightarrow>
      16 \<le> length c \<and> drop (length c - 16) c = replicate 16 0 \<and> take (length c - 16) c = m" for m c :: bytes
  proof
    assume "16 \<le> length c \<and> drop (length c - 16) c = replicate 16 0 \<and> take (length c - 16) c = m"
    then show "m @ replicate 16 0 = c" using append_take_drop_id [of "length c - 16" c] by simp
  qed auto
  then have ok: "aead_ok ?A" by (auto simp: aead_ok_def TAG_BYTES_def)
  have "decrypt_secret ?A [7] (replicate 12 0 @ [65] @ replicate 16 0) = Inr [65]"
    by (simp add: decrypt_secret_def NONCE_BYTES_def TAG_BYTES_def)
  then show ?thesis using ok decrypt_secret_exact [OF ok] by blast
qed

end
