(* ===== verification/StaffTokens.thy ===== *)
theory StaffTokens
  imports Totp
begin

text \<open>
  The other parts of \<^verbatim>\<open>auth_admin\<close>: the opaque token between the password and the TOTP step
  (\<^verbatim>\<open>mfa_token\<close>), recovery codes (\<^verbatim>\<open>recovery\<close>), argon2id hashing (\<^verbatim>\<open>password\<close>), the key
  loaded from the environment (\<^verbatim>\<open>keystore\<close>). HMAC, base64 and argon2 are crates: parameters.
\<close>

section \<open>The mfa token\<close>

record mac_lib =
  b64_encode :: "bytes \<Rightarrow> string"
  b64_decode :: "string \<Rightarrow> string + bytes"
  hmac :: "bytes \<Rightarrow> bytes \<Rightarrow> bytes"

definition TTL_SECONDS :: int where
  "TTL_SECONDS = 900"

definition mfa_issue :: "mac_lib \<Rightarrow> int \<Rightarrow> bytes \<Rightarrow> string \<Rightarrow> string" where
  "mfa_issue L now_unix secret staff_id =
     (let expires_at = now_unix + TTL_SECONDS;
          payload = as_bytes (staff_id @ ''|'' @ show_int expires_at);
          tag = hmac L secret payload
      in b64_encode L (payload @ tag))"

definition mfa_verify :: "mac_lib \<Rightarrow> int \<Rightarrow> bytes \<Rightarrow> string \<Rightarrow> auth_error + string" where
  "mfa_verify L now_unix secret token =
     (if token = [] then Inl (MfaTokenInvalid ''token is empty'')
      else case b64_decode L token of
        Inl e \<Rightarrow> Inl (MfaTokenInvalid (''base64 decode failed: '' @ e))
      | Inr decoded \<Rightarrow>
          if length decoded < 33 then Inl (MfaTokenInvalid ''token too short'')
          else
            (let payload = take (length decoded - 32) decoded;
                 tag = drop (length decoded - 32) decoded
             in if hmac L secret payload \<noteq> tag then Inl (MfaTokenInvalid ''HMAC mismatch'')
                else case from_utf8 payload of
                  None \<Rightarrow> Inl (MfaTokenInvalid ''payload not valid UTF-8'')
                | Some payload_str \<Rightarrow>
                    (case rsplit_once CHR ''|'' payload_str of
                       None \<Rightarrow> Inl (MfaTokenInvalid (''missing '' @ debug_char CHR ''|'' @ '' separator in payload''))
                     | Some (staff_id, expires_at_str) \<Rightarrow>
                         (case parse_i64 expires_at_str of
                            None \<Rightarrow> Inl (MfaTokenInvalid ''invalid expiration timestamp'')
                          | Some expires_at \<Rightarrow>
                              if expires_at < now_unix
                              then Inl (MfaTokenInvalid ''token has expired'')
                              else Inr staff_id))))"

text \<open>What the code relies on: base64 decodes what it encoded, and decodes nothing else to it;
  only the empty input encodes to the empty text; an HMAC-SHA256 tag has 32 bytes.\<close>

definition mac_ok :: "mac_lib \<Rightarrow> bool" where
  "mac_ok L \<longleftrightarrow> (\<forall>x t. b64_decode L t = Inr x \<longleftrightarrow> b64_encode L x = t)
     \<and> (\<forall>x. b64_encode L x = [] \<longrightarrow> x = [])
     \<and> (\<forall>k m. length (hmac L k m) = 32)"

lemma mfa_verify_signed:
  assumes L: "mac_ok L" and p: "utf8_valid (as_bytes (sid @ ''|'' @ e))" and e: "CHR ''|'' \<notin> set e"
  shows "mfa_verify L now secret
      (b64_encode L (as_bytes (sid @ ''|'' @ e) @ hmac L secret (as_bytes (sid @ ''|'' @ e)))) =
    (case parse_i64 e of None \<Rightarrow> Inl (MfaTokenInvalid ''invalid expiration timestamp'')
     | Some x \<Rightarrow> if x < now then Inl (MfaTokenInvalid ''token has expired'') else Inr sid)"
    (is "mfa_verify L now secret (b64_encode L ?wire) = _")
proof -
  have len: "length (hmac L secret m) = 32" for m using L by (simp add: mac_ok_def)
  have dec: "b64_decode L (b64_encode L ?wire) = Inr ?wire" using L by (simp add: mac_ok_def)
  have "?wire \<noteq> []" by (simp del: as_bytes_append)
  then have ne: "b64_encode L ?wire \<noteq> []" using L unfolding mac_ok_def by blast
  have "from_utf8 (as_bytes (sid @ ''|'' @ e)) = Some (sid @ ''|'' @ e)"
    using p by (rule from_utf8_as_bytes)
  moreover have "rsplit_once CHR ''|'' (sid @ ''|'' @ e) = Some (sid, e)"
    using rsplit_once_append [OF e, of sid] by simp
  ultimately show ?thesis
    using ne unfolding mfa_verify_def dec by (simp add: len del: as_bytes_append)
qed

text \<open>A token issued at \<open>t\<close> for a staff id is accepted, with that id, exactly until fifteen
  minutes later (the second \<open>t + 900\<close> included), whatever the id contains: the id may hold the
  separator, because the expiry is read after the last one.\<close>

theorem mfa_token_window:
  assumes "mac_ok L" and "utf8_valid (as_bytes staff_id)"
    and "- (2 ^ 63) \<le> t + TTL_SECONDS" and "t + TTL_SECONDS < 2 ^ 63"
  shows "mfa_verify L now secret (mfa_issue L t secret staff_id) =
    (if t + 900 < now then Inl (MfaTokenInvalid ''token has expired'') else Inr staff_id)"
proof -
  have bar: "utf8_valid (as_bytes ''|'')"
    by (rule utf8_valid_ascii_text) (simp add: ascii_def)
  have "utf8_valid (as_bytes (staff_id @ ''|'' @ show_int (t + TTL_SECONDS)))"
    unfolding as_bytes_append
    by (intro utf8_valid_append assms(2) bar utf8_valid_show_int)
  from mfa_verify_signed [OF assms(1) this show_int_no_bar]
  show ?thesis
    using parse_i64_show_int [OF assms(3,4)]
    by (simp add: mfa_issue_def TTL_SECONDS_def Let_def)
qed

text \<open>Nothing else is accepted: an accepted token is the encoding of a payload with the tag
  of that payload under the secret, the id is the text before the last separator of the payload,
  and the number after it is not in the past.\<close>

theorem mfa_token_sound:
  assumes "mac_ok L" and "mfa_verify L now secret token = Inr staff_id"
  shows "\<exists>payload exp_text expires_at.
      token = b64_encode L (payload @ hmac L secret payload)
    \<and> from_utf8 payload = Some (staff_id @ ''|'' @ exp_text)
    \<and> CHR ''|'' \<notin> set exp_text
    \<and> parse_i64 exp_text = Some expires_at \<and> now \<le> expires_at"
proof -
  from assms(2) obtain dec payload where
      dec: "b64_decode L token = Inr dec" "33 \<le> length dec"
    and payload: "payload = take (length dec - 32) dec"
    and tag: "hmac L secret payload = drop (length dec - 32) dec"
    and rest: "(case from_utf8 payload of None \<Rightarrow> False | Some str \<Rightarrow>
        (case rsplit_once CHR ''|'' str of None \<Rightarrow> False | Some (sid, e) \<Rightarrow>
          sid = staff_id \<and> (case parse_i64 e of None \<Rightarrow> False | Some x \<Rightarrow> now \<le> x)))"
    by (auto simp: mfa_verify_def Let_def split: if_splits sum.splits option.splits prod.splits)
  from rest obtain e x where "from_utf8 payload = Some (staff_id @ CHR ''|'' # e)"
      "CHR ''|'' \<notin> set e" "parse_i64 e = Some x" "now \<le> x"
    by (auto split: option.splits prod.splits simp: rsplit_once_Some)
  moreover have "token = b64_encode L (payload @ hmac L secret payload)"
  proof -
    have "b64_encode L dec = token" using dec(1) assms(1) by (simp add: mac_ok_def)
    then show ?thesis unfolding tag by (simp add: payload)
  qed
  ultimately show ?thesis by auto
qed

text \<open>A concrete library for the witnesses: hexadecimal-free base64 (bytes as text) and a zero tag.\<close>

definition plain_mac :: mac_lib where
  "plain_mac = \<lparr>b64_encode = bytes_to_text, b64_decode = (\<lambda>t. Inr (as_bytes t)),
     hmac = (\<lambda>k m. replicate 32 0)\<rparr>"

lemma bytes_text_inverse [simp]: "as_bytes (bytes_to_text bs) = bs"
  by (induction bs) (auto simp: as_bytes_def bytes_to_text_def unat_byte)

lemma length_bytes_to_text: "length (bytes_to_text bs) = length bs"
  by (simp add: bytes_to_text_def)

lemma plain_mac_ok: "mac_ok plain_mac"
proof -
  have "as_bytes t = x \<longleftrightarrow> bytes_to_text x = t" for x t by auto
  moreover have "bytes_to_text x = [] \<longleftrightarrow> x = []" for x by (simp add: bytes_to_text_def)
  ultimately show ?thesis by (simp add: mac_ok_def plain_mac_def)
qed

theorem mfa_token_window_witness:
  "mac_ok plain_mac
   \<and> mfa_verify plain_mac 1900 [] (mfa_issue plain_mac 1000 [] ''a|b'') = Inr ''a|b''
   \<and> mfa_verify plain_mac 1901 [] (mfa_issue plain_mac 1000 [] ''a|b'')
       = Inl (MfaTokenInvalid ''token has expired'')"
proof -
  have u: "utf8_valid (as_bytes ''a|b'')"
    by (rule utf8_valid_ascii_text) (auto simp: ascii_def)
  have r: "- (2 ^ 63) \<le> 1000 + TTL_SECONDS" "1000 + TTL_SECONDS < 2 ^ 63"
    by (simp_all add: TTL_SECONDS_def)
  show ?thesis
    using plain_mac_ok mfa_token_window [OF plain_mac_ok u r, of 1900 "[]"]
      mfa_token_window [OF plain_mac_ok u r, of 1901 "[]"] by simp
qed

theorem mfa_token_sound_witness:
  "\<exists>token payload exp_text expires_at.
      mfa_verify plain_mac 5 [] token = Inr ''x''
    \<and> token = b64_encode plain_mac (payload @ hmac plain_mac [] payload)
    \<and> parse_i64 exp_text = Some expires_at \<and> 5 \<le> expires_at"
proof -
  have p: "utf8_valid (as_bytes (''x'' @ ''|'' @ ''9''))"
    by (rule utf8_valid_ascii_text) (auto simp: ascii_def)
  have nine: "parse_i64 ''9'' = Some 9" by code_simp
  have "mfa_verify plain_mac 5 []
      (b64_encode plain_mac (as_bytes (''x'' @ ''|'' @ ''9'') @ hmac plain_mac [] (as_bytes (''x'' @ ''|'' @ ''9''))))
    = Inr ''x''"
    using mfa_verify_signed [OF plain_mac_ok p, of 5 "[]"] nine by simp
  then show ?thesis using mfa_token_sound [OF plain_mac_ok] by blast
qed

section \<open>Passwords\<close>

datatype phc_check = Matches | Differs | CheckError string

text \<open>argon2: \<open>phc_new\<close> parses a stored hash, \<open>phc_hash salt\<close> hashes, \<open>phc_check\<close> compares.\<close>

record argon_lib =
  phc_new :: "string \<Rightarrow> string + unit"
  phc_hash :: "string \<Rightarrow> string \<Rightarrow> string + string"
  phc_verify :: "string \<Rightarrow> string \<Rightarrow> phc_check"

definition password_hash :: "argon_lib \<Rightarrow> string \<Rightarrow> string \<Rightarrow> auth_error + string" where
  "password_hash G salt password =
     (case phc_hash G salt password of Inl e \<Rightarrow> Inl (PasswordHash e) | Inr h \<Rightarrow> Inr h)"

definition password_verify :: "argon_lib \<Rightarrow> string \<Rightarrow> string \<Rightarrow> auth_error + bool" where
  "password_verify G password h =
     (case phc_new G h of
        Inl e \<Rightarrow> Inl (PasswordHash e)
      | Inr _ \<Rightarrow>
          (case phc_verify G h password of
             Matches \<Rightarrow> Inr True
           | Differs \<Rightarrow> Inr False
           | CheckError e \<Rightarrow> Inl (PasswordHash e)))"

section \<open>Recovery codes\<close>

definition CODE_COUNT :: nat where "CODE_COUNT = 10"

definition CODE_LEN :: nat where "CODE_LEN = 10"

definition ALPHABET :: bytes where
  "ALPHABET = as_bytes ''ABCDEFGHJKMNPQRSTUVWXYZ23456789''"

text \<open>\<open>draw k\<close> is the index the random generator chooses at the \<open>k\<close>-th call.\<close>

definition recovery_gen :: "(nat \<Rightarrow> nat) \<Rightarrow> string list" where
  "recovery_gen draw =
     map (\<lambda>i. bytes_to_text (map (\<lambda>j. ALPHABET ! draw (i * CODE_LEN + j)) [0..<CODE_LEN]))
       [0..<CODE_COUNT]"

text \<open>\<^verbatim>\<open>c as u8\<close> keeps the low eight bits of the code point.\<close>

definition is_valid_format :: "string \<Rightarrow> bool" where
  "is_valid_format code \<longleftrightarrow>
     length code = CODE_LEN
     \<and> (\<forall>c \<in> set (utf8_chars (as_bytes code)). (word_of_nat c :: byte) \<in> set ALPHABET)"

definition recovery_hash :: "argon_lib \<Rightarrow> string \<Rightarrow> string \<Rightarrow> auth_error + string" where
  "recovery_hash G salt code =
     (if \<not> is_valid_format code then Inl RecoveryFormat else password_hash G salt code)"

definition recovery_verify :: "argon_lib \<Rightarrow> string \<Rightarrow> string \<Rightarrow> auth_error + bool" where
  "recovery_verify G code h =
     (if code = [] \<or> \<not> is_valid_format code then Inl RecoveryFormat
      else case phc_new G h of
        Inl _ \<Rightarrow> Inl RecoveryFormat
      | Inr _ \<Rightarrow>
          (case password_verify G code h of
             Inr True \<Rightarrow> Inr True
           | Inr False \<Rightarrow> Inr False
           | Inl _ \<Rightarrow> Inl RecoveryFormat))"

lemma ALPHABET_ascii: "b \<in> set ALPHABET \<Longrightarrow> b < 0x80"
  by (auto simp: ALPHABET_def as_bytes_def of_char_def)

lemma length_ALPHABET: "length ALPHABET = 31"
  by (simp add: ALPHABET_def)

lemma is_valid_format_ascii:
  assumes "\<And>c. c \<in> set code \<Longrightarrow> ascii c"
  shows "is_valid_format code \<longleftrightarrow> length code = CODE_LEN \<and> set (as_bytes code) \<subseteq> set ALPHABET"
proof -
  have "utf8_chars (as_bytes code) = map unat (as_bytes code)"
    using assms by (intro utf8_chars_ascii)
      (auto simp: as_bytes_def ascii_def word_less_nat_alt)
  then show ?thesis by (auto simp: is_valid_format_def)
qed

lemma recovery_gen_valid:
  assumes "\<And>k. draw k < 31" and "code \<in> set (recovery_gen draw)"
  shows "is_valid_format code"
proof -
  from assms(2) obtain bs where code: "code = bytes_to_text bs" "length bs = CODE_LEN"
      and bs: "set bs \<subseteq> set ALPHABET"
  proof -
    from assms(2) obtain i where
      "code = bytes_to_text (map (\<lambda>j. ALPHABET ! draw (i * CODE_LEN + j)) [0..<CODE_LEN])"
      by (auto simp: recovery_gen_def)
    then show ?thesis using assms(1) length_ALPHABET by (intro that) auto
  qed
  have "utf8_chars bs = map unat bs"
    using bs ALPHABET_ascii by (intro utf8_chars_ascii) blast
  then show ?thesis
    using code bs by (auto simp: is_valid_format_def length_bytes_to_text)
qed

text \<open>What is relied on of argon2: a hash it made parses, and is matched by exactly the text it
  was made from (no two texts in use collide).\<close>

definition argon_ok :: "argon_lib \<Rightarrow> bool" where
  "argon_ok G \<longleftrightarrow>
     (\<forall>salt p h. phc_hash G salt p = Inr h \<longrightarrow>
        phc_new G h = Inr () \<and> (\<forall>q. phc_verify G h q = (if q = p then Matches else Differs)))"

text \<open>Every code that \<^verbatim>\<open>recovery::gen\<close> hands out has the valid format, so it can be hashed and
  its hash accepts it; and the stored hash accepts no other code.\<close>

theorem recovery_codes_usable:
  assumes "argon_ok G" and "\<And>k. draw k < 31" and "code \<in> set (recovery_gen draw)"
    and "phc_hash G salt code = Inr h"
  shows "recovery_hash G salt code = Inr h
    \<and> (\<forall>other. recovery_verify G other h = Inr True \<longleftrightarrow> other = code)"
proof -
  have v: "is_valid_format code" using assms(2,3) by (rule recovery_gen_valid)
  then have "code \<noteq> []" by (auto simp: is_valid_format_def CODE_LEN_def)
  have h: "phc_new G h = Inr ()" "phc_verify G h q = (if q = code then Matches else Differs)" for q
    using assms(1,4) by (auto simp: argon_ok_def)
  have "recovery_hash G salt code = Inr h"
    using v assms(4) by (simp add: recovery_hash_def password_hash_def)
  moreover have "recovery_verify G code h = Inr True"
    using v \<open>code \<noteq> []\<close> h by (simp add: recovery_verify_def password_verify_def)
  moreover have "recovery_verify G other h = Inr True \<Longrightarrow> other = code" for other
    using h by (auto simp: recovery_verify_def password_verify_def split: if_splits)
  ultimately show ?thesis by blast
qed

theorem recovery_codes_usable_witness:
  "\<exists>G. argon_ok G \<and> recovery_hash G [] ''AAAAAAAAAA'' = Inr ''AAAAAAAAAA''
     \<and> recovery_verify G ''AAAAAAAAAA'' ''AAAAAAAAAA'' = Inr True"
proof -
  let ?G = "\<lparr>phc_new = (\<lambda>h. Inr ()), phc_hash = (\<lambda>salt p. Inr p),
      phc_verify = (\<lambda>h q. if q = h then Matches else Differs)\<rparr>"
  have G: "argon_ok ?G" by (simp add: argon_ok_def)
  have mem: "''AAAAAAAAAA'' \<in> set (recovery_gen (\<lambda>_. 0))" by code_simp
  have h: "phc_hash ?G [] ''AAAAAAAAAA'' = Inr ''AAAAAAAAAA''" by simp
  show ?thesis using recovery_codes_usable [OF G _ mem h] G by auto
qed

text \<open>The format check reads characters, but compares only their low eight bits: a text
  of ten bytes whose characters are outside ASCII can pass it. Five times U+0141 (two bytes each,
  \<^verbatim>\<open>0x41\<close> in the low byte) is such a text; over ASCII the check is the intended one, ten
  characters of the alphabet.\<close>

theorem recovery_format_truncates:
  "is_valid_format (bytes_to_text [0xC5, 0x81, 0xC5, 0x81, 0xC5, 0x81, 0xC5, 0x81, 0xC5, 0x81])
   \<and> from_utf8 [0xC5, 0x81, 0xC5, 0x81, 0xC5, 0x81, 0xC5, 0x81, 0xC5, 0x81] \<noteq> None
   \<and> 0xC5 \<notin> set ALPHABET \<and> 0x81 \<notin> set ALPHABET
   \<and> (\<forall>code. (\<forall>c \<in> set code. ascii c) \<longrightarrow>
        (is_valid_format code \<longleftrightarrow> length code = CODE_LEN \<and> set (as_bytes code) \<subseteq> set ALPHABET))"
proof -
  have 1: "is_valid_format (bytes_to_text [0xC5, 0x81, 0xC5, 0x81, 0xC5, 0x81, 0xC5, 0x81, 0xC5, 0x81])"
    unfolding is_valid_format_def bytes_text_inverse by code_simp
  have 2: "utf8_valid [0xC5, 0x81, 0xC5, 0x81, 0xC5, 0x81, 0xC5, 0x81, 0xC5, 0x81]"
    by code_simp
  have 3: "0xC5 \<notin> set ALPHABET" "0x81 \<notin> set ALPHABET" using ALPHABET_ascii by fastforce+
  show ?thesis using 1 2 3 is_valid_format_ascii by (auto simp: from_utf8_def)
qed

theorem recovery_format_truncates_witness:
  "is_valid_format ''ABCDEFGHJK'' \<and> \<not> is_valid_format ''ABCDEFGHI0''"
proof -
  have a: "(\<forall>c \<in> set ''ABCDEFGHJK''. ascii c) \<and> (\<forall>c \<in> set ''ABCDEFGHI0''. ascii c)"
    by (simp add: ascii_def)
  have b: "length ''ABCDEFGHJK'' = CODE_LEN \<and> set (as_bytes ''ABCDEFGHJK'') \<subseteq> set ALPHABET
      \<and> \<not> set (as_bytes ''ABCDEFGHI0'') \<subseteq> set ALPHABET"
    by code_simp
  show ?thesis using a b recovery_format_truncates by blast
qed

section \<open>The key-encryption key\<close>

record kek =
  kek_key :: bytes
  kek_version :: byte

definition parse_u8 :: "string \<Rightarrow> byte option" where
  "parse_u8 s =
     (case (case s of c # r \<Rightarrow> if c = CHR ''+'' then parse_nat r else parse_nat s | [] \<Rightarrow> None) of
        None \<Rightarrow> None
      | Some n \<Rightarrow> if n < 256 then Some (word_of_nat n) else None)"

text \<open>\<open>env\<close> is the process environment and \<open>b64\<close> the standard base64 decoder.\<close>

definition kek_from_env ::
  "(string \<Rightarrow> string + bytes) \<Rightarrow> (string \<Rightarrow> string option) \<Rightarrow> auth_error + kek" where
  "kek_from_env b64 env =
     (case env ''STAFF_TOTP_KEK'' of
        None \<Rightarrow> Inl KekMissing
      | Some encoded \<Rightarrow>
          (case b64 encoded of
             Inl e \<Rightarrow> Inl (KekMalformed (''base64 decode error: '' @ e))
           | Inr decoded \<Rightarrow>
               if length decoded \<noteq> 32
               then Inl (KekMalformed (''key length '' @ show_nat (length decoded) @ '' != expected 32 bytes''))
               else
                 (let version_raw = (case env ''STAFF_TOTP_KEK_VERSION'' of None \<Rightarrow> ''1'' | Some v \<Rightarrow> v)
                  in case parse_u8 version_raw of
                       None \<Rightarrow> Inl (KekMalformed
                         (''STAFF_TOTP_KEK_VERSION '' @ [char_of (39 :: nat)] @ version_raw
                            @ [char_of (39 :: nat)] @ '' is not a valid u8''))
                     | Some version \<Rightarrow>
                         if version = 0
                         then Inl (KekMalformed ''STAFF_TOTP_KEK_VERSION must be in 1..=255, got 0'')
                         else Inr \<lparr>kek_key = decoded, kek_version = version\<rparr>)))"

lemma kek_from_env_wf:
  "kek_from_env b64 env = Inr k \<Longrightarrow> length (kek_key k) = 32 \<and> kek_version k \<noteq> 0"
  by (auto simp: kek_from_env_def Let_def split: option.splits sum.splits if_splits)

end
