(* ===== verification/RateLimit.thy ===== *)
theory RateLimit
  imports Complex_Main Text
begin

text \<open>
  \<^verbatim>\<open>ratelimit.rs\<close>: the token bucket kept per client address, the Redis counter, the fallback
  between them, and the middleware that finds the client's address. Tokens are rational numbers
  (the code's \<^verbatim>\<open>f64\<close> without its rounding); an \<^verbatim>\<open>Instant\<close> is a number of nanoseconds, and
  subtraction of naturals is \<^verbatim>\<open>saturating_duration_since\<close>.
\<close>

section \<open>The token bucket\<close>

record 'ip bucket_limiter =
  capacity :: rat
  refill_per_sec :: rat
  buckets :: "'ip \<Rightarrow> (rat \<times> nat) option"

definition limiter_new :: "rat \<Rightarrow> rat \<Rightarrow> 'ip bucket_limiter" where
  "limiter_new c r = \<lparr>capacity = c, refill_per_sec = r, buckets = (\<lambda>_. None)\<rparr>"

definition as_secs :: "nat \<Rightarrow> rat" where
  "as_secs ns = of_nat ns / 1000000000"

definition limiter_check :: "'ip bucket_limiter \<Rightarrow> 'ip \<Rightarrow> nat \<Rightarrow> bool \<times> 'ip bucket_limiter" where
  "limiter_check rl ip now =
     (let entry = (case buckets rl ip of None \<Rightarrow> (capacity rl, now) | Some e \<Rightarrow> e);
          elapsed = as_secs (now - snd entry);
          tokens = min (fst entry + elapsed * refill_per_sec rl) (capacity rl)
      in if 1 \<le> tokens
         then (True, rl\<lparr>buckets := (buckets rl)(ip \<mapsto> (tokens - 1, now))\<rparr>)
         else (False, rl\<lparr>buckets := (buckets rl)(ip \<mapsto> (tokens, now))\<rparr>))"

text \<open>A sequence of requests, in the order the lock admits them, and how many of one
  client were allowed.\<close>

fun allowed :: "'ip \<Rightarrow> 'ip bucket_limiter \<Rightarrow> ('ip \<times> nat) list \<Rightarrow> nat" where
  "allowed who rl [] = 0"
| "allowed who rl ((ip, t) # rs) =
     (case limiter_check rl ip t of
        (ok, rl') \<Rightarrow> (if ok \<and> ip = who then 1 else 0) + allowed who rl' rs)"

lemma as_secs_nonneg [simp]: "0 \<le> as_secs n"
  by (simp add: as_secs_def)

lemma as_secs_diff: "a \<le> b \<Longrightarrow> b \<le> c \<Longrightarrow> as_secs (c - a) = as_secs (b - a) + as_secs (c - b)"
  by (simp add: as_secs_def of_nat_diff add_divide_distrib [symmetric])

lemma check_params [simp]:
  "capacity (snd (limiter_check rl ip t)) = capacity rl"
  "refill_per_sec (snd (limiter_check rl ip t)) = refill_per_sec rl"
  by (simp_all add: limiter_check_def Let_def)

lemma check_other: "other \<noteq> ip \<Longrightarrow> buckets (snd (limiter_check rl ip t)) other = buckets rl other"
  by (simp add: limiter_check_def Let_def)

lemma check_tokens:
  assumes "0 \<le> capacity rl" "0 \<le> refill_per_sec rl" "buckets rl ip = Some (tok, last_at)" "0 \<le> tok"
  shows "\<exists>tok'. buckets (snd (limiter_check rl ip t)) ip = Some (tok', t) \<and> 0 \<le> tok'
           \<and> tok' \<le> capacity rl
           \<and> tok' + (if fst (limiter_check rl ip t) then 1 else 0)
               \<le> tok + as_secs (t - last_at) * refill_per_sec rl"
proof -
  have "0 \<le> as_secs (t - last_at) * refill_per_sec rl" using assms by simp
  then show ?thesis using assms by (auto simp: limiter_check_def Let_def min_def)
qed

lemma check_first:
  assumes "0 \<le> capacity rl" "buckets rl ip = None"
  shows "\<exists>tok'. buckets (snd (limiter_check rl ip t)) ip = Some (tok', t) \<and> 0 \<le> tok'
           \<and> tok' \<le> capacity rl
           \<and> tok' + (if fst (limiter_check rl ip t) then 1 else 0) \<le> capacity rl"
  using assms by (auto simp: limiter_check_def Let_def as_secs_def)

lemma check_capped:
  assumes "0 \<le> capacity rl" "0 \<le> refill_per_sec rl" "buckets rl ip = Some (tok, last_at)" "0 \<le> tok"
  shows "\<exists>tok'. buckets (snd (limiter_check rl ip t)) ip = Some (tok', t) \<and> 0 \<le> tok'
           \<and> tok' + (if fst (limiter_check rl ip t) then 1 else 0) \<le> capacity rl"
proof -
  have "0 \<le> as_secs (t - last_at) * refill_per_sec rl" using assms by simp
  then show ?thesis using assms by (auto simp: limiter_check_def Let_def min_def)
qed

subsection \<open>The states a limiter can be in\<close>

text \<open>Requests take the lock in any order, so the times they carry need not be sorted:
  \<^verbatim>\<open>Instant::now()\<close> is an argument of \<^verbatim>\<open>check\<close>, read before the lock.\<close>

definition limiter_init :: "'ip bucket_limiter \<Rightarrow> bool" where
  "limiter_init rl \<longleftrightarrow> 0 \<le> capacity rl \<and> 0 \<le> refill_per_sec rl
                       \<and> rl = limiter_new (capacity rl) (refill_per_sec rl)"

inductive limiter_step :: "'ip bucket_limiter \<Rightarrow> 'ip bucket_limiter \<Rightarrow> bool" where
  request: "limiter_step rl (snd (limiter_check rl ip now))"

inductive_cases limiter_stepE: "limiter_step rl rl'"

definition limiter_wf :: "'ip bucket_limiter \<Rightarrow> bool" where
  "limiter_wf rl \<longleftrightarrow> 0 \<le> capacity rl \<and> 0 \<le> refill_per_sec rl
     \<and> (\<forall>ip tok seen. buckets rl ip = Some (tok, seen) \<longrightarrow> 0 \<le> tok \<and> tok \<le> capacity rl)"

lemma check_bounds:
  assumes "limiter_wf rl"
  shows "\<exists>tok. buckets (snd (limiter_check rl ip t)) ip = Some (tok, t) \<and> 0 \<le> tok
           \<and> tok + (if fst (limiter_check rl ip t) then 1 else 0) \<le> capacity rl"
proof (cases "buckets rl ip")
  case None
  then show ?thesis using assms check_first [of rl ip t] by (auto simp: limiter_wf_def)
next
  case (Some e)
  obtain tok seen where e: "e = (tok, seen)" by (cases e)
  then have "0 \<le> capacity rl" "0 \<le> refill_per_sec rl" "0 \<le> tok"
    using assms Some by (auto simp: limiter_wf_def)
  then show ?thesis using check_capped [of rl ip tok seen t] Some e by auto
qed

lemma limiter_wf_check:
  assumes "limiter_wf rl"
  shows "limiter_wf (snd (limiter_check rl ip t))"
  unfolding limiter_wf_def
proof (intro conjI allI impI)
  obtain new where new: "buckets (snd (limiter_check rl ip t)) ip = Some (new, t)" "0 \<le> new"
    and le: "new + (if fst (limiter_check rl ip t) then 1 else 0) \<le> capacity rl"
    using check_bounds [OF assms, of ip t] by blast
  then have cap: "new \<le> capacity rl" by (simp split: if_splits)
  fix i tok seen assume "buckets (snd (limiter_check rl ip t)) i = Some (tok, seen)"
  then have "0 \<le> tok \<and> tok \<le> capacity rl"
    using new cap assms check_other [of i ip rl t] by (cases "i = ip") (auto simp: limiter_wf_def)
  then show "0 \<le> tok" "tok \<le> capacity (snd (limiter_check rl ip t))" by simp_all
qed (use assms in \<open>auto simp: limiter_wf_def\<close>)

interpretation rate: invariant_system limiter_init limiter_step limiter_wf
proof unfold_locales
  fix s :: "'a bucket_limiter"
  assume "limiter_init s"
  then show "limiter_wf s"
    by (metis limiter_init_def limiter_wf_def limiter_new_def bucket_limiter.select_convs(3) option.distinct(1))
next
  fix s t :: "'a bucket_limiter"
  assume "limiter_wf s" "limiter_step s t"
  then show "limiter_wf t" by (auto elim!: limiter_stepE intro: limiter_wf_check)
qed

text \<open>The budget argument: what a bucket can still allow until \<open>t1\<close> is its tokens and the refill.\<close>

lemma allowed_budget:
  assumes "0 \<le> capacity rl" "0 \<le> refill_per_sec rl" "0 \<le> tok"
    and "buckets rl who = Some (tok, last_at)"
    and "sorted (map snd rs)" "\<forall>r \<in> set rs. last_at \<le> snd r \<and> snd r \<le> t1" "last_at \<le> t1"
  shows "of_nat (allowed who rl rs) \<le> tok + as_secs (t1 - last_at) * refill_per_sec rl"
  using assms
proof (induction rs arbitrary: rl tok last_at)
  case Nil
  then show ?case by simp
next
  case (Cons r rs)
  obtain ip t where r: "r = (ip, t)" by (cases r)
  obtain ok rl' where chk: "limiter_check rl ip t = (ok, rl')" by fastforce
  have t: "last_at \<le> t" "t \<le> t1" and params: "capacity rl' = capacity rl" "refill_per_sec rl' = refill_per_sec rl"
    using Cons.prems(6) r check_params [of rl ip t] chk by auto
  have rest: "\<forall>r \<in> set rs. t \<le> snd r \<and> snd r \<le> t1" "\<forall>r \<in> set rs. last_at \<le> snd r \<and> snd r \<le> t1"
    "sorted (map snd rs)"
    using Cons.prems(5,6) r by auto
  show ?case
  proof (cases "ip = who")
    case False
    then have "buckets rl' who = Some (tok, last_at)"
      using check_other [of who ip rl t] chk Cons.prems(4) by simp
    then have "of_nat (allowed who rl' rs) \<le> tok + as_secs (t1 - last_at) * refill_per_sec rl'"
      using Cons.prems params rest by (intro Cons.IH) auto
    then show ?thesis using False chk r params by simp
  next
    case True
    obtain tok' where b: "buckets rl' who = Some (tok', t)" "0 \<le> tok'"
      and le: "tok' + (if ok then 1 else 0) \<le> tok + as_secs (t - last_at) * refill_per_sec rl"
      using check_tokens [OF Cons.prems(1,2), of ip tok last_at t] Cons.prems(3,4) chk True by auto
    have "of_nat (allowed who rl' rs) \<le> tok' + as_secs (t1 - t) * refill_per_sec rl"
      using Cons.IH [of rl' tok' t] Cons.prems(1,2) params rest t b by simp
    then show ?thesis
      using le as_secs_diff [OF t] r chk True by (simp add: algebra_simps split: if_splits)
  qed
qed

lemma allowed_window:
  assumes "limiter_wf rl" "sorted (map snd rs)" "\<forall>r \<in> set rs. t0 \<le> snd r \<and> snd r \<le> t1" "t0 \<le> t1"
  shows "of_nat (allowed who rl rs) \<le> capacity rl + as_secs (t1 - t0) * refill_per_sec rl"
  using assms
proof (induction rs arbitrary: rl t0)
  case Nil
  then show ?case by (simp add: limiter_wf_def)
next
  case (Cons r rs)
  obtain ip t where r: "r = (ip, t)" by (cases r)
  obtain ok rl' where chk: "limiter_check rl ip t = (ok, rl')" by fastforce
  have params: "capacity rl' = capacity rl" "refill_per_sec rl' = refill_per_sec rl" and wf': "limiter_wf rl'"
    using check_params [of rl ip t] limiter_wf_check [OF Cons.prems(1), of ip t] chk by auto
  have t: "t0 \<le> t" "t \<le> t1" using Cons.prems(3) r by auto
  have rest: "\<forall>r \<in> set rs. t \<le> snd r \<and> snd r \<le> t1" "\<forall>r \<in> set rs. t0 \<le> snd r \<and> snd r \<le> t1"
    "sorted (map snd rs)"
    using Cons.prems(2,3) r by auto
  have pos: "0 \<le> capacity rl" "0 \<le> refill_per_sec rl" using Cons.prems(1) by (auto simp: limiter_wf_def)
  show ?case
  proof (cases "ip = who")
    case False
    then show ?thesis using Cons.IH [OF wf' rest(3,2) Cons.prems(4)] params chk r by simp
  next
    case True
    obtain tok' where b: "buckets rl' who = Some (tok', t)" "0 \<le> tok'"
      and le: "tok' + (if ok then 1 else 0) \<le> capacity rl"
      using check_bounds [OF Cons.prems(1), of ip t] chk True by auto
    have "of_nat (allowed who rl' rs) \<le> tok' + as_secs (t1 - t) * refill_per_sec rl"
      using allowed_budget [of rl' tok' who t rs t1] pos params b rest t by simp
    moreover have "as_secs (t1 - t) * refill_per_sec rl \<le> as_secs (t1 - t0) * refill_per_sec rl"
      using t pos by (intro mult_right_mono) (auto simp: as_secs_def of_nat_diff divide_right_mono)
    ultimately show ?thesis
      using le r chk True by (simp split: if_splits)
  qed
qed

text \<open>
  C34. In any state a limiter can reach, the requests of one client that arrive in a window
  \<open>[t0, t1]\<close> and take the lock in the order of their instants are let through at most
  capacity plus refill times the length of the window, whatever the other clients send.
\<close>

theorem rate_limit_window:
  assumes "reach limiter_init limiter_step rl"
    and "sorted (map snd rs)" "\<forall>r \<in> set rs. t0 \<le> snd r \<and> snd r \<le> t1" "t0 \<le> t1"
  shows "of_nat (allowed who rl rs) \<le> capacity rl + as_secs (t1 - t0) * refill_per_sec rl"
  using allowed_window [OF rate.reach_inv [OF assms(1)] assms(2-4)] .

theorem rate_limit_window_witness:
  "of_nat (allowed (1::nat) (limiter_new 3 2) [(1, 0), (1, 0), (2, 0), (1, 0), (1, 0), (1, 1000000000)])
     \<le> capacity (limiter_new 3 2 :: nat bucket_limiter) + as_secs 1000000000 * 2"
proof -
  have "reach limiter_init limiter_step (limiter_new 3 2 :: nat bucket_limiter)"
    by (rule reach_init) (simp add: limiter_init_def limiter_new_def)
  from rate_limit_window [OF this, of "[(1, 0), (1, 0), (2, 0), (1, 0), (1, 0), (1, 1000000000)]" 0 1000000000 1]
  show ?thesis by (simp add: limiter_new_def)
qed

subsection \<open>Other clients, and instants out of order\<close>

lemma allowed_same_bucket:
  assumes "buckets a who = buckets b who" "capacity a = capacity b" "refill_per_sec a = refill_per_sec b"
  shows "allowed who a rs = allowed who b (filter (\<lambda>r. fst r = who) rs)"
  using assms
proof (induction rs arbitrary: a b)
  case (Cons r rs)
  obtain ip t where r: "r = (ip, t)" by (cases r)
  show ?case
  proof (cases "ip = who")
    case True
    have "fst (limiter_check a ip t) = fst (limiter_check b ip t)"
      "buckets (snd (limiter_check a ip t)) who = buckets (snd (limiter_check b ip t)) who"
      using Cons.prems True by (cases "buckets b who"; simp add: limiter_check_def Let_def)+
    with Cons.IH [of "snd (limiter_check a ip t)" "snd (limiter_check b ip t)"] Cons.prems r True
    show ?thesis by (simp add: split_beta)
  next
    case False
    have "buckets (snd (limiter_check a ip t)) who = buckets b who"
      using Cons.prems False check_other [of who ip a t] by simp
    with Cons.IH [of "snd (limiter_check a ip t)" b] Cons.prems r False
    show ?thesis by (simp add: split_beta)
  qed
qed simp

text \<open>
  Clients do not share a budget: what one client is allowed is what it would be allowed
  if the requests of all the others were not there.
\<close>

theorem rate_limit_per_client:
  "allowed who rl rs = allowed who rl (filter (\<lambda>r. fst r = who) rs)"
  by (rule allowed_same_bucket) simp_all

text \<open>
  The window bound needs the order of the instants. \<^verbatim>\<open>entry.1 = now\<close> is assigned even when
  \<open>now\<close> is earlier than the time stored, so a request that read the clock first and took the
  lock last moves the bucket's time back, and the interval after it is credited twice: a
  bucket of one token and one token a second allows four requests within two seconds.
\<close>

theorem rate_limit_rewound_clock:
  "\<exists>rl rs. reach limiter_init limiter_step (rl :: nat bucket_limiter)
     \<and> list_all (\<lambda>r. snd r \<le> 2000000000) rs
     \<and> capacity rl + as_secs 2000000000 * refill_per_sec rl < of_nat (allowed 7 rl rs)"
proof (intro exI conjI)
  show "reach limiter_init limiter_step (limiter_new 1 1 :: nat bucket_limiter)"
    by (rule reach_init) (simp add: limiter_init_def limiter_new_def)
  show "list_all (\<lambda>r. snd r \<le> 2000000000)
    [(7 :: nat, 0 :: nat), (7, 1000000000), (7, 0), (7, 1000000000), (7, 2000000000)]" by simp
  show "capacity (limiter_new 1 1 :: nat bucket_limiter) + as_secs 2000000000 * refill_per_sec (limiter_new 1 1 :: nat bucket_limiter)
     < of_nat (allowed 7 (limiter_new 1 1) [(7, 0), (7, 1000000000), (7, 0), (7, 1000000000), (7, 2000000000)])"
    by (simp add: limiter_new_def limiter_check_def as_secs_def)
qed

section \<open>The Redis counter\<close>

text \<open>
  The Redis server is a parameter: opening a connection, \<^verbatim>\<open>INCR\<close> and \<^verbatim>\<open>EXPIRE\<close> may fail and change
  its state as they please. \<^verbatim>\<open>INCR\<close>'s reply is read as a \<^verbatim>\<open>u32\<close>; a reply that does not fit
  is an error of the call (\<open>None\<close>).
\<close>

record 'r redis_lib =
  connect :: "'r \<Rightarrow> bool \<times> 'r"
  incr :: "string \<Rightarrow> 'r \<Rightarrow> u32 option \<times> 'r"
  expire :: "string \<Rightarrow> u32 \<Rightarrow> 'r \<Rightarrow> int option \<times> 'r"

definition redis_key :: "string \<Rightarrow> u32 \<Rightarrow> string" where
  "redis_key key window_secs = ''ratelimit:'' @ key @ '':'' @ show_nat (unat window_secs)"

definition redis_check :: "'r redis_lib \<Rightarrow> string \<Rightarrow> u32 \<Rightarrow> u32 \<Rightarrow> 'r \<Rightarrow> bool \<times> 'r" where
  "redis_check lib key max_requests window_secs s0 =
     (case connect lib s0 of
        (False, s1) \<Rightarrow> (True, s1)
      | (True, s1) \<Rightarrow>
          (case incr lib (redis_key key window_secs) s1 of
             (None, s2) \<Rightarrow> (True, s2)
           | (Some count, s2) \<Rightarrow>
               (let s3 = (if count = 1
                          then snd (expire lib (redis_key key window_secs) window_secs s2) else s2)
                in (count \<le> max_requests, s3))))"

text \<open>
  The Redis check refuses a request exactly when the server answered and its counter is
  above the limit: every failure of the server lets the request through, and so does a
  failed \<^verbatim>\<open>EXPIRE\<close>, whose result is dropped.
\<close>

theorem redis_check_fails_open:
  "fst (redis_check lib key max_requests window_secs s) \<longleftrightarrow>
     \<not> (fst (connect lib s) \<and>
        (\<exists>count. fst (incr lib (redis_key key window_secs) (snd (connect lib s))) = Some count
                 \<and> max_requests < count))"
  by (auto simp: redis_check_def Let_def not_le not_less split: prod.splits bool.splits option.splits)

section \<open>The limiter and the middleware\<close>

datatype ('r, 'ip) limiter = Redis 'r | InMemory "'ip bucket_limiter"

text \<open>\<^verbatim>\<open>open_client\<close> is the client library's check of the URL.\<close>

definition limiter_from_env_or ::
    "(string \<Rightarrow> 'r option) \<Rightarrow> string option \<Rightarrow> rat \<Rightarrow> rat \<Rightarrow> ('r, 'ip) limiter" where
  "limiter_from_env_or open_client redis_url c r =
     (case Option.bind redis_url open_client of
        Some redis \<Rightarrow> Redis redis
      | None \<Rightarrow> InMemory (limiter_new c r))"

definition limiter_enum_check ::
    "'r redis_lib \<Rightarrow> ('ip \<Rightarrow> string) \<Rightarrow> 'ip \<Rightarrow> nat \<Rightarrow> ('r, 'ip) limiter \<Rightarrow> bool \<times> ('r, 'ip) limiter" where
  "limiter_enum_check lib ip_text ip now l =
     (case l of
        Redis r \<Rightarrow> (case redis_check lib (ip_text ip) 10 1 r of (ok, r') \<Rightarrow> (ok, Redis r'))
      | InMemory m \<Rightarrow> (case limiter_check m ip now of (ok, m') \<Rightarrow> (ok, InMemory m')))"

text \<open>A request as the middleware sees it: two headers, as the characters of their bytes, and
  the peer of the socket when the server recorded it. A header value is text when every byte
  is visible ASCII or a tab.\<close>

record 'ip http_peer =
  cf_connecting_ip :: "string option"
  x_forwarded_for :: "string option"
  connect_info :: "'ip option"

definition header_to_str :: "string \<Rightarrow> string option" where
  "header_to_str v =
     (if list_all (\<lambda>c. (32 \<le> (of_char c :: nat) \<and> (of_char c :: nat) < 127) \<or> c = CHR 0x09) v then Some v else None)"

definition or_else :: "'a option \<Rightarrow> 'a option \<Rightarrow> 'a option" where
  "or_else a b = (case a of Some x \<Rightarrow> Some x | None \<Rightarrow> b)"

definition client_ip :: "(string \<Rightarrow> 'ip option) \<Rightarrow> 'ip http_peer \<Rightarrow> 'ip option" where
  "client_ip parse req =
     or_else
       (Option.bind
          (or_else
             (map_option trim (Option.bind (cf_connecting_ip req) header_to_str))
             (map_option (\<lambda>s. trim (hd (split_on (CHR '','') s)))
                (Option.bind (x_forwarded_for req) header_to_str)))
          parse)
       (connect_info req)"

definition auth_limiter ::
    "'r redis_lib \<Rightarrow> ('ip \<Rightarrow> string) \<Rightarrow> (string \<Rightarrow> 'ip option) \<Rightarrow> 'ip \<Rightarrow> 'ip http_peer \<Rightarrow> nat
       \<Rightarrow> ('r, 'ip) limiter \<Rightarrow> (status + unit) \<times> ('r, 'ip) limiter" where
  "auth_limiter lib ip_text parse localhost req now l =
     (case limiter_enum_check lib ip_text (case client_ip parse req of None \<Rightarrow> localhost | Some ip \<Rightarrow> ip) now l of
        (True, l') \<Rightarrow> (Inr (), l')
      | (False, l') \<Rightarrow> (Inl TOO_MANY_REQUESTS, l'))"

text \<open>
  A request whose \<^verbatim>\<open>CF-Connecting-IP\<close> header is an address is charged to the bucket of that
  address and to no other, whatever \<^verbatim>\<open>X-Forwarded-For\<close> and the socket say, and it is refused
  exactly when that bucket has less than one token.
\<close>

theorem auth_limiter_charges_edge_address:
  assumes "cf_connecting_ip req = Some h" "header_to_str h = Some h" "parse (trim h) = Some ip"
  shows "\<exists>m'. auth_limiter lib ip_text parse lo req now (InMemory m)
            = ((if fst (limiter_check m ip now) then Inr () else Inl TOO_MANY_REQUESTS), InMemory m')
          \<and> (\<forall>other. other \<noteq> ip \<longrightarrow> buckets m' other = buckets m other)
          \<and> buckets m' ip \<noteq> None"
proof -
  have ip: "client_ip parse req = Some ip"
    using assms by (simp add: client_ip_def or_else_def)
  have "buckets (snd (limiter_check m ip now)) ip \<noteq> None"
    by (simp add: limiter_check_def Let_def)
  then show ?thesis
    using ip check_other [of _ ip m now]
    by (intro exI [of _ "snd (limiter_check m ip now)"])
       (auto simp: auth_limiter_def limiter_enum_check_def split: prod.splits bool.splits)
qed

theorem auth_limiter_charges_edge_address_witness:
  "\<exists>m'. auth_limiter \<lparr>connect = (\<lambda>s. (False, s)), incr = (\<lambda>_ s. (None, s)), expire = (\<lambda>_ _ (s :: unit). (None, s))\<rparr> id (\<lambda>s. if s = ''::1'' then Some s else None) ''lo''
            \<lparr>cf_connecting_ip = Some '' ::1'', x_forwarded_for = None, connect_info = None\<rparr> 0
            (InMemory (limiter_new 0 0))
          = ((if fst (limiter_check (limiter_new 0 0) ''::1'' 0) then Inr () else Inl TOO_MANY_REQUESTS), InMemory m')
        \<and> (\<forall>other. other \<noteq> ''::1'' \<longrightarrow> buckets m' other = buckets (limiter_new 0 0) other)
        \<and> buckets m' ''::1'' \<noteq> None"
  by (rule auth_limiter_charges_edge_address [where h = "'' ::1''"])
     (simp_all add: header_to_str_def trim_def is_space_def)

text \<open>
  The other order of the fallbacks: the comment promises the socket peer only when neither
  header is present, but a \<^verbatim>\<open>CF-Connecting-IP\<close> that is text and is not an address hides a good
  \<^verbatim>\<open>X-Forwarded-For\<close>, and the request is charged to the socket peer, which is the address
  all the clients of the tunnel share.
\<close>

theorem client_ip_bad_edge_header:
  "client_ip parse \<lparr>cf_connecting_ip = Some ''unknown'', x_forwarded_for = xff, connect_info = peer\<rparr>
     = or_else (parse ''unknown'') peer"
proof -
  have "header_to_str ''unknown'' = Some ''unknown''" "trim ''unknown'' = ''unknown''"
    by (simp_all add: header_to_str_def trim_def is_space_def)
  then show ?thesis by (simp add: client_ip_def or_else_def)
qed

end
