(* ===== verification/Tarpit.thy ===== *)
theory Tarpit
  imports Prelude
begin

text \<open>
  \<^verbatim>\<open>tarpit.rs\<close>: the honeypot routes, their configuration, the semaphore that bounds how many
  connections are kept dripping, and the life of those connections as a step relation:
  requests arrive, streams yield a byte, end, or are dropped by the client, in any order.
\<close>

section \<open>Configuration\<close>

definition HONEYPOT_PATHS :: "string list" where
  "HONEYPOT_PATHS =
     [''/.env'', ''/.git/config'', ''/.aws/credentials'', ''/wp-login.php'', ''/wp-admin'',
      ''/phpmyadmin'', ''/admin.php'', ''/config.php'', ''/server-status'']"

record tarpit_config =
  enabled :: bool
  max_concurrent :: nat
  drip_interval :: timestamp
  max_bytes :: nat

definition tarpit_default :: tarpit_config where
  "tarpit_default =
     \<lparr>enabled = True, max_concurrent = 256, drip_interval = 500000, max_bytes = 512\<rparr>"

text \<open>\<^verbatim>\<open>TARPIT_ENABLED\<close>, when it is set to text; otherwise the trap is on.\<close>

definition tarpit_from_env :: "string option \<Rightarrow> tarpit_config" where
  "tarpit_from_env v =
     tarpit_default\<lparr>enabled := (case v of None \<Rightarrow> True | Some s \<Rightarrow> s \<noteq> ''false'' \<and> s \<noteq> ''0'')\<rparr>"

section \<open>The trap\<close>

record tarpit =
  config :: tarpit_config
  sem :: nat

datatype tarpit_decision = Trap | Decline

definition tarpit_new :: "tarpit_config \<Rightarrow> tarpit" where
  "tarpit_new c = \<lparr>config = c, sem = max_concurrent c\<rparr>"

definition available :: "tarpit \<Rightarrow> nat" where
  "available t = sem t"

text \<open>\<open>Trap\<close> carries a permit: the semaphore has one less until it is dropped.\<close>

definition try_trap :: "tarpit \<Rightarrow> tarpit_decision \<times> tarpit" where
  "try_trap t =
     (if \<not> enabled (config t) then (Decline, t)
      else case sem t of
             0 \<Rightarrow> (Decline, t)
           | Suc n \<Rightarrow> (Trap, t\<lparr>sem := n\<rparr>))"

definition drop_permit :: "tarpit \<Rightarrow> tarpit" where
  "drop_permit t = t\<lparr>sem := Suc (sem t)\<rparr>"

text \<open>The handler answers with a status and, when it traps, a body whose stream has
  \<open>max_bytes\<close> iterations to go and owns the permit.\<close>

definition trap_handler :: "tarpit \<Rightarrow> (status \<times> nat option) \<times> tarpit" where
  "trap_handler t =
     (case try_trap t of
        (Decline, t') \<Rightarrow> ((NOT_FOUND, None), t')
      | (Trap, t') \<Rightarrow> ((OK, Some (max_bytes (config t))), t'))"

text \<open>One poll of the stream after its sleep: a byte and the iterations left, or the end.\<close>

fun drip :: "nat \<Rightarrow> (string \<times> nat) option" where
  "drip 0 = None"
| "drip (Suc n) = Some (''.'', n)"

section \<open>The connections\<close>

text \<open>A server: the trap, the live streams by connection, and the bytes each connection was sent.\<close>

record server =
  trap :: tarpit
  live :: "(nat \<times> nat) list"
  sent :: "nat \<Rightarrow> nat"

definition server_init :: "tarpit_config \<Rightarrow> server \<Rightarrow> bool" where
  "server_init c s \<longleftrightarrow> s = \<lparr>trap = tarpit_new c, live = [], sent = (\<lambda>_. 0)\<rparr>"

datatype event = Arrive nat | Byte nat | End nat | Disconnect nat

inductive server_step :: "event \<Rightarrow> server \<Rightarrow> server \<Rightarrow> bool" where
  declined: "trap_handler (trap s) = ((st, None), t) \<Longrightarrow> server_step (Arrive c) s (s\<lparr>trap := t\<rparr>)"
| trapped: "trap_handler (trap s) = ((st, Some n), t) \<Longrightarrow> c \<notin> fst ` set (live s) \<Longrightarrow> sent s c = 0
     \<Longrightarrow> server_step (Arrive c) s (s\<lparr>trap := t, live := (c, n) # live s\<rparr>)"
| byte: "live s = us @ (c, n) # vs \<Longrightarrow> drip n = Some (b, n')
     \<Longrightarrow> server_step (Byte c) s (s\<lparr>live := us @ (c, n') # vs, sent := (sent s)(c := sent s c + length b)\<rparr>)"
| finish: "live s = us @ (c, n) # vs \<Longrightarrow> drip n = None
     \<Longrightarrow> server_step (End c) s (s\<lparr>trap := drop_permit (trap s), live := us @ vs\<rparr>)"
| disconnect: "live s = us @ (c, n) # vs
     \<Longrightarrow> server_step (Disconnect c) s (s\<lparr>trap := drop_permit (trap s), live := us @ vs\<rparr>)"

inductive_cases server_stepE: "server_step e s t"

definition server_inv :: "tarpit_config \<Rightarrow> server \<Rightarrow> bool" where
  "server_inv cfg s \<longleftrightarrow>
     config (trap s) = cfg
     \<and> sem (trap s) + length (live s) = max_concurrent cfg
     \<and> (\<forall>(c, n) \<in> set (live s). sent s c + n = max_bytes cfg)
     \<and> (\<forall>c. sent s c \<le> max_bytes cfg)
     \<and> distinct (map fst (live s))
     \<and> (\<not> enabled cfg \<longrightarrow> live s = [])"

lemma drip_cases: "drip n = Some (b, n') \<longleftrightarrow> n = Suc n' \<and> b = ''.''" "drip n = None \<longleftrightarrow> n = 0"
  by (cases n; auto)+

lemma trap_handler_declines:
  "trap_handler t = ((st, None), t') \<longleftrightarrow>
     st = NOT_FOUND \<and> t' = t \<and> (\<not> enabled (config t) \<or> sem t = 0)"
  by (cases "sem t") (auto simp: trap_handler_def try_trap_def)

lemma trap_handler_traps:
  "trap_handler t = ((st, Some n), t') \<longleftrightarrow>
     st = OK \<and> n = max_bytes (config t) \<and> enabled (config t) \<and> sem t = Suc (sem t')
     \<and> t' = t\<lparr>sem := sem t'\<rparr>"
  by (cases "sem t") (auto simp: trap_handler_def try_trap_def)

lemma trap_handler_config: "config (snd (trap_handler t)) = config t"
  by (simp add: trap_handler_def try_trap_def split: nat.split prod.split)

lemma server_inv_step:
  assumes inv: "server_inv cfg s" and step: "server_step e s t"
  shows "server_inv cfg t"
  using step
proof cases
  case (declined st t' c)
  then show ?thesis using inv by (simp add: trap_handler_declines)
next
  case (trapped st n t' c)
  then have "config t' = cfg" "cfg = config (trap s)"
    using inv trap_handler_config [of "trap s"] by (simp_all add: server_inv_def)
  with trapped show ?thesis using inv by (auto simp: trap_handler_traps server_inv_def)
next
  case (byte us c n vs b n')
  have dist: "distinct (map fst (us @ (c, n) # vs))" and sum: "sent s c + n = max_bytes cfg"
    using inv byte by (auto simp: server_inv_def)
  have "sent t c' + m = max_bytes cfg" if "(c', m) \<in> set us \<union> set vs" for c' m
  proof -
    have "c' \<noteq> c" using dist that by (auto simp: image_iff)
    moreover have "sent s c' + m = max_bytes cfg"
      using inv byte that by (auto simp: server_inv_def dest: bspec [of _ _ "(c', m)"])
    ultimately show ?thesis using byte by simp
  qed
  moreover have "sent t c + n' = max_bytes cfg" "sent t c' \<le> max_bytes cfg" for c'
    using sum byte inv by (auto simp: drip_cases server_inv_def)
  ultimately have "\<forall>(c, n) \<in> set (live t). sent t c + n = max_bytes cfg" "\<forall>c. sent t c \<le> max_bytes cfg"
    using byte by auto
  then show ?thesis using inv byte unfolding server_inv_def by auto
next
  case (finish us c n vs)
  then show ?thesis using inv by (auto simp: drip_cases server_inv_def drop_permit_def)
next
  case (disconnect us c n vs)
  then show ?thesis using inv by (auto simp: server_inv_def drop_permit_def)
qed

interpretation tar: invariant_system "server_init cfg" "\<lambda>s t. \<exists>e. server_step e s t" "server_inv cfg" for cfg
proof unfold_locales
  show "server_init cfg s \<Longrightarrow> server_inv cfg s" for s
    by (simp add: server_init_def server_inv_def tarpit_new_def)
qed (blast intro: server_inv_step)

text \<open>
  C35. However arrivals, bytes, ends and disconnections interleave, the permits out are exactly
  the live streams, at most \<open>max_concurrent\<close> of them, and no connection is ever sent more than
  \<open>max_bytes\<close> bytes.
\<close>

theorem tarpit_bounded:
  assumes "reach (server_init cfg) (\<lambda>s t. \<exists>e. server_step e s t) s"
  shows "available (trap s) + length (live s) = max_concurrent cfg \<and> sent s c \<le> max_bytes cfg"
  using tar.reach_inv [OF assms] by (simp add: server_inv_def available_def)

theorem tarpit_bounded_witness:
  "let s = \<lparr>trap = \<lparr>config = tarpit_default, sem = 255\<rparr>, live = [(7, 512)], sent = (\<lambda>_. 0)\<rparr>
   in available (trap s) + length (live s) = max_concurrent tarpit_default
      \<and> sent s 7 \<le> max_bytes tarpit_default"
proof -
  let ?s = "\<lparr>trap = \<lparr>config = tarpit_default, sem = 255\<rparr>, live = [(7, 512)], sent = (\<lambda>_. 0)\<rparr>"
  let ?i = "\<lparr>trap = tarpit_new tarpit_default, live = [], sent = (\<lambda>_. 0)\<rparr>"
  have "trap_handler (trap ?i) = ((OK, Some 512), \<lparr>config = tarpit_default, sem = 255\<rparr>)"
    by (simp add: trap_handler_traps tarpit_new_def tarpit_default_def)
  from trapped [OF this, of 7] have "server_step (Arrive 7) ?i ?s" by simp
  then have "reach (server_init tarpit_default) (\<lambda>s t. \<exists>e. server_step e s t) ?s"
    by (intro reach_step [OF reach_init, of _ ?i]) (auto simp: server_init_def)
  from tarpit_bounded [OF this, of 7] show ?thesis by (simp only: Let_def)
qed

text \<open>
  The handler traps exactly when the trap is on and fewer than \<open>max_concurrent\<close> connections
  are held; otherwise it answers 404 and takes nothing.
\<close>

theorem tarpit_decision_exact:
  assumes "reach (server_init cfg) (\<lambda>s t. \<exists>e. server_step e s t) s"
  shows "trap_handler (trap s) =
     (if enabled cfg \<and> length (live s) < max_concurrent cfg
      then ((OK, Some (max_bytes cfg)), (trap s)\<lparr>sem := sem (trap s) - 1\<rparr>)
      else ((NOT_FOUND, None), trap s))"
proof -
  have "server_inv cfg s" using tar.reach_inv [OF assms] .
  then show ?thesis
    by (cases "sem (trap s)") (auto simp: server_inv_def trap_handler_def try_trap_def)
qed

theorem tarpit_decision_exact_witness:
  "trap_handler (tarpit_new (tarpit_from_env (Some ''0''))) = ((NOT_FOUND, None), tarpit_new (tarpit_from_env (Some ''0'')))"
proof -
  let ?cfg = "tarpit_from_env (Some ''0'')"
  have "reach (server_init ?cfg) (\<lambda>s t. \<exists>e. server_step e s t)
          \<lparr>trap = tarpit_new ?cfg, live = [], sent = (\<lambda>_. 0)\<rparr>"
    by (rule reach_init) (simp add: server_init_def)
  from tarpit_decision_exact [OF this] show ?thesis by (simp add: tarpit_from_env_def)
qed

section \<open>The held connections always end\<close>

definition work_left :: "server \<Rightarrow> nat" where
  "work_left s = (\<Sum>(c, n) \<leftarrow> live s. Suc n)"

fun is_arrival :: "event \<Rightarrow> bool" where
  "is_arrival (Arrive c) = True"
| "is_arrival _ = False"

lemma work_decreases: "server_step e s t \<Longrightarrow> \<not> is_arrival e \<Longrightarrow> work_left t < work_left s"
  by (erule server_stepE) (auto simp: work_left_def drip_cases)

inductive server_run :: "event list \<Rightarrow> server \<Rightarrow> server \<Rightarrow> bool" where
  idle: "server_run [] s s"
| act: "server_step e s t \<Longrightarrow> server_run es t u \<Longrightarrow> server_run (e # es) s u"

lemma run_work: "server_run es s t \<Longrightarrow> list_all (\<lambda>e. \<not> is_arrival e) es \<Longrightarrow> length es + work_left t \<le> work_left s"
  by (induction rule: server_run.induct) (auto dest: work_decreases)

lemma work_bound: "server_inv cfg s \<Longrightarrow> work_left s \<le> Suc (max_bytes cfg) * max_concurrent cfg"
proof -
  assume inv: "server_inv cfg s"
  have "x \<le> Suc (max_bytes cfg)" if "x \<in> set (map (\<lambda>(c, n). Suc n) (live s))" for x
    using that inv by (fastforce simp: server_inv_def)
  then have "work_left s \<le> length (live s) * Suc (max_bytes cfg)"
    using sum_list_mono [of "live s" "\<lambda>(c, n). Suc n" "\<lambda>_. Suc (max_bytes cfg)"]
    by (auto simp: work_left_def sum_list_triv)
  also have "\<dots> \<le> max_concurrent cfg * Suc (max_bytes cfg)"
    using inv by (intro mult_right_mono) (auto simp: server_inv_def)
  finally show ?thesis by (simp add: mult.commute)
qed

text \<open>
  C36. The origin gets its capacity back: from any reachable state, without new arrivals at most
  \<open>(max_bytes + 1) * max_concurrent\<close> events (bytes sent, streams ended, clients gone) can still happen, in any order; as long
  as a stream is held its next byte or its end can happen, whatever the clients do, so when neither can, no stream is left
  and every permit is free.
\<close>

theorem tarpit_drains:
  assumes "reach (server_init cfg) (\<lambda>s t. \<exists>e. server_step e s t) s"
    and "server_run es s t" "list_all (\<lambda>e. \<not> is_arrival e) es"
  shows "length es \<le> Suc (max_bytes cfg) * max_concurrent cfg
       \<and> ((\<nexists>c u. server_step (Byte c) t u \<or> server_step (End c) t u) \<longrightarrow>
            live t = [] \<and> available (trap t) = max_concurrent cfg)"
proof (intro conjI impI)
  have inv: "server_inv cfg s" using tar.reach_inv [OF assms(1)] .
  show "length es \<le> Suc (max_bytes cfg) * max_concurrent cfg"
    using run_work [OF assms(2,3)] work_bound [OF inv] by simp
  have inv_t: "server_inv cfg t"
    using assms(2) inv by (induction rule: server_run.induct) (auto intro: server_inv_step)
  assume stuck: "\<nexists>c u. server_step (Byte c) t u \<or> server_step (End c) t u"
  show free: "live t = []"
  proof (rule ccontr)
    assume "live t \<noteq> []"
    then obtain c n vs where "live t = [] @ (c, n) # vs" by (cases "live t") auto
    then show False
      using stuck byte [of t "[]" c n vs] finish [of t "[]" c n vs] by (cases n) (fastforce simp: drip_cases)+
  qed
  show "available (trap t) = max_concurrent cfg"
    using inv_t free by (simp add: server_inv_def available_def)
qed

text \<open>Two streams of a trap for two, with a budget of one byte: one is sent its byte and ends, the other client leaves.\<close>

theorem tarpit_drains_witness:
  "let cfg = tarpit_default\<lparr>max_concurrent := 2, max_bytes := 1\<rparr>; full = \<lparr>config = cfg, sem = 0\<rparr>;
       s = \<lparr>trap = full, live = [(8, 1), (7, 1)], sent = (\<lambda>_. 0)\<rparr>;
       t = \<lparr>trap = full\<lparr>sem := 2\<rparr>, live = [], sent = (\<lambda>_. 0)(7 := 1)\<rparr>
   in reach (server_init cfg) (\<lambda>s t. \<exists>e. server_step e s t) s \<and> server_run [Byte 7, Disconnect 8, End 7] s t
      \<and> length [Byte 7, Disconnect 8, End 7] \<le> Suc (max_bytes cfg) * max_concurrent cfg
      \<and> available (trap t) = max_concurrent cfg"
proof -
  let ?cfg = "tarpit_default\<lparr>max_concurrent := 2, max_bytes := 1\<rparr>"
  let ?s = "\<lambda>n vs f. \<lparr>trap = \<lparr>config = ?cfg, sem = n\<rparr>, live = vs, sent = f\<rparr>"
  let ?one = "(\<lambda>_. 0 :: nat)(7 := 1)"
  have first: "server_step (Arrive 7) (?s 2 [] (\<lambda>_. 0)) (?s 1 [(7, 1)] (\<lambda>_. 0))"
    using trapped [of "?s 2 [] (\<lambda>_. 0)" OK 1 "\<lparr>config = ?cfg, sem = 1\<rparr>" 7] by (simp add: trap_handler_traps tarpit_default_def)
  have second: "server_step (Arrive 8) (?s 1 [(7, 1)] (\<lambda>_. 0)) (?s 0 [(8, 1), (7, 1)] (\<lambda>_. 0))"
    using trapped [of "?s 1 [(7, 1)] (\<lambda>_. 0)" OK 1 "\<lparr>config = ?cfg, sem = 0\<rparr>" 8] by (simp add: trap_handler_traps tarpit_default_def)
  let ?reach = "reach (server_init ?cfg) (\<lambda>s t. \<exists>e. server_step e s t)"
  have init: "server_init ?cfg (?s 2 [] (\<lambda>_. 0))" by (simp add: server_init_def tarpit_new_def)
  have "?reach (?s 2 [] (\<lambda>_. 0))" using init by (rule reach_init)
  then have "?reach (?s 1 [(7, 1)] (\<lambda>_. 0))" by (rule reach_step) (rule exI, rule first)
  then have r: "?reach (?s 0 [(8, 1), (7, 1)] (\<lambda>_. 0))" by (rule reach_step) (rule exI, rule second)
  have drop1: "server_step (Byte 7) (?s 0 [(8, 1), (7, 1)] (\<lambda>_. 0)) (?s 0 [(8, 1), (7, 0)] ?one)"
    using byte [of "?s 0 [(8, 1), (7, 1)] (\<lambda>_. 0)" "[(8, 1)]" 7 1 "[]" "''.''" 0] by (simp add: drip_cases)
  have drop2: "server_step (Disconnect 8) (?s 0 [(8, 1), (7, 0)] ?one) (?s 1 [(7, 0)] ?one)"
    using disconnect [of "?s 0 [(8, 1), (7, 0)] ?one" "[]" 8 1 "[(7, 0)]"] by (simp add: drop_permit_def)
  have drop3: "server_step (End 7) (?s 1 [(7, 0)] ?one) (?s 2 [] ?one)"
    using finish [of "?s 1 [(7, 0)] ?one" "[]" 7 0 "[]"] by (simp add: drip_cases drop_permit_def numeral_2_eq_2)
  have run: "server_run [Byte 7, Disconnect 8, End 7] (?s 0 [(8, 1), (7, 1)] (\<lambda>_. 0)) (?s 2 [] ?one)"
    by (rule act [OF drop1 act [OF drop2 act [OF drop3 idle]]])
  have "\<nexists>c u. server_step (Byte c) (?s 2 [] ?one) u \<or> server_step (End c) (?s 2 [] ?one) u" by (auto elim!: server_stepE)
  then show ?thesis using tarpit_drains [OF r run] r run by simp
qed

end
