(* ===== verification/Json.thy ===== *)
theory Json
  imports Complex_Main "HOL-Library.AList"
begin

text \<open>
  JSON values as \<^verbatim>\<open>serde_json::Value\<close> holds them. A finite \<^verbatim>\<open>f64\<close> is a rational; the members of an
  object are a list of pairs with the last assignment of a key in front.
\<close>

datatype json = JNull | JBool bool | JNum rat | JStr string | JArr "json list" | JObj "(string \<times> json) list"

text \<open>\<^verbatim>\<open>v.get(key)\<close>, \<^verbatim>\<open>v.as_str()\<close>, \<^verbatim>\<open>v[key] = x\<close> on an object, and \<^verbatim>\<open>json!\<close> of an option.\<close>

fun json_get :: "string \<Rightarrow> json \<Rightarrow> json option" where
  "json_get k (JObj ms) = map_of ms k"
| "json_get k _ = None"

fun json_str :: "json \<Rightarrow> string option" where
  "json_str (JStr s) = Some s"
| "json_str _ = None"

fun json_set :: "string \<Rightarrow> json \<Rightarrow> json \<Rightarrow> json" where
  "json_set k x (JObj ms) = JObj (AList.update k x ms)"
| "json_set k x v = v"

definition json_opt :: "('a \<Rightarrow> json) \<Rightarrow> 'a option \<Rightarrow> json" where
  "json_opt f v = (case v of None \<Rightarrow> JNull | Some x \<Rightarrow> f x)"

lemma json_get_set: "json_get k v \<noteq> None \<Longrightarrow> json_get k' (json_set k x v) = (if k' = k then Some x else json_get k' v)"
  by (cases v) (auto simp: AList.update_conv')

lemma json_get_set_same [simp]: "json_get k (json_set k x (JObj ms)) = Some x"
  by (simp add: AList.update_conv')

lemma json_get_set_other [simp]: "k' \<noteq> k \<Longrightarrow> json_get k' (json_set k x v) = json_get k' v"
  by (cases v) (simp_all add: AList.update_conv')

end
