(* ===== verification/EnterpriseTables.thy ===== *)
theory EnterpriseTables
  imports Prelude Json
begin

text \<open>
  The tables of the enterprise catalogue (migration 0017): experiments, translations, content, legal documents,
  campaigns, templates of notifications, abuse rules, API keys, webhook subscriptions and versions of the configuration.
  They are one component of the tables of the staff area.
\<close>

record experiment_row =
  xp_id :: uuid
  xp_key :: string
  xp_name :: string
  xp_description :: "string option"
  xp_variants :: json
  xp_enabled :: bool
  xp_start_at :: "timestamp option"
  xp_end_at :: "timestamp option"
  xp_created_at :: timestamp
  xp_updated_at :: timestamp

record translation =
  xl_id :: uuid
  xl_locale :: string
  xl_key :: string
  xl_value :: string

record cms_content =
  ct_id :: uuid
  ct_key :: string
  ct_content_type :: string
  ct_title :: "string option"
  ct_body :: string
  ct_locale :: string
  ct_active :: bool
  ct_publish_at :: "timestamp option"
  ct_expire_at :: "timestamp option"
  ct_created_at :: timestamp
  ct_updated_at :: timestamp
  ct_updated_by :: "uuid option"

record legal_doc =
  lg_id :: uuid
  lg_doc_type :: string
  lg_version :: string
  lg_title :: string
  lg_body :: string
  lg_published_at :: timestamp
  lg_created_by :: uuid

record campaign =
  cg_id :: uuid
  cg_name :: string
  cg_campaign_type :: string
  cg_title :: "string option"
  cg_body :: string
  cg_target_segment :: "json option"
  cg_scheduled_at :: "timestamp option"
  cg_sent_at :: "timestamp option"
  cg_status :: string
  cg_created_at :: timestamp
  cg_created_by :: "uuid option"

record notification_template =
  nt_id :: uuid
  nt_key :: string
  nt_name :: string
  nt_channel :: string
  nt_title_template :: string
  nt_body_template :: string
  nt_active :: bool
  nt_created_at :: timestamp
  nt_updated_at :: timestamp

record abuse_rule =
  ru_id :: uuid
  ru_name :: string
  ru_rule_type :: string
  ru_config :: json
  ru_action :: string
  ru_enabled :: bool
  ru_created_at :: timestamp
  ru_updated_at :: timestamp

record api_key =
  ak_id :: uuid
  ak_name :: string
  ak_key_hash :: string
  ak_key_prefix :: string
  ak_permissions :: "string list"
  ak_rate_limit_rps :: int
  ak_active :: bool
  ak_created_by :: "uuid option"
  ak_last_used_at :: "timestamp option"
  ak_created_at :: timestamp
  ak_expires_at :: "timestamp option"

record webhook_subscription =
  wh_id :: uuid
  wh_name :: string
  wh_url :: string
  wh_events :: "string list"
  wh_secret :: "string option"
  wh_active :: bool
  wh_created_at :: timestamp
  wh_updated_at :: timestamp
  wh_created_by :: "uuid option"

record config_version =
  vn_id :: uuid
  vn_entity_type :: string
  vn_entity_key :: string
  vn_previous_value :: json
  vn_new_value :: json
  vn_changed_by :: uuid
  vn_rolled_back :: bool
  vn_created_at :: timestamp

record enterprise =
  experiments :: "experiment_row list"
  translation_rows :: "translation list"
  cms_contents :: "cms_content list"
  legal_doc_versions :: "legal_doc list"
  campaigns :: "campaign list"
  notification_templates :: "notification_template list"
  abuse_rules :: "abuse_rule list"
  api_keys :: "api_key list"
  webhook_subscriptions :: "webhook_subscription list"
  config_versions :: "config_version list"

definition empty_enterprise :: enterprise where
  "empty_enterprise = \<lparr>experiments = [], translation_rows = [], cms_contents = [], legal_doc_versions = [], campaigns = [],
     notification_templates = [], abuse_rules = [], api_keys = [], webhook_subscriptions = [], config_versions = []\<rparr>"

end
