(* ===== verification/OfficeTables.thy ===== *)
theory OfficeTables
  imports EnterpriseTables
begin

text \<open>
  The tables behind the staff area (migrations 0002, 0007, 0008 and 0011 to 0015): staff accounts,
  their sessions and permissions, the audit log, what staff members decide about users and configure, and
  the devices and access events they look up. They are one component of the database.
\<close>

record staff_rec =
  sf_id :: uuid
  sf_email :: string
  sf_password_hash :: string
  sf_totp_secret_enc :: "8 word list"
  sf_recovery_codes_hash :: "string list"
  sf_role :: string
  sf_status :: string
  sf_failed_login_count :: int
  sf_locked_until :: "timestamp option"
  sf_last_login_at :: "timestamp option"
  sf_last_login_ip :: "string option"
  sf_created_at :: timestamp

record staff_session =
  ss_id :: uuid
  ss_staff :: uuid
  ss_expires_at :: timestamp
  ss_revoked_at :: "timestamp option"
  ss_revoked_reason :: "string option"
  ss_ip :: "string option"
  ss_user_agent :: "string option"
  ss_last_seen_at :: timestamp

record role_permission =
  pm_role :: string
  pm_permission :: string
  pm_requires_justification :: bool

record audit_entry =
  au_id :: nat
  au_staff :: "uuid option"
  au_session :: "uuid option"
  au_action :: string
  au_target :: "string option"
  au_justification :: "string option"
  au_legal_basis :: "string option"
  au_metadata :: "json option"
  au_created_at :: timestamp

record moderation_action =
  ma_id :: uuid
  ma_staff :: uuid
  ma_target_user :: uuid
  ma_action :: string
  ma_note :: "string option"
  ma_created_at :: timestamp

record csam_hit =
  ch_id :: uuid
  ch_photo :: "uuid option"
  ch_hash :: "string option"
  ch_source :: "string option"
  ch_status :: string
  ch_matched_at :: timestamp
  ch_reported_at :: "timestamp option"
  ch_notes :: "string option"

record entitlement =
  en_user :: uuid
  en_feature :: string
  en_enabled :: bool

record data_request =
  dr_id :: uuid
  dr_user :: uuid
  dr_kind :: string
  dr_status :: string
  dr_requested_at :: timestamp
  dr_completed_at :: "timestamp option"

record legal_hold =
  lh_id :: uuid
  lh_user :: uuid
  lh_placed_by :: uuid
  lh_reason :: string
  lh_reference :: "string option"
  lh_placed_at :: timestamp
  lh_released_at :: "timestamp option"
  lh_released_by :: "uuid option"
  lh_release_reason :: "string option"

record feature_flag =
  ff_key :: string
  ff_value :: json
  ff_description :: "string option"
  ff_enabled :: bool
  ff_created_at :: timestamp
  ff_updated_at :: timestamp
  ff_updated_by :: "uuid option"

record config_entry =
  ce_key :: string
  ce_value :: json
  ce_description :: "string option"
  ce_updated_at :: timestamp
  ce_updated_by :: "uuid option"

record country_config =
  cc_country_code :: string
  cc_name :: string
  cc_enabled :: bool
  cc_disabled_features :: "string list"
  cc_min_age :: int
  cc_requires_explicit_consent :: bool
  cc_data_retention_days :: "int option"
  cc_force_discreet_mode :: bool
  cc_hide_sensitive_fields :: bool
  cc_hide_distance :: bool
  cc_geo_restricted :: bool
  cc_restricted_features :: "string list"
  cc_travel_warning :: "string option"

record device =
  dv_id :: uuid
  dv_user :: uuid
  dv_platform :: "string option"
  dv_push_token :: "string option"
  dv_last_seen_at :: "timestamp option"
  dv_created_at :: timestamp

record access_event =
  ae_id :: uuid
  ae_user :: uuid
  ae_event :: string
  ae_ip :: "string option"
  ae_user_agent :: "string option"
  ae_created_at :: timestamp

record office =
  staff :: "staff_rec list"
  staff_sessions :: "staff_session list"
  role_permissions :: "role_permission list"
  audit_log :: "audit_entry list"
  moderation_actions :: "moderation_action list"
  csam_hits :: "csam_hit list"
  entitlements :: "entitlement list"
  data_requests :: "data_request list"
  legal_holds :: "legal_hold list"
  feature_flags :: "feature_flag list"
  app_config :: "config_entry list"
  country_configs :: "country_config list"
  devices :: "device list"
  access_events :: "access_event list"
  enterprise :: enterprise

definition empty_office :: office where
  "empty_office = \<lparr>staff = [], staff_sessions = [], role_permissions = [], audit_log = [], moderation_actions = [],
     csam_hits = [], entitlements = [], data_requests = [], legal_holds = [], feature_flags = [], app_config = [],
     country_configs = [], devices = [], access_events = [], enterprise = empty_enterprise\<rparr>"

end
