(* ===== verification/GalleryTables.thy ===== *)
theory GalleryTables
  imports Prelude Json
begin

text \<open>
  The tables of albums, stories, events and verification (migrations 0006, 0019, 0025, 0037 and 0041). They are one
  component of the database; the photos themselves are a table of \<open>World\<close>.
\<close>

record album =
  al_id :: uuid
  al_owner :: uuid
  al_name :: "string option"
  al_description :: "string option"
  al_is_private :: bool
  al_created_at :: timestamp

record album_photo =
  ap_album :: uuid
  ap_photo :: uuid
  ap_position :: int

record album_share =
  sh_album :: uuid
  sh_user :: uuid
  sh_granted_at :: timestamp
  sh_revoked_at :: "timestamp option"
  sh_expires_at :: "timestamp option"

record story =
  so_id :: uuid
  so_user :: uuid
  so_media_key :: string
  so_media_type :: string
  so_caption :: "string option"
  so_created_at :: timestamp
  so_expires_at :: timestamp

record story_view =
  sv_story :: uuid
  sv_user :: uuid
  sv_viewed_at :: timestamp

record event_rec =
  evt_id :: uuid
  evt_creator :: uuid
  evt_title :: string
  evt_description :: "string option"
  evt_location_name :: string
  evt_lat :: rat
  evt_lon :: rat
  evt_starts_at :: timestamp
  evt_ends_at :: "timestamp option"
  evt_max_attendees :: int
  evt_created_at :: timestamp

record attendee =
  att_event :: uuid
  att_user :: uuid
  att_status :: string
  att_created_at :: timestamp

record verification_request =
  vr_id :: uuid
  vr_user :: uuid
  vr_photo_key :: string
  vr_status :: string
  vr_created_at :: timestamp
  vr_reviewed_at :: "timestamp option"

record gallery =
  albums :: "album list"
  album_photos :: "album_photo list"
  album_shares :: "album_share list"
  stories :: "story list"
  story_views :: "story_view list"
  events :: "event_rec list"
  event_attendees :: "attendee list"
  verification_requests :: "verification_request list"

definition empty_gallery :: gallery where
  "empty_gallery = \<lparr>albums = [], album_photos = [], album_shares = [], stories = [], story_views = [], events = [],
     event_attendees = [], verification_requests = []\<rparr>"

end
