(* ===== verification/PeopleTables.thy ===== *)
theory PeopleTables
  imports Prelude Json
begin

text \<open>
  The tables around a profile (migrations 0003, 0004, 0005, 0022, 0023 and 0024): its lists, who viewed it, where its
  owner is, and the saved phrases, places, boosts, intents and screenshot alerts. They are one component of the
  database; \<^verbatim>\<open>profiles\<close> itself is a table of \<open>World\<close>. A point of \<^verbatim>\<open>geography(Point, 4326)\<close> is its
  longitude and latitude.
\<close>

text \<open>Each list of a profile is a set of (user, value) rows with that pair as primary key.\<close>

type_synonym label_row = "uuid \<times> string"

record profile_view =
  pw_id :: uuid
  pw_viewer :: uuid
  pw_target :: uuid
  pw_viewed_at :: timestamp

record location_row =
  lo_user :: uuid
  lo_lon :: rat
  lo_lat :: rat
  lo_accuracy :: "rat option"
  lo_show_distance :: bool
  lo_incognito :: bool
  lo_updated_at :: timestamp

record boost =
  bo_id :: uuid
  bo_user :: uuid
  bo_started_at :: timestamp
  bo_expires_at :: timestamp
  bo_source :: string

record saved_phrase =
  sp_id :: uuid
  sp_user :: uuid
  sp_phrase :: string
  sp_position :: int
  sp_created_at :: timestamp

record saved_place =
  sl_id :: uuid
  sl_user :: uuid
  sl_name :: string
  sl_lat :: rat
  sl_lon :: rat
  sl_is_default :: bool
  sl_created_at :: timestamp

record location_pref =
  lp_user :: uuid
  lp_lat :: rat
  lp_lon :: rat
  lp_place_name :: "string option"
  lp_is_roam :: bool
  lp_updated_at :: timestamp

record right_now_intent =
  rn_id :: uuid
  rn_user :: uuid
  rn_body :: string
  rn_expires_at :: timestamp
  rn_created_at :: timestamp

record screenshot_alert =
  sa_id :: uuid
  sa_user :: uuid
  sa_conversation :: uuid
  sa_reported_at :: timestamp

record people =
  profile_tribes :: "label_row list"
  profile_looking_for :: "label_row list"
  profile_meet_at :: "label_row list"
  profile_tags :: "label_row list"
  profile_views :: "profile_view list"
  locations :: "location_row list"
  boosts :: "boost list"
  saved_phrases :: "saved_phrase list"
  saved_places :: "saved_place list"
  user_location_pref :: "location_pref list"
  right_now_intents :: "right_now_intent list"
  screenshot_alerts :: "screenshot_alert list"

definition empty_people :: people where
  "empty_people = \<lparr>profile_tribes = [], profile_looking_for = [], profile_meet_at = [], profile_tags = [],
     profile_views = [], locations = [], boosts = [], saved_phrases = [], saved_places = [], user_location_pref = [],
     right_now_intents = [], screenshot_alerts = []\<rparr>"

end
