(* ===== verification/World.thy ===== *)
theory World
  imports Text Validation OfficeTables GalleryTables PeopleTables
begin

text \<open>
  What the handlers run on: the database as lists of rows (the tables of \<^verbatim>\<open>backend/migrations\<close>
  that the modelled queries touch), the clock, the other connections that use the database at
  the same time, the random numbers drawn, and the messages sent. \<open>app\<close> is the part of
  \<^verbatim>\<open>AppState\<close> the handlers read: configuration, and the external functions as parameters.
\<close>

section \<open>Tables\<close>

record user_row =
  u_id :: uuid
  u_email :: string
  u_email_verified :: bool
  u_status :: string
  u_role :: string
  u_created_at :: timestamp

record user_rec = user_row +
  u_password_hash :: "string option"
  u_phone :: "string option"
  u_phone_verified :: bool
  u_dob :: "date option"
  u_age_verified :: bool
  u_deleted_at :: "timestamp option"
  u_last_seen_at :: "timestamp option"
  u_subscription_tier :: string
  u_onboarding_completed_at :: "timestamp option"
  u_onboarding_skipped_cards :: json
  u_travel_lat :: "rat option"
  u_travel_lon :: "rat option"
  u_travel_city_name :: "string option"
  u_travel_expires_at :: "timestamp option"

record auth_identity =
  ai_user_id :: uuid
  ai_provider :: string
  ai_provider_uid :: string

record refresh_token =
  rt_id :: uuid
  rt_user_id :: uuid
  rt_token_hash :: string
  rt_device_id :: "uuid option"
  rt_issued_at :: timestamp
  rt_expires_at :: timestamp
  rt_revoked_at :: "timestamp option"

record consent =
  cr_id :: uuid
  cr_user_id :: uuid
  cr_kind :: string
  cr_version :: string
  cr_granted_at :: timestamp

record auth_code =
  ac_id :: uuid
  ac_user_id :: uuid
  ac_kind :: string
  ac_code_hash :: string
  ac_expires_at :: timestamp
  ac_consumed_at :: "timestamp option"
  ac_created_at :: timestamp

text \<open>The columns of \<^verbatim>\<open>profiles\<close>: personal data, the flags of visibility, preferences.\<close>

record profile =
  p_user_id :: uuid
  p_display_name :: "string option"
  p_about :: "string option"
  p_position :: "string option"
  p_body_type :: "string option"
  p_height_cm :: "int option"
  p_weight_kg :: "int option"
  p_relationship_status :: "string option"
  p_gender_identity :: "string option"
  p_pronouns :: "string option"
  p_hiv_status :: "string option"
  p_last_tested_on :: "date option"
  p_prep :: "bool option"
  p_birthdate :: "date option"
  p_ethnicity :: "string option"
  p_profile_photo_id :: "uuid option"
  p_profile_photo_key :: "string option"
  p_details :: json
  p_verified :: bool
  p_incognito :: bool
  p_accept_nsfw :: bool
  p_show_age :: bool
  p_show_role :: bool
  p_show_tribes :: bool
  p_show_position :: bool
  p_show_ethnicity :: bool
  p_show_relationship_status :: bool
  p_show_social_links :: bool
  p_multimedia_show_album_updates :: bool
  p_multimedia_show_carousel :: bool
  p_chat_mark_chatted :: bool
  p_chat_sync :: bool
  p_screen_keep_unlocked :: bool
  p_visitor_status :: int
  p_units :: int
  p_verification_submitted_at :: "timestamp option"
  p_notification_prefs :: "json option"
  p_idle_reminder_hours :: "int option"
  p_created_at :: timestamp

record plan_row =
  pl_code :: string
  pl_name :: string
  pl_tier :: int
  pl_active :: bool
  pl_description :: "string option"

record plan_feature_row =
  pf_plan_code :: string
  pf_feature :: string
  pf_enabled :: bool
  pf_limit_value :: "int option"

text \<open>\<^verbatim>\<open>numeric(10,2)\<close> columns are numbers of hundredths.\<close>

record plan_price_row =
  pp_id :: uuid
  pp_plan_code :: string
  pp_country_code :: string
  pp_currency :: string
  pp_price_monthly :: "int option"
  pp_price_yearly :: "int option"
  pp_revenuecat_product_id :: "string option"

record subscription =
  s_id :: uuid
  s_user_id :: uuid
  s_plan_code :: "string option"
  s_price_id :: "uuid option"
  s_period :: "string option"
  s_period_days :: "int option"
  s_source :: string
  s_status :: "string option"
  s_started_at :: timestamp
  s_expires_at :: "timestamp option"
  s_tier :: string
  s_store :: "string option"
  s_revenuecat_id :: "string option"
  s_current_period_end :: "timestamp option"
  s_created_at :: timestamp

text \<open>Social relations: taps, favourites, blocks, reports, and the chat.\<close>

record tap =
  tp_id :: uuid
  tp_from :: uuid
  tp_to :: uuid
  tp_type :: string
  tp_created_at :: timestamp

record favorite =
  fv_user :: uuid
  fv_target :: uuid
  fv_created_at :: timestamp

record block =
  bl_user :: uuid
  bl_target :: uuid
  bl_reason :: "string option"
  bl_created_at :: timestamp

record report =
  rp_id :: uuid
  rp_reporter :: uuid
  rp_target_user :: uuid
  rp_target_kind :: string
  rp_target_id :: "uuid option"
  rp_reason :: "string option"
  rp_status :: string
  rp_created_at :: timestamp
  rp_resolved_at :: "timestamp option"

record photo =
  ph_id :: uuid
  ph_user :: uuid
  ph_r2_key :: string
  ph_blur_key :: "string option"
  ph_position :: int
  ph_is_primary :: bool
  ph_is_nsfw :: bool
  ph_moderation_status :: string
  ph_created_at :: timestamp

record conversation =
  cv_id :: uuid
  cv_created_at :: timestamp
  cv_last_message_at :: "timestamp option"
  cv_is_group :: bool
  cv_name :: "string option"
  cv_created_by :: "uuid option"

record conv_member =
  cm_conversation :: uuid
  cm_user :: uuid
  cm_last_read_at :: "timestamp option"

record chat_message =
  ms_id :: uuid
  ms_conversation :: uuid
  ms_sender :: uuid
  ms_kind :: string
  ms_body :: "string option"
  ms_media_key :: "string option"
  ms_media_type :: "string option"
  ms_caption :: "string option"
  ms_lat :: "rat option"
  ms_lon :: "rat option"
  ms_read_at :: "timestamp option"
  ms_viewed_at :: "timestamp option"
  ms_unsent_at :: "timestamp option"
  ms_created_at :: timestamp

record reaction =
  re_message :: uuid
  re_user :: uuid
  re_emoji :: string
  re_created_at :: timestamp

record db =
  users :: "user_rec list"
  auth_identities :: "auth_identity list"
  refresh_tokens :: "refresh_token list"
  consent_records :: "consent list"
  auth_codes :: "auth_code list"
  profiles :: "profile list"
  plans :: "plan_row list"
  plan_features :: "plan_feature_row list"
  plan_prices :: "plan_price_row list"
  subscriptions :: "subscription list"
  processed_webhook_events :: "(string \<times> string) list"
  taps :: "tap list"
  favorites :: "favorite list"
  blocks :: "block list"
  reports :: "report list"
  conversations :: "conversation list"
  conversation_members :: "conv_member list"
  messages :: "chat_message list"
  message_reactions :: "reaction list"
  photos :: "photo list"
  office :: office
  gallery :: gallery
  people :: people
  next_id :: uuid

text \<open>What \<^verbatim>\<open>sqlx\<close> reports: a constraint of the schema, a value out of range or of the wrong form,
  or anything else.\<close>

datatype db_error = UniqueViolation | ForeignKeyViolation | CheckViolation | DataException | Unavailable

section \<open>One SQL statement\<close>

text \<open>
  A statement is atomic: it reads the transaction clock and the tables, and returns rows with the
  new tables, or an error. Before it runs, the other connections may have changed the tables
  (\<open>others\<close>) and time has passed (\<open>delay\<close>). It is \<open>Served\<close>, or \<open>Refused\<close> without having run, or
  it ran and the answer was lost (\<open>AckLost\<close>), which the caller cannot tell from a refusal.
  When the list of turns is used up, the database serves the rest at once and alone.
\<close>

type_synonym 'a sql = "timestamp \<Rightarrow> db \<Rightarrow> (db_error + 'a) \<times> db"

datatype outcome = Served | Refused | AckLost

record turn =
  delay :: nat
  others :: "db \<Rightarrow> db"
  outcome :: outcome

text \<open>What leaves the server besides answers: mails, short messages, push notifications, the
  frames published to the chat broker, and the HTTP \<^verbatim>\<open>PUT\<close> of an object to the storage (URL and body).\<close>

datatype message = Email string string string | Sms string string | Push uuid string string | Frame json
  | Upload string bytes

record world =
  db :: db
  now :: timestamp
  turns :: "turn list"
  draws :: nat
  outbox :: "message list"

definition next_turn :: "world \<Rightarrow> turn" where
  "next_turn w = (case turns w of [] \<Rightarrow> \<lparr>delay = 0, others = id, outcome = Served\<rparr> | t # _ \<Rightarrow> t)"

text \<open>The world when the statement starts.\<close>

definition take_turn :: "world \<Rightarrow> world" where
  "take_turn w = w\<lparr>turns := tl (turns w), now := now w + int (delay (next_turn w)),
                   db := others (next_turn w) (db w)\<rparr>"

definition stmt :: "'a sql \<Rightarrow> (world, db_error, 'a) prog" where
  "stmt q w =
     (let w' = take_turn w
      in case outcome (next_turn w) of
           Refused \<Rightarrow> (Inl Unavailable, w')
         | Served \<Rightarrow> (case q (now w') (db w') of (r, d) \<Rightarrow> (r, w'\<lparr>db := d\<rparr>))
         | AckLost \<Rightarrow> (case q (now w') (db w') of (r, d) \<Rightarrow> (Inl Unavailable, w'\<lparr>db := d\<rparr>)))"

definition query :: "(timestamp \<Rightarrow> db \<Rightarrow> 'a) \<Rightarrow> (world, db_error, 'a) prog" where
  "query f = stmt (\<lambda>t d. (Inr (f t d), d))"

definition update :: "(timestamp \<Rightarrow> db \<Rightarrow> db) \<Rightarrow> (world, db_error, unit) prog" where
  "update f = stmt (\<lambda>t d. (Inr (), f t d))"

text \<open>\<^verbatim>\<open>OffsetDateTime::now_utc()\<close>, a random draw, and a call of the notifier (whose result every
  caller drops).\<close>

definition now_utc :: "(world, 'e, timestamp) prog" where
  "now_utc w = (Inr (now w), w)"

definition draw :: "(nat \<Rightarrow> 'a) \<Rightarrow> (world, 'e, 'a) prog" where
  "draw f w = (Inr (f (draws w)), w\<lparr>draws := Suc (draws w)\<rparr>)"

definition send :: "message \<Rightarrow> (world, 'e, unit) prog" where
  "send m w = (Inr (), w\<lparr>outbox := outbox w @ [m]\<rparr>)"

section \<open>The application state\<close>

record access_claims =
  cl_sub :: string
  cl_exp :: int
  cl_iat :: int

record oauth_identity =
  provider_uid :: string
  oauth_email :: "string option"

text \<open>
  External code: \<open>citext_key\<close> (the case folding of \<^verbatim>\<open>citext\<close>), SHA-256, Argon2 (hashing with the
  salt of a draw; checking gives \<open>None\<close> for a text that is no PHC string), the JSON web tokens
  of \<^verbatim>\<open>jsonwebtoken\<close> (secret, clock in seconds), the text form of UUIDs, dates, the system's
  random numbers, the check of a provider's id token, \<^verbatim>\<open>OffsetDateTime::from_unix_timestamp\<close>
  (\<open>None\<close> outside its range), the sort key of the database's collation, the RFC 3339 format and
  parser, the serde form of a time, whether push notifications are configured, the operator \<^verbatim>\<open>ILIKE\<close>
  of the database, its reading of a text as \<^verbatim>\<open>inet\<close> (\<open>None\<close> when it is none), the \<^verbatim>\<open>Display\<close> form of a time, and the
  database's reading of a text as \<^verbatim>\<open>numeric(10,2)\<close>, and the length of a JSON value as \<^verbatim>\<open>serde_json\<close> writes it.
\<close>

record app =
  jwt_secret :: string
  access_ttl_secs :: int
  refresh_ttl_secs :: int
  citext_key :: "string \<Rightarrow> string"
  sha256 :: "bytes \<Rightarrow> bytes"
  argon2_hash :: "nat \<Rightarrow> string \<Rightarrow> string option"
  argon2_check :: "string \<Rightarrow> string \<Rightarrow> bool option"
  jwt_encode :: "string \<Rightarrow> access_claims \<Rightarrow> string option"
  jwt_decode :: "string \<Rightarrow> int \<Rightarrow> string \<Rightarrow> access_claims option"
  uuid_text :: "uuid \<Rightarrow> string"
  uuid_parse :: "string \<Rightarrow> uuid option"
  date_of :: "timestamp \<Rightarrow> date"
  parse_date :: "string \<Rightarrow> date option"
  rng_bytes :: "nat \<Rightarrow> bytes"
  rng_code :: "nat \<Rightarrow> nat"
  oauth_verify :: "string \<Rightarrow> string \<Rightarrow> oauth_identity option"
  from_unix :: "int \<Rightarrow> timestamp option"
  collation :: "string \<Rightarrow> string"
  rfc3339 :: "timestamp \<Rightarrow> string option"
  parse_rfc3339 :: "string \<Rightarrow> timestamp option"
  time_json :: "timestamp \<Rightarrow> string"
  fcm_configured :: bool
  ilike :: "string \<Rightarrow> string \<Rightarrow> bool"
  inet_text :: "string \<Rightarrow> string option"
  time_display :: "timestamp \<Rightarrow> string"
  numeric_cents :: "string \<Rightarrow> int option"
  json_size :: "json \<Rightarrow> nat"

definition unix_timestamp :: "timestamp \<Rightarrow> int" where
  "unix_timestamp t = t div micros_per_sec"

section \<open>Reasoning about statements\<close>

lemma wp_stmt:
  "wp (stmt q) Q E w =
     (let w' = take_turn w
      in case outcome (next_turn w) of
           Refused \<Rightarrow> E Unavailable w'
         | Served \<Rightarrow> (case q (now w') (db w') of (Inl e, d) \<Rightarrow> E e (w'\<lparr>db := d\<rparr>) | (Inr x, d) \<Rightarrow> Q x (w'\<lparr>db := d\<rparr>))
         | AckLost \<Rightarrow> E Unavailable (w'\<lparr>db := snd (q (now w') (db w'))\<rparr>))"
  by (auto simp: wp_def stmt_def Let_def split: outcome.split prod.split sum.split)

lemma wp_now_utc [wp_rules]: "wp now_utc Q E w = Q (now w) w"
  by (simp add: wp_def now_utc_def)

lemma wp_draw [wp_rules]: "wp (draw f) Q E w = Q (f (draws w)) (w\<lparr>draws := Suc (draws w)\<rparr>)"
  by (simp add: wp_def draw_def)

lemma wp_send [wp_rules]: "wp (send m) Q E w = Q () (w\<lparr>outbox := outbox w @ [m]\<rparr>)"
  by (simp add: wp_def send_def)

text \<open>
  A world in which the tables satisfy \<open>I\<close> and every change the other connections still make
  keeps it: the assumption under which a property holds for every interleaving.
\<close>

definition stable :: "(db \<Rightarrow> bool) \<Rightarrow> world \<Rightarrow> bool" where
  "stable I w \<longleftrightarrow> I (db w) \<and> (\<forall>t \<in> set (turns w). \<forall>d. I d \<longrightarrow> I (others t d))"

lemma stable_db: "stable I w \<Longrightarrow> I (db w)"
  by (simp add: stable_def)

lemma stable_frame [simp]:
  "stable I (w\<lparr>draws := n\<rparr>) = stable I w"
  "stable I (w\<lparr>outbox := ms\<rparr>) = stable I w"
  "stable I (w\<lparr>now := t\<rparr>) = stable I w"
  by (simp_all add: stable_def)

lemma keeps_effects [simp]:
  "keeps J now_utc w = J w"
  "keeps (stable I) (draw f) w = stable I w"
  "keeps (stable I) (send m) w = stable I w"
  by (simp_all add: wp_rules)

lemma stable_set_db: "stable I w \<Longrightarrow> I d \<Longrightarrow> stable I (w\<lparr>db := d\<rparr>)"
  by (simp add: stable_def)

lemma stable_take_turn: "stable I w \<Longrightarrow> stable I (take_turn w)"
  by (cases "turns w") (auto simp: stable_def take_turn_def next_turn_def)

text \<open>The rule for a statement under interference: it must establish its postcondition from
  every state of the tables that satisfies \<open>I\<close>, and keep \<open>I\<close>.\<close>

lemma wp_stmt_stable:
  assumes "stable I w"
    and "\<And>t d. I d \<Longrightarrow> I (snd (q t d))"
    and "\<And>t d x d' v. I d \<Longrightarrow> q t d = (Inr x, d') \<Longrightarrow> stable I v \<Longrightarrow> db v = d' \<Longrightarrow> Q x v"
    and "\<And>e v. stable I v \<Longrightarrow> E e v"
  shows "wp (stmt q) Q E w"
proof -
  let ?w = "take_turn w"
  have st: "stable I ?w" using stable_take_turn [OF assms(1)] .
  then have I: "I (db ?w)" by (rule stable_db)
  have st': "stable I (?w\<lparr>db := snd (q (now ?w) (db ?w))\<rparr>)"
    using stable_set_db [OF st assms(2) [OF I]] .
  show ?thesis
  proof (cases "outcome (next_turn w)")
    case Served
    then show ?thesis using st' I assms(3,4)
      by (cases "q (now ?w) (db ?w)") (auto simp: wp_stmt Let_def split: sum.split)
  qed (use assms(4) st st' in \<open>auto simp: wp_stmt Let_def\<close>)
qed

lemma keeps_stmt:
  assumes "stable I w" and "\<And>t d. I d \<Longrightarrow> I (snd (q t d))"
  shows "keeps (stable I) (stmt q) w"
  using assms(1) by (rule wp_stmt_stable [where I = I]) (use assms(2) in auto)

lemma keeps_query: "stable I w \<Longrightarrow> keeps (stable I) (query f) w"
  unfolding query_def by (rule keeps_stmt) auto

lemma keeps_update: "stable I w \<Longrightarrow> (\<And>t d. I d \<Longrightarrow> I (f t d)) \<Longrightarrow> keeps (stable I) (update f) w"
  unfolding update_def by (rule keeps_stmt) auto

lemma wp_query_stable:
  assumes "stable I w"
    and "\<And>t d v. I d \<Longrightarrow> stable I v \<Longrightarrow> db v = d \<Longrightarrow> Q (f t d) v"
    and "\<And>e v. stable I v \<Longrightarrow> E e v"
  shows "wp (query f) Q E w"
  unfolding query_def using assms(1)
  by (rule wp_stmt_stable [where I = I]) (use assms(2,3) in auto)

text \<open>A calm world: the database answers, and nobody else writes; time still passes.\<close>

definition calm :: "world \<Rightarrow> bool" where
  "calm w \<longleftrightarrow> (\<forall>t \<in> set (turns w). outcome t = Served \<and> others t = id)"

lemma calm_turn:
  assumes "calm w"
  shows "outcome (next_turn w) = Served" "db (take_turn w) = db w" "calm (take_turn w)"
    "now w \<le> now (take_turn w)" "outbox (take_turn w) = outbox w" "draws (take_turn w) = draws w"
  using assms by (cases "turns w"; simp add: calm_def next_turn_def take_turn_def)+

lemma calm_frame [simp]:
  "calm (w\<lparr>draws := n\<rparr>) = calm w" "calm (w\<lparr>outbox := ms\<rparr>) = calm w" "calm (w\<lparr>db := d\<rparr>) = calm w"
  by (simp_all add: calm_def)

lemma wp_stmt_calm:
  assumes "calm w"
    and "\<And>v. calm v \<Longrightarrow> now w \<le> now v \<Longrightarrow> draws v = draws w \<Longrightarrow> outbox v = outbox w \<Longrightarrow>
           (case q (now v) (db w) of
              (Inl e, d) \<Rightarrow> E e (v\<lparr>db := d\<rparr>) | (Inr x, d) \<Rightarrow> Q x (v\<lparr>db := d\<rparr>))"
  shows "wp (stmt q) Q E w"
  using assms(2) [OF calm_turn(3,4,6,5)[OF assms(1)]] calm_turn(1,2)[OF assms(1)]
  by (simp add: wp_stmt Let_def)

lemma wp_query_calm:
  assumes "calm w"
    and "\<And>v. calm v \<Longrightarrow> now w \<le> now v \<Longrightarrow> draws v = draws w \<Longrightarrow> outbox v = outbox w \<Longrightarrow> db v = db w
           \<Longrightarrow> Q (f (now v) (db w)) v"
  shows "wp (query f) Q E w"
  unfolding query_def
  by (rule wp_stmt_calm [OF assms(1)])
     (use assms(2) [of "v\<lparr>db := db w\<rparr>" for v] in simp)

lemma wp_update_calm:
  assumes "calm w"
    and "\<And>v. calm v \<Longrightarrow> now w \<le> now v \<Longrightarrow> draws v = draws w \<Longrightarrow> outbox v = outbox w
           \<Longrightarrow> db v = f (now v) (db w) \<Longrightarrow> Q () v"
  shows "wp (update f) Q E w"
  unfolding update_def
  by (rule wp_stmt_calm [OF assms(1)])
     (use assms(2) [of "v\<lparr>db := f (now v) (db w)\<rparr>" for v] in simp)

lemma calm_stmt: "calm w \<Longrightarrow> keeps calm (stmt q) w"
  by (rule wp_stmt_calm) (auto split: prod.split sum.split)

lemma calm_query: "calm w \<Longrightarrow> keeps calm (query f) w"
  unfolding query_def by (rule calm_stmt)

lemma calm_update: "calm w \<Longrightarrow> keeps calm (update f) w"
  unfolding update_def by (rule calm_stmt)

lemma calm_stable: "calm w \<Longrightarrow> stable I w = I (db w)"
  by (auto simp: calm_def stable_def)

text \<open>A statement of a handler in a calm world, and what follows it.\<close>

lemma calm_stmt_then:
  assumes "calm w"
    and "\<And>v. calm v \<Longrightarrow> now w \<le> now v \<Longrightarrow> outbox v = outbox w \<Longrightarrow>
           (case q (now v) (db w) of
              (Inl e, d) \<Rightarrow> E (g e) (v\<lparr>db := d\<rparr>) | (Inr x, d) \<Rightarrow> wp (f x) Q E (v\<lparr>db := d\<rparr>))"
  shows "wp (andthen (map_err g (stmt q)) f) Q E w"
  unfolding wp_andthen wp_map_err using assms by (intro wp_stmt_calm) auto

lemma calm_query_then:
  assumes "calm w"
    and "\<And>v. calm v \<Longrightarrow> now w \<le> now v \<Longrightarrow> db v = db w \<Longrightarrow> outbox v = outbox w \<Longrightarrow> wp (f (x (now v) (db w))) Q E v"
  shows "wp (andthen (map_err g (query x)) f) Q E w"
  unfolding wp_andthen wp_map_err using assms by (intro wp_query_calm) auto

lemma calm_update_then:
  assumes "calm w"
    and "\<And>v. calm v \<Longrightarrow> now w \<le> now v \<Longrightarrow> db v = x (now v) (db w) \<Longrightarrow> outbox v = outbox w \<Longrightarrow> wp (f ()) Q E v"
  shows "wp (andthen (map_err g (update x)) f) Q E w"
  unfolding wp_andthen wp_map_err using assms by (intro wp_update_calm) auto

section \<open>A concrete application\<close>

text \<open>Instances of the external functions on which the hypotheses about them hold: identity as
  case folding, hash, password hash and collation, a token that is the text of its subject and expiry.\<close>

definition sample_app :: app where
  "sample_app =
     \<lparr>jwt_secret = ''k'', access_ttl_secs = 900, refresh_ttl_secs = 2592000,
      citext_key = id, sha256 = id,
      argon2_hash = (\<lambda>_ p. Some p), argon2_check = (\<lambda>h p. Some (h = p)),
      jwt_encode = (\<lambda>k c. if - (2 ^ 63) \<le> cl_exp c \<and> cl_exp c < 2 ^ 63
                           then Some (k @ show_int (cl_exp c) @ ''|'' @ cl_sub c) else None),
      jwt_decode = (\<lambda>k n tok.
        Option.bind (strip_prefix k tok) (\<lambda>rest. Option.bind (split_once (CHR ''|'') rest) (\<lambda>(e, s).
        Option.bind (parse_i64 e) (\<lambda>ex. if ex < n then None else Some \<lparr>cl_sub = s, cl_exp = ex, cl_iat = n\<rparr>)))),
      uuid_text = show_nat, uuid_parse = parse_nat,
      date_of = (\<lambda>_. \<lparr>year = 2026, month = 6, day = 26\<rparr>),
      parse_date = (\<lambda>s. if s = ''1990-01-01'' then Some \<lparr>year = 1990, month = 1, day = 1\<rparr> else None),
      rng_bytes = (\<lambda>i. [word_of_nat i]), rng_code = id,
      oauth_verify = (\<lambda>_ tok. Some \<lparr>provider_uid = tok, oauth_email = None\<rparr>),
      from_unix = (\<lambda>n. if - 377705116800 \<le> n \<and> n \<le> 253402300799 then Some (seconds n) else None),
      collation = id, rfc3339 = (\<lambda>t. Some (show_int t)), parse_rfc3339 = parse_i64, time_json = show_int,
      fcm_configured = True, ilike = (\<lambda>s p. s = p), inet_text = Some, time_display = show_int,
      numeric_cents = parse_i64, json_size = size\<rparr>"

definition empty_db :: db where
  "empty_db = \<lparr>users = [], auth_identities = [], refresh_tokens = [], consent_records = [], auth_codes = [],
               profiles = [], plans = [], plan_features = [], plan_prices = [], subscriptions = [],
               processed_webhook_events = [], taps = [], favorites = [], blocks = [], reports = [], conversations = [],
               conversation_members = [], messages = [], message_reactions = [], photos = [], office = empty_office,
               gallery = empty_gallery, people = empty_people, next_id = 0\<rparr>"

text \<open>A world where nobody else acts.\<close>

definition alone :: "db \<Rightarrow> world" where
  "alone d = \<lparr>db = d, now = 0, turns = [], draws = 0, outbox = []\<rparr>"

lemma alone_simps [simp]: "db (alone d) = d" "turns (alone d) = []" "now (alone d) = 0" "calm (alone d)"
  by (simp_all add: alone_def calm_def)

text \<open>With no turns left the statements run one after the other.\<close>

lemma quiet_stmt: "turns w = [] \<Longrightarrow> stmt q w = (case q (now w) (db w) of (r, d) \<Rightarrow> (r, w\<lparr>db := d\<rparr>))"
  by (cases w) (simp add: stmt_def take_turn_def next_turn_def Let_def)

lemma quiet_query: "turns w = [] \<Longrightarrow> query f w = (Inr (f (now w) (db w)), w)"
  by (cases w) (simp add: query_def quiet_stmt)

lemma quiet_update: "turns w = [] \<Longrightarrow> update f w = (Inr (), w\<lparr>db := f (now w) (db w)\<rparr>)"
  by (simp add: update_def quiet_stmt)

lemma quiet_keeps: "turns w = [] \<Longrightarrow> keeps (\<lambda>v. turns v = []) (stmt q) w"
  by (auto simp: wp_def quiet_stmt split: prod.splits sum.splits)

lemmas run_prog = andthen_def map_err_def attempt_def ok_or_def reject_if_def ret_def throw_def now_utc_def draw_def send_def
  quiet_stmt quiet_query quiet_update

lemma stable_alone [simp]: "stable I (alone d) = I d"
  by (simp add: stable_def)

end
