(* ===== verification/DbUsers.thy ===== *)
theory DbUsers
  imports World
begin

text \<open>
  \<^verbatim>\<open>db/src/users.rs\<close>: the queries on users, identities, refresh tokens, consents and one-time
  codes. A query that several properties reason about as a single atomic statement is
  a function of the tables (\<open>.._sql\<close>); the function of the code is a program over it.
\<close>

section \<open>Users\<close>

definition STATUSES :: "string list" where
  "STATUSES = [''active'', ''suspended'', ''banned'', ''deleted'', ''shadowbanned'']"

definition to_user_row :: "user_rec \<Rightarrow> user_row" where
  "to_user_row r = \<lparr>u_id = u_id r, u_email = u_email r, u_email_verified = u_email_verified r,
                    u_status = u_status r, u_role = u_role r, u_created_at = u_created_at r\<rparr>"

definition email_taken :: "app \<Rightarrow> string \<Rightarrow> db \<Rightarrow> bool" where
  "email_taken st email d \<longleftrightarrow> list_ex (\<lambda>r. citext_key st (u_email r) = citext_key st email) (users d)"

definition new_user :: "uuid \<Rightarrow> string \<Rightarrow> string option \<Rightarrow> date option \<Rightarrow> bool \<Rightarrow> timestamp \<Rightarrow> user_rec" where
  "new_user uid email ph dob av t =
     \<lparr>u_id = uid, u_email = email, u_email_verified = False, u_status = ''active'', u_role = ''user'',
      u_created_at = t, u_password_hash = ph, u_phone = None, u_phone_verified = False, u_dob = dob,
      u_age_verified = av, u_deleted_at = None, u_last_seen_at = None, u_subscription_tier = ''free'',
      u_onboarding_completed_at = None, u_onboarding_skipped_cards = JArr [], u_travel_lat = None, u_travel_lon = None,
      u_travel_city_name = None, u_travel_expires_at = None\<rparr>"

definition create_user_full_sql ::
    "app \<Rightarrow> string \<Rightarrow> string option \<Rightarrow> date option \<Rightarrow> bool \<Rightarrow> uuid sql" where
  "create_user_full_sql st email ph dob av t d =
     (if email_taken st email d then (Inl UniqueViolation, d)
      else (Inr (next_id d),
            d\<lparr>users := users d @ [new_user (next_id d) email ph dob av t], next_id := Suc (next_id d)\<rparr>))"

definition create_user_full ::
    "app \<Rightarrow> string \<Rightarrow> string option \<Rightarrow> date option \<Rightarrow> bool \<Rightarrow> (world, db_error, uuid) prog" where
  "create_user_full st email ph dob av = stmt (create_user_full_sql st email ph dob av)"

definition create_user :: "app \<Rightarrow> string \<Rightarrow> string option \<Rightarrow> (world, db_error, uuid) prog" where
  "create_user st email ph = stmt (create_user_full_sql st email ph None False)"

definition user_by_email :: "app \<Rightarrow> string \<Rightarrow> db \<Rightarrow> user_rec option" where
  "user_by_email st email d = List.find (\<lambda>r. citext_key st (u_email r) = citext_key st email) (users d)"

definition user_by_id :: "uuid \<Rightarrow> db \<Rightarrow> user_rec option" where
  "user_by_id uid d = List.find (\<lambda>r. u_id r = uid) (users d)"

definition find_user_by_email :: "app \<Rightarrow> string \<Rightarrow> (world, db_error, user_row option) prog" where
  "find_user_by_email st email = query (\<lambda>_ d. map_option to_user_row (user_by_email st email d))"

definition find_user_by_id :: "uuid \<Rightarrow> (world, db_error, user_row option) prog" where
  "find_user_by_id uid = query (\<lambda>_ d. map_option to_user_row (user_by_id uid d))"

definition set_user :: "uuid \<Rightarrow> (user_rec \<Rightarrow> user_rec) \<Rightarrow> db \<Rightarrow> db" where
  "set_user uid f d = d\<lparr>users := update_where (\<lambda>r. u_id r = uid) f (users d)\<rparr>"

definition set_email_verified :: "uuid \<Rightarrow> (world, db_error, unit) prog" where
  "set_email_verified uid = update (\<lambda>_. set_user uid (u_email_verified_update (\<lambda>_. True)))"

definition set_phone_verified :: "uuid \<Rightarrow> (world, db_error, unit) prog" where
  "set_phone_verified uid = update (\<lambda>_. set_user uid (u_phone_verified_update (\<lambda>_. True)))"

definition update_password :: "uuid \<Rightarrow> string \<Rightarrow> (world, db_error, unit) prog" where
  "update_password uid hash = update (\<lambda>_. set_user uid (u_password_hash_update (\<lambda>_. Some hash)))"

definition user_status :: "uuid \<Rightarrow> (world, db_error, string option) prog" where
  "user_status uid = query (\<lambda>_ d. map_option u_status (user_by_id uid d))"

definition password_hash_for :: "uuid \<Rightarrow> (world, db_error, string option) prog" where
  "password_hash_for uid = query (\<lambda>_ d. Option.bind (user_by_id uid d) u_password_hash)"

text \<open>The \<^verbatim>\<open>CHECK\<close> on \<^verbatim>\<open>status\<close> is evaluated for the rows an \<^verbatim>\<open>UPDATE\<close> changes.\<close>

definition update_user_status_sql :: "uuid \<Rightarrow> string \<Rightarrow> unit sql" where
  "update_user_status_sql uid s t d =
     (if user_by_id uid d \<noteq> None \<and> s \<notin> set STATUSES then (Inl CheckViolation, d)
      else (Inr (), set_user uid (u_status_update (\<lambda>_. s)) d))"

definition update_user_status :: "uuid \<Rightarrow> string \<Rightarrow> (world, db_error, unit) prog" where
  "update_user_status uid s = stmt (update_user_status_sql uid s)"

definition count_users_by_status :: "(world, db_error, (string \<times> nat) list) prog" where
  "count_users_by_status =
     query (\<lambda>_ d. map (\<lambda>s. (s, length (filter (\<lambda>r. u_status r = s) (users d))))
                      (remdups (map u_status (users d))))"

subsection \<open>Presence\<close>

definition touch_last_seen :: "uuid \<Rightarrow> (world, db_error, unit) prog" where
  "touch_last_seen uid = update (\<lambda>t. set_user uid (u_last_seen_at_update (\<lambda>_. Some t)))"

record user_status_row =
  us_user_id :: uuid
  us_is_online :: bool
  us_last_seen_at :: "timestamp option"

text \<open>\<^verbatim>\<open>Duration::whole_seconds\<close> truncates toward zero.\<close>

definition whole_seconds :: "int \<Rightarrow> int" where
  "whole_seconds x = (if 0 \<le> x then x div micros_per_sec else - ((- x) div micros_per_sec))"

definition online_row :: "timestamp \<Rightarrow> uuid \<times> timestamp option \<Rightarrow> user_status_row" where
  "online_row t r =
     \<lparr>us_user_id = fst r,
      us_is_online = (case snd r of None \<Rightarrow> False | Some seen \<Rightarrow> whole_seconds (t - seen) < 300),
      us_last_seen_at = snd r\<rparr>"

definition get_user_status :: "uuid \<Rightarrow> (world, db_error, user_status_row option) prog" where
  "get_user_status uid =
     andthen (query (\<lambda>_ d. map_option (\<lambda>r. (u_id r, u_last_seen_at r)) (user_by_id uid d))) (\<lambda>row.
     andthen now_utc (\<lambda>t. ret (map_option (online_row t) row)))"

definition get_user_statuses :: "uuid list \<Rightarrow> (world, db_error, user_status_row list) prog" where
  "get_user_statuses uids =
     (if uids = [] then ret []
      else andthen (query (\<lambda>_ d. map (\<lambda>r. (u_id r, u_last_seen_at r))
                                     (filter (\<lambda>r. u_id r \<in> set uids) (users d)))) (\<lambda>rows.
           andthen now_utc (\<lambda>t. ret (map (online_row t) rows))))"

section \<open>Identities and consents\<close>

definition add_auth_identity_sql :: "uuid \<Rightarrow> string \<Rightarrow> string \<Rightarrow> unit sql" where
  "add_auth_identity_sql uid provider puid t d =
     (if provider \<notin> {''apple'', ''google'', ''password''} then (Inl CheckViolation, d)
      else if list_ex (\<lambda>r. ai_provider r = provider \<and> ai_provider_uid r = puid) (auth_identities d)
      then (Inl UniqueViolation, d)
      else if user_by_id uid d = None then (Inl ForeignKeyViolation, d)
      else (Inr (), d\<lparr>auth_identities := auth_identities d @
                        [\<lparr>ai_user_id = uid, ai_provider = provider, ai_provider_uid = puid\<rparr>]\<rparr>))"

definition add_auth_identity :: "uuid \<Rightarrow> string \<Rightarrow> string \<Rightarrow> (world, db_error, unit) prog" where
  "add_auth_identity uid provider puid = stmt (add_auth_identity_sql uid provider puid)"

definition identity_owner :: "string \<Rightarrow> string \<Rightarrow> db \<Rightarrow> uuid option" where
  "identity_owner provider puid d =
     map_option ai_user_id
       (List.find (\<lambda>r. ai_provider r = provider \<and> ai_provider_uid r = puid) (auth_identities d))"

definition find_auth_identity :: "string \<Rightarrow> string \<Rightarrow> (world, db_error, uuid option) prog" where
  "find_auth_identity provider puid = query (\<lambda>_. identity_owner provider puid)"

definition record_consent_sql :: "uuid \<Rightarrow> string \<Rightarrow> string \<Rightarrow> unit sql" where
  "record_consent_sql uid kind version t d =
     (if kind \<notin> {''tos'', ''privacy'', ''age'', ''marketing''} then (Inl CheckViolation, d)
      else if user_by_id uid d = None then (Inl ForeignKeyViolation, d)
      else (Inr (), d\<lparr>consent_records := consent_records d @
                        [\<lparr>cr_id = next_id d, cr_user_id = uid, cr_kind = kind, cr_version = version, cr_granted_at = t\<rparr>],
                      next_id := Suc (next_id d)\<rparr>))"

definition record_consent :: "uuid \<Rightarrow> string \<Rightarrow> string \<Rightarrow> (world, db_error, unit) prog" where
  "record_consent uid kind version = stmt (record_consent_sql uid kind version)"

section \<open>Refresh tokens\<close>

record refresh_row =
  rr_user_id :: uuid
  rr_revoked :: bool
  rr_expired :: bool

datatype refresh_claim = Claimed uuid bool | AlreadyRevoked uuid | NotFound

definition store_refresh_token_sql :: "uuid \<Rightarrow> string \<Rightarrow> timestamp \<Rightarrow> unit sql" where
  "store_refresh_token_sql uid th ends t d =
     (if list_ex (\<lambda>r. rt_token_hash r = th) (refresh_tokens d) then (Inl UniqueViolation, d)
      else if user_by_id uid d = None then (Inl ForeignKeyViolation, d)
      else (Inr (), d\<lparr>refresh_tokens := refresh_tokens d @
              [\<lparr>rt_id = next_id d, rt_user_id = uid, rt_token_hash = th, rt_device_id = None, rt_issued_at = t,
                rt_expires_at = ends, rt_revoked_at = None\<rparr>], next_id := Suc (next_id d)\<rparr>))"

definition store_refresh_token :: "uuid \<Rightarrow> string \<Rightarrow> timestamp \<Rightarrow> (world, db_error, unit) prog" where
  "store_refresh_token uid th ends = stmt (store_refresh_token_sql uid th ends)"

definition find_refresh_token :: "string \<Rightarrow> (world, db_error, refresh_row option) prog" where
  "find_refresh_token th =
     query (\<lambda>t d. map_option (\<lambda>r. \<lparr>rr_user_id = rt_user_id r, rr_revoked = rt_revoked_at r \<noteq> None,
                                    rr_expired = rt_expires_at r < t\<rparr>)
                    (List.find (\<lambda>r. rt_token_hash r = th) (refresh_tokens d)))"

definition revoke :: "(refresh_token \<Rightarrow> bool) \<Rightarrow> timestamp \<Rightarrow> db \<Rightarrow> db" where
  "revoke p t d =
     d\<lparr>refresh_tokens := update_where (\<lambda>r. p r \<and> rt_revoked_at r = None)
                           (rt_revoked_at_update (\<lambda>_. Some t)) (refresh_tokens d)\<rparr>"

text \<open>The atomic claim: \<^verbatim>\<open>UPDATE .. WHERE revoked_at IS NULL RETURNING\<close>.\<close>

definition claim_refresh_sql :: "string \<Rightarrow> (uuid \<times> bool) option sql" where
  "claim_refresh_sql th t d =
     (Inr (map_option (\<lambda>r. (rt_user_id r, rt_expires_at r < t))
            (List.find (\<lambda>r. rt_token_hash r = th \<and> rt_revoked_at r = None) (refresh_tokens d))),
      revoke (\<lambda>r. rt_token_hash r = th) t d)"

definition token_owner :: "string \<Rightarrow> db \<Rightarrow> uuid option" where
  "token_owner th d = map_option rt_user_id (List.find (\<lambda>r. rt_token_hash r = th) (refresh_tokens d))"

definition claim_result :: "string \<Rightarrow> (uuid \<times> bool) option \<Rightarrow> (world, db_error, refresh_claim) prog" where
  "claim_result th claimed =
     (case claimed of
        Some (uid, expired) \<Rightarrow> ret (Claimed uid expired)
      | None \<Rightarrow>
          andthen (query (\<lambda>_. token_owner th)) (\<lambda>existing.
            ret (case existing of Some uid \<Rightarrow> AlreadyRevoked uid | None \<Rightarrow> NotFound)))"

definition revoke_and_claim_refresh :: "string \<Rightarrow> (world, db_error, refresh_claim) prog" where
  "revoke_and_claim_refresh th = andthen (stmt (claim_refresh_sql th)) (claim_result th)"

definition revoke_refresh_token :: "string \<Rightarrow> (world, db_error, unit) prog" where
  "revoke_refresh_token th = update (revoke (\<lambda>r. rt_token_hash r = th))"

definition revoke_all_refresh :: "uuid \<Rightarrow> (world, db_error, unit) prog" where
  "revoke_all_refresh uid = update (revoke (\<lambda>r. rt_user_id r = uid))"

section \<open>One-time codes\<close>

definition CODE_KINDS :: "string list" where
  "CODE_KINDS = [''email_verify'', ''phone_verify'', ''password_reset'']"

definition issue_auth_code_sql :: "uuid \<Rightarrow> string \<Rightarrow> string \<Rightarrow> timestamp \<Rightarrow> unit sql" where
  "issue_auth_code_sql uid kind ch ends t d =
     (if kind \<notin> set CODE_KINDS then (Inl CheckViolation, d)
      else if user_by_id uid d = None then (Inl ForeignKeyViolation, d)
      else (Inr (), d\<lparr>auth_codes := auth_codes d @
              [\<lparr>ac_id = next_id d, ac_user_id = uid, ac_kind = kind, ac_code_hash = ch,
                ac_expires_at = ends, ac_consumed_at = None, ac_created_at = t\<rparr>],
              next_id := Suc (next_id d)\<rparr>))"

definition issue_auth_code :: "uuid \<Rightarrow> string \<Rightarrow> string \<Rightarrow> timestamp \<Rightarrow> (world, db_error, unit) prog" where
  "issue_auth_code uid kind ch ends = stmt (issue_auth_code_sql uid kind ch ends)"

definition code_live :: "uuid \<Rightarrow> string \<Rightarrow> timestamp \<Rightarrow> auth_code \<Rightarrow> bool" where
  "code_live uid kind t c \<longleftrightarrow>
     ac_user_id c = uid \<and> ac_kind c = kind \<and> ac_consumed_at c = None \<and> t < ac_expires_at c"

definition consume :: "(auth_code \<Rightarrow> bool) \<Rightarrow> timestamp \<Rightarrow> db \<Rightarrow> db" where
  "consume p t d =
     d\<lparr>auth_codes := update_where p (ac_consumed_at_update (\<lambda>_. Some t)) (auth_codes d)\<rparr>"

text \<open>The first statement: consume the newest live code with this hash; the number of rows changed.\<close>

definition consume_code_sql :: "uuid \<Rightarrow> string \<Rightarrow> string \<Rightarrow> nat sql" where
  "consume_code_sql uid kind ch t d =
     (case max_by ac_created_at (filter (\<lambda>c. code_live uid kind t c \<and> ac_code_hash c = ch) (auth_codes d)) of
        None \<Rightarrow> (Inr 0, d)
      | Some c \<Rightarrow> (Inr (length (filter (\<lambda>a. ac_id a = ac_id c) (auth_codes d))),
                   consume (\<lambda>a. ac_id a = ac_id c) t d))"

definition consume_auth_code :: "uuid \<Rightarrow> string \<Rightarrow> string \<Rightarrow> (world, db_error, bool) prog" where
  "consume_auth_code uid kind ch =
     andthen (stmt (consume_code_sql uid kind ch)) (\<lambda>n.
       if n = 1 then ret True
       else andthen (update (\<lambda>t. consume (code_live uid kind t) t)) (\<lambda>_. ret False))"

section \<open>Deletion of an account\<close>

definition anonymized_email :: "app \<Rightarrow> uuid \<Rightarrow> string" where
  "anonymized_email st uid = ''deleted_'' @ uuid_text st uid @ ''@anonymized''"

definition wipe_user :: "string \<Rightarrow> timestamp \<Rightarrow> user_rec \<Rightarrow> user_rec" where
  "wipe_user email t r =
     r\<lparr>u_email := email, u_password_hash := None, u_phone := None, u_phone_verified := False,
       u_email_verified := False, u_status := ''deleted'', u_deleted_at := Some t\<rparr>"

definition wipe_profile :: "profile \<Rightarrow> profile" where
  "wipe_profile p =
     p\<lparr>p_display_name := None, p_about := None, p_position := None, p_body_type := None,
       p_height_cm := None, p_weight_kg := None, p_relationship_status := None,
       p_gender_identity := None, p_pronouns := None, p_hiv_status := None,
       p_last_tested_on := None, p_prep := None, p_profile_photo_id := None,
       p_profile_photo_key := None, p_details := JObj []\<rparr>"

definition anonymize_sql :: "app \<Rightarrow> uuid \<Rightarrow> unit sql" where
  "anonymize_sql st uid t d =
     (if user_by_id uid d \<noteq> None
         \<and> list_ex (\<lambda>r. u_id r \<noteq> uid \<and> citext_key st (u_email r) = citext_key st (anonymized_email st uid)) (users d)
      then (Inl UniqueViolation, d)
      else (Inr (), (set_user uid (wipe_user (anonymized_email st uid) t) d)
                      \<lparr>profiles := update_where (\<lambda>p. p_user_id p = uid) wipe_profile (profiles d)\<rparr>))"

definition delete_identities :: "uuid \<Rightarrow> db \<Rightarrow> db" where
  "delete_identities uid d = d\<lparr>auth_identities := delete_where (\<lambda>r. ai_user_id r = uid) (auth_identities d)\<rparr>"

definition anonymize_user :: "app \<Rightarrow> uuid \<Rightarrow> (world, db_error, timestamp) prog" where
  "anonymize_user st uid =
     andthen now_utc (\<lambda>t.
     andthen (stmt (anonymize_sql st uid)) (\<lambda>_.
     andthen (update (\<lambda>_. delete_identities uid)) (\<lambda>_.
     ret (t + days 30))))"

end
