(* ===== verification/AuthHandlers.thy ===== *)
theory AuthHandlers
  imports DbUsers
begin

text \<open>
  The authentication endpoints: \<^verbatim>\<open>auth/src\<close> (token generation and hashing, access tokens,
  one-time codes, passwords), the extractor \<^verbatim>\<open>AuthUser\<close> and the router of \<^verbatim>\<open>api/src/auth/mod.rs\<close>,
  and the handlers of \<^verbatim>\<open>api/src/auth/handlers.rs\<close>.
\<close>

section \<open>Tokens, codes and passwords\<close>

definition hex_digit :: "nat \<Rightarrow> char" where
  "hex_digit n = ''0123456789abcdef'' ! n"

definition hex_lower :: "bytes \<Rightarrow> string" where
  "hex_lower bs = concat (map (\<lambda>b. [hex_digit (unat b div 16), hex_digit (unat b mod 16)]) bs)"

text \<open>\<open>rng_bytes\<close> are the 32 bytes of a draw.\<close>

definition generate_refresh :: "app \<Rightarrow> (world, 'e, string) prog" where
  "generate_refresh st = draw (\<lambda>i. hex_lower (rng_bytes st i))"

definition hash_token :: "app \<Rightarrow> string \<Rightarrow> string" where
  "hash_token st token = hex_lower (sha256 st (as_bytes token))"

text \<open>\<^verbatim>\<open>{n:06}\<close>.\<close>

definition pad6 :: "nat \<Rightarrow> string" where
  "pad6 n = replicate (6 - length (show_nat n)) (CHR ''0'') @ show_nat n"

definition generate_code :: "app \<Rightarrow> (world, 'e, string) prog" where
  "generate_code st = draw (\<lambda>i. pad6 (rng_code st i mod 1000000))"

definition hash_code :: "app \<Rightarrow> string \<Rightarrow> string" where
  "hash_code st code = hex_lower (sha256 st (as_bytes code))"

datatype auth_fault = InvalidToken | Hashing | NotifyError string | OAuthError string

definition issue_access :: "app \<Rightarrow> string \<Rightarrow> (world, auth_fault, string) prog" where
  "issue_access st user_id =
     andthen now_utc (\<lambda>t.
     let n = unix_timestamp t in
     ok_or InvalidToken
       (jwt_encode st (jwt_secret st) \<lparr>cl_sub = user_id, cl_exp = n + access_ttl_secs st, cl_iat = n\<rparr>))"

definition verify_access :: "app \<Rightarrow> string \<Rightarrow> (world, auth_fault, access_claims) prog" where
  "verify_access st token =
     andthen now_utc (\<lambda>t. ok_or InvalidToken (jwt_decode st (jwt_secret st) (unix_timestamp t) token))"

definition hash_password :: "app \<Rightarrow> string \<Rightarrow> (world, auth_fault, string) prog" where
  "hash_password st password =
     andthen (draw (\<lambda>salt. argon2_hash st salt password)) (\<lambda>h. ok_or Hashing h)"

definition verify_password :: "app \<Rightarrow> string \<Rightarrow> string \<Rightarrow> auth_fault + bool" where
  "verify_password st hash password =
     (case argon2_check st hash password of None \<Rightarrow> Inl Hashing | Some b \<Rightarrow> Inr b)"

section \<open>The authenticated user\<close>

text \<open>The status check the extractor, \<^verbatim>\<open>refresh\<close> and \<^verbatim>\<open>oauth\<close> share.\<close>

abbreviation (input) internal :: "(world, 'e, 'a) prog \<Rightarrow> (world, status, 'a) prog" where
  "internal m \<equiv> map_err (\<lambda>_. INTERNAL_SERVER_ERROR) m"

definition active_account :: "uuid \<Rightarrow> (world, status, uuid) prog" where
  "active_account uid =
     andthen (internal (user_status uid)) (\<lambda>row.
     andthen (ok_or UNAUTHORIZED row) (\<lambda>s.
     andthen (reject_if (s \<noteq> ''active'') FORBIDDEN) (\<lambda>_.
     ret uid)))"

text \<open>The argument is the \<^verbatim>\<open>Authorization\<close> header when it is text.\<close>

definition auth_user :: "app \<Rightarrow> string option \<Rightarrow> (world, status, uuid) prog" where
  "auth_user st authorization =
     andthen (ok_or UNAUTHORIZED authorization) (\<lambda>header.
     andthen (ok_or UNAUTHORIZED (strip_prefix ''Bearer '' header)) (\<lambda>token.
     andthen (map_err (\<lambda>_. UNAUTHORIZED) (verify_access st token)) (\<lambda>claims.
     andthen (ok_or UNAUTHORIZED (uuid_parse st (cl_sub claims))) (\<lambda>uid.
     active_account uid))))"

section \<open>The handlers\<close>

record token_pair =
  access :: string
  refresh_token :: string

definition issue_pair :: "app \<Rightarrow> uuid \<Rightarrow> (world, status, token_pair) prog" where
  "issue_pair st uid =
     andthen (internal (issue_access st (uuid_text st uid))) (\<lambda>acc.
     andthen (generate_refresh st) (\<lambda>ref.
     andthen now_utc (\<lambda>t.
     andthen (internal (store_refresh_token uid (hash_token st ref) (t + seconds (refresh_ttl_secs st)))) (\<lambda>_.
     ret \<lparr>access = acc, refresh_token = ref\<rparr>))))"

text \<open>How both handlers that create accounts read a failed insert.\<close>

definition signup_error :: "db_error \<Rightarrow> status" where
  "signup_error e = (if e = UniqueViolation then CONFLICT else INTERNAL_SERVER_ERROR)"

text \<open>The texts of the messages, in UTF-8.\<close>

definition code_text :: string where
  "code_text = ''C'' @ [CHR 0xC3, CHR 0xB3] @ ''digo: ''"

definition reset_subject :: string where
  "reset_subject = ''Restablecer contrase'' @ [CHR 0xC3, CHR 0xB1] @ ''a''"

text \<open>A fresh code for a user, stored and then sent; the send's result is dropped.\<close>

definition send_code ::
    "app \<Rightarrow> uuid \<Rightarrow> string \<Rightarrow> int \<Rightarrow> (string \<Rightarrow> message) \<Rightarrow> (world, status, unit) prog" where
  "send_code st uid kind mins msg =
     andthen (generate_code st) (\<lambda>code.
     andthen now_utc (\<lambda>t.
     andthen (internal (issue_auth_code uid kind (hash_code st code) (t + minutes mins))) (\<lambda>_.
     send (msg (code_text @ code)))))"

record register_req =
  rq_email :: string
  rq_password :: string
  rq_dob :: string
  rq_consents :: "string list"

text \<open>What follows the insert of the account.\<close>

definition finish_signup :: "app \<Rightarrow> register_req \<Rightarrow> uuid \<Rightarrow> (world, status, token_pair) prog" where
  "finish_signup st req uid =
     andthen (for_each (rq_consents req) (\<lambda>kind.
                andthen (attempt (record_consent uid kind ''1.0'')) (\<lambda>_. ret ()))) (\<lambda>_.
     andthen (send_code st uid ''email_verify'' 30 (Email (rq_email req) ''Verifica tu email'')) (\<lambda>_.
     issue_pair st uid))"

definition register :: "app \<Rightarrow> register_req \<Rightarrow> (world, status, token_pair) prog" where
  "register st req =
     andthen (reject_if (\<not> valid_email (rq_email req) \<or> \<not> valid_password (rq_password req)) BAD_REQUEST) (\<lambda>_.
     andthen (ok_or BAD_REQUEST (parse_date st (rq_dob req))) (\<lambda>dob.
     andthen now_utc (\<lambda>t.
     andthen (reject_if (\<not> is_adult dob (date_of st t)) FORBIDDEN) (\<lambda>_.
     andthen (internal (hash_password st (rq_password req))) (\<lambda>h.
     andthen (map_err signup_error (create_user_full st (rq_email req) (Some h) (Some dob) True)) (\<lambda>uid.
     finish_signup st req uid))))))"

definition login :: "app \<Rightarrow> string \<Rightarrow> string \<Rightarrow> (world, status, token_pair) prog" where
  "login st email password =
     andthen (internal (find_user_by_email st email)) (\<lambda>row.
     andthen (ok_or UNAUTHORIZED row) (\<lambda>user.
     andthen (internal (password_hash_for (u_id user))) (\<lambda>h.
     andthen (ok_or UNAUTHORIZED h) (\<lambda>hash.
     andthen (case verify_password st hash password of
                Inl _ \<Rightarrow> throw UNAUTHORIZED
              | Inr okay \<Rightarrow> reject_if (\<not> okay) UNAUTHORIZED) (\<lambda>_.
     andthen (reject_if (u_status user \<noteq> ''active'') FORBIDDEN) (\<lambda>_.
     issue_pair st (u_id user)))))))"

text \<open>What becomes of a claim: a token reused revokes its family.\<close>

definition rotation_owner :: "refresh_claim \<Rightarrow> (world, status, uuid) prog" where
  "rotation_owner claim =
     (case claim of
        Claimed uid expired \<Rightarrow> if expired then throw UNAUTHORIZED else ret uid
      | AlreadyRevoked uid \<Rightarrow> andthen (attempt (revoke_all_refresh uid)) (\<lambda>_. throw UNAUTHORIZED)
      | NotFound \<Rightarrow> throw UNAUTHORIZED)"

definition refresh :: "app \<Rightarrow> string \<Rightarrow> (world, status, token_pair) prog" where
  "refresh st token =
     andthen (internal (revoke_and_claim_refresh (hash_token st token))) (\<lambda>claim.
     andthen (rotation_owner claim) (\<lambda>uid.
     andthen (active_account uid) (\<lambda>uid.
     issue_pair st uid)))"

definition logout :: "app \<Rightarrow> string \<Rightarrow> (world, status, status) prog" where
  "logout st token =
     andthen (internal (revoke_refresh_token (hash_token st token))) (\<lambda>_. ret NO_CONTENT)"

text \<open>The shared shape of the two endpoints that confirm a code.\<close>

definition verify_email :: "app \<Rightarrow> uuid \<Rightarrow> string \<Rightarrow> (world, status, status) prog" where
  "verify_email st uid code =
     andthen (internal (consume_auth_code uid ''email_verify'' (hash_code st code))) (\<lambda>okay.
     andthen (reject_if (\<not> okay) BAD_REQUEST) (\<lambda>_.
     andthen (internal (set_email_verified uid)) (\<lambda>_.
     ret NO_CONTENT)))"

definition resend_email :: "app \<Rightarrow> uuid \<Rightarrow> (world, status, status) prog" where
  "resend_email st uid =
     andthen (internal (find_user_by_id uid)) (\<lambda>row.
     andthen (ok_or UNAUTHORIZED row) (\<lambda>u.
     andthen (send_code st uid ''email_verify'' 30 (Email (u_email u) ''Verifica tu email'')) (\<lambda>_.
     ret NO_CONTENT)))"

definition reset_request :: "app \<Rightarrow> string \<Rightarrow> (world, status, status) prog" where
  "reset_request st email =
     andthen (attempt (find_user_by_email st email)) (\<lambda>r.
     andthen (case r of
                Inr (Some u) \<Rightarrow>
                  andthen (attempt (send_code st (u_id u) ''password_reset'' 30
                                      (Email email reset_subject))) (\<lambda>_. ret ())
              | _ \<Rightarrow> ret ()) (\<lambda>_.
     ret OK))"

definition reset_password :: "app \<Rightarrow> string \<Rightarrow> string \<Rightarrow> string \<Rightarrow> (world, status, status) prog" where
  "reset_password st email code new_password =
     andthen (reject_if (\<not> valid_password new_password) BAD_REQUEST) (\<lambda>_.
     andthen (internal (find_user_by_email st email)) (\<lambda>row.
     andthen (ok_or BAD_REQUEST row) (\<lambda>u.
     andthen (internal (consume_auth_code (u_id u) ''password_reset'' (hash_code st code))) (\<lambda>okay.
     andthen (reject_if (\<not> okay) BAD_REQUEST) (\<lambda>_.
     andthen (internal (hash_password st new_password)) (\<lambda>h.
     andthen (internal (update_password (u_id u) h)) (\<lambda>_.
     andthen (internal (revoke_all_refresh (u_id u))) (\<lambda>_.
     ret NO_CONTENT))))))))"

definition send_phone_code :: "app \<Rightarrow> uuid \<Rightarrow> string \<Rightarrow> (world, status, status) prog" where
  "send_phone_code st uid phone =
     andthen (send_code st uid ''phone_verify'' 10 (Sms phone)) (\<lambda>_. ret NO_CONTENT)"

definition verify_phone :: "app \<Rightarrow> uuid \<Rightarrow> string \<Rightarrow> (world, status, status) prog" where
  "verify_phone st uid code =
     andthen (internal (consume_auth_code uid ''phone_verify'' (hash_code st code))) (\<lambda>okay.
     andthen (reject_if (\<not> okay) BAD_REQUEST) (\<lambda>_.
     andthen (internal (set_phone_verified uid)) (\<lambda>_.
     ret NO_CONTENT)))"

definition oauth_email_of :: "string \<Rightarrow> oauth_identity \<Rightarrow> string" where
  "oauth_email_of provider ident =
     (case oauth_email ident of
        Some e \<Rightarrow> e
      | None \<Rightarrow> provider_uid ident @ ''+'' @ provider @ ''@oauth.local'')"

text \<open>Find or create the account of an identity.\<close>

definition oauth_account :: "app \<Rightarrow> string \<Rightarrow> oauth_identity \<Rightarrow> uuid option \<Rightarrow> (world, status, uuid) prog" where
  "oauth_account st provider ident found =
     (case found of
        Some uid \<Rightarrow> active_account uid
      | None \<Rightarrow>
          andthen (map_err signup_error
                     (create_user_full st (oauth_email_of provider ident) None None True)) (\<lambda>uid.
          andthen (internal (add_auth_identity uid provider (provider_uid ident))) (\<lambda>_.
          ret uid)))"

definition oauth :: "app \<Rightarrow> string \<Rightarrow> string \<Rightarrow> (world, status, token_pair) prog" where
  "oauth st provider id_token =
     andthen (reject_if (provider \<noteq> ''apple'' \<and> provider \<noteq> ''google'') BAD_REQUEST) (\<lambda>_.
     andthen (ok_or UNAUTHORIZED (oauth_verify st provider id_token)) (\<lambda>ident.
     andthen (internal (find_auth_identity provider (provider_uid ident))) (\<lambda>found.
     andthen (oauth_account st provider ident found) (\<lambda>uid.
     issue_pair st uid))))"

section \<open>The router\<close>

datatype auth_request =
    Register register_req
  | Login string string
  | Refresh string
  | Logout string
  | VerifyEmail "string option" string
  | ResendEmail "string option"
  | ResetRequest string
  | ResetPassword string string string
  | SendPhoneCode "string option" string
  | VerifyPhone "string option" string
  | OAuth string string

datatype auth_response = Pair status token_pair | Done status

definition answer :: "(world, status, 'a) prog \<Rightarrow> ('a \<Rightarrow> auth_response) \<Rightarrow> (world, status, auth_response) prog" where
  "answer m f = andthen m (\<lambda>x. ret (f x))"

fun route :: "app \<Rightarrow> auth_request \<Rightarrow> (world, status, auth_response) prog" where
  "route st (Register req) = answer (register st req) (Pair CREATED)"
| "route st (Login email pw) = answer (login st email pw) (Pair OK)"
| "route st (Refresh tok) = answer (refresh st tok) (Pair OK)"
| "route st (Logout tok) = answer (logout st tok) Done"
| "route st (VerifyEmail h code) = answer (andthen (auth_user st h) (\<lambda>uid. verify_email st uid code)) Done"
| "route st (ResendEmail h) = answer (andthen (auth_user st h) (\<lambda>uid. resend_email st uid)) Done"
| "route st (ResetRequest email) = answer (reset_request st email) Done"
| "route st (ResetPassword email code pw) = answer (reset_password st email code pw) Done"
| "route st (SendPhoneCode h phone) = answer (andthen (auth_user st h) (\<lambda>uid. send_phone_code st uid phone)) Done"
| "route st (VerifyPhone h code) = answer (andthen (auth_user st h) (\<lambda>uid. verify_phone st uid code)) Done"
| "route st (OAuth provider tok) = answer (oauth st provider tok) (Pair OK)"

end
