(* ===== verification/AuthSafety.thy ===== *)
theory AuthSafety
  imports AuthHandlers
begin

text \<open>
  What every authentication request guarantees to the tables, whatever the other connections
  do in between. The contract \<open>auth_guarantee\<close> lists the statements the handlers issue; a property
  of the tables that each statement keeps is kept by every request, and three properties
  are given: the well-formedness of the tables, the silence of accounts that are not active,
  and the permanence of a spent refresh token.
\<close>

section \<open>The contract\<close>

locale auth_guarantee =
  fixes st :: app
    and I :: "db \<Rightarrow> bool"
    and allowed :: "uuid \<Rightarrow> bool"
  assumes create_keeps: "I d \<Longrightarrow> I (snd (create_user_full_sql st email ph dob True t d))"
    and create_allowed: "I d \<Longrightarrow> create_user_full_sql st email ph dob True t d = (Inr uid, d') \<Longrightarrow> allowed uid"
    and active_allowed: "I d \<Longrightarrow> user_by_id uid d = Some r \<Longrightarrow> u_status r = ''active'' \<Longrightarrow> allowed uid"
    and email_allowed: "I d \<Longrightarrow> user_by_email st email d = Some r \<Longrightarrow> u_status r = ''active'' \<Longrightarrow> allowed (u_id r)"
    and store_keeps: "I d \<Longrightarrow> allowed uid \<Longrightarrow> I (snd (store_refresh_token_sql uid th ends t d))"
    and identity_keeps: "I d \<Longrightarrow> I (snd (add_auth_identity_sql uid provider puid t d))"
    and consent_keeps: "I d \<Longrightarrow> I (snd (record_consent_sql uid kind version t d))"
    and code_keeps: "I d \<Longrightarrow> I (snd (issue_auth_code_sql uid kind ch ends t d))"
    and consume_keeps: "I d \<Longrightarrow> I (consume p t d)"
    and revoke_keeps: "I d \<Longrightarrow> I (revoke sel t d)"
    and email_flag_keeps: "I d \<Longrightarrow> I (set_user uid (u_email_verified_update (\<lambda>_. True)) d)"
    and phone_flag_keeps: "I d \<Longrightarrow> I (set_user uid (u_phone_verified_update (\<lambda>_. True)) d)"
    and password_keeps: "I d \<Longrightarrow> I (set_user uid (u_password_hash_update (\<lambda>_. Some h)) d)"
begin

lemma issue_pair_keeps: "stable I w \<Longrightarrow> allowed uid \<Longrightarrow> keeps (stable I) (issue_pair st uid) w"
  unfolding issue_pair_def issue_access_def generate_refresh_def store_refresh_token_def Let_def
  by (intro keeps_bind) (auto simp: wp_rules split: option.split intro!: keeps_stmt store_keeps)

lemma send_code_keeps: "stable I w \<Longrightarrow> keeps (stable I) (send_code st uid kind mins msg) w"
  unfolding send_code_def generate_code_def issue_auth_code_def
  by (intro keeps_bind) (auto simp: wp_rules intro!: keeps_stmt code_keeps)

lemma consume_auth_code_keeps: "stable I w \<Longrightarrow> keeps (stable I) (consume_auth_code uid kind ch) w"
  unfolding consume_auth_code_def
  by (intro keeps_bind)
     (auto simp: consume_code_sql_def wp_if split: option.split
           intro!: keeps_stmt keeps_update keeps_bind consume_keeps)

lemma auth_user_keeps: "stable I w \<Longrightarrow> keeps (stable I) (auth_user st h) w"
  unfolding auth_user_def verify_access_def active_account_def user_status_def
  by (intro keeps_bind) (auto simp: wp_rules split: option.split intro: keeps_query)

lemma revoke_all_keeps: "stable I w \<Longrightarrow> keeps (stable I) (revoke_all_refresh uid) w"
  unfolding revoke_all_refresh_def by (intro keeps_update revoke_keeps)

text \<open>The check that precedes a token pair leaves an allowed user.\<close>

lemma active_account_allows:
  assumes "stable I w"
  shows "wp (active_account uid) (\<lambda>v t. stable I t \<and> allowed v) (\<lambda>_. stable I) w"
  unfolding active_account_def user_status_def
  using assms
  by (auto simp: wp_rules option.case_eq_if intro!: wp_query_stable [where I = I] active_allowed)

lemma create_allows:
  assumes "stable I w"
  shows "wp (map_err g (create_user_full st email ph dob True)) (\<lambda>uid t. stable I t \<and> allowed uid) (\<lambda>_. stable I) w"
  unfolding create_user_full_def wp_map_err
  using assms by (rule wp_stmt_stable [where I = I]) (auto intro: create_keeps create_allowed)

lemma finish_signup_keeps:
  assumes "stable I w" "allowed uid"
  shows "keeps (stable I) (finish_signup st req uid) w"
proof -
  have "keeps (stable I) (for_each ks (\<lambda>k. andthen (attempt (record_consent uid k v)) (\<lambda>_. ret ()))) w" for ks v
    using assms(1)
    by (intro keeps_for_each) (auto simp: record_consent_def intro!: keeps_bind keeps_stmt consent_keeps)
  then show ?thesis
    unfolding finish_signup_def using assms(2)
    by (intro keeps_bind) (auto intro: send_code_keeps issue_pair_keeps)
qed

lemma register_keeps: "stable I w \<Longrightarrow> keeps (stable I) (register st req) w"
  unfolding register_def
  apply (rule keeps_bind, simp)
  apply (rule keeps_bind, simp)
  apply (rule keeps_bind, simp add: wp_rules)
  apply (rule keeps_bind, simp)
  apply (rule keeps_bind, simp add: hash_password_def wp_rules split: option.split)
  apply (rule wp_bind, erule create_allows)
  apply (elim conjE)
  apply (simp add: finish_signup_keeps)
  done

lemma login_keeps:
  assumes "stable I w"
  shows "keeps (stable I) (login st email pw) w"
  unfolding login_def
proof (rule wp_bind)
  show "wp (internal (find_user_by_email st email))
          (\<lambda>row t. stable I t \<and> (\<forall>u. row = Some u \<and> u_status u = ''active'' \<longrightarrow> allowed (u_id u))) (\<lambda>_. stable I) w"
    unfolding find_user_by_email_def wp_map_err
    using assms by (rule wp_query_stable [where I = I]) (auto simp: to_user_row_def intro: email_allowed)
qed (auto simp: password_hash_for_def split: sum.split
          intro!: keeps_bind keeps_query issue_pair_keeps wp_need wp_guard)

lemma claim_keeps: "stable I w \<Longrightarrow> keeps (stable I) (revoke_and_claim_refresh th) w"
  unfolding revoke_and_claim_refresh_def claim_result_def
  by (auto simp: claim_refresh_sql_def split: option.split
           intro!: keeps_bind keeps_stmt keeps_query revoke_keeps)

lemma rotation_owner_keeps: "stable I w \<Longrightarrow> keeps (stable I) (rotation_owner c) w"
  unfolding rotation_owner_def
  by (auto split: refresh_claim.split intro!: keeps_bind revoke_all_keeps)

lemma refresh_keeps: "stable I w \<Longrightarrow> keeps (stable I) (refresh st tok) w"
  unfolding refresh_def
  by (rule keeps_bind, simp add: claim_keeps, rule keeps_bind, erule rotation_owner_keeps,
      rule wp_bind, erule active_account_allows, simp add: issue_pair_keeps)

lemma add_identity_keeps: "stable I w \<Longrightarrow> keeps (stable I) (add_auth_identity uid provider puid) w"
  unfolding add_auth_identity_def by (intro keeps_stmt identity_keeps)

lemma oauth_account_allows:
  assumes "stable I w"
  shows "wp (oauth_account st provider ident found) (\<lambda>uid t. stable I t \<and> allowed uid) (\<lambda>_. stable I) w"
proof (cases found)
  case None
  have "wp (andthen (internal (add_auth_identity uid provider (provider_uid ident))) (\<lambda>_. ret uid))
          (\<lambda>uid t. stable I t \<and> allowed uid) (\<lambda>_. stable I) v" if "stable I v" "allowed uid" for uid v
    using that by (intro wp_bind [where R = "\<lambda>_. stable I"]) (auto simp: add_identity_keeps wp_ret)
  then show ?thesis unfolding None oauth_account_def option.case
    by (intro wp_bind [OF create_allows [OF assms]]) auto
qed (use active_account_allows [OF assms] in \<open>simp add: oauth_account_def\<close>)

lemma oauth_keeps:
  assumes "stable I w"
  shows "keeps (stable I) (oauth st provider tok) w"
proof -
  have "keeps (stable I) (andthen (internal (find_auth_identity provider puid)) (\<lambda>found.
          andthen (oauth_account st provider ident found) (issue_pair st))) w" for puid ident
    by (rule keeps_bind, simp add: find_auth_identity_def keeps_query assms,
        rule wp_bind, erule oauth_account_allows, simp add: issue_pair_keeps)
  then show ?thesis using assms unfolding oauth_def by (intro wp_guard wp_need) auto
qed

text \<open>Every request of the router.\<close>

lemma route_keeps:
  assumes "stable I w"
  shows "keeps (stable I) (route st req) w"
proof -
  have reset: "keeps (stable I) (reset_password st email code pw) w" for email code pw
    unfolding reset_password_def find_user_by_email_def update_password_def hash_password_def
    using assms
    by (auto split: option.split
             intro!: keeps_query keeps_update password_keeps consume_auth_code_keeps revoke_all_keeps
               keeps_bind wp_guard wp_need)
  have request: "keeps (stable I) (reset_request st email) w" for email
    unfolding reset_request_def find_user_by_email_def
    using assms
    by (intro keeps_bind) (auto split: sum.split option.split intro!: keeps_query keeps_bind send_code_keeps)
  have verify: "keeps (stable I) (verify_email st uid code) v" "keeps (stable I) (verify_phone st uid code) v"
    if "stable I v" for uid code v
    unfolding verify_email_def verify_phone_def set_email_verified_def set_phone_verified_def
    using that by (auto intro!: keeps_bind consume_auth_code_keeps keeps_update email_flag_keeps phone_flag_keeps wp_guard)
  have resend: "keeps (stable I) (resend_email st uid) v" if "stable I v" for uid v
    unfolding resend_email_def find_user_by_id_def
    using that by (auto intro!: keeps_bind keeps_query send_code_keeps wp_need)
  show ?thesis
    using assms
    by (cases req)
       (auto simp: answer_def logout_def revoke_refresh_token_def send_phone_code_def
             intro!: keeps_bind register_keeps login_keeps refresh_keeps oauth_keeps reset request verify resend
                     auth_user_keeps send_code_keeps keeps_update revoke_keeps)
qed

end

section \<open>Well-formed tables\<close>

definition user_exists :: "uuid \<Rightarrow> db \<Rightarrow> bool" where
  "user_exists uid d \<longleftrightarrow> uid \<in> u_id ` set (users d)"

definition users_wf :: "app \<Rightarrow> db \<Rightarrow> bool" where
  "users_wf st d \<longleftrightarrow>
     distinct (map u_id (users d))
     \<and> distinct (map (\<lambda>r. citext_key st (u_email r)) (users d))
     \<and> (\<forall>r \<in> set (users d). u_id r < next_id d \<and> u_status r \<in> set STATUSES)"

definition tokens_wf :: "db \<Rightarrow> bool" where
  "tokens_wf d \<longleftrightarrow>
     distinct (map rt_token_hash (refresh_tokens d))
     \<and> (\<forall>r \<in> set (refresh_tokens d). user_exists (rt_user_id r) d)"

definition identities_wf :: "db \<Rightarrow> bool" where
  "identities_wf d \<longleftrightarrow>
     distinct (map (\<lambda>r. (ai_provider r, ai_provider_uid r)) (auth_identities d))
     \<and> (\<forall>r \<in> set (auth_identities d). user_exists (ai_user_id r) d)
     \<and> (\<forall>r \<in> set (consent_records d). user_exists (cr_user_id r) d)"

definition codes_wf :: "db \<Rightarrow> bool" where
  "codes_wf d \<longleftrightarrow>
     distinct (map ac_id (auth_codes d))
     \<and> (\<forall>c \<in> set (auth_codes d). ac_id c < next_id d \<and> user_exists (ac_user_id c) d
           \<and> ac_kind c \<in> set CODE_KINDS)"

definition auth_wf :: "app \<Rightarrow> db \<Rightarrow> bool" where
  "auth_wf st d \<longleftrightarrow> users_wf st d \<and> tokens_wf d \<and> identities_wf d \<and> codes_wf d"

lemma user_by_id_Some: "user_by_id uid d = Some r \<Longrightarrow> r \<in> set (users d) \<and> u_id r = uid"
  unfolding user_by_id_def by (rule find_SomeD)

lemma user_by_id_exists: "user_by_id uid d \<noteq> None \<longleftrightarrow> user_exists uid d"
  by (auto simp: user_by_id_def user_exists_def find_None_iff image_iff)

lemma user_by_id_existsD: "user_by_id uid d = Some r \<Longrightarrow> user_exists uid d"
  using user_by_id_exists [of uid d] by simp

lemma user_by_email_Some:
  "user_by_email st email d = Some r \<Longrightarrow> r \<in> set (users d) \<and> citext_key st (u_email r) = citext_key st email"
  unfolding user_by_email_def by (rule find_SomeD)

lemma user_exists_set_user:
  assumes "\<And>r. u_id (f r) = u_id r"
  shows "user_exists v (set_user uid f d) = user_exists v d"
proof -
  have "map u_id (users (set_user uid f d)) = map u_id (users d)"
    by (simp add: set_user_def map_update_where_same assms)
  then show ?thesis unfolding user_exists_def by (metis list.set_map)
qed

lemma user_exists_simps [simp]:
  "user_exists v (d\<lparr>refresh_tokens := a\<rparr>) = user_exists v d"
  "user_exists v (d\<lparr>auth_identities := b\<rparr>) = user_exists v d"
  "user_exists v (d\<lparr>consent_records := c\<rparr>) = user_exists v d"
  "user_exists v (d\<lparr>auth_codes := e\<rparr>) = user_exists v d"
  "user_exists v (d\<lparr>next_id := n\<rparr>) = user_exists v d"
  "user_exists v (d\<lparr>users := users d @ [r]\<rparr>) \<longleftrightarrow> user_exists v d \<or> v = u_id r"
  by (auto simp: user_exists_def)

lemma set_user_wf:
  assumes "auth_wf st d"
    and "\<And>r. u_id (f r) = u_id r" "\<And>r. u_email (f r) = u_email r"
    and "\<And>r. u_status r \<in> set STATUSES \<Longrightarrow> u_status (f r) \<in> set STATUSES"
  shows "auth_wf st (set_user uid f d)"
proof -
  have "users_wf st (set_user uid f d)"
    using assms by (auto simp: auth_wf_def users_wf_def set_user_def map_update_where_same set_update_where)
  moreover have "user_exists v (set_user uid f d) = user_exists v d" for v
    using assms(2) by (rule user_exists_set_user)
  ultimately show ?thesis
    using assms(1) by (auto simp: auth_wf_def tokens_wf_def identities_wf_def codes_wf_def set_user_def)
qed

lemma create_wf:
  assumes "auth_wf st d"
  shows "auth_wf st (snd (create_user_full_sql st email ph dob av t d))"
proof (cases "email_taken st email d")
  case False
  have "citext_key st (u_email r) \<noteq> citext_key st email" if "r \<in> set (users d)" for r
    using False that by (auto simp: email_taken_def list_ex_iff)
  then show ?thesis
    using assms False
    by (fastforce simp: create_user_full_sql_def auth_wf_def users_wf_def tokens_wf_def identities_wf_def
        codes_wf_def new_user_def STATUSES_def)
qed (use assms in \<open>simp add: create_user_full_sql_def\<close>)

lemma store_wf: "auth_wf st d \<Longrightarrow> auth_wf st (snd (store_refresh_token_sql uid th ends t d))"
  by (auto simp: store_refresh_token_sql_def auth_wf_def users_wf_def tokens_wf_def identities_wf_def
      codes_wf_def list_ex_iff dest: user_by_id_existsD)

lemma identity_wf: "auth_wf st d \<Longrightarrow> auth_wf st (snd (add_auth_identity_sql uid provider puid t d))"
  by (auto simp: add_auth_identity_sql_def auth_wf_def users_wf_def tokens_wf_def identities_wf_def
      codes_wf_def list_ex_iff dest: user_by_id_existsD)

lemma consent_wf: "auth_wf st d \<Longrightarrow> auth_wf st (snd (record_consent_sql uid kind version t d))"
  by (auto simp: record_consent_sql_def auth_wf_def users_wf_def tokens_wf_def identities_wf_def
      codes_wf_def dest: user_by_id_existsD)

lemma issue_code_wf: "auth_wf st d \<Longrightarrow> auth_wf st (snd (issue_auth_code_sql uid kind ch ends t d))"
  by (fastforce simp: issue_auth_code_sql_def auth_wf_def users_wf_def tokens_wf_def identities_wf_def
      codes_wf_def dest: user_by_id_existsD)

lemma consume_wf: "auth_wf st d \<Longrightarrow> auth_wf st (consume p t d)"
  by (auto simp: consume_def auth_wf_def users_wf_def tokens_wf_def identities_wf_def
      codes_wf_def map_update_where_same set_update_where)

lemma revoke_wf: "auth_wf st d \<Longrightarrow> auth_wf st (revoke p t d)"
  by (auto simp: revoke_def auth_wf_def users_wf_def tokens_wf_def identities_wf_def
      codes_wf_def map_update_where_same set_update_where)

interpretation wf: auth_guarantee st "auth_wf st" "\<lambda>_. True" for st
  by unfold_locales
     (auto intro: create_wf store_wf identity_wf consent_wf issue_code_wf consume_wf revoke_wf set_user_wf)

lemma empty_wf: "auth_wf st empty_db"
  by (simp add: empty_db_def auth_wf_def users_wf_def tokens_wf_def identities_wf_def codes_wf_def)

text \<open>The service from an empty database, one request after another; requests of other clients
  run in the turns of the world.\<close>

definition auth_init :: "app \<Rightarrow> world \<Rightarrow> bool" where
  "auth_init st w \<longleftrightarrow> db w = empty_db \<and> (\<forall>t \<in> set (turns w). \<forall>d. auth_wf st d \<longrightarrow> auth_wf st (others t d))"

inductive auth_step :: "app \<Rightarrow> world \<Rightarrow> world \<Rightarrow> bool" for st where
  "auth_step st w (snd (route st req w))"

inductive_cases auth_stepE: "auth_step st w w'"

interpretation auth_sys: invariant_system "auth_init st" "auth_step st" "stable (auth_wf st)" for st
proof unfold_locales
  show "auth_init st w \<Longrightarrow> stable (auth_wf st) w" for w
    using empty_wf by (simp add: auth_init_def stable_def)
  show "stable (auth_wf st) w \<Longrightarrow> auth_step st w w' \<Longrightarrow> stable (auth_wf st) w'" for w w'
    by (erule auth_stepE, simp only:) (rule keeps_final [OF wf.route_keeps])
qed

text \<open>
  Whatever requests arrive, however the database fails and whatever well-behaved clients do in
  between, the tables stay well formed: emails unique up to case, identifiers and token hashes
  unique, identities unique per provider, no token, identity, consent or code without its user,
  and statuses and kinds within their constraints.
\<close>

theorem auth_tables_wf:
  assumes "reach (auth_init st) (auth_step st) w"
  shows "auth_wf st (db w)"
  using stable_db [OF auth_sys.reach_inv [OF assms]] .

theorem auth_tables_wf_witness:
  "auth_wf sample_app (db (snd (route sample_app
     (Register \<lparr>rq_email = ''a@b.c'', rq_password = ''password'', rq_dob = ''1990-01-01'', rq_consents = [''tos'']\<rparr>)
     (alone empty_db))))"
  by (rule auth_tables_wf, rule reach_step, rule reach_init [of "auth_init sample_app" "alone empty_db"])
     (simp add: auth_init_def, rule auth_step.intros)

section \<open>Accounts that are not active\<close>

text \<open>\<open>u\<close> is an account that exists and is not active; the hashes of its refresh tokens that are not revoked.\<close>

definition dormant :: "uuid \<Rightarrow> db \<Rightarrow> bool" where
  "dormant u d \<longleftrightarrow> u < next_id d \<and> (\<forall>r \<in> set (users d). u_id r = u \<longrightarrow> u_status r \<noteq> ''active'')"

definition live_hashes :: "uuid \<Rightarrow> db \<Rightarrow> string set" where
  "live_hashes u d = rt_token_hash ` {r \<in> set (refresh_tokens d). rt_user_id r = u \<and> rt_revoked_at r = None}"

definition silent :: "uuid \<Rightarrow> string set \<Rightarrow> db \<Rightarrow> bool" where
  "silent u ths d \<longleftrightarrow> dormant u d \<and> live_hashes u d \<subseteq> ths"

lemmas silent_defs = silent_def dormant_def live_hashes_def

interpretation quiet: auth_guarantee st "silent u ths" "\<lambda>v. v \<noteq> u" for st u ths
proof unfold_locales
  fix d :: db and uid r
  show "silent u ths d \<Longrightarrow> user_by_id uid d = Some r \<Longrightarrow> u_status r = ''active'' \<Longrightarrow> uid \<noteq> u"
    by (auto simp: silent_defs dest: user_by_id_Some)
next
  fix d email r
  show "silent u ths d \<Longrightarrow> user_by_email st email d = Some r \<Longrightarrow> u_status r = ''active'' \<Longrightarrow> u_id r \<noteq> u"
    by (auto simp: silent_defs dest: user_by_email_Some)
next
  fix d p t
  show "silent u ths d \<Longrightarrow> silent u ths (revoke p t d)"
    by (fastforce simp: silent_defs revoke_def set_update_where)
qed (auto simp: silent_defs create_user_full_sql_def new_user_def store_refresh_token_sql_def
      add_auth_identity_sql_def record_consent_sql_def issue_auth_code_sql_def consume_def
      set_user_def set_update_where split: if_splits)

text \<open>
  C2. No request of the router that begins while an account is not active (banned, suspended, shadow-banned or deleted)
  stores a session for it: after any such requests (register, login, refresh and OAuth included), with every failure of
  the database, each live refresh token of the account was live before or is one that another connection stored. The other
  connections keep the account inactive; the tokens they store for it, a login that was under way for instance, are \<open>theirs\<close>.
\<close>

theorem no_token_while_inactive:
  assumes "dormant u (db w)"
    and "\<And>t d. t \<in> set (turns w) \<Longrightarrow> dormant u d \<Longrightarrow>
           dormant u (others t d) \<and> live_hashes u (others t d) \<subseteq> live_hashes u d \<union> theirs"
    and "(auth_step st)\<^sup>*\<^sup>* w w'"
  shows "dormant u (db w') \<and> live_hashes u (db w') \<subseteq> live_hashes u (db w) \<union> theirs"
proof -
  let ?I = "silent u (live_hashes u (db w) \<union> theirs)"
  have "stable ?I w" using assms(1,2) by (fastforce simp: stable_def silent_def)
  with assms(3) have "stable ?I w'"
  proof (induction rule: rtranclp_induct)
    case (step v v')
    then show ?case
      by (elim auth_stepE, simp only:) (rule keeps_final [OF quiet.route_keeps], simp)
  qed
  then show ?thesis using stable_db by (fastforce simp: silent_def)
qed

text \<open>A banned account with a live session signs in; meanwhile another connection ends a login it had begun before.\<close>

definition late_login :: "db \<Rightarrow> db" where
  "late_login d = d\<lparr>refresh_tokens := refresh_tokens d @ [\<lparr>rt_id = next_id d, rt_user_id = 0, rt_token_hash = ''late'',
     rt_device_id = None, rt_issued_at = 0, rt_expires_at = 9, rt_revoked_at = None\<rparr>], next_id := Suc (next_id d)\<rparr>"

definition banned_world :: world where
  "banned_world = (alone (empty_db\<lparr>users := [(new_user 0 ''a@b.c'' None None True 0)\<lparr>u_status := ''banned''\<rparr>],
     auth_identities := [\<lparr>ai_user_id = 0, ai_provider = ''google'', ai_provider_uid = ''g''\<rparr>],
     refresh_tokens := [\<lparr>rt_id = 1, rt_user_id = 0, rt_token_hash = ''old'', rt_device_id = None, rt_issued_at = 0,
       rt_expires_at = 9, rt_revoked_at = None\<rparr>], next_id := 2\<rparr>))
     \<lparr>turns := [\<lparr>delay = 1, others = late_login, outcome = Served\<rparr>]\<rparr>"

theorem no_token_while_inactive_witness:
  "live_hashes 0 (db (snd (route sample_app (OAuth ''google'' ''g'') banned_world))) \<subseteq> {''old'', ''late''}"
proof -
  have "(auth_step sample_app)\<^sup>*\<^sup>* banned_world (snd (route sample_app (OAuth ''google'' ''g'') banned_world))"
    by (rule r_into_rtranclp) (rule auth_step.intros)
  then have "dormant 0 (db (snd (route sample_app (OAuth ''google'' ''g'') banned_world)))
      \<and> live_hashes 0 (db (snd (route sample_app (OAuth ''google'' ''g'') banned_world))) \<subseteq> live_hashes 0 (db banned_world) \<union> {''late''}"
    by (rule no_token_while_inactive [rotated 2])
       (auto simp: banned_world_def dormant_def live_hashes_def late_login_def new_user_def)
  then show ?thesis by (auto simp: banned_world_def live_hashes_def)
qed

section \<open>Spent refresh tokens\<close>

definition spent :: "string \<Rightarrow> db \<Rightarrow> bool" where
  "spent th d \<longleftrightarrow> (\<exists>r \<in> set (refresh_tokens d). rt_token_hash r = th)
     \<and> (\<forall>r \<in> set (refresh_tokens d). rt_token_hash r = th \<longrightarrow> rt_revoked_at r \<noteq> None)"

interpretation used: auth_guarantee st "spent th" "\<lambda>_. True" for st th
proof unfold_locales
  fix d p t
  show "spent th d \<Longrightarrow> spent th (revoke p t d)"
    by (fastforce simp: spent_def revoke_def update_where_def)
qed (auto simp: spent_def create_user_full_sql_def store_refresh_token_sql_def set_user_def list_ex_iff
      add_auth_identity_sql_def record_consent_sql_def issue_auth_code_sql_def consume_def)


lemma spent_never_claimed:
  assumes "stable (spent th) w"
  shows "wp (revoke_and_claim_refresh th) (\<lambda>c v. \<forall>uid e. c \<noteq> Claimed uid e) (\<lambda>_ _. True) w"
  unfolding revoke_and_claim_refresh_def
proof (rule wp_bind)
  show "wp (stmt (claim_refresh_sql th)) (\<lambda>c v. c = None) (\<lambda>_ _. True) w"
    using assms
  proof (rule wp_stmt_stable [where I = "spent th"])
    fix t d c d' v
    assume d: "spent th d" "claim_refresh_sql th t d = (Inr c, d')"
    have "List.find (\<lambda>r. rt_token_hash r = th \<and> rt_revoked_at r = None) (refresh_tokens d) = None"
      using d(1) by (auto simp: spent_def find_NoneD)
    then show "c = None" using d by (auto simp: claim_refresh_sql_def)
  qed (auto simp: claim_refresh_sql_def intro: used.revoke_keeps)
qed (auto simp: claim_result_def wp_rules query_def wp_stmt Let_def split: outcome.split option.split)

lemma rotation_owner_claimed:
  "wp (rotation_owner c) (\<lambda>uid t. c = Claimed uid False \<and> t = w) (\<lambda>_ _. True) w"
  by (cases c) (auto simp: rotation_owner_def wp_rules revoke_all_refresh_def update_def wp_stmt Let_def
                split: outcome.split)

lemma spent_refused:
  assumes "stable (spent (hash_token st tok)) w"
  shows "wp (refresh st tok) (\<lambda>_ _. False) (\<lambda>_ _. True) w"
  unfolding refresh_def
proof (rule wp_bind)
  show "wp (internal (revoke_and_claim_refresh (hash_token st tok))) (\<lambda>c v. \<forall>uid e. c \<noteq> Claimed uid e) (\<lambda>_ _. True) w"
    unfolding wp_map_err using spent_never_claimed [OF assms] .
qed (auto intro!: wp_bind [OF rotation_owner_claimed])

text \<open>A claim that succeeds leaves the token spent, and the rest of the handler keeps it so.\<close>

lemma revoke_hits:
  assumes "r \<in> set (refresh_tokens (revoke p t d))" and "p r"
  shows "rt_revoked_at r \<noteq> None"
proof -
  have "r \<in> set (update_where (\<lambda>r. p r \<and> rt_revoked_at r = None) (rt_revoked_at_update (\<lambda>_. Some t)) (refresh_tokens d))"
    using assms(1) by (simp add: revoke_def)
  then show ?thesis
  proof (cases rule: in_update_whereE)
    case (1 x)
    then show ?thesis by simp
  qed (use assms(2) in simp)
qed

lemma claim_spends:
  assumes "claim_refresh_sql th t d = (Inr (Some c), d')"
  shows "spent th d'"
proof -
  obtain r where "List.find (\<lambda>r. rt_token_hash r = th \<and> rt_revoked_at r = None) (refresh_tokens d) = Some r"
    using assms by (auto simp: claim_refresh_sql_def)
  then have "r \<in> set (refresh_tokens d)" "rt_token_hash r = th" using find_SomeD by fastforce+
  then have "th \<in> set (map rt_token_hash (refresh_tokens d))" by auto
  moreover have d': "d' = revoke (\<lambda>r. rt_token_hash r = th) t d"
    using assms by (auto simp: claim_refresh_sql_def)
  moreover have "map rt_token_hash (refresh_tokens d') = map rt_token_hash (refresh_tokens d)"
    unfolding d' revoke_def by (simp add: map_update_where_same)
  ultimately have "th \<in> set (map rt_token_hash (refresh_tokens d'))" by simp
  then have "\<exists>r \<in> set (refresh_tokens d'). rt_token_hash r = th" by fastforce
  moreover have "rt_revoked_at r \<noteq> None" if "r \<in> set (refresh_tokens d')" "rt_token_hash r = th" for r
    using that revoke_hits [of r "\<lambda>r. rt_token_hash r = th" t d] unfolding d' by blast
  ultimately show ?thesis by (simp add: spent_def)
qed

definition turns_keep :: "(db \<Rightarrow> bool) \<Rightarrow> world \<Rightarrow> bool" where
  "turns_keep I w \<longleftrightarrow> (\<forall>t \<in> set (turns w). \<forall>d. I d \<longrightarrow> I (others t d))"

lemma turns_keep_take: "turns_keep I w \<Longrightarrow> turns_keep I (take_turn w)"
  by (cases "turns w") (auto simp: take_turn_def turns_keep_def)

lemma stable_iff: "stable I w \<longleftrightarrow> I (db w) \<and> turns_keep I w"
  by (simp add: stable_def turns_keep_def)

lemma turns_keep_db [simp]: "turns_keep I (w\<lparr>db := d\<rparr>) = turns_keep I w"
  by (simp add: turns_keep_def)

lemma claimed_spends:
  assumes "turns_keep (spent th) w"
  shows "wp (revoke_and_claim_refresh th)
           (\<lambda>c v. (\<exists>uid e. c = Claimed uid e) \<longrightarrow> stable (spent th) v) (\<lambda>_ _. True) w"
  unfolding revoke_and_claim_refresh_def
proof (rule wp_bind)
  show "wp (stmt (claim_refresh_sql th)) (\<lambda>c v. c \<noteq> None \<longrightarrow> stable (spent th) v) (\<lambda>_ _. True) w"
    using turns_keep_take [OF assms] claim_spends
    by (auto simp: wp_stmt Let_def stable_iff split: outcome.split prod.split sum.split)
next
  fix c :: "(uuid \<times> bool) option" and v assume "c \<noteq> None \<longrightarrow> stable (spent th) v"
  then show "wp (claim_result th c) (\<lambda>c v. (\<exists>uid e. c = Claimed uid e) \<longrightarrow> stable (spent th) v) (\<lambda>_ _. True) v"
    by (auto simp: claim_result_def wp_rules query_def wp_stmt Let_def split: outcome.split option.split)
qed

lemma refresh_spends:
  assumes "turns_keep (spent (hash_token st tok)) w"
  shows "wp (refresh st tok) (\<lambda>_. stable (spent (hash_token st tok))) (\<lambda>_ _. True) w"
  unfolding refresh_def
proof (rule wp_bind)
  let ?S = "stable (spent (hash_token st tok))"
  show "wp (internal (revoke_and_claim_refresh (hash_token st tok)))
          (\<lambda>c v. (\<exists>uid e. c = Claimed uid e) \<longrightarrow> ?S v) (\<lambda>_ _. True) w"
    unfolding wp_map_err using claimed_spends [OF assms] .
  fix c v assume c: "(\<exists>uid e. c = Claimed uid e) \<longrightarrow> ?S v"
  have "wp (andthen (active_account uid) (issue_pair st)) (\<lambda>_. ?S) (\<lambda>_ _. True) v" if "?S v" for uid
    using that
    by (intro wp_bind [OF wp_mono [OF used.active_account_allows]] wp_mono [OF used.issue_pair_keeps]) auto
  then show "wp (andthen (rotation_owner c) (\<lambda>uid. andthen (active_account uid) (issue_pair st))) (\<lambda>_. ?S) (\<lambda>_ _. True) v"
    using c by (intro wp_bind [OF rotation_owner_claimed]) auto
qed

text \<open>
  C8. A refresh token buys one pair. Once a refresh returned a pair, no later refresh with the
  same token does, whatever requests, failures and other well-behaved clients come in
  between: it is answered with an error.
\<close>

theorem refresh_single_use:
  assumes "turns_keep (spent (hash_token st tok)) w"
    and "refresh st tok w = (Inr pair, w1)"
    and "(auth_step st)\<^sup>*\<^sup>* w1 w2"
  shows "\<exists>e. fst (refresh st tok w2) = Inl e"
proof -
  have "stable (spent (hash_token st tok)) w1"
    using wp_returns [OF refresh_spends [OF assms(1)] assms(2)] .
  with assms(3) have "stable (spent (hash_token st tok)) w2"
  proof (induction rule: rtranclp_induct)
    case (step v v')
    then show ?case by (elim auth_stepE, simp only:) (rule keeps_final [OF used.route_keeps], simp)
  qed
  from spent_refused [OF this] show ?thesis
    by (auto simp: wp_def split: prod.splits sum.splits)
qed

theorem refresh_single_use_witness:
  "let w = alone (empty_db\<lparr>users := [new_user 0 ''a@b.c'' None None True 0], next_id := 2,
             refresh_tokens := [\<lparr>rt_id = 1, rt_user_id = 0, rt_token_hash = hash_token sample_app ''t'',
                                 rt_device_id = None,
                                 rt_issued_at = 0, rt_expires_at = 5, rt_revoked_at = None\<rparr>]\<rparr>)
   in \<exists>e. fst (refresh sample_app ''t'' (snd (refresh sample_app ''t'' w))) = Inl e"
proof -
  let ?w = "alone (empty_db\<lparr>users := [new_user 0 ''a@b.c'' None None True 0], next_id := 2,
             refresh_tokens := [\<lparr>rt_id = 1, rt_user_id = 0, rt_token_hash = hash_token sample_app ''t'',
                                 rt_device_id = None,
                                 rt_issued_at = 0, rt_expires_at = 5, rt_revoked_at = None\<rparr>]\<rparr>)"
  have "\<not> isl (fst (refresh sample_app ''t'' ?w))" by code_simp
  then obtain pair where "refresh sample_app ''t'' ?w = (Inr pair, snd (refresh sample_app ''t'' ?w))"
    by (metis isl_def prod.collapse sum.exhaust)
  from refresh_single_use [OF _ this rtranclp.rtrancl_refl] show ?thesis by (simp add: turns_keep_def)
qed

section \<open>Claims under interleaving\<close>

text \<open>The statements of all endpoints that write refresh tokens; each is one atomic step, so any
  interleaving of concurrent requests is a sequence of them.\<close>

datatype token_stmt =
    Store uuid string timestamp
  | Claim string
  | RevokeToken string
  | RevokeAll uuid

fun run_token_stmt :: "token_stmt \<Rightarrow> timestamp \<Rightarrow> db \<Rightarrow> db" where
  "run_token_stmt (Store uid th ends) t d = snd (store_refresh_token_sql uid th ends t d)"
| "run_token_stmt (Claim th) t d = snd (claim_refresh_sql th t d)"
| "run_token_stmt (RevokeToken th) t d = revoke (\<lambda>r. rt_token_hash r = th) t d"
| "run_token_stmt (RevokeAll uid) t d = revoke (\<lambda>r. rt_user_id r = uid) t d"

definition claim_wins :: "string \<Rightarrow> token_stmt \<Rightarrow> timestamp \<Rightarrow> db \<Rightarrow> bool" where
  "claim_wins th c t d \<longleftrightarrow> c = Claim th \<and> (\<exists>owner. fst (claim_refresh_sql th t d) = Inr (Some owner))"

fun claims_won :: "string \<Rightarrow> (timestamp \<times> token_stmt) list \<Rightarrow> db \<Rightarrow> nat" where
  "claims_won th [] d = 0"
| "claims_won th ((t, c) # cs) d =
     (if claim_wins th c t d then 1 else 0) + claims_won th cs (run_token_stmt c t d)"

lemma spent_run: "spent th d \<Longrightarrow> spent th (run_token_stmt c t d)"
  by (cases c) (auto simp: claim_refresh_sql_def intro: used.revoke_keeps used.store_keeps)

lemma spent_no_claim:
  assumes "spent th d"
  shows "\<not> claim_wins th c t d"
proof -
  have "List.find (\<lambda>r. rt_token_hash r = th \<and> rt_revoked_at r = None) (refresh_tokens d) = None"
    using assms by (auto simp: spent_def find_NoneD)
  then show ?thesis by (auto simp: claim_wins_def claim_refresh_sql_def)
qed

lemma spent_claims: "spent th d \<Longrightarrow> claims_won th cs d = 0"
  by (induction cs arbitrary: d) (auto simp: spent_run spent_no_claim)

text \<open>
  Of all the requests that race with one refresh token, in any interleaving of the statements
  that write tokens, and whatever tokens are stored or revoked in between, at most one wins
  the claim.
\<close>

theorem refresh_claimed_at_most_once:
  "claims_won th cs d \<le> 1"
proof (induction cs arbitrary: d)
  case (Cons tc cs)
  obtain t c where tc: "tc = (t, c)" by (cases tc)
  show ?case
  proof (cases "claim_wins th c t d")
    case True
    then obtain owner where "claim_refresh_sql th t d = (Inr (Some owner), run_token_stmt c t d)"
      by (cases "claim_refresh_sql th t d") (auto simp: claim_wins_def)
    then have "claims_won th cs (run_token_stmt c t d) = 0" by (intro spent_claims claim_spends)
    with True tc show ?thesis by simp
  next
    case False
    with tc Cons.IH show ?thesis by simp
  qed
qed simp

end
