(* ===== verification/AuthProps.thy ===== *)
theory AuthProps
  imports AuthSafety
begin

text \<open>
  What the authentication endpoints do when the database answers and nobody else writes (a
  calm world): who the extractor lets in, what a code is good for, what a password reset
  changes, who may register; and what a failure in the middle of an OAuth sign-up leaves behind.
\<close>

section \<open>The extractor\<close>

lemma user_status_calm:
  assumes "calm w"
    and "\<And>v. calm v \<Longrightarrow> now w \<le> now v \<Longrightarrow> draws v = draws w \<Longrightarrow> outbox v = outbox w \<Longrightarrow> db v = db w
           \<Longrightarrow> Q (map_option u_status (user_by_id uid (db w))) v"
  shows "wp (user_status uid) Q E w"
  unfolding user_status_def using assms by (rule wp_query_calm)

text \<open>The user an \<^verbatim>\<open>Authorization\<close> header claims to be, at a time.\<close>

definition bearer :: "app \<Rightarrow> timestamp \<Rightarrow> string option \<Rightarrow> uuid option" where
  "bearer st t h =
     Option.bind h (\<lambda>header. Option.bind (strip_prefix ''Bearer '' header) (\<lambda>tok.
     Option.bind (jwt_decode st (jwt_secret st) (unix_timestamp t) tok) (\<lambda>c. uuid_parse st (cl_sub c))))"

lemma auth_user_bearer:
  "auth_user st h w =
     (case bearer st (now w) h of None \<Rightarrow> (Inl UNAUTHORIZED, w) | Some uid \<Rightarrow> active_account uid w)"
  by (simp add: auth_user_def bearer_def verify_access_def andthen_def map_err_def ok_or_def now_utc_def
      ret_def throw_def split: option.split)

lemma active_account_calm:
  assumes "calm w"
  shows "wp (active_account uid)
     (\<lambda>v u. v = uid \<and> calm u \<and> now w \<le> now u \<and> draws u = draws w \<and> outbox u = outbox w \<and> db u = db w
        \<and> (\<exists>r. user_by_id uid (db w) = Some r \<and> u_status r = ''active''))
     (\<lambda>e u. calm u \<and> db u = db w \<and> outbox u = outbox w \<and>
        (case user_by_id uid (db w) of None \<Rightarrow> e = UNAUTHORIZED | Some r \<Rightarrow> e = FORBIDDEN \<and> u_status r \<noteq> ''active'')) w"
  unfolding active_account_def
  by (auto simp: wp_rules split: option.split intro!: user_status_calm [OF assms])

text \<open>
  C26. The extractor lets a request in as a user exactly when its bearer token decodes and the
  user it names exists and is active when the status is asked for: a missing or invalid token or an unknown user is 401, an
  account banned, suspended or deleted since the token was issued is 403, and a status query that the database does not
  answer is 500. It asks nothing without a valid token, and writes nothing: afterwards the world is the one the query met.
\<close>

theorem auth_user_exact:
  "auth_user st h w =
     (case bearer st (now w) h of
        None \<Rightarrow> (Inl UNAUTHORIZED, w)
      | Some uid \<Rightarrow>
          (if outcome (next_turn w) \<noteq> Served then Inl INTERNAL_SERVER_ERROR
           else case user_by_id uid (db (take_turn w)) of
                  None \<Rightarrow> Inl UNAUTHORIZED
                | Some r \<Rightarrow> if u_status r = ''active'' then Inr uid else Inl FORBIDDEN,
           take_turn w))"
  by (auto simp: auth_user_bearer active_account_def user_status_def query_def stmt_def andthen_def map_err_def ok_or_def
      reject_if_def ret_def throw_def Let_def split: option.split outcome.split)

section \<open>A session\<close>

text \<open>The documented behaviour of the token and UUID libraries: what was signed with a key decodes
  under that key until it expires, and a printed identifier parses back.\<close>

definition session_ok :: "app \<Rightarrow> bool" where
  "session_ok st \<longleftrightarrow>
     (\<forall>k c tok n. jwt_encode st k c = Some tok \<longrightarrow> n \<le> cl_exp c \<longrightarrow>
        (\<exists>c'. jwt_decode st k n tok = Some c' \<and> cl_sub c' = cl_sub c))
     \<and> (\<forall>u. uuid_parse st (uuid_text st u) = Some u)"

lemma issue_pair_access:
  "issue_pair st uid w = (Inr pair, w') \<Longrightarrow>
     jwt_encode st (jwt_secret st)
       \<lparr>cl_sub = uuid_text st uid, cl_exp = unix_timestamp (now w) + access_ttl_secs st,
        cl_iat = unix_timestamp (now w)\<rparr> = Some (access pair)"
  by (auto simp: issue_pair_def issue_access_def Let_def andthen_def map_err_def ok_or_def now_utc_def
      ret_def throw_def split: option.splits prod.splits sum.splits)

text \<open>
  The access token of a pair issued for a user authenticates that user, and nobody else, for
  \<open>access_ttl_secs\<close> seconds, as long as the account is active.
\<close>

theorem session_authenticates:
  assumes "session_ok st" "issue_pair st uid w = (Inr pair, w')"
    and "calm v" "unix_timestamp (now v) \<le> unix_timestamp (now w) + access_ttl_secs st"
    and "user_by_id uid (db v) = Some r" "u_status r = ''active''"
  shows "fst (auth_user st (Some (''Bearer '' @ access pair)) v) = Inr uid"
proof -
  obtain c where "jwt_decode st (jwt_secret st) (unix_timestamp (now v)) (access pair) = Some c"
    "cl_sub c = uuid_text st uid"
    using issue_pair_access [OF assms(2)] assms(1,4) unfolding session_ok_def by fastforce
  moreover have "strip_prefix ''Bearer '' (''Bearer '' @ access pair) = Some (access pair)"
    by (rule strip_prefix_append)
  ultimately have "bearer st (now v) (Some (''Bearer '' @ access pair)) = Some uid"
    using assms(1) unfolding bearer_def session_ok_def by (simp del: append.simps)
  then show ?thesis
    using active_account_calm [OF assms(3), of uid] assms(5,6)
    by (auto simp: auth_user_bearer wp_def split: prod.splits sum.splits)
qed

lemma sample_session_ok: "session_ok sample_app"
proof -
  have "split_once (CHR ''|'') (show_int i @ CHR ''|'' # s) = Some (show_int i, s)" for i s
    by (rule split_once_append) (rule show_int_no_bar)
  then show ?thesis
    by (auto simp: session_ok_def sample_app_def parse_i64_show_int split: if_splits)
qed

lemma new_user_status: "u_status (new_user uid email ph dob av t) = ''active''"
  by (simp add: new_user_def)

theorem session_authenticates_witness:
  "let d = empty_db\<lparr>users := [new_user 0 ''a@b.c'' None None True 0], next_id := 1\<rparr>
   in \<exists>pair. fst (issue_pair sample_app 0 (alone d)) = Inr pair
        \<and> fst (auth_user sample_app (Some (''Bearer '' @ access pair)) (alone d)) = Inr 0"
proof -
  let ?d = "empty_db\<lparr>users := [new_user 0 ''a@b.c'' None None True 0], next_id := 1\<rparr>"
  have "\<not> isl (fst (issue_pair sample_app 0 (alone ?d)))" by code_simp
  then obtain pair where p: "issue_pair sample_app 0 (alone ?d) = (Inr pair, snd (issue_pair sample_app 0 (alone ?d)))"
    by (metis isl_def prod.collapse sum.exhaust)
  have u: "user_by_id 0 ?d = Some (new_user 0 ''a@b.c'' None None True 0)" by (simp add: user_by_id_def new_user_def)
  have "fst (auth_user sample_app (Some (''Bearer '' @ access pair)) (alone ?d)) = Inr 0"
    by (rule session_authenticates [OF sample_session_ok p, where r = "new_user 0 ''a@b.c'' None None True 0"])
       (simp_all add: u [unfolded One_nat_def] new_user_status sample_app_def)
  with p show ?thesis unfolding Let_def by (metis fst_conv)
qed

section \<open>One-time codes\<close>

lemma code_live_earlier: "code_live uid kind t c \<Longrightarrow> s \<le> t \<Longrightarrow> code_live uid kind s c"
  by (simp add: code_live_def)

lemma consumed_dead: "\<not> code_live uid kind t (c\<lparr>ac_consumed_at := Some s\<rparr>)"
  by (simp add: code_live_def)

definition codes_distinct :: "db \<Rightarrow> bool" where
  "codes_distinct d \<longleftrightarrow> distinct (map ac_id (auth_codes d))"

lemma consume_none:
  assumes "\<And>c. c \<in> set (auth_codes d) \<Longrightarrow> \<not> (code_live uid kind t c \<and> ac_code_hash c = ch)"
  shows "consume_code_sql uid kind ch t d = (Inr 0, d)"
  using assms by (simp add: consume_code_sql_def filter_empty_conv)

lemma consume_some:
  assumes "codes_distinct d" "c \<in> set (auth_codes d)" "code_live uid kind t c" "ac_code_hash c = ch"
  shows "\<exists>m \<in> set (auth_codes d). code_live uid kind t m \<and> ac_code_hash m = ch
           \<and> consume_code_sql uid kind ch t d = (Inr 1, consume (\<lambda>a. ac_id a = ac_id m) t d)"
proof -
  let ?live = "filter (\<lambda>c. code_live uid kind t c \<and> ac_code_hash c = ch) (auth_codes d)"
  have "max_by ac_created_at ?live \<noteq> None" using assms(2-4) by (auto simp: filter_empty_conv)
  then obtain m where m: "max_by ac_created_at ?live = Some m" by blast
  then have "m \<in> set ?live" by (rule max_by_in)
  moreover from this have "length (filter (\<lambda>a. ac_id a = ac_id m) (auth_codes d)) = 1"
    using assms(1) distinct_filter_one [of ac_id "auth_codes d" m] by (simp add: codes_distinct_def)
  ultimately show ?thesis using m by (auto simp: consume_code_sql_def)
qed

text \<open>What the two statements do: a right guess consumes one live code with that hash, a wrong one
  every live code of the user and the kind.\<close>

lemma consume_auth_code_calm:
  assumes "calm w" "codes_distinct (db w)"
  shows "wp (consume_auth_code uid kind ch)
     (\<lambda>b v. calm v \<and> now w \<le> now v \<and> draws v = draws w \<and> outbox v = outbox w \<and>
        (if b then \<exists>t m. now w \<le> t \<and> t \<le> now v \<and> m \<in> set (auth_codes (db w)) \<and> code_live uid kind t m
                 \<and> ac_code_hash m = ch \<and> db v = consume (\<lambda>a. ac_id a = ac_id m) t (db w)
         else db v = consume (code_live uid kind (now v)) (now v) (db w)
              \<and> (\<forall>c \<in> set (auth_codes (db w)). code_live uid kind (now v) c \<longrightarrow> ac_code_hash c \<noteq> ch)))
     (\<lambda>_ _. False) w"
  unfolding consume_auth_code_def wp_andthen
proof (rule wp_stmt_calm [OF assms(1)])
  fix v assume v: "calm v" "now w \<le> now v" "draws v = draws w" "outbox v = outbox w"
  let ?Q = "\<lambda>b u. calm u \<and> now w \<le> now u \<and> draws u = draws w \<and> outbox u = outbox w \<and>
        (if b then \<exists>t m. now w \<le> t \<and> t \<le> now u \<and> m \<in> set (auth_codes (db w)) \<and> code_live uid kind t m
                 \<and> ac_code_hash m = ch \<and> db u = consume (\<lambda>a. ac_id a = ac_id m) t (db w)
         else db u = consume (code_live uid kind (now u)) (now u) (db w)
              \<and> (\<forall>c \<in> set (auth_codes (db w)). code_live uid kind (now u) c \<longrightarrow> ac_code_hash c \<noteq> ch))"
  show "case consume_code_sql uid kind ch (now v) (db w) of (Inl e, d) \<Rightarrow> False
      | (Inr n, d) \<Rightarrow> wp (if n = 1 then ret True
            else andthen (update (\<lambda>t. consume (code_live uid kind t) t)) (\<lambda>_. ret False)) ?Q (\<lambda>_ _. False) (v\<lparr>db := d\<rparr>)"
  proof (cases "\<exists>c \<in> set (auth_codes (db w)). code_live uid kind (now v) c \<and> ac_code_hash c = ch")
    case True
    then obtain c where "c \<in> set (auth_codes (db w))" "code_live uid kind (now v) c" "ac_code_hash c = ch" by blast
    from consume_some [OF assms(2) this] obtain m
      where m: "m \<in> set (auth_codes (db w))" "code_live uid kind (now v) m" "ac_code_hash m = ch"
        "consume_code_sql uid kind ch (now v) (db w) = (Inr 1, consume (\<lambda>a. ac_id a = ac_id m) (now v) (db w))"
      by blast
    then show ?thesis using v by (auto simp: wp_ret)
  next
    case False
    then have none: "consume_code_sql uid kind ch (now v) (db w) = (Inr 0, db w)" by (intro consume_none) auto
    have "wp (andthen (update (\<lambda>t. consume (code_live uid kind t) t)) (\<lambda>_. ret False)) ?Q (\<lambda>_ _. False) (v\<lparr>db := db w\<rparr>)"
      unfolding wp_andthen
      by (rule wp_update_calm) (use v False code_live_earlier in \<open>auto simp: wp_ret\<close>)
    then show ?thesis using none by simp
  qed
qed

text \<open>Codes presented one after the other.\<close>

fun present_codes :: "uuid \<Rightarrow> string \<Rightarrow> string list \<Rightarrow> world \<Rightarrow> (db_error + bool) list \<times> world" where
  "present_codes uid kind [] w = ([], w)"
| "present_codes uid kind (guess # guesses) w =
     (case consume_auth_code uid kind guess w of
        (r, v) \<Rightarrow> (case present_codes uid kind guesses v of (rs, u) \<Rightarrow> (r # rs, u)))"

lemma present_codes_fst:
  "fst (present_codes uid kind (guess # guesses) w) =
     fst (consume_auth_code uid kind guess w) # fst (present_codes uid kind guesses (snd (consume_auth_code uid kind guess w)))"
  by (simp split: prod.split)

lemma burnt_codes:
  assumes "calm w" "codes_distinct (db w)" "consume_auth_code uid kind wrong w = (Inr False, v)"
  shows "calm v" "codes_distinct (db v)" "fst (consume_auth_code uid kind guess v) = Inr False"
proof -
  have v: "calm v" "db v = consume (code_live uid kind (now v)) (now v) (db w)"
    using wp_returns [OF consume_auth_code_calm [OF assms(1,2)] assms(3)] by auto
  have dist: "codes_distinct (db v)"
    using assms(2) v(2) by (simp add: codes_distinct_def consume_def map_update_where_same)
  have dead: "\<not> code_live uid kind t m" if "m \<in> set (auth_codes (db v))" "now v \<le> t" for t m
    using that code_live_earlier [OF _ that(2), of uid kind m] consumed_dead
    unfolding v(2) consume_def by (auto elim!: in_update_whereE)
  show "fst (consume_auth_code uid kind guess v) = Inr False"
  proof (cases "consume_auth_code uid kind guess v")
    case (Pair r u)
    then show ?thesis
      using wp_def [of "consume_auth_code uid kind guess"] consume_auth_code_calm [OF v(1) dist, of uid kind guess] dead
      by (cases r) (auto split: if_splits)
  qed
  show "calm v" "codes_distinct (db v)" by (rule v, rule dist)
qed

text \<open>
  C27. A code is good for one guess: when nobody else writes and the database answers, codes have unique identifiers, and a presented code is wrong, every
  live code of that user and purpose dies with it, so that of the guesses that follow none is accepted, however many
  there are, as long as no new code is issued in between.
\<close>

theorem wrong_guess_burns_codes:
  assumes "calm w" "codes_distinct (db w)"
    and "consume_auth_code uid kind wrong w = (Inr False, v)"
  shows "set (fst (present_codes uid kind guesses v)) \<subseteq> {Inr False}"
  using assms
proof (induction guesses arbitrary: wrong w v)
  case (Cons guess guesses)
  obtain u where u: "consume_auth_code uid kind guess v = (Inr False, u)"
    using burnt_codes(3) [OF Cons.prems, of guess] by (metis prod.collapse)
  from Cons.IH [OF burnt_codes(1,2) [OF Cons.prems] u] u show ?case by (simp add: present_codes_fst del: present_codes.simps)
qed simp

theorem wrong_guess_burns_codes_witness:
  "let w = alone (empty_db\<lparr>auth_codes := [\<lparr>ac_id = 1, ac_user_id = 0, ac_kind = ''email_verify'', ac_code_hash = ''right'',
                     ac_expires_at = 9, ac_consumed_at = None, ac_created_at = 0\<rparr>]\<rparr>)
   in set (fst (present_codes 0 ''email_verify'' [''right'', ''other'', ''right'']
        (snd (consume_auth_code 0 ''email_verify'' ''wrong'' w)))) \<subseteq> {Inr False}"
proof -
  let ?w = "alone (empty_db\<lparr>auth_codes := [\<lparr>ac_id = 1, ac_user_id = 0, ac_kind = ''email_verify'', ac_code_hash = ''right'',
                     ac_expires_at = 9, ac_consumed_at = None, ac_created_at = 0\<rparr>]\<rparr>)"
  have "fst (consume_auth_code 0 ''email_verify'' ''wrong'' ?w) = Inr False" by code_simp
  then have "consume_auth_code 0 ''email_verify'' ''wrong'' ?w = (Inr False, snd (consume_auth_code 0 ''email_verify'' ''wrong'' ?w))"
    by (metis prod.collapse)
  from wrong_guess_burns_codes [OF _ _ this] show ?thesis
    unfolding Let_def by (simp add: codes_distinct_def del: present_codes.simps)
qed

section \<open>Password reset\<close>

lemma hash_password_calm:
  "wp (hash_password st pw)
     (\<lambda>h v. argon2_hash st (draws w) pw = Some h \<and> v = w\<lparr>draws := Suc (draws w)\<rparr>) (\<lambda>_ _. True) w"
  by (auto simp: hash_password_def wp_rules split: option.split)

lemma find_by_email_calm:
  assumes "calm w"
  shows "wp (find_user_by_email st email)
     (\<lambda>row v. calm v \<and> now w \<le> now v \<and> draws v = draws w \<and> db v = db w
            \<and> row = map_option to_user_row (user_by_email st email (db w))) (\<lambda>_ _. False) w"
  unfolding find_user_by_email_def by (rule wp_query_calm [OF assms]) auto

lemma consume_users [simp]:
  "users (consume p t d) = users d" "refresh_tokens (consume p t d) = refresh_tokens d"
  by (simp_all add: consume_def)

text \<open>What a reset that succeeds means, between the world before and the world after.\<close>

definition reset_done :: "app \<Rightarrow> string \<Rightarrow> string \<Rightarrow> string \<Rightarrow> world \<Rightarrow> world \<Rightarrow> bool" where
  "reset_done st email code pw w v \<longleftrightarrow>
    (\<exists>u h c t. user_by_email st email (db w) = Some u \<and> valid_password pw
     \<and> c \<in> set (auth_codes (db w)) \<and> now w \<le> t \<and> t \<le> now v
     \<and> code_live (u_id u) ''password_reset'' t c \<and> ac_code_hash c = hash_code st code
     \<and> argon2_hash st (draws w) pw = Some h
     \<and> db v = (db w)
         \<lparr>users := update_where (\<lambda>r. u_id r = u_id u) (u_password_hash_update (\<lambda>_. Some h)) (users (db w)),
          refresh_tokens := update_where (\<lambda>r. rt_user_id r = u_id u \<and> rt_revoked_at r = None)
            (rt_revoked_at_update (\<lambda>_. Some (now v))) (refresh_tokens (db w)),
          auth_codes := update_where (\<lambda>a. ac_id a = ac_id c) (ac_consumed_at_update (\<lambda>_. Some t)) (auth_codes (db w))\<rparr>)"

text \<open>
  C28. When nobody else writes, the database answers and codes have unique identifiers, a reset that succeeds had a live \<^verbatim>\<open>password_reset\<close> code of the account
  with that email, and the code is consumed; the account has a hash of the new password and no other column changed, every
  refresh token of the account that was not revoked is, and nothing else in the database has changed.
\<close>

theorem reset_password_effect:
  assumes "calm w" "codes_distinct (db w)" "reset_password st email code pw w = (Inr r, v)"
  shows "reset_done st email code pw w v"
proof -
  let ?Q = "\<lambda>_ :: status. reset_done st email code pw w"
  have finish: "wp (andthen (internal (hash_password st pw)) (\<lambda>h.
       andthen (internal (update_password (u_id u) h)) (\<lambda>_.
       andthen (internal (revoke_all_refresh (u_id u))) (\<lambda>_. ret NO_CONTENT)))) ?Q (\<lambda>_ _. True) x"
    if "db x = consume (\<lambda>a. ac_id a = ac_id c) t (db w)"
      "calm x" "now w \<le> t" "t \<le> now x" "draws x = draws w" "user_by_email st email (db w) = Some u" "valid_password pw"
      "c \<in> set (auth_codes (db w))" "code_live (u_id u) ''password_reset'' t c" "ac_code_hash c = hash_code st code" for x t u c
    unfolding update_password_def revoke_all_refresh_def wp_map_err wp_andthen
    by (rule wp_mono [OF hash_password_calm])
       (use that in \<open>auto simp: reset_done_def wp_rules revoke_def set_user_def consume_def intro!: wp_update_calm exI\<close>)
  have "wp (reset_password st email code pw) ?Q (\<lambda>_ _. True) w"
    unfolding reset_password_def
  proof (rule wp_guard)
    assume pw: "\<not> \<not> valid_password pw"
    show "wp (andthen (internal (find_user_by_email st email)) (\<lambda>row. andthen (ok_or BAD_REQUEST row) (\<lambda>u.
       andthen (internal (consume_auth_code (u_id u) ''password_reset'' (hash_code st code))) (\<lambda>okay.
       andthen (reject_if (\<not> okay) BAD_REQUEST) (\<lambda>_. andthen (internal (hash_password st pw)) (\<lambda>h.
       andthen (internal (update_password (u_id u) h)) (\<lambda>_.
       andthen (internal (revoke_all_refresh (u_id u))) (\<lambda>_. ret NO_CONTENT)))))))) ?Q (\<lambda>_ _. True) w"
    proof (rule wp_call [OF find_by_email_calm [OF assms(1)]], rule wp_need)
      fix row x y
      assume x: "calm x \<and> now w \<le> now x \<and> draws x = draws w \<and> db x = db w
            \<and> row = map_option to_user_row (user_by_email st email (db w))" and "row = Some y"
      then obtain u where u: "user_by_email st email (db w) = Some u" "y = to_user_row u"
        by (cases "user_by_email st email (db w)") auto
      have id: "u_id y = u_id u" by (simp add: u to_user_row_def)
      have dist: "codes_distinct (db x)" using x assms(2) by simp
      show "wp (andthen (internal (consume_auth_code (u_id y) ''password_reset'' (hash_code st code))) (\<lambda>okay.
         andthen (reject_if (\<not> okay) BAD_REQUEST) (\<lambda>_. andthen (internal (hash_password st pw)) (\<lambda>h.
         andthen (internal (update_password (u_id y) h)) (\<lambda>_.
         andthen (internal (revoke_all_refresh (u_id y))) (\<lambda>_. ret NO_CONTENT)))))) ?Q (\<lambda>_ _. True) x"
        unfolding id
        by (rule wp_call [OF consume_auth_code_calm [OF conjunct1 [OF x] dist]], rule wp_guard)
           (use x u pw in \<open>auto intro!: finish\<close>)
    qed simp_all
  qed simp
  from wp_returns [OF this assms(3)] show ?thesis .
qed

theorem reset_password_effect_witness:
  "let w = alone (empty_db\<lparr>users := [new_user 0 ''a@b.c'' (Some ''old'') None True 0],
         auth_codes := [\<lparr>ac_id = 1, ac_user_id = 0, ac_kind = ''password_reset'', ac_code_hash = hash_code sample_app ''000001'',
                         ac_expires_at = 9, ac_consumed_at = None, ac_created_at = 0\<rparr>]\<rparr>)
   in reset_done sample_app ''a@b.c'' ''000001'' ''new password'' w
        (snd (reset_password sample_app ''a@b.c'' ''000001'' ''new password'' w))"
proof -
  let ?w = "alone (empty_db\<lparr>users := [new_user 0 ''a@b.c'' (Some ''old'') None True 0],
         auth_codes := [\<lparr>ac_id = 1, ac_user_id = 0, ac_kind = ''password_reset'', ac_code_hash = hash_code sample_app ''000001'',
                         ac_expires_at = 9, ac_consumed_at = None, ac_created_at = 0\<rparr>]\<rparr>)"
  let ?r = "reset_password sample_app ''a@b.c'' ''000001'' ''new password'' ?w"
  have "fst ?r = Inr NO_CONTENT" by code_simp
  then have "?r = (Inr NO_CONTENT, snd ?r)" by (metis prod.collapse)
  from reset_password_effect [OF _ _ this] show ?thesis unfolding Let_def by (simp add: codes_distinct_def)
qed

section \<open>Creating accounts\<close>

text \<open>After the insert the handlers leave the users alone.\<close>

lemma issue_pair_users: "stable (\<lambda>d. users d = us) w \<Longrightarrow> keeps (stable (\<lambda>d. users d = us)) (issue_pair st uid) w"
  unfolding issue_pair_def issue_access_def generate_refresh_def store_refresh_token_def Let_def
  by (intro keeps_bind)
     (auto simp: wp_rules store_refresh_token_sql_def split: option.split intro!: keeps_stmt)

text \<open>Why a registration is refused before anything is written, in the order of the checks.\<close>

definition register_refusal :: "app \<Rightarrow> register_req \<Rightarrow> world \<Rightarrow> status option" where
  "register_refusal st req w =
     (if \<not> valid_email (rq_email req) \<or> \<not> valid_password (rq_password req) then Some BAD_REQUEST
      else case parse_date st (rq_dob req) of
        None \<Rightarrow> Some BAD_REQUEST
      | Some dob \<Rightarrow>
          if \<not> is_adult dob (date_of st (now w)) then Some FORBIDDEN
          else if argon2_hash st (draws w) (rq_password req) = None then Some INTERNAL_SERVER_ERROR
          else if email_taken st (rq_email req) (db w) then Some CONFLICT
          else None)"

definition adds_user :: "(timestamp \<Rightarrow> user_rec) \<Rightarrow> db \<Rightarrow> world \<Rightarrow> bool" where
  "adds_user r d v \<longleftrightarrow> (\<exists>t. users (db v) = users d @ [r t])"

text \<open>The insert and a continuation that leaves the users alone, when the email is taken and when not.\<close>

lemma create_taken:
  assumes "calm w" "email_taken st email (db w)"
  shows "wp (andthen (map_err signup_error (create_user_full st email ph dob av)) k)
          (\<lambda>_ _. False) (\<lambda>e v. e = CONFLICT \<and> db v = db w) w"
  unfolding create_user_full_def wp_andthen wp_map_err
  by (rule wp_stmt_calm) (use assms in \<open>auto simp: create_user_full_sql_def signup_error_def\<close>)

lemma create_free:
  assumes "calm w" "\<not> email_taken st email (db w)"
    and k: "\<And>us uid v. stable (\<lambda>d. users d = us) v \<Longrightarrow> keeps (stable (\<lambda>d. users d = us)) (k uid) v"
  shows "keeps (adds_user (new_user (next_id (db w)) email ph dob av) (db w))
          (andthen (map_err signup_error (create_user_full st email ph dob av)) k) w"
  unfolding create_user_full_def wp_andthen wp_map_err
proof (rule wp_stmt_calm [OF assms(1)])
  let ?I = "adds_user (new_user (next_id (db w)) email ph dob av) (db w)"
  fix v assume v: "calm v"
  let ?d = "db w\<lparr>users := users (db w) @ [new_user (next_id (db w)) email ph dob av (now v)],
               next_id := Suc (next_id (db w))\<rparr>"
  have "stable (\<lambda>d. users d = users ?d) (v\<lparr>db := ?d\<rparr>)" using v by (subst calm_stable) simp_all
  from k [OF this] have "keeps ?I (k (next_id (db w))) (v\<lparr>db := ?d\<rparr>)"
    by (rule wp_mono) (auto simp: adds_user_def dest: stable_db)
  then show "case create_user_full_sql st email ph dob av (now v) (db w) of
      (Inl e, d) \<Rightarrow> ?I (v\<lparr>db := d\<rparr>) | (Inr x, d) \<Rightarrow> keeps ?I (k x) (v\<lparr>db := d\<rparr>)"
    using assms(2) by (simp add: create_user_full_sql_def)
qed

lemma register_run:
  "register st req w =
     (if \<not> valid_email (rq_email req) \<or> \<not> valid_password (rq_password req) then (Inl BAD_REQUEST, w)
      else case parse_date st (rq_dob req) of None \<Rightarrow> (Inl BAD_REQUEST, w)
        | Some dob \<Rightarrow> if \<not> is_adult dob (date_of st (now w)) then (Inl FORBIDDEN, w)
          else case argon2_hash st (draws w) (rq_password req) of
             None \<Rightarrow> (Inl INTERNAL_SERVER_ERROR, w\<lparr>draws := Suc (draws w)\<rparr>)
           | Some h \<Rightarrow> andthen (map_err signup_error (create_user_full st (rq_email req) (Some h) (Some dob) True))
                        (finish_signup st req) (w\<lparr>draws := Suc (draws w)\<rparr>))"
  by (simp add: register_def hash_password_def andthen_def reject_if_def ok_or_def map_err_def
      now_utc_def draw_def ret_def throw_def split: option.split)

text \<open>What follows the insert when the database answers and nobody else writes, stage by stage.\<close>

definition consent_rows :: "uuid \<Rightarrow> string list \<Rightarrow> consent list \<Rightarrow> bool" where
  "consent_rows uid kinds cs \<longleftrightarrow>
     map (\<lambda>c. (cr_user_id c, cr_kind c, cr_version c)) cs =
     map (\<lambda>kind. (uid, kind, ''1.0'')) (filter (\<lambda>k. k \<in> {''tos'', ''privacy'', ''age'', ''marketing''}) kinds)"

definition mailed_code :: "app \<Rightarrow> uuid \<Rightarrow> (string \<Rightarrow> message) \<Rightarrow> timestamp \<Rightarrow> auth_code \<Rightarrow> message \<Rightarrow> bool" where
  "mailed_code st uid msg t c m \<longleftrightarrow>
     (\<exists>code. m = msg (code_text @ code) \<and> ac_code_hash c = hash_code st code)
     \<and> ac_user_id c = uid \<and> ac_kind c = ''email_verify'' \<and> ac_consumed_at c = None \<and> t + minutes 30 \<le> ac_expires_at c"

definition session_rows :: "app \<Rightarrow> uuid \<Rightarrow> status + token_pair \<Rightarrow> refresh_token list \<Rightarrow> bool" where
  "session_rows st uid r xs \<longleftrightarrow>
     (case r of
        Inl e \<Rightarrow> e = INTERNAL_SERVER_ERROR \<and> xs = []
      | Inr pair \<Rightarrow> \<exists>x. xs = [x] \<and> rt_user_id x = uid \<and> rt_revoked_at x = None
                      \<and> rt_token_hash x = hash_token st (refresh_token pair))"

lemma user_by_id_frame [simp]:
  "user_by_id u (d\<lparr>consent_records := c\<rparr>) = user_by_id u d" "user_by_id u (d\<lparr>next_id := n\<rparr>) = user_by_id u d"
  "user_by_id u (d\<lparr>auth_codes := a\<rparr>) = user_by_id u d" "user_by_id u (d\<lparr>refresh_tokens := r\<rparr>) = user_by_id u d"
  by (simp_all add: user_by_id_def)

lemma consents_calm:
  assumes "calm w" "user_by_id uid (db w) \<noteq> None"
  shows "wp (for_each kinds (\<lambda>kind. andthen (attempt (record_consent uid kind ''1.0'')) (\<lambda>_. ret ())))
     (\<lambda>_ v. calm v \<and> now w \<le> now v \<and> outbox v = outbox w \<and> (\<exists>cs n. consent_rows uid kinds cs
        \<and> db v = (db w)\<lparr>consent_records := consent_records (db w) @ cs, next_id := n\<rparr>)) (\<lambda>(_ :: status) _. False) w"
  using assms
proof (induction kinds arbitrary: w)
  case Nil
  have "consent_rows uid [] [] \<and>
     db w = db w\<lparr>consent_records := consent_records (db w) @ [], next_id := next_id (db w)\<rparr>"
    by (simp add: consent_rows_def)
  then show ?case using Nil unfolding for_each.simps wp_ret by blast
next
  case (Cons kind kinds)
  let ?R = "\<lambda>ks w v. calm v \<and> now w \<le> now v \<and> outbox v = outbox w \<and> (\<exists>cs n. consent_rows uid ks cs
        \<and> db v = (db w)\<lparr>consent_records := consent_records (db w) @ cs, next_id := n\<rparr>)"
  have one: "wp (andthen (attempt (record_consent uid kind ''1.0'')) (\<lambda>_. ret ())) (\<lambda>_. ?R [kind] w) (\<lambda>(_ :: status) _. False) w"
    unfolding record_consent_def wp_andthen wp_attempt
  proof (rule wp_stmt_calm [OF Cons.prems(1)])
    fix v assume v: "calm v" "now w \<le> now v" "outbox v = outbox w"
    let ?c = "\<lparr>cr_id = next_id (db w), cr_user_id = uid, cr_kind = kind, cr_version = ''1.0'', cr_granted_at = now v\<rparr>"
    have "consent_rows uid [kind] (if kind \<in> {''tos'', ''privacy'', ''age'', ''marketing''} then [?c] else [])"
      by (simp add: consent_rows_def)
    moreover have "snd (record_consent_sql uid kind ''1.0'' (now v) (db w)) = (db w)\<lparr>consent_records := consent_records (db w)
        @ (if kind \<in> {''tos'', ''privacy'', ''age'', ''marketing''} then [?c] else []),
        next_id := next_id (snd (record_consent_sql uid kind ''1.0'' (now v) (db w)))\<rparr>"
      using Cons.prems(2) unfolding record_consent_sql_def by (auto simp del: insert_iff)
    ultimately have "\<exists>cs n. consent_rows uid [kind] cs \<and> snd (record_consent_sql uid kind ''1.0'' (now v) (db w))
        = (db w)\<lparr>consent_records := consent_records (db w) @ cs, next_id := n\<rparr>" by blast
    then have after: "?R [kind] w (v\<lparr>db := d\<rparr>)" if "d = snd (record_consent_sql uid kind ''1.0'' (now v) (db w))" for d
      using v that by simp
    show "case record_consent_sql uid kind ''1.0'' (now v) (db w) of
        (Inl e, d) \<Rightarrow> wp (ret ()) (\<lambda>_. ?R [kind] w) (\<lambda>(_ :: status) _. False) (v\<lparr>db := d\<rparr>)
      | (Inr x, d) \<Rightarrow> wp (ret ()) (\<lambda>_. ?R [kind] w) (\<lambda>(_ :: status) _. False) (v\<lparr>db := d\<rparr>)"
    proof (cases "record_consent_sql uid kind ''1.0'' (now v) (db w)")
      case (Pair a d)
      then show ?thesis using after [of d] unfolding wp_ret by (cases a) simp_all
    qed
  qed
  show ?case
    unfolding for_each.simps
  proof (rule wp_bind [OF one])
    fix x :: unit and v assume v: "?R [kind] w v"
    then obtain cs n where cs: "consent_rows uid [kind] cs"
      "db v = (db w)\<lparr>consent_records := consent_records (db w) @ cs, next_id := n\<rparr>" by blast
    from v have "calm v" by blast
    moreover have "user_by_id uid (db v) \<noteq> None" using Cons.prems(2) cs(2) by simp
    ultimately have step: "calm v" "user_by_id uid (db v) \<noteq> None" by blast+
    show "wp (for_each kinds (\<lambda>kind. andthen (attempt (record_consent uid kind ''1.0'')) (\<lambda>_. ret ())))
       (\<lambda>_. ?R (kind # kinds) w) (\<lambda>(_ :: status) _. False) v"
    proof (rule wp_mono [OF Cons.IH [OF step]])
      fix y u assume u: "?R kinds v u"
      then obtain cs' n' where cs': "consent_rows uid kinds cs'"
        "db u = (db v)\<lparr>consent_records := consent_records (db v) @ cs', next_id := n'\<rparr>" by blast
      have "consent_rows uid (kind # kinds) (cs @ cs')" using cs(1) cs'(1) unfolding consent_rows_def by simp
      moreover have "db u = (db w)\<lparr>consent_records := consent_records (db w) @ cs @ cs', next_id := n'\<rparr>"
        using cs(2) cs'(2) by simp
      ultimately show "?R (kind # kinds) w u" using u v by (metis order.trans)
    qed
  qed
qed

lemma code_row:
  "mailed_code st uid msg t x m \<Longrightarrow> \<exists>c. mailed_code st uid msg t c m \<and>
       (\<exists>n. (d\<lparr>auth_codes := A @ [x], next_id := k\<rparr>) = d\<lparr>auth_codes := A @ [c], next_id := n\<rparr>)"
  by blast

lemma mailed_codeI:
  "ac_code_hash c = hash_code st code \<Longrightarrow> ac_user_id c = uid \<and> ac_kind c = ''email_verify'' \<and> ac_consumed_at c = None
     \<and> t + minutes 30 \<le> ac_expires_at c \<Longrightarrow> mailed_code st uid msg t c (msg (code_text @ code))"
  by (auto simp: mailed_code_def)

lemma send_code_calm:
  assumes "calm w" "user_by_id uid (db w) \<noteq> None"
  shows "wp (send_code st uid ''email_verify'' 30 msg)
     (\<lambda>_ v. calm v \<and> now w \<le> now v \<and> (\<exists>c m n. mailed_code st uid msg (now w) c m \<and> outbox v = outbox w @ [m]
        \<and> db v = (db w)\<lparr>auth_codes := auth_codes (db w) @ [c], next_id := n\<rparr>)) (\<lambda>_ _. False) w"
  using assms unfolding send_code_def generate_code_def issue_auth_code_def
  by (auto simp: wp_rules issue_auth_code_sql_def CODE_KINDS_def intro!: wp_stmt_calm code_row mailed_codeI)

lemma session_row_ex:
  "rt_user_id x = uid \<and> rt_revoked_at x = None \<and> rt_token_hash x = hash_token st (refresh_token pair) \<Longrightarrow>
     \<exists>xs. session_rows st uid (Inr pair) xs \<and>
       (\<exists>n. (d\<lparr>refresh_tokens := R @ [x], next_id := m\<rparr>) = d\<lparr>refresh_tokens := R @ xs, next_id := n\<rparr>)"
  by (rule exI [of _ "[x]"]) (auto simp: session_rows_def)

lemma session_none: "session_rows st uid (Inl e) xs \<longleftrightarrow> e = INTERNAL_SERVER_ERROR \<and> xs = []"
  by (simp add: session_rows_def)

lemma issue_pair_calm:
  assumes "calm w"
  shows "wp (issue_pair st uid)
     (\<lambda>pair v. outbox v = outbox w \<and> (\<exists>xs n. session_rows st uid (Inr pair) xs
        \<and> db v = (db w)\<lparr>refresh_tokens := refresh_tokens (db w) @ xs, next_id := n\<rparr>))
     (\<lambda>e v. outbox v = outbox w \<and> session_rows st uid (Inl e) [] \<and> db v = db w) w"
  using assms unfolding issue_pair_def issue_access_def generate_refresh_def store_refresh_token_def Let_def
  by (auto simp: wp_rules store_refresh_token_sql_def session_none split: option.split prod.split sum.split
      intro!: wp_stmt_calm session_row_ex split: if_splits)

text \<open>The rows of a new account: what the database and the mailbox hold after the insert and what follows it.\<close>

definition signed_up :: "app \<Rightarrow> register_req \<Rightarrow> string \<Rightarrow> date \<Rightarrow> world \<Rightarrow> status + token_pair \<Rightarrow> world \<Rightarrow> bool" where
  "signed_up st req h dob w r v \<longleftrightarrow>
     (\<exists>t cs c m xs. let uid = next_id (db w) in
        consent_rows uid (rq_consents req) cs
      \<and> mailed_code st uid (Email (rq_email req) ''Verifica tu email'') t c m
      \<and> session_rows st uid r xs
      \<and> now w \<le> t \<and> outbox v = outbox w @ [m]
      \<and> db v = (db w)\<lparr>users := users (db w) @ [new_user uid (rq_email req) (Some h) (Some dob) True t],
                       consent_records := consent_records (db w) @ cs,
                       auth_codes := auth_codes (db w) @ [c],
                       refresh_tokens := refresh_tokens (db w) @ xs,
                       next_id := next_id (db v)\<rparr>)"


lemma finish_signup_calm:
  assumes "calm x" "now w \<le> now x" "outbox x = outbox w" "t = now x"
    and "db x = (db w)\<lparr>users := users (db w) @ [new_user (next_id (db w)) (rq_email req) (Some h) (Some dob) True t],
                   next_id := Suc (next_id (db w))\<rparr>"
  shows "wp (finish_signup st req (next_id (db w)))
           (\<lambda>pair v. signed_up st req h dob w (Inr pair) v) (\<lambda>e v. signed_up st req h dob w (Inl e) v) x"
  unfolding finish_signup_def
proof (rule wp_bind [OF wp_mono [OF consents_calm]])
  let ?uid = "next_id (db w)"
  let ?Q = "\<lambda>pair v. signed_up st req h dob w (Inr pair) v"
  let ?E = "\<lambda>e v. signed_up st req h dob w (Inl e) v"
  have here: "user_by_id ?uid (db x) \<noteq> None"
    unfolding assms(5) user_by_id_exists by (simp add: user_exists_def new_user_def)
  show "calm x" "user_by_id ?uid (db x) \<noteq> None" by (rule assms here)+
  fix y :: unit and v
  assume v: "calm v \<and> now x \<le> now v \<and> outbox v = outbox x \<and> (\<exists>cs n. consent_rows ?uid (rq_consents req) cs
        \<and> db v = (db x)\<lparr>consent_records := consent_records (db x) @ cs, next_id := n\<rparr>)"
  then obtain cs n where cs: "consent_rows ?uid (rq_consents req) cs"
    "db v = (db x)\<lparr>consent_records := consent_records (db x) @ cs, next_id := n\<rparr>" by blast
  have "calm v" "user_by_id ?uid (db v) \<noteq> None" using v here unfolding cs(2) by simp_all
  from send_code_calm [OF this]
  show "wp (andthen (send_code st ?uid ''email_verify'' 30 (Email (rq_email req) ''Verifica tu email'')) (\<lambda>_. issue_pair st ?uid)) ?Q ?E v"
  proof (rule wp_bind [OF wp_mono])
    fix z :: unit and u
    assume u: "calm u \<and> now v \<le> now u \<and> (\<exists>c m n. mailed_code st ?uid (Email (rq_email req) ''Verifica tu email'') (now v) c m
        \<and> outbox u = outbox v @ [m] \<and> db u = (db v)\<lparr>auth_codes := auth_codes (db v) @ [c], next_id := n\<rparr>)"
    then obtain c m n' where c: "mailed_code st ?uid (Email (rq_email req) ''Verifica tu email'') (now v) c m"
      "outbox u = outbox v @ [m]" "db u = (db v)\<lparr>auth_codes := auth_codes (db v) @ [c], next_id := n'\<rparr>" by blast
    have mailed: "mailed_code st ?uid (Email (rq_email req) ''Verifica tu email'') t c m"
      using c(1) v assms(4) by (auto simp: mailed_code_def)
    have all: "signed_up st req h dob w r u'" if "outbox u' = outbox u" "session_rows st ?uid r xs"
      "db u' = (db u)\<lparr>refresh_tokens := refresh_tokens (db u) @ xs, next_id := n''\<rparr>" for r u' xs n''
      unfolding signed_up_def Let_def
      by (intro exI [of _ t] exI [of _ cs] exI [of _ c] exI [of _ m] exI [of _ xs])
         (use that cs c mailed assms v in simp)
    show "wp (issue_pair st ?uid) ?Q ?E u"
    proof (rule wp_mono [OF issue_pair_calm])
      show "calm u" using u by blast
      show "?Q pair u'" if "outbox u' = outbox u \<and> (\<exists>xs n. session_rows st ?uid (Inr pair) xs
        \<and> db u' = (db u)\<lparr>refresh_tokens := refresh_tokens (db u) @ xs, next_id := n\<rparr>)" for pair u'
        using that all by blast
      show "?E e u'" if "outbox u' = outbox u \<and> session_rows st ?uid (Inl e) [] \<and> db u' = db u" for e u'
        using that all [of u' "Inl e" "[]" "next_id (db u)"] by simp
    qed
  qed simp_all
qed simp

text \<open>
  C29. When nobody else writes and the database answers, registration checks, in this order, the email and password, the
  date, the age of 18, and that the email is free up to case, and refuses with 400, 400, 403 and 409 (500 when the password
  cannot be hashed), writing and mailing nothing. When all hold, the database gains exactly these rows and no other row of
  it changes: one account, active, with the parsed date of birth of an adult and the hash of the password; the consents of a
  known kind, in the order given; one unused email code, good for 30 minutes, of which the one message mailed carries the
  text and the row the hash; and the session's refresh token, of the pair returned. The session is the only row that can
  be missing (its token could not be signed or stored): the answer is then 500, and the account stays.
\<close>

theorem register_exact:
  assumes "calm w"
  shows "case register_refusal st req w of
           Some e \<Rightarrow> fst (register st req w) = Inl e \<and> db (snd (register st req w)) = db w
             \<and> outbox (snd (register st req w)) = outbox w
         | None \<Rightarrow> \<exists>dob h. parse_date st (rq_dob req) = Some dob \<and> is_adult dob (date_of st (now w))
             \<and> argon2_hash st (draws w) (rq_password req) = Some h
             \<and> signed_up st req h dob w (fst (register st req w)) (snd (register st req w))"
proof -
  let ?w = "w\<lparr>draws := Suc (draws w)\<rparr>"
  let ?p = "\<lambda>h dob. andthen (map_err signup_error (create_user_full st (rq_email req) (Some h) (Some dob) True))
                  (finish_signup st req)"
  have taken: "fst (?p h dob ?w) = Inl CONFLICT \<and> db (snd (?p h dob ?w)) = db w \<and> outbox (snd (?p h dob ?w)) = outbox w"
    if "email_taken st (rq_email req) (db w)" for h dob
  proof -
    have "wp (?p h dob) (\<lambda>_ _. False) (\<lambda>e v. e = CONFLICT \<and> db v = db w \<and> outbox v = outbox w) ?w"
      unfolding create_user_full_def
      by (rule calm_stmt_then) (use assms that in \<open>auto simp: create_user_full_sql_def signup_error_def\<close>)
    then show ?thesis by (auto simp: wp_def split: prod.splits sum.splits)
  qed
  have free: "signed_up st req h dob w (fst (?p h dob ?w)) (snd (?p h dob ?w))"
    if "\<not> email_taken st (rq_email req) (db w)" for h dob
  proof -
    have "wp (?p h dob) (\<lambda>pair v. signed_up st req h dob w (Inr pair) v) (\<lambda>e v. signed_up st req h dob w (Inl e) v) ?w"
      unfolding create_user_full_def
      by (rule calm_stmt_then)
         (use assms that in \<open>auto simp: create_user_full_sql_def intro!: finish_signup_calm\<close>)
    then show ?thesis by (simp add: wp_def split: prod.splits sum.splits)
  qed
  show ?thesis
    unfolding register_run register_refusal_def using taken free by (auto split: option.split)
qed

lemma sample_register:
  "\<not> isl (fst (register sample_app \<lparr>rq_email = ''a@b.c'', rq_password = ''password'', rq_dob = ''1990-01-01'',
                                rq_consents = [''tos'', ''x'', ''age'']\<rparr> (alone empty_db)))"
proof -
  have checks: "valid_email ''a@b.c''" "valid_password ''password''" by code_simp+
  have dob: "parse_date sample_app ''1990-01-01'' = Some \<lparr>year = 1990, month = 1, day = 1\<rparr>" by code_simp
  have adult: "is_adult \<lparr>year = 1990, month = 1, day = 1\<rparr> (date_of sample_app 0)" by code_simp
  have pw: "argon2_hash sample_app i p = Some p" for i p by (simp add: sample_app_def)
  have jwt: "\<exists>tok. jwt_encode sample_app k \<lparr>cl_sub = s, cl_exp = access_ttl_secs sample_app, cl_iat = 0\<rparr> = Some tok" for k s
    by (simp add: sample_app_def)
  show ?thesis
    using jwt [of "jwt_secret sample_app" "uuid_text sample_app 0"]
    by (auto simp: register_run checks dob adult [unfolded One_nat_def] pw run_prog finish_signup_def create_user_full_def
        create_user_full_sql_def email_taken_def record_consent_def record_consent_sql_def send_code_def generate_code_def
        issue_auth_code_def issue_auth_code_sql_def CODE_KINDS_def issue_pair_def issue_access_def generate_refresh_def
        store_refresh_token_def store_refresh_token_sql_def alone_def user_by_id_def new_user_def unix_timestamp_def
        empty_db_def send_def Let_def)
qed

theorem register_exact_witness:
  "let req = \<lparr>rq_email = ''a@b.c'', rq_password = ''password'', rq_dob = ''1990-01-01'', rq_consents = [''tos'', ''x'', ''age'']\<rparr>;
       r = register sample_app req (alone empty_db)
   in \<not> isl (fst r)
      \<and> signed_up sample_app req ''password'' \<lparr>year = 1990, month = 1, day = 1\<rparr> (alone empty_db) (fst r) (snd r)"
proof -
  let ?req = "\<lparr>rq_email = ''a@b.c'', rq_password = ''password'', rq_dob = ''1990-01-01'', rq_consents = [''tos'', ''x'', ''age'']\<rparr>"
  have "register_refusal sample_app ?req (alone empty_db) = None" by code_simp
  from register_exact [OF alone_simps(4) [of empty_db], where st = sample_app and req = ?req, unfolded this option.case]
  obtain dob h where new: "parse_date sample_app (rq_dob ?req) = Some dob"
    "argon2_hash sample_app (draws (alone empty_db)) (rq_password ?req) = Some h"
    "signed_up sample_app ?req h dob (alone empty_db) (fst (register sample_app ?req (alone empty_db)))
        (snd (register sample_app ?req (alone empty_db)))"
    by blast
  have "parse_date sample_app (rq_dob ?req) = Some \<lparr>year = 1990, month = 1, day = 1\<rparr>" by code_simp
  then have dob: "dob = \<lparr>year = 1990, month = 1, day = 1\<rparr>" unfolding new(1) by (rule option.inject [THEN iffD1])
  have "argon2_hash sample_app (draws (alone empty_db)) (rq_password ?req) = Some ''password''" by code_simp
  then have h: "h = ''password''" unfolding new(2) by (rule option.inject [THEN iffD1])
  with sample_register new(3) show ?thesis unfolding Let_def dob h by (intro conjI)
qed

lemma oauth_account_new:
  "andthen (oauth_account st provider ident None) k =
     andthen (map_err signup_error (create_user_full st (oauth_email_of provider ident) None None True))
       (\<lambda>uid. andthen (internal (add_auth_identity uid provider (provider_uid ident))) (\<lambda>_. k uid))"
  by (simp add: oauth_account_def andthen_def fun_eq_iff ret_def split: prod.split sum.split)

text \<open>
  OAuth sign-up has no age gate: a new identity with a free email makes an account that is
  marked as age-verified and has no date of birth.
\<close>

theorem oauth_signup_unverified_age:
  assumes "calm w" "provider = ''apple'' \<or> provider = ''google''"
    and "oauth_verify st provider tok = Some ident"
    and "identity_owner provider (provider_uid ident) (db w) = None"
    and "\<not> email_taken st (oauth_email_of provider ident) (db w)"
  shows "adds_user (\<lambda>t. (new_user (next_id (db w)) (oauth_email_of provider ident) None None False t)
                          \<lparr>u_age_verified := True, u_dob := None\<rparr>) (db w) (snd (oauth st provider tok w))"
proof -
  let ?I = "adds_user (new_user (next_id (db w)) (oauth_email_of provider ident) None None True) (db w)"
  have k: "keeps (stable (\<lambda>d. users d = us)) (andthen (internal (add_auth_identity uid provider (provider_uid ident)))
             (\<lambda>_. issue_pair st uid)) v" if "stable (\<lambda>d. users d = us) v" for us uid v
    using that
    by (auto simp: add_auth_identity_def add_auth_identity_sql_def intro!: keeps_bind keeps_stmt issue_pair_users)
  have "keeps ?I (andthen (internal (find_auth_identity provider (provider_uid ident))) (\<lambda>found.
          andthen (oauth_account st provider ident found) (issue_pair st))) w"
  proof (rule wp_bind [where R = "\<lambda>found v. calm v \<and> db v = db w \<and> found = None"])
    show "wp (internal (find_auth_identity provider (provider_uid ident)))
            (\<lambda>found v. calm v \<and> db v = db w \<and> found = None) (\<lambda>_. ?I) w"
      unfolding find_auth_identity_def wp_map_err
      by (rule wp_query_calm [OF assms(1)]) (use assms(4) in simp)
  next
    fix found :: "uuid option" and v assume v: "calm v \<and> db v = db w \<and> found = None"
    then have "keeps ?I (andthen (map_err signup_error (create_user_full st (oauth_email_of provider ident) None None True))
        (\<lambda>uid. andthen (internal (add_auth_identity uid provider (provider_uid ident))) (\<lambda>_. issue_pair st uid))) v"
      using create_free [OF _ _ k, of v st "oauth_email_of provider ident" None None True] assms(5) by simp
    then show "keeps ?I (andthen (oauth_account st provider ident found) (issue_pair st)) v"
      using v by (simp add: oauth_account_new)
  qed
  then have "keeps ?I (oauth st provider tok) w"
    using assms(2,3) unfolding oauth_def by (intro wp_guard wp_need) auto
  then have "?I (snd (oauth st provider tok w))" by (rule keeps_final)
  then show ?thesis by (simp add: adds_user_def new_user_def)
qed

theorem oauth_signup_unverified_age_witness:
  "adds_user (\<lambda>t. (new_user 0 ''g+google@oauth.local'' None None False t)\<lparr>u_age_verified := True, u_dob := None\<rparr>)
     empty_db (snd (oauth sample_app ''google'' ''g'' (alone empty_db)))"
  using oauth_signup_unverified_age [of "alone empty_db" "''google''" sample_app "''g''" "\<lparr>provider_uid = ''g'', oauth_email = None\<rparr>"]
  by (simp add: sample_app_def empty_db_def identity_owner_def email_taken_def oauth_email_of_def)

text \<open>
  The two inserts of an OAuth sign-up are not one transaction: when the second is refused the
  account stays without its identity, the caller gets a 500, and every later sign-in with the
  same provider account is answered 409, because the email is now taken.
\<close>

theorem oauth_signup_lost:
  assumes "calm w" "turns w = [t1, t2]" "outcome t3 = Refused" "others t3 = id"
    and "provider = ''apple'' \<or> provider = ''google''"
    and "oauth_verify st provider tok = Some ident"
    and "identity_owner provider (provider_uid ident) (db w) = None"
    and "\<not> email_taken st (oauth_email_of provider ident) (db w)"
  shows "fst (oauth st provider tok (w\<lparr>turns := [t1, t2, t3]\<rparr>)) = Inl INTERNAL_SERVER_ERROR
    \<and> (\<forall>v. calm v \<and> db v = db (snd (oauth st provider tok (w\<lparr>turns := [t1, t2, t3]\<rparr>)))
          \<longrightarrow> fst (oauth st provider tok v) = Inl CONFLICT)"
proof -
  let ?w = "w\<lparr>turns := [t1, t2, t3]\<rparr>"
  let ?email = "oauth_email_of provider ident"
  have t: "outcome t1 = Served" "others t1 = id" "outcome t2 = Served" "others t2 = id"
    using assms(1,2) by (auto simp: calm_def)
  have first: "fst (oauth st provider tok ?w) = Inl INTERNAL_SERVER_ERROR
     \<and> adds_user (new_user (next_id (db w)) ?email None None True) (db w) (snd (oauth st provider tok ?w))
     \<and> auth_identities (db (snd (oauth st provider tok ?w))) = auth_identities (db w)"
    using assms(3-8) t
    by (auto simp: oauth_def find_auth_identity_def oauth_account_def create_user_full_def add_auth_identity_def
        query_def stmt_def take_turn_def next_turn_def andthen_def reject_if_def ok_or_def map_err_def throw_def ret_def
        create_user_full_sql_def adds_user_def Let_def)
  have retry: "fst (oauth st provider tok v) = Inl CONFLICT"
    if v: "calm v" "db v = db (snd (oauth st provider tok ?w))" for v
  proof -
    have taken: "email_taken st ?email (db v)" "identity_owner provider (provider_uid ident) (db v) = None"
      using first v(2) assms(7) by (auto simp: adds_user_def email_taken_def new_user_def identity_owner_def)
    have "wp (andthen (internal (find_auth_identity provider (provider_uid ident))) (\<lambda>found.
            andthen (oauth_account st provider ident found) (issue_pair st))) (\<lambda>_ _. False) (\<lambda>e _. e = CONFLICT) v"
    proof (rule wp_bind [where R = "\<lambda>found u. calm u \<and> db u = db v \<and> found = None"])
      show "wp (internal (find_auth_identity provider (provider_uid ident)))
              (\<lambda>found u. calm u \<and> db u = db v \<and> found = None) (\<lambda>e _. e = CONFLICT) v"
        unfolding find_auth_identity_def wp_map_err
        by (rule wp_query_calm [OF v(1)]) (use taken(2) in simp)
    next
      fix found :: "uuid option" and u assume u: "calm u \<and> db u = db v \<and> found = None"
      then have "wp (andthen (oauth_account st provider ident None) (issue_pair st)) (\<lambda>_ _. False) (\<lambda>e u'. e = CONFLICT \<and> db u' = db u) u"
        unfolding oauth_account_new using taken(1) by (intro create_taken) auto
      then show "wp (andthen (oauth_account st provider ident found) (issue_pair st)) (\<lambda>_ _. False) (\<lambda>e _. e = CONFLICT) u"
        using u by (auto elim: wp_mono)
    qed
    then have "wp (oauth st provider tok) (\<lambda>_ _. False) (\<lambda>e _. e = CONFLICT) v"
      using assms(5,6) unfolding oauth_def by (intro wp_guard wp_need) auto
    then show ?thesis by (auto simp: wp_def split: prod.splits sum.splits)
  qed
  show ?thesis using first retry by simp
qed

theorem oauth_signup_lost_witness:
  "let t = \<lparr>delay = 0, others = id, outcome = Served\<rparr>;
       w = (alone empty_db)\<lparr>turns := [t, t, t\<lparr>outcome := Refused\<rparr>]\<rparr>;
       v = alone (db (snd (oauth sample_app ''apple'' ''a'' w)))
   in fst (oauth sample_app ''apple'' ''a'' w) = Inl INTERNAL_SERVER_ERROR
      \<and> fst (oauth sample_app ''apple'' ''a'' v) = Inl CONFLICT"
proof -
  let ?t = "\<lparr>delay = 0, others = id, outcome = Served\<rparr>"
  let ?w = "(alone empty_db)\<lparr>turns := [?t, ?t]\<rparr>"
  have "calm ?w" by (simp add: calm_def)
  from oauth_signup_lost [OF this, of ?t ?t "?t\<lparr>outcome := Refused\<rparr>" "''apple''" sample_app "''a''" "\<lparr>provider_uid = ''a'', oauth_email = None\<rparr>"]
  show ?thesis unfolding Let_def
    by (simp add: sample_app_def empty_db_def identity_owner_def email_taken_def)
qed

end
