(* ===== verification/Account.thy ===== *)
theory Account
  imports AuthProps
begin

text \<open>
  \<^verbatim>\<open>api/src/me.rs\<close> (deletion of an account) and the presence endpoint of \<^verbatim>\<open>api/src/grindr_t1.rs\<close>,
  over the queries of \<^verbatim>\<open>DbUsers\<close>.
\<close>

definition heartbeat :: "uuid \<Rightarrow> (world, status, uuid) prog" where
  "heartbeat uid = andthen (internal (touch_last_seen uid)) (\<lambda>_. ret uid)"

definition delete_account :: "app \<Rightarrow> uuid \<Rightarrow> (world, status, timestamp) prog" where
  "delete_account st uid =
     andthen (internal (revoke_all_refresh uid)) (\<lambda>_.
     internal (anonymize_user st uid))"







text \<open>The columns no statement of the deletion names.\<close>

definition kept_personal :: "db \<Rightarrow> (date option) list \<times> (date option \<times> string option) list" where
  "kept_personal d = (map u_dob (users d), map (\<lambda>p. (p_birthdate p, p_ethnicity p)) (profiles d))"

lemma kept_personal_frame [simp]:
  "kept_personal (d\<lparr>refresh_tokens := a\<rparr>) = kept_personal d"
  "kept_personal (d\<lparr>auth_identities := b\<rparr>) = kept_personal d"
  by (simp_all add: kept_personal_def)

lemma kept_personal_anonymize [simp]: "kept_personal (snd (anonymize_sql st uid t d)) = kept_personal d"
  by (simp add: kept_personal_def anonymize_sql_def set_user_def map_update_where_same wipe_user_def wipe_profile_def)

text \<open>
  The deletion is not complete: whatever it answers, in every interleaving with clients that
  leave these columns alone, the date of birth of the account and the birth date
  and ethnicity of its profile are still there.
\<close>

theorem delete_account_keeps_birth_date:
  assumes "stable (\<lambda>d. kept_personal d = x) w"
  shows "kept_personal (db (snd (delete_account st uid w))) = x"
proof -
  have "keeps (stable (\<lambda>d. kept_personal d = x)) (delete_account st uid) w"
    unfolding delete_account_def anonymize_user_def revoke_all_refresh_def using assms
    by (intro keeps_bind) (auto simp: revoke_def delete_identities_def intro!: keeps_bind keeps_update keeps_stmt)
  from keeps_final [OF this] show ?thesis by (rule stable_db)
qed

theorem delete_account_keeps_birth_date_witness:
  "let d = empty_db\<lparr>users := [(new_user 0 ''a@b.c'' None None True 0)\<lparr>u_dob := Some \<lparr>year = 1990, month = 1, day = 1\<rparr>\<rparr>]\<rparr>
   in kept_personal (db (snd (delete_account sample_app 0 (alone d)))) = ([Some \<lparr>year = 1990, month = 1, day = 1\<rparr>], [])"
  unfolding Let_def
  by (rule delete_account_keeps_birth_date) (simp add: kept_personal_def empty_db_def new_user_def)

end
