(* ===== verification/Billing.thy ===== *)
theory Billing
  imports AuthSafety "HOL-Library.List_Lexorder"
begin

text \<open>
  The subscriptions: the plan tables (\<^verbatim>\<open>db/src/plans.rs\<close>), the tiers and their features
  (\<^verbatim>\<open>api/src/premium.rs\<close>), and \<^verbatim>\<open>api/src/billing\<close>: the list of plans, the simulated purchase, the
  current subscription, and the RevenueCat webhook that grants and ends subscriptions.
\<close>

section \<open>Tiers and features\<close>

record premium_features =
  unlimited_grid :: bool
  no_ads :: bool
  incognito_mode :: bool
  read_receipts :: bool
  travel_pass :: bool
  priority_support :: bool
  advanced_filters :: bool
  max_tribes :: int
  max_profiles_grid :: int

definition I32_MAX :: int where "I32_MAX = 2147483647"

definition FREE :: premium_features where
  "FREE = \<lparr>unlimited_grid = False, no_ads = False, incognito_mode = False, read_receipts = False,
           travel_pass = False, priority_support = False, advanced_filters = False,
           max_tribes = 1, max_profiles_grid = 50\<rparr>"

definition XTRA :: premium_features where
  "XTRA = \<lparr>unlimited_grid = True, no_ads = True, incognito_mode = False, read_receipts = True,
           travel_pass = True, priority_support = False, advanced_filters = True,
           max_tribes = 3, max_profiles_grid = I32_MAX\<rparr>"

definition UNLIMITED :: premium_features where
  "UNLIMITED = \<lparr>unlimited_grid = True, no_ads = True, incognito_mode = True, read_receipts = True,
                travel_pass = True, priority_support = True, advanced_filters = True,
                max_tribes = I32_MAX, max_profiles_grid = I32_MAX\<rparr>"

definition features_for_tier :: "string \<Rightarrow> premium_features" where
  "features_for_tier tier =
     (if tier = ''xtra'' then XTRA else if tier = ''unlimited'' then UNLIMITED else FREE)"

text \<open>A comparison with a \<^verbatim>\<open>NULL\<close> column is not true.\<close>

definition sub_active :: "timestamp \<Rightarrow> subscription \<Rightarrow> bool" where
  "sub_active t s \<longleftrightarrow> s_status s = Some ''active'' \<and> (case s_expires_at s of None \<Rightarrow> False | Some ends \<Rightarrow> t < ends)"

definition plan_rank :: "subscription \<Rightarrow> nat" where
  "plan_rank s = (if s_plan_code s = Some ''unlimited'' then 2
                  else if s_plan_code s = Some ''vibra_plus'' then 1 else 0)"

definition best_plan :: "uuid \<Rightarrow> timestamp \<Rightarrow> db \<Rightarrow> string option" where
  "best_plan uid t d =
     Option.bind (max_by plan_rank (filter (\<lambda>s. s_user_id s = uid \<and> sub_active t s) (subscriptions d)))
       s_plan_code"

definition tier_of_plan :: "string option \<Rightarrow> string" where
  "tier_of_plan p =
     (if p = Some ''unlimited'' then ''unlimited'' else if p = Some ''vibra_plus'' then ''xtra'' else ''free'')"

definition resolve_subscription_tier :: "uuid \<Rightarrow> (world, db_error, unit) prog" where
  "resolve_subscription_tier uid =
     andthen (query (best_plan uid)) (\<lambda>best.
     update (\<lambda>_. set_user uid (u_subscription_tier_update (\<lambda>_. tier_of_plan best))))"

definition get_premium_status :: "uuid \<Rightarrow> (world, 'e, string \<times> premium_features) prog" where
  "get_premium_status uid =
     andthen (attempt (query (\<lambda>_ d. map_option u_subscription_tier (user_by_id uid d)))) (\<lambda>r.
     let tier = (case r of Inr (Some t) \<Rightarrow> t | _ \<Rightarrow> ''free'')
     in ret (tier, features_for_tier tier))"

section \<open>Plans and prices\<close>

text \<open>\<^verbatim>\<open>ORDER BY tier, code\<close>: text is ordered by the collation of the database.\<close>

definition list_plan_rows :: "app \<Rightarrow> (world, db_error, plan_row list) prog" where
  "list_plan_rows st = query (\<lambda>_ d. sort_key pl_tier (sort_key (\<lambda>p. collation st (pl_code p)) (plans d)))"

definition get_plan :: "string \<Rightarrow> (world, db_error, plan_row option) prog" where
  "get_plan code = query (\<lambda>_ d. List.find (\<lambda>p. pl_code p = code) (plans d))"

text \<open>\<^verbatim>\<open>INSERT .. ON CONFLICT (key) DO UPDATE\<close>: replace the row with the key, or append it.\<close>

definition upsert_by :: "('r \<Rightarrow> 'k) \<Rightarrow> ('r \<Rightarrow> 'r \<Rightarrow> 'r) \<Rightarrow> 'r \<Rightarrow> 'r list \<Rightarrow> 'r list" where
  "upsert_by key merge r rs =
     (if list_ex (\<lambda>x. key x = key r) rs then update_where (\<lambda>x. key x = key r) (\<lambda>x. merge x r) rs
      else rs @ [r])"

definition upsert_plan :: "string \<Rightarrow> string \<Rightarrow> int \<Rightarrow> bool \<Rightarrow> string option \<Rightarrow> (world, db_error, unit) prog" where
  "upsert_plan code name tier active descr =
     update (\<lambda>_ d. d\<lparr>plans := upsert_by pl_code (\<lambda>_ r. r)
       \<lparr>pl_code = code, pl_name = name, pl_tier = tier, pl_active = active, pl_description = descr\<rparr> (plans d)\<rparr>)"

definition list_plan_features :: "app \<Rightarrow> string \<Rightarrow> (world, db_error, plan_feature_row list) prog" where
  "list_plan_features st code =
     query (\<lambda>_ d. sort_key (\<lambda>f. collation st (pf_feature f)) (filter (\<lambda>f. pf_plan_code f = code) (plan_features d)))"

definition plan_exists :: "string \<Rightarrow> db \<Rightarrow> bool" where
  "plan_exists code d \<longleftrightarrow> list_ex (\<lambda>p. pl_code p = code) (plans d)"

definition upsert_plan_feature_sql :: "string \<Rightarrow> string \<Rightarrow> bool \<Rightarrow> int option \<Rightarrow> unit sql" where
  "upsert_plan_feature_sql code feature enabled limit t d =
     (if \<not> plan_exists code d then (Inl ForeignKeyViolation, d)
      else (Inr (), d\<lparr>plan_features := upsert_by (\<lambda>f. (pf_plan_code f, pf_feature f)) (\<lambda>_ r. r)
        \<lparr>pf_plan_code = code, pf_feature = feature, pf_enabled = enabled, pf_limit_value = limit\<rparr> (plan_features d)\<rparr>))"

definition upsert_plan_feature :: "string \<Rightarrow> string \<Rightarrow> bool \<Rightarrow> int option \<Rightarrow> (world, db_error, unit) prog" where
  "upsert_plan_feature code feature enabled limit = stmt (upsert_plan_feature_sql code feature enabled limit)"

definition delete_plan_feature :: "string \<Rightarrow> string \<Rightarrow> (world, db_error, unit) prog" where
  "delete_plan_feature code feature =
     update (\<lambda>_ d. d\<lparr>plan_features := delete_where (\<lambda>f. pf_plan_code f = code \<and> pf_feature f = feature) (plan_features d)\<rparr>)"

definition list_plan_prices :: "app \<Rightarrow> string \<Rightarrow> (world, db_error, plan_price_row list) prog" where
  "list_plan_prices st code =
     query (\<lambda>_ d. sort_key (\<lambda>p. collation st (pp_country_code p)) (filter (\<lambda>p. pp_plan_code p = code) (plan_prices d)))"

text \<open>A \<^verbatim>\<open>numeric(10,2)\<close> as text, two digits after the point.\<close>

definition two_digits :: "nat \<Rightarrow> string" where
  "two_digits n = [digit_char (n div 10 mod 10), digit_char (n mod 10)]"

definition numeric_text :: "int \<Rightarrow> string" where
  "numeric_text n =
     (if n < 0 then ''-'' else []) @ show_nat (nat \<bar>n\<bar> div 100) @ ''.'' @ two_digits (nat \<bar>n\<bar> mod 100)"

text \<open>The arithmetic is on \<^verbatim>\<open>i64\<close> and the result is cast to \<^verbatim>\<open>i32\<close>.\<close>

definition decimal_string_to_minor :: "string \<Rightarrow> int" where
  "decimal_string_to_minor s0 =
     (let s = trim s0;
          parts = (case split_once (CHR ''.'') s of Some p \<Rightarrow> p | None \<Rightarrow> (s, []));
          int_part = (case parse_i64 (fst parts) of None \<Rightarrow> 0 | Some i \<Rightarrow> i);
          two = take 2 (snd parts);
          frac_padded = two @ replicate (2 - length two) (CHR ''0'');
          frac_part = (case parse_i64 frac_padded of None \<Rightarrow> 0 | Some i \<Rightarrow> i)
      in sint (word_of_int (int_part * 100 + frac_part) :: 32 word))"

record price_dto =
  pd_id :: uuid
  pd_country_code :: string
  pd_currency :: string
  pd_period :: string
  pd_amount_minor :: int

record plan_dto =
  po_code :: string
  po_name :: string
  po_tier :: int
  po_description :: "string option"
  po_active :: bool
  po_features :: "string list"
  po_prices :: "price_dto list"

definition price_dtos :: "plan_price_row \<Rightarrow> price_dto list" where
  "price_dtos pr =
     (let dto = (\<lambda>period n. \<lparr>pd_id = pp_id pr, pd_country_code = pp_country_code pr, pd_currency = pp_currency pr,
                             pd_period = period, pd_amount_minor = decimal_string_to_minor (numeric_text n)\<rparr>)
      in (case pp_price_monthly pr of None \<Rightarrow> [] | Some n \<Rightarrow> [dto ''monthly'' n])
         @ (case pp_price_yearly pr of None \<Rightarrow> [] | Some n \<Rightarrow> [dto ''yearly'' n]))"

datatype billing_error = PlanNotFound | AlreadyActive | Unauthorized | Forbidden | Db

definition billing_status :: "billing_error \<Rightarrow> status" where
  "billing_status e =
     (case e of PlanNotFound \<Rightarrow> NOT_FOUND | AlreadyActive \<Rightarrow> CONFLICT | Unauthorized \<Rightarrow> UNAUTHORIZED
              | Forbidden \<Rightarrow> FORBIDDEN | Db \<Rightarrow> INTERNAL_SERVER_ERROR)"

abbreviation (input) dberr :: "(world, db_error, 'a) prog \<Rightarrow> (world, billing_error, 'a) prog" where
  "dberr m \<equiv> map_err (\<lambda>_. Db) m"

definition plan_dto_of :: "app \<Rightarrow> plan_row \<Rightarrow> (world, billing_error, plan_dto) prog" where
  "plan_dto_of st p =
     andthen (dberr (list_plan_features st (pl_code p))) (\<lambda>feats.
     andthen (dberr (list_plan_prices st (pl_code p))) (\<lambda>prices.
     ret \<lparr>po_code = pl_code p, po_name = pl_name p, po_tier = pl_tier p, po_description = pl_description p,
          po_active = pl_active p, po_features = map pf_feature (filter pf_enabled feats),
          po_prices = concat (map price_dtos prices)\<rparr>))"

fun plan_dtos :: "app \<Rightarrow> plan_row list \<Rightarrow> (world, billing_error, plan_dto list) prog" where
  "plan_dtos st [] = ret []"
| "plan_dtos st (p # ps) = andthen (plan_dto_of st p) (\<lambda>x. andthen (plan_dtos st ps) (\<lambda>xs. ret (x # xs)))"

text \<open>The final sort compares tier and then the bytes of the code; both sorts are stable.\<close>

definition list_plans :: "app \<Rightarrow> (world, billing_error, plan_dto list) prog" where
  "list_plans st =
     andthen (dberr (list_plan_rows st)) (\<lambda>rows.
     andthen (plan_dtos st (filter pl_active rows)) (\<lambda>out.
     ret (sort_key po_tier (sort_key po_code out))))"

section \<open>Subscriptions\<close>

record subscription_dto =
  sd_id :: uuid
  sd_plan_code :: string
  sd_plan_name :: string
  sd_price_id :: "uuid option"
  sd_period :: "string option"
  sd_period_days :: "int option"
  sd_status :: string
  sd_source :: string
  sd_started_at :: timestamp
  sd_expires_at :: timestamp
  sd_days_remaining :: int

definition insert_subscription_sql :: "(uuid \<Rightarrow> timestamp \<Rightarrow> subscription) \<Rightarrow> (uuid \<times> timestamp \<times> timestamp option) sql" where
  "insert_subscription_sql row t d =
     (let r = row (next_id d) t
      in if user_by_id (s_user_id r) d = None then (Inl ForeignKeyViolation, d)
         else if \<not> (case s_plan_code r of None \<Rightarrow> True | Some c \<Rightarrow> plan_exists c d) then (Inl ForeignKeyViolation, d)
         else if \<not> (case s_price_id r of None \<Rightarrow> True | Some p \<Rightarrow> list_ex (\<lambda>x. pp_id x = p) (plan_prices d))
         then (Inl ForeignKeyViolation, d)
         else (Inr (s_id r, s_started_at r, s_expires_at r),
               d\<lparr>subscriptions := subscriptions d @ [r], next_id := Suc (next_id d)\<rparr>))"

definition SUB_STATUSES :: "string list" where
  "SUB_STATUSES = [''active'', ''expired'', ''grace'', ''cancelled'']"

definition active_rc_row :: "uuid \<Rightarrow> string \<Rightarrow> subscription \<Rightarrow> bool" where
  "active_rc_row uid code s \<longleftrightarrow>
     s_user_id s = uid \<and> s_plan_code s = Some code \<and> s_source s = ''revenuecat'' \<and> s_status s = Some ''active''"

definition set_sub_status :: "uuid \<Rightarrow> string \<Rightarrow> string \<Rightarrow> db \<Rightarrow> db" where
  "set_sub_status uid code new d =
     d\<lparr>subscriptions := update_where (active_rc_row uid code) (s_status_update (\<lambda>_. Some new)) (subscriptions d)\<rparr>"

definition rc_row :: "uuid \<Rightarrow> string \<Rightarrow> timestamp \<Rightarrow> uuid \<Rightarrow> timestamp \<Rightarrow> subscription" where
  "rc_row uid code ends sid t =
     \<lparr>s_id = sid, s_user_id = uid, s_plan_code = Some code, s_price_id = None, s_period = None, s_period_days = None,
      s_source = ''revenuecat'', s_status = Some ''active'', s_started_at = t, s_expires_at = Some ends,
      s_tier = ''free'', s_store = None, s_revenuecat_id = None, s_current_period_end = None, s_created_at = t\<rparr>"

definition grant_revenuecat_subscription :: "uuid \<Rightarrow> string \<Rightarrow> timestamp \<Rightarrow> (world, db_error, unit) prog" where
  "grant_revenuecat_subscription uid code ends =
     andthen (update (\<lambda>_. set_sub_status uid code ''expired'')) (\<lambda>_.
     andthen (stmt (insert_subscription_sql (rc_row uid code ends))) (\<lambda>_. ret ()))"

definition revoke_revenuecat_subscription :: "uuid \<Rightarrow> string \<Rightarrow> string \<Rightarrow> (world, db_error, unit) prog" where
  "revoke_revenuecat_subscription uid code new_status =
     stmt (\<lambda>_ d. if new_status \<notin> set SUB_STATUSES \<and> list_ex (active_rc_row uid code) (subscriptions d)
                 then (Inl CheckViolation, d) else (Inr (), set_sub_status uid code new_status d))"

text \<open>\<^verbatim>\<open>JOIN plans\<close>, newest expiry first. \<^verbatim>\<open>EXTRACT(DAY FROM interval)\<close> of a positive
  difference of timestamps is its number of whole days.\<close>

definition my_subscription_row :: "uuid \<Rightarrow> timestamp \<Rightarrow> db \<Rightarrow> subscription_dto option" where
  "my_subscription_row uid t d =
     Option.bind (max_by (\<lambda>s. the (s_expires_at s))
        (filter (\<lambda>s. s_user_id s = uid \<and> sub_active t s
                     \<and> (case s_plan_code s of None \<Rightarrow> False | Some c \<Rightarrow> plan_exists c d)) (subscriptions d)))
       (\<lambda>s. map_option (\<lambda>p.
          \<lparr>sd_id = s_id s, sd_plan_code = pl_code p, sd_plan_name = pl_name p, sd_price_id = s_price_id s,
           sd_period = s_period s, sd_period_days = s_period_days s, sd_status = the (s_status s),
           sd_source = s_source s, sd_started_at = s_started_at s, sd_expires_at = the (s_expires_at s),
           sd_days_remaining = max 0 ((the (s_expires_at s) - t) div days 1)\<rparr>)
        (List.find (\<lambda>p. Some (pl_code p) = s_plan_code s) (plans d)))"

definition my_subscription :: "uuid \<Rightarrow> (world, billing_error, subscription_dto option) prog" where
  "my_subscription uid = dberr (query (my_subscription_row uid))"

definition simulate_purchase :: "string option \<Rightarrow> uuid \<Rightarrow> uuid \<Rightarrow> (world, billing_error, subscription_dto) prog" where
  "simulate_purchase dev_seed_enabled uid price_id =
     andthen (reject_if (dev_seed_enabled \<noteq> Some ''true'') Forbidden) (\<lambda>_.
     andthen (dberr (query (\<lambda>_ d. Option.bind (List.find (\<lambda>pp. pp_id pp = price_id) (plan_prices d)) (\<lambda>pp.
                map_option (\<lambda>p. (pp, p)) (List.find (\<lambda>p. pl_code p = pp_plan_code pp) (plans d)))))) (\<lambda>row.
     andthen (ok_or PlanNotFound row) (\<lambda>(pp, p).
     andthen (reject_if (\<not> pl_active p) PlanNotFound) (\<lambda>_.
     andthen (ok_or PlanNotFound
                (if pp_price_monthly pp \<noteq> None then Some (''monthly'', 30)
                 else if pp_price_yearly pp \<noteq> None then Some (''yearly'', 365) else None)) (\<lambda>(period, period_days).
     andthen (dberr (query (\<lambda>t d. length (filter (\<lambda>s. s_user_id s = uid \<and> s_plan_code s = Some (pl_code p) \<and> sub_active t s)
                                               (subscriptions d))))) (\<lambda>existing.
     andthen (reject_if (0 < existing) AlreadyActive) (\<lambda>_.
     andthen now_utc (\<lambda>started_at.
     let expires_at = started_at + days period_days in
     andthen (dberr (stmt (insert_subscription_sql (\<lambda>sid t.
                \<lparr>s_id = sid, s_user_id = uid, s_plan_code = Some (pl_code p), s_price_id = Some price_id,
                 s_period = Some period, s_period_days = Some period_days, s_source = ''simulated'',
                 s_status = Some ''active'', s_started_at = started_at, s_expires_at = Some expires_at,
                 s_tier = ''free'', s_store = None, s_revenuecat_id = None, s_current_period_end = None, s_created_at = t\<rparr>)))) (\<lambda>(sid, st_at, _).
     ret \<lparr>sd_id = sid, sd_plan_code = pl_code p, sd_plan_name = pl_name p, sd_price_id = Some price_id,
          sd_period = Some period, sd_period_days = Some period_days, sd_status = ''active'',
          sd_source = ''simulated'', sd_started_at = st_at, sd_expires_at = expires_at,
          sd_days_remaining = period_days\<rparr>)))))))))"

end
