(* ===== verification/Webhook.thy ===== *)
theory Webhook
  imports Billing
begin

text \<open>
  \<^verbatim>\<open>api/src/billing/webhook.rs\<close>: the RevenueCat webhook, from the secret in its header to the
  mark that the event was processed, and what its deliveries and redeliveries do.
\<close>

unbundle bit_operations_syntax

definition GRANT_EVENTS :: "string list" where
  "GRANT_EVENTS = [''INITIAL_PURCHASE'', ''RENEWAL'', ''PRODUCT_CHANGE'', ''UNCANCELLATION'', ''NON_RENEWING_PURCHASE'']"

definition REVOKE_EVENTS :: "string list" where
  "REVOKE_EVENTS = [''CANCELLATION'', ''EXPIRATION'']"

definition KNOWN_PLAN_CODES :: "string list" where
  "KNOWN_PLAN_CODES = [''vibra_plus'', ''unlimited'']"

definition constant_time_eq :: "bytes \<Rightarrow> bytes \<Rightarrow> bool" where
  "constant_time_eq a b =
     (if length a \<noteq> length b then False
      else foldl (\<lambda>diff (x, y). diff OR (x XOR y)) 0 (zip a b) = 0)"

fun map_plan_code :: "string list \<Rightarrow> string \<Rightarrow> string option" where
  "map_plan_code [] product_id = List.find (\<lambda>c. c = product_id) KNOWN_PLAN_CODES"
| "map_plan_code (eid # eids) product_id =
     (case List.find (\<lambda>c. c = eid) KNOWN_PLAN_CODES of
        Some code \<Rightarrow> Some code
      | None \<Rightarrow> map_plan_code eids product_id)"

text \<open>What the handler reads of the JSON body: each field as its \<^verbatim>\<open>as_str\<close>, \<^verbatim>\<open>as_i64\<close> or
  \<^verbatim>\<open>as_array\<close>, the elements of the array as their \<^verbatim>\<open>as_str\<close>.\<close>

record rc_event =
  ev_type :: "string option"
  ev_id :: "string option"
  ev_app_user_id :: "string option"
  ev_product_id :: "string option"
  ev_expiration_at_ms :: "int option"
  ev_entitlement_ids :: "string option list option"

datatype reply_note = Plain | Duplicate | Ignored string | Failed string

type_synonym reply = "status \<times> reply_note"

definition str_or_empty :: "string option \<Rightarrow> string" where
  "str_or_empty s = (case s of None \<Rightarrow> [] | Some x \<Rightarrow> x)"

text \<open>Division of \<^verbatim>\<open>i64\<close> truncates toward zero.\<close>

definition ms_to_secs :: "int \<Rightarrow> int" where
  "ms_to_secs ms = (if 0 \<le> ms then ms div 1000 else - ((- ms) div 1000))"

definition grant_expiry :: "app \<Rightarrow> int option \<Rightarrow> timestamp \<Rightarrow> timestamp" where
  "grant_expiry st ms t =
     (case Option.bind ms (\<lambda>m. from_unix st (ms_to_secs m)) of None \<Rightarrow> t + days 30 | Some x \<Rightarrow> x)"

text \<open>Step 5: grant or end; \<open>None\<close> when the handler goes on to mark the event.\<close>

definition apply_event ::
    "app \<Rightarrow> string \<Rightarrow> int option \<Rightarrow> uuid \<Rightarrow> string \<Rightarrow> (world, reply, reply option) prog" where
  "apply_event st event_type expiration_ms uid plan_code =
     (if event_type \<in> set GRANT_EVENTS then
        andthen now_utc (\<lambda>t.
        andthen (attempt (grant_revenuecat_subscription uid plan_code (grant_expiry st expiration_ms t))) (\<lambda>r.
        case r of
          Inl _ \<Rightarrow> ret (Some (INTERNAL_SERVER_ERROR, Failed ''db_error''))
        | Inr _ \<Rightarrow> andthen (attempt (resolve_subscription_tier uid)) (\<lambda>_. ret None)))
      else if event_type \<in> set REVOKE_EVENTS then
        (if event_type = ''CANCELLATION'' then ret None
         else andthen (attempt (revoke_revenuecat_subscription uid plan_code ''expired'')) (\<lambda>r.
              case r of
                Inl _ \<Rightarrow> ret (Some (INTERNAL_SERVER_ERROR, Failed ''db_error''))
              | Inr _ \<Rightarrow> andthen (attempt (resolve_subscription_tier uid)) (\<lambda>_. ret None)))
      else ret None)"

definition mark_processed :: "string \<Rightarrow> (world, reply, reply) prog" where
  "mark_processed event_id =
     (if event_id = [] then ret (OK, Plain)
      else andthen (attempt (update (\<lambda>_ d. if (''revenuecat'', event_id) \<in> set (processed_webhook_events d) then d
              else d\<lparr>processed_webhook_events := processed_webhook_events d @ [(''revenuecat'', event_id)]\<rparr>))) (\<lambda>_.
           ret (OK, Plain)))"

text \<open>Steps 3 to 5, for an event that is not a duplicate.\<close>

definition process_event :: "app \<Rightarrow> rc_event \<Rightarrow> (world, reply, reply) prog" where
  "process_event st ev =
     (case uuid_parse st (str_or_empty (ev_app_user_id ev)) of
        None \<Rightarrow> ret (OK, Ignored ''invalid_user_id'')
      | Some uid \<Rightarrow>
          andthen (attempt (query (\<lambda>_. user_exists uid))) (\<lambda>r.
          case r of
            Inl _ \<Rightarrow> ret (INTERNAL_SERVER_ERROR, Failed ''db_error'')
          | Inr False \<Rightarrow> ret (OK, Ignored ''unknown_user'')
          | Inr True \<Rightarrow>
              (case map_plan_code
                      (map the (filter (\<lambda>x. x \<noteq> None) (case ev_entitlement_ids ev of None \<Rightarrow> [] | Some xs \<Rightarrow> xs)))
                      (str_or_empty (ev_product_id ev)) of
                 None \<Rightarrow> ret (OK, Ignored ''unmappable_plan'')
               | Some plan_code \<Rightarrow>
                   andthen (apply_event st (str_or_empty (ev_type ev)) (ev_expiration_at_ms ev) uid plan_code) (\<lambda>stop.
                   case stop of
                     Some reply \<Rightarrow> ret reply
                   | None \<Rightarrow> mark_processed (str_or_empty (ev_id ev))))))"

text \<open>The lookup of the event id counts as "not seen" when the query fails.\<close>

definition already_processed :: "string \<Rightarrow> (world, reply, bool) prog" where
  "already_processed event_id =
     (if event_id = [] then ret False
      else andthen (attempt (query (\<lambda>_ d. (''revenuecat'', event_id) \<in> set (processed_webhook_events d)))) (\<lambda>r.
           ret (case r of Inl _ \<Rightarrow> False | Inr b \<Rightarrow> b)))"

definition revenuecat_webhook ::
    "app \<Rightarrow> string option \<Rightarrow> string option \<Rightarrow> rc_event \<Rightarrow> (world, reply, reply) prog" where
  "revenuecat_webhook st secret authorization ev =
     (case secret of
        None \<Rightarrow> ret (SERVICE_UNAVAILABLE, Failed ''webhook_unconfigured'')
      | Some s \<Rightarrow>
          if \<not> constant_time_eq (as_bytes (str_or_empty authorization)) (as_bytes s)
          then ret (UNAUTHORIZED, Failed ''invalid_secret'')
          else if str_or_empty (ev_type ev) = ''TEST'' then ret (OK, Plain)
          else andthen (already_processed (str_or_empty (ev_id ev))) (\<lambda>already.
               if already then ret (OK, Duplicate) else process_event st ev))"

section \<open>The secret\<close>

lemma foldl_or_zero:
  "foldl (\<lambda>diff (x, y). diff OR (x XOR y)) acc ps = (0 :: byte) \<longleftrightarrow> acc = 0 \<and> (\<forall>(x, y) \<in> set ps. x = y)"
proof (induction ps arbitrary: acc)
  case (Cons p ps)
  obtain x y where p: "p = (x, y)" by (cases p)
  have "acc OR (x XOR y) = 0 \<longleftrightarrow> acc = 0 \<and> x = y"
    by (auto simp: or_eq_0_iff bit_eq_iff bit_simps)
  then show ?case using Cons p by auto
qed simp

lemma constant_time_eq_iff: "constant_time_eq a b \<longleftrightarrow> a = b"
proof (cases "length a = length b")
  case True
  then have "(\<forall>(x, y) \<in> set (zip a b). x = y) \<longleftrightarrow> a = b"
    by (induction a b rule: list_induct2) auto
  then show ?thesis using True by (simp add: constant_time_eq_def foldl_or_zero)
qed (auto simp: constant_time_eq_def)

end
