(* ===== verification/BillingProps.thy ===== *)
theory BillingProps
  imports Webhook AuthProps
begin

text \<open>
  What the subscription code guarantees: the tier a user is given, the prices shown, the
  purchases accepted, and the deliveries of the webhook, with the failures in between that
  leave a payment without its tier.
\<close>

section \<open>Tiers\<close>

definition holds_plan :: "uuid \<Rightarrow> string \<Rightarrow> timestamp \<Rightarrow> db \<Rightarrow> bool" where
  "holds_plan uid code t d \<longleftrightarrow>
     (\<exists>s \<in> set (subscriptions d). s_user_id s = uid \<and> s_plan_code s = Some code \<and> sub_active t s)"

definition best_tier :: "uuid \<Rightarrow> timestamp \<Rightarrow> db \<Rightarrow> string" where
  "best_tier uid t d =
     (if holds_plan uid ''unlimited'' t d then ''unlimited''
      else if holds_plan uid ''vibra_plus'' t d then ''xtra'' else ''free'')"

lemma plan_rank_cases:
  "plan_rank s = 2 \<longleftrightarrow> s_plan_code s = Some ''unlimited''"
  "plan_rank s = 1 \<longleftrightarrow> s_plan_code s = Some ''vibra_plus''"
  "plan_rank s \<le> 2"
  by (auto simp: plan_rank_def)

lemma tier_of_best_plan: "tier_of_plan (best_plan uid t d) = best_tier uid t d"
proof -
  let ?rs = "filter (\<lambda>s. s_user_id s = uid \<and> sub_active t s) (subscriptions d)"
  show ?thesis
  proof (cases "max_by plan_rank ?rs")
    case None
    then show ?thesis
      by (auto simp: best_plan_def best_tier_def holds_plan_def tier_of_plan_def filter_empty_conv)
  next
    case (Some m)
    have m: "m \<in> set ?rs" and ge: "\<And>s. s \<in> set ?rs \<Longrightarrow> plan_rank s \<le> plan_rank m"
      using max_by_in [OF Some] max_by_ge [OF Some] by auto
    have u: "holds_plan uid ''unlimited'' t d \<longleftrightarrow> (\<exists>s \<in> set ?rs. plan_rank s = 2)"
      and v: "holds_plan uid ''vibra_plus'' t d \<longleftrightarrow> (\<exists>s \<in> set ?rs. plan_rank s = 1)"
      by (auto simp: holds_plan_def plan_rank_cases simp del: One_nat_def)
    have tier: "tier_of_plan (best_plan uid t d) = tier_of_plan (s_plan_code m)"
      using Some by (simp add: best_plan_def)
    consider "plan_rank m = 2" | "plan_rank m = 1" | "plan_rank m = 0"
      using plan_rank_cases(3) [of m] by linarith
    then show ?thesis
    proof cases
      case 1
      with m u have "holds_plan uid ''unlimited'' t d" by blast
      then show ?thesis using 1 tier by (simp add: best_tier_def tier_of_plan_def plan_rank_cases)
    next
      case 2
      with m v have "holds_plan uid ''vibra_plus'' t d" by blast
      moreover have "\<not> holds_plan uid ''unlimited'' t d" using 2 u ge by fastforce
      ultimately show ?thesis using 2 tier by (simp add: best_tier_def tier_of_plan_def plan_rank_cases del: One_nat_def)
    next
      case 3
      then have "\<not> holds_plan uid ''unlimited'' t d" "\<not> holds_plan uid ''vibra_plus'' t d"
        using u v ge by fastforce+
      moreover have "s_plan_code m \<noteq> Some ''unlimited''" "s_plan_code m \<noteq> Some ''vibra_plus''"
        using 3 by (auto simp: plan_rank_def split: if_splits)
      ultimately show ?thesis using tier by (simp add: best_tier_def tier_of_plan_def)
    qed
  qed
qed

lemma resolve_calm:
  assumes "calm w"
  shows "wp (resolve_subscription_tier uid)
     (\<lambda>_ v. calm v \<and> now w \<le> now v \<and> (\<exists>t. now w \<le> t \<and> t \<le> now v
        \<and> db v = set_user uid (u_subscription_tier_update (\<lambda>_. best_tier uid t (db w))) (db w))) (\<lambda>_ _. False) w"
  unfolding resolve_subscription_tier_def
  by (auto simp: wp_rules tier_of_best_plan intro!: wp_query_calm [OF assms] wp_update_calm exI)

text \<open>
  C38. When nobody else writes and the database answers (reading the subscriptions and writing the tier are two statements, which a
  grant of another request can come between), the tier written for a user is the best of the subscriptions active at that moment:
  \<open>unlimited\<close> if one is for that plan, else \<open>xtra\<close> for \<open>vibra_plus\<close>, else \<open>free\<close>, whatever the
  order of the rows and the plan of the last event; nobody else's row changes.
\<close>

theorem resolved_tier_is_best:
  assumes "calm w" "resolve_subscription_tier uid w = (r, v)"
  shows "r = Inr () \<and> (\<exists>t. now w \<le> t \<and> t \<le> now v
     \<and> users (db v) = update_where (\<lambda>u. u_id u = uid) (u_subscription_tier_update (\<lambda>_. best_tier uid t (db w))) (users (db w)))"
  using resolve_calm [OF assms(1), of uid] assms(2)
  by (cases r) (auto simp: wp_def set_user_def)

text \<open>User 0 had \<open>unlimited\<close> and has \<open>vibra_plus\<close> and a plan without a tier; user 1 has \<open>unlimited\<close>.\<close>

definition held :: "uuid \<Rightarrow> uuid \<Rightarrow> string \<Rightarrow> timestamp option \<Rightarrow> subscription" where
  "held sid uid plan ends = \<lparr>s_id = sid, s_user_id = uid, s_plan_code = Some plan, s_price_id = None, s_period = None,
     s_period_days = None, s_source = ''manual'', s_status = Some ''active'', s_started_at = - 9, s_expires_at = ends,
     s_tier = plan, s_store = None, s_revenuecat_id = None, s_current_period_end = None, s_created_at = - 9\<rparr>"

definition tiered_db :: db where
  "tiered_db = empty_db\<lparr>users := [new_user 0 ''a@b.c'' None None True 0, new_user 1 ''d@e.f'' None None True 0],
     subscriptions := [held 2 0 ''unlimited'' (Some (- 1)), held 3 0 ''other'' (Some 9), held 4 0 ''vibra_plus'' (Some 9),
                       held 5 1 ''unlimited'' (Some 9)]\<rparr>"

theorem resolved_tier_is_best_witness:
  "let v = snd (resolve_subscription_tier 0 (alone tiered_db))
   in map (\<lambda>u. (u_id u, u_subscription_tier u)) (users (db v)) = [(0, ''xtra''), (1, ''free'')]"
proof -
  have best: "best_tier 0 0 tiered_db = ''xtra''"
    by (simp add: best_tier_def holds_plan_def tiered_db_def held_def sub_active_def)
  have clock: "now (snd (resolve_subscription_tier 0 (alone tiered_db))) = 0"
    by (simp add: resolve_subscription_tier_def run_prog alone_def)
  have "users (db (snd (resolve_subscription_tier 0 (alone tiered_db))))
      = update_where (\<lambda>u. u_id u = 0) (u_subscription_tier_update (\<lambda>_. best_tier 0 0 tiered_db)) (users tiered_db)"
    using resolved_tier_is_best [of "alone tiered_db" 0 "fst (resolve_subscription_tier 0 (alone tiered_db))"
        "snd (resolve_subscription_tier 0 (alone tiered_db))"] unfolding clock by auto
  then show ?thesis unfolding Let_def best by (simp add: tiered_db_def new_user_def)
qed

section \<open>Prices\<close>

lemma two_digits_parse:
  assumes "n < 100"
  shows "parse_i64 (two_digits n) = Some (int n)"
proof -
  have "n div 10 mod 10 < 10" "n mod 10 < 10" "10 * (n div 10 mod 10) + n mod 10 = n" using assms by auto
  then show ?thesis using assms by (simp add: two_digits_def parse_i64_def parse_nat_def)
qed

lemma digit_not_space: "d < 10 \<Longrightarrow> \<not> is_space (digit_char d)"
  by (simp add: is_space_def digit_char_def Let_def)

lemma digit_not_dot: "d < 10 \<Longrightarrow> digit_char d \<noteq> CHR ''.''"
proof
  assume "d < 10" "digit_char d = CHR ''.''"
  then have "digit_value (CHR ''.'') = Some d" by (metis digit_value_digit_char)
  then show False by (simp add: digit_value_def Let_def)
qed

lemma digits_no_dot: "CHR ''.'' \<notin> set (show_nat n)"
  using show_nat_digits digit_not_dot by metis

lemma trim_numeric:
  assumes "0 \<le> n"
  shows "trim (numeric_text n) = numeric_text n"
proof -
  obtain c cs where c: "show_nat (nat n div 100) = c # cs" by (cases "show_nat (nat n div 100)") auto
  then have "c \<in> set (show_nat (nat n div 100))" by simp
  then have "\<not> is_space c" using show_nat_digits digit_not_space by blast
  moreover have "\<not> is_space (digit_char (nat n mod 100 mod 10))" by (rule digit_not_space) simp
  ultimately show ?thesis
    using assms c by (simp add: trim_def numeric_text_def two_digits_def)
qed

text \<open>
  A price of the database is shown in minor units exactly when it fits the \<^verbatim>\<open>i32\<close> of the
  response: every non-negative \<^verbatim>\<open>numeric(10,2)\<close> below 21474836.48; above that, the column still
  holds it and the cast wraps it.
\<close>

theorem price_minor_units:
  assumes "0 \<le> n" "n < 10 ^ 10"
  shows "decimal_string_to_minor (numeric_text n) = sint (word_of_int n :: 32 word)
    \<and> (decimal_string_to_minor (numeric_text n) = n \<longleftrightarrow> n < 2 ^ 31)"
proof -
  let ?i = "nat n div 100" and ?f = "nat n mod 100"
  have shape: "numeric_text n = show_nat ?i @ CHR ''.'' # two_digits ?f"
    using assms(1) by (simp add: numeric_text_def)
  have "parse_i64 (show_nat ?i) = Some (int ?i)"
    using parse_i64_show_int [of "int ?i"] assms by (simp add: show_int_def)
  moreover have "split_once (CHR ''.'') (numeric_text n) = Some (show_nat ?i, two_digits ?f)"
    unfolding shape by (rule split_once_append) (rule digits_no_dot)
  moreover have "take 2 (two_digits ?f) = two_digits ?f" "length (two_digits ?f) = 2"
    by (simp_all add: two_digits_def)
  ultimately have "decimal_string_to_minor (numeric_text n) = sint (word_of_int (int ?i * 100 + int ?f) :: 32 word)"
    using trim_numeric [OF assms(1)] two_digits_parse [of ?f]
    by (simp add: decimal_string_to_minor_def Let_def del: of_int_add of_int_mult of_int_of_nat_eq)
  moreover have "int ?i * 100 + int ?f = n"
    using assms(1) by (simp add: zdiv_int zmod_int)
  ultimately have eq: "decimal_string_to_minor (numeric_text n) = sint (word_of_int n :: 32 word)" by simp
  have "sint (word_of_int n :: 32 word) = n \<longleftrightarrow> n < 2 ^ 31"
    using assms(1) sint_range_size [of "word_of_int n :: 32 word"]
    by (auto simp: sint_sbintrunc' signed_take_bit_int_eq_self_iff word_size)
  with eq show ?thesis by simp
qed

theorem price_minor_units_witness:
  "decimal_string_to_minor (numeric_text 899) = 899 \<and> decimal_string_to_minor (numeric_text 3000000000) \<noteq> 3000000000"
  using price_minor_units [of 899] price_minor_units [of 3000000000] by simp

section \<open>The webhook\<close>

lemma as_bytes_inj: "as_bytes a = as_bytes b \<longleftrightarrow> a = b"
  by (metis bytes_to_text_as_bytes)

text \<open>
  Without the secret the webhook does nothing: when it is not configured, or the
  \<^verbatim>\<open>Authorization\<close> header (empty when absent) is not exactly the secret, it answers 503 or 401 and
  the world, tables, clock and random numbers, is as before.
\<close>

theorem webhook_needs_secret:
  assumes "secret \<noteq> Some (str_or_empty authorization)"
  shows "snd (revenuecat_webhook st secret authorization ev w) = w
     \<and> fst (revenuecat_webhook st secret authorization ev w) =
         Inr (if secret = None then (SERVICE_UNAVAILABLE, Failed ''webhook_unconfigured'')
              else (UNAUTHORIZED, Failed ''invalid_secret''))"
  using assms by (cases secret) (auto simp: revenuecat_webhook_def ret_def constant_time_eq_iff as_bytes_inj)

theorem webhook_needs_secret_witness:
  "\<forall>ev. revenuecat_webhook sample_app (Some ''s3cret'') (Some ''s3cre'') ev (alone empty_db)
     = (Inr (UNAUTHORIZED, Failed ''invalid_secret''), alone empty_db)"
  using webhook_needs_secret [of "Some ''s3cret''" "Some ''s3cre''" sample_app _ "alone empty_db"]
  by (simp add: prod_eq_iff str_or_empty_def)

lemma find_known: "List.find (\<lambda>c. c = x) KNOWN_PLAN_CODES = (if x \<in> set KNOWN_PLAN_CODES then Some x else None)"
  by (auto simp: KNOWN_PLAN_CODES_def)

text \<open>
  An event is mapped to a plan only by a literal match: the plan is one of the two known codes
  and stands verbatim among the entitlements or as the product, and there is one whenever such a
  match exists.
\<close>

theorem plan_mapped_verbatim:
  "map_plan_code eids product =
     (case List.find (\<lambda>e. e \<in> set KNOWN_PLAN_CODES) eids of
        Some e \<Rightarrow> Some e
      | None \<Rightarrow> if product \<in> set KNOWN_PLAN_CODES then Some product else None)"
  by (induction eids) (auto simp: find_known)

subsection \<open>Deliveries and redeliveries\<close>

definition event_plan :: "rc_event \<Rightarrow> string option" where
  "event_plan ev = map_plan_code
     (map the (filter (\<lambda>x. x \<noteq> None) (case ev_entitlement_ids ev of None \<Rightarrow> [] | Some xs \<Rightarrow> xs)))
     (str_or_empty (ev_product_id ev))"

text \<open>Events that are acknowledged and change nothing.\<close>

definition inert :: "app \<Rightarrow> rc_event \<Rightarrow> db \<Rightarrow> bool" where
  "inert st ev d \<longleftrightarrow>
     str_or_empty (ev_type ev) = ''TEST''
     \<or> (case uuid_parse st (str_or_empty (ev_app_user_id ev)) of None \<Rightarrow> True | Some uid \<Rightarrow> \<not> user_exists uid d)
     \<or> event_plan ev = None"

definition was_processed :: "rc_event \<Rightarrow> db \<Rightarrow> bool" where
  "was_processed ev d \<longleftrightarrow> (''revenuecat'', str_or_empty (ev_id ev)) \<in> set (processed_webhook_events d)"

lemma already_calm:
  assumes "calm w"
  shows "wp (already_processed (str_or_empty (ev_id ev)))
    (\<lambda>b v. calm v \<and> db v = db w \<and> b = (str_or_empty (ev_id ev) \<noteq> [] \<and> was_processed ev (db w))) (\<lambda>_ _. False) w"
  using assms
  by (auto simp: already_processed_def was_processed_def wp_rules intro!: wp_query_calm)

lemma process_inert:
  assumes "calm w" "inert st ev (db w)" "str_or_empty (ev_type ev) \<noteq> ''TEST''"
  shows "wp (process_event st ev) (\<lambda>r v. fst r = OK \<and> db v = db w) (\<lambda>_ _. False) w"
  using assms
  by (auto simp: process_event_def inert_def event_plan_def wp_rules split: option.split bool.split intro!: wp_query_calm)

lemma inert_or_seen_unchanged:
  assumes "calm w" "inert st ev (db w) \<or> str_or_empty (ev_id ev) \<noteq> [] \<and> was_processed ev (db w)"
  shows "db (snd (revenuecat_webhook st secret authorization ev w)) = db w"
proof -
  have "keeps (\<lambda>v. db v = db w) (revenuecat_webhook st secret authorization ev) w"
  proof (cases "(\<exists>s. secret = Some s \<and> constant_time_eq (as_bytes (str_or_empty authorization)) (as_bytes s))
      \<and> str_or_empty (ev_type ev) \<noteq> ''TEST''")
    case True
    have "keeps (\<lambda>v. db v = db w)
        (andthen (already_processed (str_or_empty (ev_id ev))) (\<lambda>b. if b then ret (OK, Duplicate) else process_event st ev)) w"
    proof (rule wp_bind)
      show "wp (already_processed (str_or_empty (ev_id ev)))
        (\<lambda>b v. calm v \<and> db v = db w \<and> b = (str_or_empty (ev_id ev) \<noteq> [] \<and> was_processed ev (db w))) (\<lambda>_ v. db v = db w) w"
        by (rule wp_mono [OF already_calm [OF assms(1)]]) auto
    next
      fix b v assume v: "calm v \<and> db v = db w \<and> b = (str_or_empty (ev_id ev) \<noteq> [] \<and> was_processed ev (db w))"
      have "keeps (\<lambda>v. db v = db w) (process_event st ev) v" if "\<not> b"
      proof -
        have "inert st ev (db v)" using that v assms(2) by auto
        with v True have "wp (process_event st ev) (\<lambda>r u. fst r = OK \<and> db u = db v) (\<lambda>_ _. False) v"
          by (intro process_inert) auto
        then show ?thesis by (rule wp_mono) (use v in auto)
      qed
      then show "keeps (\<lambda>v. db v = db w) (if b then ret (OK, Duplicate) else process_event st ev) v"
        using v by simp
    qed
    then show ?thesis using True by (auto simp: revenuecat_webhook_def)
  qed (auto simp: revenuecat_webhook_def split: option.split)
  then show ?thesis by (rule keeps_final)
qed

lemma calm_bind:
  assumes "keeps calm m w" and "\<And>x v. calm v \<Longrightarrow> wp (f x) Q (\<lambda>_. calm) v"
  shows "wp (andthen m f) Q (\<lambda>_. calm) w"
  using assms by (rule wp_bind)

lemma calm_resolve: "calm w \<Longrightarrow> keeps calm (resolve_subscription_tier uid) w"
  unfolding resolve_subscription_tier_def by (auto intro!: keeps_bind calm_query calm_update)

lemma calm_grant: "calm w \<Longrightarrow> keeps calm (grant_revenuecat_subscription uid code ends) w"
  unfolding grant_revenuecat_subscription_def by (auto intro!: keeps_bind calm_stmt calm_update)

lemma apply_event_calm:
  "calm w \<Longrightarrow> wp (apply_event st et ms uid code) (\<lambda>stop v. calm v \<and> (\<forall>r. stop = Some r \<longrightarrow> fst r \<noteq> OK)) (\<lambda>_. calm) w"
  unfolding apply_event_def revoke_revenuecat_subscription_def
  by (auto simp: wp_ret split: sum.split intro!: calm_bind calm_grant calm_resolve calm_stmt)

lemma mark_processed_calm:
  assumes "calm w"
  shows "wp (mark_processed (str_or_empty (ev_id ev)))
     (\<lambda>_ v. str_or_empty (ev_id ev) \<noteq> [] \<longrightarrow> was_processed ev (db v)) (\<lambda>_ _. True) w"
  using assms by (auto simp: mark_processed_def was_processed_def wp_rules intro!: wp_update_calm)

lemma processed_or_inert:
  assumes "calm w" "str_or_empty (ev_id ev) \<noteq> []"
  shows "wp (process_event st ev) (\<lambda>r v. fst r = OK \<longrightarrow> inert st ev (db v) \<or> was_processed ev (db v)) (\<lambda>_ _. True) w"
proof (cases "inert st ev (db w)")
  case True
  show ?thesis
  proof (cases "str_or_empty (ev_type ev) = ''TEST''")
    case False
    show ?thesis by (rule wp_mono [OF process_inert [OF assms(1) True False]]) (use True in auto)
  next
    case type: True
    then have "inert st ev d" for d by (simp add: inert_def)
    then show ?thesis by (auto simp: wp_def split: prod.split sum.split)
  qed
next
  case False
  then obtain uid code where ev: "uuid_parse st (str_or_empty (ev_app_user_id ev)) = Some uid" "user_exists uid (db w)"
      "event_plan ev = Some code"
    by (auto simp: inert_def split: option.splits)
  have rest: "wp (andthen (apply_event st (str_or_empty (ev_type ev)) (ev_expiration_at_ms ev) uid code) (\<lambda>stop.
       case stop of Some reply \<Rightarrow> ret reply | None \<Rightarrow> mark_processed (str_or_empty (ev_id ev))))
     (\<lambda>r v. fst r = OK \<longrightarrow> inert st ev (db v) \<or> was_processed ev (db v)) (\<lambda>_ _. True) v"
    if "calm v" for v
  proof (rule wp_bind)
    show "wp (apply_event st (str_or_empty (ev_type ev)) (ev_expiration_at_ms ev) uid code)
            (\<lambda>stop u. calm u \<and> (\<forall>r. stop = Some r \<longrightarrow> fst r \<noteq> OK)) (\<lambda>_ _. True) v"
      by (rule wp_mono [OF apply_event_calm [OF that]]) auto
  next
    fix stop :: "reply option" and u assume "calm u \<and> (\<forall>r. stop = Some r \<longrightarrow> fst r \<noteq> OK)"
    then show "wp (case stop of Some reply \<Rightarrow> ret reply | None \<Rightarrow> mark_processed (str_or_empty (ev_id ev)))
        (\<lambda>r v. fst r = OK \<longrightarrow> inert st ev (db v) \<or> was_processed ev (db v)) (\<lambda>_ _. True) u"
      using assms(2) by (auto simp: wp_ret split: option.split intro: wp_mono [OF mark_processed_calm])
  qed
  show ?thesis
    unfolding process_event_def using ev rest
    by (auto simp: event_plan_def wp_rules split: bool.split intro!: wp_query_calm [OF assms(1)])
qed

text \<open>
  C39. Redelivery is harmless when nothing interferes: if nobody else writes and the database answers during both deliveries, and the
  tables are at the second as the first left them, then after a delivery with an event id was answered 200, delivering the
  same event again (as RevenueCat does on retries), at any time, changes no table. (A mark as processed that the
  database refuses is only logged by the code, and the event is then handled again.)
\<close>

theorem webhook_redelivery:
  assumes "calm w" "str_or_empty (ev_id ev) \<noteq> []"
    and "revenuecat_webhook st (Some s) (Some s) ev w = (Inr r, v)" "fst r = OK"
    and "calm v'" "db v' = db v"
  shows "db (snd (revenuecat_webhook st (Some s) (Some s) ev v')) = db v"
proof -
  have body: "wp (andthen (already_processed (str_or_empty (ev_id ev)))
         (\<lambda>b. if b then ret (OK, Duplicate) else process_event st ev))
       (\<lambda>r v. fst r = OK \<longrightarrow> inert st ev (db v) \<or> was_processed ev (db v)) (\<lambda>_ _. True) w"
  proof (rule wp_bind)
    show "wp (already_processed (str_or_empty (ev_id ev)))
        (\<lambda>b v. calm v \<and> db v = db w \<and> b = (str_or_empty (ev_id ev) \<noteq> [] \<and> was_processed ev (db w))) (\<lambda>_ _. True) w"
      by (rule wp_mono [OF already_calm [OF assms(1)]]) auto
  next
    fix b v assume "calm v \<and> db v = db w \<and> b = (str_or_empty (ev_id ev) \<noteq> [] \<and> was_processed ev (db w))"
    then show "wp (if b then ret (OK, Duplicate) else process_event st ev)
        (\<lambda>r v. fst r = OK \<longrightarrow> inert st ev (db v) \<or> was_processed ev (db v)) (\<lambda>_ _. True) v"
      using processed_or_inert [of v ev st] assms(2) by (simp add: wp_ret)
  qed
  have "wp (revenuecat_webhook st (Some s) (Some s) ev)
       (\<lambda>r v. fst r = OK \<longrightarrow> inert st ev (db v) \<or> was_processed ev (db v)) (\<lambda>_ _. True) w"
  proof (cases "str_or_empty (ev_type ev) = ''TEST''")
    case True
    then have "inert st ev d" for d by (simp add: inert_def)
    then show ?thesis by (auto simp: wp_def split: prod.split sum.split)
  next
    case False
    then show ?thesis
      using body by (simp add: revenuecat_webhook_def str_or_empty_def [of "Some s"] constant_time_eq_iff)
  qed
  from wp_returns [OF this assms(3)] assms(4) have "inert st ev (db v') \<or> was_processed ev (db v')"
    by (simp add: assms(6))
  then show ?thesis
    using inert_or_seen_unchanged [OF assms(5), of st ev] assms(2,6) by auto
qed

text \<open>A first purchase of \<open>unlimited\<close> by user 0, and a database that knows the user and the plan.\<close>

definition sample_event :: rc_event where
  "sample_event = \<lparr>ev_type = Some ''INITIAL_PURCHASE'', ev_id = Some ''e1'', ev_app_user_id = Some ''0'',
     ev_product_id = None, ev_expiration_at_ms = Some 5000000, ev_entitlement_ids = Some [Some ''unlimited'']\<rparr>"

definition sample_shop :: db where
  "sample_shop = empty_db\<lparr>users := [new_user 0 ''a@b.c'' None None True 0], next_id := 1,
     plans := [\<lparr>pl_code = ''unlimited'', pl_name = ''U'', pl_tier = 2, pl_active = True, pl_description = None\<rparr>]\<rparr>"

theorem webhook_redelivery_witness:
  "let w = alone sample_shop;
       v = snd (revenuecat_webhook sample_app (Some ''k'') (Some ''k'') sample_event w)
   in db (snd (revenuecat_webhook sample_app (Some ''k'') (Some ''k'') sample_event (alone (db v)))) = db v"
proof -
  let ?r = "revenuecat_webhook sample_app (Some ''k'') (Some ''k'') sample_event (alone sample_shop)"
  have "fst ?r = Inr (OK, Plain)" by code_simp
  then have r: "?r = (Inr (OK, Plain), snd ?r)" by (metis prod.collapse)
  show ?thesis unfolding Let_def
    by (rule webhook_redelivery [OF _ _ r]) (simp_all add: sample_event_def str_or_empty_def)
qed

text \<open>
  A payment can be left without its tier for good: when the recomputation of the tier fails
  after the grant, the event is still marked as processed and answered 200, so the subscription is
  active, the user stays \<open>free\<close>, and a redelivery of the event, however late, changes nothing.
\<close>

theorem webhook_tier_update_lost:
  "\<exists>w v. revenuecat_webhook sample_app (Some ''k'') (Some ''k'') sample_event w = (Inr (OK, Plain), v)
     \<and> holds_plan 0 ''unlimited'' (now v) (db v)
     \<and> map u_subscription_tier (users (db v)) = [''free'']
     \<and> (\<forall>later. db (snd (revenuecat_webhook sample_app (Some ''k'') (Some ''k'') sample_event
                                 (v\<lparr>turns := [], now := later\<rparr>))) = db v)"
proof -
  let ?t = "\<lparr>delay = 0, others = id, outcome = Served\<rparr>"
  let ?w = "(alone sample_shop)\<lparr>turns := [?t, ?t, ?t, ?t, ?t\<lparr>outcome := Refused\<rparr>]\<rparr>"
  let ?r = "revenuecat_webhook sample_app (Some ''k'') (Some ''k'') sample_event ?w"
  have "fst ?r = Inr (OK, Plain)" by code_simp
  moreover have "list_ex (\<lambda>s. s_user_id s = 0 \<and> s_plan_code s = Some ''unlimited'' \<and> s_status s = Some ''active''
      \<and> (case s_expires_at s of None \<Rightarrow> False | Some ends \<Rightarrow> now (snd ?r) < ends)) (subscriptions (db (snd ?r)))" by code_simp
  then have "holds_plan 0 ''unlimited'' (now (snd ?r)) (db (snd ?r))"
    by (auto simp: holds_plan_def sub_active_def list_ex_iff split: option.splits)
  moreover have "map u_subscription_tier (users (db (snd ?r))) = [''free'']" by code_simp
  moreover have "was_processed sample_event (db (snd ?r))" unfolding was_processed_def by code_simp
  ultimately show ?thesis
    using inert_or_seen_unchanged [of "snd ?r\<lparr>turns := [], now := t\<rparr>" sample_app sample_event "Some ''k''" "Some ''k''" for t]
    by (intro exI [of _ ?w] exI [of _ "snd ?r"]) (auto simp: prod_eq_iff sample_event_def str_or_empty_def calm_def)
qed

section \<open>Grants\<close>

definition active_rc :: "uuid \<Rightarrow> string \<Rightarrow> db \<Rightarrow> subscription list" where
  "active_rc uid code d = filter (active_rc_row uid code) (subscriptions d)"

lemma active_rc_expired: "active_rc uid code (set_sub_status uid code ''expired'' d) = []"
proof -
  have "filter (active_rc_row uid code)
          (update_where (active_rc_row uid code) (s_status_update (\<lambda>_. Some ''expired'')) ss) = []" for ss
    by (induction ss) (auto simp: active_rc_row_def)
  then show ?thesis by (simp add: active_rc_def set_sub_status_def)
qed

lemma active_rc_other:
  "(u, c) \<noteq> (uid, code) \<Longrightarrow> active_rc u c (set_sub_status uid code new d) = active_rc u c d"
proof -
  assume ne: "(u, c) \<noteq> (uid, code)"
  have "filter (active_rc_row u c)
          (update_where (active_rc_row uid code) (s_status_update (\<lambda>_. Some new)) ss) = filter (active_rc_row u c) ss" for ss
    using ne by (induction ss) (auto simp: active_rc_row_def)
  then show ?thesis by (simp add: active_rc_def set_sub_status_def)
qed

text \<open>
  A grant replaces: after it the user has exactly one active RevenueCat row for the plan, with
  the new expiry, however many there were before, and the active rows of every other user and
  plan are as they were; so repeated identical events never stack.
\<close>

theorem grant_replaces:
  assumes "calm w" "grant_revenuecat_subscription uid code ends w = (Inr u, v)"
  shows "map s_expires_at (active_rc uid code (db v)) = [Some ends]
     \<and> (\<forall>u' c'. (u', c') \<noteq> (uid, code) \<longrightarrow> active_rc u' c' (db v) = active_rc u' c' (db w))"
proof -
  have "wp (grant_revenuecat_subscription uid code ends)
     (\<lambda>_ v. map s_expires_at (active_rc uid code (db v)) = [Some ends]
        \<and> (\<forall>u' c'. (u', c') \<noteq> (uid, code) \<longrightarrow> active_rc u' c' (db v) = active_rc u' c' (db w))) (\<lambda>_ _. True) w"
    unfolding grant_revenuecat_subscription_def wp_andthen
  proof (rule wp_update_calm [OF assms(1)])
    fix x assume x: "calm x" "db x = set_sub_status uid code ''expired'' (db w)"
    show "wp (stmt (insert_subscription_sql (rc_row uid code ends))) (\<lambda>_. wp (ret ())
       (\<lambda>_ v. map s_expires_at (active_rc uid code (db v)) = [Some ends]
          \<and> (\<forall>u' c'. (u', c') \<noteq> (uid, code) \<longrightarrow> active_rc u' c' (db v) = active_rc u' c' (db w))) (\<lambda>_ _. True)) (\<lambda>_ _. True) x"
    proof (rule wp_stmt_calm [OF x(1)])
      fix y
      have add: "active_rc u c (d\<lparr>subscriptions := subscriptions d @ [rc_row uid code ends n t], next_id := m\<rparr>)
          = active_rc u c d @ (if u = uid \<and> c = code then [rc_row uid code ends n t] else [])" for u c d n m t
        by (auto simp: active_rc_def active_rc_row_def rc_row_def)
      show "case insert_subscription_sql (rc_row uid code ends) (now y) (db x) of (Inl e, d) \<Rightarrow> True
         | (Inr xa, d) \<Rightarrow> wp (ret ())
             (\<lambda>_ v. map s_expires_at (active_rc uid code (db v)) = [Some ends]
               \<and> (\<forall>u' c'. (u', c') \<noteq> (uid, code) \<longrightarrow> active_rc u' c' (db v) = active_rc u' c' (db w))) (\<lambda>_ _. True) (y\<lparr>db := d\<rparr>)"
        by (auto simp: insert_subscription_sql_def Let_def wp_ret add x(2) active_rc_expired active_rc_other)
           (simp add: rc_row_def)
    qed
  qed
  from wp_returns [OF this assms(2)] show ?thesis .
qed

theorem grant_replaces_witness:
  "let v = snd (grant_revenuecat_subscription 0 ''unlimited'' 9 (alone sample_shop))
   in map s_expires_at (active_rc 0 ''unlimited'' (db v)) = [Some 9]"
proof -
  have "fst (grant_revenuecat_subscription 0 ''unlimited'' 9 (alone sample_shop)) = Inr ()" by code_simp
  then have "grant_revenuecat_subscription 0 ''unlimited'' 9 (alone sample_shop)
      = (Inr (), snd (grant_revenuecat_subscription 0 ''unlimited'' 9 (alone sample_shop)))" by (metis prod.collapse)
  from grant_replaces [OF _ this] show ?thesis by (simp add: Let_def)
qed

text \<open>The two statements of a grant are not one transaction: a second delivery that runs between
  them leaves two active rows for the same user and plan.\<close>

lemma grant_race_stacks:
  "\<exists>w. fst (grant_revenuecat_subscription 0 ''unlimited'' 9 w) = Inr ()
     \<and> length (active_rc 0 ''unlimited'' (db (snd (grant_revenuecat_subscription 0 ''unlimited'' 9 w)))) = 2"
proof -
  let ?t = "\<lparr>delay = 0, others = id, outcome = Served\<rparr>"
  let ?other = "\<lambda>d. db (snd (grant_revenuecat_subscription 0 ''unlimited'' 9 (alone d)))"
  let ?w = "(alone sample_shop)\<lparr>turns := [?t, ?t\<lparr>others := ?other\<rparr>]\<rparr>"
  have "fst (grant_revenuecat_subscription 0 ''unlimited'' 9 ?w) = Inr ()" by code_simp
  moreover have "length (active_rc 0 ''unlimited'' (db (snd (grant_revenuecat_subscription 0 ''unlimited'' 9 ?w)))) = 2" by code_simp
  ultimately show ?thesis by blast
qed

section \<open>Simulated purchases\<close>

text \<open>The period a price row is sold for: monthly whenever it has a monthly price.\<close>

definition period_of :: "plan_price_row \<Rightarrow> (string \<times> int) option" where
  "period_of pp = (if pp_price_monthly pp \<noteq> None then Some (''monthly'', 30)
                   else if pp_price_yearly pp \<noteq> None then Some (''yearly'', 365) else None)"

lemma insert_subscription_added:
  "insert_subscription_sql row t d = (Inr x, d') \<Longrightarrow>
   d' = d\<lparr>subscriptions := subscriptions d @ [row (next_id d) t], next_id := Suc (next_id d)\<rparr>"
  by (auto simp: insert_subscription_sql_def Let_def split: if_splits)

lemma find_price_plan:
  "Option.bind (List.find (\<lambda>pp. pp_id pp = i) pps) (\<lambda>pp. map_option (\<lambda>p. (pp, p)) (List.find (\<lambda>p. pl_code p = pp_plan_code pp) ps))
     = Some (a, b) \<Longrightarrow> a \<in> set pps \<and> pp_id a = i \<and> b \<in> set ps \<and> pl_code b = pp_plan_code a"
  by (auto simp: bind_eq_Some_conv find_Some_iff)

text \<open>
  A simulated purchase that succeeds was allowed by the environment, names a price row of an
  active plan, and adds exactly one active row, for the period of that price row, where the user
  had none of the plan: nothing else changes, so the user's tier stays what it was.
\<close>

theorem simulate_purchase_exact:
  assumes "calm w" "simulate_purchase env uid price_id w = (Inr dto, v)"
  shows "env = Some ''true'' \<and>
    (\<exists>pp p period len s. db v = (db w)\<lparr>subscriptions := subscriptions (db w) @ [s], next_id := next_id (db w) + 1\<rparr>
       \<and> pp \<in> set (plan_prices (db w)) \<and> pp_id pp = price_id
       \<and> p \<in> set (plans (db w)) \<and> pl_code p = pp_plan_code pp \<and> pl_active p \<and> period_of pp = Some (period, len)
       \<and> s_user_id s = uid \<and> s_plan_code s = Some (pl_code p) \<and> s_period s = Some period \<and> s_period_days s = Some len
       \<and> s_expires_at s = Some (s_started_at s + days len) \<and> sub_active (s_started_at s) s
       \<and> \<not> holds_plan uid (pl_code p) (s_started_at s) (db w))"
    (is "?P v")
proof -
  have len: "0 < len" if "period_of pp = Some (period, len)" for pp period len
    using that by (auto simp: period_of_def split: if_splits)
  have gone: "filter (\<lambda>s. s_user_id s = uid \<and> s_plan_code s = Some code \<and> sub_active t s) (subscriptions d) = []
      \<longleftrightarrow> \<not> holds_plan uid code t d" for code t d
    by (auto simp: holds_plan_def filter_empty_conv)
  have fresh: "period_of pp = Some (p, n) \<Longrightarrow> s_status s = Some ''active'' \<Longrightarrow> s_expires_at s = Some (t + days n) \<Longrightarrow> sub_active t s" for pp p n s t
    using len [of pp p n] by (simp add: sub_active_def days_def seconds_def)
  have "wp (simulate_purchase env uid price_id) (\<lambda>_. ?P) (\<lambda>_ _. True) w"
    unfolding simulate_purchase_def period_of_def [symmetric] wp_andthen
    using assms(1)
    apply (auto simp: wp_rules Let_def split: option.split sum.split intro!: wp_query_calm wp_stmt_calm
        dest!: insert_subscription_added find_price_plan)
    by (intro exI conjI, rule refl, assumption, rule refl, assumption, assumption, assumption, assumption)
       (auto simp: gone intro: fresh)
  from wp_returns [OF this assms(2)] show ?thesis .
qed

definition priced_shop :: db where
  "priced_shop = sample_shop\<lparr>plan_prices := [\<lparr>pp_id = 5, pp_plan_code = ''unlimited'', pp_country_code = ''US'',
     pp_currency = ''USD'', pp_price_monthly = Some 9, pp_price_yearly = Some 90, pp_revenuecat_product_id = None\<rparr>]\<rparr>"

theorem simulate_purchase_exact_witness:
  "let v = snd (simulate_purchase (Some ''true'') 0 5 (alone priced_shop))
   in \<exists>s. s_period s = Some ''monthly'' \<and> db v = priced_shop\<lparr>subscriptions := [s], next_id := 2\<rparr>"
proof -
  let ?r = "simulate_purchase (Some ''true'') 0 5 (alone priced_shop)"
  have "case fst ?r of Inl e \<Rightarrow> False | Inr d \<Rightarrow> True" by code_simp
  then obtain dto where r: "?r = (Inr dto, snd ?r)" by (cases ?r) (auto split: sum.splits)
  from simulate_purchase_exact [OF _ r] show ?thesis
    by (auto simp: Let_def priced_shop_def sample_shop_def empty_db_def period_of_def)
qed

end
