(* ===== verification/DbSocial.thy ===== *)
theory DbSocial
  imports AuthHandlers "HOL-Library.Product_Lexorder"
begin

text \<open>
  \<^verbatim>\<open>db/src/social.rs\<close> and \<^verbatim>\<open>create_report\<close> of \<^verbatim>\<open>db/src/moderation.rs\<close>: taps, favourites,
  blocks and reports. Users are never deleted as rows, so the cascades from \<^verbatim>\<open>users\<close> never fire;
  the cascade from a conversation to its members, messages, reactions and screenshot alerts is \<open>drop_conversations\<close>.
\<close>

text \<open>\<^verbatim>\<open>LEFT JOIN profiles\<close>, and \<^verbatim>\<open>ORDER BY .. DESC\<close>.\<close>

definition display_name_of :: "uuid \<Rightarrow> db \<Rightarrow> string option" where
  "display_name_of uid d = Option.bind (List.find (\<lambda>p. p_user_id p = uid) (profiles d)) p_display_name"

definition newest_first :: "('r \<Rightarrow> timestamp) \<Rightarrow> 'r list \<Rightarrow> 'r list" where
  "newest_first k rs = sort_key (\<lambda>r. - k r) rs"

definition known_user :: "uuid \<Rightarrow> db \<Rightarrow> bool" where
  "known_user uid d \<longleftrightarrow> user_by_id uid d \<noteq> None"

section \<open>Taps\<close>

definition TAP_TYPES :: "string list" where
  "TAP_TYPES = [''fire'', ''wave'', ''smile'', ''hello'']"

definition create_tap_sql :: "uuid \<Rightarrow> uuid \<Rightarrow> string \<Rightarrow> uuid sql" where
  "create_tap_sql from_user to_user tap_type t d =
     (if tap_type \<notin> set TAP_TYPES then (Inl CheckViolation, d)
      else if \<not> known_user from_user d \<or> \<not> known_user to_user d then (Inl ForeignKeyViolation, d)
      else (Inr (next_id d),
            d\<lparr>taps := taps d @ [\<lparr>tp_id = next_id d, tp_from = from_user, tp_to = to_user, tp_type = tap_type,
                                 tp_created_at = t\<rparr>], next_id := Suc (next_id d)\<rparr>))"

definition create_tap_row :: "uuid \<Rightarrow> uuid \<Rightarrow> string \<Rightarrow> (world, db_error, uuid) prog" where
  "create_tap_row from_user to_user tap_type = stmt (create_tap_sql from_user to_user tap_type)"

definition taps_received :: "uuid \<Rightarrow> db \<Rightarrow> (tap \<times> string option) list" where
  "taps_received uid d =
     map (\<lambda>r. (r, display_name_of (tp_from r) d)) (newest_first tp_created_at (filter (\<lambda>r. tp_to r = uid) (taps d)))"

definition taps_sent :: "uuid \<Rightarrow> db \<Rightarrow> (tap \<times> string option) list" where
  "taps_sent uid d =
     map (\<lambda>r. (r, display_name_of (tp_to r) d)) (newest_first tp_created_at (filter (\<lambda>r. tp_from r = uid) (taps d)))"

text \<open>The two counting statements, and the map filled from the rows of the second.\<close>

definition tap_type_counts :: "uuid \<Rightarrow> db \<Rightarrow> (string \<times> nat) list" where
  "tap_type_counts uid d =
     (let mine = filter (\<lambda>r. tp_to r = uid) (taps d)
      in map (\<lambda>k. (k, length (filter (\<lambda>r. tp_type r = k) mine))) (remdups (map tp_type mine)))"

definition count_taps :: "uuid \<Rightarrow> (world, db_error, nat \<times> (string \<rightharpoonup> nat)) prog" where
  "count_taps uid =
     andthen (query (\<lambda>_ d. length (filter (\<lambda>r. tp_to r = uid) (taps d)))) (\<lambda>total.
     andthen (query (\<lambda>_. tap_type_counts uid)) (\<lambda>rows.
     ret (total, foldl (\<lambda>m (k, v). m(k \<mapsto> v)) Map.empty rows)))"

section \<open>Favourites\<close>

definition add_favorite_sql :: "uuid \<Rightarrow> uuid \<Rightarrow> unit sql" where
  "add_favorite_sql uid target t d =
     (if list_ex (\<lambda>r. fv_user r = uid \<and> fv_target r = target) (favorites d) then (Inr (), d)
      else if \<not> known_user uid d \<or> \<not> known_user target d then (Inl ForeignKeyViolation, d)
      else (Inr (), d\<lparr>favorites := favorites d @ [\<lparr>fv_user = uid, fv_target = target, fv_created_at = t\<rparr>]\<rparr>))"

definition add_favorite_row :: "uuid \<Rightarrow> uuid \<Rightarrow> (world, db_error, unit) prog" where
  "add_favorite_row uid target = stmt (add_favorite_sql uid target)"

definition drop_favorite :: "uuid \<Rightarrow> uuid \<Rightarrow> db \<Rightarrow> db" where
  "drop_favorite uid target d =
     d\<lparr>favorites := delete_where (\<lambda>r. fv_user r = uid \<and> fv_target r = target) (favorites d)\<rparr>"

definition remove_favorite_row :: "uuid \<Rightarrow> uuid \<Rightarrow> (world, db_error, unit) prog" where
  "remove_favorite_row uid target = update (\<lambda>_. drop_favorite uid target)"

definition favorites_of :: "uuid \<Rightarrow> db \<Rightarrow> (favorite \<times> string option) list" where
  "favorites_of uid d =
     map (\<lambda>r. (r, display_name_of (fv_target r) d))
       (newest_first fv_created_at (filter (\<lambda>r. fv_user r = uid) (favorites d)))"

section \<open>Blocks\<close>

definition block_user_sql :: "uuid \<Rightarrow> uuid \<Rightarrow> string option \<Rightarrow> unit sql" where
  "block_user_sql blocker blocked reason t d =
     (if list_ex (\<lambda>r. bl_user r = blocker \<and> bl_target r = blocked) (blocks d) then (Inr (), d)
      else if \<not> known_user blocker d \<or> \<not> known_user blocked d then (Inl ForeignKeyViolation, d)
      else (Inr (), d\<lparr>blocks := blocks d @ [\<lparr>bl_user = blocker, bl_target = blocked, bl_reason = reason,
                                            bl_created_at = t\<rparr>]\<rparr>))"

definition block_user_row :: "uuid \<Rightarrow> uuid \<Rightarrow> string option \<Rightarrow> (world, db_error, unit) prog" where
  "block_user_row blocker blocked reason = stmt (block_user_sql blocker blocked reason)"

definition drop_block :: "uuid \<Rightarrow> uuid \<Rightarrow> db \<Rightarrow> db" where
  "drop_block blocker blocked d =
     d\<lparr>blocks := delete_where (\<lambda>r. bl_user r = blocker \<and> bl_target r = blocked) (blocks d)\<rparr>"

definition unblock_user_row :: "uuid \<Rightarrow> uuid \<Rightarrow> (world, db_error, unit) prog" where
  "unblock_user_row blocker blocked = update (\<lambda>_. drop_block blocker blocked)"

definition blocks_of :: "uuid \<Rightarrow> db \<Rightarrow> (block \<times> string option) list" where
  "blocks_of uid d =
     map (\<lambda>r. (r, display_name_of (bl_target r) d))
       (newest_first bl_created_at (filter (\<lambda>r. bl_user r = uid) (blocks d)))"

definition blocked_pair :: "uuid \<Rightarrow> uuid \<Rightarrow> db \<Rightarrow> bool" where
  "blocked_pair a b d \<longleftrightarrow>
     list_ex (\<lambda>r. bl_user r = a \<and> bl_target r = b \<or> bl_user r = b \<and> bl_target r = a) (blocks d)"

definition is_blocked :: "uuid \<Rightarrow> uuid \<Rightarrow> (world, db_error, bool) prog" where
  "is_blocked a b = query (\<lambda>_. blocked_pair a b)"

definition member_of :: "uuid \<Rightarrow> uuid \<Rightarrow> db \<Rightarrow> bool" where
  "member_of cid uid d \<longleftrightarrow> list_ex (\<lambda>r. cm_conversation r = cid \<and> cm_user r = uid) (conversation_members d)"

definition drop_conversations :: "(uuid \<Rightarrow> bool) \<Rightarrow> db \<Rightarrow> db" where
  "drop_conversations p d =
     d\<lparr>conversations := delete_where (\<lambda>r. p (cv_id r)) (conversations d),
       conversation_members := delete_where (\<lambda>r. p (cm_conversation r)) (conversation_members d),
       messages := delete_where (\<lambda>r. p (ms_conversation r)) (messages d),
       message_reactions := delete_where
         (\<lambda>r. list_ex (\<lambda>m. ms_id m = re_message r \<and> p (ms_conversation m)) (messages d)) (message_reactions d),
       people := screenshot_alerts_update (delete_where (\<lambda>a. p (sa_conversation a))) (people d)\<rparr>"

definition shared_conversation :: "uuid \<Rightarrow> uuid \<Rightarrow> db \<Rightarrow> uuid \<Rightarrow> bool" where
  "shared_conversation a b d cid \<longleftrightarrow> member_of cid a d \<and> member_of cid b d"

definition drop_shared :: "uuid \<Rightarrow> uuid \<Rightarrow> db \<Rightarrow> db" where
  "drop_shared a b d = drop_conversations (shared_conversation a b d) d"

definition delete_conversation_between :: "uuid \<Rightarrow> uuid \<Rightarrow> (world, db_error, unit) prog" where
  "delete_conversation_between a b = update (\<lambda>_. drop_shared a b)"

section \<open>Reports\<close>

definition REPORT_KINDS :: "string list" where
  "REPORT_KINDS = [''profile'', ''photo'', ''message'']"

definition create_report_sql :: "uuid \<Rightarrow> uuid \<Rightarrow> string \<Rightarrow> uuid option \<Rightarrow> string option \<Rightarrow> uuid sql" where
  "create_report_sql reporter target kind target_id reason t d =
     (if kind \<notin> set REPORT_KINDS then (Inl CheckViolation, d)
      else if \<not> known_user reporter d \<or> \<not> known_user target d then (Inl ForeignKeyViolation, d)
      else (Inr (next_id d),
            d\<lparr>reports := reports d @ [\<lparr>rp_id = next_id d, rp_reporter = reporter, rp_target_user = target,
               rp_target_kind = kind, rp_target_id = target_id, rp_reason = reason, rp_status = ''open'',
               rp_created_at = t, rp_resolved_at = None\<rparr>], next_id := Suc (next_id d)\<rparr>))"

definition create_report_row ::
    "uuid \<Rightarrow> uuid \<Rightarrow> string \<Rightarrow> uuid option \<Rightarrow> string option \<Rightarrow> (world, db_error, uuid) prog" where
  "create_report_row reporter target kind target_id reason = stmt (create_report_sql reporter target kind target_id reason)"

end
