(* ===== verification/DbChat.thy ===== *)
theory DbChat
  imports DbSocial
begin

text \<open>
  \<^verbatim>\<open>db/src/chat.rs\<close>: conversations, messages, read marks, view-once photos, reactions, groups.
  A transaction is one statement here. \<^verbatim>\<open>LIMIT 1\<close> without an order takes the first row of the table.
\<close>

section \<open>Conversations\<close>

record conversation_row =
  cr_conversation_id :: uuid
  cr_other_user_id :: "uuid option"
  cr_other_display_name :: "string option"
  cr_last_message_preview :: "string option"
  cr_last_message_kind :: "string option"
  cr_last_message_at :: "timestamp option"
  cr_unread_count :: nat
  cr_is_group :: bool
  cr_conv_name :: "string option"
  cr_conv_created_by :: "uuid option"

text \<open>\<^verbatim>\<open>ORDER BY k DESC NULLS LAST\<close>\<close>

definition newest_first_nulls_last :: "('r \<Rightarrow> timestamp option) \<Rightarrow> 'r list \<Rightarrow> 'r list" where
  "newest_first_nulls_last k rs =
     newest_first (\<lambda>r. the (k r)) (filter (\<lambda>r. k r \<noteq> None) rs) @ filter (\<lambda>r. k r = None) rs"

definition other_member :: "uuid \<Rightarrow> uuid \<Rightarrow> db \<Rightarrow> uuid option" where
  "other_member cid uid d =
     map_option cm_user (List.find (\<lambda>r. cm_conversation r = cid \<and> cm_user r \<noteq> uid) (conversation_members d))"

definition last_message :: "uuid \<Rightarrow> db \<Rightarrow> chat_message option" where
  "last_message cid d = max_by ms_created_at (filter (\<lambda>m. ms_conversation m = cid) (messages d))"

definition unread_count :: "uuid \<Rightarrow> conv_member \<Rightarrow> db \<Rightarrow> nat" where
  "unread_count uid mm d =
     length (filter (\<lambda>m. ms_conversation m = cm_conversation mm \<and> ms_sender m \<noteq> uid
               \<and> (case cm_last_read_at mm of None \<Rightarrow> True | Some t \<Rightarrow> t < ms_created_at m)) (messages d))"

definition find_conversation :: "uuid \<Rightarrow> db \<Rightarrow> conversation option" where
  "find_conversation cid d = List.find (\<lambda>c. cv_id c = cid) (conversations d)"

definition conversation_row_of :: "uuid \<Rightarrow> db \<Rightarrow> conv_member \<Rightarrow> conversation \<Rightarrow> conversation_row" where
  "conversation_row_of uid d mm c =
     (let other = other_member (cv_id c) uid d
      in \<lparr>cr_conversation_id = cv_id c,
          cr_other_user_id = (if cv_is_group c then None else other),
          cr_other_display_name = (if cv_is_group c then None else Option.bind other (\<lambda>u. display_name_of u d)),
          cr_last_message_preview = Option.bind (last_message (cv_id c) d) ms_body,
          cr_last_message_kind = map_option ms_kind (last_message (cv_id c) d),
          cr_last_message_at = cv_last_message_at c,
          cr_unread_count = unread_count uid mm d,
          cr_is_group = cv_is_group c, cr_conv_name = cv_name c, cr_conv_created_by = cv_created_by c\<rparr>)"

definition conversations_of :: "uuid \<Rightarrow> db \<Rightarrow> conversation_row list" where
  "conversations_of uid d =
     newest_first_nulls_last cr_last_message_at
       (List.map_filter (\<lambda>mm. map_option (conversation_row_of uid d mm) (find_conversation (cm_conversation mm) d))
          (filter (\<lambda>r. cm_user r = uid) (conversation_members d)))"

definition new_conversation :: "uuid \<Rightarrow> timestamp \<Rightarrow> bool \<Rightarrow> string option \<Rightarrow> uuid option \<Rightarrow> conversation" where
  "new_conversation cid t grp name creator =
     \<lparr>cv_id = cid, cv_created_at = t, cv_last_message_at = None, cv_is_group = grp, cv_name = name, cv_created_by = creator\<rparr>"

definition new_member :: "uuid \<Rightarrow> uuid \<Rightarrow> conv_member" where
  "new_member cid uid = \<lparr>cm_conversation = cid, cm_user = uid, cm_last_read_at = None\<rparr>"

definition create_conversation_sql :: "uuid \<Rightarrow> uuid \<Rightarrow> uuid sql" where
  "create_conversation_sql user1 user2 t d =
     (if user1 = user2 then (Inl UniqueViolation, d)
      else if \<not> known_user user1 d \<or> \<not> known_user user2 d then (Inl ForeignKeyViolation, d)
      else (let cid = next_id d
            in (Inr cid, d\<lparr>conversations := conversations d @ [new_conversation cid t False None None],
                           conversation_members := conversation_members d @ [new_member cid user1, new_member cid user2],
                           next_id := Suc cid\<rparr>)))"

definition create_conversation_row :: "uuid \<Rightarrow> uuid \<Rightarrow> (world, db_error, uuid) prog" where
  "create_conversation_row user1 user2 = stmt (create_conversation_sql user1 user2)"

section \<open>Messages\<close>

text \<open>The page of at most \<open>n\<close> messages before an instant, newest first from the database, then
  reversed.\<close>

definition message_page :: "uuid \<Rightarrow> timestamp option \<Rightarrow> nat \<Rightarrow> db \<Rightarrow> chat_message list" where
  "message_page cid before n d =
     rev (take n (newest_first ms_created_at
       (filter (\<lambda>m. ms_conversation m = cid \<and> (case before of None \<Rightarrow> True | Some t \<Rightarrow> ms_created_at m < t)) (messages d))))"

definition list_message_rows :: "uuid \<Rightarrow> timestamp option \<Rightarrow> nat \<Rightarrow> (world, db_error, chat_message list) prog" where
  "list_message_rows cid before n = query (\<lambda>_. message_page cid before n)"

record insert_message =
  im_kind :: string
  im_body :: "string option"
  im_media_key :: "string option"
  im_media_type :: "string option"
  im_caption :: "string option"
  im_lat :: "rat option"
  im_lon :: "rat option"

definition MESSAGE_KINDS :: "string list" where
  "MESSAGE_KINDS = [''text'', ''photo'', ''ephemeral_photo'', ''audio'', ''location'', ''album_share'']"

definition MEDIA_TYPES :: "string list" where
  "MEDIA_TYPES = [''photo'', ''location'', ''audio'']"

definition message_row :: "uuid \<Rightarrow> uuid \<Rightarrow> uuid \<Rightarrow> insert_message \<Rightarrow> timestamp \<Rightarrow> chat_message" where
  "message_row mid cid sender msg t =
     \<lparr>ms_id = mid, ms_conversation = cid, ms_sender = sender, ms_kind = im_kind msg, ms_body = im_body msg,
      ms_media_key = im_media_key msg, ms_media_type = im_media_type msg, ms_caption = im_caption msg,
      ms_lat = im_lat msg, ms_lon = im_lon msg, ms_read_at = None, ms_viewed_at = None, ms_unsent_at = None,
      ms_created_at = t\<rparr>"

definition insert_message_sql :: "uuid \<Rightarrow> uuid \<Rightarrow> insert_message \<Rightarrow> chat_message sql" where
  "insert_message_sql cid sender msg t d =
     (if im_kind msg \<notin> set MESSAGE_KINDS
         \<or> (case im_media_type msg of None \<Rightarrow> False | Some m \<Rightarrow> m \<notin> set MEDIA_TYPES) then (Inl CheckViolation, d)
      else if find_conversation cid d = None \<or> \<not> known_user sender d then (Inl ForeignKeyViolation, d)
      else (let m = message_row (next_id d) cid sender msg t
            in (Inr m, d\<lparr>messages := messages d @ [m],
                         conversations := update_where (\<lambda>c. cv_id c = cid) (cv_last_message_at_update (\<lambda>_. Some t)) (conversations d),
                         next_id := Suc (next_id d)\<rparr>)))"

definition insert_message_row :: "uuid \<Rightarrow> uuid \<Rightarrow> insert_message \<Rightarrow> (world, db_error, chat_message) prog" where
  "insert_message_row cid sender msg = stmt (insert_message_sql cid sender msg)"

definition set_messages :: "(chat_message \<Rightarrow> bool) \<Rightarrow> (chat_message \<Rightarrow> chat_message) \<Rightarrow> db \<Rightarrow> db" where
  "set_messages p f d = d\<lparr>messages := update_where p f (messages d)\<rparr>"

definition may_unsend :: "uuid \<Rightarrow> uuid \<Rightarrow> chat_message \<Rightarrow> bool" where
  "may_unsend mid sender m \<longleftrightarrow> ms_id m = mid \<and> ms_sender m = sender \<and> ms_unsent_at m = None"

definition unsend_sql :: "uuid \<Rightarrow> uuid \<Rightarrow> chat_message option sql" where
  "unsend_sql mid sender t d =
     (Inr (map_option (ms_unsent_at_update (\<lambda>_. Some t)) (List.find (may_unsend mid sender) (messages d))),
      set_messages (may_unsend mid sender) (ms_unsent_at_update (\<lambda>_. Some t)) d)"

definition unsend_message :: "uuid \<Rightarrow> uuid \<Rightarrow> (world, db_error, chat_message option) prog" where
  "unsend_message mid sender = stmt (unsend_sql mid sender)"

definition unread_message :: "uuid \<Rightarrow> uuid \<Rightarrow> chat_message \<Rightarrow> bool" where
  "unread_message cid reader m \<longleftrightarrow> ms_conversation m = cid \<and> ms_sender m \<noteq> reader \<and> ms_read_at m = None"

definition mark_messages_read_sql :: "uuid \<Rightarrow> uuid \<Rightarrow> nat sql" where
  "mark_messages_read_sql cid reader t d =
     (Inr (length (filter (unread_message cid reader) (messages d))),
      set_messages (unread_message cid reader) (ms_read_at_update (\<lambda>_. Some t)) d)"

definition mark_messages_read :: "uuid \<Rightarrow> uuid \<Rightarrow> (world, db_error, nat) prog" where
  "mark_messages_read cid reader = stmt (mark_messages_read_sql cid reader)"

definition set_last_read :: "uuid \<Rightarrow> uuid \<Rightarrow> timestamp \<Rightarrow> db \<Rightarrow> db" where
  "set_last_read cid uid t d =
     d\<lparr>conversation_members := update_where (\<lambda>r. cm_conversation r = cid \<and> cm_user r = uid)
                                 (cm_last_read_at_update (\<lambda>_. Some t)) (conversation_members d)\<rparr>"

definition mark_member_read :: "uuid \<Rightarrow> uuid \<Rightarrow> (world, db_error, unit) prog" where
  "mark_member_read cid uid = update (set_last_read cid uid)"

definition may_view :: "uuid \<Rightarrow> uuid \<Rightarrow> uuid \<Rightarrow> chat_message \<Rightarrow> bool" where
  "may_view cid mid viewer m \<longleftrightarrow>
     ms_id m = mid \<and> ms_conversation m = cid \<and> ms_kind m = ''ephemeral_photo'' \<and> ms_sender m \<noteq> viewer
       \<and> ms_viewed_at m = None"

definition mark_viewed_sql :: "uuid \<Rightarrow> uuid \<Rightarrow> uuid \<Rightarrow> bool sql" where
  "mark_viewed_sql cid mid viewer t d =
     (if member_of cid viewer d
      then (Inr (list_ex (may_view cid mid viewer) (messages d)),
            set_messages (may_view cid mid viewer) (ms_viewed_at_update (\<lambda>_. Some t)) d)
      else (Inr False, d))"

definition mark_ephemeral_viewed_row :: "uuid \<Rightarrow> uuid \<Rightarrow> uuid \<Rightarrow> (world, db_error, bool) prog" where
  "mark_ephemeral_viewed_row cid mid viewer = stmt (mark_viewed_sql cid mid viewer)"

section \<open>Reactions\<close>

definition set_reaction_sql :: "uuid \<Rightarrow> uuid \<Rightarrow> string \<Rightarrow> unit sql" where
  "set_reaction_sql mid uid emoji t d =
     (if \<not> list_ex (\<lambda>m. ms_id m = mid) (messages d) \<or> \<not> known_user uid d then (Inl ForeignKeyViolation, d)
      else if list_ex (\<lambda>r. re_message r = mid \<and> re_user r = uid) (message_reactions d)
      then (Inr (), d\<lparr>message_reactions := update_where (\<lambda>r. re_message r = mid \<and> re_user r = uid)
                        (\<lambda>r. r\<lparr>re_emoji := emoji, re_created_at := t\<rparr>) (message_reactions d)\<rparr>)
      else (Inr (), d\<lparr>message_reactions := message_reactions d @
                        [\<lparr>re_message = mid, re_user = uid, re_emoji = emoji, re_created_at = t\<rparr>]\<rparr>))"

definition set_reaction :: "uuid \<Rightarrow> uuid \<Rightarrow> string \<Rightarrow> (world, db_error, unit) prog" where
  "set_reaction mid uid emoji = stmt (set_reaction_sql mid uid emoji)"

definition drop_reaction :: "uuid \<Rightarrow> uuid \<Rightarrow> db \<Rightarrow> db" where
  "drop_reaction mid uid d =
     d\<lparr>message_reactions := delete_where (\<lambda>r. re_message r = mid \<and> re_user r = uid) (message_reactions d)\<rparr>"

definition remove_reaction :: "uuid \<Rightarrow> uuid \<Rightarrow> (world, db_error, unit) prog" where
  "remove_reaction mid uid = update (\<lambda>_. drop_reaction mid uid)"

definition list_reactions_for_messages :: "uuid list \<Rightarrow> (world, db_error, reaction list) prog" where
  "list_reactions_for_messages mids =
     (if mids = [] then ret []
      else query (\<lambda>_ d. filter (\<lambda>r. re_message r \<in> set mids) (message_reactions d)))"

definition message_conversation :: "uuid \<Rightarrow> db \<Rightarrow> uuid option" where
  "message_conversation mid d = map_option ms_conversation (List.find (\<lambda>m. ms_id m = mid) (messages d))"

definition conversation_id_for_message :: "uuid \<Rightarrow> (world, db_error, uuid option) prog" where
  "conversation_id_for_message mid = query (\<lambda>_. message_conversation mid)"

definition is_member :: "uuid \<Rightarrow> uuid \<Rightarrow> (world, db_error, bool) prog" where
  "is_member cid uid = query (\<lambda>_. member_of cid uid)"

definition delete_conversation_rows :: "uuid \<Rightarrow> uuid \<Rightarrow> (world, db_error, bool) prog" where
  "delete_conversation_rows cid uid =
     andthen (is_member cid uid) (\<lambda>m.
       if \<not> m then ret False
       else andthen (update (\<lambda>_. drop_conversations (\<lambda>c. c = cid))) (\<lambda>_. ret True))"

section \<open>Groups\<close>

record group_row =
  gr_group_id :: uuid
  gr_name :: string
  gr_created_by :: "uuid option"
  gr_member_count :: nat
  gr_last_message_preview :: "string option"
  gr_last_message_at :: "timestamp option"

text \<open>The inserts with \<^verbatim>\<open>ON CONFLICT DO NOTHING\<close> of a sorted list without duplicates.\<close>

definition create_group_sql :: "uuid \<Rightarrow> string \<Rightarrow> uuid list \<Rightarrow> uuid sql" where
  "create_group_sql creator name member_ids t d =
     (let cid = next_id d; all_members = remdups_adj (sort (creator # member_ids))
      in if \<not> list_all (\<lambda>u. known_user u d) all_members then (Inl ForeignKeyViolation, d)
         else (Inr cid, d\<lparr>conversations := conversations d @ [new_conversation cid t True (Some name) (Some creator)],
                          conversation_members := conversation_members d @ map (new_member cid) all_members,
                          next_id := Suc cid\<rparr>))"

definition create_group_rows :: "uuid \<Rightarrow> string \<Rightarrow> uuid list \<Rightarrow> (world, db_error, uuid) prog" where
  "create_group_rows creator name member_ids = stmt (create_group_sql creator name member_ids)"

definition add_group_member_sql :: "uuid \<Rightarrow> uuid \<Rightarrow> unit sql" where
  "add_group_member_sql gid uid t d =
     (if member_of gid uid d then (Inr (), d)
      else if find_conversation gid d = None \<or> \<not> known_user uid d then (Inl ForeignKeyViolation, d)
      else (Inr (), d\<lparr>conversation_members := conversation_members d @ [new_member gid uid]\<rparr>))"

definition add_group_member_row :: "uuid \<Rightarrow> uuid \<Rightarrow> (world, db_error, unit) prog" where
  "add_group_member_row gid uid = stmt (add_group_member_sql gid uid)"

definition drop_member :: "uuid \<Rightarrow> uuid \<Rightarrow> db \<Rightarrow> db" where
  "drop_member gid uid d =
     d\<lparr>conversation_members := delete_where (\<lambda>r. cm_conversation r = gid \<and> cm_user r = uid) (conversation_members d)\<rparr>"

definition remove_group_member_row :: "uuid \<Rightarrow> uuid \<Rightarrow> (world, db_error, bool) prog" where
  "remove_group_member_row gid uid = stmt (\<lambda>_ d. (Inr (member_of gid uid d), drop_member gid uid d))"

text \<open>\<^verbatim>\<open>GroupRow.created_by\<close> is not optional: a group without a creator makes the decoding fail.\<close>

definition group_row_of :: "db \<Rightarrow> conversation \<Rightarrow> group_row" where
  "group_row_of d c =
     \<lparr>gr_group_id = cv_id c, gr_name = (case cv_name c of None \<Rightarrow> ''Group'' | Some n \<Rightarrow> n), gr_created_by = cv_created_by c,
      gr_member_count = length (filter (\<lambda>r. cm_conversation r = cv_id c) (conversation_members d)),
      gr_last_message_preview = Option.bind (last_message (cv_id c) d) ms_body,
      gr_last_message_at = cv_last_message_at c\<rparr>"

definition groups_of :: "uuid \<Rightarrow> db \<Rightarrow> group_row list" where
  "groups_of uid d =
     newest_first_nulls_last gr_last_message_at
       (map (group_row_of d)
          (filter cv_is_group (List.map_filter (\<lambda>mm. find_conversation (cm_conversation mm) d)
             (filter (\<lambda>r. cm_user r = uid) (conversation_members d)))))"

definition list_user_group_rows :: "uuid \<Rightarrow> (world, db_error, group_row list) prog" where
  "list_user_group_rows uid =
     andthen (query (\<lambda>_. groups_of uid)) (\<lambda>rows.
     andthen (reject_if (list_ex (\<lambda>g. gr_created_by g = None) rows) Unavailable) (\<lambda>_. ret rows))"

definition group_members :: "uuid \<Rightarrow> db \<Rightarrow> (uuid \<times> string option) list" where
  "group_members gid d =
     map (\<lambda>r. (cm_user r, display_name_of (cm_user r) d))
       (sort_key cm_user (filter (\<lambda>r. cm_conversation r = gid) (conversation_members d)))"

definition owned_group :: "uuid \<Rightarrow> uuid \<Rightarrow> conversation \<Rightarrow> bool" where
  "owned_group gid uid c \<longleftrightarrow> cv_id c = gid \<and> cv_created_by c = Some uid \<and> cv_is_group c"

definition update_group_name_row :: "uuid \<Rightarrow> uuid \<Rightarrow> string \<Rightarrow> (world, db_error, bool) prog" where
  "update_group_name_row gid uid name =
     stmt (\<lambda>_ d. (Inr (list_ex (owned_group gid uid) (conversations d)),
                  d\<lparr>conversations := update_where (owned_group gid uid) (cv_name_update (\<lambda>_. Some name)) (conversations d)\<rparr>))"

definition is_group_creator :: "uuid \<Rightarrow> uuid \<Rightarrow> (world, db_error, bool) prog" where
  "is_group_creator gid uid = query (\<lambda>_ d. list_ex (owned_group gid uid) (conversations d))"

end
