(* ===== verification/SocialHandlers.thy ===== *)
theory SocialHandlers
  imports DbSocial
begin

text \<open>
  \<^verbatim>\<open>api/src/social.rs\<close>: the endpoints for taps, favourites, blocks and reports, with the
  \<open>auth_user\<close> extractor in front.
\<close>

definition rfc3339_text :: "app \<Rightarrow> timestamp \<Rightarrow> string" where
  "rfc3339_text st t = (case rfc3339 st t of None \<Rightarrow> [] | Some s \<Rightarrow> s)"

definition check_not_blocked :: "uuid \<Rightarrow> uuid \<Rightarrow> (world, status, unit) prog" where
  "check_not_blocked current target =
     andthen (internal (is_blocked current target)) (\<lambda>b. reject_if b FORBIDDEN)"

text \<open>The push is sent by the Firebase client, whose errors are only logged.\<close>

definition push_to :: "app \<Rightarrow> uuid \<Rightarrow> string \<Rightarrow> string \<Rightarrow> (world, 'e, unit) prog" where
  "push_to st uid title body = (if fcm_configured st then send (Push uid title body) else ret ())"

definition create_tap :: "app \<Rightarrow> uuid \<Rightarrow> uuid \<Rightarrow> string \<Rightarrow> (world, status, string) prog" where
  "create_tap st uid to_user tap_type =
     andthen (reject_if (to_user = uid) BAD_REQUEST) (\<lambda>_.
     andthen (reject_if (tap_type \<notin> {''fire'', ''wave'', ''smile'', ''hello''}) BAD_REQUEST) (\<lambda>_.
     andthen (check_not_blocked uid to_user) (\<lambda>_.
     andthen (internal (create_tap_row uid to_user tap_type)) (\<lambda>tid.
     andthen (push_to st to_user ''New Tap!'' (''Someone sent you a '' @ tap_type @ ''!'')) (\<lambda>_.
     ret (uuid_text st tid))))))"

record tap_response =
  tr_id :: string
  tr_from_user_id :: string
  tr_from_display_name :: "string option"
  tr_tap_type :: string
  tr_created_at :: string

definition tap_json :: "app \<Rightarrow> tap \<times> string option \<Rightarrow> tap_response" where
  "tap_json st row = (case row of (r, name) \<Rightarrow>
     \<lparr>tr_id = uuid_text st (tp_id r), tr_from_user_id = uuid_text st (tp_from r), tr_from_display_name = name,
      tr_tap_type = tp_type r, tr_created_at = rfc3339_text st (tp_created_at r)\<rparr>)"

definition list_taps_received :: "app \<Rightarrow> uuid \<Rightarrow> (world, status, tap_response list) prog" where
  "list_taps_received st uid =
     andthen (internal (query (\<lambda>_. taps_received uid))) (\<lambda>rows. ret (map (tap_json st) rows))"

definition list_taps_sent :: "app \<Rightarrow> uuid \<Rightarrow> (world, status, tap_response list) prog" where
  "list_taps_sent st uid =
     andthen (internal (query (\<lambda>_. taps_sent uid))) (\<lambda>rows. ret (map (tap_json st) rows))"

definition get_taps_count :: "uuid \<Rightarrow> (world, status, nat \<times> (string \<rightharpoonup> nat)) prog" where
  "get_taps_count uid = internal (count_taps uid)"

definition add_favorite :: "uuid \<Rightarrow> uuid \<Rightarrow> (world, status, status) prog" where
  "add_favorite uid target =
     andthen (reject_if (target = uid) BAD_REQUEST) (\<lambda>_.
     andthen (check_not_blocked uid target) (\<lambda>_.
     andthen (internal (add_favorite_row uid target)) (\<lambda>_.
     ret CREATED)))"

definition remove_favorite :: "uuid \<Rightarrow> uuid \<Rightarrow> (world, status, status) prog" where
  "remove_favorite uid target = andthen (internal (remove_favorite_row uid target)) (\<lambda>_. ret NO_CONTENT)"

text \<open>A favourite or a block as shown: user, name, reason, time.\<close>

type_synonym listed_user = "string \<times> string option \<times> string option \<times> string"

definition list_favorites :: "app \<Rightarrow> uuid \<Rightarrow> (world, status, listed_user list) prog" where
  "list_favorites st uid =
     andthen (internal (query (\<lambda>_. favorites_of uid))) (\<lambda>rows.
     ret (map (\<lambda>(r, name). (uuid_text st (fv_target r), name, None, rfc3339_text st (fv_created_at r))) rows))"

definition block_user :: "uuid \<Rightarrow> uuid \<Rightarrow> string option \<Rightarrow> (world, status, status) prog" where
  "block_user uid target reason =
     andthen (reject_if (target = uid) BAD_REQUEST) (\<lambda>_.
     andthen (internal (block_user_row uid target reason)) (\<lambda>_.
     andthen (internal (delete_conversation_between uid target)) (\<lambda>_.
     ret CREATED)))"

definition unblock_user :: "uuid \<Rightarrow> uuid \<Rightarrow> (world, status, status) prog" where
  "unblock_user uid target = andthen (internal (unblock_user_row uid target)) (\<lambda>_. ret NO_CONTENT)"

definition list_blocks :: "app \<Rightarrow> uuid \<Rightarrow> (world, status, listed_user list) prog" where
  "list_blocks st uid =
     andthen (internal (query (\<lambda>_. blocks_of uid))) (\<lambda>rows.
     ret (map (\<lambda>(r, name). (uuid_text st (bl_target r), name, bl_reason r, rfc3339_text st (bl_created_at r))) rows))"

definition create_report ::
    "app \<Rightarrow> uuid \<Rightarrow> uuid \<Rightarrow> string \<Rightarrow> uuid option \<Rightarrow> string option \<Rightarrow> (world, status, string) prog" where
  "create_report st uid target kind target_id reason =
     andthen (reject_if (target = uid) BAD_REQUEST) (\<lambda>_.
     andthen (reject_if (kind \<notin> {''profile'', ''photo'', ''message''}) BAD_REQUEST) (\<lambda>_.
     andthen (internal (create_report_row uid target kind target_id reason)) (\<lambda>rid.
     ret (uuid_text st rid))))"

end
