(* ===== verification/ChatHandlers.thy ===== *)
theory ChatHandlers
  imports DbChat SocialHandlers
begin

text \<open>
  \<^verbatim>\<open>api/src/chat.rs\<close>: the REST endpoints of the chat (\<open>chat_route\<close>) and the two halves of a
  WebSocket connection: the frames a client sends (\<open>socket_receive\<close>) and the frames of the broker
  that are forwarded to it (\<open>socket_forward\<close>). A text frame comes as serde decodes it.
\<close>

section \<open>Frames\<close>

definition publish :: "json \<Rightarrow> (world, 'e, unit) prog" where
  "publish v = send (Frame v)"

definition message_frame :: "app \<Rightarrow> chat_message \<Rightarrow> json" where
  "message_frame st m =
     JObj [(''type'', JStr ''message''), (''id'', JStr (uuid_text st (ms_id m))),
           (''conversation_id'', JStr (uuid_text st (ms_conversation m))),
           (''sender_id'', JStr (uuid_text st (ms_sender m))), (''kind'', JStr (ms_kind m)),
           (''body'', json_opt JStr (ms_body m)), (''media_key'', json_opt JStr (ms_media_key m)),
           (''media_type'', json_opt JStr (ms_media_type m)), (''caption'', json_opt JStr (ms_caption m)),
           (''lat'', json_opt JNum (ms_lat m)), (''lon'', json_opt JNum (ms_lon m)),
           (''created_at'', JStr (time_json st (ms_created_at m)))]"

definition typing_frame :: "app \<Rightarrow> string \<Rightarrow> uuid \<Rightarrow> json" where
  "typing_frame st conversation_id uid =
     JObj [(''type'', JStr ''typing''), (''conversation_id'', JStr conversation_id), (''user_id'', JStr (uuid_text st uid))]"

definition reaction_frame :: "app \<Rightarrow> uuid \<Rightarrow> uuid \<Rightarrow> uuid \<Rightarrow> string option \<Rightarrow> json" where
  "reaction_frame st cid mid uid emoji =
     JObj [(''type'', JStr ''reaction''), (''conversation_id'', JStr (uuid_text st cid)),
           (''message_id'', JStr (uuid_text st mid)), (''user_id'', JStr (uuid_text st uid)),
           (''emoji'', json_opt JStr emoji)]"

definition unsend_frame :: "app \<Rightarrow> chat_message \<Rightarrow> json" where
  "unsend_frame st m =
     JObj [(''type'', JStr ''unsend''), (''message_id'', JStr (uuid_text st (ms_id m))),
           (''conversation_id'', JStr (uuid_text st (ms_conversation m)))]"

section \<open>The WebSocket\<close>

text \<open>The upgrade checks the token only.\<close>

definition ws_handler :: "app \<Rightarrow> string \<Rightarrow> (world, status, uuid) prog" where
  "ws_handler st token =
     andthen (map_err (\<lambda>_. UNAUTHORIZED) (verify_access st token)) (\<lambda>claims.
     ok_or UNAUTHORIZED (uuid_parse st (cl_sub claims)))"

text \<open>The conversation of a frame, and the loop that forwards frames: each comes with whether the
  client's socket still accepts it. The cache maps a conversation to the first answer about it.\<close>

definition frame_conversation :: "app \<Rightarrow> json \<Rightarrow> uuid option" where
  "frame_conversation st v =
     Option.bind (json_get ''conversation_id'' v) (\<lambda>c. Option.bind (json_str c) (uuid_parse st))"

definition cached_member ::
    "uuid \<Rightarrow> (uuid \<Rightarrow> bool option) \<Rightarrow> uuid \<Rightarrow> (world, 'e, bool \<times> (uuid \<Rightarrow> bool option)) prog" where
  "cached_member uid cache cid =
     (case cache cid of
        Some m \<Rightarrow> ret (m, cache)
      | None \<Rightarrow> andthen (attempt (is_member cid uid)) (\<lambda>r.
                let m = (case r of Inl _ \<Rightarrow> False | Inr b \<Rightarrow> b) in ret (m, cache(cid := Some m))))"

fun socket_forward ::
    "app \<Rightarrow> uuid \<Rightarrow> (uuid \<Rightarrow> bool option) \<Rightarrow> (json \<times> bool) list \<Rightarrow> (world, unit, json list) prog" where
  "socket_forward st uid cache [] = ret []"
| "socket_forward st uid cache ((v, accepts) # frames) =
     (case frame_conversation st v of
        None \<Rightarrow> socket_forward st uid cache frames
      | Some cid \<Rightarrow>
          andthen (cached_member uid cache cid) (\<lambda>(m, cache').
          if \<not> m then socket_forward st uid cache' frames
          else if \<not> accepts then ret []
          else andthen (socket_forward st uid cache' frames) (\<lambda>sent. ret (v # sent))))"

datatype incoming_message = Send string string | Typing string

definition handle_incoming :: "app \<Rightarrow> uuid \<Rightarrow> incoming_message \<Rightarrow> (world, unit, unit) prog" where
  "handle_incoming st sender msg =
     (case msg of
        Send conversation_id txt \<Rightarrow>
          andthen (ok_or () (uuid_parse st conversation_id)) (\<lambda>cid.
          andthen (map_err (\<lambda>_. ()) (is_member cid sender)) (\<lambda>m.
          if \<not> m then ret ()
          else andthen (map_err (\<lambda>_. ()) (insert_message_row cid sender
                 \<lparr>im_kind = ''text'', im_body = Some txt, im_media_key = None, im_media_type = None,
                  im_caption = None, im_lat = None, im_lon = None\<rparr>)) (\<lambda>row.
               publish (message_frame st row))))
      | Typing conversation_id \<Rightarrow>
          andthen (ok_or () (uuid_parse st conversation_id)) (\<lambda>cid.
          andthen (map_err (\<lambda>_. ()) (is_member cid sender)) (\<lambda>m.
          if \<not> m then ret () else publish (typing_frame st conversation_id sender))))"

text \<open>The argument is the text parsed as JSON, if it is JSON; the result whether it names a
  conversation.\<close>

definition try_relay :: "app \<Rightarrow> uuid \<Rightarrow> json option \<Rightarrow> (world, unit, bool) prog" where
  "try_relay st uid val =
     (case Option.bind val (frame_conversation st) of
        None \<Rightarrow> ret False
      | Some cid \<Rightarrow>
          andthen (attempt (is_member cid uid)) (\<lambda>r.
          if r = Inr True
          then andthen (publish (json_set ''user_id'' (JStr (uuid_text st uid)) (the val))) (\<lambda>_. ret True)
          else ret True))"

datatype ws_text = Known incoming_message | Unknown "json option"

fun socket_receive :: "app \<Rightarrow> uuid \<Rightarrow> ws_text list \<Rightarrow> (world, unit, unit) prog" where
  "socket_receive st uid [] = ret ()"
| "socket_receive st uid (Known msg # rest) =
     andthen (attempt (handle_incoming st uid msg)) (\<lambda>_ :: unit + unit. socket_receive st uid rest)"
| "socket_receive st uid (Unknown v # rest) = andthen (try_relay st uid v) (\<lambda>_. socket_receive st uid rest)"

section \<open>Conversations\<close>

record conversation_json =
  cj_conversation_id :: string
  cj_other_user_id :: string
  cj_other_display_name :: "string option"
  cj_last_message_preview :: "string option"
  cj_last_message_kind :: "string option"
  cj_last_message_at :: "string option"
  cj_unread_count :: nat
  cj_is_group :: bool
  cj_name :: "string option"
  cj_created_by :: "string option"

definition conversation_json_of :: "app \<Rightarrow> conversation_row \<Rightarrow> conversation_json" where
  "conversation_json_of st r =
     \<lparr>cj_conversation_id = uuid_text st (cr_conversation_id r),
      cj_other_user_id = (case cr_other_user_id r of None \<Rightarrow> [] | Some u \<Rightarrow> uuid_text st u),
      cj_other_display_name = cr_other_display_name r, cj_last_message_preview = cr_last_message_preview r,
      cj_last_message_kind = cr_last_message_kind r,
      cj_last_message_at = map_option (rfc3339_text st) (cr_last_message_at r),
      cj_unread_count = cr_unread_count r, cj_is_group = cr_is_group r, cj_name = cr_conv_name r,
      cj_created_by = map_option (uuid_text st) (cr_conv_created_by r)\<rparr>"

definition list_conversations :: "app \<Rightarrow> uuid \<Rightarrow> (world, status, conversation_json list) prog" where
  "list_conversations st uid =
     andthen (internal (query (\<lambda>_. conversations_of uid))) (\<lambda>rows. ret (map (conversation_json_of st) rows))"

definition create_conversation :: "app \<Rightarrow> uuid \<Rightarrow> uuid \<Rightarrow> (world, status, string) prog" where
  "create_conversation st uid participant =
     andthen (reject_if (participant = uid) BAD_REQUEST) (\<lambda>_.
     andthen (internal (is_blocked uid participant)) (\<lambda>b.
     andthen (reject_if b FORBIDDEN) (\<lambda>_.
     andthen (internal (create_conversation_row uid participant)) (\<lambda>cid.
     ret (uuid_text st cid)))))"

definition require_member :: "uuid \<Rightarrow> uuid \<Rightarrow> (world, status, unit) prog" where
  "require_member cid uid = andthen (internal (is_member cid uid)) (\<lambda>m. reject_if (\<not> m) FORBIDDEN)"

definition delete_conversation :: "uuid \<Rightarrow> uuid \<Rightarrow> (world, status, status) prog" where
  "delete_conversation uid cid =
     andthen (internal (delete_conversation_rows cid uid)) (\<lambda>deleted.
     andthen (reject_if (\<not> deleted) NOT_FOUND) (\<lambda>_. ret NO_CONTENT))"

section \<open>Messages\<close>

record send_message_request =
  sm_text :: "string option"
  sm_media_key :: "string option"
  sm_media_type :: "string option"
  sm_caption :: "string option"
  sm_lat :: "rat option"
  sm_lon :: "rat option"
  sm_ephemeral :: "bool option"

definition classify_kind :: "send_message_request \<Rightarrow> string option" where
  "classify_kind req =
     (if sm_media_key req \<noteq> None then
        (if sm_ephemeral req = Some True then Some ''ephemeral_photo''
         else if (case sm_media_type req of None \<Rightarrow> False | Some m \<Rightarrow> prefix ''audio'' m) then Some ''audio''
         else Some ''photo'')
      else if sm_lat req \<noteq> None \<and> sm_lon req \<noteq> None then Some ''location''
      else if sm_text req \<noteq> None then Some ''text''
      else None)"

text \<open>The other member of a conversation that is not a group.\<close>

definition peer_of :: "uuid \<Rightarrow> uuid \<Rightarrow> db \<Rightarrow> uuid option" where
  "peer_of cid uid d =
     map_option cm_user (List.find (\<lambda>r. cm_conversation r = cid \<and> cm_user r \<noteq> uid
        \<and> (case find_conversation (cm_conversation r) d of None \<Rightarrow> False | Some c \<Rightarrow> \<not> cv_is_group c)) (conversation_members d))"

definition refuse_blocked :: "uuid \<Rightarrow> uuid option \<Rightarrow> (world, status, unit) prog" where
  "refuse_blocked uid other =
     (case other of
        None \<Rightarrow> ret ()
      | Some o' \<Rightarrow> andthen (internal (is_blocked uid o')) (\<lambda>b. reject_if b FORBIDDEN))"

text \<open>The checks on the content; the last one is on a kind that \<open>classify_kind\<close> never gives.\<close>

definition bad_content :: "string \<Rightarrow> send_message_request \<Rightarrow> bool" where
  "bad_content kind req \<longleftrightarrow>
     (case sm_text req of None \<Rightarrow> False | Some t \<Rightarrow> 5000 < length t)
     \<or> kind \<in> {''text'', ''location''} \<and> (case sm_text req of None \<Rightarrow> True | Some t \<Rightarrow> utrim t = [])
     \<or> kind = ''media'' \<and> (case sm_media_type req of None \<Rightarrow> [] | Some m \<Rightarrow> m) \<notin> {''photo'', ''audio''}"

definition send_message :: "app \<Rightarrow> uuid \<Rightarrow> uuid \<Rightarrow> send_message_request \<Rightarrow> (world, status, string \<times> string) prog" where
  "send_message st uid cid req =
     andthen (require_member cid uid) (\<lambda>_.
     andthen (internal (query (\<lambda>_. peer_of cid uid))) (\<lambda>other.
     andthen (refuse_blocked uid other) (\<lambda>_.
     andthen (ok_or BAD_REQUEST (classify_kind req)) (\<lambda>kind.
     andthen (reject_if (bad_content kind req) BAD_REQUEST) (\<lambda>_.
     andthen (internal (insert_message_row cid uid
        \<lparr>im_kind = kind, im_body = (if sm_text req \<noteq> None then sm_text req else sm_caption req),
         im_media_key = sm_media_key req, im_media_type = sm_media_type req, im_caption = sm_caption req,
         im_lat = sm_lat req, im_lon = sm_lon req\<rparr>)) (\<lambda>row.
     andthen (publish (message_frame st row)) (\<lambda>_.
     ret (uuid_text st (ms_id row), ms_kind row))))))))"

text \<open>A message as listed, with its reactions; the texts of the times are those of the row.\<close>

record message_json =
  mj_row :: chat_message
  mj_read_at :: "string option"
  mj_viewed_at :: "string option"
  mj_unsent_at :: "string option"
  mj_created_at :: string
  mj_reactions :: "(string \<times> string) list"

definition message_json_of :: "app \<Rightarrow> chat_message \<Rightarrow> (string \<times> string) list \<Rightarrow> message_json" where
  "message_json_of st r reactions =
     \<lparr>mj_row = r, mj_read_at = map_option (rfc3339_text st) (ms_read_at r),
      mj_viewed_at = map_option (rfc3339_text st) (ms_viewed_at r),
      mj_unsent_at = map_option (rfc3339_text st) (ms_unsent_at r),
      mj_created_at = rfc3339_text st (ms_created_at r), mj_reactions = reactions\<rparr>"

definition reactions_map :: "app \<Rightarrow> reaction list \<Rightarrow> uuid \<Rightarrow> (string \<times> string) list option" where
  "reactions_map st rs =
     foldl (\<lambda>m r. m(re_message r := Some ((case m (re_message r) of None \<Rightarrow> [] | Some xs \<Rightarrow> xs)
                                           @ [(uuid_text st (re_user r), re_emoji r)]))) (\<lambda>_. None) rs"

fun attach_reactions ::
    "app \<Rightarrow> (uuid \<Rightarrow> (string \<times> string) list option) \<Rightarrow> chat_message list \<Rightarrow> message_json list" where
  "attach_reactions st m [] = []"
| "attach_reactions st m (r # rs) =
     message_json_of st r (case m (ms_id r) of None \<Rightarrow> [] | Some xs \<Rightarrow> xs) # attach_reactions st (m(ms_id r := None)) rs"

definition clamp_limit :: "int \<Rightarrow> nat" where
  "clamp_limit n = nat (max 1 (min 100 n))"

definition list_messages ::
    "app \<Rightarrow> uuid \<Rightarrow> uuid \<Rightarrow> string option \<Rightarrow> int option \<Rightarrow> (world, status, message_json list) prog" where
  "list_messages st uid cid before limit =
     andthen (require_member cid uid) (\<lambda>_.
     andthen (case before of
                None \<Rightarrow> ret None
              | Some s \<Rightarrow> andthen (ok_or BAD_REQUEST (parse_rfc3339 st s)) (\<lambda>t. ret (Some t))) (\<lambda>before_ts.
     andthen (internal (list_message_rows cid before_ts (clamp_limit (case limit of None \<Rightarrow> 50 | Some n \<Rightarrow> n)))) (\<lambda>rows.
     andthen (internal (list_reactions_for_messages (map ms_id rows))) (\<lambda>reactions.
     ret (attach_reactions st (reactions_map st reactions) rows)))))"

definition mark_read :: "uuid \<Rightarrow> uuid \<Rightarrow> (world, status, nat) prog" where
  "mark_read uid cid =
     andthen (require_member cid uid) (\<lambda>_.
     andthen (internal (mark_messages_read cid uid)) (\<lambda>marked.
     andthen (internal (mark_member_read cid uid)) (\<lambda>_.
     ret marked)))"

definition mark_ephemeral_viewed :: "uuid \<Rightarrow> uuid \<Rightarrow> uuid \<Rightarrow> (world, status, bool) prog" where
  "mark_ephemeral_viewed uid cid mid = internal (mark_ephemeral_viewed_row cid mid uid)"

definition unsend_message_handler :: "app \<Rightarrow> uuid \<Rightarrow> uuid \<Rightarrow> (world, status, unit) prog" where
  "unsend_message_handler st uid mid =
     andthen (internal (unsend_message mid uid)) (\<lambda>row.
     andthen (ok_or NOT_FOUND row) (\<lambda>m.
     publish (unsend_frame st m)))"

section \<open>Reactions\<close>

definition member_conversation :: "uuid \<Rightarrow> uuid \<Rightarrow> (world, status, uuid) prog" where
  "member_conversation mid uid =
     andthen (internal (conversation_id_for_message mid)) (\<lambda>found.
     andthen (ok_or NOT_FOUND found) (\<lambda>cid.
     andthen (require_member cid uid) (\<lambda>_. ret cid)))"

definition put_reaction :: "app \<Rightarrow> uuid \<Rightarrow> uuid \<Rightarrow> string \<Rightarrow> (world, status, unit) prog" where
  "put_reaction st uid mid emoji_text =
     andthen (member_conversation mid uid) (\<lambda>cid.
     let emoji = utrim emoji_text in
     andthen (reject_if (emoji = [] \<or> 16 < length emoji) BAD_REQUEST) (\<lambda>_.
     andthen (internal (set_reaction mid uid emoji)) (\<lambda>_.
     publish (reaction_frame st cid mid uid (Some emoji)))))"

definition delete_reaction :: "app \<Rightarrow> uuid \<Rightarrow> uuid \<Rightarrow> (world, status, unit) prog" where
  "delete_reaction st uid mid =
     andthen (member_conversation mid uid) (\<lambda>cid.
     andthen (internal (remove_reaction mid uid)) (\<lambda>_.
     publish (reaction_frame st cid mid uid None)))"

section \<open>Groups\<close>

definition create_group :: "app \<Rightarrow> uuid \<Rightarrow> string \<Rightarrow> uuid list \<Rightarrow> (world, status, string) prog" where
  "create_group st uid name_text member_ids =
     (let name = utrim name_text in
     andthen (reject_if (name = []) BAD_REQUEST) (\<lambda>_.
     andthen (reject_if (member_ids = []) BAD_REQUEST) (\<lambda>_.
     andthen (reject_if (100 < length member_ids) BAD_REQUEST) (\<lambda>_.
     andthen (internal (create_group_rows uid name member_ids)) (\<lambda>gid.
     ret (uuid_text st gid))))))"

definition require_group :: "uuid \<Rightarrow> (world, status, unit) prog" where
  "require_group gid =
     andthen (internal (query (\<lambda>_ d. map_option cv_is_group (find_conversation gid d)))) (\<lambda>g.
     reject_if (g \<noteq> Some True) BAD_REQUEST)"

definition update_group_name :: "uuid \<Rightarrow> uuid \<Rightarrow> string \<Rightarrow> (world, status, unit) prog" where
  "update_group_name uid gid name_text =
     (let name = utrim name_text in
     andthen (reject_if (name = []) BAD_REQUEST) (\<lambda>_.
     andthen (require_member gid uid) (\<lambda>_.
     andthen (require_group gid) (\<lambda>_.
     andthen (internal (update_group_name_row gid uid name)) (\<lambda>updated.
     reject_if (\<not> updated) FORBIDDEN)))))"

definition add_group_member :: "uuid \<Rightarrow> uuid \<Rightarrow> uuid \<Rightarrow> (world, status, status) prog" where
  "add_group_member uid gid target =
     andthen (require_member gid uid) (\<lambda>_.
     andthen (require_group gid) (\<lambda>_.
     andthen (internal (add_group_member_row gid target)) (\<lambda>_.
     ret CREATED)))"

definition remove_group_member :: "uuid \<Rightarrow> uuid \<Rightarrow> uuid \<Rightarrow> (world, status, unit) prog" where
  "remove_group_member uid gid target =
     andthen (require_member gid uid) (\<lambda>_.
     andthen (require_group gid) (\<lambda>_.
     if target = uid then andthen (internal (remove_group_member_row gid target)) (\<lambda>_. ret ())
     else andthen (internal (is_group_creator gid uid)) (\<lambda>creator.
          andthen (reject_if (\<not> creator) FORBIDDEN) (\<lambda>_.
          andthen (internal (remove_group_member_row gid target)) (\<lambda>_. ret ())))))"

text \<open>The rows of a list as shown, with identifiers and times as texts.\<close>

definition list_user_groups ::
    "app \<Rightarrow> uuid \<Rightarrow> (world, status, (string \<times> string \<times> string \<times> nat \<times> string option \<times> string option) list) prog" where
  "list_user_groups st uid =
     andthen (internal (list_user_group_rows uid)) (\<lambda>rows.
     ret (map (\<lambda>g. (uuid_text st (gr_group_id g), gr_name g, uuid_text st (the (gr_created_by g)), gr_member_count g,
                   gr_last_message_preview g, map_option (rfc3339_text st) (gr_last_message_at g))) rows))"

definition list_group_members :: "app \<Rightarrow> uuid \<Rightarrow> uuid \<Rightarrow> (world, status, (string \<times> string option) list) prog" where
  "list_group_members st uid gid =
     andthen (require_member gid uid) (\<lambda>_.
     andthen (internal (query (\<lambda>_. group_members gid))) (\<lambda>rows.
     ret (map (\<lambda>(u, name). (uuid_text st u, name)) rows)))"

end
