(* ===== verification/ChatSafety.thy ===== *)
theory ChatSafety
  imports ChatHandlers AuthSafety
begin

text \<open>
  What every social and chat request guarantees to the tables, whatever other connections do in
  between. The contract \<open>chat_guarantee\<close> lists the statements one user's requests issue and what
  their checks establish; its instances are the well-formedness of the tables and the shutting out
  of users who are not members of a conversation.
\<close>

section \<open>The requests that write\<close>

datatype chat_request =
    CreateTap uuid string
  | AddFavorite uuid
  | RemoveFavorite uuid
  | BlockUser uuid "string option"
  | UnblockUser uuid
  | CreateReport uuid string "uuid option" "string option"
  | CreateConversation uuid
  | DeleteConversation uuid
  | SendMessage uuid send_message_request
  | MarkRead uuid
  | MarkViewed uuid uuid
  | UnsendMessage uuid
  | PutReaction uuid string
  | DeleteReaction uuid
  | CreateGroup string "uuid list"
  | UpdateGroupName uuid string
  | AddGroupMember uuid uuid
  | RemoveGroupMember uuid uuid

definition finish :: "('s, 'e, 'a) prog \<Rightarrow> ('s, 'e, unit) prog" where
  "finish m = andthen m (\<lambda>_. ret ())"

fun perform :: "app \<Rightarrow> uuid \<Rightarrow> chat_request \<Rightarrow> (world, status, unit) prog" where
  "perform st uid (CreateTap target tap_type) = finish (create_tap st uid target tap_type)"
| "perform st uid (AddFavorite target) = finish (add_favorite uid target)"
| "perform st uid (RemoveFavorite target) = finish (remove_favorite uid target)"
| "perform st uid (BlockUser target reason) = finish (block_user uid target reason)"
| "perform st uid (UnblockUser target) = finish (unblock_user uid target)"
| "perform st uid (CreateReport target kind target_id reason) = finish (create_report st uid target kind target_id reason)"
| "perform st uid (CreateConversation participant) = finish (create_conversation st uid participant)"
| "perform st uid (DeleteConversation cid) = finish (delete_conversation uid cid)"
| "perform st uid (SendMessage cid req) = finish (send_message st uid cid req)"
| "perform st uid (MarkRead cid) = finish (mark_read uid cid)"
| "perform st uid (MarkViewed cid mid) = finish (mark_ephemeral_viewed uid cid mid)"
| "perform st uid (UnsendMessage mid) = finish (unsend_message_handler st uid mid)"
| "perform st uid (PutReaction mid emoji) = finish (put_reaction st uid mid emoji)"
| "perform st uid (DeleteReaction mid) = finish (delete_reaction st uid mid)"
| "perform st uid (CreateGroup name ids) = finish (create_group st uid name ids)"
| "perform st uid (UpdateGroupName gid name) = finish (update_group_name uid gid name)"
| "perform st uid (AddGroupMember gid target) = finish (add_group_member uid gid target)"
| "perform st uid (RemoveGroupMember gid target) = finish (remove_group_member uid gid target)"

definition chat_route :: "app \<Rightarrow> string option \<Rightarrow> chat_request \<Rightarrow> (world, status, unit) prog" where
  "chat_route st header req = andthen (auth_user st header) (\<lambda>uid. perform st uid req)"

section \<open>The contract\<close>

locale chat_guarantee =
  fixes I :: "db \<Rightarrow> bool"
    and uid :: uuid
    and inside :: "uuid \<Rightarrow> bool"
    and boss :: "uuid \<Rightarrow> bool"
  assumes seen: "I d \<Longrightarrow> member_of cid uid d \<Longrightarrow> inside cid"
    and owner_seen: "I d \<Longrightarrow> list_ex (owned_group gid uid) (conversations d) \<Longrightarrow> boss gid"
    and tap_keeps: "I d \<Longrightarrow> target \<noteq> uid \<Longrightarrow> I (snd (create_tap_sql uid target tap_type t d))"
    and favorite_keeps: "I d \<Longrightarrow> target \<noteq> uid \<Longrightarrow> I (snd (add_favorite_sql uid target t d))"
    and unfavorite_keeps: "I d \<Longrightarrow> I (drop_favorite uid target d)"
    and block_keeps: "I d \<Longrightarrow> target \<noteq> uid \<Longrightarrow> I (snd (block_user_sql uid target reason t d))"
    and shared_keeps: "I d \<Longrightarrow> target \<noteq> uid \<Longrightarrow> I (drop_shared uid target d)"
    and unblock_keeps: "I d \<Longrightarrow> I (drop_block uid target d)"
    and report_keeps: "I d \<Longrightarrow> I (snd (create_report_sql uid target kind target_id reason t d))"
    and conversation_keeps: "I d \<Longrightarrow> I (snd (create_conversation_sql uid target t d))"
    and drop_keeps: "I d \<Longrightarrow> inside cid \<Longrightarrow> I (drop_conversations (\<lambda>c. c = cid) d)"
    and insert_keeps: "I d \<Longrightarrow> inside cid \<Longrightarrow> I (snd (insert_message_sql cid uid msg t d))"
    and unsend_keeps: "I d \<Longrightarrow> I (snd (unsend_sql mid uid t d))"
    and read_keeps: "I d \<Longrightarrow> inside cid \<Longrightarrow> I (snd (mark_messages_read_sql cid uid t d))"
    and last_read_keeps: "I d \<Longrightarrow> inside cid \<Longrightarrow> I (set_last_read cid uid t d)"
    and viewed_keeps: "I d \<Longrightarrow> I (snd (mark_viewed_sql cid mid uid t d))"
    and reaction_keeps: "I d \<Longrightarrow> I (snd (set_reaction_sql mid uid emoji t d))"
    and unreact_keeps: "I d \<Longrightarrow> I (drop_reaction mid uid d)"
    and group_keeps: "I d \<Longrightarrow> I (snd (create_group_sql uid name ids t d))"
    and add_keeps: "I d \<Longrightarrow> inside gid \<Longrightarrow> I (snd (add_group_member_sql gid target t d))"
    and remove_keeps: "I d \<Longrightarrow> inside gid \<Longrightarrow> target = uid \<or> boss gid \<Longrightarrow> I (drop_member gid target d)"
    and rename_keeps: "I d \<Longrightarrow> inside gid \<Longrightarrow>
        I (d\<lparr>conversations := update_where (owned_group gid uid) (cv_name_update (\<lambda>_. Some name)) (conversations d)\<rparr>)"
begin

lemma finish_keeps: "keeps (stable I) m w \<Longrightarrow> keeps (stable I) (finish m) w"
  unfolding finish_def by (rule keeps_bind) auto

lemma is_member_seen:
  assumes "stable I w"
  shows "wp (is_member cid uid) (\<lambda>m t. stable I t \<and> (m \<longrightarrow> inside cid)) (\<lambda>_. stable I) w"
  unfolding is_member_def using assms
  by (rule wp_query_stable [where I = I]) (auto intro: seen)

lemma require_member_seen:
  assumes "stable I w"
  shows "wp (require_member cid uid) (\<lambda>_ t. stable I t \<and> inside cid) (\<lambda>_. stable I) w"
  unfolding require_member_def wp_andthen wp_map_err
  by (rule wp_mono [OF is_member_seen [OF assms]]) (auto simp: wp_rules)

text \<open>Sequencing after the membership check.\<close>

lemma after_member:
  assumes "stable I w" and "\<And>v. stable I v \<Longrightarrow> inside cid \<Longrightarrow> keeps (stable I) m v"
  shows "keeps (stable I) (andthen (require_member cid uid) (\<lambda>_. m)) w"
  by (rule wp_bind [OF require_member_seen [OF assms(1)]]) (use assms(2) in auto)

lemma query_keeps: "stable I w \<Longrightarrow> keeps (stable I) (map_err g (query f)) w"
  by (simp add: keeps_query)

lemma blocked_keeps: "stable I w \<Longrightarrow> keeps (stable I) (check_not_blocked uid target) w"
  unfolding check_not_blocked_def is_blocked_def by (intro keeps_bind query_keeps) auto

lemma effects_keep [simp]:
  "keeps (stable I) (publish v) w = stable I w"
  "keeps (stable I) (push_to st target title body) w = stable I w"
  by (simp_all add: publish_def push_to_def)

lemma create_tap_keeps: "stable I w \<Longrightarrow> keeps (stable I) (create_tap st uid target ty) w"
  unfolding create_tap_def create_tap_row_def
  by (rule wp_guard, simp) (intro keeps_bind, auto intro!: blocked_keeps keeps_stmt tap_keeps)

lemma add_favorite_keeps: "stable I w \<Longrightarrow> keeps (stable I) (add_favorite uid target) w"
  unfolding add_favorite_def add_favorite_row_def
  by (rule wp_guard, simp) (intro keeps_bind, auto intro!: blocked_keeps keeps_stmt favorite_keeps)

lemma remove_favorite_keeps: "stable I w \<Longrightarrow> keeps (stable I) (remove_favorite uid target) w"
  unfolding remove_favorite_def remove_favorite_row_def
  by (intro keeps_bind) (auto intro!: keeps_update unfavorite_keeps)

lemma block_user_keeps: "stable I w \<Longrightarrow> keeps (stable I) (block_user uid target reason) w"
  unfolding block_user_def block_user_row_def delete_conversation_between_def
  by (rule wp_guard, simp)
     (intro keeps_bind, auto intro!: keeps_stmt keeps_update block_keeps shared_keeps)

lemma unblock_user_keeps: "stable I w \<Longrightarrow> keeps (stable I) (unblock_user uid target) w"
  unfolding unblock_user_def unblock_user_row_def
  by (intro keeps_bind) (auto intro!: keeps_update unblock_keeps)

lemma create_report_keeps: "stable I w \<Longrightarrow> keeps (stable I) (create_report st uid target kind tid reason) w"
  unfolding create_report_def create_report_row_def
  by (intro keeps_bind) (auto intro!: keeps_stmt report_keeps)

lemma create_conversation_keeps: "stable I w \<Longrightarrow> keeps (stable I) (create_conversation st uid target) w"
  unfolding create_conversation_def create_conversation_row_def is_blocked_def
  by (intro keeps_bind) (auto intro!: keeps_stmt keeps_query conversation_keeps)

lemma delete_conversation_keeps:
  assumes "stable I w"
  shows "keeps (stable I) (delete_conversation uid cid) w"
proof -
  have "keeps (stable I) (delete_conversation_rows cid uid) w"
    unfolding delete_conversation_rows_def
    by (rule wp_bind [OF is_member_seen [OF assms]]) (auto intro!: keeps_bind keeps_update drop_keeps)
  then show ?thesis unfolding delete_conversation_def by (intro keeps_bind) auto
qed

lemma send_message_keeps:
  assumes "stable I w"
  shows "keeps (stable I) (send_message st uid cid req) w"
  unfolding send_message_def refuse_blocked_def is_blocked_def insert_message_row_def
proof (rule after_member [OF assms])
  fix v assume "stable I v" "inside cid"
  then show "keeps (stable I) (andthen (internal (query (\<lambda>_. peer_of cid uid))) (\<lambda>other.
     andthen (case other of None \<Rightarrow> ret () | Some o' \<Rightarrow> andthen (internal (query (\<lambda>_. blocked_pair uid o'))) (\<lambda>b. reject_if b FORBIDDEN)) (\<lambda>_.
     andthen (ok_or BAD_REQUEST (classify_kind req)) (\<lambda>kind.
     andthen (reject_if (bad_content kind req) BAD_REQUEST) (\<lambda>_.
     andthen (internal (stmt (insert_message_sql cid uid
        \<lparr>im_kind = kind, im_body = (if sm_text req \<noteq> None then sm_text req else sm_caption req),
         im_media_key = sm_media_key req, im_media_type = sm_media_type req, im_caption = sm_caption req,
         im_lat = sm_lat req, im_lon = sm_lon req\<rparr>))) (\<lambda>row.
     andthen (publish (message_frame st row)) (\<lambda>_.
     ret (uuid_text st (ms_id row), ms_kind row)))))))) v"
    by (intro keeps_bind) (auto split: option.split intro!: keeps_bind keeps_stmt keeps_query insert_keeps)
qed

lemma mark_read_keeps: "stable I w \<Longrightarrow> keeps (stable I) (mark_read uid cid) w"
  unfolding mark_read_def mark_messages_read_def mark_member_read_def
  by (rule after_member) (auto intro!: keeps_bind keeps_stmt keeps_update read_keeps last_read_keeps)

lemma mark_ephemeral_viewed_keeps: "stable I w \<Longrightarrow> keeps (stable I) (mark_ephemeral_viewed uid cid mid) w"
  unfolding mark_ephemeral_viewed_def mark_ephemeral_viewed_row_def
  by (auto intro!: keeps_stmt viewed_keeps)

lemma unsend_keep: "stable I w \<Longrightarrow> keeps (stable I) (unsend_message_handler st uid mid) w"
  unfolding unsend_message_handler_def unsend_message_def
  by (intro keeps_bind) (auto intro!: keeps_stmt unsend_keeps)

lemma member_conversation_keeps:
  assumes "stable I w"
  shows "keeps (stable I) (member_conversation mid uid) w"
  unfolding member_conversation_def conversation_id_for_message_def
  using assms by (auto intro!: keeps_bind keeps_query wp_need after_member)

lemma put_reaction_keeps: "stable I w \<Longrightarrow> keeps (stable I) (put_reaction st uid mid emoji) w"
  unfolding put_reaction_def set_reaction_def Let_def
  by (intro keeps_bind) (auto intro!: member_conversation_keeps keeps_stmt reaction_keeps)

lemma delete_reaction_keeps: "stable I w \<Longrightarrow> keeps (stable I) (delete_reaction st uid mid) w"
  unfolding delete_reaction_def remove_reaction_def
  by (intro keeps_bind) (auto intro!: member_conversation_keeps keeps_update unreact_keeps)

lemma create_group_keeps: "stable I w \<Longrightarrow> keeps (stable I) (create_group st uid name ids) w"
  unfolding create_group_def create_group_rows_def Let_def
  by (intro keeps_bind) (auto intro!: keeps_stmt group_keeps)

lemma require_group_keeps: "stable I w \<Longrightarrow> keeps (stable I) (require_group gid) w"
  unfolding require_group_def by (intro keeps_bind query_keeps) auto

lemma update_group_name_keeps: "stable I w \<Longrightarrow> keeps (stable I) (update_group_name uid gid name) w"
  unfolding update_group_name_def update_group_name_row_def Let_def
  by (rule wp_guard, simp, rule after_member, assumption)
     (auto intro!: keeps_bind keeps_stmt require_group_keeps rename_keeps)

lemma add_group_member_keeps: "stable I w \<Longrightarrow> keeps (stable I) (add_group_member uid gid target) w"
  unfolding add_group_member_def add_group_member_row_def
  by (rule after_member, assumption) (auto intro!: keeps_bind keeps_stmt require_group_keeps add_keeps)

lemma is_creator_seen:
  assumes "stable I w"
  shows "wp (is_group_creator gid uid) (\<lambda>c t. stable I t \<and> (c \<longrightarrow> boss gid)) (\<lambda>_. stable I) w"
  unfolding is_group_creator_def using assms
  by (rule wp_query_stable [where I = I]) (auto intro: owner_seen)

lemma remove_group_member_keeps:
  assumes "stable I w"
  shows "keeps (stable I) (remove_group_member uid gid target) w"
proof -
  have drop: "keeps (stable I) (andthen (internal (stmt (\<lambda>_ d. (Inr (member_of gid target d), drop_member gid target d)))) (\<lambda>_. ret ())) v"
    if "stable I v" "inside gid" "target = uid \<or> boss gid" for v
    using that by (intro keeps_bind) (auto intro!: keeps_stmt remove_keeps)
  have other: "keeps (stable I) (andthen (internal (is_group_creator gid uid)) (\<lambda>creator.
      andthen (reject_if (\<not> creator) FORBIDDEN) (\<lambda>_.
      andthen (internal (stmt (\<lambda>_ d. (Inr (member_of gid target d), drop_member gid target d)))) (\<lambda>_. ret ())))) v"
    if "stable I v" "inside gid" for v
    by (rule wp_call [OF is_creator_seen [OF that(1)]]) (use that(2) drop in \<open>auto intro!: wp_guard\<close>)
  show ?thesis
    unfolding remove_group_member_def remove_group_member_row_def
    by (rule after_member [OF assms], rule keeps_bind, erule require_group_keeps, split if_split, intro conjI impI)
       (rule drop other; simp)+
qed

lemma perform_keeps: "stable I w \<Longrightarrow> keeps (stable I) (perform st uid req) w"
  by (cases req; simp; intro finish_keeps;
      simp add: create_tap_keeps add_favorite_keeps remove_favorite_keeps block_user_keeps unblock_user_keeps
        create_report_keeps create_conversation_keeps delete_conversation_keeps send_message_keeps mark_read_keeps
        mark_ephemeral_viewed_keeps unsend_keep put_reaction_keeps delete_reaction_keeps create_group_keeps
        update_group_name_keeps add_group_member_keeps remove_group_member_keeps)

text \<open>The frames a client sends over its socket.\<close>

lemma after_incoming:
  assumes "stable I w" and "\<And>cid v. stable I v \<Longrightarrow> inside cid \<Longrightarrow> keeps (stable I) (f cid) v"
  shows "keeps (stable I) (andthen (ok_or () found) (\<lambda>cid. andthen (map_err (\<lambda>_. ()) (is_member cid uid))
           (\<lambda>m. if \<not> m then ret () else f cid))) w"
proof (rule wp_need)
  fix cid
  show "keeps (stable I) (andthen (map_err (\<lambda>_. ()) (is_member cid uid)) (\<lambda>m. if \<not> m then ret () else f cid)) w"
    by (rule wp_call [OF is_member_seen [OF assms(1)]]) (use assms(2) in auto)
qed (use assms(1) in auto)

lemma handle_incoming_keeps: "stable I w \<Longrightarrow> keeps (stable I) (handle_incoming st uid msg) w"
  unfolding handle_incoming_def insert_message_row_def
  by (cases msg; simp only: incoming_message.case; rule after_incoming, assumption)
     (auto intro!: keeps_bind keeps_stmt insert_keeps)

lemma try_relay_keeps: "stable I w \<Longrightarrow> keeps (stable I) (try_relay st uid v) w"
  unfolding try_relay_def is_member_def
  by (auto split: option.split intro!: keeps_bind keeps_query)

lemma socket_receive_keeps: "stable I w \<Longrightarrow> keeps (stable I) (socket_receive st uid msgs) w"
proof (induction msgs arbitrary: w)
  case (Cons x msgs)
  then show ?case
    by (cases x) (auto intro!: keeps_bind handle_incoming_keeps try_relay_keeps)
qed simp

end

section \<open>Well-formed tables\<close>

definition conversations_wf :: "db \<Rightarrow> bool" where
  "conversations_wf d \<longleftrightarrow>
     distinct (map cv_id (conversations d)) \<and> (\<forall>c \<in> set (conversations d). cv_id c < next_id d)"

definition members_wf :: "db \<Rightarrow> bool" where
  "members_wf d \<longleftrightarrow>
     distinct (map (\<lambda>r. (cm_conversation r, cm_user r)) (conversation_members d))
     \<and> (\<forall>r \<in> set (conversation_members d). cm_conversation r \<in> cv_id ` set (conversations d) \<and> user_exists (cm_user r) d)"

definition messages_wf :: "db \<Rightarrow> bool" where
  "messages_wf d \<longleftrightarrow>
     distinct (map ms_id (messages d))
     \<and> (\<forall>m \<in> set (messages d). ms_id m < next_id d \<and> ms_conversation m \<in> cv_id ` set (conversations d)
          \<and> user_exists (ms_sender m) d \<and> ms_kind m \<in> set MESSAGE_KINDS
          \<and> (case ms_media_type m of None \<Rightarrow> True | Some t \<Rightarrow> t \<in> set MEDIA_TYPES))"

definition reactions_wf :: "db \<Rightarrow> bool" where
  "reactions_wf d \<longleftrightarrow>
     distinct (map (\<lambda>r. (re_message r, re_user r)) (message_reactions d))
     \<and> (\<forall>r \<in> set (message_reactions d). re_message r \<in> ms_id ` set (messages d) \<and> user_exists (re_user r) d)"

definition relations_wf :: "db \<Rightarrow> bool" where
  "relations_wf d \<longleftrightarrow>
     distinct (map (\<lambda>r. (fv_user r, fv_target r)) (favorites d))
     \<and> distinct (map (\<lambda>r. (bl_user r, bl_target r)) (blocks d))
     \<and> (\<forall>r \<in> set (favorites d). fv_user r \<noteq> fv_target r) \<and> (\<forall>r \<in> set (blocks d). bl_user r \<noteq> bl_target r)
     \<and> (\<forall>r \<in> set (taps d). tp_from r \<noteq> tp_to r \<and> tp_type r \<in> set TAP_TYPES)"

definition chat_wf :: "db \<Rightarrow> bool" where
  "chat_wf d \<longleftrightarrow> conversations_wf d \<and> members_wf d \<and> messages_wf d \<and> reactions_wf d \<and> relations_wf d"

lemmas chat_wf_defs = chat_wf_def conversations_wf_def members_wf_def messages_wf_def reactions_wf_def relations_wf_def

lemma known_user_exists: "known_user uid d \<longleftrightarrow> user_exists uid d"
  using user_by_id_exists [of uid d] by (simp add: known_user_def)

lemma find_conversation_exists: "find_conversation cid d \<noteq> None \<longleftrightarrow> cid \<in> cv_id ` set (conversations d)"
  by (auto simp: find_conversation_def find_None_iff image_iff)

lemma member_of_iff: "member_of cid uid d \<longleftrightarrow> (cid, uid) \<in> (\<lambda>r. (cm_conversation r, cm_user r)) ` set (conversation_members d)"
  by (auto simp: member_of_def list_ex_iff image_iff)

text \<open>Statements that change one table.\<close>

lemma relations_only:
  assumes "chat_wf d" "conversations d' = conversations d" "conversation_members d' = conversation_members d"
    "messages d' = messages d" "message_reactions d' = message_reactions d" "users d' = users d"
    "next_id d \<le> next_id d'" "relations_wf d'"
  shows "chat_wf d'"
  using assms by (fastforce simp: chat_wf_defs user_exists_def)

lemma relation_statements_wf:
  assumes "chat_wf d"
  shows "target \<noteq> uid \<Longrightarrow> chat_wf (snd (create_tap_sql uid target ty t d))"
    and "target \<noteq> uid \<Longrightarrow> chat_wf (snd (add_favorite_sql uid target t d))"
    and "chat_wf (drop_favorite uid target d)"
    and "target \<noteq> uid \<Longrightarrow> chat_wf (snd (block_user_sql uid target reason t d))"
    and "chat_wf (drop_block uid target d)"
    and "chat_wf (snd (create_report_sql uid target kind tid reason t d))"
proof -
  have "relations_wf d" using assms by (simp add: chat_wf_def)
  note rules = relations_only [OF assms] and rel = this [unfolded relations_wf_def] and defs = relations_wf_def list_ex_iff image_iff
  show "target \<noteq> uid \<Longrightarrow> chat_wf (snd (create_tap_sql uid target ty t d))"
    by (rule rules; use rel in \<open>auto simp: create_tap_sql_def defs\<close>)
  show "target \<noteq> uid \<Longrightarrow> chat_wf (snd (add_favorite_sql uid target t d))"
    by (rule rules; use rel in \<open>auto simp: add_favorite_sql_def defs\<close>)
  show "chat_wf (drop_favorite uid target d)"
    by (rule rules; use rel in \<open>auto simp: drop_favorite_def defs intro: distinct_map_delete_where\<close>)
  show "target \<noteq> uid \<Longrightarrow> chat_wf (snd (block_user_sql uid target reason t d))"
    by (rule rules; use rel in \<open>auto simp: block_user_sql_def defs\<close>)
  show "chat_wf (drop_block uid target d)"
    by (rule rules; use rel in \<open>auto simp: drop_block_def defs intro: distinct_map_delete_where\<close>)
  show "chat_wf (snd (create_report_sql uid target kind tid reason t d))"
    by (rule rules; use rel in \<open>auto simp: create_report_sql_def defs\<close>)
qed

lemma drop_conversations_wf: "chat_wf d \<Longrightarrow> chat_wf (drop_conversations p d)"
  by (auto simp: chat_wf_defs drop_conversations_def user_exists_def list_ex_iff intro!: distinct_map_delete_where)

lemma set_messages_wf:
  assumes "chat_wf d" and f: "\<And>m. ms_id (f m) = ms_id m" "\<And>m. ms_conversation (f m) = ms_conversation m"
    "\<And>m. ms_sender (f m) = ms_sender m" "\<And>m. ms_kind (f m) = ms_kind m" "\<And>m. ms_media_type (f m) = ms_media_type m"
  shows "chat_wf (set_messages p f d)"
proof -
  have ids: "map ms_id (update_where p f ms) = map ms_id ms" for ms by (simp add: map_update_where_same f)
  then have "ms_id ` set (update_where p f ms) = ms_id ` set ms" for ms by (metis list.set_map)
  with ids assms(1) show ?thesis
    by (auto simp: chat_wf_defs set_messages_def user_exists_def f elim!: in_update_whereE)
qed

lemma distinct_sorted_remdups_adj: "sorted xs \<Longrightarrow> distinct (remdups_adj xs)"
  by (induction xs rule: remdups_adj.induct) (auto simp: order.strict_iff_order)

lemma conversation_statements_wf:
  assumes "chat_wf d"
  shows "chat_wf (snd (create_conversation_sql uid target t d))"
    and "chat_wf (snd (create_group_sql uid name ids t d))"
    and "chat_wf (snd (add_group_member_sql gid target t d))"
    and "chat_wf (drop_member gid target d)"
    and "chat_wf (set_last_read cid uid t d)"
    and "chat_wf (d\<lparr>conversations := update_where p (cv_name_update (\<lambda>_. Some name)) (conversations d)\<rparr>)"
proof -
  have fresh: "cm_conversation r \<noteq> next_id d" if "r \<in> set (conversation_members d)" for r
    using that assms by (fastforce simp: chat_wf_defs)
  show "chat_wf (snd (create_conversation_sql uid target t d))"
    using assms fresh
    by (auto simp: create_conversation_sql_def Let_def chat_wf_defs new_conversation_def new_member_def
        known_user_exists user_exists_def less_Suc_eq)
  have "distinct (map (\<lambda>u. (next_id d, u)) us)" if "distinct us" for us
    using that by (induction us) auto
  then show "chat_wf (snd (create_group_sql uid name ids t d))"
    using assms fresh distinct_sorted_remdups_adj [OF sorted_sort, of "uid # ids"]
    by (auto simp: create_group_sql_def sorted_insort Let_def chat_wf_defs new_conversation_def new_member_def comp_def
        known_user_exists user_exists_def list_all_iff less_Suc_eq)
  show "chat_wf (snd (add_group_member_sql gid target t d))"
    using assms find_conversation_exists [of gid d]
    by (auto simp: add_group_member_sql_def chat_wf_defs new_member_def known_user_exists user_exists_def member_of_iff)
  show "chat_wf (drop_member gid target d)"
    using assms by (auto simp: drop_member_def chat_wf_defs user_exists_def intro!: distinct_map_delete_where)
  show "chat_wf (set_last_read cid uid t d)"
    using assms
    by (auto simp: set_last_read_def chat_wf_defs user_exists_def map_update_where_same elim!: in_update_whereE)
  have ids: "map cv_id (update_where p (cv_name_update (\<lambda>_. Some name)) cs) = map cv_id cs" for cs
    by (simp add: map_update_where_same)
  then have "cv_id ` set (update_where p (cv_name_update (\<lambda>_. Some name)) cs) = cv_id ` set cs" for cs
    by (metis list.set_map)
  with ids show "chat_wf (d\<lparr>conversations := update_where p (cv_name_update (\<lambda>_. Some name)) (conversations d)\<rparr>)"
    using assms by (auto simp: chat_wf_defs user_exists_def elim!: in_update_whereE)
qed

lemma message_statements_wf:
  assumes "chat_wf d"
  shows "chat_wf (snd (insert_message_sql cid uid msg t d))"
    and "chat_wf (snd (set_reaction_sql mid uid emoji t d))"
    and "chat_wf (drop_reaction mid uid d)"
proof -
  have ids: "map cv_id (update_where p (cv_last_message_at_update (\<lambda>_. Some t)) cs) = map cv_id cs" for p cs
    by (simp add: map_update_where_same)
  have set_ids: "cv_id ` set (update_where p (cv_last_message_at_update (\<lambda>_. Some t)) cs) = cv_id ` set cs" for p cs
    using ids [of p cs] by (metis list.set_map)
  show "chat_wf (snd (insert_message_sql cid uid msg t d))"
    using assms find_conversation_exists [of cid d]
    by (auto simp: ids set_ids insert_message_sql_def Let_def chat_wf_defs message_row_def known_user_exists user_exists_def
        less_Suc_eq elim!: in_update_whereE split: option.splits)
  show "chat_wf (snd (set_reaction_sql mid uid emoji t d))"
    using assms
    by (auto simp: set_reaction_sql_def chat_wf_defs known_user_exists user_exists_def list_ex_iff map_update_where_same
        elim!: in_update_whereE)
  show "chat_wf (drop_reaction mid uid d)"
    using assms by (auto simp: drop_reaction_def chat_wf_defs user_exists_def intro!: distinct_map_delete_where)
qed

interpretation chat: chat_guarantee chat_wf uid "\<lambda>_. True" "\<lambda>_. True" for uid
  by unfold_locales
     (auto simp: drop_shared_def unsend_sql_def mark_messages_read_sql_def mark_viewed_sql_def
       intro: relation_statements_wf conversation_statements_wf message_statements_wf drop_conversations_wf set_messages_wf)

lemma empty_chat_wf: "chat_wf empty_db"
  by (simp add: empty_db_def chat_wf_defs)

section \<open>The whole service\<close>

text \<open>The authentication tables and the chat tables together, under the requests of both.\<close>

definition service_wf :: "app \<Rightarrow> db \<Rightarrow> bool" where
  "service_wf st d \<longleftrightarrow> auth_wf st d \<and> chat_wf d"

lemma chat_wf_frame:
  assumes "chat_wf d" "conversations d' = conversations d" "conversation_members d' = conversation_members d"
    "messages d' = messages d" "message_reactions d' = message_reactions d"
    "favorites d' = favorites d" "blocks d' = blocks d" "taps d' = taps d"
    "next_id d \<le> next_id d'" "u_id ` set (users d) \<subseteq> u_id ` set (users d')"
  shows "chat_wf d'"
proof -
  have "user_exists u d \<Longrightarrow> user_exists u d'" for u using assms(10) by (auto simp: user_exists_def)
  moreover have "conversations_wf d'" using assms(1,2,9) by (fastforce simp: chat_wf_def conversations_wf_def)
  moreover have "relations_wf d'" using assms(1,6-8) by (simp add: chat_wf_def relations_wf_def)
  ultimately show ?thesis
    using assms(1-5,9) by (fastforce simp: chat_wf_def members_wf_def messages_wf_def reactions_wf_def)
qed

lemma auth_wf_frame:
  assumes "auth_wf st d" "users d' = users d" "auth_identities d' = auth_identities d"
    "refresh_tokens d' = refresh_tokens d" "consent_records d' = consent_records d" "auth_codes d' = auth_codes d"
    "next_id d \<le> next_id d'"
  shows "auth_wf st d'"
proof -
  have "user_exists u d' = user_exists u d" for u using assms(2) by (simp add: user_exists_def)
  with assms show ?thesis
    unfolding auth_wf_def users_wf_def tokens_wf_def identities_wf_def codes_wf_def by (metis order.strict_trans2)
qed

lemma users_set_user: "(\<And>r. u_id (f r) = u_id r) \<Longrightarrow> u_id ` set (users (set_user uid f d)) = u_id ` set (users d)"
  using user_exists_set_user [of f _ uid d] by (auto simp: user_exists_def set_eq_iff)

lemma auth_statements_chat_wf:
  assumes "chat_wf d"
  shows "chat_wf (snd (create_user_full_sql st email ph dob av t d))"
    and "chat_wf (snd (store_refresh_token_sql uid th ends t d))"
    and "chat_wf (snd (add_auth_identity_sql uid provider puid t d))"
    and "chat_wf (snd (record_consent_sql uid kind version t d))"
    and "chat_wf (snd (issue_auth_code_sql uid kind ch ends t d))"
    and "chat_wf (consume p t d)" "chat_wf (revoke q t d)"
    and "(\<And>r. u_id (f r) = u_id r) \<Longrightarrow> chat_wf (set_user uid f d)"
proof -
  note frame = chat_wf_frame [OF assms]
  show "chat_wf (snd (create_user_full_sql st email ph dob av t d))"
    by (rule frame) (auto simp: create_user_full_sql_def)
  show "chat_wf (snd (store_refresh_token_sql uid th ends t d))"
    by (rule frame) (auto simp: store_refresh_token_sql_def)
  show "chat_wf (snd (add_auth_identity_sql uid provider puid t d))"
    by (rule frame) (auto simp: add_auth_identity_sql_def)
  show "chat_wf (snd (record_consent_sql uid kind version t d))"
    by (rule frame) (auto simp: record_consent_sql_def)
  show "chat_wf (snd (issue_auth_code_sql uid kind ch ends t d))"
    by (rule frame) (auto simp: issue_auth_code_sql_def)
  show "chat_wf (consume p t d)" "chat_wf (revoke q t d)"
    by (rule frame; simp add: consume_def revoke_def)+
  show "chat_wf (set_user uid f d)" if "\<And>r. u_id (f r) = u_id r"
    using users_set_user [of f uid d] that by (intro frame) (auto simp: set_user_def)
qed

lemma chat_statements_auth_wf:
  assumes "auth_wf st d"
  shows "auth_wf st (snd (create_tap_sql uid target ty t d))" "auth_wf st (snd (add_favorite_sql uid target t d))"
    "auth_wf st (drop_favorite uid target d)" "auth_wf st (snd (block_user_sql uid target reason t d))"
    "auth_wf st (drop_block uid target d)" "auth_wf st (snd (create_report_sql uid target kind tid reason t d))"
    "auth_wf st (snd (create_conversation_sql uid target t d))" "auth_wf st (drop_conversations p d)"
    "auth_wf st (snd (insert_message_sql cid uid msg t d))" "auth_wf st (set_messages q f d)"
    "auth_wf st (set_last_read cid uid t d)" "auth_wf st (snd (set_reaction_sql mid uid emoji t d))"
    "auth_wf st (drop_reaction mid uid d)" "auth_wf st (snd (create_group_sql uid name ids t d))"
    "auth_wf st (snd (add_group_member_sql gid target t d))" "auth_wf st (drop_member gid target d)"
    "auth_wf st (d\<lparr>conversations := cs\<rparr>)"
  by (rule auth_wf_frame [OF assms];
      simp add: create_tap_sql_def add_favorite_sql_def drop_favorite_def block_user_sql_def drop_block_def
        create_report_sql_def create_conversation_sql_def drop_conversations_def insert_message_sql_def Let_def
        set_messages_def set_last_read_def set_reaction_sql_def drop_reaction_def create_group_sql_def
        add_group_member_sql_def drop_member_def)+

interpretation svc_auth: auth_guarantee st "service_wf st" "\<lambda>_. True" for st
  by unfold_locales
     (auto simp: service_wf_def intro: wf.create_keeps wf.store_keeps wf.identity_keeps wf.consent_keeps wf.code_keeps
       wf.consume_keeps wf.revoke_keeps wf.email_flag_keeps wf.phone_flag_keeps wf.password_keeps auth_statements_chat_wf)

interpretation svc_chat: chat_guarantee "service_wf st" uid "\<lambda>_. True" "\<lambda>_. True" for st uid
  by unfold_locales
     (auto simp: service_wf_def drop_shared_def unsend_sql_def mark_messages_read_sql_def mark_viewed_sql_def
       intro: chat_statements_auth_wf relation_statements_wf conversation_statements_wf message_statements_wf
         drop_conversations_wf set_messages_wf)

text \<open>One request of any kind, or a run of frames on a socket, from an empty database on.\<close>

inductive service_step :: "app \<Rightarrow> world \<Rightarrow> world \<Rightarrow> bool" for st where
  auth: "service_step st w (snd (route st req w))"
| chat: "service_step st w (snd (chat_route st header creq w))"
| socket: "service_step st w (snd (socket_receive st uid msgs w))"

inductive_cases service_stepE: "service_step st w w'"

definition service_init :: "app \<Rightarrow> world \<Rightarrow> bool" where
  "service_init st w \<longleftrightarrow> db w = empty_db \<and> (\<forall>t \<in> set (turns w). \<forall>d. service_wf st d \<longrightarrow> service_wf st (others t d))"

lemma chat_route_service:
  "stable (service_wf st) w \<Longrightarrow> keeps (stable (service_wf st)) (chat_route st header req) w"
  unfolding chat_route_def by (intro keeps_bind svc_auth.auth_user_keeps svc_chat.perform_keeps)

interpretation service: invariant_system "service_init st" "service_step st" "stable (service_wf st)" for st
proof unfold_locales
  show "service_init st w \<Longrightarrow> stable (service_wf st) w" for w
    using empty_wf empty_chat_wf by (simp add: service_init_def stable_def service_wf_def)
  show "stable (service_wf st) w'" if "stable (service_wf st) w" "service_step st w w'" for w w'
    using that(2)
  proof (rule service_stepE)
    show "w' = snd (route st req w) \<Longrightarrow> ?thesis" for req
      using keeps_final [OF svc_auth.route_keeps [OF that(1)]] by simp
    show "w' = snd (chat_route st header creq w) \<Longrightarrow> ?thesis" for header creq
      using keeps_final [OF chat_route_service [OF that(1)]] by simp
    show "w' = snd (socket_receive st uid msgs w) \<Longrightarrow> ?thesis" for uid msgs
      using keeps_final [OF svc_chat.socket_receive_keeps [OF that(1)]] by simp
  qed
qed

text \<open>
  Sign-ups, sessions, taps, blocks, conversations, groups, messages and socket frames in any
  order, with other clients in between and with a database that may fail at any statement, leave
  every table well formed: besides the authentication tables, conversations, messages, members,
  reactions, favourites and blocks have unique keys, members and messages belong to a conversation
  that exists, reactions to a message that exists, all of them to existing users, and nobody blocks,
  taps or favours himself.
\<close>

theorem service_tables_wf:
  assumes "reach (service_init st) (service_step st) w"
  shows "service_wf st (db w)"
  using stable_db [OF service.reach_inv [OF assms]] .

theorem service_tables_wf_witness:
  "service_wf sample_app (db (snd (socket_receive sample_app 0 [Unknown None] (alone empty_db))))"
  by (rule service_tables_wf, rule reach_step, rule reach_init [of "service_init sample_app" "alone empty_db"])
     (simp add: service_init_def, rule service_step.socket)

end
