(* ===== verification/ChatProps.thy ===== *)
theory ChatProps
  imports ChatSafety
begin

text \<open>
  What the chat guarantees its users: nothing of a conversation can be changed or read by someone
  who is not a member, only the creator of a group removes others, a block cuts the contact, and
  the places where the socket, the group deletion and the kept contents fall short of that.
\<close>

section \<open>Users outside a conversation\<close>

text \<open>The rows of a conversation, but for the time at which \<open>u\<close> unsent a message of his own.\<close>

definition but_own_unsend :: "uuid \<Rightarrow> chat_message \<Rightarrow> chat_message" where
  "but_own_unsend u m = (if ms_sender m = u then m\<lparr>ms_unsent_at := None\<rparr> else m)"

definition conv_view :: "uuid \<Rightarrow> uuid \<Rightarrow> db \<Rightarrow> conversation list \<times> conv_member list \<times> chat_message list" where
  "conv_view u c d =
     (filter (\<lambda>r. cv_id r = c) (conversations d), filter (\<lambda>r. cm_conversation r = c) (conversation_members d),
      map (but_own_unsend u) (filter (\<lambda>m. ms_conversation m = c) (messages d)))"

definition outside :: "uuid \<Rightarrow> uuid \<Rightarrow> (conversation list \<times> conv_member list \<times> chat_message list \<Rightarrow> bool) \<Rightarrow> db \<Rightarrow> bool" where
  "outside c u P d \<longleftrightarrow> c < next_id d \<and> \<not> member_of c u d \<and> P (conv_view u c d)"

lemma outside_frame:
  assumes "outside c u P d" "conv_view u c d' = conv_view u c d" "next_id d \<le> next_id d'"
  shows "outside c u P d'"
proof -
  have "member_of c v d \<longleftrightarrow> list_ex (\<lambda>r. cm_user r = v) (fst (snd (conv_view u c d)))" for v d
    by (auto simp: member_of_def conv_view_def list_ex_iff)
  then show ?thesis using assms by (simp add: outside_def)
qed

lemma outside_seen: "outside c u P d \<Longrightarrow> member_of cid u d \<Longrightarrow> cid \<noteq> c"
  by (auto simp: outside_def)

lemma outside_relations:
  assumes "outside c u P d"
  shows "outside c u P (snd (create_tap_sql u target ty t d))" "outside c u P (snd (add_favorite_sql u target t d))"
    "outside c u P (drop_favorite u target d)" "outside c u P (snd (block_user_sql u target reason t d))"
    "outside c u P (drop_block u target d)" "outside c u P (snd (create_report_sql u target kind tid reason t d))"
    "outside c u P (snd (set_reaction_sql mid u emoji t d))" "outside c u P (drop_reaction mid u d)"
  by (rule outside_frame [OF assms];
      simp add: conv_view_def create_tap_sql_def add_favorite_sql_def drop_favorite_def block_user_sql_def drop_block_def
        create_report_sql_def set_reaction_sql_def drop_reaction_def)+

lemma outside_drop:
  assumes "outside c u P d" "\<not> p c"
  shows "outside c u P (drop_conversations p d)"
  by (rule outside_frame [OF assms(1)])
     (use assms(2) in \<open>auto simp: conv_view_def drop_conversations_def intro!: filter_delete_where arg_cong [where f = "map _"]\<close>)

lemma outside_new:
  assumes "outside c u P d"
  shows "outside c u P (snd (create_conversation_sql u target t d))" "outside c u P (snd (create_group_sql u name ids t d))"
proof -
  have "c \<noteq> next_id d" using assms by (simp add: outside_def)
  then have same: "conv_view u c (snd (create_conversation_sql u target t d)) = conv_view u c d"
    "conv_view u c (snd (create_group_sql u name ids t d)) = conv_view u c d"
    by (auto simp: conv_view_def create_conversation_sql_def create_group_sql_def Let_def new_conversation_def new_member_def)
  show "outside c u P (snd (create_conversation_sql u target t d))"
    by (rule outside_frame [OF assms same(1)]) (simp add: create_conversation_sql_def Let_def)
  show "outside c u P (snd (create_group_sql u name ids t d))"
    by (rule outside_frame [OF assms same(2)]) (simp add: create_group_sql_def Let_def)
qed

lemma outside_other:
  assumes "outside c u P d" "cid \<noteq> c"
  shows "outside c u P (snd (insert_message_sql cid u msg t d))" "outside c u P (snd (mark_messages_read_sql cid u t d))"
    "outside c u P (set_last_read cid u t d)" "outside c u P (snd (add_group_member_sql cid target t d))"
    "outside c u P (drop_member cid target d)"
    "outside c u P (d\<lparr>conversations := update_where (owned_group cid u) (cv_name_update (\<lambda>_. Some name)) (conversations d)\<rparr>)"
  by (rule outside_frame [OF assms(1)];
      use assms(2) in \<open>auto simp: conv_view_def insert_message_sql_def message_row_def Let_def mark_messages_read_sql_def
        set_messages_def unread_message_def set_last_read_def add_group_member_sql_def new_member_def drop_member_def
        owned_group_def intro!: filter_update_where filter_delete_where arg_cong [where f = "map _"]\<close>)+

lemma outside_viewed:
  assumes "outside c u P d"
  shows "outside c u P (snd (mark_viewed_sql cid mid u t d))"
proof (cases "cid = c")
  case True
  then show ?thesis using assms by (simp add: mark_viewed_sql_def outside_def)
next
  case False
  then show ?thesis
    by (intro outside_frame [OF assms])
       (auto simp: conv_view_def mark_viewed_sql_def set_messages_def may_view_def
         intro!: arg_cong [where f = "map _"] filter_update_where)
qed

lemma outside_unsend:
  assumes "outside c u P d"
  shows "outside c u P (snd (unsend_sql mid u t d))"
proof -
  have "map (but_own_unsend u) (filter (\<lambda>m. ms_conversation m = c) (update_where (may_unsend mid u) (ms_unsent_at_update (\<lambda>_. Some t)) ms))
        = map (but_own_unsend u) (filter (\<lambda>m. ms_conversation m = c) ms)" for ms
    by (induction ms) (auto simp: but_own_unsend_def may_unsend_def)
  then show ?thesis
    by (intro outside_frame [OF assms]) (simp_all add: conv_view_def unsend_sql_def set_messages_def)
qed

interpretation out: chat_guarantee "outside c u P" u "\<lambda>cid. cid \<noteq> c" "\<lambda>_. True" for c u P
proof unfold_locales
  show "outside c u P (drop_shared u target d)" if "outside c u P d" for d target
    unfolding drop_shared_def using that
    by (rule outside_drop) (use that in \<open>simp add: outside_def shared_conversation_def\<close>)
qed (simp_all add: outside_seen outside_relations outside_drop outside_new outside_other outside_viewed outside_unsend)

text \<open>
  C3. Whoever is not a member of a conversation cannot change it: no request and no socket frame of
  his changes its row, its members or its messages, but that he may unsend a message he wrote himself when he was a member,
  whatever others do meanwhile, as long as they do not make him a member. \<open>P\<close> is anything that can be said of these rows
  and that the others keep.
\<close>

theorem outsider_changes_nothing:
  assumes "stable (outside c u P) w"
  shows "P (conv_view u c (db (snd (perform st u req w)))) \<and> P (conv_view u c (db (snd (socket_receive st u msgs w))))"
  using stable_db [OF keeps_final [OF out.perform_keeps [OF assms]]]
    stable_db [OF keeps_final [OF out.socket_receive_keeps [OF assms]]]
  by (simp add: outside_def)

text \<open>Users 0, 1 and 2, the conversation 3 of 0 and 1, and the group 4 that user 0 made of all.\<close>

definition sample_chat :: db where
  "sample_chat = empty_db\<lparr>users := [new_user 0 ''a@b.c'' None None True 0, new_user 1 ''d@e.f'' None None True 0,
       new_user 2 ''g@h.i'' None None True 0],
     conversations := [new_conversation 3 0 False None None, new_conversation 4 0 True (Some ''G'') (Some 0)],
     conversation_members := [new_member 3 0, new_member 3 1, new_member 4 0, new_member 4 1, new_member 4 2],
     next_id := 5\<rparr>"

definition text_request :: "string \<Rightarrow> send_message_request" where
  "text_request txt = \<lparr>sm_text = Some txt, sm_media_key = None, sm_media_type = None, sm_caption = None, sm_lat = None,
     sm_lon = None, sm_ephemeral = None\<rparr>"

text \<open>User 2 wrote to the conversation 3 once, and so did user 0.\<close>

definition left_chat :: db where
  "left_chat = sample_chat\<lparr>messages :=
     [message_row 5 3 2 \<lparr>im_kind = ''text'', im_body = Some ''x'', im_media_key = None, im_media_type = None, im_caption = None,
        im_lat = None, im_lon = None\<rparr> 0,
      message_row 6 3 0 \<lparr>im_kind = ''text'', im_body = Some ''y'', im_media_key = None, im_media_type = None, im_caption = None,
        im_lat = None, im_lon = None\<rparr> 0], next_id := 7\<rparr>"

lemma left_outside: "stable (outside 3 2 ((=) (conv_view 2 3 left_chat))) (alone left_chat)"
  by (simp add: outside_def left_chat_def sample_chat_def member_of_def new_member_def)

theorem outsider_changes_nothing_witness:
  "conv_view 2 3 (db (snd (perform sample_app 2 (SendMessage 3 (text_request ''hi'')) (alone left_chat)))) = conv_view 2 3 left_chat
   \<and> conv_view 2 3 (db (snd (perform sample_app 2 (UnsendMessage 6) (alone left_chat)))) = conv_view 2 3 left_chat
   \<and> ms_unsent_at (messages left_chat ! 1) = None"
  using outsider_changes_nothing [OF left_outside, of sample_app "SendMessage 3 (text_request ''hi'')"]
    outsider_changes_nothing [OF left_outside, of sample_app "UnsendMessage 6"]
  by (simp del: perform.simps) (simp add: left_chat_def message_row_def)

text \<open>A list, or a frame, that a program would give him.\<close>

lemma require_member_outside:
  assumes "stable (\<lambda>d. \<not> member_of c u d) w"
  shows "wp (andthen (require_member c u) m) (\<lambda>_ _. False) (\<lambda>_ _. True) w"
  unfolding require_member_def is_member_def wp_andthen wp_map_err
  using assms by (rule wp_query_stable [where I = "\<lambda>d. \<not> member_of c u d"]) (simp_all add: wp_rules)

lemma require_member_isl: "stable (\<lambda>d. \<not> member_of c u d) w \<Longrightarrow> isl (fst (andthen (require_member c u) m w))"
  using require_member_outside [of c u w m] by (auto simp: wp_def split: prod.splits sum.splits)

lemma cached_member_outside:
  assumes "stable (\<lambda>d. \<not> member_of c u d) w" "cache c \<noteq> Some True"
  shows "wp (cached_member u cache cid) (\<lambda>(m, cache') v. stable (\<lambda>d. \<not> member_of c u d) v \<and> cache' c \<noteq> Some True
           \<and> (m \<longrightarrow> cid \<noteq> c)) (\<lambda>_ _. True) w"
proof (cases "cache cid")
  case None
  have "wp (is_member cid u) (\<lambda>b v. stable (\<lambda>d. \<not> member_of c u d) v \<and> (b \<longrightarrow> cid \<noteq> c))
          (\<lambda>_. stable (\<lambda>d. \<not> member_of c u d)) w"
    unfolding is_member_def using assms(1)
    by (rule wp_query_stable [where I = "\<lambda>d. \<not> member_of c u d"]) auto
  then show ?thesis
    using None assms(2)
    by (auto simp: cached_member_def wp_andthen wp_attempt wp_ret elim!: wp_mono)
qed (use assms in \<open>auto simp: cached_member_def wp_rules\<close>)

lemma socket_forward_outside:
  assumes "stable (\<lambda>d. \<not> member_of c u d) w" "cache c \<noteq> Some True"
  shows "wp (socket_forward st u cache frames) (\<lambda>sent _. Some c \<notin> frame_conversation st ` set sent) (\<lambda>_ _. True) w"
  using assms
proof (induction frames arbitrary: w cache)
  case (Cons f frames)
  obtain v accepts where f: "f = (v, accepts)" by (cases f)
  show ?case
  proof (cases "frame_conversation st v")
    case None
    then show ?thesis using Cons f by simp
  next
    case (Some cid)
    have sent: "wp (andthen (socket_forward st u cache' frames) (\<lambda>sent. ret (v # sent)))
        (\<lambda>sent _. Some c \<notin> frame_conversation st ` set sent) (\<lambda>_ _. True) t"
      if "stable (\<lambda>d. \<not> member_of c u d) t" "cache' c \<noteq> Some True" "cid \<noteq> c" for cache' t
      by (rule wp_bind [OF Cons.IH [of t cache', OF that(1,2)]]) (use that(3) Some in \<open>auto simp: wp_ret\<close>)
    show ?thesis
      unfolding f using Some
      by (auto simp: wp_ret intro!: wp_bind [OF cached_member_outside [of c u w cache, OF Cons.prems]] sent Cons.IH)
  qed
qed (simp add: wp_rules)

text \<open>
  C5. Whoever is not a member of a conversation cannot read it: while he is not one and nobody makes him one, listing
  its messages or its members never answers with a list, and a socket of his that did not find him a member earlier (the
  answer it found is kept as long as it is open, see \<open>removed_member_still_receives\<close>) forwards no frame of that conversation.
\<close>

theorem outsider_reads_nothing:
  assumes "stable (\<lambda>d. \<not> member_of c u d) w" "cache c \<noteq> Some True"
  shows "isl (fst (list_messages st u c before limit w)) \<and> isl (fst (list_group_members st u c w))
     \<and> (case fst (socket_forward st u cache frames w) of
          Inl _ \<Rightarrow> True | Inr sent \<Rightarrow> Some c \<notin> frame_conversation st ` set sent)"
proof -
  have "wp (socket_forward st u cache frames) (\<lambda>sent _. Some c \<notin> frame_conversation st ` set sent) (\<lambda>_ _. True) w"
    by (rule socket_forward_outside [of c u w cache, OF assms])
  then show ?thesis
    unfolding list_messages_def list_group_members_def
    by (simp add: require_member_isl [OF assms(1)]) (auto simp: wp_def split: prod.splits sum.splits)
qed

definition sample_frame :: "string \<Rightarrow> json" where
  "sample_frame c = JObj [(''conversation_id'', JStr c)]"

theorem outsider_reads_nothing_witness:
  "isl (fst (list_messages sample_app 2 3 None None (alone left_chat)))
   \<and> isl (fst (list_group_members sample_app 2 3 (alone left_chat)))
   \<and> fst (socket_forward sample_app 2 (\<lambda>_. None) [(sample_frame ''3'', True), (sample_frame ''4'', True)] (alone left_chat))
       = Inr [sample_frame ''4'']
   \<and> Some 3 \<notin> frame_conversation sample_app ` set [sample_frame ''4'']"
proof -
  let ?frames = "[(sample_frame ''3'', True), (sample_frame ''4'', True)]"
  have sent: "fst (socket_forward sample_app 2 (\<lambda>_. None) ?frames (alone left_chat)) = Inr [sample_frame ''4'']" by code_simp
  have "stable (\<lambda>d. \<not> member_of 3 2 d) (alone left_chat)"
    by (simp add: left_chat_def sample_chat_def member_of_def new_member_def)
  from outsider_reads_nothing [OF this, of "\<lambda>_. None" sample_app None None ?frames] sent show ?thesis
    by (simp del: socket_forward.simps)
qed

section \<open>Groups\<close>

text \<open>\<open>u\<close> is not the creator of the group \<open>g\<close>, and \<open>x\<close> is in it or it is gone.\<close>

definition not_removed :: "uuid \<Rightarrow> uuid \<Rightarrow> uuid \<Rightarrow> db \<Rightarrow> bool" where
  "not_removed g u x d \<longleftrightarrow>
     g < next_id d \<and> \<not> list_ex (owned_group g u) (conversations d)
     \<and> (member_of g x d \<or> find_conversation g d = None)"

lemma not_removed_frame:
  assumes "not_removed g u x d" "next_id d \<le> next_id d'"
    "\<And>c. c \<in> set (conversations d') \<Longrightarrow> cv_id c = g \<Longrightarrow>
       \<exists>c' \<in> set (conversations d). cv_id c' = g \<and> cv_created_by c' = cv_created_by c \<and> cv_is_group c' = cv_is_group c"
    "member_of g x d \<Longrightarrow> member_of g x d' \<or> find_conversation g d' = None"
  shows "not_removed g u x d'"
proof -
  have "find_conversation g d' = None" if "find_conversation g d = None"
    using that assms(3) by (auto simp: find_conversation_def find_None_iff)
  moreover have "\<not> list_ex (owned_group g u) (conversations d')"
    using assms(1,3) by (fastforce simp: not_removed_def owned_group_def list_ex_iff)
  ultimately show ?thesis using assms(1,2,4) by (auto simp: not_removed_def)
qed

lemma not_removed_same:
  "not_removed g u x d \<Longrightarrow> conversations d' = conversations d \<Longrightarrow> conversation_members d' = conversation_members d
     \<Longrightarrow> next_id d \<le> next_id d' \<Longrightarrow> not_removed g u x d'"
  by (rule not_removed_frame) (auto simp: member_of_def)

lemma not_removed_owner:
  "not_removed g u x d \<Longrightarrow> list_ex (owned_group gid u) (conversations d) \<Longrightarrow> gid \<noteq> g"
  by (auto simp: not_removed_def)

lemma not_removed_relations:
  assumes "not_removed g u x d"
  shows "not_removed g u x (snd (create_tap_sql u target ty t d))" "not_removed g u x (snd (add_favorite_sql u target t d))"
    "not_removed g u x (drop_favorite u target d)" "not_removed g u x (snd (block_user_sql u target reason t d))"
    "not_removed g u x (drop_block u target d)" "not_removed g u x (snd (create_report_sql u target kind tid reason t d))"
    "not_removed g u x (snd (set_reaction_sql mid u emoji t d))" "not_removed g u x (drop_reaction mid u d)"
    "not_removed g u x (set_messages p f d)"
  by (rule not_removed_same [OF assms];
      simp add: create_tap_sql_def add_favorite_sql_def drop_favorite_def block_user_sql_def drop_block_def
        create_report_sql_def set_reaction_sql_def drop_reaction_def set_messages_def)+

lemma not_removed_conversations:
  assumes "not_removed g u x d"
  shows "not_removed g u x (snd (insert_message_sql cid u msg t d))" "not_removed g u x (set_last_read cid u t d)"
    "not_removed g u x (snd (add_group_member_sql cid target t d))" "not_removed g u x (drop_conversations p d)"
    "not_removed g u x (snd (create_conversation_sql u target t d))" "not_removed g u x (snd (create_group_sql u name ids t d))"
    "not_removed g u x (d\<lparr>conversations := update_where q (cv_name_update (\<lambda>_. Some name)) (conversations d)\<rparr>)"
    "target \<noteq> x \<or> cid \<noteq> g \<Longrightarrow> not_removed g u x (drop_member cid target d)"
proof -
  note rule = not_removed_frame [OF assms]
  have "g \<noteq> next_id d" using assms by (simp add: not_removed_def)
  note defs = this member_of_def list_ex_iff Let_def
  show "not_removed g u x (snd (insert_message_sql cid u msg t d))"
    by (rule rule; auto simp: insert_message_sql_def defs elim!: in_update_whereE split: if_splits)
  have keys: "(\<lambda>r. (cm_conversation r, cm_user r)) ` set (update_where q (cm_last_read_at_update (\<lambda>_. Some t)) ms)
      = (\<lambda>r. (cm_conversation r, cm_user r)) ` set ms" for q ms
    by (induction ms) auto
  show "not_removed g u x (set_last_read cid u t d)"
    by (rule rule; auto simp: set_last_read_def keys member_of_iff)
  show "not_removed g u x (snd (add_group_member_sql cid target t d))"
    by (rule rule; auto simp: add_group_member_sql_def defs split: if_splits)
  show "not_removed g u x (drop_conversations p d)"
    by (rule rule; auto simp: drop_conversations_def defs find_conversation_def find_None_iff)
  show "not_removed g u x (snd (create_conversation_sql u target t d))" "not_removed g u x (snd (create_group_sql u name ids t d))"
    by (rule rule; auto simp: create_conversation_sql_def create_group_sql_def new_conversation_def defs split: if_splits)+
  show "not_removed g u x (d\<lparr>conversations := update_where q (cv_name_update (\<lambda>_. Some name)) (conversations d)\<rparr>)"
    by (rule rule; auto simp: defs elim!: in_update_whereE)
  show "target \<noteq> x \<or> cid \<noteq> g \<Longrightarrow> not_removed g u x (drop_member cid target d)"
    by (rule rule; auto simp: drop_member_def defs)
qed

interpretation stays: chat_guarantee "\<lambda>d. u \<noteq> x \<and> not_removed g u x d" u "\<lambda>_. True" "\<lambda>gid. gid \<noteq> g" for g u x
  by unfold_locales
     (auto simp: drop_shared_def unsend_sql_def mark_messages_read_sql_def mark_viewed_sql_def
       intro: not_removed_relations not_removed_conversations dest: not_removed_owner)

text \<open>
  Only the creator of a group removes someone else from it: whatever a user who did not create
  it requests or sends over his socket, every other member stays a member until the group itself is
  deleted, whatever others do meanwhile that keeps it so.
\<close>

theorem only_creator_removes:
  assumes "u \<noteq> x" "stable (not_removed g u x) w"
  shows "not_removed g u x (db (snd (perform st u req w))) \<and> not_removed g u x (db (snd (socket_receive st u msgs w)))"
proof -
  have w: "stable (\<lambda>d. u \<noteq> x \<and> not_removed g u x d) w" using assms by (simp add: stable_def)
  show ?thesis
    using stable_db [OF keeps_final [OF stays.perform_keeps [OF w]]]
      stable_db [OF keeps_final [OF stays.socket_receive_keeps [OF w]]] by simp
qed

theorem only_creator_removes_witness:
  "not_removed 4 1 2 (db (snd (perform sample_app 1 (RemoveGroupMember 4 2) (alone sample_chat))))"
proof -
  have "stable (not_removed 4 1 2) (alone sample_chat)"
    by (simp add: not_removed_def sample_chat_def member_of_def new_member_def owned_group_def new_conversation_def)
  from only_creator_removes [OF _ this, of sample_app "RemoveGroupMember 4 2"] show ?thesis by simp
qed

end
