(* ===== verification/ChatContacts.thy ===== *)
theory ChatContacts
  imports ChatProps
begin

text \<open>
  Blocks, and what a WebSocket connection delivers: the specification its loop meets while nobody
  joins or leaves, and the cases where it misses the checks the REST endpoints make.
\<close>

section \<open>What a socket delivers\<close>

text \<open>The frames that belong to one of the user's conversations, up to the first the client's
  socket does not take.\<close>

definition deliverable :: "app \<Rightarrow> uuid \<Rightarrow> db \<Rightarrow> json \<Rightarrow> bool" where
  "deliverable st u d v \<longleftrightarrow> (case frame_conversation st v of None \<Rightarrow> False | Some c \<Rightarrow> member_of c u d)"

definition delivery :: "app \<Rightarrow> uuid \<Rightarrow> db \<Rightarrow> (json \<times> bool) list \<Rightarrow> json list" where
  "delivery st u d frames = map fst (takeWhile snd (filter (\<lambda>f. deliverable st u d (fst f)) frames))"

definition cache_right :: "uuid \<Rightarrow> db \<Rightarrow> (uuid \<Rightarrow> bool option) \<Rightarrow> bool" where
  "cache_right u d cache \<longleftrightarrow> (\<forall>c b. cache c = Some b \<longrightarrow> b = member_of c u d)"

lemma cached_member_calm:
  assumes "calm w" "cache_right u (db w) cache"
  shows "wp (cached_member u cache c) (\<lambda>(m, cache') v. calm v \<and> db v = db w \<and> m = member_of c u (db w)
           \<and> cache_right u (db w) cache') (\<lambda>_ _. False) w"
proof (cases "cache c")
  case None
  then show ?thesis
    using assms
    by (auto simp: cached_member_def is_member_def cache_right_def wp_andthen wp_attempt wp_ret intro!: wp_query_calm)
qed (use assms in \<open>auto simp: cached_member_def cache_right_def wp_ret\<close>)

lemma socket_forward_calm:
  assumes "calm w" "cache_right u (db w) cache"
  shows "wp (socket_forward st u cache frames) (\<lambda>sent _. sent = delivery st u (db w) frames) (\<lambda>_ _. False) w"
  using assms
proof (induction frames arbitrary: w cache)
  case Nil
  then show ?case by (simp add: wp_ret delivery_def)
next
  case (Cons f frames)
  obtain v accepts where f: "f = (v, accepts)" by (cases f)
  show ?case
  proof (cases "frame_conversation st v")
    case None
    then show ?thesis using Cons f by (simp add: delivery_def deliverable_def)
  next
    case (Some c)
    note IH = Cons.IH
    have rest: "wp (socket_forward st u cache' frames) (\<lambda>sent _. sent = delivery st u (db w) frames) (\<lambda>_ _. False) t"
      if "calm t" "db t = db w" "cache_right u (db w) cache'" for t cache'
      using IH [of t cache'] that by simp
    have del: "delivery st u (db w) (f # frames) = (if \<not> member_of c u (db w) then delivery st u (db w) frames
        else if accepts then v # delivery st u (db w) frames else [])"
      using Some f by (simp add: delivery_def deliverable_def)
    have "wp (case x of (m, cache') \<Rightarrow>
          if \<not> m then socket_forward st u cache' frames else if \<not> accepts then ret []
          else andthen (socket_forward st u cache' frames) (\<lambda>sent. ret (v # sent)))
        (\<lambda>sent _. sent = delivery st u (db w) (f # frames)) (\<lambda>_ _. False) t"
      if "(case x of (m, cache') \<Rightarrow> \<lambda>v. calm v \<and> db v = db w \<and> m = member_of c u (db w) \<and> cache_right u (db w) cache') t" for x t
      using that by (cases x) (auto simp: del wp_ret intro!: rest wp_bind [OF rest])
    note step = this [unfolded f]
    show ?thesis
      unfolding f socket_forward.simps Some option.case
    proof (rule wp_bind [OF cached_member_calm [of w u cache c, OF Cons.prems]])
      fix x t
      assume "(case x of (m, cache') \<Rightarrow> \<lambda>v. calm v \<and> db v = db w \<and> m = member_of c u (db w) \<and> cache_right u (db w) cache') t"
      then show "wp (case x of (m, cache') \<Rightarrow>
          if \<not> m then socket_forward st u cache' frames else if \<not> accepts then ret []
          else andthen (socket_forward st u cache' frames) (\<lambda>sent. ret (v # sent)))
        (\<lambda>sent _. sent = delivery st u (db w) ((v, accepts) # frames)) (\<lambda>_ _. False) t"
        by (rule step)
    qed
  qed
qed

text \<open>
  C30. When no membership changes and the database answers every check, the forwarding loop of a fresh socket, with its
  cache of memberships and its early exit, delivers exactly what its specification says: in order, the frames whose
  conversation the user is a member of, up to the first that the client's socket refuses.
\<close>

theorem socket_delivers:
  assumes "calm w"
  shows "fst (socket_forward st u (\<lambda>_. None) frames w) = Inr (delivery st u (db w) frames)"
proof -
  have "wp (socket_forward st u (\<lambda>_. None) frames) (\<lambda>sent _. sent = delivery st u (db w) frames) (\<lambda>_ _. False) w"
    by (rule socket_forward_calm [OF assms]) (simp add: cache_right_def)
  then show ?thesis by (auto simp: wp_def split: prod.splits sum.splits)
qed

theorem socket_delivers_witness:
  "fst (socket_forward sample_app 2 (\<lambda>_. None) [(sample_frame ''3'', True), (sample_frame ''4'', True), (JNull, True)]
     (alone sample_chat)) = Inr [sample_frame ''4'']"
proof -
  have "delivery sample_app 2 sample_chat [(sample_frame ''3'', True), (sample_frame ''4'', True), (JNull, True)]
      = [sample_frame ''4'']" by code_simp
  then show ?thesis using socket_delivers [of "alone sample_chat" sample_app 2] by (simp del: socket_forward.simps)
qed

text \<open>
  Leaving does not close the tap: user 2 is removed from the group 4 while his socket is open,
  and the next frame of the group is still forwarded to him, because the first answer about a
  conversation is kept for the life of the connection.
\<close>

theorem removed_member_still_receives:
  "\<exists>w v. socket_forward sample_app 2 (\<lambda>_. None)
       [(sample_frame ''4'', True), (sample_frame ''3'', True), (sample_frame ''4'', True)] w
       = (Inr [sample_frame ''4'', sample_frame ''4''], v)
     \<and> db w = sample_chat \<and> \<not> member_of 4 2 (db v)"
proof -
  let ?t = "\<lparr>delay = 0, others = id, outcome = Served\<rparr>"
  let ?w = "(alone sample_chat)\<lparr>turns := [?t, ?t\<lparr>others := drop_member 4 2\<rparr>]\<rparr>"
  let ?r = "socket_forward sample_app 2 (\<lambda>_. None)
       [(sample_frame ''4'', True), (sample_frame ''3'', True), (sample_frame ''4'', True)] ?w"
  have "fst ?r = Inr [sample_frame ''4'', sample_frame ''4'']" by code_simp
  moreover have "\<not> member_of 4 2 (db (snd ?r))" by code_simp
  ultimately show ?thesis by (intro exI [of _ ?w] exI [of _ "snd ?r"]) (simp add: prod_eq_iff)
qed

section \<open>Blocks\<close>









lemma block_stands:
  "block_user_sql a b reason t d = (Inr x, d') \<Longrightarrow> blocked_pair a b d' \<and> conversations d' = conversations d
     \<and> messages d' = messages d \<and> conversation_members d' = conversation_members d"
  by (auto simp: block_user_sql_def blocked_pair_def list_ex_iff split: if_splits)

text \<open>
  A block that answers 201 stands, and of all conversations it deletes exactly those that both
  are members of, with their members, messages and reactions; nothing else of the chat changes.
\<close>

theorem block_user_effect:
  assumes "calm w" "block_user a b reason w = (Inr s, v)"
  shows "blocked_pair a b (db v) \<and> \<not> (member_of c a (db v) \<and> member_of c b (db v))
     \<and> conversations (db v) = filter (\<lambda>r. \<not> shared_conversation a b (db w) (cv_id r)) (conversations (db w))
     \<and> conversation_members (db v) =
         filter (\<lambda>r. \<not> shared_conversation a b (db w) (cm_conversation r)) (conversation_members (db w))
     \<and> messages (db v) = filter (\<lambda>m. \<not> shared_conversation a b (db w) (ms_conversation m)) (messages (db w))"
    (is "?Q (db v)")
proof -
  have shared: "shared_conversation a b d = shared_conversation a b (db w)"
    if "conversation_members d = conversation_members (db w)" for d
    using that by (auto simp: shared_conversation_def member_of_def)
  have gone: "?Q (drop_shared a b d)"
    if "blocked_pair a b d" "conversations d = conversations (db w)" "messages d = messages (db w)"
      "conversation_members d = conversation_members (db w)" for d
  proof -
    have "\<not> (member_of c a (drop_shared a b d) \<and> member_of c b (drop_shared a b d))"
      by (auto simp: drop_shared_def drop_conversations_def member_of_def shared_conversation_def list_ex_iff)
    moreover have "blocked_pair a b (drop_shared a b d)"
      using that(1) by (simp add: blocked_pair_def drop_shared_def drop_conversations_def)
    ultimately show ?thesis
      using that(2-4) by (simp add: shared [OF that(4)] drop_shared_def drop_conversations_def delete_where_def)
  qed
  have "wp (block_user a b reason) (\<lambda>_ v. ?Q (db v)) (\<lambda>_ _. True) w"
    unfolding block_user_def block_user_row_def delete_conversation_between_def
  proof (rule wp_guard, simp, unfold wp_andthen wp_map_err, rule wp_stmt_calm [OF assms(1)])
    fix x assume x: "calm x"
    have del: "wp (update (\<lambda>_. drop_shared a b)) (\<lambda>_. wp (ret CREATED) (\<lambda>_ v. ?Q (db v)) (\<lambda>_ _. True)) (\<lambda>_ _. True) (x\<lparr>db := d\<rparr>)"
      if "blocked_pair a b d" "conversations d = conversations (db w)" "messages d = messages (db w)"
        "conversation_members d = conversation_members (db w)" for d
      using x gone [OF that] by (auto simp: wp_ret intro!: wp_update_calm)
    show "case block_user_sql a b reason (now x) (db w) of
        (Inl e, d) \<Rightarrow> True
      | (Inr xa, d) \<Rightarrow> wp (update (\<lambda>_. drop_shared a b)) (\<lambda>_. wp (ret CREATED) (\<lambda>_ v. ?Q (db v)) (\<lambda>_ _. True)) (\<lambda>_ _. True) (x\<lparr>db := d\<rparr>)"
      (is "case ?r of (Inl e, d) \<Rightarrow> True | (Inr xa, d) \<Rightarrow> ?R d")
    proof (cases ?r)
      case (Pair res d)
      have "?R d" if "res = Inr y" for y
        by (rule del; insert block_stands [of a b reason "now x" "db w" y d]) (simp_all add: Pair that)
      then show ?thesis unfolding Pair by (cases res) auto
    qed
  qed
  from wp_returns [OF this assms(2)] show ?thesis .
qed

text \<open>
  The deletion spares no group: blocking one member of the group 4 deletes the group for all of
  its members, also for those whom nobody blocked.
\<close>

theorem block_deletes_groups:
  "\<exists>v. block_user 1 2 None (alone sample_chat) = (Inr CREATED, v)
     \<and> cv_is_group (conversations sample_chat ! 1) \<and> member_of 4 0 sample_chat
     \<and> find_conversation 4 (db v) = None \<and> \<not> member_of 4 0 (db v)"
proof -
  let ?r = "block_user 1 2 None (alone sample_chat)"
  have "fst ?r = Inr CREATED" "find_conversation 4 (db (snd ?r)) = None" "\<not> member_of 4 0 (db (snd ?r))"
    "cv_is_group (conversations sample_chat ! 1)" "member_of 4 0 sample_chat" by code_simp+
  then show ?thesis by (intro exI [of _ "snd ?r"]) (simp add: prod_eq_iff)
qed

theorem block_user_effect_witness:
  "let v = snd (block_user 0 1 None (alone sample_chat)) in \<not> (member_of 3 0 (db v) \<and> member_of 3 1 (db v))"
proof -
  have "fst (block_user 0 1 None (alone sample_chat)) = Inr CREATED" by code_simp
  then have r: "block_user 0 1 None (alone sample_chat) = (Inr CREATED, snd (block_user 0 1 None (alone sample_chat)))"
    by (metis prod.collapse)
  show ?thesis using block_user_effect [OF _ r, of 3] by (simp add: Let_def)
qed

section \<open>The socket and the checks it leaves out\<close>

lemma socket_sends:
  assumes "calm w" "member_of c u (db w)" "find_conversation c (db w) \<noteq> None" "known_user u (db w)"
    "uuid_parse st ctext = Some c"
  shows "\<exists>m. messages (db (snd (socket_receive st u [Known (Send ctext txt)] w))) = messages (db w) @ [m]
     \<and> ms_conversation m = c \<and> ms_sender m = u \<and> ms_body m = Some txt"
proof -
  let ?P = "\<lambda>v. \<exists>m. messages (db v) = messages (db w) @ [m] \<and> ms_conversation m = c \<and> ms_sender m = u \<and> ms_body m = Some txt"
  have "wp (socket_receive st u [Known (Send ctext txt)]) (\<lambda>_. ?P) (\<lambda>_. ?P) w"
    using assms
    by (auto simp: handle_incoming_def is_member_def insert_message_row_def publish_def wp_rules
        insert_message_sql_def Let_def message_row_def MESSAGE_KINDS_def
        intro!: wp_query_calm wp_stmt_calm)
  then show ?thesis by (auto simp: wp_def split: prod.splits sum.splits)
qed

text \<open>
  A ban does not reach the socket: with a token that has not expired, an account that is no
  longer active is refused by every REST endpoint, yet it opens a socket and its messages are
  stored in its conversations.
\<close>

theorem banned_account_still_chats:
  assumes "calm w" "jwt_decode st (jwt_secret st) (unix_timestamp (now w)) token = Some claims"
    "uuid_parse st (cl_sub claims) = Some u"
    and "user_by_id u (db w) = Some r" "u_status r \<noteq> ''active''"
    and "member_of c u (db w)" "find_conversation c (db w) \<noteq> None" "uuid_parse st ctext = Some c"
  shows "fst (auth_user st (Some (''Bearer '' @ token)) w) = Inl FORBIDDEN \<and> fst (ws_handler st token w) = Inr u
     \<and> (\<exists>m. messages (db (snd (socket_receive st u [Known (Send ctext txt)] w))) = messages (db w) @ [m]
           \<and> ms_conversation m = c \<and> ms_sender m = u \<and> ms_body m = Some txt)"
proof -
  have "wp (auth_user st (Some (''Bearer '' @ token))) (\<lambda>_ _. False) (\<lambda>e _. e = FORBIDDEN) w"
    using assms(1-5)
    by (auto simp: auth_user_def strip_prefix_def verify_access_def active_account_def user_status_def wp_rules intro!: wp_query_calm)
  then have "fst (auth_user st (Some (''Bearer '' @ token)) w) = Inl FORBIDDEN"
    by (auto simp: wp_def split: prod.splits sum.splits)
  moreover have "wp (ws_handler st token) (\<lambda>x _. x = u) (\<lambda>_ _. False) w"
    using assms(2,3) by (simp add: ws_handler_def verify_access_def wp_rules)
  then have "fst (ws_handler st token w) = Inr u"
    by (auto simp: wp_def split: prod.splits sum.splits)
  ultimately show ?thesis
    using socket_sends [OF assms(1,6,7) _ assms(8)] assms(4) by (simp add: known_user_def)
qed

theorem banned_account_still_chats_witness:
  "let w = alone (sample_chat\<lparr>users := map (u_status_update (\<lambda>_. ''banned'')) (users sample_chat)\<rparr>)
   in fst (auth_user sample_app (Some ''Bearer k10|0'') w) = Inl FORBIDDEN \<and> fst (ws_handler sample_app ''k10|0'' w) = Inr 0"
  (is "let w = alone ?d in _")
proof -
  have a: "jwt_decode sample_app (jwt_secret sample_app) (unix_timestamp (now (alone ?d))) ''k10|0''
      = Some \<lparr>cl_sub = ''0'', cl_exp = 10, cl_iat = 0\<rparr>" by code_simp
  have b: "uuid_parse sample_app (cl_sub \<lparr>cl_sub = ''0'', cl_exp = 10, cl_iat = 0\<rparr>) = Some 0" by code_simp
  have c: "user_by_id 0 (db (alone ?d)) = Some (hd (users ?d))" "u_status (hd (users ?d)) \<noteq> ''active''"
    "member_of 3 0 (db (alone ?d))" "find_conversation 3 (db (alone ?d)) \<noteq> None" "uuid_parse sample_app ''3'' = Some 3"
    by code_simp+
  from banned_account_still_chats [OF _ a b c] show ?thesis by (simp add: Let_def)
qed

text \<open>
  A block whose second statement fails leaves the conversation open on the socket: the request
  of the blocker is answered with an error, the block stands and REST refuses the blocked user, but
  what he sends over his socket is stored and delivered.
\<close>

theorem socket_ignores_block:
  "\<exists>w v. block_user 0 1 None w = (Inl INTERNAL_SERVER_ERROR, v) \<and> db w = sample_chat \<and> blocked_pair 0 1 (db v)
     \<and> fst (send_message sample_app 1 3 (text_request ''hi'') v) = Inl FORBIDDEN
     \<and> map ms_body (messages (db (snd (socket_receive sample_app 1 [Known (Send ''3'' ''hi'')] v)))) = [Some ''hi'']"
proof -
  let ?t = "\<lparr>delay = 0, others = id, outcome = Served\<rparr>"
  let ?w = "(alone sample_chat)\<lparr>turns := [?t, ?t\<lparr>outcome := Refused\<rparr>]\<rparr>"
  let ?r = "block_user 0 1 None ?w"
  have "fst ?r = Inl INTERNAL_SERVER_ERROR" "blocked_pair 0 1 (db (snd ?r))"
    "fst (send_message sample_app 1 3 (text_request ''hi'') (snd ?r)) = Inl FORBIDDEN"
    "map ms_body (messages (db (snd (socket_receive sample_app 1 [Known (Send ''3'' ''hi'')] (snd ?r))))) = [Some ''hi'']"
    by code_simp+
  then show ?thesis by (intro exI [of _ ?w] exI [of _ "snd ?r"]) (simp add: prod_eq_iff)
qed

end
