(* ===== verification/ChatHistory.thy ===== *)
theory ChatHistory
  imports ChatProps "HOL-Library.Multiset"
begin

text \<open>
  The messages of a conversation over time: pages put together give the history, reading clears
  the unread count, a view-once photo is marked once, and what stays readable nevertheless.
\<close>

section \<open>Pages\<close>

text \<open>A client that walks back: each next page ends before the first message it has.\<close>

fun walk_back :: "uuid \<Rightarrow> nat \<Rightarrow> nat \<Rightarrow> timestamp option \<Rightarrow> db \<Rightarrow> chat_message list" where
  "walk_back c n 0 before d = []"
| "walk_back c n (Suc pages) before d =
     (let page = message_page c before n d
      in if page = [] then [] else walk_back c n pages (Some (ms_created_at (hd page))) d @ page)"

definition history :: "uuid \<Rightarrow> db \<Rightarrow> chat_message list" where
  "history c d = sort_key ms_created_at (filter (\<lambda>m. ms_conversation m = c) (messages d))"

definition earlier :: "timestamp option \<Rightarrow> chat_message \<Rightarrow> bool" where
  "earlier before m \<longleftrightarrow> (case before of None \<Rightarrow> True | Some t \<Rightarrow> ms_created_at m < t)"

lemma newest_first_rev:
  assumes "distinct (map k rs)"
  shows "newest_first k rs = rev (sort_key k rs)"
  unfolding newest_first_def
proof (rule sort_key_inj_key_eq)
  show "inj_on (\<lambda>r. - k r) (set rs)" using assms by (auto simp: distinct_map inj_on_def)
  have "sorted_wrt (\<lambda>x y. k x \<le> k y) (sort_key k rs)"
    using sorted_sort_key [of k rs] by (simp add: sorted_wrt_map)
  then show "sorted (map (\<lambda>r. - k r) (rev (sort_key k rs)))"
    by (simp add: sorted_wrt_map sorted_wrt_rev)
qed simp

lemma page_of_history:
  assumes "distinct (map ms_created_at (history c d))"
  shows "message_page c before n d =
    (let B = filter (earlier before) (history c d) in drop (length B - n) B)"
proof -
  let ?F = "filter (\<lambda>m. ms_conversation m = c \<and> earlier before m) (messages d)"
  have B: "sort_key ms_created_at ?F = filter (earlier before) (history c d)"
    unfolding history_def filter_sort by (simp add: conj_commute)
  have "distinct (map ms_created_at (filter (earlier before) (history c d)))"
    using assms by (rule distinct_map_filter)
  then have "distinct (map ms_created_at (sort_key ms_created_at ?F))" by (simp add: B)
  then have "distinct (map ms_created_at ?F)"
    by (metis distinct_map distinct_sort set_sort)
  from newest_first_rev [OF this] show ?thesis
    by (simp add: message_page_def earlier_def [symmetric] B take_rev Let_def)
qed

lemma filter_below_split:
  assumes "sorted_wrt (\<lambda>x y. k x < (k y :: 'k::linorder)) (ys @ z # zs)"
  shows "filter (\<lambda>x. k x < k z) (ys @ z # zs) = ys"
proof -
  have "filter (\<lambda>x. k x < k z) ys = ys" using assms by (intro filter_True) (simp add: sorted_wrt_append)
  moreover have "filter (\<lambda>x. k x < k z) zs = []"
    using assms by (auto simp: sorted_wrt_append filter_empty_conv dest: order.asym)
  ultimately show ?thesis by simp
qed

lemma filter_below_nth:
  assumes "sorted_wrt (\<lambda>x y. k x < (k y :: 'k::linorder)) xs" "i < length xs"
  shows "filter (\<lambda>x. k x < k (xs ! i)) xs = take i xs"
  using filter_below_split [of k "take i xs" "xs ! i" "drop (Suc i) xs"] assms(1)
  unfolding id_take_nth_drop [OF assms(2), symmetric] by simp

lemma history_sorted:
  assumes "distinct (map ms_created_at (history c d))"
  shows "sorted_wrt (\<lambda>x y. ms_created_at x < ms_created_at y) (filter P (history c d))"
proof -
  have "sorted (map ms_created_at (history c d))" by (simp add: history_def)
  then have "sorted_wrt (<) (map ms_created_at (history c d))"
    using assms strict_sorted_iff by blast
  then show ?thesis by (simp add: sorted_wrt_map sorted_wrt_filter)
qed

lemma walk_back_earlier:
  assumes "distinct (map ms_created_at (history c d))" "0 < n" "length (filter (earlier before) (history c d)) \<le> pages"
  shows "walk_back c n pages before d = filter (earlier before) (history c d)"
  using assms(3)
proof (induction pages arbitrary: before)
  case (Suc pages)
  let ?B = "filter (earlier before) (history c d)"
  let ?i = "length ?B - n"
  have page: "message_page c before n d = drop ?i ?B"
    using page_of_history [OF assms(1)] by (simp add: Let_def)
  show ?case
  proof (cases "?B = []")
    case True
    then show ?thesis using page by simp
  next
    case False
    then have i: "?i < length ?B" using assms(2) by simp
    then have hd: "hd (drop ?i ?B) = ?B ! ?i" by (rule hd_drop_conv_nth)
    have "?B ! ?i \<in> set ?B" using i by (rule nth_mem)
    then have "filter (earlier (Some (ms_created_at (?B ! ?i)))) (history c d)
        = filter (\<lambda>m. ms_created_at m < ms_created_at (?B ! ?i)) ?B"
      by (auto simp: earlier_def filter_filter split: option.splits intro!: filter_cong)
    also have "\<dots> = take ?i ?B" by (rule filter_below_nth [OF history_sorted [OF assms(1)] i])
    finally have rest: "filter (earlier (Some (ms_created_at (?B ! ?i)))) (history c d) = take ?i ?B" .
    have "walk_back c n pages (Some (ms_created_at (?B ! ?i))) d = take ?i ?B"
      using Suc.IH [of "Some (ms_created_at (?B ! ?i))"] Suc.prems rest assms(2) by simp
    then show ?thesis using i hd page by simp
  qed
qed simp

text \<open>
  C31. Nothing is lost and nothing comes twice: walking a conversation back page by page, of any
  size, gives its whole history in order, provided no two messages were created at the same instant.
\<close>

theorem pages_give_history:
  assumes "distinct (map ms_created_at (history c d))" "0 < n" "length (history c d) \<le> pages"
  shows "walk_back c n pages None d = history c d"
  using walk_back_earlier [OF assms(1,2), of None pages] assms(3) by (simp add: earlier_def)

definition note_at :: "uuid \<Rightarrow> timestamp \<Rightarrow> chat_message" where
  "note_at i t = message_row i 3 0 \<lparr>im_kind = ''text'', im_body = Some ''x'', im_media_key = None, im_media_type = None,
     im_caption = None, im_lat = None, im_lon = None\<rparr> t"

theorem pages_give_history_witness:
  "walk_back 3 2 5 None (sample_chat\<lparr>messages := [note_at 7 30, note_at 5 10, note_at 6 20]\<rparr>)
     = [note_at 5 10, note_at 6 20, note_at 7 30]"
  (is "walk_back 3 2 5 None ?d = _")
proof -
  have h: "history 3 ?d = [note_at 5 10, note_at 6 20, note_at 7 30]" by code_simp
  have "distinct (map ms_created_at (history 3 ?d))" unfolding h by code_simp
  from pages_give_history [OF this, of 2 5] show ?thesis by (simp add: h)
qed

text \<open>Two messages of the same instant, a page of one: the second page starts before both.\<close>

lemma page_drops_tie:
  "walk_back 3 1 5 None (sample_chat\<lparr>messages := [note_at 5 10, note_at 6 10]\<rparr>) = [note_at 5 10]"
  by code_simp

section \<open>Reading and viewing\<close>

text \<open>The tables after \<open>u\<close> has read the conversation \<open>c\<close>: messages stamped at \<open>s\<close>, membership at \<open>t\<close>.\<close>

abbreviation (input) after_reading :: "uuid \<Rightarrow> uuid \<Rightarrow> timestamp \<Rightarrow> timestamp \<Rightarrow> db \<Rightarrow> db" where
  "after_reading u c s t d \<equiv> set_last_read c u t (set_messages (unread_message c u) (ms_read_at_update (\<lambda>_. Some s)) d)"

lemma nothing_unread: "filter (unread_message c u) (messages (after_reading u c s t d)) = []"
  by (auto simp: set_last_read_def set_messages_def filter_empty_conv unread_message_def elim!: in_update_whereE)

lemma member_caught_up:
  assumes "\<forall>m \<in> set (messages d). ms_created_at m \<le> t"
    "mm \<in> set (conversation_members (after_reading u c s t d))" "cm_conversation mm = c" "cm_user mm = u"
  shows "unread_count u mm (after_reading u c s t d) = 0"
proof -
  have seen: "cm_last_read_at mm = Some t"
  proof -
    have "mm \<in> set (update_where (\<lambda>r. cm_conversation r = c \<and> cm_user r = u) (cm_last_read_at_update (\<lambda>_. Some t))
        (conversation_members d))"
      using assms(2) by (simp add: set_last_read_def set_messages_def)
    then show ?thesis by (rule in_update_whereE) (use assms(3,4) in auto)
  qed
  have "ms_created_at m \<le> t" if "m \<in> set (messages (after_reading u c s t d))" for m
  proof -
    have "m \<in> set (update_where (unread_message c u) (ms_read_at_update (\<lambda>_. Some s)) (messages d))"
      using that by (simp add: set_last_read_def set_messages_def)
    then show ?thesis by (rule in_update_whereE) (use assms(1) in auto)
  qed
  then have "\<not> t < ms_created_at m" if "m \<in> set (messages (after_reading u c s t d))" for m
    using that by (simp add: not_less)
  then show ?thesis by (simp add: unread_count_def seen filter_empty_conv)
qed

lemma require_member_calm:
  assumes "calm w" "\<And>v. calm v \<Longrightarrow> now w \<le> now v \<Longrightarrow> db v = db w \<Longrightarrow> wp (f ()) Q (\<lambda>_ _. True) v"
  shows "wp (andthen (require_member c u) f) Q (\<lambda>_ _. True) w"
  unfolding require_member_def is_member_def wp_andthen wp_map_err
  using assms by (auto simp: wp_rules intro!: wp_query_calm)

text \<open>
  Reading a conversation clears it: the answer is the number of messages of others that were
  unread, none of them is unread afterwards, and the conversation counts no unread message.
\<close>

theorem mark_read_clears:
  assumes "calm w" "mark_read u c w = (Inr n, v)" "\<forall>m \<in> set (messages (db w)). ms_created_at m \<le> now w"
  shows "n = length (filter (unread_message c u) (messages (db w)))
     \<and> filter (unread_message c u) (messages (db v)) = []
     \<and> (\<forall>mm \<in> set (conversation_members (db v)). cm_conversation mm = c \<longrightarrow> cm_user mm = u \<longrightarrow> unread_count u mm (db v) = 0)"
    (is "?Q n v")
proof -
  have "wp (mark_read u c) ?Q (\<lambda>_ _. True) w"
    unfolding mark_read_def
  proof (rule require_member_calm [OF assms(1)])
    fix v0 assume v0: "calm v0" "now w \<le> now v0" "db v0 = db w"
    show "wp (andthen (internal (mark_messages_read c u)) (\<lambda>marked. andthen (internal (mark_member_read c u)) (\<lambda>_. ret marked)))
       ?Q (\<lambda>_ _. True) v0"
      unfolding mark_messages_read_def mark_member_read_def wp_andthen wp_map_err
    proof (rule wp_stmt_calm [OF v0(1)])
      fix v1 assume v1: "calm v1" "now v0 \<le> now v1"
      have "wp (update (set_last_read c u)) (\<lambda>_. ?Q (length (filter (unread_message c u) (messages (db w))))) (\<lambda>_ _. True)
         (v1\<lparr>db := set_messages (unread_message c u) (ms_read_at_update (\<lambda>_. Some (now v1))) (db w)\<rparr>)" (is "wp _ _ _ ?v")
      proof (rule wp_update_calm)
        show "calm ?v" using v1(1) by simp
        fix v2 :: world assume v2: "now ?v \<le> now v2" "db v2 = set_last_read c u (now v2) (db ?v)"
        then have late: "\<forall>m \<in> set (messages (db w)). ms_created_at m \<le> now v2"
          using assms(3) v0(2) v1(2) by fastforce
        have d: "db v2 = after_reading u c (now v1) (now v2) (db w)" using v2(2) by simp
        show "?Q (length (filter (unread_message c u) (messages (db w)))) v2"
          unfolding d nothing_unread using member_caught_up [OF late] by simp
      qed
      then show "case mark_messages_read_sql c u (now v1) (db v0) of
          (Inl e, d) \<Rightarrow> True
        | (Inr x, d) \<Rightarrow> wp (update (set_last_read c u)) (\<lambda>y. wp (ret x) ?Q (\<lambda>_ _. True)) (\<lambda>_ _. True) (v1\<lparr>db := d\<rparr>)"
        by (simp add: mark_messages_read_sql_def v0(3)) (erule wp_mono; simp add: wp_ret)
    qed
  qed
  from wp_returns [OF this assms(2)] show ?thesis .
qed

theorem mark_read_clears_witness:
  "let v = snd (mark_read 1 3 (alone (sample_chat\<lparr>messages := [note_at 5 0]\<rparr>)))
   in filter (unread_message 3 1) (messages (db v)) = []"
proof -
  let ?w = "alone (sample_chat\<lparr>messages := [note_at 5 0]\<rparr>)"
  have "fst (mark_read 1 3 ?w) = Inr 1" by code_simp
  then have r: "mark_read 1 3 ?w = (Inr 1, snd (mark_read 1 3 ?w))" by (metis prod.collapse)
  from mark_read_clears [OF _ r] show ?thesis by (simp add: Let_def note_at_def message_row_def)
qed

text \<open>\<open>mid\<close> has been viewed.\<close>

definition viewed :: "uuid \<Rightarrow> db \<Rightarrow> bool" where
  "viewed mid d \<longleftrightarrow> (\<forall>m \<in> set (messages d). ms_id m = mid \<longrightarrow> ms_viewed_at m \<noteq> None)"

text \<open>
  A view-once photo is viewed once: after the call that marked it, it counts as viewed, and no
  later call by anyone is answered with \<open>true\<close>, whatever happens in between that leaves it viewed.
\<close>

theorem view_once:
  assumes "stable chat_wf w" "mark_ephemeral_viewed u c mid w = (Inr True, v)" "stable (viewed mid) v'"
  shows "viewed mid (db v) \<and> fst (mark_ephemeral_viewed u' c' mid v') \<noteq> Inr True"
proof -
  have hit: "viewed mid (snd (mark_viewed_sql c mid u t d))"
    if "chat_wf d" "fst (mark_viewed_sql c mid u t d) = Inr True" for t d
  proof -
    have ex: "member_of c u d" "list_ex (may_view c mid u) (messages d)"
      using that(2) by (simp_all add: mark_viewed_sql_def split: if_splits)
    then obtain m where m: "m \<in> set (messages d)" "may_view c mid u m"
      by (auto simp: list_ex_iff)
    have "distinct (map ms_id (messages d))" using that(1) by (simp add: chat_wf_defs)
    then have "m' = m" if "m' \<in> set (messages d)" "ms_id m' = mid" for m'
      using that m by (auto simp: may_view_def distinct_map inj_on_def)
    then show ?thesis
      using ex m by (auto simp: mark_viewed_sql_def viewed_def set_messages_def elim!: in_update_whereE)
  qed
  have "wp (mark_ephemeral_viewed u c mid) (\<lambda>b v. b \<longrightarrow> viewed mid (db v)) (\<lambda>_ _. True) w"
    unfolding mark_ephemeral_viewed_def mark_ephemeral_viewed_row_def wp_map_err using assms(1)
    by (rule wp_stmt_stable [where I = chat_wf])
       (auto simp: mark_viewed_sql_def set_messages_wf dest: hit split: if_splits)
  then have "viewed mid (db v)" using wp_returns [where Q = "\<lambda>b v. b \<longrightarrow> viewed mid (db v)"] assms(2) by blast
  moreover have "wp (mark_ephemeral_viewed u' c' mid) (\<lambda>b _. \<not> b) (\<lambda>_ _. True) v'"
    unfolding mark_ephemeral_viewed_def mark_ephemeral_viewed_row_def wp_map_err using assms(3)
    by (rule wp_stmt_stable [where I = "viewed mid"])
       (auto simp: mark_viewed_sql_def viewed_def set_messages_def may_view_def list_ex_iff elim!: in_update_whereE split: if_splits)
  then have "fst (mark_ephemeral_viewed u' c' mid v') \<noteq> Inr True"
    by (auto simp: wp_def split: prod.splits sum.splits)
  ultimately show ?thesis ..
qed

text \<open>A view-once photo of user 0 in the conversation of 0 and 1.\<close>

definition sample_photo :: db where
  "sample_photo = sample_chat\<lparr>messages := [message_row 5 3 0 \<lparr>im_kind = ''ephemeral_photo'', im_body = Some ''look'',
     im_media_key = Some ''key'', im_media_type = Some ''photo'', im_caption = None, im_lat = None, im_lon = None\<rparr> 0],
     next_id := 6\<rparr>"

theorem view_once_witness:
  "let v = snd (mark_ephemeral_viewed 1 3 5 (alone sample_photo))
   in fst (mark_ephemeral_viewed 1 3 5 (alone (db v))) \<noteq> Inr True"
proof -
  let ?r = "mark_ephemeral_viewed 1 3 5 (alone sample_photo)"
  have "fst ?r = Inr True" by code_simp
  then have r: "?r = (Inr True, snd ?r)" by (metis prod.collapse)
  have "messages (db (snd ?r)) = map (ms_viewed_at_update (\<lambda>_. Some 0)) (messages sample_photo)" by code_simp
  then have v: "stable (viewed 5) (alone (db (snd ?r)))"
    by (simp add: viewed_def)
  have "stable chat_wf (alone sample_photo)"
    by (simp add: sample_photo_def sample_chat_def empty_db_def chat_wf_defs new_conversation_def new_member_def
        new_user_def user_exists_def message_row_def MESSAGE_KINDS_def MEDIA_TYPES_def)
  from view_once [OF this r v] show ?thesis by (simp add: Let_def)
qed

text \<open>
  Viewed once and unsent is not gone: after the recipient viewed the photo and the sender unsent
  it, listing the conversation still returns its text and the key of the photo.
\<close>

theorem withdrawn_content_still_listed:
  "\<exists>v v'. mark_ephemeral_viewed 1 3 5 (alone sample_photo) = (Inr True, v)
     \<and> unsend_message_handler sample_app 0 5 v = (Inr (), v')
     \<and> (case fst (list_messages sample_app 1 3 None None v') of Inl _ \<Rightarrow> False
        | Inr rows \<Rightarrow> map (\<lambda>r. (ms_body (mj_row r), ms_media_key (mj_row r))) rows = [(Some ''look'', Some ''key'')])"
proof -
  let ?r = "mark_ephemeral_viewed 1 3 5 (alone sample_photo)"
  let ?s = "unsend_message_handler sample_app 0 5 (snd ?r)"
  have "fst ?r = Inr True" "fst ?s = Inr ()"
    "case fst (list_messages sample_app 1 3 None None (snd ?s)) of Inl _ \<Rightarrow> False
        | Inr rows \<Rightarrow> map (\<lambda>r. (ms_body (mj_row r), ms_media_key (mj_row r))) rows = [(Some ''look'', Some ''key'')]"
    by code_simp+
  then show ?thesis by (intro exI [of _ "snd ?r"] exI [of _ "snd ?s"]) (simp add: prod_eq_iff)
qed

section \<open>Sending\<close>

lemma send_refuses:
  assumes "classify_kind req = None \<or> (\<exists>k. classify_kind req = Some k \<and> bad_content k req)
     \<or> (\<exists>m. sm_media_type req = Some m \<and> m \<notin> set MEDIA_TYPES)"
  shows "wp (send_message st u c req) (\<lambda>_ _. False) (\<lambda>_ _. True) w"
proof -
  have stop: "wp (andthen (internal (insert_message_row c u msg)) f) (\<lambda>_ _. False) (\<lambda>_ _. True) v"
    if "im_media_type msg = Some m" "m \<notin> set MEDIA_TYPES" for msg m v f
    using that by (auto simp: insert_message_row_def wp_andthen wp_map_err wp_stmt insert_message_sql_def Let_def split: outcome.split)
  have skip: "wp (andthen m f) (\<lambda>_ _. False) (\<lambda>_ _. True) v" if "\<And>x t. wp (f x) (\<lambda>_ _. False) (\<lambda>_ _. True) t"
    for m :: "(world, status, 'a) prog" and f :: "'a \<Rightarrow> (world, status, 'b) prog" and v
    unfolding wp_andthen by (rule wp_mono [where Q = "\<lambda>_ _. True" and E = "\<lambda>_ _. True"]) (simp_all add: that, simp add: wp_def split: prod.split sum.split)
  show ?thesis
    unfolding send_message_def
    by (rule skip, rule skip, rule skip, rule wp_need, simp, rule wp_guard, simp)
       (use assms in \<open>auto intro: stop\<close>)
qed

text \<open>
  A message without text and without media is never accepted, although the documentation of the
  request names the caption alone as enough, and a location is a request with coordinates; nor is
  a message whose media type is more than the bare word the schema allows, such as
  \<open>audio/mpeg\<close>, which \<open>classify_kind\<close> takes for a voice message.
\<close>

theorem send_refuses_documented:
  assumes "sm_media_key req = None \<and> sm_text req = None \<or> sm_media_type req = Some (''audio/'' @ fmt)"
  shows "isl (fst (send_message st u c req w))"
proof -
  have "classify_kind req = None \<or> (\<exists>k. classify_kind req = Some k \<and> bad_content k req)
     \<or> (\<exists>m. sm_media_type req = Some m \<and> m \<notin> set MEDIA_TYPES)"
    using assms by (auto simp: classify_kind_def bad_content_def MEDIA_TYPES_def)
  from send_refuses [OF this, of st u c w] show ?thesis
    by (auto simp: wp_def split: prod.splits sum.splits)
qed

theorem send_refuses_documented_witness:
  "isl (fst (send_message sample_app 0 3 (text_request ''x''\<lparr>sm_text := None, sm_caption := Some ''hi''\<rparr>) (alone sample_chat)))
   \<and> classify_kind (text_request ''x''\<lparr>sm_media_key := Some ''k'', sm_media_type := Some ''audio/mpeg''\<rparr>) = Some ''audio''"
  using send_refuses_documented [of "text_request ''x''\<lparr>sm_text := None, sm_caption := Some ''hi''\<rparr>"]
  by (simp add: text_request_def classify_kind_def)

end
