(* ===== verification/DbStaff.thy ===== *)
theory DbStaff
  imports DbSocial
begin

text \<open>
  \<^verbatim>\<open>db/src/staff.rs\<close>: staff accounts, their permissions, sessions and the audit log. The search
  texts of \<^verbatim>\<open>ILIKE '%' || x || '%'\<close> are given to the database's \<open>ilike\<close> with the wildcards around them.
\<close>

abbreviation (input) in_office :: "(office \<Rightarrow> office) \<Rightarrow> db \<Rightarrow> db" where
  "in_office f d \<equiv> d\<lparr>office := f (office d)\<rparr>"

definition contains_text :: "app \<Rightarrow> string \<Rightarrow> string \<Rightarrow> bool" where
  "contains_text st s x \<longleftrightarrow> ilike st s (''%'' @ x @ ''%'')"

text \<open>\<^verbatim>\<open>LIMIT n OFFSET k\<close>, and the filter \<^verbatim>\<open>$1 IS NULL OR column = $1\<close>.\<close>

definition page_of :: "nat \<Rightarrow> nat \<Rightarrow> 'r list \<Rightarrow> 'r list" where
  "page_of n k rs = take n (drop k rs)"

definition unless_equal :: "'a option \<Rightarrow> 'a \<Rightarrow> bool" where
  "unless_equal x y \<longleftrightarrow> (case x of None \<Rightarrow> True | Some v \<Rightarrow> y = v)"

section \<open>Accounts\<close>

definition staff_by_email :: "app \<Rightarrow> string \<Rightarrow> db \<Rightarrow> staff_rec option" where
  "staff_by_email st email d = List.find (\<lambda>r. citext_key st (sf_email r) = citext_key st email) (staff (office d))"

definition find_staff_by_email :: "app \<Rightarrow> string \<Rightarrow> (world, db_error, staff_rec option) prog" where
  "find_staff_by_email st email = query (\<lambda>_. staff_by_email st email)"

definition staff_by_id :: "uuid \<Rightarrow> db \<Rightarrow> staff_rec option" where
  "staff_by_id sid d = List.find (\<lambda>r. sf_id r = sid) (staff (office d))"

definition find_staff_by_id :: "uuid \<Rightarrow> (world, db_error, staff_rec option) prog" where
  "find_staff_by_id sid = query (\<lambda>_. staff_by_id sid)"

definition permissions_of :: "string \<Rightarrow> db \<Rightarrow> string list" where
  "permissions_of role d = map pm_permission (filter (\<lambda>p. pm_role p = role) (role_permissions (office d)))"

definition get_role_permissions :: "string \<Rightarrow> (world, db_error, string list) prog" where
  "get_role_permissions role = query (\<lambda>_. permissions_of role)"

definition set_staff :: "uuid \<Rightarrow> (staff_rec \<Rightarrow> staff_rec) \<Rightarrow> db \<Rightarrow> db" where
  "set_staff sid f d = in_office (staff_update (update_where (\<lambda>r. sf_id r = sid) f)) d"

text \<open>The text of an address is cast by the statement; \<^verbatim>\<open>NULL\<close> is cast to \<^verbatim>\<open>NULL\<close>.\<close>

definition cast_inet :: "app \<Rightarrow> string option \<Rightarrow> db_error + string option" where
  "cast_inet st ip =
     (case ip of
        None \<Rightarrow> Inr None
      | Some s \<Rightarrow> (case inet_text st s of None \<Rightarrow> Inl DataException | Some a \<Rightarrow> Inr (Some a)))"

definition update_last_login_sql :: "app \<Rightarrow> uuid \<Rightarrow> string option \<Rightarrow> unit sql" where
  "update_last_login_sql st sid ip t d =
     (case cast_inet st ip of
        Inl e \<Rightarrow> (Inl e, d)
      | Inr a \<Rightarrow> (Inr (), set_staff sid (\<lambda>r. r\<lparr>sf_last_login_at := Some t, sf_last_login_ip := a, sf_failed_login_count := 0\<rparr>) d))"

definition update_last_login :: "app \<Rightarrow> uuid \<Rightarrow> string option \<Rightarrow> (world, db_error, unit) prog" where
  "update_last_login st sid ip = stmt (update_last_login_sql st sid ip)"

definition count_failure :: "timestamp \<Rightarrow> staff_rec \<Rightarrow> staff_rec" where
  "count_failure t r =
     r\<lparr>sf_failed_login_count := sf_failed_login_count r + 1,
       sf_locked_until := (if 5 \<le> sf_failed_login_count r + 1 then Some (t + minutes 15) else sf_locked_until r)\<rparr>"

text \<open>The counter is an \<^verbatim>\<open>integer\<close>; the sum fails out of its range.\<close>

definition increment_failed_login_sql :: "uuid \<Rightarrow> timestamp option sql" where
  "increment_failed_login_sql sid t d =
     (case staff_by_id sid d of
        None \<Rightarrow> (Inr None, d)
      | Some r \<Rightarrow>
          if 2147483647 < sf_failed_login_count r + 1 then (Inl DataException, d)
          else (Inr (sf_locked_until (count_failure t r)), set_staff sid (count_failure t) d))"

definition increment_failed_login :: "uuid \<Rightarrow> (world, db_error, timestamp option) prog" where
  "increment_failed_login sid = stmt (increment_failed_login_sql sid)"

section \<open>Sessions\<close>

definition create_session_sql ::
    "app \<Rightarrow> uuid \<Rightarrow> timestamp \<Rightarrow> string option \<Rightarrow> string option \<Rightarrow> uuid sql" where
  "create_session_sql st sid ends ip user_agent t d =
     (case cast_inet st ip of
        Inl e \<Rightarrow> (Inl e, d)
      | Inr a \<Rightarrow>
          if staff_by_id sid d = None then (Inl ForeignKeyViolation, d)
          else (Inr (next_id d),
                (in_office (staff_sessions_update (\<lambda>rs. rs @ [\<lparr>ss_id = next_id d, ss_staff = sid, ss_expires_at = ends,
                   ss_revoked_at = None, ss_revoked_reason = None, ss_ip = a, ss_user_agent = user_agent,
                   ss_last_seen_at = t\<rparr>])) d)\<lparr>next_id := Suc (next_id d)\<rparr>))"

definition create_session ::
    "app \<Rightarrow> uuid \<Rightarrow> timestamp \<Rightarrow> string option \<Rightarrow> string option \<Rightarrow> (world, db_error, uuid) prog" where
  "create_session st sid ends ip user_agent = stmt (create_session_sql st sid ends ip user_agent)"

definition live_session :: "uuid \<Rightarrow> timestamp \<Rightarrow> staff_session \<Rightarrow> bool" where
  "live_session sess t r \<longleftrightarrow> ss_id r = sess \<and> ss_revoked_at r = None \<and> t < ss_expires_at r"

definition find_active_session :: "uuid \<Rightarrow> (world, db_error, staff_session option) prog" where
  "find_active_session sess = query (\<lambda>t d. List.find (live_session sess t) (staff_sessions (office d)))"

definition set_session :: "uuid \<Rightarrow> (staff_session \<Rightarrow> staff_session) \<Rightarrow> db \<Rightarrow> db" where
  "set_session sess f d = in_office (staff_sessions_update (update_where (\<lambda>r. ss_id r = sess) f)) d"

definition end_session :: "uuid \<Rightarrow> string \<Rightarrow> timestamp \<Rightarrow> db \<Rightarrow> db" where
  "end_session sess reason t =
     set_session sess (\<lambda>r. r\<lparr>ss_revoked_at := Some t, ss_revoked_reason := Some reason\<rparr>)"

definition revoke_session :: "uuid \<Rightarrow> string \<Rightarrow> (world, db_error, unit) prog" where
  "revoke_session sess reason = update (end_session sess reason)"

definition update_session_last_seen :: "uuid \<Rightarrow> (world, db_error, unit) prog" where
  "update_session_last_seen sess = update (\<lambda>t. set_session sess (ss_last_seen_at_update (\<lambda>_. t)))"

section \<open>The audit log\<close>

definition audit_matches :: "app \<Rightarrow> uuid option \<Rightarrow> string option \<Rightarrow> audit_entry \<Rightarrow> bool" where
  "audit_matches st sid action e \<longleftrightarrow>
     (case sid of None \<Rightarrow> True | Some s \<Rightarrow> au_staff e = Some s)
     \<and> (case action of None \<Rightarrow> True | Some a \<Rightarrow> contains_text st (au_action e) a)"

definition search_audit_log ::
    "app \<Rightarrow> uuid option \<Rightarrow> string option \<Rightarrow> nat \<Rightarrow> nat \<Rightarrow> (world, db_error, audit_entry list \<times> nat) prog" where
  "search_audit_log st sid action n k =
     andthen (query (\<lambda>_ d. page_of n k (newest_first au_created_at
                (filter (audit_matches st sid action) (audit_log (office d)))))) (\<lambda>rows.
     andthen (query (\<lambda>_ d. length (filter (audit_matches st sid action) (audit_log (office d))))) (\<lambda>total.
     ret (rows, total)))"

text \<open>The \<^verbatim>\<open>INSERT\<close> of \<^verbatim>\<open>api/src/admin/audit.rs\<close>, and that of \<^verbatim>\<open>legal_export\<close>; triggers refuse any change
  of a row of the log, and no statement asks for one.\<close>

definition insert_audit_sql ::
    "uuid \<Rightarrow> uuid \<Rightarrow> string \<Rightarrow> string option \<Rightarrow> string option \<Rightarrow> string option \<Rightarrow> unit sql" where
  "insert_audit_sql sid sess action target justification legal_basis t d =
     (if staff_by_id sid d = None \<or> \<not> list_ex (\<lambda>r. ss_id r = sess) (staff_sessions (office d))
      then (Inl ForeignKeyViolation, d)
      else (Inr (),
            (in_office (audit_log_update (\<lambda>es. es @ [\<lparr>au_id = next_id d, au_staff = Some sid, au_session = Some sess,
               au_action = action, au_target = target, au_justification = justification,
               au_legal_basis = legal_basis, au_metadata = None, au_created_at = t\<rparr>])) d)\<lparr>next_id := Suc (next_id d)\<rparr>))"

end
