(* ===== verification/DbOffice.thy ===== *)
theory DbOffice
  imports DbStaff Billing
begin

text \<open>
  The queries of the staff area on users, reports, photos and the rest: \<^verbatim>\<open>db/src/moderation.rs\<close>,
  \<^verbatim>\<open>db/src/support.rs\<close>, \<^verbatim>\<open>db/src/config.rs\<close>, and those of \<^verbatim>\<open>db/src/users.rs\<close> and \<^verbatim>\<open>db/src/plans.rs\<close>
  that only staff members reach.
\<close>

definition office_of :: "(office \<Rightarrow> 'r list) \<Rightarrow> ('r \<Rightarrow> bool) \<Rightarrow> db \<Rightarrow> 'r list" where
  "office_of table p d = filter p (table (office d))"

section \<open>Users\<close>

definition user_matches :: "app \<Rightarrow> string \<Rightarrow> db \<Rightarrow> user_rec \<Rightarrow> bool" where
  "user_matches st q d r \<longleftrightarrow> contains_text st (u_email r) q
     \<or> (case display_name_of (u_id r) d of None \<Rightarrow> False | Some n \<Rightarrow> contains_text st n q)"

definition search_users :: "app \<Rightarrow> string \<Rightarrow> nat \<Rightarrow> nat \<Rightarrow> (world, db_error, user_row list \<times> nat) prog" where
  "search_users st q n k =
     andthen (query (\<lambda>_ d. map to_user_row (page_of n k (newest_first u_created_at (filter (user_matches st q d) (users d)))))) (\<lambda>rows.
     andthen (query (\<lambda>_ d. length (filter (\<lambda>r. contains_text st (u_email r) q) (users d)))) (\<lambda>total.
     ret (rows, total)))"

record user_full_row = user_row +
  uf_display_name :: "string option"
  uf_bio :: "string option"
  uf_birthdate :: "date option"
  uf_height_cm :: "int option"
  uf_weight_kg :: "int option"
  uf_body_type :: "string option"
  uf_relationship_status :: "string option"
  uf_position :: "string option"
  uf_ethnicity :: "string option"
  uf_pronouns :: "string option"
  uf_profile_photo_id :: "uuid option"
  uf_profile_photo_url :: "string option"
  uf_profile_photo_key :: "string option"
  uf_verified :: bool
  uf_details :: json
  uf_show_age :: bool
  uf_show_role :: bool
  uf_show_tribes :: bool
  uf_show_position :: bool
  uf_show_ethnicity :: bool
  uf_show_relationship_status :: bool
  uf_show_social_links :: bool

text \<open>A column of the profile that may be absent, and one with a default.\<close>

definition profile_of :: "uuid \<Rightarrow> db \<Rightarrow> profile option" where
  "profile_of uid d = List.find (\<lambda>p. p_user_id p = uid) (profiles d)"

definition primary_key :: "uuid \<Rightarrow> db \<Rightarrow> string option" where
  "primary_key uid d = map_option ph_r2_key (List.find (\<lambda>p. ph_user p = uid \<and> ph_is_primary p) (photos d))"

definition user_full_of :: "user_rec \<Rightarrow> db \<Rightarrow> user_full_row" where
  "user_full_of r d =
     (let p = profile_of (u_id r) d; or = (\<lambda>f b. case p of None \<Rightarrow> b | Some x \<Rightarrow> f x)
      in \<lparr>u_id = u_id r, u_email = u_email r, u_email_verified = u_email_verified r, u_status = u_status r,
          u_role = u_role r, u_created_at = u_created_at r,
          uf_display_name = Option.bind p p_display_name, uf_bio = Option.bind p p_about,
          uf_birthdate = Option.bind p p_birthdate, uf_height_cm = Option.bind p p_height_cm,
          uf_weight_kg = Option.bind p p_weight_kg, uf_body_type = Option.bind p p_body_type,
          uf_relationship_status = Option.bind p p_relationship_status, uf_position = Option.bind p p_position,
          uf_ethnicity = Option.bind p p_ethnicity, uf_pronouns = Option.bind p p_pronouns,
          uf_profile_photo_id = Option.bind p p_profile_photo_id, uf_profile_photo_url = primary_key (u_id r) d,
          uf_profile_photo_key = Option.bind p p_profile_photo_key, uf_verified = or p_verified False,
          uf_details = (case p of None \<Rightarrow> JObj [] | Some x \<Rightarrow> p_details x),
          uf_show_age = or p_show_age True, uf_show_role = or p_show_role True, uf_show_tribes = or p_show_tribes True,
          uf_show_position = or p_show_position True, uf_show_ethnicity = or p_show_ethnicity True,
          uf_show_relationship_status = or p_show_relationship_status True,
          uf_show_social_links = or p_show_social_links True\<rparr>)"

definition find_user_full :: "uuid \<Rightarrow> (world, db_error, user_full_row option) prog" where
  "find_user_full uid = query (\<lambda>_ d. map_option (\<lambda>r. user_full_of r d) (user_by_id uid d))"

section \<open>Moderation\<close>

definition find_report_by_id :: "uuid \<Rightarrow> (world, db_error, report option) prog" where
  "find_report_by_id rid = query (\<lambda>_ d. List.find (\<lambda>r. rp_id r = rid) (reports d))"

definition list_report_rows :: "string option \<Rightarrow> nat \<Rightarrow> nat \<Rightarrow> (world, db_error, report list \<times> nat) prog" where
  "list_report_rows status n k =
     andthen (query (\<lambda>_ d. page_of n k (newest_first rp_created_at (filter (\<lambda>r. unless_equal status (rp_status r)) (reports d))))) (\<lambda>rows.
     andthen (query (\<lambda>_ d. length (filter (\<lambda>r. unless_equal status (rp_status r)) (reports d)))) (\<lambda>total.
     ret (rows, total)))"

definition REPORT_STATUSES :: "string list" where
  "REPORT_STATUSES = [''open'', ''reviewing'', ''actioned'', ''dismissed'']"

definition MODERATION_ACTIONS :: "string list" where
  "MODERATION_ACTIONS = [''warn'', ''suspend'', ''ban'', ''clear'']"

definition PHOTO_STATUSES :: "string list" where
  "PHOTO_STATUSES = [''pending'', ''approved'', ''rejected'']"

definition set_report :: "uuid \<Rightarrow> string \<Rightarrow> (report \<Rightarrow> report) \<Rightarrow> unit sql" where
  "set_report rid status f t d =
     (if list_ex (\<lambda>r. rp_id r = rid) (reports d) \<and> status \<notin> set REPORT_STATUSES then (Inl CheckViolation, d)
      else (Inr (), d\<lparr>reports := update_where (\<lambda>r. rp_id r = rid) (\<lambda>r. f (r\<lparr>rp_status := status\<rparr>)) (reports d)\<rparr>))"

definition update_report_status :: "uuid \<Rightarrow> string \<Rightarrow> (world, db_error, unit) prog" where
  "update_report_status rid status = stmt (set_report rid status id)"

definition resolve_report_row :: "uuid \<Rightarrow> string \<Rightarrow> (world, db_error, unit) prog" where
  "resolve_report_row rid status = stmt (\<lambda>t. set_report rid status (rp_resolved_at_update (\<lambda>_. Some t)) t)"

definition create_moderation_action_sql :: "uuid \<Rightarrow> uuid \<Rightarrow> string \<Rightarrow> string option \<Rightarrow> uuid sql" where
  "create_moderation_action_sql sid target action note t d =
     (if action \<notin> set MODERATION_ACTIONS then (Inl CheckViolation, d)
      else if staff_by_id sid d = None \<or> \<not> known_user target d then (Inl ForeignKeyViolation, d)
      else (Inr (next_id d),
            (in_office (moderation_actions_update (\<lambda>rs. rs @ [\<lparr>ma_id = next_id d, ma_staff = sid, ma_target_user = target,
               ma_action = action, ma_note = note, ma_created_at = t\<rparr>])) d)\<lparr>next_id := Suc (next_id d)\<rparr>))"

definition create_moderation_action :: "uuid \<Rightarrow> uuid \<Rightarrow> string \<Rightarrow> string option \<Rightarrow> (world, db_error, uuid) prog" where
  "create_moderation_action sid target action note = stmt (create_moderation_action_sql sid target action note)"

definition list_pending_photo_rows :: "nat \<Rightarrow> nat \<Rightarrow> (world, db_error, photo list \<times> nat) prog" where
  "list_pending_photo_rows n k =
     andthen (query (\<lambda>_ d. page_of n k (sort_key ph_created_at (filter (\<lambda>p. ph_moderation_status p = ''pending'') (photos d))))) (\<lambda>rows.
     andthen (query (\<lambda>_ d. length (filter (\<lambda>p. ph_moderation_status p = ''pending'') (photos d)))) (\<lambda>total.
     ret (rows, total)))"

definition update_photo_moderation_sql :: "uuid \<Rightarrow> string \<Rightarrow> unit sql" where
  "update_photo_moderation_sql pid status t d =
     (if list_ex (\<lambda>p. ph_id p = pid) (photos d) \<and> status \<notin> set PHOTO_STATUSES then (Inl CheckViolation, d)
      else (Inr (), d\<lparr>photos := update_where (\<lambda>p. ph_id p = pid) (ph_moderation_status_update (\<lambda>_. status)) (photos d)\<rparr>))"

definition update_photo_moderation :: "uuid \<Rightarrow> string \<Rightarrow> (world, db_error, unit) prog" where
  "update_photo_moderation pid status = stmt (update_photo_moderation_sql pid status)"

definition list_csam_rows :: "string option \<Rightarrow> nat \<Rightarrow> nat \<Rightarrow> (world, db_error, csam_hit list \<times> nat) prog" where
  "list_csam_rows status n k =
     andthen (query (\<lambda>_ d. page_of n k (newest_first ch_matched_at (office_of csam_hits (\<lambda>h. unless_equal status (ch_status h)) d)))) (\<lambda>rows.
     andthen (query (\<lambda>_ d. length (office_of csam_hits (\<lambda>h. unless_equal status (ch_status h)) d))) (\<lambda>total.
     ret (rows, total)))"

definition CSAM_STATUSES :: "string list" where
  "CSAM_STATUSES = [''pending'', ''reviewed'', ''reported'', ''dismissed'']"

definition update_csam_status_sql :: "uuid \<Rightarrow> string \<Rightarrow> unit sql" where
  "update_csam_status_sql hid status t d =
     (if list_ex (\<lambda>h. ch_id h = hid) (csam_hits (office d)) \<and> status \<notin> set CSAM_STATUSES then (Inl CheckViolation, d)
      else (Inr (), in_office (csam_hits_update (update_where (\<lambda>h. ch_id h = hid) (ch_status_update (\<lambda>_. status)))) d))"

definition update_csam_status :: "uuid \<Rightarrow> string \<Rightarrow> (world, db_error, unit) prog" where
  "update_csam_status hid status = stmt (update_csam_status_sql hid status)"

definition mark_csam_reported :: "uuid \<Rightarrow> string option \<Rightarrow> timestamp \<Rightarrow> db \<Rightarrow> db" where
  "mark_csam_reported hid notes t =
     in_office (csam_hits_update (update_where (\<lambda>h. ch_id h = hid) (\<lambda>h. h\<lparr>ch_status := ''reported'',
        ch_reported_at := Some t, ch_notes := (case notes of None \<Rightarrow> ch_notes h | Some n \<Rightarrow> Some n)\<rparr>)))"

definition report_csam_row :: "uuid \<Rightarrow> string option \<Rightarrow> (world, db_error, unit) prog" where
  "report_csam_row hid notes = update (mark_csam_reported hid notes)"

end
