(* ===== verification/DbSupport.thy ===== *)
theory DbSupport
  imports DbOffice
begin

text \<open>
  \<^verbatim>\<open>db/src/support.rs\<close> (entitlements, data requests, access events, legal holds and the legal dossier),
  \<^verbatim>\<open>db/src/config.rs\<close> (feature flags, configuration, figures) and the prices and countries of
  \<^verbatim>\<open>db/src/plans.rs\<close>.
\<close>

section \<open>Entitlements\<close>

definition list_subscription_rows :: "uuid \<Rightarrow> (world, db_error, subscription list) prog" where
  "list_subscription_rows uid = query (\<lambda>_ d. newest_first s_created_at (filter (\<lambda>s. s_user_id s = uid) (subscriptions d)))"

definition list_entitlement_rows :: "uuid \<Rightarrow> (world, db_error, entitlement list) prog" where
  "list_entitlement_rows uid = query (\<lambda>_. office_of entitlements (\<lambda>e. en_user e = uid))"

definition grant_entitlement_sql :: "uuid \<Rightarrow> string \<Rightarrow> unit sql" where
  "grant_entitlement_sql uid feature t d =
     (if \<not> known_user uid d then (Inl ForeignKeyViolation, d)
      else (Inr (), in_office (entitlements_update (upsert_by (\<lambda>e. (en_user e, en_feature e)) (\<lambda>_ r. r)
                      \<lparr>en_user = uid, en_feature = feature, en_enabled = True\<rparr>)) d))"

definition grant_entitlement :: "uuid \<Rightarrow> string \<Rightarrow> (world, db_error, unit) prog" where
  "grant_entitlement uid feature = stmt (grant_entitlement_sql uid feature)"

definition disable_entitlement :: "uuid \<Rightarrow> string \<Rightarrow> db \<Rightarrow> db" where
  "disable_entitlement uid feature =
     in_office (entitlements_update (update_where (\<lambda>e. en_user e = uid \<and> en_feature e = feature) (en_enabled_update (\<lambda>_. False))))"

definition revoke_entitlement :: "uuid \<Rightarrow> string \<Rightarrow> (world, db_error, unit) prog" where
  "revoke_entitlement uid feature = update (\<lambda>_. disable_entitlement uid feature)"

section \<open>Data requests\<close>

definition list_data_request_rows :: "string option \<Rightarrow> nat \<Rightarrow> nat \<Rightarrow> (world, db_error, data_request list \<times> nat) prog" where
  "list_data_request_rows status n k =
     andthen (query (\<lambda>_ d. page_of n k (newest_first dr_requested_at (office_of data_requests (\<lambda>r. unless_equal status (dr_status r)) d)))) (\<lambda>rows.
     andthen (query (\<lambda>_ d. length (office_of data_requests (\<lambda>r. unless_equal status (dr_status r)) d))) (\<lambda>total.
     ret (rows, total)))"

definition REQUEST_STATUSES :: "string list" where
  "REQUEST_STATUSES = [''pending'', ''processing'', ''completed'', ''rejected'']"

definition update_data_request_sql :: "uuid \<Rightarrow> string \<Rightarrow> unit sql" where
  "update_data_request_sql rid status t d =
     (if list_ex (\<lambda>r. dr_id r = rid) (data_requests (office d)) \<and> status \<notin> set REQUEST_STATUSES then (Inl CheckViolation, d)
      else (Inr (), in_office (data_requests_update (update_where (\<lambda>r. dr_id r = rid) (\<lambda>r. r\<lparr>dr_status := status,
             dr_completed_at := (if status \<in> {''completed'', ''rejected''} then Some t else dr_completed_at r)\<rparr>))) d))"

definition update_data_request :: "uuid \<Rightarrow> string \<Rightarrow> (world, db_error, unit) prog" where
  "update_data_request rid status = stmt (update_data_request_sql rid status)"

section \<open>Legal holds and the dossier\<close>

definition access_events_of :: "uuid \<Rightarrow> nat \<Rightarrow> db \<Rightarrow> access_event list" where
  "access_events_of uid n d = take n (newest_first ae_created_at (office_of access_events (\<lambda>e. ae_user e = uid) d))"

definition list_access_events :: "uuid \<Rightarrow> nat \<Rightarrow> (world, db_error, access_event list) prog" where
  "list_access_events uid n = query (\<lambda>_. access_events_of uid n)"

definition place_legal_hold_sql :: "uuid \<Rightarrow> uuid \<Rightarrow> string \<Rightarrow> string option \<Rightarrow> uuid sql" where
  "place_legal_hold_sql uid placed_by reason reference t d =
     (if \<not> known_user uid d \<or> staff_by_id placed_by d = None then (Inl ForeignKeyViolation, d)
      else (Inr (next_id d),
            (in_office (legal_holds_update (\<lambda>hs. hs @ [\<lparr>lh_id = next_id d, lh_user = uid, lh_placed_by = placed_by,
               lh_reason = reason, lh_reference = reference, lh_placed_at = t, lh_released_at = None,
               lh_released_by = None, lh_release_reason = None\<rparr>])) d)\<lparr>next_id := Suc (next_id d)\<rparr>))"

definition place_legal_hold_row :: "uuid \<Rightarrow> uuid \<Rightarrow> string \<Rightarrow> string option \<Rightarrow> (world, db_error, uuid) prog" where
  "place_legal_hold_row uid placed_by reason reference = stmt (place_legal_hold_sql uid placed_by reason reference)"

definition release_legal_hold_sql :: "uuid \<Rightarrow> uuid \<Rightarrow> string \<Rightarrow> unit sql" where
  "release_legal_hold_sql hid released_by reason t d =
     (if list_ex (\<lambda>h. lh_id h = hid \<and> lh_released_at h = None) (legal_holds (office d)) \<and> staff_by_id released_by d = None
      then (Inl ForeignKeyViolation, d)
      else (Inr (), in_office (legal_holds_update (update_where (\<lambda>h. lh_id h = hid \<and> lh_released_at h = None)
             (\<lambda>h. h\<lparr>lh_released_at := Some t, lh_released_by := Some released_by, lh_release_reason := Some reason\<rparr>))) d))"

definition release_legal_hold_row :: "uuid \<Rightarrow> uuid \<Rightarrow> string \<Rightarrow> (world, db_error, unit) prog" where
  "release_legal_hold_row hid released_by reason = stmt (release_legal_hold_sql hid released_by reason)"

definition list_legal_holds :: "uuid \<Rightarrow> (world, db_error, legal_hold list) prog" where
  "list_legal_holds uid = query (\<lambda>_ d. newest_first lh_placed_at (office_of legal_holds (\<lambda>h. lh_user h = uid) d))"

record legal_dossier =
  ld_user :: user_row
  ld_profile :: "profile option"
  ld_devices :: "device list"
  ld_access_events :: "access_event list"
  ld_photos :: "photo list"
  ld_subscriptions :: "subscription list"
  ld_reports_against :: "report list"
  ld_reports_by :: "report list"
  ld_consent_records :: "consent list"
  ld_legal_holds :: "legal_hold list"

definition list_reports_where :: "(report \<Rightarrow> bool) \<Rightarrow> (world, db_error, report list) prog" where
  "list_reports_where p = query (\<lambda>_ d. newest_first rp_created_at (filter p (reports d)))"

text \<open>A missing user is an error like the others.\<close>

definition build_legal_dossier :: "uuid \<Rightarrow> (world, unit, legal_dossier) prog" where
  "build_legal_dossier uid =
     andthen (map_err (\<lambda>_. ()) (find_user_by_id uid)) (\<lambda>row.
         andthen (ok_or () row) (\<lambda>u.
         andthen (map_err (\<lambda>_. ()) (query (\<lambda>_. profile_of uid))) (\<lambda>p.
         andthen (map_err (\<lambda>_. ()) (query (\<lambda>_ d. newest_first dv_created_at (office_of devices (\<lambda>v. dv_user v = uid) d)))) (\<lambda>dvs.
         andthen (map_err (\<lambda>_. ()) (list_access_events uid 100)) (\<lambda>events.
         andthen (map_err (\<lambda>_. ()) (query (\<lambda>_ d. newest_first ph_created_at (filter (\<lambda>x. ph_user x = uid) (photos d))))) (\<lambda>phs.
         andthen (map_err (\<lambda>_. ()) (list_subscription_rows uid)) (\<lambda>subs.
         andthen (map_err (\<lambda>_. ()) (list_reports_where (\<lambda>r. rp_target_user r = uid))) (\<lambda>against.
         andthen (map_err (\<lambda>_. ()) (list_reports_where (\<lambda>r. rp_reporter r = uid))) (\<lambda>by_user.
         andthen (map_err (\<lambda>_. ()) (query (\<lambda>_ d. newest_first cr_granted_at (filter (\<lambda>c. cr_user_id c = uid) (consent_records d))))) (\<lambda>consents.
         andthen (map_err (\<lambda>_. ()) (list_legal_holds uid)) (\<lambda>holds.
         ret \<lparr>ld_user = u, ld_profile = p, ld_devices = dvs, ld_access_events = events, ld_photos = phs,
              ld_subscriptions = subs, ld_reports_against = against, ld_reports_by = by_user,
              ld_consent_records = consents, ld_legal_holds = holds\<rparr>)))))))))))"

section \<open>Flags, configuration, figures\<close>

definition list_feature_flags :: "app \<Rightarrow> (world, db_error, feature_flag list) prog" where
  "list_feature_flags st = query (\<lambda>_ d. sort_key (\<lambda>f. collation st (ff_key f)) (feature_flags (office d)))"

definition get_feature_flag :: "string \<Rightarrow> (world, db_error, feature_flag option) prog" where
  "get_feature_flag key = query (\<lambda>_ d. List.find (\<lambda>f. ff_key f = key) (feature_flags (office d)))"

text \<open>\<^verbatim>\<open>updated_by\<close> refers to a staff member.\<close>

definition upsert_feature_flag_sql :: "string \<Rightarrow> json \<Rightarrow> string option \<Rightarrow> bool \<Rightarrow> uuid \<Rightarrow> unit sql" where
  "upsert_feature_flag_sql key val description enabled by_staff t d =
     (if staff_by_id by_staff d = None then (Inl ForeignKeyViolation, d)
      else (Inr (), in_office (feature_flags_update (upsert_by ff_key (\<lambda>old r. r\<lparr>ff_created_at := ff_created_at old\<rparr>)
             \<lparr>ff_key = key, ff_value = val, ff_description = description, ff_enabled = enabled,
              ff_created_at = t, ff_updated_at = t, ff_updated_by = Some by_staff\<rparr>)) d))"

definition upsert_feature_flag :: "string \<Rightarrow> json \<Rightarrow> string option \<Rightarrow> bool \<Rightarrow> uuid \<Rightarrow> (world, db_error, unit) prog" where
  "upsert_feature_flag key val description enabled by_staff = stmt (upsert_feature_flag_sql key val description enabled by_staff)"

definition drop_feature_flag :: "string \<Rightarrow> db \<Rightarrow> db" where
  "drop_feature_flag key = in_office (feature_flags_update (delete_where (\<lambda>f. ff_key f = key)))"

definition delete_feature_flag :: "string \<Rightarrow> (world, db_error, unit) prog" where
  "delete_feature_flag key = update (\<lambda>_. drop_feature_flag key)"

definition list_app_config :: "app \<Rightarrow> (world, db_error, config_entry list) prog" where
  "list_app_config st = query (\<lambda>_ d. sort_key (\<lambda>c. collation st (ce_key c)) (app_config (office d)))"

definition upsert_app_config_sql :: "string \<Rightarrow> json \<Rightarrow> uuid \<Rightarrow> unit sql" where
  "upsert_app_config_sql key val by_staff t d =
     (if staff_by_id by_staff d = None then (Inl ForeignKeyViolation, d)
      else (Inr (), in_office (app_config_update (upsert_by ce_key (\<lambda>old r. r\<lparr>ce_description := ce_description old\<rparr>)
             \<lparr>ce_key = key, ce_value = val, ce_description = None, ce_updated_at = t, ce_updated_by = Some by_staff\<rparr>)) d))"

definition upsert_app_config :: "string \<Rightarrow> json \<Rightarrow> uuid \<Rightarrow> (world, db_error, unit) prog" where
  "upsert_app_config key val by_staff = stmt (upsert_app_config_sql key val by_staff)"

text \<open>The figures of the overview; the counts are of one statement.\<close>

record analytics_overview =
  an_total_users :: nat
  an_active_today :: nat
  an_banned_users :: nat
  an_suspended_users :: nat
  an_premium_users :: nat
  an_new_users_today :: nat

definition count_users_where :: "(user_rec \<Rightarrow> bool) \<Rightarrow> db \<Rightarrow> nat" where
  "count_users_where p d = length (filter p (users d))"

definition analytics_of :: "timestamp \<Rightarrow> db \<Rightarrow> analytics_overview" where
  "analytics_of t d =
     \<lparr>an_total_users = length (users d),
      an_active_today = length (remdups (map lo_user (filter (\<lambda>l. t - hours 24 < lo_updated_at l) (locations (people d))))),
      an_banned_users = count_users_where (\<lambda>u. u_status u = ''banned'') d,
      an_suspended_users = count_users_where (\<lambda>u. u_status u = ''suspended'') d,
      an_premium_users = length (remdups (map s_user_id (filter (\<lambda>s. s_tier s \<noteq> ''free'' \<and> s_status s = Some ''active'') (subscriptions d)))),
      an_new_users_today = count_users_where (\<lambda>u. t - days 1 < u_created_at u) d\<rparr>"

definition get_analytics_overview :: "(world, db_error, analytics_overview) prog" where
  "get_analytics_overview = query analytics_of"

section \<open>Prices and countries\<close>

definition cast_cents :: "app \<Rightarrow> string option \<Rightarrow> db_error + int option" where
  "cast_cents st x =
     (case x of
        None \<Rightarrow> Inr None
      | Some s \<Rightarrow> (case numeric_cents st s of None \<Rightarrow> Inl DataException | Some n \<Rightarrow> Inr (Some n)))"

definition upsert_plan_price_sql ::
    "app \<Rightarrow> string \<Rightarrow> string \<Rightarrow> string \<Rightarrow> string option \<Rightarrow> string option \<Rightarrow> string option \<Rightarrow> unit sql" where
  "upsert_plan_price_sql st plan_code country currency monthly yearly product t d =
     (case (cast_cents st monthly, cast_cents st yearly) of
        (Inr m, Inr y) \<Rightarrow>
          if \<not> plan_exists plan_code d then (Inl ForeignKeyViolation, d)
          else (Inr (), d\<lparr>plan_prices := upsert_by (\<lambda>p. (pp_plan_code p, pp_country_code p)) (\<lambda>old r. r\<lparr>pp_id := pp_id old\<rparr>)
                 \<lparr>pp_id = next_id d, pp_plan_code = plan_code, pp_country_code = country, pp_currency = currency,
                  pp_price_monthly = m, pp_price_yearly = y, pp_revenuecat_product_id = product\<rparr> (plan_prices d),
                 next_id := Suc (next_id d)\<rparr>)
      | _ \<Rightarrow> (Inl DataException, d))"

definition upsert_plan_price ::
    "app \<Rightarrow> string \<Rightarrow> string \<Rightarrow> string \<Rightarrow> string option \<Rightarrow> string option \<Rightarrow> string option \<Rightarrow> (world, db_error, unit) prog" where
  "upsert_plan_price st plan_code country currency monthly yearly product =
     stmt (upsert_plan_price_sql st plan_code country currency monthly yearly product)"

definition list_country_rows :: "app \<Rightarrow> (world, db_error, country_config list) prog" where
  "list_country_rows st = query (\<lambda>_ d. sort_key (\<lambda>c. collation st (cc_country_code c)) (country_configs (office d)))"

definition get_country_row :: "string \<Rightarrow> (world, db_error, country_config option) prog" where
  "get_country_row code = query (\<lambda>_ d. List.find (\<lambda>c. cc_country_code c = code) (country_configs (office d)))"

definition put_country :: "country_config \<Rightarrow> db \<Rightarrow> db" where
  "put_country c = in_office (country_configs_update (upsert_by cc_country_code (\<lambda>_ r. r) c))"

definition upsert_country_row :: "country_config \<Rightarrow> (world, db_error, unit) prog" where
  "upsert_country_row c = update (\<lambda>_. put_country c)"

end
