(* ===== verification/StaffAuth.thy ===== *)
theory StaffAuth
  imports DbSupport StaffTokens Totp
begin

text \<open>
  Who a staff request is from and what is recorded of it: \<^verbatim>\<open>auth_admin/src/jwt.rs\<close>, the extractor
  \<^verbatim>\<open>StaffAuth\<close>, the permission check and the audit middleware of \<^verbatim>\<open>api/src/admin\<close>, and the three
  endpoints of the staff login.
\<close>

section \<open>The environment of the staff area\<close>

record staff_claims =
  sc_sub :: string
  sc_aud :: string
  sc_staff_role :: string
  sc_permissions :: "string list"
  sc_iat :: int
  sc_exp :: int
  sc_jti :: string

text \<open>
  Beside the state of the application, the external code of the staff area: \<^verbatim>\<open>jsonwebtoken\<close> on staff
  claims (decoding with the required audience, the leeway and the clock in seconds), the libraries
  of \<open>StaffTokens\<close> and \<open>Totp\<close> (the TOTP generator at a time), base64 and the process environment, the tables of
  Unicode behind \<^verbatim>\<open>to_lowercase\<close> and the text \<^verbatim>\<open>sqlx\<close> gives to an error of the database.
\<close>

record 't admin_env =
  app_state :: app
  staff_encode :: "string \<Rightarrow> staff_claims \<Rightarrow> string option"
  staff_decode :: "string \<Rightarrow> string \<Rightarrow> int \<Rightarrow> int \<Rightarrow> string \<Rightarrow> staff_claims option"
  macs :: mac_lib
  argon :: argon_lib
  cipher :: aead
  totp_at :: "int \<Rightarrow> 't totp_lib"
  std_base64 :: "string \<Rightarrow> string + bytes"
  process_env :: "string \<Rightarrow> string option"
  unicode_lower :: "string \<Rightarrow> string"
  error_text :: "db_error \<Rightarrow> string"

text \<open>\<^verbatim>\<open>AppState::admin_jwt_secret\<close> is a clone of the secret of the user tokens.\<close>

definition admin_jwt_secret :: "'t admin_env \<Rightarrow> string" where
  "admin_jwt_secret env = jwt_secret (app_state env)"

text \<open>\<^verbatim>\<open>i64 as usize\<close>\<close>

definition as_usize :: "int \<Rightarrow> int" where
  "as_usize n = n mod 2 ^ 64"

definition staff_jwt_issue ::
    "'t admin_env \<Rightarrow> string \<Rightarrow> uuid \<Rightarrow> string \<Rightarrow> string list \<Rightarrow> int \<Rightarrow> string \<Rightarrow> (world, unit, string) prog" where
  "staff_jwt_issue env secret sid role permissions ttl_secs jti =
     andthen now_utc (\<lambda>t.
     ok_or () (staff_encode env secret
       \<lparr>sc_sub = uuid_text (app_state env) sid, sc_aud = ''admin'', sc_staff_role = role, sc_permissions = permissions,
        sc_iat = as_usize (unix_timestamp t), sc_exp = as_usize (unix_timestamp (t + seconds ttl_secs)), sc_jti = jti\<rparr>))"

definition staff_jwt_verify :: "'t admin_env \<Rightarrow> string \<Rightarrow> string \<Rightarrow> (world, unit, staff_claims) prog" where
  "staff_jwt_verify env secret token =
     andthen now_utc (\<lambda>t. ok_or () (staff_decode env secret ''admin'' 30 (unix_timestamp t) token))"

section \<open>Extractor, permissions, audit\<close>

record staff_user =
  su_id :: uuid
  su_role :: string
  su_permissions :: "string list"
  su_session :: uuid

definition staff_auth :: "'t admin_env \<Rightarrow> string option \<Rightarrow> (world, status, staff_user) prog" where
  "staff_auth env authorization =
     andthen (ok_or UNAUTHORIZED authorization) (\<lambda>header.
     andthen (ok_or UNAUTHORIZED (strip_prefix ''Bearer '' header)) (\<lambda>token.
     andthen (map_err (\<lambda>_. UNAUTHORIZED) (staff_jwt_verify env (admin_jwt_secret env) token)) (\<lambda>claims.
     andthen (ok_or UNAUTHORIZED (uuid_parse (app_state env) (sc_sub claims))) (\<lambda>sid.
     andthen (ok_or UNAUTHORIZED (uuid_parse (app_state env) (sc_jti claims))) (\<lambda>sess.
     andthen (internal (find_active_session sess)) (\<lambda>row.
     andthen (ok_or UNAUTHORIZED row) (\<lambda>_.
     ret \<lparr>su_id = sid, su_role = sc_staff_role claims, su_permissions = sc_permissions claims, su_session = sess\<rparr>)))))))"

text \<open>The check a handler makes in line, and the middleware \<^verbatim>\<open>require_perm\<close> in front of a handler.\<close>

definition need_permission :: "string \<Rightarrow> staff_user \<Rightarrow> (world, status, unit) prog" where
  "need_permission perm su = reject_if (\<not> list_ex (\<lambda>p. p = perm) (su_permissions su)) FORBIDDEN"

definition require_perm ::
    "'t admin_env \<Rightarrow> string \<Rightarrow> string option \<Rightarrow> (world, status, 'a) prog \<Rightarrow> (world, status, 'a) prog" where
  "require_perm env perm authorization nxt =
     andthen (staff_auth env authorization) (\<lambda>su.
     if list_ex (\<lambda>p. p = perm) (su_permissions su) then nxt else throw FORBIDDEN)"

text \<open>What a staff handler answers: the status, the body, and the target and justification it attaches
  for the audit log. An answer that is an error has neither.\<close>

record admin_reply =
  ar_status :: status
  ar_body :: json
  ar_target :: "string option"
  ar_justification :: "string option"

definition MUTATIONS :: "string list" where
  "MUTATIONS = [''POST'', ''PUT'', ''PATCH'', ''DELETE'']"

definition audit_mutation ::
    "'t admin_env \<Rightarrow> string \<Rightarrow> string \<Rightarrow> string option \<Rightarrow> (world, status, admin_reply) prog \<Rightarrow> (world, status, admin_reply) prog" where
  "audit_mutation env verb path authorization nxt =
     andthen (attempt (staff_auth env authorization)) (\<lambda>who.
     andthen (attempt nxt) (\<lambda>response.
     andthen (case who of
                Inl _ \<Rightarrow> ret ()
              | Inr su \<Rightarrow>
                  if verb \<in> set MUTATIONS
                  then andthen (attempt (stmt (insert_audit_sql (su_id su) (su_session su) (verb @ '':'' @ path)
                         (case response of Inl _ \<Rightarrow> None | Inr r \<Rightarrow> ar_target r)
                         (case response of Inl _ \<Rightarrow> None | Inr r \<Rightarrow> ar_justification r) None))) (\<lambda>_ :: db_error + unit. ret ())
                  else ret ()) (\<lambda>_.
     case response of Inl e \<Rightarrow> throw e | Inr r \<Rightarrow> ret r)))"

section \<open>Login, second factor, logout\<close>

text \<open>The two headers as text, when present; \<^verbatim>\<open>split(',').next()\<close> is never empty-handed.\<close>

definition admin_client_ip :: "string option \<Rightarrow> string option \<Rightarrow> string option" where
  "admin_client_ip forwarded real_ip =
     (case forwarded of Some v \<Rightarrow> Some (utrim (hd (split_on CHR '','' v))) | None \<Rightarrow> real_ip)"

definition staff_login ::
    "'t admin_env \<Rightarrow> string option \<Rightarrow> string option \<Rightarrow> string \<Rightarrow> string \<Rightarrow> (world, status, string) prog" where
  "staff_login env forwarded real_ip email password =
     andthen (internal (find_staff_by_email (app_state env) email)) (\<lambda>row.
     andthen (ok_or UNAUTHORIZED (case row of None \<Rightarrow> None | Some s \<Rightarrow> if sf_status s = ''active'' then Some s else None)) (\<lambda>s.
     andthen now_utc (\<lambda>t.
     andthen (reject_if (case sf_locked_until s of None \<Rightarrow> False | Some until \<Rightarrow> t < until) LOCKED) (\<lambda>_.
     case password_verify (argon env) password (sf_password_hash s) of
       Inl _ \<Rightarrow> throw INTERNAL_SERVER_ERROR
     | Inr False \<Rightarrow> andthen (attempt (increment_failed_login (sf_id s))) (\<lambda>_ :: db_error + timestamp option. throw UNAUTHORIZED)
     | Inr True \<Rightarrow>
         andthen (internal (update_last_login (app_state env) (sf_id s) (admin_client_ip forwarded real_ip))) (\<lambda>_.
         andthen now_utc (\<lambda>t'.
         ret (mfa_issue (macs env) (unix_timestamp t') (as_bytes (admin_jwt_secret env)) (uuid_text (app_state env) (sf_id s)))))))))"

definition check_totp :: "'t admin_env \<Rightarrow> staff_rec \<Rightarrow> string \<Rightarrow> (world, status, unit) prog" where
  "check_totp env s code =
     andthen now_utc (\<lambda>t.
     case kek_from_env (std_base64 env) (process_env env) of
       Inl _ \<Rightarrow> throw INTERNAL_SERVER_ERROR
     | Inr k \<Rightarrow>
         (case decrypt_secret (cipher env) (kek_key k) (sf_totp_secret_enc s) of
            Inl _ \<Rightarrow> throw UNAUTHORIZED
          | Inr raw \<Rightarrow>
              (case verify_code (totp_at env (unix_timestamp t)) (raw_to_b32 raw) code 1 of
                 Inl _ \<Rightarrow> throw INTERNAL_SERVER_ERROR
               | Inr ok \<Rightarrow> reject_if (\<not> ok) UNAUTHORIZED)))"

definition two_factor ::
    "'t admin_env \<Rightarrow> string option \<Rightarrow> string option \<Rightarrow> string option \<Rightarrow> string \<Rightarrow> string \<Rightarrow> (world, status, string \<times> string) prog" where
  "two_factor env forwarded real_ip user_agent mfa_token totp_code =
     andthen now_utc (\<lambda>t.
     andthen (ok_or UNAUTHORIZED (case mfa_verify (macs env) (unix_timestamp t) (as_bytes (admin_jwt_secret env)) mfa_token of
                                    Inl _ \<Rightarrow> None | Inr s \<Rightarrow> Some s)) (\<lambda>staff_id_str.
     andthen (ok_or UNAUTHORIZED (uuid_parse (app_state env) staff_id_str)) (\<lambda>sid.
     andthen (internal (find_staff_by_id sid)) (\<lambda>row.
     andthen (ok_or UNAUTHORIZED row) (\<lambda>s.
     andthen (reject_if (sf_status s \<noteq> ''active'') UNAUTHORIZED) (\<lambda>_.
     andthen (check_totp env s totp_code) (\<lambda>_.
     andthen (internal (get_role_permissions (sf_role s))) (\<lambda>permissions.
     andthen now_utc (\<lambda>t'.
     andthen (internal (create_session (app_state env) sid (t' + hours 8) (admin_client_ip forwarded real_ip) user_agent)) (\<lambda>sess.
     andthen (map_err (\<lambda>_. INTERNAL_SERVER_ERROR)
               (staff_jwt_issue env (admin_jwt_secret env) sid (sf_role s) permissions 28800 (uuid_text (app_state env) sess))) (\<lambda>access_token.
     ret (access_token, uuid_text (app_state env) sess))))))))))))"

definition staff_logout :: "'t admin_env \<Rightarrow> string option \<Rightarrow> string \<Rightarrow> (world, status, status) prog" where
  "staff_logout env authorization session_id =
     andthen (staff_auth env authorization) (\<lambda>_.
     andthen (ok_or BAD_REQUEST (uuid_parse (app_state env) session_id)) (\<lambda>sess.
     andthen (internal (revoke_session sess ''logout'')) (\<lambda>_.
     ret NO_CONTENT)))"

end
