(* ===== verification/AdminHandlers.thy ===== *)
theory AdminHandlers
  imports StaffAuth
begin

text \<open>
  \<^verbatim>\<open>api/src/admin/handlers.rs\<close>: the endpoints of the staff area behind the login. A handler gets the
  staff user its extractor returned; \<open>admin_route\<close> of \<open>AdminSafety\<close> puts extractor and audit around it.
\<close>

section \<open>Answers\<close>

definition json_nat :: "nat \<Rightarrow> json" where "json_nat n = JNum (of_nat n)"

definition json_int :: "int \<Rightarrow> json" where "json_int n = JNum (of_int n)"

definition json_uuid :: "app \<Rightarrow> uuid \<Rightarrow> json" where "json_uuid st u = JStr (uuid_text st u)"

definition json_time :: "app \<Rightarrow> timestamp \<Rightarrow> json" where "json_time st t = JStr (time_display st t)"

definition json_strs :: "string list \<Rightarrow> json" where "json_strs xs = JArr (map JStr xs)"

definition plain_reply :: "json \<Rightarrow> admin_reply" where
  "plain_reply body = \<lparr>ar_status = OK, ar_body = body, ar_target = None, ar_justification = None\<rparr>"

definition audited_reply :: "json \<Rightarrow> string \<Rightarrow> string option \<Rightarrow> admin_reply" where
  "audited_reply body target justification =
     \<lparr>ar_status = OK, ar_body = body, ar_target = Some target, ar_justification = justification\<rparr>"

definition or_empty :: "string option \<Rightarrow> string" where
  "or_empty x = (case x of None \<Rightarrow> [] | Some s \<Rightarrow> s)"

text \<open>\<^verbatim>\<open>limit.unwrap_or(20).clamp(1, hi)\<close> and \<^verbatim>\<open>offset.unwrap_or(0).max(0)\<close>\<close>

definition page_limit :: "int \<Rightarrow> int option \<Rightarrow> nat" where
  "page_limit hi x = nat (max 1 (min hi (case x of None \<Rightarrow> 20 | Some n \<Rightarrow> n)))"

definition page_offset :: "int option \<Rightarrow> nat" where
  "page_offset x = nat (max 0 (case x of None \<Rightarrow> 0 | Some n \<Rightarrow> n))"

definition user_row_to_json :: "app \<Rightarrow> 'a user_row_scheme \<Rightarrow> (string \<times> json) list" where
  "user_row_to_json st u =
     [(''id'', json_uuid st (u_id u)), (''email'', JStr (u_email u)), (''email_verified'', JBool (u_email_verified u)),
      (''status'', JStr (u_status u)), (''role'', JStr (u_role u)), (''created_at'', json_time st (u_created_at u))]"

definition user_full_to_json :: "app \<Rightarrow> user_full_row \<Rightarrow> json" where
  "user_full_to_json st u =
     JObj (user_row_to_json st u @
       [(''display_name'', json_opt JStr (uf_display_name u)), (''bio'', json_opt JStr (uf_bio u)),
        (''profile_photo_url'', json_opt JStr (uf_profile_photo_url u))])"

section \<open>Users\<close>

definition admin_list_users ::
    "'t admin_env \<Rightarrow> staff_user \<Rightarrow> string option \<Rightarrow> int option \<Rightarrow> int option \<Rightarrow> (world, status, admin_reply) prog" where
  "admin_list_users env su q limit offset =
     (let st = app_state env in
      andthen (need_permission ''user.view'' su) (\<lambda>_.
      andthen (internal (search_users st (or_empty q) (page_limit 100 limit) (page_offset offset))) (\<lambda>(rows, total).
      andthen (internal count_users_by_status) (\<lambda>by_status.
      ret (plain_reply (JObj
        [(''users'', JArr (map (\<lambda>u. JObj (user_row_to_json st u)) rows)), (''total'', json_nat total),
         (''by_status'', JArr (map (\<lambda>(s, n). JObj [(''status'', JStr s), (''count'', json_nat n)]) by_status))]))))))"

definition admin_get_user :: "'t admin_env \<Rightarrow> staff_user \<Rightarrow> uuid \<Rightarrow> (world, status, admin_reply) prog" where
  "admin_get_user env su uid =
     andthen (need_permission ''user.view'' su) (\<lambda>_.
     andthen (internal (find_user_full uid)) (\<lambda>row.
     andthen (ok_or NOT_FOUND row) (\<lambda>u.
     ret (plain_reply (JObj [(''user'', user_full_to_json (app_state env) u)])))))"

definition set_status_reply ::
    "'t admin_env \<Rightarrow> uuid \<Rightarrow> string \<Rightarrow> string option \<Rightarrow> (world, status, admin_reply) prog" where
  "set_status_reply env uid s justification =
     andthen (internal (update_user_status uid s)) (\<lambda>_.
     ret (audited_reply (JObj [(''status'', JStr s)]) (uuid_text (app_state env) uid) justification))"

definition ban_user :: "'t admin_env \<Rightarrow> staff_user \<Rightarrow> uuid \<Rightarrow> string option \<Rightarrow> (world, status, admin_reply) prog" where
  "ban_user env su uid reason =
     andthen (need_permission ''user.ban'' su) (\<lambda>_. set_status_reply env uid ''banned'' (Some (or_empty reason)))"

definition suspend_user :: "'t admin_env \<Rightarrow> staff_user \<Rightarrow> uuid \<Rightarrow> string option \<Rightarrow> (world, status, admin_reply) prog" where
  "suspend_user env su uid reason =
     andthen (need_permission ''user.suspend'' su) (\<lambda>_. set_status_reply env uid ''suspended'' (Some (or_empty reason)))"

definition activate_user :: "'t admin_env \<Rightarrow> staff_user \<Rightarrow> uuid \<Rightarrow> (world, status, admin_reply) prog" where
  "activate_user env su uid =
     andthen (need_permission ''user.activate'' su) (\<lambda>_. set_status_reply env uid ''active'' None)"

definition force_logout_user :: "'t admin_env \<Rightarrow> staff_user \<Rightarrow> uuid \<Rightarrow> string option \<Rightarrow> (world, status, admin_reply) prog" where
  "force_logout_user env su uid reason =
     andthen (need_permission ''user.force_logout'' su) (\<lambda>_.
     andthen (internal (revoke_all_refresh uid)) (\<lambda>_.
     ret (audited_reply (JObj [(''revoked'', JBool True)]) (uuid_text (app_state env) uid) (Some (or_empty reason)))))"

definition admin_list_audit ::
    "'t admin_env \<Rightarrow> staff_user \<Rightarrow> uuid option \<Rightarrow> string option \<Rightarrow> int option \<Rightarrow> int option \<Rightarrow> (world, status, admin_reply) prog" where
  "admin_list_audit env su sid action limit offset =
     (let st = app_state env in
      andthen (need_permission ''audit.read'' su) (\<lambda>_.
      andthen (internal (search_audit_log st sid action (page_limit 200 limit) (page_offset offset))) (\<lambda>(rows, total).
      ret (plain_reply (JObj
        [(''entries'', JArr (map (\<lambda>e. JObj
            [(''id'', json_nat (au_id e)), (''actor_staff_id'', json_opt (json_uuid st) (au_staff e)),
             (''action'', JStr (au_action e)), (''target'', json_opt JStr (au_target e)),
             (''metadata'', json_opt id (au_metadata e)), (''created_at'', json_time st (au_created_at e))]) rows)),
         (''total'', json_nat total)])))))"

section \<open>Reports, photos, child protection\<close>

definition report_json :: "app \<Rightarrow> report \<Rightarrow> json" where
  "report_json st r = JObj
     [(''id'', json_uuid st (rp_id r)), (''reporter_id'', json_uuid st (rp_reporter r)),
      (''target_user_id'', json_uuid st (rp_target_user r)), (''target_kind'', JStr (rp_target_kind r)),
      (''target_id'', json_opt (json_uuid st) (rp_target_id r)), (''reason'', json_opt JStr (rp_reason r)),
      (''status'', JStr (rp_status r)), (''created_at'', json_time st (rp_created_at r)),
      (''resolved_at'', json_opt (json_time st) (rp_resolved_at r))]"

definition admin_list_reports ::
    "'t admin_env \<Rightarrow> staff_user \<Rightarrow> string option \<Rightarrow> int option \<Rightarrow> int option \<Rightarrow> (world, status, admin_reply) prog" where
  "admin_list_reports env su status limit offset =
     andthen (need_permission ''reports.view'' su) (\<lambda>_.
     andthen (internal (list_report_rows status (page_limit 100 limit) (page_offset offset))) (\<lambda>(rows, total).
     ret (plain_reply (JObj [(''reports'', JArr (map (report_json (app_state env)) rows)), (''total'', json_nat total)]))))"

definition review_report :: "'t admin_env \<Rightarrow> staff_user \<Rightarrow> uuid \<Rightarrow> (world, status, admin_reply) prog" where
  "review_report env su rid =
     andthen (need_permission ''reports.resolve'' su) (\<lambda>_.
     andthen (internal (find_report_by_id rid)) (\<lambda>row.
     andthen (ok_or NOT_FOUND row) (\<lambda>r.
     andthen (internal (update_report_status (rp_id r) ''reviewing'')) (\<lambda>_.
     ret (audited_reply (JObj [(''status'', JStr ''reviewing'')]) (uuid_text (app_state env) rid) None)))))"

text \<open>The steps of a resolution \<^verbatim>\<open>"actioned"\<close>: the record of the action, and the status for two of them.\<close>

definition take_action :: "staff_user \<Rightarrow> uuid \<Rightarrow> string \<Rightarrow> string option \<Rightarrow> (world, status, uuid) prog" where
  "take_action su target action note =
     andthen (internal (create_moderation_action (su_id su) target action note)) (\<lambda>maid.
     andthen (if action = ''suspend'' then internal (update_user_status target ''suspended'')
              else if action = ''ban'' then internal (update_user_status target ''banned'') else ret ()) (\<lambda>_.
     ret maid))"

definition resolve_report ::
    "'t admin_env \<Rightarrow> staff_user \<Rightarrow> uuid \<Rightarrow> string \<Rightarrow> string \<Rightarrow> string option \<Rightarrow> (world, status, admin_reply) prog" where
  "resolve_report env su rid resolution action note =
     andthen (need_permission ''reports.resolve'' su) (\<lambda>_.
     andthen (internal (find_report_by_id rid)) (\<lambda>row.
     andthen (ok_or NOT_FOUND row) (\<lambda>r.
     andthen (reject_if (resolution \<noteq> ''actioned'' \<and> resolution \<noteq> ''dismissed'') BAD_REQUEST) (\<lambda>_.
     andthen (if resolution = ''actioned''
              then andthen (take_action su (rp_target_user r) action note) (\<lambda>maid. ret (Some maid)) else ret None) (\<lambda>done_by.
     andthen (internal (resolve_report_row rid resolution)) (\<lambda>_.
     ret (audited_reply
       (JObj ((''report_status'', JStr resolution) #
          (case done_by of None \<Rightarrow> [] | Some maid \<Rightarrow> [(''moderation_action_id'', json_uuid (app_state env) maid)])))
       (uuid_text (app_state env) rid) (Some (or_empty note)))))))))"

definition admin_list_pending_photos ::
    "'t admin_env \<Rightarrow> staff_user \<Rightarrow> int option \<Rightarrow> int option \<Rightarrow> (world, status, admin_reply) prog" where
  "admin_list_pending_photos env su limit offset =
     (let st = app_state env in
      andthen (need_permission ''photos.moderate'' su) (\<lambda>_.
      andthen (internal (list_pending_photo_rows (page_limit 100 limit) (page_offset offset))) (\<lambda>(rows, total).
      ret (plain_reply (JObj
        [(''photos'', JArr (map (\<lambda>p. JObj
            [(''id'', json_uuid st (ph_id p)), (''user_id'', json_uuid st (ph_user p)), (''r2_key'', JStr (ph_r2_key p)),
             (''is_nsfw'', JBool (ph_is_nsfw p)), (''moderation_status'', JStr (ph_moderation_status p)),
             (''created_at'', json_time st (ph_created_at p))]) rows)),
         (''total'', json_nat total)])))))"

definition decide_photo :: "string \<Rightarrow> 't admin_env \<Rightarrow> staff_user \<Rightarrow> uuid \<Rightarrow> (world, status, admin_reply) prog" where
  "decide_photo decision env su pid =
     andthen (need_permission ''photos.moderate'' su) (\<lambda>_.
     andthen (internal (update_photo_moderation pid decision)) (\<lambda>_.
     ret (audited_reply (JObj [(''status'', JStr decision)]) (uuid_text (app_state env) pid) None)))"

definition approve_photo :: "'t admin_env \<Rightarrow> staff_user \<Rightarrow> uuid \<Rightarrow> (world, status, admin_reply) prog" where
  "approve_photo = decide_photo ''approved''"

definition reject_photo :: "'t admin_env \<Rightarrow> staff_user \<Rightarrow> uuid \<Rightarrow> (world, status, admin_reply) prog" where
  "reject_photo = decide_photo ''rejected''"

definition admin_list_csam_hits ::
    "'t admin_env \<Rightarrow> staff_user \<Rightarrow> string option \<Rightarrow> int option \<Rightarrow> int option \<Rightarrow> (world, status, admin_reply) prog" where
  "admin_list_csam_hits env su status limit offset =
     (let st = app_state env in
      andthen (need_permission ''csam.view'' su) (\<lambda>_.
      andthen (internal (list_csam_rows status (page_limit 100 limit) (page_offset offset))) (\<lambda>(rows, total).
      ret (plain_reply (JObj
        [(''hits'', JArr (map (\<lambda>h. JObj
            [(''id'', json_uuid st (ch_id h)), (''photo_id'', json_opt (json_uuid st) (ch_photo h)),
             (''hash'', json_opt JStr (ch_hash h)), (''source'', json_opt JStr (ch_source h)), (''status'', JStr (ch_status h)),
             (''matched_at'', json_time st (ch_matched_at h)),
             (''reported_to_authority_at'', json_opt (json_time st) (ch_reported_at h)),
             (''notes'', json_opt JStr (ch_notes h))]) rows)),
         (''total'', json_nat total)])))))"

definition report_csam_hit :: "'t admin_env \<Rightarrow> staff_user \<Rightarrow> uuid \<Rightarrow> string option \<Rightarrow> (world, status, admin_reply) prog" where
  "report_csam_hit env su hid notes =
     andthen (need_permission ''csam.report'' su) (\<lambda>_.
     andthen (internal (report_csam_row hid notes)) (\<lambda>_.
     ret (audited_reply (JObj [(''status'', JStr ''reported'')]) (uuid_text (app_state env) hid) (Some (or_empty notes)))))"

end
