(* ===== verification/AdminSupport.thy ===== *)
theory AdminSupport
  imports AdminHandlers
begin

text \<open>
  The second half of \<^verbatim>\<open>api/src/admin/handlers.rs\<close>: flags and configuration, entitlements, data requests,
  legal export and holds, plans and countries.
\<close>

section \<open>Flags and configuration\<close>

definition admin_list_flags :: "'t admin_env \<Rightarrow> staff_user \<Rightarrow> (world, status, admin_reply) prog" where
  "admin_list_flags env su =
     (let st = app_state env in
      andthen (need_permission ''flags.read'' su) (\<lambda>_.
      andthen (internal (list_feature_flags st)) (\<lambda>rows.
      ret (plain_reply (JObj [(''flags'', JArr (map (\<lambda>f. JObj
        [(''key'', JStr (ff_key f)), (''value'', ff_value f), (''description'', json_opt JStr (ff_description f)),
         (''enabled'', JBool (ff_enabled f)), (''created_at'', json_time st (ff_created_at f)),
         (''updated_at'', json_time st (ff_updated_at f)), (''updated_by'', json_opt (json_uuid st) (ff_updated_by f))]) rows))])))))"

definition admin_upsert_flag ::
    "'t admin_env \<Rightarrow> staff_user \<Rightarrow> string \<Rightarrow> json \<Rightarrow> string option \<Rightarrow> bool \<Rightarrow> (world, status, admin_reply) prog" where
  "admin_upsert_flag env su key val description enabled =
     andthen (need_permission ''flags.write'' su) (\<lambda>_.
     andthen (internal (upsert_feature_flag key val description enabled (su_id su))) (\<lambda>_.
     ret (audited_reply (JObj [(''key'', JStr key), (''enabled'', JBool enabled)]) key (Some key))))"

definition admin_delete_flag :: "'t admin_env \<Rightarrow> staff_user \<Rightarrow> string \<Rightarrow> (world, status, admin_reply) prog" where
  "admin_delete_flag env su key =
     andthen (need_permission ''flags.write'' su) (\<lambda>_.
     andthen (internal (delete_feature_flag key)) (\<lambda>_.
     ret ((audited_reply JNull key None)\<lparr>ar_status := NO_CONTENT\<rparr>)))"

definition admin_list_config :: "'t admin_env \<Rightarrow> staff_user \<Rightarrow> (world, status, admin_reply) prog" where
  "admin_list_config env su =
     (let st = app_state env in
      andthen (need_permission ''config.read'' su) (\<lambda>_.
      andthen (internal (list_app_config st)) (\<lambda>rows.
      ret (plain_reply (JObj [(''config'', JArr (map (\<lambda>c. JObj
        [(''key'', JStr (ce_key c)), (''value'', ce_value c), (''description'', json_opt JStr (ce_description c)),
         (''updated_at'', json_time st (ce_updated_at c)), (''updated_by'', json_opt (json_uuid st) (ce_updated_by c))]) rows))])))))"

definition admin_upsert_config :: "'t admin_env \<Rightarrow> staff_user \<Rightarrow> string \<Rightarrow> json \<Rightarrow> (world, status, admin_reply) prog" where
  "admin_upsert_config env su key val =
     andthen (need_permission ''config.write'' su) (\<lambda>_.
     andthen (internal (upsert_app_config key val (su_id su))) (\<lambda>_.
     ret (audited_reply (JObj [(''key'', JStr key)]) key (Some key))))"

definition admin_analytics_overview :: "'t admin_env \<Rightarrow> staff_user \<Rightarrow> (world, status, admin_reply) prog" where
  "admin_analytics_overview env su =
     andthen (need_permission ''config.read'' su) (\<lambda>_.
     andthen (internal get_analytics_overview) (\<lambda>a.
     ret (plain_reply (JObj
       [(''total_users'', json_nat (an_total_users a)), (''active_today'', json_nat (an_active_today a)),
        (''banned_users'', json_nat (an_banned_users a)), (''suspended_users'', json_nat (an_suspended_users a)),
        (''premium_users'', json_nat (an_premium_users a)), (''new_users_today'', json_nat (an_new_users_today a))]))))"

section \<open>Entitlements and data requests\<close>

definition admin_list_entitlements :: "'t admin_env \<Rightarrow> staff_user \<Rightarrow> uuid \<Rightarrow> (world, status, admin_reply) prog" where
  "admin_list_entitlements env su uid =
     (let st = app_state env in
      andthen (need_permission ''entitlements.view'' su) (\<lambda>_.
      andthen (internal (list_subscription_rows uid)) (\<lambda>subs.
      andthen (internal (list_entitlement_rows uid)) (\<lambda>ents.
      ret (plain_reply (JObj
        [(''subscriptions'', JArr (map (\<lambda>s. JObj
            [(''id'', json_uuid st (s_id s)), (''user_id'', json_uuid st (s_user_id s)), (''tier'', JStr (s_tier s)),
             (''store'', json_opt JStr (s_store s)), (''revenuecat_id'', json_opt JStr (s_revenuecat_id s)),
             (''status'', json_opt JStr (s_status s)),
             (''current_period_end'', json_opt (json_time st) (s_current_period_end s))]) subs)),
         (''entitlements'', JArr (map (\<lambda>e. JObj
            [(''user_id'', json_uuid st (en_user e)), (''feature'', JStr (en_feature e)), (''enabled'', JBool (en_enabled e))]) ents))]))))))"

definition manage_entitlement ::
    "'t admin_env \<Rightarrow> staff_user \<Rightarrow> uuid \<Rightarrow> string \<Rightarrow> string \<Rightarrow> (world, status, admin_reply) prog" where
  "manage_entitlement env su uid feature action =
     andthen (need_permission ''entitlements.manage'' su) (\<lambda>_.
     andthen (if action = ''grant'' then internal (grant_entitlement uid feature)
              else if action = ''revoke'' then internal (revoke_entitlement uid feature) else throw BAD_REQUEST) (\<lambda>_.
     ret (audited_reply (JObj [(''status'', JStr action)]) (uuid_text (app_state env) uid) (Some (action @ '' '' @ feature)))))"

definition admin_list_data_requests ::
    "'t admin_env \<Rightarrow> staff_user \<Rightarrow> string option \<Rightarrow> int option \<Rightarrow> int option \<Rightarrow> (world, status, admin_reply) prog" where
  "admin_list_data_requests env su status limit offset =
     (let st = app_state env in
      andthen (need_permission ''dsar.view'' su) (\<lambda>_.
      andthen (internal (list_data_request_rows status (page_limit 100 limit) (page_offset offset))) (\<lambda>(rows, total).
      ret (plain_reply (JObj
        [(''requests'', JArr (map (\<lambda>r. JObj
            [(''id'', json_uuid st (dr_id r)), (''user_id'', json_uuid st (dr_user r)), (''kind'', JStr (dr_kind r)),
             (''status'', JStr (dr_status r)), (''requested_at'', json_time st (dr_requested_at r)),
             (''completed_at'', json_opt (json_time st) (dr_completed_at r))]) rows)),
         (''total'', json_nat total)])))))"

definition process_data_request ::
    "'t admin_env \<Rightarrow> staff_user \<Rightarrow> uuid \<Rightarrow> string \<Rightarrow> string option \<Rightarrow> (world, status, admin_reply) prog" where
  "process_data_request env su rid status notes =
     andthen (need_permission ''dsar.process'' su) (\<lambda>_.
     andthen (reject_if (status \<notin> {''processing'', ''completed'', ''rejected''}) BAD_REQUEST) (\<lambda>_.
     andthen (internal (update_data_request rid status)) (\<lambda>_.
     ret (audited_reply (JObj [(''status'', JStr status)]) (uuid_text (app_state env) rid) (Some (or_empty notes))))))"

section \<open>Legal\<close>

definition dossier_report :: "app \<Rightarrow> report \<Rightarrow> json" where
  "dossier_report st r = JObj
     [(''id'', json_uuid st (rp_id r)), (''reporter_id'', json_uuid st (rp_reporter r)),
      (''target_user_id'', json_uuid st (rp_target_user r)), (''target_kind'', JStr (rp_target_kind r)),
      (''reason'', json_opt JStr (rp_reason r)), (''status'', JStr (rp_status r)),
      (''created_at'', json_time st (rp_created_at r)), (''resolved_at'', json_opt (json_time st) (rp_resolved_at r))]"

definition dossier_to_json :: "app \<Rightarrow> legal_dossier \<Rightarrow> json" where
  "dossier_to_json st v = JObj
     [(''user'', JObj (user_row_to_json st (ld_user v))),
      (''profile'', json_opt (\<lambda>p. JObj
         [(''user_id'', json_uuid st (p_user_id p)), (''display_name'', json_opt JStr (p_display_name p)),
          (''about'', json_opt JStr (p_about p)), (''gender_identity'', json_opt JStr (p_gender_identity p)),
          (''relationship_status'', json_opt JStr (p_relationship_status p)),
          (''created_at'', json_time st (p_created_at p))]) (ld_profile v)),
      (''devices'', JArr (map (\<lambda>x. JObj
         [(''id'', json_uuid st (dv_id x)), (''platform'', json_opt JStr (dv_platform x)),
          (''last_seen_at'', json_opt (json_time st) (dv_last_seen_at x)),
          (''created_at'', json_time st (dv_created_at x))]) (ld_devices v))),
      (''access_events'', JArr (map (\<lambda>e. JObj
         [(''id'', json_uuid st (ae_id e)), (''event'', JStr (ae_event e)), (''ip'', json_opt JStr (ae_ip e)),
          (''user_agent'', json_opt JStr (ae_user_agent e)), (''created_at'', json_time st (ae_created_at e))]) (ld_access_events v))),
      (''photos'', JArr (map (\<lambda>p. JObj
         [(''id'', json_uuid st (ph_id p)), (''r2_key'', JStr (ph_r2_key p)), (''is_primary'', JBool (ph_is_primary p)),
          (''is_nsfw'', JBool (ph_is_nsfw p)), (''moderation_status'', JStr (ph_moderation_status p)),
          (''created_at'', json_time st (ph_created_at p))]) (ld_photos v))),
      (''subscriptions'', JArr (map (\<lambda>s. JObj
         [(''id'', json_uuid st (s_id s)), (''tier'', JStr (s_tier s)), (''store'', json_opt JStr (s_store s)),
          (''revenuecat_id'', json_opt JStr (s_revenuecat_id s)), (''status'', json_opt JStr (s_status s)),
          (''current_period_end'', json_opt (json_time st) (s_current_period_end s))]) (ld_subscriptions v))),
      (''reports_against'', JArr (map (dossier_report st) (ld_reports_against v))),
      (''reports_by'', JArr (map (dossier_report st) (ld_reports_by v))),
      (''consent_records'', JArr (map (\<lambda>c. JObj
         [(''id'', json_uuid st (cr_id c)), (''kind'', JStr (cr_kind c)), (''version'', JStr (cr_version c)),
          (''granted_at'', json_time st (cr_granted_at c))]) (ld_consent_records v))),
      (''legal_holds'', JArr (map (\<lambda>h. JObj
         [(''id'', json_uuid st (lh_id h)), (''user_id'', json_uuid st (lh_user h)), (''reason'', JStr (lh_reason h)),
          (''reference'', json_opt JStr (lh_reference h)), (''placed_by'', json_uuid st (lh_placed_by h)),
          (''placed_at'', json_time st (lh_placed_at h)),
          (''released_at'', json_opt (json_time st) (lh_released_at h))]) (ld_legal_holds v)))]"

definition legal_export ::
    "'t admin_env \<Rightarrow> staff_user \<Rightarrow> uuid \<Rightarrow> string \<Rightarrow> string \<Rightarrow> (world, status, admin_reply) prog" where
  "legal_export env su uid justification legal_basis =
     (let st = app_state env in
      andthen (need_permission ''legal.export'' su) (\<lambda>_.
      andthen (map_err (\<lambda>_. NOT_FOUND) (build_legal_dossier uid)) (\<lambda>dossier.
      andthen (attempt (stmt (insert_audit_sql (su_id su) (su_session su) (''GET:/admin/legal/export/'' @ uuid_text st uid)
                 (Some (uuid_text st uid)) (Some justification) (Some legal_basis)))) (\<lambda>_ :: db_error + unit.
      ret (plain_reply (dossier_to_json st dossier))))))"

definition place_legal_hold ::
    "'t admin_env \<Rightarrow> staff_user \<Rightarrow> uuid \<Rightarrow> string \<Rightarrow> string option \<Rightarrow> (world, status, admin_reply) prog" where
  "place_legal_hold env su uid reason reference =
     andthen (need_permission ''legal.hold'' su) (\<lambda>_.
     andthen (internal (place_legal_hold_row uid (su_id su) reason reference)) (\<lambda>hid.
     ret ((audited_reply (JObj [(''id'', json_uuid (app_state env) hid)]) (uuid_text (app_state env) uid) (Some reason))
            \<lparr>ar_status := CREATED\<rparr>)))"

definition release_legal_hold :: "'t admin_env \<Rightarrow> staff_user \<Rightarrow> uuid \<Rightarrow> string \<Rightarrow> (world, status, admin_reply) prog" where
  "release_legal_hold env su hid reason =
     andthen (need_permission ''legal.hold'' su) (\<lambda>_.
     andthen (internal (release_legal_hold_row hid (su_id su) reason)) (\<lambda>_.
     ret (audited_reply (JObj [(''status'', JStr ''released'')]) (uuid_text (app_state env) hid) (Some reason))))"

section \<open>Plans and countries\<close>

definition admin_list_plans :: "'t admin_env \<Rightarrow> staff_user \<Rightarrow> (world, status, admin_reply) prog" where
  "admin_list_plans env su =
     andthen (need_permission ''plans.read'' su) (\<lambda>_.
     andthen (internal (list_plan_rows (app_state env))) (\<lambda>rows.
     ret (plain_reply (JObj [(''plans'', JArr (map (\<lambda>p. JObj
       [(''code'', JStr (pl_code p)), (''name'', JStr (pl_name p)), (''tier'', json_int (pl_tier p)),
        (''active'', JBool (pl_active p)), (''description'', json_opt JStr (pl_description p))]) rows))]))))"

definition admin_upsert_plan ::
    "'t admin_env \<Rightarrow> staff_user \<Rightarrow> string \<Rightarrow> string \<Rightarrow> int \<Rightarrow> bool \<Rightarrow> string option \<Rightarrow> (world, status, admin_reply) prog" where
  "admin_upsert_plan env su code name tier active description =
     andthen (need_permission ''plans.write'' su) (\<lambda>_.
     andthen (internal (upsert_plan code name tier active description)) (\<lambda>_.
     ret (audited_reply (JObj [(''code'', JStr code), (''name'', JStr name), (''tier'', json_int tier)]) code (Some code))))"

definition admin_list_plan_features :: "'t admin_env \<Rightarrow> staff_user \<Rightarrow> string \<Rightarrow> (world, status, admin_reply) prog" where
  "admin_list_plan_features env su code =
     andthen (need_permission ''plans.read'' su) (\<lambda>_.
     andthen (internal (list_plan_features (app_state env) code)) (\<lambda>rows.
     ret (plain_reply (JObj [(''features'', JArr (map (\<lambda>f. JObj
       [(''plan_code'', JStr (pf_plan_code f)), (''feature'', JStr (pf_feature f)), (''enabled'', JBool (pf_enabled f)),
        (''limit_value'', json_opt json_int (pf_limit_value f))]) rows))]))))"

definition admin_upsert_plan_feature ::
    "'t admin_env \<Rightarrow> staff_user \<Rightarrow> string \<Rightarrow> string \<Rightarrow> bool \<Rightarrow> int option \<Rightarrow> (world, status, admin_reply) prog" where
  "admin_upsert_plan_feature env su code feature enabled limit =
     andthen (need_permission ''plans.write'' su) (\<lambda>_.
     andthen (internal (upsert_plan_feature code feature enabled limit)) (\<lambda>_.
     ret (audited_reply (JObj [(''plan_code'', JStr code), (''feature'', JStr feature), (''enabled'', JBool enabled)])
            (code @ ''/'' @ feature) (Some (code @ '':'' @ feature)))))"

definition admin_delete_plan_feature :: "'t admin_env \<Rightarrow> staff_user \<Rightarrow> string \<Rightarrow> string \<Rightarrow> (world, status, admin_reply) prog" where
  "admin_delete_plan_feature env su code feature =
     andthen (need_permission ''plans.write'' su) (\<lambda>_.
     andthen (internal (delete_plan_feature code feature)) (\<lambda>_.
     ret ((audited_reply JNull (code @ ''/'' @ feature) None)\<lparr>ar_status := NO_CONTENT\<rparr>)))"

definition admin_upsert_plan_price ::
    "'t admin_env \<Rightarrow> staff_user \<Rightarrow> string \<Rightarrow> string \<Rightarrow> string \<Rightarrow> string option \<Rightarrow> string option \<Rightarrow> string option
      \<Rightarrow> (world, status, admin_reply) prog" where
  "admin_upsert_plan_price env su code country currency monthly yearly product =
     andthen (need_permission ''plans.write'' su) (\<lambda>_.
     andthen (internal (upsert_plan_price (app_state env) code country currency monthly yearly product)) (\<lambda>_.
     ret (audited_reply (JObj [(''plan_code'', JStr code), (''country_code'', JStr country)])
            (code @ ''/'' @ country) (Some (code @ '':'' @ country)))))"

definition country_json :: "country_config \<Rightarrow> json" where
  "country_json c = JObj
     [(''country_code'', JStr (cc_country_code c)), (''name'', JStr (cc_name c)), (''enabled'', JBool (cc_enabled c)),
      (''disabled_features'', json_strs (cc_disabled_features c)), (''min_age'', json_int (cc_min_age c)),
      (''requires_explicit_consent'', JBool (cc_requires_explicit_consent c)),
      (''data_retention_days'', json_opt json_int (cc_data_retention_days c)),
      (''force_discreet_mode'', JBool (cc_force_discreet_mode c)), (''hide_sensitive_fields'', JBool (cc_hide_sensitive_fields c)),
      (''hide_distance'', JBool (cc_hide_distance c)), (''geo_restricted'', JBool (cc_geo_restricted c)),
      (''restricted_features'', json_strs (cc_restricted_features c)), (''travel_warning'', json_opt JStr (cc_travel_warning c))]"

definition admin_list_countries :: "'t admin_env \<Rightarrow> staff_user \<Rightarrow> (world, status, admin_reply) prog" where
  "admin_list_countries env su =
     andthen (need_permission ''countries.read'' su) (\<lambda>_.
     andthen (internal (list_country_rows (app_state env))) (\<lambda>rows.
     ret (plain_reply (JObj [(''countries'', JArr (map country_json rows))]))))"

definition admin_get_country :: "'t admin_env \<Rightarrow> staff_user \<Rightarrow> string \<Rightarrow> (world, status, admin_reply) prog" where
  "admin_get_country env su code =
     andthen (need_permission ''countries.read'' su) (\<lambda>_.
     andthen (internal (get_country_row code)) (\<lambda>row.
     andthen (ok_or NOT_FOUND row) (\<lambda>c. ret (plain_reply (country_json c)))))"

text \<open>The body is the row, with the code of the path.\<close>

definition admin_upsert_country ::
    "'t admin_env \<Rightarrow> staff_user \<Rightarrow> string \<Rightarrow> country_config \<Rightarrow> (world, status, admin_reply) prog" where
  "admin_upsert_country env su code body =
     andthen (need_permission ''countries.write'' su) (\<lambda>_.
     andthen (internal (upsert_country_row (body\<lparr>cc_country_code := code\<rparr>))) (\<lambda>_.
     ret (audited_reply (JObj [(''country_code'', JStr code)]) code (Some code))))"

end
