(* ===== verification/DbEnterprise.thy ===== *)
theory DbEnterprise
  imports DbSupport
begin

text \<open>
  \<^verbatim>\<open>db/src/enterprise.rs\<close>: the queries on the tables of \<open>EnterpriseTables\<close>. Every statement that writes has a name of its own,
  so that \<open>catalog_write\<close> of \<open>EnterpriseSafety\<close> can list them.
\<close>

abbreviation (input) in_catalog :: "(enterprise \<Rightarrow> enterprise) \<Rightarrow> db \<Rightarrow> db" where
  "in_catalog f d \<equiv> d\<lparr>office := enterprise_update f (office d)\<rparr>"

text \<open>An inserted row takes the next identifier; an upsert draws one even when it updates.\<close>

abbreviation (input) add_catalog :: "(enterprise \<Rightarrow> enterprise) \<Rightarrow> db \<Rightarrow> db" where
  "add_catalog f d \<equiv> d\<lparr>office := enterprise_update f (office d), next_id := Suc (next_id d)\<rparr>"

definition catalog_of :: "(enterprise \<Rightarrow> 'r list) \<Rightarrow> ('r \<Rightarrow> bool) \<Rightarrow> db \<Rightarrow> 'r list" where
  "catalog_of table p d = filter p (table (enterprise (office d)))"

text \<open>\<^verbatim>\<open>anyhow::Error\<close>: an error of the database, or a message of \<^verbatim>\<open>bail!\<close>.\<close>

datatype anyhow = Sqlx db_error | Bail string

section \<open>Experiments and translations\<close>

definition list_experiments :: "app \<Rightarrow> (world, db_error, experiment_row list) prog" where
  "list_experiments st = query (\<lambda>_ d. sort_key (\<lambda>r. collation st (xp_key r)) (catalog_of experiments (\<lambda>_. True) d))"

definition put_experiment ::
    "string \<Rightarrow> string \<Rightarrow> string option \<Rightarrow> json \<Rightarrow> bool \<Rightarrow> timestamp option \<Rightarrow> timestamp option \<Rightarrow> timestamp \<Rightarrow> db \<Rightarrow> db" where
  "put_experiment key name description variants enabled start_at end_at t d =
     add_catalog (experiments_update (upsert_by xp_key (\<lambda>old r. r\<lparr>xp_id := xp_id old, xp_created_at := xp_created_at old\<rparr>)
       \<lparr>xp_id = next_id d, xp_key = key, xp_name = name, xp_description = description, xp_variants = variants,
        xp_enabled = enabled, xp_start_at = start_at, xp_end_at = end_at, xp_created_at = t, xp_updated_at = t\<rparr>)) d"

definition upsert_experiment_row ::
    "string \<Rightarrow> string \<Rightarrow> string option \<Rightarrow> json \<Rightarrow> bool \<Rightarrow> timestamp option \<Rightarrow> timestamp option \<Rightarrow> (world, db_error, unit) prog" where
  "upsert_experiment_row key name description variants enabled start_at end_at =
     update (put_experiment key name description variants enabled start_at end_at)"

definition drop_experiment :: "string \<Rightarrow> db \<Rightarrow> db" where
  "drop_experiment key = in_catalog (experiments_update (delete_where (\<lambda>r. xp_key r = key)))"

definition delete_experiment_row :: "string \<Rightarrow> (world, db_error, unit) prog" where
  "delete_experiment_row key = update (\<lambda>_. drop_experiment key)"

definition list_translations :: "app \<Rightarrow> string option \<Rightarrow> (world, db_error, translation list) prog" where
  "list_translations st locale =
     query (\<lambda>_ d. sort_key (\<lambda>r. collation st (xl_locale r)) (sort_key (\<lambda>r. collation st (xl_key r))
       (catalog_of translation_rows (\<lambda>r. unless_equal locale (xl_locale r)) d)))"

definition put_translation :: "string \<Rightarrow> string \<Rightarrow> string \<Rightarrow> db \<Rightarrow> db" where
  "put_translation locale key val d =
     add_catalog (translation_rows_update (upsert_by (\<lambda>r. (xl_locale r, xl_key r)) (\<lambda>old r. r\<lparr>xl_id := xl_id old\<rparr>)
       \<lparr>xl_id = next_id d, xl_locale = locale, xl_key = key, xl_value = val\<rparr>)) d"

definition upsert_translation_row :: "string \<Rightarrow> string \<Rightarrow> string \<Rightarrow> (world, db_error, unit) prog" where
  "upsert_translation_row locale key val = update (\<lambda>_. put_translation locale key val)"

section \<open>Content and legal documents\<close>

definition list_cms_rows :: "app \<Rightarrow> string option \<Rightarrow> (world, db_error, cms_content list) prog" where
  "list_cms_rows st locale =
     query (\<lambda>_ d. sort_key (\<lambda>r. collation st (ct_key r)) (catalog_of cms_contents (\<lambda>r. unless_equal locale (ct_locale r)) d))"

definition CONTENT_TYPES :: "string list" where
  "CONTENT_TYPES = [''text'', ''html'', ''markdown'', ''json'']"

definition upsert_cms_sql ::
    "string \<Rightarrow> string \<Rightarrow> string option \<Rightarrow> string \<Rightarrow> string \<Rightarrow> bool \<Rightarrow> timestamp option \<Rightarrow> timestamp option \<Rightarrow> uuid \<Rightarrow> unit sql" where
  "upsert_cms_sql key content_type title body locale active publish_at expire_at by_staff t d =
     (if content_type \<notin> set CONTENT_TYPES then (Inl CheckViolation, d)
      else if staff_by_id by_staff d = None then (Inl ForeignKeyViolation, d)
      else (Inr (), add_catalog (cms_contents_update (upsert_by ct_key (\<lambda>old r. r\<lparr>ct_id := ct_id old, ct_created_at := ct_created_at old\<rparr>)
              \<lparr>ct_id = next_id d, ct_key = key, ct_content_type = content_type, ct_title = title, ct_body = body, ct_locale = locale,
               ct_active = active, ct_publish_at = publish_at, ct_expire_at = expire_at, ct_created_at = t, ct_updated_at = t,
               ct_updated_by = Some by_staff\<rparr>)) d))"

definition upsert_cms_row ::
    "string \<Rightarrow> string \<Rightarrow> string option \<Rightarrow> string \<Rightarrow> string \<Rightarrow> bool \<Rightarrow> timestamp option \<Rightarrow> timestamp option \<Rightarrow> uuid
      \<Rightarrow> (world, db_error, unit) prog" where
  "upsert_cms_row key content_type title body locale active publish_at expire_at by_staff =
     stmt (upsert_cms_sql key content_type title body locale active publish_at expire_at by_staff)"

definition drop_cms :: "string \<Rightarrow> db \<Rightarrow> db" where
  "drop_cms key = in_catalog (cms_contents_update (delete_where (\<lambda>r. ct_key r = key)))"

definition delete_cms_row :: "string \<Rightarrow> (world, db_error, unit) prog" where
  "delete_cms_row key = update (\<lambda>_. drop_cms key)"

definition list_legal_doc_rows :: "app \<Rightarrow> (world, db_error, legal_doc list) prog" where
  "list_legal_doc_rows st =
     query (\<lambda>_ d. sort_key (\<lambda>r. collation st (lg_doc_type r)) (newest_first lg_published_at (catalog_of legal_doc_versions (\<lambda>_. True) d)))"

definition DOC_TYPES :: "string list" where
  "DOC_TYPES = [''tos'', ''privacy'', ''community_guidelines'', ''cookie_policy'']"

definition create_legal_doc_sql :: "string \<Rightarrow> string \<Rightarrow> string \<Rightarrow> string \<Rightarrow> uuid \<Rightarrow> uuid sql" where
  "create_legal_doc_sql doc_type version title body by_staff t d =
     (if doc_type \<notin> set DOC_TYPES then (Inl CheckViolation, d)
      else if staff_by_id by_staff d = None then (Inl ForeignKeyViolation, d)
      else (Inr (next_id d), add_catalog (legal_doc_versions_update (\<lambda>rs. rs @
              [\<lparr>lg_id = next_id d, lg_doc_type = doc_type, lg_version = version, lg_title = title, lg_body = body,
                lg_published_at = t, lg_created_by = by_staff\<rparr>])) d))"

definition create_legal_doc_row :: "string \<Rightarrow> string \<Rightarrow> string \<Rightarrow> string \<Rightarrow> uuid \<Rightarrow> (world, db_error, uuid) prog" where
  "create_legal_doc_row doc_type version title body by_staff = stmt (create_legal_doc_sql doc_type version title body by_staff)"

section \<open>Campaigns and templates\<close>

definition list_campaign_rows :: "string option \<Rightarrow> (world, db_error, campaign list) prog" where
  "list_campaign_rows status =
     query (\<lambda>_ d. newest_first cg_created_at (catalog_of campaigns (\<lambda>r. unless_equal status (cg_status r)) d))"

definition CAMPAIGN_TYPES :: "string list" where
  "CAMPAIGN_TYPES = [''push'', ''email'', ''in_app'', ''all'']"

definition CAMPAIGN_STATUSES :: "string list" where
  "CAMPAIGN_STATUSES = [''draft'', ''scheduled'', ''sending'', ''sent'', ''failed'']"

definition create_campaign_sql ::
    "string \<Rightarrow> string \<Rightarrow> string option \<Rightarrow> string \<Rightarrow> json option \<Rightarrow> timestamp option \<Rightarrow> uuid \<Rightarrow> uuid sql" where
  "create_campaign_sql name campaign_type title body target scheduled_at by_staff t d =
     (if campaign_type \<notin> set CAMPAIGN_TYPES then (Inl CheckViolation, d)
      else if staff_by_id by_staff d = None then (Inl ForeignKeyViolation, d)
      else (Inr (next_id d), add_catalog (campaigns_update (\<lambda>rs. rs @
              [\<lparr>cg_id = next_id d, cg_name = name, cg_campaign_type = campaign_type, cg_title = title, cg_body = body,
                cg_target_segment = target, cg_scheduled_at = scheduled_at, cg_sent_at = None, cg_status = ''draft'',
                cg_created_at = t, cg_created_by = Some by_staff\<rparr>])) d))"

definition create_campaign_row ::
    "string \<Rightarrow> string \<Rightarrow> string option \<Rightarrow> string \<Rightarrow> json option \<Rightarrow> timestamp option \<Rightarrow> uuid \<Rightarrow> (world, db_error, uuid) prog" where
  "create_campaign_row name campaign_type title body target scheduled_at by_staff =
     stmt (create_campaign_sql name campaign_type title body target scheduled_at by_staff)"

definition campaign_by_id :: "uuid \<Rightarrow> db \<Rightarrow> campaign option" where
  "campaign_by_id cid d = List.find (\<lambda>r. cg_id r = cid) (campaigns (enterprise (office d)))"

definition get_campaign :: "uuid \<Rightarrow> (world, anyhow, campaign) prog" where
  "get_campaign cid =
     andthen (map_err Sqlx (query (\<lambda>_. campaign_by_id cid))) (\<lambda>row. ok_or (Bail ''campaign not found'') row)"

definition target_ids :: "uuid list \<Rightarrow> db \<Rightarrow> uuid list" where
  "target_ids ids d = sort (filter (\<lambda>u. ids = [] \<or> u \<in> set ids) (map u_id (users d)))"

definition get_campaign_target_user_ids :: "uuid list \<Rightarrow> (world, db_error, uuid list) prog" where
  "get_campaign_target_user_ids ids = query (\<lambda>_. target_ids ids)"

text \<open>The statement counts the rows it changed; \<^verbatim>\<open>status\<close> is checked where there is one.\<close>

definition set_campaign_status_sql :: "uuid \<Rightarrow> string \<Rightarrow> nat sql" where
  "set_campaign_status_sql cid status t d =
     (let n = length (catalog_of campaigns (\<lambda>r. cg_id r = cid) d)
      in if 0 < n \<and> status \<notin> set CAMPAIGN_STATUSES then (Inl CheckViolation, d)
         else (Inr n, in_catalog (campaigns_update (update_where (\<lambda>r. cg_id r = cid) (\<lambda>r. r\<lparr>cg_status := status,
                cg_sent_at := (if status = ''sent'' then Some t else cg_sent_at r)\<rparr>))) d))"

definition update_campaign_status :: "uuid \<Rightarrow> string \<Rightarrow> (world, anyhow, unit) prog" where
  "update_campaign_status cid status =
     andthen (map_err Sqlx (stmt (set_campaign_status_sql cid status))) (\<lambda>n. reject_if (n = 0) (Bail ''campaign not found''))"

definition list_template_rows :: "app \<Rightarrow> (world, db_error, notification_template list) prog" where
  "list_template_rows st =
     query (\<lambda>_ d. sort_key (\<lambda>r. collation st (nt_key r)) (catalog_of notification_templates (\<lambda>_. True) d))"

definition CHANNELS :: "string list" where
  "CHANNELS = [''push'', ''email'', ''in_app'']"

definition upsert_template_sql :: "string \<Rightarrow> string \<Rightarrow> string \<Rightarrow> string \<Rightarrow> string \<Rightarrow> bool \<Rightarrow> unit sql" where
  "upsert_template_sql key name channel title body active t d =
     (if channel \<notin> set CHANNELS then (Inl CheckViolation, d)
      else (Inr (), add_catalog (notification_templates_update (upsert_by nt_key
              (\<lambda>old r. r\<lparr>nt_id := nt_id old, nt_created_at := nt_created_at old\<rparr>)
              \<lparr>nt_id = next_id d, nt_key = key, nt_name = name, nt_channel = channel, nt_title_template = title,
               nt_body_template = body, nt_active = active, nt_created_at = t, nt_updated_at = t\<rparr>)) d))"

definition upsert_template_row :: "string \<Rightarrow> string \<Rightarrow> string \<Rightarrow> string \<Rightarrow> string \<Rightarrow> bool \<Rightarrow> (world, db_error, unit) prog" where
  "upsert_template_row key name channel title body active = stmt (upsert_template_sql key name channel title body active)"

section \<open>Abuse rules, API keys, webhooks\<close>

definition list_abuse_rows :: "app \<Rightarrow> (world, db_error, abuse_rule list) prog" where
  "list_abuse_rows st = query (\<lambda>_ d. sort_key (\<lambda>r. collation st (ru_name r)) (catalog_of abuse_rules (\<lambda>_. True) d))"

definition RULE_TYPES :: "string list" where
  "RULE_TYPES = [''velocity'', ''pattern'', ''threshold'']"

definition RULE_ACTIONS :: "string list" where
  "RULE_ACTIONS = [''flag'', ''suspend'', ''ban'', ''notify_staff'']"

text \<open>\<^verbatim>\<open>ON CONFLICT (id)\<close> compares the identifier the insert itself draws: the row is always new.\<close>

definition upsert_abuse_sql :: "string \<Rightarrow> string \<Rightarrow> json \<Rightarrow> string \<Rightarrow> bool \<Rightarrow> unit sql" where
  "upsert_abuse_sql name rule_type config action enabled t d =
     (if rule_type \<notin> set RULE_TYPES \<or> action \<notin> set RULE_ACTIONS then (Inl CheckViolation, d)
      else (Inr (), add_catalog (abuse_rules_update (upsert_by ru_id (\<lambda>old r. r\<lparr>ru_created_at := ru_created_at old\<rparr>)
              \<lparr>ru_id = next_id d, ru_name = name, ru_rule_type = rule_type, ru_config = config, ru_action = action,
               ru_enabled = enabled, ru_created_at = t, ru_updated_at = t\<rparr>)) d))"

definition upsert_abuse_row :: "string \<Rightarrow> string \<Rightarrow> json \<Rightarrow> string \<Rightarrow> bool \<Rightarrow> (world, db_error, unit) prog" where
  "upsert_abuse_row name rule_type config action enabled = stmt (upsert_abuse_sql name rule_type config action enabled)"

definition drop_abuse :: "uuid \<Rightarrow> db \<Rightarrow> db" where
  "drop_abuse rid = in_catalog (abuse_rules_update (delete_where (\<lambda>r. ru_id r = rid)))"

definition delete_abuse_row :: "uuid \<Rightarrow> (world, db_error, unit) prog" where
  "delete_abuse_row rid = update (\<lambda>_. drop_abuse rid)"

text \<open>The list reads every column but the hash.\<close>

record api_key_row =
  kr_id :: uuid
  kr_name :: string
  kr_key_prefix :: string
  kr_permissions :: "string list"
  kr_rate_limit_rps :: int
  kr_active :: bool
  kr_created_by :: "uuid option"
  kr_last_used_at :: "timestamp option"
  kr_created_at :: timestamp
  kr_expires_at :: "timestamp option"

definition to_api_key_row :: "api_key \<Rightarrow> api_key_row" where
  "to_api_key_row r = \<lparr>kr_id = ak_id r, kr_name = ak_name r, kr_key_prefix = ak_key_prefix r, kr_permissions = ak_permissions r,
     kr_rate_limit_rps = ak_rate_limit_rps r, kr_active = ak_active r, kr_created_by = ak_created_by r,
     kr_last_used_at = ak_last_used_at r, kr_created_at = ak_created_at r, kr_expires_at = ak_expires_at r\<rparr>"

definition list_api_key_rows :: "(world, db_error, api_key_row list) prog" where
  "list_api_key_rows = query (\<lambda>_ d. map to_api_key_row (newest_first ak_created_at (catalog_of api_keys (\<lambda>_. True) d)))"

definition create_api_key_sql :: "string \<Rightarrow> string \<Rightarrow> string \<Rightarrow> string list \<Rightarrow> int \<Rightarrow> uuid \<Rightarrow> uuid sql" where
  "create_api_key_sql name key_hash key_prefix permissions rps by_staff t d =
     (if staff_by_id by_staff d = None then (Inl ForeignKeyViolation, d)
      else (Inr (next_id d), add_catalog (api_keys_update (\<lambda>rs. rs @
              [\<lparr>ak_id = next_id d, ak_name = name, ak_key_hash = key_hash, ak_key_prefix = key_prefix, ak_permissions = permissions,
                ak_rate_limit_rps = rps, ak_active = True, ak_created_by = Some by_staff, ak_last_used_at = None,
                ak_created_at = t, ak_expires_at = None\<rparr>])) d))"

definition create_api_key_row ::
    "string \<Rightarrow> string \<Rightarrow> string \<Rightarrow> string list \<Rightarrow> int \<Rightarrow> uuid \<Rightarrow> (world, db_error, uuid) prog" where
  "create_api_key_row name key_hash key_prefix permissions rps by_staff =
     stmt (create_api_key_sql name key_hash key_prefix permissions rps by_staff)"

definition revoke_api_key_sql :: "uuid \<Rightarrow> nat sql" where
  "revoke_api_key_sql kid t d =
     (Inr (length (catalog_of api_keys (\<lambda>r. ak_id r = kid) d)),
      in_catalog (api_keys_update (update_where (\<lambda>r. ak_id r = kid) (ak_active_update (\<lambda>_. False)))) d)"

definition revoke_api_key_row :: "uuid \<Rightarrow> (world, anyhow, unit) prog" where
  "revoke_api_key_row kid =
     andthen (map_err Sqlx (stmt (revoke_api_key_sql kid))) (\<lambda>n. reject_if (n = 0) (Bail ''api key not found''))"

text \<open>The list reads every column but the secret.\<close>

record webhook_row =
  wr_id :: uuid
  wr_name :: string
  wr_url :: string
  wr_events :: "string list"
  wr_active :: bool
  wr_created_at :: timestamp
  wr_updated_at :: timestamp
  wr_created_by :: "uuid option"

definition to_webhook_row :: "webhook_subscription \<Rightarrow> webhook_row" where
  "to_webhook_row r = \<lparr>wr_id = wh_id r, wr_name = wh_name r, wr_url = wh_url r, wr_events = wh_events r, wr_active = wh_active r,
     wr_created_at = wh_created_at r, wr_updated_at = wh_updated_at r, wr_created_by = wh_created_by r\<rparr>"

definition list_webhook_rows :: "(world, db_error, webhook_row list) prog" where
  "list_webhook_rows = query (\<lambda>_ d. map to_webhook_row (newest_first wh_created_at (catalog_of webhook_subscriptions (\<lambda>_. True) d)))"

definition create_webhook_sql :: "string \<Rightarrow> string \<Rightarrow> string list \<Rightarrow> string option \<Rightarrow> uuid \<Rightarrow> uuid sql" where
  "create_webhook_sql name url topics secret by_staff t d =
     (if staff_by_id by_staff d = None then (Inl ForeignKeyViolation, d)
      else (Inr (next_id d), add_catalog (webhook_subscriptions_update (\<lambda>rs. rs @
              [\<lparr>wh_id = next_id d, wh_name = name, wh_url = url, wh_events = topics, wh_secret = secret, wh_active = True,
                wh_created_at = t, wh_updated_at = t, wh_created_by = Some by_staff\<rparr>])) d))"

definition create_webhook_row :: "string \<Rightarrow> string \<Rightarrow> string list \<Rightarrow> string option \<Rightarrow> uuid \<Rightarrow> (world, db_error, uuid) prog" where
  "create_webhook_row name url topics secret by_staff = stmt (create_webhook_sql name url topics secret by_staff)"

definition delete_webhook_sql :: "uuid \<Rightarrow> nat sql" where
  "delete_webhook_sql hid t d =
     (Inr (length (catalog_of webhook_subscriptions (\<lambda>r. wh_id r = hid) d)),
      in_catalog (webhook_subscriptions_update (delete_where (\<lambda>r. wh_id r = hid))) d)"

definition delete_webhook_row :: "uuid \<Rightarrow> (world, anyhow, unit) prog" where
  "delete_webhook_row hid =
     andthen (map_err Sqlx (stmt (delete_webhook_sql hid))) (\<lambda>n. reject_if (n = 0) (Bail ''webhook not found''))"

section \<open>Versions of the configuration\<close>

definition list_version_rows :: "string option \<Rightarrow> nat \<Rightarrow> (world, db_error, config_version list) prog" where
  "list_version_rows entity_type n =
     query (\<lambda>_ d. take n (newest_first vn_created_at (catalog_of config_versions (\<lambda>r. unless_equal entity_type (vn_entity_type r)) d)))"

definition create_config_version_sql :: "string \<Rightarrow> string \<Rightarrow> json \<Rightarrow> json \<Rightarrow> uuid \<Rightarrow> unit sql" where
  "create_config_version_sql entity_type entity_key previous new by_staff t d =
     (if staff_by_id by_staff d = None then (Inl ForeignKeyViolation, d)
      else (Inr (), add_catalog (config_versions_update (\<lambda>rs. rs @
              [\<lparr>vn_id = next_id d, vn_entity_type = entity_type, vn_entity_key = entity_key, vn_previous_value = previous,
                vn_new_value = new, vn_changed_by = by_staff, vn_rolled_back = False, vn_created_at = t\<rparr>])) d))"

definition create_config_version :: "string \<Rightarrow> string \<Rightarrow> json \<Rightarrow> json \<Rightarrow> uuid \<Rightarrow> (world, db_error, unit) prog" where
  "create_config_version entity_type entity_key previous new by_staff =
     stmt (create_config_version_sql entity_type entity_key previous new by_staff)"

definition set_flag_value_sql :: "string \<Rightarrow> json \<Rightarrow> nat sql" where
  "set_flag_value_sql key val t d =
     (Inr (length (office_of feature_flags (\<lambda>f. ff_key f = key) d)),
      in_office (feature_flags_update (update_where (\<lambda>f. ff_key f = key) (\<lambda>f. f\<lparr>ff_value := val, ff_updated_at := t\<rparr>))) d)"

definition set_config_value_sql :: "string \<Rightarrow> json \<Rightarrow> nat sql" where
  "set_config_value_sql key val t d =
     (Inr (length (office_of app_config (\<lambda>c. ce_key c = key) d)),
      in_office (app_config_update (update_where (\<lambda>c. ce_key c = key) (\<lambda>c. c\<lparr>ce_value := val, ce_updated_at := t\<rparr>))) d)"

definition set_plan_description_sql :: "string \<Rightarrow> string option \<Rightarrow> nat sql" where
  "set_plan_description_sql code descr t d =
     (Inr (length (filter (\<lambda>p. pl_code p = code) (plans d))),
      d\<lparr>plans := update_where (\<lambda>p. pl_code p = code) (pl_description_update (\<lambda>_. descr)) (plans d)\<rparr>)"

definition mark_rolled_back :: "uuid \<Rightarrow> db \<Rightarrow> db" where
  "mark_rolled_back vid = in_catalog (config_versions_update (update_where (\<lambda>r. vn_id r = vid) (vn_rolled_back_update (\<lambda>_. True))))"

definition version_by_id :: "uuid \<Rightarrow> db \<Rightarrow> config_version option" where
  "version_by_id vid d = List.find (\<lambda>r. vn_id r = vid) (config_versions (enterprise (office d)))"

definition need_rows :: "nat sql \<Rightarrow> string \<Rightarrow> (world, anyhow, unit) prog" where
  "need_rows q what = andthen (map_err Sqlx (stmt q)) (\<lambda>n. reject_if (n = 0) (Bail what))"

definition restore_value :: "config_version \<Rightarrow> (world, anyhow, unit) prog" where
  "restore_value v =
     (let key = vn_entity_key v; val = vn_previous_value v; named = (\<lambda>kind. kind @ [CHR '' '', CHR 0x27] @ key @ CHR 0x27 # '' not found'')
      in if vn_entity_type v = ''feature_flag'' then need_rows (set_flag_value_sql key val) (named ''feature flag'')
         else if vn_entity_type v = ''app_config'' then need_rows (set_config_value_sql key val) (named ''app_config'')
         else if vn_entity_type v = ''plan''
           then need_rows (set_plan_description_sql key (Option.bind (json_get ''description'' val) json_str)) (named ''plan'')
         else throw (Bail (''rollback not supported for entity type '' @ CHR 0x27 # vn_entity_type v @ [CHR 0x27])))"

definition rollback_version :: "uuid \<Rightarrow> (world, anyhow, unit) prog" where
  "rollback_version vid =
     andthen (map_err Sqlx (query (\<lambda>_. version_by_id vid))) (\<lambda>row.
     andthen (ok_or (Bail ''config version not found'') row) (\<lambda>v.
     andthen (reject_if (vn_rolled_back v) (Bail ''config version already rolled back'')) (\<lambda>_.
     andthen (restore_value v) (\<lambda>_.
     map_err Sqlx (update (\<lambda>_. mark_rolled_back vid))))))"

end
