(* ===== verification/EnterpriseHandlers.thy ===== *)
theory EnterpriseHandlers
  imports AdminHandlers DbEnterprise SocialHandlers
begin

text \<open>
  \<^verbatim>\<open>api/src/admin/handlers_enterprise.rs\<close>: the endpoints of the enterprise catalogue. The permission check of
  that file, \<^verbatim>\<open>rbac_check\<close>, is \<open>need_permission\<close>.
\<close>

section \<open>Shared\<close>

text \<open>\<^verbatim>\<open>parse_iso\<close>: an absent or empty time is none.\<close>

definition parse_iso :: "app \<Rightarrow> string option \<Rightarrow> (world, status, timestamp option) prog" where
  "parse_iso st s =
     (case s of
        None \<Rightarrow> ret None
      | Some v \<Rightarrow> if v = [] then ret None
                  else (case parse_rfc3339 st v of None \<Rightarrow> throw BAD_REQUEST | Some t \<Rightarrow> ret (Some t)))"

fun anyhow_text :: "'t admin_env \<Rightarrow> anyhow \<Rightarrow> string" where
  "anyhow_text env (Sqlx e) = error_text env e"
| "anyhow_text env (Bail m) = m"

definition or_default :: "'a \<Rightarrow> 'a option \<Rightarrow> 'a" where
  "or_default b x = (case x of None \<Rightarrow> b | Some v \<Rightarrow> v)"

definition deleted_reply :: "string \<Rightarrow> admin_reply" where
  "deleted_reply target = (audited_reply JNull target None)\<lparr>ar_status := NO_CONTENT\<rparr>"

section \<open>Experiments and translations\<close>

definition admin_list_experiments :: "'t admin_env \<Rightarrow> staff_user \<Rightarrow> (world, status, admin_reply) prog" where
  "admin_list_experiments env su =
     (let st = app_state env in
      andthen (need_permission ''experiments.read'' su) (\<lambda>_.
      andthen (internal (list_experiments st)) (\<lambda>rows.
      ret (plain_reply (JObj [(''experiments'', JArr (map (\<lambda>r. JObj
        [(''id'', json_uuid st (xp_id r)), (''key'', JStr (xp_key r)), (''name'', JStr (xp_name r)),
         (''description'', json_opt JStr (xp_description r)), (''variants'', xp_variants r), (''enabled'', JBool (xp_enabled r)),
         (''start_at'', json_opt (json_time st) (xp_start_at r)), (''end_at'', json_opt (json_time st) (xp_end_at r)),
         (''created_at'', json_time st (xp_created_at r)), (''updated_at'', json_time st (xp_updated_at r))]) rows))])))))"

text \<open>The key of an experiment: \<^verbatim>\<open>name.to_lowercase().replace(' ', "_")\<close>.\<close>

definition experiment_key :: "'t admin_env \<Rightarrow> string \<Rightarrow> string" where
  "experiment_key env name = map (\<lambda>c. if c = CHR '' '' then CHR ''_'' else c) (unicode_lower env name)"

definition admin_upsert_experiment ::
    "'t admin_env \<Rightarrow> staff_user \<Rightarrow> string \<Rightarrow> string option \<Rightarrow> json \<Rightarrow> bool \<Rightarrow> string option \<Rightarrow> string option
      \<Rightarrow> (world, status, admin_reply) prog" where
  "admin_upsert_experiment env su name description variants enabled starts ends =
     (let st = app_state env; key = experiment_key env name in
      andthen (need_permission ''experiments.write'' su) (\<lambda>_.
      andthen (parse_iso st starts) (\<lambda>start_at.
      andthen (parse_iso st ends) (\<lambda>end_at.
      andthen (internal (upsert_experiment_row key name description variants enabled start_at end_at)) (\<lambda>_.
      ret (audited_reply (JObj [(''key'', JStr key), (''name'', JStr name)]) key (Some key)))))))"

definition admin_delete_experiment :: "'t admin_env \<Rightarrow> staff_user \<Rightarrow> string \<Rightarrow> (world, status, admin_reply) prog" where
  "admin_delete_experiment env su key =
     andthen (need_permission ''experiments.write'' su) (\<lambda>_.
     andthen (internal (delete_experiment_row key)) (\<lambda>_. ret (deleted_reply key)))"

definition admin_list_translations :: "'t admin_env \<Rightarrow> staff_user \<Rightarrow> string option \<Rightarrow> (world, status, admin_reply) prog" where
  "admin_list_translations env su locale =
     (let st = app_state env in
      andthen (need_permission ''cms.read'' su) (\<lambda>_.
      andthen (internal (list_translations st locale)) (\<lambda>rows.
      ret (plain_reply (JObj [(''translations'', JArr (map (\<lambda>r. JObj
        [(''id'', json_uuid st (xl_id r)), (''locale'', JStr (xl_locale r)), (''key'', JStr (xl_key r)),
         (''value'', JStr (xl_value r))]) rows))])))))"

definition admin_upsert_translation ::
    "'t admin_env \<Rightarrow> staff_user \<Rightarrow> string \<Rightarrow> string \<Rightarrow> string \<Rightarrow> (world, status, admin_reply) prog" where
  "admin_upsert_translation env su locale key val =
     andthen (need_permission ''cms.write'' su) (\<lambda>_.
     andthen (internal (upsert_translation_row locale key val)) (\<lambda>_.
     ret (audited_reply (JObj [(''locale'', JStr locale), (''key'', JStr key)]) (locale @ ''/'' @ key) (Some key))))"

section \<open>Content and legal documents\<close>

definition admin_list_cms :: "'t admin_env \<Rightarrow> staff_user \<Rightarrow> string option \<Rightarrow> (world, status, admin_reply) prog" where
  "admin_list_cms env su locale =
     (let st = app_state env in
      andthen (need_permission ''cms.read'' su) (\<lambda>_.
      andthen (internal (list_cms_rows st locale)) (\<lambda>rows.
      ret (plain_reply (JObj [(''cms_content'', JArr (map (\<lambda>r. JObj
        [(''id'', json_uuid st (ct_id r)), (''key'', JStr (ct_key r)), (''content_type'', JStr (ct_content_type r)),
         (''title'', json_opt JStr (ct_title r)), (''body'', JStr (ct_body r)), (''locale'', JStr (ct_locale r)),
         (''active'', JBool (ct_active r)), (''publish_at'', json_opt (json_time st) (ct_publish_at r)),
         (''expire_at'', json_opt (json_time st) (ct_expire_at r)), (''updated_at'', json_time st (ct_updated_at r)),
         (''updated_by'', json_opt (json_uuid st) (ct_updated_by r))]) rows))])))))"

definition admin_upsert_cms ::
    "'t admin_env \<Rightarrow> staff_user \<Rightarrow> string \<Rightarrow> string option \<Rightarrow> string option \<Rightarrow> string \<Rightarrow> string option \<Rightarrow> bool option
      \<Rightarrow> string option \<Rightarrow> string option \<Rightarrow> (world, status, admin_reply) prog" where
  "admin_upsert_cms env su key content_type title body locale active publish expire =
     (let st = app_state env in
      andthen (need_permission ''cms.write'' su) (\<lambda>_.
      andthen (parse_iso st publish) (\<lambda>publish_at.
      andthen (parse_iso st expire) (\<lambda>expire_at.
      andthen (internal (upsert_cms_row key (or_default ''text'' content_type) title body (or_default ''en'' locale)
                 (or_default True active) publish_at expire_at (su_id su))) (\<lambda>_.
      ret (audited_reply (JObj [(''key'', JStr key)]) key (Some key)))))))"

definition admin_delete_cms :: "'t admin_env \<Rightarrow> staff_user \<Rightarrow> string \<Rightarrow> (world, status, admin_reply) prog" where
  "admin_delete_cms env su key =
     andthen (need_permission ''cms.write'' su) (\<lambda>_.
     andthen (internal (delete_cms_row key)) (\<lambda>_. ret (deleted_reply key)))"

definition admin_list_legal_docs :: "'t admin_env \<Rightarrow> staff_user \<Rightarrow> (world, status, admin_reply) prog" where
  "admin_list_legal_docs env su =
     (let st = app_state env in
      andthen (need_permission ''cms.read'' su) (\<lambda>_.
      andthen (internal (list_legal_doc_rows st)) (\<lambda>rows.
      ret (plain_reply (JObj [(''legal_docs'', JArr (map (\<lambda>r. JObj
        [(''id'', json_uuid st (lg_id r)), (''doc_type'', JStr (lg_doc_type r)), (''version'', JStr (lg_version r)),
         (''title'', JStr (lg_title r)), (''body'', JStr (lg_body r)), (''published_at'', json_time st (lg_published_at r)),
         (''created_by'', json_uuid st (lg_created_by r))]) rows))])))))"

definition admin_create_legal_doc ::
    "'t admin_env \<Rightarrow> staff_user \<Rightarrow> string \<Rightarrow> string \<Rightarrow> string \<Rightarrow> string \<Rightarrow> (world, status, admin_reply) prog" where
  "admin_create_legal_doc env su doc_type version title body =
     (let st = app_state env in
      andthen (need_permission ''cms.write'' su) (\<lambda>_.
      andthen (internal (create_legal_doc_row doc_type version title body (su_id su))) (\<lambda>did.
      ret (audited_reply (JObj [(''id'', json_uuid st did), (''doc_type'', JStr doc_type), (''version'', JStr version)])
             (uuid_text st did) (Some doc_type)))))"

section \<open>Campaigns and templates\<close>

definition admin_list_campaigns :: "'t admin_env \<Rightarrow> staff_user \<Rightarrow> string option \<Rightarrow> (world, status, admin_reply) prog" where
  "admin_list_campaigns env su status =
     (let st = app_state env in
      andthen (need_permission ''campaigns.read'' su) (\<lambda>_.
      andthen (internal (list_campaign_rows status)) (\<lambda>rows.
      ret (plain_reply (JObj [(''campaigns'', JArr (map (\<lambda>r. JObj
        [(''id'', json_uuid st (cg_id r)), (''name'', JStr (cg_name r)), (''campaign_type'', JStr (cg_campaign_type r)),
         (''title'', json_opt JStr (cg_title r)), (''body'', JStr (cg_body r)), (''target_segment'', json_opt id (cg_target_segment r)),
         (''scheduled_at'', json_opt (json_time st) (cg_scheduled_at r)), (''sent_at'', json_opt (json_time st) (cg_sent_at r)),
         (''status'', JStr (cg_status r)), (''created_at'', json_time st (cg_created_at r)),
         (''created_by'', json_opt (json_uuid st) (cg_created_by r))]) rows))])))))"

definition admin_create_campaign ::
    "'t admin_env \<Rightarrow> staff_user \<Rightarrow> string \<Rightarrow> string \<Rightarrow> string option \<Rightarrow> string \<Rightarrow> json option \<Rightarrow> string option
      \<Rightarrow> (world, status, admin_reply) prog" where
  "admin_create_campaign env su name campaign_type title body target scheduled =
     (let st = app_state env in
      andthen (need_permission ''campaigns.write'' su) (\<lambda>_.
      andthen (parse_iso st scheduled) (\<lambda>scheduled_at.
      andthen (internal (create_campaign_row name campaign_type title body target scheduled_at (su_id su))) (\<lambda>cid.
      ret (audited_reply (JObj [(''id'', json_uuid st cid), (''status'', JStr ''draft'')]) (uuid_text st cid) (Some name))))))"

fun json_array :: "json \<Rightarrow> json list option" where
  "json_array (JArr xs) = Some xs"
| "json_array _ = None"

text \<open>The users a campaign names: the strings of \<^verbatim>\<open>target_segment.user_ids\<close> that are UUIDs, and none
  when it has no such array.\<close>

definition segment_ids :: "app \<Rightarrow> json option \<Rightarrow> uuid list" where
  "segment_ids st segment =
     (case Option.bind segment (\<lambda>s. Option.bind (json_get ''user_ids'' s) json_array) of
        None \<Rightarrow> []
      | Some xs \<Rightarrow> List.map_filter (\<lambda>v. Option.bind (json_str v) (uuid_parse st)) xs)"

definition push_campaign :: "app \<Rightarrow> campaign \<Rightarrow> (world, status, unit) prog" where
  "push_campaign st c =
     andthen (internal (get_campaign_target_user_ids (segment_ids st (cg_target_segment c)))) (\<lambda>ids.
     for_each ids (\<lambda>uid. push_to st uid (or_default ''New update'' (cg_title c)) (cg_body c)))"

definition admin_send_campaign ::
    "'t admin_env \<Rightarrow> staff_user \<Rightarrow> uuid \<Rightarrow> string option \<Rightarrow> (world, status, admin_reply) prog" where
  "admin_send_campaign env su cid justification =
     (let st = app_state env in
      andthen (need_permission ''campaigns.write'' su) (\<lambda>_.
      andthen (map_err (\<lambda>_. NOT_FOUND) (get_campaign cid)) (\<lambda>c.
      andthen (if cg_campaign_type c = ''push'' then push_campaign st c else ret ()) (\<lambda>_.
      andthen (internal (update_campaign_status cid ''sent'')) (\<lambda>_.
      ret (audited_reply (JObj [(''id'', json_uuid st cid), (''status'', JStr ''sent'')]) (uuid_text st cid)
             (Some (or_default ''send campaign'' justification))))))))"

definition admin_list_templates :: "'t admin_env \<Rightarrow> staff_user \<Rightarrow> (world, status, admin_reply) prog" where
  "admin_list_templates env su =
     (let st = app_state env in
      andthen (need_permission ''templates.read'' su) (\<lambda>_.
      andthen (internal (list_template_rows st)) (\<lambda>rows.
      ret (plain_reply (JObj [(''templates'', JArr (map (\<lambda>r. JObj
        [(''id'', json_uuid st (nt_id r)), (''key'', JStr (nt_key r)), (''name'', JStr (nt_name r)), (''channel'', JStr (nt_channel r)),
         (''title_template'', JStr (nt_title_template r)), (''body_template'', JStr (nt_body_template r)),
         (''active'', JBool (nt_active r)), (''created_at'', json_time st (nt_created_at r)),
         (''updated_at'', json_time st (nt_updated_at r))]) rows))])))))"

definition admin_upsert_template ::
    "'t admin_env \<Rightarrow> staff_user \<Rightarrow> string \<Rightarrow> string \<Rightarrow> string \<Rightarrow> string \<Rightarrow> string \<Rightarrow> bool option
      \<Rightarrow> (world, status, admin_reply) prog" where
  "admin_upsert_template env su key name channel title body active =
     andthen (need_permission ''templates.write'' su) (\<lambda>_.
     andthen (internal (upsert_template_row key name channel title body (or_default True active))) (\<lambda>_.
     ret (audited_reply (JObj [(''key'', JStr key)]) key (Some key))))"

section \<open>Abuse rules\<close>

definition admin_list_abuse :: "'t admin_env \<Rightarrow> staff_user \<Rightarrow> (world, status, admin_reply) prog" where
  "admin_list_abuse env su =
     (let st = app_state env in
      andthen (need_permission ''abuse.read'' su) (\<lambda>_.
      andthen (internal (list_abuse_rows st)) (\<lambda>rows.
      ret (plain_reply (JObj [(''abuse_rules'', JArr (map (\<lambda>r. JObj
        [(''id'', json_uuid st (ru_id r)), (''name'', JStr (ru_name r)), (''rule_type'', JStr (ru_rule_type r)),
         (''config'', ru_config r), (''action'', JStr (ru_action r)), (''enabled'', JBool (ru_enabled r)),
         (''created_at'', json_time st (ru_created_at r)), (''updated_at'', json_time st (ru_updated_at r))]) rows))])))))"

definition admin_upsert_abuse ::
    "'t admin_env \<Rightarrow> staff_user \<Rightarrow> string \<Rightarrow> string \<Rightarrow> json \<Rightarrow> string \<Rightarrow> bool option \<Rightarrow> (world, status, admin_reply) prog" where
  "admin_upsert_abuse env su name rule_type config action enabled =
     andthen (need_permission ''abuse.write'' su) (\<lambda>_.
     andthen (internal (upsert_abuse_row name rule_type config action (or_default True enabled))) (\<lambda>_.
     ret (audited_reply (JObj [(''name'', JStr name)]) name (Some name))))"

definition admin_delete_abuse :: "'t admin_env \<Rightarrow> staff_user \<Rightarrow> uuid \<Rightarrow> (world, status, admin_reply) prog" where
  "admin_delete_abuse env su rid =
     andthen (need_permission ''abuse.write'' su) (\<lambda>_.
     andthen (internal (delete_abuse_row rid)) (\<lambda>_. ret (deleted_reply (uuid_text (app_state env) rid))))"

section \<open>API keys\<close>

definition admin_list_api_keys :: "'t admin_env \<Rightarrow> staff_user \<Rightarrow> (world, status, admin_reply) prog" where
  "admin_list_api_keys env su =
     (let st = app_state env in
      andthen (need_permission ''apikeys.read'' su) (\<lambda>_.
      andthen (internal list_api_key_rows) (\<lambda>rows.
      ret (plain_reply (JObj [(''api_keys'', JArr (map (\<lambda>r. JObj
        [(''id'', json_uuid st (kr_id r)), (''name'', JStr (kr_name r)), (''key_prefix'', JStr (kr_key_prefix r)),
         (''permissions'', json_strs (kr_permissions r)), (''rate_limit_rps'', json_int (kr_rate_limit_rps r)),
         (''active'', JBool (kr_active r)), (''created_by'', json_opt (json_uuid st) (kr_created_by r)),
         (''last_used_at'', json_opt (json_time st) (kr_last_used_at r)), (''created_at'', json_time st (kr_created_at r)),
         (''expires_at'', json_opt (json_time st) (kr_expires_at r))]) rows))])))))"

text \<open>The random bytes (64 of them) are the key in base64url, their SHA-256 in base64url is what is
  stored, and the first eight characters of the key are its prefix.\<close>

definition admin_create_api_key ::
    "'t admin_env \<Rightarrow> staff_user \<Rightarrow> string \<Rightarrow> string list \<Rightarrow> int option \<Rightarrow> (world, status, admin_reply) prog" where
  "admin_create_api_key env su name permissions rps =
     (let st = app_state env; b64 = b64_encode (macs env) in
      andthen (need_permission ''apikeys.write'' su) (\<lambda>_.
      andthen (draw (rng_bytes st)) (\<lambda>raw.
      let prefix = take 8 (b64 raw); rate_limit = or_default 10 rps in
      andthen (internal (create_api_key_row name (b64 (sha256 st raw)) prefix permissions rate_limit (su_id su))) (\<lambda>kid.
      ret (audited_reply (JObj
        [(''id'', json_uuid st kid), (''name'', JStr name), (''key_prefix'', JStr prefix), (''api_key'', JStr (b64 raw)),
         (''permissions'', json_strs permissions), (''rate_limit_rps'', json_int rate_limit)]) (uuid_text st kid) (Some name))))))"

definition admin_revoke_api_key :: "'t admin_env \<Rightarrow> staff_user \<Rightarrow> uuid \<Rightarrow> (world, status, admin_reply) prog" where
  "admin_revoke_api_key env su kid =
     (let st = app_state env in
      andthen (need_permission ''apikeys.write'' su) (\<lambda>_.
      andthen (map_err (\<lambda>_. NOT_FOUND) (revoke_api_key_row kid)) (\<lambda>_.
      ret (audited_reply (JObj [(''id'', json_uuid st kid), (''active'', JBool False)]) (uuid_text st kid) (Some ''revoke'')))))"

section \<open>Webhooks\<close>

definition admin_list_webhooks :: "'t admin_env \<Rightarrow> staff_user \<Rightarrow> (world, status, admin_reply) prog" where
  "admin_list_webhooks env su =
     (let st = app_state env in
      andthen (need_permission ''webhooks.read'' su) (\<lambda>_.
      andthen (internal list_webhook_rows) (\<lambda>rows.
      ret (plain_reply (JObj [(''webhooks'', JArr (map (\<lambda>r. JObj
        [(''id'', json_uuid st (wr_id r)), (''name'', JStr (wr_name r)), (''url'', JStr (wr_url r)), (''events'', json_strs (wr_events r)),
         (''active'', JBool (wr_active r)), (''created_at'', json_time st (wr_created_at r)),
         (''updated_at'', json_time st (wr_updated_at r)), (''created_by'', json_opt (json_uuid st) (wr_created_by r))]) rows))])))))"

definition admin_create_webhook ::
    "'t admin_env \<Rightarrow> staff_user \<Rightarrow> string \<Rightarrow> string \<Rightarrow> string list \<Rightarrow> string option \<Rightarrow> (world, status, admin_reply) prog" where
  "admin_create_webhook env su name url topics secret =
     (let st = app_state env in
      andthen (need_permission ''webhooks.write'' su) (\<lambda>_.
      andthen (internal (create_webhook_row name url topics secret (su_id su))) (\<lambda>hid.
      ret (audited_reply (JObj [(''id'', json_uuid st hid), (''name'', JStr name), (''url'', JStr url)])
             (uuid_text st hid) (Some name)))))"

definition admin_delete_webhook :: "'t admin_env \<Rightarrow> staff_user \<Rightarrow> uuid \<Rightarrow> (world, status, admin_reply) prog" where
  "admin_delete_webhook env su hid =
     andthen (need_permission ''webhooks.write'' su) (\<lambda>_.
     andthen (internal (delete_webhook_row hid)) (\<lambda>_. ret (deleted_reply (uuid_text (app_state env) hid))))"

section \<open>History of the configuration\<close>

definition admin_list_versions ::
    "'t admin_env \<Rightarrow> staff_user \<Rightarrow> string option \<Rightarrow> int option \<Rightarrow> (world, status, admin_reply) prog" where
  "admin_list_versions env su entity_type limit =
     (let st = app_state env in
      andthen (need_permission ''config.read'' su) (\<lambda>_.
      andthen (internal (list_version_rows entity_type (nat (max 1 (min 500 (or_default 50 limit)))))) (\<lambda>rows.
      ret (plain_reply (JObj [(''config_versions'', JArr (map (\<lambda>r. JObj
        [(''id'', json_uuid st (vn_id r)), (''entity_type'', JStr (vn_entity_type r)), (''entity_key'', JStr (vn_entity_key r)),
         (''previous_value'', vn_previous_value r), (''new_value'', vn_new_value r), (''changed_by'', json_uuid st (vn_changed_by r)),
         (''rolled_back'', JBool (vn_rolled_back r)), (''created_at'', json_time st (vn_created_at r))]) rows))])))))"

text \<open>The handler looks for \<^verbatim>\<open>not found\<close> in the text of the error.\<close>

definition rollback_status :: "'t admin_env \<Rightarrow> anyhow \<Rightarrow> status" where
  "rollback_status env e = (if sublist ''not found'' (anyhow_text env e) then NOT_FOUND else BAD_REQUEST)"

definition admin_rollback_version ::
    "'t admin_env \<Rightarrow> staff_user \<Rightarrow> uuid \<Rightarrow> string option \<Rightarrow> (world, status, admin_reply) prog" where
  "admin_rollback_version env su vid justification =
     (let st = app_state env in
      andthen (need_permission ''config.write'' su) (\<lambda>_.
      andthen (map_err (rollback_status env) (rollback_version vid)) (\<lambda>_.
      ret (audited_reply (JObj [(''version_id'', json_uuid st vid), (''rolled_back'', JBool True)]) (uuid_text st vid)
             (Some (or_default ''rollback'' justification))))))"

end
