(* ===== verification/EnterpriseSafety.thy ===== *)
theory EnterpriseSafety
  imports EnterpriseHandlers
begin

text \<open>
  The routes of the enterprise catalogue (\<^verbatim>\<open>api/src/admin/mod.rs\<close>) and what their requests do to the tables: the relation
  \<open>catalog_write\<close> lists the statements with the permission that guards each, and the contract
  \<open>catalog_guarantee\<close> says that they keep an invariant.
\<close>

section \<open>The requests\<close>

datatype enterprise_request =
    ListExperiments
  | UpsertExperiment string "string option" json bool "string option" "string option"
  | DeleteExperiment string
  | ListTranslations "string option"
  | UpsertTranslation string string string
  | ListCms "string option"
  | UpsertCms string "string option" "string option" string "string option" "bool option" "string option" "string option"
  | DeleteCms string
  | ListLegalDocs
  | CreateLegalDoc string string string string
  | ListCampaigns "string option"
  | CreateCampaign string string "string option" string "json option" "string option"
  | SendCampaign uuid "string option"
  | ListTemplates
  | UpsertTemplate string string string string string "bool option"
  | ListAbuseRules
  | UpsertAbuseRule string string json string "bool option"
  | DeleteAbuseRule uuid
  | ListApiKeys
  | CreateApiKey string "string list" "int option"
  | RevokeApiKey uuid
  | ListWebhooks
  | CreateWebhook string string "string list" "string option"
  | DeleteWebhook uuid
  | ListVersions "string option" "int option"
  | RollbackVersion uuid "string option"

fun enterprise_handler :: "'t admin_env \<Rightarrow> staff_user \<Rightarrow> enterprise_request \<Rightarrow> (world, status, admin_reply) prog" where
  "enterprise_handler env su ListExperiments = admin_list_experiments env su"
| "enterprise_handler env su (UpsertExperiment name description variants enabled starts ends) =
     admin_upsert_experiment env su name description variants enabled starts ends"
| "enterprise_handler env su (DeleteExperiment key) = admin_delete_experiment env su key"
| "enterprise_handler env su (ListTranslations locale) = admin_list_translations env su locale"
| "enterprise_handler env su (UpsertTranslation locale key val) = admin_upsert_translation env su locale key val"
| "enterprise_handler env su (ListCms locale) = admin_list_cms env su locale"
| "enterprise_handler env su (UpsertCms key content_type title body locale active publish expire) =
     admin_upsert_cms env su key content_type title body locale active publish expire"
| "enterprise_handler env su (DeleteCms key) = admin_delete_cms env su key"
| "enterprise_handler env su ListLegalDocs = admin_list_legal_docs env su"
| "enterprise_handler env su (CreateLegalDoc doc_type version title body) = admin_create_legal_doc env su doc_type version title body"
| "enterprise_handler env su (ListCampaigns status) = admin_list_campaigns env su status"
| "enterprise_handler env su (CreateCampaign name campaign_type title body target scheduled) =
     admin_create_campaign env su name campaign_type title body target scheduled"
| "enterprise_handler env su (SendCampaign cid justification) = admin_send_campaign env su cid justification"
| "enterprise_handler env su ListTemplates = admin_list_templates env su"
| "enterprise_handler env su (UpsertTemplate key name channel title body active) =
     admin_upsert_template env su key name channel title body active"
| "enterprise_handler env su ListAbuseRules = admin_list_abuse env su"
| "enterprise_handler env su (UpsertAbuseRule name rule_type config action enabled) =
     admin_upsert_abuse env su name rule_type config action enabled"
| "enterprise_handler env su (DeleteAbuseRule rid) = admin_delete_abuse env su rid"
| "enterprise_handler env su ListApiKeys = admin_list_api_keys env su"
| "enterprise_handler env su (CreateApiKey name permissions rps) = admin_create_api_key env su name permissions rps"
| "enterprise_handler env su (RevokeApiKey kid) = admin_revoke_api_key env su kid"
| "enterprise_handler env su ListWebhooks = admin_list_webhooks env su"
| "enterprise_handler env su (CreateWebhook name url topics secret) = admin_create_webhook env su name url topics secret"
| "enterprise_handler env su (DeleteWebhook hid) = admin_delete_webhook env su hid"
| "enterprise_handler env su (ListVersions entity_type limit) = admin_list_versions env su entity_type limit"
| "enterprise_handler env su (RollbackVersion vid justification) = admin_rollback_version env su vid justification"

fun enterprise_verb :: "enterprise_request \<Rightarrow> string" where
  "enterprise_verb (UpsertExperiment _ _ _ _ _ _) = ''POST''" | "enterprise_verb (DeleteExperiment _) = ''DELETE''"
| "enterprise_verb (UpsertTranslation _ _ _) = ''POST''" | "enterprise_verb (UpsertCms _ _ _ _ _ _ _ _) = ''POST''"
| "enterprise_verb (DeleteCms _) = ''DELETE''" | "enterprise_verb (CreateLegalDoc _ _ _ _) = ''POST''"
| "enterprise_verb (CreateCampaign _ _ _ _ _ _) = ''POST''" | "enterprise_verb (SendCampaign _ _) = ''POST''"
| "enterprise_verb (UpsertTemplate _ _ _ _ _ _) = ''POST''" | "enterprise_verb (UpsertAbuseRule _ _ _ _ _) = ''POST''"
| "enterprise_verb (DeleteAbuseRule _) = ''DELETE''" | "enterprise_verb (CreateApiKey _ _ _) = ''POST''"
| "enterprise_verb (RevokeApiKey _) = ''POST''" | "enterprise_verb (CreateWebhook _ _ _ _) = ''POST''"
| "enterprise_verb (DeleteWebhook _) = ''DELETE''" | "enterprise_verb (RollbackVersion _ _) = ''POST''"
| "enterprise_verb _ = ''GET''"

fun enterprise_needed :: "enterprise_request \<Rightarrow> string" where
  "enterprise_needed ListExperiments = ''experiments.read''" | "enterprise_needed (UpsertExperiment _ _ _ _ _ _) = ''experiments.write''"
| "enterprise_needed (DeleteExperiment _) = ''experiments.write''" | "enterprise_needed (ListTranslations _) = ''cms.read''"
| "enterprise_needed (UpsertTranslation _ _ _) = ''cms.write''" | "enterprise_needed (ListCms _) = ''cms.read''"
| "enterprise_needed (UpsertCms _ _ _ _ _ _ _ _) = ''cms.write''" | "enterprise_needed (DeleteCms _) = ''cms.write''"
| "enterprise_needed ListLegalDocs = ''cms.read''" | "enterprise_needed (CreateLegalDoc _ _ _ _) = ''cms.write''"
| "enterprise_needed (ListCampaigns _) = ''campaigns.read''" | "enterprise_needed (CreateCampaign _ _ _ _ _ _) = ''campaigns.write''"
| "enterprise_needed (SendCampaign _ _) = ''campaigns.write''" | "enterprise_needed ListTemplates = ''templates.read''"
| "enterprise_needed (UpsertTemplate _ _ _ _ _ _) = ''templates.write''" | "enterprise_needed ListAbuseRules = ''abuse.read''"
| "enterprise_needed (UpsertAbuseRule _ _ _ _ _) = ''abuse.write''" | "enterprise_needed (DeleteAbuseRule _) = ''abuse.write''"
| "enterprise_needed ListApiKeys = ''apikeys.read''" | "enterprise_needed (CreateApiKey _ _ _) = ''apikeys.write''"
| "enterprise_needed (RevokeApiKey _) = ''apikeys.write''" | "enterprise_needed ListWebhooks = ''webhooks.read''"
| "enterprise_needed (CreateWebhook _ _ _ _) = ''webhooks.write''" | "enterprise_needed (DeleteWebhook _) = ''webhooks.write''"
| "enterprise_needed (ListVersions _ _) = ''config.read''" | "enterprise_needed (RollbackVersion _ _) = ''config.write''"

lemmas enterprise_handler_defs = admin_list_experiments_def admin_upsert_experiment_def admin_delete_experiment_def
  admin_list_translations_def admin_upsert_translation_def admin_list_cms_def admin_upsert_cms_def admin_delete_cms_def
  admin_list_legal_docs_def admin_create_legal_doc_def admin_list_campaigns_def admin_create_campaign_def admin_send_campaign_def
  admin_list_templates_def admin_upsert_template_def admin_list_abuse_def admin_upsert_abuse_def admin_delete_abuse_def
  admin_list_api_keys_def admin_create_api_key_def admin_revoke_api_key_def admin_list_webhooks_def admin_create_webhook_def
  admin_delete_webhook_def admin_list_versions_def admin_rollback_version_def

lemmas enterprise_query_defs = list_experiments_def list_translations_def list_cms_rows_def list_legal_doc_rows_def
  list_campaign_rows_def get_campaign_def get_campaign_target_user_ids_def list_template_rows_def list_abuse_rows_def
  list_api_key_rows_def list_webhook_rows_def list_version_rows_def

lemmas enterprise_write_defs = upsert_experiment_row_def delete_experiment_row_def upsert_translation_row_def upsert_cms_row_def
  delete_cms_row_def create_legal_doc_row_def create_campaign_row_def update_campaign_status_def upsert_template_row_def
  upsert_abuse_row_def delete_abuse_row_def create_api_key_row_def revoke_api_key_row_def create_webhook_row_def
  delete_webhook_row_def rollback_version_def restore_value_def need_rows_def

section \<open>The statements they issue\<close>

inductive catalog_write :: "timestamp \<Rightarrow> db \<Rightarrow> string \<Rightarrow> db \<Rightarrow> bool" for t d where
  "catalog_write t d ''experiments.write'' (put_experiment key name description variants enabled start_at end_at t d)"
| "catalog_write t d ''experiments.write'' (drop_experiment key d)"
| "catalog_write t d ''cms.write'' (put_translation locale key val d)"
| "catalog_write t d ''cms.write'' (snd (upsert_cms_sql key content_type title body locale active publish_at expire_at sid t d))"
| "catalog_write t d ''cms.write'' (drop_cms key d)"
| "catalog_write t d ''cms.write'' (snd (create_legal_doc_sql doc_type version title body sid t d))"
| "catalog_write t d ''campaigns.write'' (snd (create_campaign_sql name campaign_type title body target scheduled_at sid t d))"
| "catalog_write t d ''campaigns.write'' (snd (set_campaign_status_sql cid ''sent'' t d))"
| "catalog_write t d ''templates.write'' (snd (upsert_template_sql key name channel title body active t d))"
| "catalog_write t d ''abuse.write'' (snd (upsert_abuse_sql name rule_type config action enabled t d))"
| "catalog_write t d ''abuse.write'' (drop_abuse rid d)"
| "catalog_write t d ''apikeys.write'' (snd (create_api_key_sql name key_hash key_prefix permissions rps sid t d))"
| "catalog_write t d ''apikeys.write'' (snd (revoke_api_key_sql kid t d))"
| "catalog_write t d ''webhooks.write'' (snd (create_webhook_sql name url topics secret sid t d))"
| "catalog_write t d ''webhooks.write'' (snd (delete_webhook_sql hid t d))"
| "catalog_write t d ''config.write'' (snd (set_flag_value_sql key val t d))"
| "catalog_write t d ''config.write'' (snd (set_config_value_sql key val t d))"
| "catalog_write t d ''config.write'' (snd (set_plan_description_sql key descr t d))"
| "catalog_write t d ''config.write'' (mark_rolled_back vid d)"

lemmas catalog_statement_defs = put_experiment_def drop_experiment_def put_translation_def upsert_cms_sql_def drop_cms_def
  create_legal_doc_sql_def create_campaign_sql_def set_campaign_status_sql_def upsert_template_sql_def upsert_abuse_sql_def
  drop_abuse_def create_api_key_sql_def revoke_api_key_sql_def create_webhook_sql_def delete_webhook_sql_def
  set_flag_value_sql_def set_config_value_sql_def set_plan_description_sql_def mark_rolled_back_def

text \<open>What they leave alone: everything but the catalogue, the flags, the configuration and the plans.\<close>

lemma catalog_frame:
  assumes "catalog_write t d p d'"
  shows "\<exists>e f c ps n. next_id d \<le> n \<and>
           d' = d\<lparr>office := (office d)\<lparr>enterprise := e, feature_flags := f, app_config := c\<rparr>, plans := ps, next_id := n\<rparr>"
proof -
  have same: "d\<lparr>office := o1, next_id := n\<rparr> = d\<lparr>office := o2, plans := ps, next_id := m\<rparr> \<longleftrightarrow> o1 = o2 \<and> plans d = ps \<and> n = m"
    "d\<lparr>office := o1\<rparr> = d\<lparr>office := o2, plans := ps, next_id := m\<rparr> \<longleftrightarrow> o1 = o2 \<and> plans d = ps \<and> next_id d = m"
    "d\<lparr>plans := qs\<rparr> = d\<lparr>office := o2, plans := ps, next_id := m\<rparr> \<longleftrightarrow> office d = o2 \<and> qs = ps \<and> next_id d = m"
    "d = d\<lparr>office := o2, plans := ps, next_id := m\<rparr> \<longleftrightarrow> office d = o2 \<and> plans d = ps \<and> next_id d = m" for o1 o2 n m ps qs
    by (cases d; auto)+
  have part: "\<exists>e f c. enterprise_update g x = x\<lparr>enterprise := e, feature_flags := f, app_config := c\<rparr>"
    "\<exists>e f c. feature_flags_update g1 x = x\<lparr>enterprise := e, feature_flags := f, app_config := c\<rparr>"
    "\<exists>e f c. app_config_update g2 x = x\<lparr>enterprise := e, feature_flags := f, app_config := c\<rparr>"
    "\<exists>e f c. x = x\<lparr>enterprise := e, feature_flags := f, app_config := c\<rparr>" for g g1 g2 and x :: office
    by (cases x; auto)+
  show ?thesis
    using assms by cases (auto simp: catalog_statement_defs Let_def same part)
qed

lemma catalog_frameE:
  assumes "catalog_write t d p d'"
  obtains e f c ps n where "next_id d \<le> n"
    "d' = d\<lparr>office := (office d)\<lparr>enterprise := e, feature_flags := f, app_config := c\<rparr>, plans := ps, next_id := n\<rparr>"
  using catalog_frame [OF assms] by blast

section \<open>The contract\<close>

text \<open>A handler stops without its permission, and asks for no other.\<close>

lemma need_permission_refuses: "p \<notin> set (su_permissions su) \<Longrightarrow> need_permission p su = throw FORBIDDEN"
  by (auto simp: need_permission_def reject_if_def list_ex_iff)

lemma enterprise_refuses:
  assumes "enterprise_needed req \<notin> set (su_permissions su)"
  shows "enterprise_handler env su req = throw FORBIDDEN"
  using assms by (cases req) (auto simp: enterprise_handler_defs need_permission_refuses andthen_def throw_def Let_def fun_eq_iff)

lemma enterprise_narrow:
  assumes "enterprise_needed req \<in> set (su_permissions su)"
  shows "enterprise_handler env (su\<lparr>su_permissions := [enterprise_needed req]\<rparr>) req = enterprise_handler env su req"
proof -
  have same: "need_permission p (su\<lparr>su_permissions := [p]\<rparr>) = need_permission p su" if "p \<in> set (su_permissions su)" for p
    using that by (auto simp: need_permission_def list_ex_iff)
  show ?thesis using assms by (cases req) (auto simp: enterprise_handler_defs same cong: if_cong)
qed

lemma push_keeps_stable: "keeps (stable I) (push_to st uid title body) w = stable I w"
  by (simp add: push_to_def)

lemma parse_iso_keeps: "keeps I (parse_iso st s) w = I w"
  by (simp add: parse_iso_def split: option.split)

lemma push_calm: "keeps calm (push_to st uid title body) w = calm w"
  by (simp add: push_to_def wp_rules)

lemma enterprise_calm:
  assumes "calm w"
  shows "keeps calm (enterprise_handler env su req) w"
proof -
  have push: "keeps calm (push_campaign st c) v" if "calm v" for st c v
    unfolding push_campaign_def get_campaign_target_user_ids_def using that
    by (intro keeps_bind keeps_for_each) (auto simp: push_calm calm_query)
  have key: "keeps calm (draw f) v = calm v" for f :: "nat \<Rightarrow> bytes" and v
    by (simp add: wp_rules)
  show ?thesis
    using assms
    by (cases req; simp only: enterprise_handler.simps;
        simp only: enterprise_handler_defs enterprise_query_defs enterprise_write_defs need_permission_def Let_def;
        auto simp: parse_iso_keeps key intro!: keeps_bind calm_stmt calm_query calm_update push)
qed

lemma enterprise_mutations:
  "enterprise_verb req \<noteq> ''GET'' \<Longrightarrow> enterprise_needed req \<noteq> ''legal.export'' \<and> enterprise_verb req \<in> set MUTATIONS"
  by (cases req) (simp_all add: MUTATIONS_def)

locale catalog_guarantee =
  fixes I :: "db \<Rightarrow> bool"
    and may :: "string \<Rightarrow> bool"
  assumes catalog_keeps: "I d \<Longrightarrow> may p \<Longrightarrow> catalog_write t d p d' \<Longrightarrow> I d'"
begin

lemma after_permission:
  assumes "stable I w" "\<forall>p \<in> set (su_permissions su). may p" "may perm \<Longrightarrow> keeps (stable I) m w"
  shows "keeps (stable I) (andthen (need_permission perm su) (\<lambda>_. m)) w"
  using assms by (auto simp: need_permission_def list_ex_iff intro!: wp_guard)

lemma catalog_stmt:
  assumes "stable I w" "may p" "\<And>t d. catalog_write t d p (snd (q t d))"
  shows "keeps (stable I) (stmt q) w"
  using assms(1) by (rule keeps_stmt) (rule catalog_keeps [OF _ assms(2,3)])

lemma catalog_update:
  assumes "stable I w" "may p" "\<And>t d. catalog_write t d p (f t d)"
  shows "keeps (stable I) (update f) w"
  using assms(1) by (rule keeps_update) (rule catalog_keeps [OF _ assms(2,3)])

lemma list_requests_keep:
  assumes "stable I w" "\<forall>p \<in> set (su_permissions su). may p"
  shows "keeps (stable I) (admin_list_experiments env su) w" "keeps (stable I) (admin_list_translations env su locale) w"
    "keeps (stable I) (admin_list_cms env su locale) w" "keeps (stable I) (admin_list_legal_docs env su) w"
    "keeps (stable I) (admin_list_campaigns env su status) w" "keeps (stable I) (admin_list_templates env su) w"
    "keeps (stable I) (admin_list_abuse env su) w" "keeps (stable I) (admin_list_api_keys env su) w"
    "keeps (stable I) (admin_list_webhooks env su) w" "keeps (stable I) (admin_list_versions env su entity_type limit) w"
  unfolding enterprise_handler_defs enterprise_query_defs Let_def
  by (rule after_permission [OF assms]; intro keeps_bind; simp add: keeps_query assms(1))+

lemma content_requests_keep:
  assumes "stable I w" "\<forall>p \<in> set (su_permissions su). may p"
  shows "keeps (stable I) (admin_upsert_experiment env su name description variants enabled starts ends) w"
    "keeps (stable I) (admin_delete_experiment env su key) w" "keeps (stable I) (admin_upsert_translation env su locale key val) w"
    "keeps (stable I) (admin_upsert_cms env su key content_type title body language active publish expire) w"
    "keeps (stable I) (admin_delete_cms env su key) w" "keeps (stable I) (admin_create_legal_doc env su doc_type version heading body) w"
    "keeps (stable I) (admin_upsert_template env su key name channel heading body active) w"
  unfolding enterprise_handler_defs enterprise_write_defs Let_def
  by (rule after_permission [OF assms]; intro keeps_bind;
      auto simp: parse_iso_keeps assms(1) intro: catalog_stmt catalog_update catalog_write.intros)+

lemma rule_requests_keep:
  assumes "stable I w" "\<forall>p \<in> set (su_permissions su). may p"
  shows "keeps (stable I) (admin_upsert_abuse env su name rule_type config action enabled) w"
    "keeps (stable I) (admin_delete_abuse env su rid) w" "keeps (stable I) (admin_create_api_key env su name permissions rps) w"
    "keeps (stable I) (admin_revoke_api_key env su kid) w" "keeps (stable I) (admin_create_webhook env su name url topics secret) w"
    "keeps (stable I) (admin_delete_webhook env su hid) w"
  unfolding enterprise_handler_defs enterprise_write_defs Let_def
  by (rule after_permission [OF assms]; intro keeps_bind;
      auto simp: assms(1) intro!: keeps_bind catalog_stmt catalog_update catalog_write.intros)+

lemma campaign_requests_keep:
  assumes "stable I w" "\<forall>p \<in> set (su_permissions su). may p"
  shows "keeps (stable I) (admin_create_campaign env su name campaign_type title body target scheduled) w"
    "keeps (stable I) (admin_send_campaign env su cid justification) w"
proof -
  show "keeps (stable I) (admin_create_campaign env su name campaign_type title body target scheduled) w"
    unfolding enterprise_handler_defs enterprise_write_defs Let_def
    by (rule after_permission [OF assms]; intro keeps_bind;
        auto simp: parse_iso_keeps assms(1) intro: catalog_stmt catalog_write.intros)
  have push: "keeps (stable I) (push_campaign st c) v" if "stable I v" for st c v
    unfolding push_campaign_def get_campaign_target_user_ids_def using that
    by (intro keeps_bind keeps_for_each) (auto simp: push_keeps_stable keeps_query)
  show "keeps (stable I) (admin_send_campaign env su cid justification) w"
    unfolding admin_send_campaign_def get_campaign_def update_campaign_status_def Let_def
    by (rule after_permission [OF assms]; intro keeps_bind;
        auto simp: keeps_query assms(1) intro!: keeps_bind push catalog_stmt catalog_write.intros)
qed

lemma rollback_keeps:
  assumes "stable I w" "\<forall>p \<in> set (su_permissions su). may p"
  shows "keeps (stable I) (admin_rollback_version env su vid justification) w"
proof -
  have rows: "keeps (stable I) (need_rows q what) v"
    if "stable I v" "may ''config.write''" "\<And>t d. catalog_write t d ''config.write'' (snd (q t d))" for q what v
    unfolding need_rows_def using that by (intro keeps_bind) (auto intro: catalog_stmt)
  have restore: "keeps (stable I) (restore_value c) v" if "stable I v" "may ''config.write''" for c v
    unfolding restore_value_def Let_def using that by (auto intro!: rows catalog_write.intros)
  have "keeps (stable I) (rollback_version vid) w" if may: "may ''config.write''"
    unfolding rollback_version_def
    by (intro keeps_bind) (auto simp: keeps_query assms(1) intro!: restore may intro: catalog_update [OF _ may] catalog_write.intros)
  then show ?thesis
    unfolding admin_rollback_version_def Let_def
    by (intro after_permission [OF assms] keeps_bind) simp_all
qed

lemma enterprise_keeps:
  assumes "stable I w" "\<forall>p \<in> set (su_permissions su). may p"
  shows "keeps (stable I) (enterprise_handler env su req) w"
  by (cases req; simp only: enterprise_handler.simps;
      rule list_requests_keep [OF assms] content_requests_keep [OF assms] rule_requests_keep [OF assms]
        campaign_requests_keep [OF assms] rollback_keeps [OF assms])

end

end
