(* ===== verification/AdminSafety.thy ===== *)
theory AdminSafety
  imports AdminSupport EnterpriseSafety
begin

text \<open>
  The router of the staff area (\<^verbatim>\<open>api/src/admin/mod.rs\<close>), and what every staff request guarantees to
  the tables, whatever other connections do in between. The contract \<open>admin_guarantee\<close> lists the
  statements the handlers issue, each under the permission the handler asks for; its extension
  \<open>office_guarantee\<close> adds those of the staff login.
\<close>

section \<open>The router\<close>

datatype admin_request =
    ListUsers "string option" "int option" "int option"
  | GetUser uuid
  | BanUser uuid "string option"
  | SuspendUser uuid "string option"
  | ActivateUser uuid
  | ForceLogout uuid "string option"
  | ListAudit "uuid option" "string option" "int option" "int option"
  | ListReports "string option" "int option" "int option"
  | ReviewReport uuid
  | ResolveReport uuid string string "string option"
  | ListPendingPhotos "int option" "int option"
  | ApprovePhoto uuid
  | RejectPhoto uuid
  | ListCsam "string option" "int option" "int option"
  | ReportCsam uuid "string option"
  | ListEntitlements uuid
  | ManageEntitlement uuid string string
  | ListDataRequests "string option" "int option" "int option"
  | ProcessDataRequest uuid string "string option"
  | LegalExport uuid string string
  | PlaceHold uuid string "string option"
  | ReleaseHold uuid string
  | ListFlags
  | UpsertFlag string json "string option" bool
  | DeleteFlag string
  | ListConfig
  | UpsertConfig string json
  | ListPlans
  | UpsertPlan string string int bool "string option"
  | ListPlanFeatures string
  | UpsertPlanFeature string string bool "int option"
  | DeletePlanFeature string string
  | UpsertPlanPrice string string string "string option" "string option" "string option"
  | ListCountries
  | GetCountry string
  | UpsertCountry string country_config
  | AnalyticsOverview
  | Enterprise enterprise_request

fun admin_handler :: "'t admin_env \<Rightarrow> staff_user \<Rightarrow> admin_request \<Rightarrow> (world, status, admin_reply) prog" where
  "admin_handler env su (ListUsers q n k) = admin_list_users env su q n k"
| "admin_handler env su (GetUser uid) = admin_get_user env su uid"
| "admin_handler env su (BanUser uid reason) = ban_user env su uid reason"
| "admin_handler env su (SuspendUser uid reason) = suspend_user env su uid reason"
| "admin_handler env su (ActivateUser uid) = activate_user env su uid"
| "admin_handler env su (ForceLogout uid reason) = force_logout_user env su uid reason"
| "admin_handler env su (ListAudit sid action n k) = admin_list_audit env su sid action n k"
| "admin_handler env su (ListReports status n k) = admin_list_reports env su status n k"
| "admin_handler env su (ReviewReport rid) = review_report env su rid"
| "admin_handler env su (ResolveReport rid resolution action note) = resolve_report env su rid resolution action note"
| "admin_handler env su (ListPendingPhotos n k) = admin_list_pending_photos env su n k"
| "admin_handler env su (ApprovePhoto pid) = approve_photo env su pid"
| "admin_handler env su (RejectPhoto pid) = reject_photo env su pid"
| "admin_handler env su (ListCsam status n k) = admin_list_csam_hits env su status n k"
| "admin_handler env su (ReportCsam hid notes) = report_csam_hit env su hid notes"
| "admin_handler env su (ListEntitlements uid) = admin_list_entitlements env su uid"
| "admin_handler env su (ManageEntitlement uid feature action) = manage_entitlement env su uid feature action"
| "admin_handler env su (ListDataRequests status n k) = admin_list_data_requests env su status n k"
| "admin_handler env su (ProcessDataRequest rid status notes) = process_data_request env su rid status notes"
| "admin_handler env su (LegalExport uid justification basis) = legal_export env su uid justification basis"
| "admin_handler env su (PlaceHold uid reason reference) = place_legal_hold env su uid reason reference"
| "admin_handler env su (ReleaseHold hid reason) = release_legal_hold env su hid reason"
| "admin_handler env su ListFlags = admin_list_flags env su"
| "admin_handler env su (UpsertFlag key val description enabled) = admin_upsert_flag env su key val description enabled"
| "admin_handler env su (DeleteFlag key) = admin_delete_flag env su key"
| "admin_handler env su ListConfig = admin_list_config env su"
| "admin_handler env su (UpsertConfig key val) = admin_upsert_config env su key val"
| "admin_handler env su ListPlans = admin_list_plans env su"
| "admin_handler env su (UpsertPlan code name tier active description) = admin_upsert_plan env su code name tier active description"
| "admin_handler env su (ListPlanFeatures code) = admin_list_plan_features env su code"
| "admin_handler env su (UpsertPlanFeature code feature enabled limit) = admin_upsert_plan_feature env su code feature enabled limit"
| "admin_handler env su (DeletePlanFeature code feature) = admin_delete_plan_feature env su code feature"
| "admin_handler env su (UpsertPlanPrice code country currency monthly yearly product) =
     admin_upsert_plan_price env su code country currency monthly yearly product"
| "admin_handler env su ListCountries = admin_list_countries env su"
| "admin_handler env su (GetCountry code) = admin_get_country env su code"
| "admin_handler env su (UpsertCountry code body) = admin_upsert_country env su code body"
| "admin_handler env su AnalyticsOverview = admin_analytics_overview env su"
| "admin_handler env su (Enterprise req) = enterprise_handler env su req"

fun admin_verb :: "admin_request \<Rightarrow> string" where
  "admin_verb (BanUser _ _) = ''POST''" | "admin_verb (SuspendUser _ _) = ''POST''"
| "admin_verb (ActivateUser _) = ''POST''" | "admin_verb (ForceLogout _ _) = ''POST''"
| "admin_verb (ReviewReport _) = ''POST''" | "admin_verb (ResolveReport _ _ _ _) = ''POST''"
| "admin_verb (ApprovePhoto _) = ''POST''" | "admin_verb (RejectPhoto _) = ''POST''"
| "admin_verb (ReportCsam _ _) = ''POST''" | "admin_verb (ManageEntitlement _ _ _) = ''POST''"
| "admin_verb (ProcessDataRequest _ _ _) = ''POST''" | "admin_verb (PlaceHold _ _ _) = ''POST''"
| "admin_verb (ReleaseHold _ _) = ''POST''" | "admin_verb (UpsertFlag _ _ _ _) = ''POST''"
| "admin_verb (DeleteFlag _) = ''DELETE''" | "admin_verb (UpsertConfig _ _) = ''POST''"
| "admin_verb (UpsertPlan _ _ _ _ _) = ''POST''" | "admin_verb (UpsertPlanFeature _ _ _ _) = ''POST''"
| "admin_verb (DeletePlanFeature _ _) = ''DELETE''" | "admin_verb (UpsertPlanPrice _ _ _ _ _ _) = ''POST''"
| "admin_verb (UpsertCountry _ _) = ''POST''" | "admin_verb (Enterprise req) = enterprise_verb req"
| "admin_verb _ = ''GET''"

definition admin_route ::
    "'t admin_env \<Rightarrow> string option \<Rightarrow> string \<Rightarrow> admin_request \<Rightarrow> (world, status, admin_reply) prog" where
  "admin_route env authorization path req =
     (let run = andthen (staff_auth env authorization) (\<lambda>su. admin_handler env su req)
      in if admin_verb req = ''GET'' then run else audit_mutation env (admin_verb req) path authorization run)"

text \<open>All that the staff area answers: the login, the second factor, the logout and the endpoints.\<close>

datatype staff_request =
    SignIn "string option" "string option" string string
  | SecondFactor "string option" "string option" "string option" string string
  | SignOut "string option" string
  | Admin "string option" string admin_request

fun staff_route :: "'t admin_env \<Rightarrow> staff_request \<Rightarrow> (world, status, unit) prog" where
  "staff_route env (SignIn forwarded real_ip email password) = andthen (staff_login env forwarded real_ip email password) (\<lambda>_. ret ())"
| "staff_route env (SecondFactor forwarded real_ip agent mfa code) = andthen (two_factor env forwarded real_ip agent mfa code) (\<lambda>_. ret ())"
| "staff_route env (SignOut authorization sess) = andthen (staff_logout env authorization sess) (\<lambda>_. ret ())"
| "staff_route env (Admin authorization path req) = andthen (admin_route env authorization path req) (\<lambda>_. ret ())"

inductive office_step :: "'t admin_env \<Rightarrow> world \<Rightarrow> world \<Rightarrow> bool" for env where
  "office_step env w (snd (staff_route env r w))"

inductive_cases office_stepE: "office_step env w w'"

lemma office_run: "(office_step env)\<^sup>*\<^sup>* w (snd (staff_route env r w))"
  by (rule r_into_rtranclp) (rule office_step.intros)

text \<open>The permission each endpoint is documented to need.\<close>

fun needed :: "admin_request \<Rightarrow> string" where
  "needed (ListUsers _ _ _) = ''user.view''" | "needed (GetUser _) = ''user.view''"
| "needed (BanUser _ _) = ''user.ban''" | "needed (SuspendUser _ _) = ''user.suspend''"
| "needed (ActivateUser _) = ''user.activate''" | "needed (ForceLogout _ _) = ''user.force_logout''"
| "needed (ListAudit _ _ _ _) = ''audit.read''" | "needed (ListReports _ _ _) = ''reports.view''"
| "needed (ReviewReport _) = ''reports.resolve''" | "needed (ResolveReport _ _ _ _) = ''reports.resolve''"
| "needed (ListPendingPhotos _ _) = ''photos.moderate''" | "needed (ApprovePhoto _) = ''photos.moderate''"
| "needed (RejectPhoto _) = ''photos.moderate''" | "needed (ListCsam _ _ _) = ''csam.view''"
| "needed (ReportCsam _ _) = ''csam.report''" | "needed (ListEntitlements _) = ''entitlements.view''"
| "needed (ManageEntitlement _ _ _) = ''entitlements.manage''" | "needed (ListDataRequests _ _ _) = ''dsar.view''"
| "needed (ProcessDataRequest _ _ _) = ''dsar.process''" | "needed (LegalExport _ _ _) = ''legal.export''"
| "needed (PlaceHold _ _ _) = ''legal.hold''" | "needed (ReleaseHold _ _) = ''legal.hold''"
| "needed ListFlags = ''flags.read''" | "needed (UpsertFlag _ _ _ _) = ''flags.write''"
| "needed (DeleteFlag _) = ''flags.write''" | "needed ListConfig = ''config.read''"
| "needed (UpsertConfig _ _) = ''config.write''" | "needed ListPlans = ''plans.read''"
| "needed (UpsertPlan _ _ _ _ _) = ''plans.write''" | "needed (ListPlanFeatures _) = ''plans.read''"
| "needed (UpsertPlanFeature _ _ _ _) = ''plans.write''" | "needed (DeletePlanFeature _ _) = ''plans.write''"
| "needed (UpsertPlanPrice _ _ _ _ _ _) = ''plans.write''" | "needed ListCountries = ''countries.read''"
| "needed (GetCountry _) = ''countries.read''" | "needed (UpsertCountry _ _) = ''countries.write''"
| "needed AnalyticsOverview = ''config.read''" | "needed (Enterprise req) = enterprise_needed req"

text \<open>A header grants a permission when its token decodes, at some time, to claims that list it.\<close>

definition grants :: "'t admin_env \<Rightarrow> string option \<Rightarrow> string \<Rightarrow> bool" where
  "grants env authorization perm \<longleftrightarrow>
     (\<exists>header token claims t. authorization = Some header \<and> strip_prefix ''Bearer '' header = Some token
        \<and> staff_decode env (admin_jwt_secret env) ''admin'' 30 t token = Some claims \<and> perm \<in> set (sc_permissions claims))"

lemmas admin_handler_defs = admin_list_users_def admin_get_user_def ban_user_def suspend_user_def activate_user_def
  force_logout_user_def admin_list_audit_def admin_list_reports_def review_report_def resolve_report_def
  admin_list_pending_photos_def approve_photo_def reject_photo_def decide_photo_def admin_list_csam_hits_def
  report_csam_hit_def admin_list_entitlements_def manage_entitlement_def admin_list_data_requests_def
  process_data_request_def legal_export_def place_legal_hold_def release_legal_hold_def admin_list_flags_def
  admin_upsert_flag_def admin_delete_flag_def admin_list_config_def admin_upsert_config_def admin_list_plans_def
  admin_upsert_plan_def admin_list_plan_features_def admin_upsert_plan_feature_def admin_delete_plan_feature_def
  admin_upsert_plan_price_def admin_list_countries_def admin_get_country_def admin_upsert_country_def
  admin_analytics_overview_def

lemmas admin_query_defs = search_users_def count_users_by_status_def find_user_full_def search_audit_log_def list_report_rows_def
  find_report_by_id_def list_pending_photo_rows_def list_csam_rows_def list_subscription_rows_def list_entitlement_rows_def
  list_data_request_rows_def build_legal_dossier_def find_user_by_id_def list_access_events_def list_reports_where_def
  list_legal_holds_def list_feature_flags_def list_app_config_def list_plan_rows_def list_plan_features_def
  list_country_rows_def get_country_row_def get_analytics_overview_def

lemmas admin_statement_defs = update_user_status_def revoke_all_refresh_def update_report_status_def resolve_report_row_def
  create_moderation_action_def update_photo_moderation_def report_csam_row_def grant_entitlement_def revoke_entitlement_def
  update_data_request_def place_legal_hold_row_def release_legal_hold_row_def upsert_feature_flag_def delete_feature_flag_def
  upsert_app_config_def upsert_plan_def upsert_plan_feature_def delete_plan_feature_def upsert_plan_price_def
  upsert_country_row_def

text \<open>A handler stops without its permission.\<close>

lemma handler_refuses:
  assumes "needed req \<notin> set (su_permissions su)"
  shows "admin_handler env su req = throw FORBIDDEN"
proof -
  have "need_permission p su = throw FORBIDDEN" if "p \<notin> set (su_permissions su)" for p
    using that by (auto simp: need_permission_def reject_if_def list_ex_iff)
  then show ?thesis
    using assms by (cases req) (auto simp: admin_handler_defs enterprise_refuses andthen_def throw_def Let_def fun_eq_iff)
qed

lemma handler_narrow:
  assumes "needed req \<in> set (su_permissions su)"
  shows "admin_handler env (su\<lparr>su_permissions := [needed req]\<rparr>) req = admin_handler env su req"
proof -
  have same: "need_permission p (su\<lparr>su_permissions := [p]\<rparr>) = need_permission p su" if "p \<in> set (su_permissions su)" for p
    using that by (auto simp: need_permission_def list_ex_iff)
  have acts: "take_action (su\<lparr>su_permissions := ps\<rparr>) = take_action su" for ps
    by (intro ext) (simp add: take_action_def)
  show ?thesis
    using assms by (cases req) (auto simp: admin_handler_defs enterprise_narrow same acts cong: if_cong)
qed

text \<open>The extractor hands on the permissions of the token; the audit adds a row, whatever the answer.\<close>

lemma staff_auth_granted:
  assumes "stable I w"
  shows "wp (staff_auth env h) (\<lambda>su v. stable I v \<and> (\<forall>p \<in> set (su_permissions su). grants env h p)) (\<lambda>_. stable I) w"
  unfolding staff_auth_def staff_jwt_verify_def find_active_session_def wp_andthen wp_map_err
  using assms by (auto simp: wp_rules grants_def intro!: wp_query_stable [where I = I] split: option.split) blast

lemma staff_auth_keeps: "stable I w \<Longrightarrow> keeps (stable I) (staff_auth env h) w"
  by (rule wp_mono [OF staff_auth_granted]) auto

lemma audit_mutation_answers:
  assumes "stable I w"
    and audit: "\<And>sid sess action target justification basis t d.
           I d \<Longrightarrow> I (snd (insert_audit_sql sid sess action target justification basis t d))"
    and run: "\<And>v. stable I v \<Longrightarrow> wp m (\<lambda>_ u. stable I u \<and> fine) (\<lambda>_. stable I) v"
  shows "wp (audit_mutation env verb path h m) (\<lambda>_ u. stable I u \<and> fine) (\<lambda>_. stable I) w"
  unfolding audit_mutation_def
proof (rule wp_bind [where R = "\<lambda>_. stable I"])
  show "wp (attempt (staff_auth env h)) (\<lambda>_. stable I) (\<lambda>_. stable I) w"
    using staff_auth_keeps [OF assms(1)] by simp
next
  fix who v assume v: "stable I v"
  have response: "wp (attempt m) (\<lambda>x u. stable I u \<and> (isl x \<or> fine)) (\<lambda>_. stable I) v"
    unfolding wp_attempt by (rule wp_mono [OF run [OF v]]) auto
  show "wp (andthen (attempt m) (\<lambda>response.
         andthen (case who of Inl _ \<Rightarrow> ret () | Inr su \<Rightarrow> if verb \<in> set MUTATIONS
            then andthen (attempt (stmt (insert_audit_sql (su_id su) (su_session su) (verb @ '':'' @ path)
                         (case response of Inl _ \<Rightarrow> None | Inr r \<Rightarrow> ar_target r)
                         (case response of Inl _ \<Rightarrow> None | Inr r \<Rightarrow> ar_justification r) None))) (\<lambda>_ :: db_error + unit. ret ())
            else ret ()) (\<lambda>_. case response of Inl e \<Rightarrow> throw e | Inr r \<Rightarrow> ret r)))
       (\<lambda>_ u. stable I u \<and> fine) (\<lambda>_. stable I) v"
  proof (rule wp_bind [OF response], rule wp_bind [where R = "\<lambda>_. stable I"])
    fix x :: "status + admin_reply" and u assume "stable I u \<and> (isl x \<or> fine)"
    then show "keeps (stable I) (case who of Inl _ \<Rightarrow> ret () | Inr su \<Rightarrow> if verb \<in> set MUTATIONS
            then andthen (attempt (stmt (insert_audit_sql (su_id su) (su_session su) (verb @ '':'' @ path)
                         (case x of Inl _ \<Rightarrow> None | Inr r \<Rightarrow> ar_target r)
                         (case x of Inl _ \<Rightarrow> None | Inr r \<Rightarrow> ar_justification r) None))) (\<lambda>_ :: db_error + unit. ret ())
            else ret ()) u"
      by (auto intro!: keeps_bind keeps_stmt audit split: sum.split)
  qed (auto simp: wp_rules split: sum.split)
qed

lemma audit_mutation_keeps:
  assumes "stable I w"
    and "\<And>sid sess action target justification basis t d.
           I d \<Longrightarrow> I (snd (insert_audit_sql sid sess action target justification basis t d))"
    and "\<And>v. stable I v \<Longrightarrow> keeps (stable I) m v"
  shows "keeps (stable I) (audit_mutation env verb path h m) w"
  using audit_mutation_answers [OF assms(1), of m True env verb path h] assms(2,3) by simp

section \<open>The contract\<close>

text \<open>The statuses a permission lets its holder give to a user.\<close>

definition may_set_status :: "(string \<Rightarrow> bool) \<Rightarrow> string \<Rightarrow> bool" where
  "may_set_status may s \<longleftrightarrow>
     may ''user.ban'' \<and> s = ''banned'' \<or> may ''user.suspend'' \<and> s = ''suspended'' \<or> may ''user.activate'' \<and> s = ''active''
     \<or> may ''reports.resolve'' \<and> s \<in> {''suspended'', ''banned''}"

locale admin_guarantee = catalog_guarantee I may for st :: app and I :: "db \<Rightarrow> bool" and may :: "string \<Rightarrow> bool" +
  assumes status_keeps: "I d \<Longrightarrow> may_set_status may s \<Longrightarrow> I (snd (update_user_status_sql uid s t d))"
    and sessions_keeps: "I d \<Longrightarrow> may ''user.force_logout'' \<Longrightarrow> I (revoke q t d)"
    and review_keeps: "I d \<Longrightarrow> may ''reports.resolve'' \<Longrightarrow> I (snd (set_report rid s id t d))"
    and resolve_keeps: "I d \<Longrightarrow> may ''reports.resolve'' \<Longrightarrow> I (snd (set_report rid s (rp_resolved_at_update (\<lambda>_. Some t)) t d))"
    and action_keeps: "I d \<Longrightarrow> may ''reports.resolve'' \<Longrightarrow> I (snd (create_moderation_action_sql sid target action note t d))"
    and photo_keeps: "I d \<Longrightarrow> may ''photos.moderate'' \<Longrightarrow> I (snd (update_photo_moderation_sql pid s t d))"
    and csam_keeps: "I d \<Longrightarrow> may ''csam.report'' \<Longrightarrow> I (mark_csam_reported hid notes t d)"
    and entitle_keeps: "I d \<Longrightarrow> may ''entitlements.manage'' \<Longrightarrow> I (snd (grant_entitlement_sql uid feature t d))"
    and disable_keeps: "I d \<Longrightarrow> may ''entitlements.manage'' \<Longrightarrow> I (disable_entitlement uid feature d)"
    and request_keeps: "I d \<Longrightarrow> may ''dsar.process'' \<Longrightarrow> I (snd (update_data_request_sql rid s t d))"
    and hold_keeps: "I d \<Longrightarrow> may ''legal.hold'' \<Longrightarrow> I (snd (place_legal_hold_sql uid sid reason reference t d))"
    and release_keeps: "I d \<Longrightarrow> may ''legal.hold'' \<Longrightarrow> I (snd (release_legal_hold_sql hid sid reason t d))"
    and flag_keeps: "I d \<Longrightarrow> may ''flags.write'' \<Longrightarrow> I (snd (upsert_feature_flag_sql key val description enabled sid t d))"
    and drop_flag_keeps: "I d \<Longrightarrow> may ''flags.write'' \<Longrightarrow> I (drop_feature_flag key d)"
    and config_keeps: "I d \<Longrightarrow> may ''config.write'' \<Longrightarrow> I (snd (upsert_app_config_sql key val sid t d))"
    and plan_keeps: "I d \<Longrightarrow> may ''plans.write'' \<Longrightarrow> I (d\<lparr>plans := upsert_by pl_code (\<lambda>_ r. r) p (plans d)\<rparr>)"
    and feature_keeps: "I d \<Longrightarrow> may ''plans.write'' \<Longrightarrow> I (snd (upsert_plan_feature_sql code feature enabled limit t d))"
    and drop_feature_keeps: "I d \<Longrightarrow> may ''plans.write'' \<Longrightarrow>
        I (d\<lparr>plan_features := delete_where (\<lambda>f. pf_plan_code f = code \<and> pf_feature f = feature) (plan_features d)\<rparr>)"
    and price_keeps: "I d \<Longrightarrow> may ''plans.write'' \<Longrightarrow>
        I (snd (upsert_plan_price_sql st code country currency monthly yearly product t d))"
    and country_keeps: "I d \<Longrightarrow> may ''countries.write'' \<Longrightarrow> I (put_country c d)"
    and export_log_keeps: "I d \<Longrightarrow> may ''legal.export'' \<Longrightarrow> I (snd (insert_audit_sql sid sess verb aim justification basis t d))"
begin

lemma set_status_keeps:
  assumes "stable I w" "may_set_status may s"
  shows "keeps (stable I) (set_status_reply env uid s justification) w"
  unfolding set_status_reply_def update_user_status_def
  using assms by (intro keeps_bind) (auto intro!: keeps_stmt status_keeps)

lemma user_requests_keep:
  assumes "stable I w" "\<forall>p \<in> set (su_permissions su). may p"
  shows "keeps (stable I) (ban_user env su uid reason) w" "keeps (stable I) (suspend_user env su uid reason) w"
    "keeps (stable I) (activate_user env su uid) w" "keeps (stable I) (force_logout_user env su uid reason) w"
  unfolding ban_user_def suspend_user_def activate_user_def force_logout_user_def revoke_all_refresh_def
  by (rule after_permission [OF assms];
      auto intro!: set_status_keeps keeps_bind keeps_update sessions_keeps simp: may_set_status_def assms(1))+

lemma moderation_requests_keep:
  assumes "stable I w" "\<forall>p \<in> set (su_permissions su). may p"
  shows "keeps (stable I) (review_report env su rid) w" "keeps (stable I) (resolve_report env su rid resolution action note) w"
    "keeps (stable I) (approve_photo env su pid) w" "keeps (stable I) (reject_photo env su pid) w"
    "keeps (stable I) (report_csam_hit env su hid notes) w"
proof -
  have status: "keeps (stable I) (update_user_status target s) v"
    if "stable I v" "may ''reports.resolve''" "s \<in> {''suspended'', ''banned''}" for target s v
    using that by (auto simp: update_user_status_def may_set_status_def intro!: keeps_stmt status_keeps)
  have act: "keeps (stable I) (take_action su target action note) v" if "stable I v" "may ''reports.resolve''" for target v
    unfolding take_action_def create_moderation_action_def using that
    by (intro keeps_bind) (auto intro!: keeps_stmt action_keeps status)
  show "keeps (stable I) (review_report env su rid) w" "keeps (stable I) (resolve_report env su rid resolution action note) w"
    unfolding review_report_def resolve_report_def find_report_by_id_def update_report_status_def resolve_report_row_def
    by (rule after_permission [OF assms];
        auto intro!: keeps_bind keeps_query act keeps_stmt review_keeps resolve_keeps simp: assms(1))+
  show "keeps (stable I) (approve_photo env su pid) w" "keeps (stable I) (reject_photo env su pid) w"
    unfolding approve_photo_def reject_photo_def decide_photo_def update_photo_moderation_def
    by (rule after_permission [OF assms]; auto intro!: keeps_bind keeps_stmt photo_keeps simp: assms(1))+
  show "keeps (stable I) (report_csam_hit env su hid notes) w"
    unfolding report_csam_hit_def report_csam_row_def
    by (rule after_permission [OF assms]) (auto intro!: keeps_bind keeps_update csam_keeps simp: assms(1))
qed

lemma support_requests_keep:
  assumes "stable I w" "\<forall>p \<in> set (su_permissions su). may p"
  shows "keeps (stable I) (manage_entitlement env su uid feature action) w"
    "keeps (stable I) (process_data_request env su rid status notes) w"
    "keeps (stable I) (place_legal_hold env su uid reason reference) w" "keeps (stable I) (release_legal_hold env su hid reason) w"
  unfolding manage_entitlement_def process_data_request_def place_legal_hold_def release_legal_hold_def
    grant_entitlement_def revoke_entitlement_def update_data_request_def place_legal_hold_row_def release_legal_hold_row_def
  by (rule after_permission [OF assms];
      auto intro!: keeps_bind keeps_update keeps_stmt entitle_keeps disable_keeps request_keeps hold_keeps release_keeps
        simp: assms(1))+

lemma config_requests_keep:
  assumes "stable I w" "\<forall>p \<in> set (su_permissions su). may p"
  shows "keeps (stable I) (admin_upsert_flag env su key val description enabled) w" "keeps (stable I) (admin_delete_flag env su key) w"
    "keeps (stable I) (admin_upsert_config env su key val) w" "keeps (stable I) (admin_upsert_country env su code body) w"
  unfolding admin_upsert_flag_def admin_delete_flag_def admin_upsert_config_def admin_upsert_country_def
    upsert_feature_flag_def delete_feature_flag_def upsert_app_config_def upsert_country_row_def
  by (rule after_permission [OF assms];
      auto intro!: keeps_bind keeps_update keeps_stmt flag_keeps drop_flag_keeps config_keeps country_keeps simp: assms(1))+

lemma plan_requests_keep:
  assumes "stable I w" "\<forall>p \<in> set (su_permissions su). may p" "app_state env = st"
  shows "keeps (stable I) (admin_upsert_plan env su code name tier active description) w"
    "keeps (stable I) (admin_upsert_plan_feature env su code feature enabled limit) w"
    "keeps (stable I) (admin_delete_plan_feature env su code feature) w"
    "keeps (stable I) (admin_upsert_plan_price env su code country currency monthly yearly product) w"
  unfolding admin_upsert_plan_def admin_upsert_plan_feature_def admin_delete_plan_feature_def admin_upsert_plan_price_def
    upsert_plan_def upsert_plan_feature_def delete_plan_feature_def upsert_plan_price_def assms(3)
  by (rule after_permission [OF assms(1,2)];
      auto intro!: keeps_bind keeps_update keeps_stmt plan_keeps feature_keeps drop_feature_keeps price_keeps simp: assms(1))+

lemma export_keeps:
  assumes "stable I w" "\<forall>p \<in> set (su_permissions su). may p"
  shows "keeps (stable I) (legal_export env su uid justification basis) w"
proof -
  have "keeps (stable I) (build_legal_dossier uid) v" if "stable I v" for v
    unfolding build_legal_dossier_def find_user_by_id_def list_access_events_def list_subscription_rows_def
      list_reports_where_def list_legal_holds_def
    using that by (intro keeps_bind) (auto intro!: keeps_query)
  then show ?thesis
    unfolding legal_export_def Let_def
    by (intro after_permission [OF assms] keeps_bind) (auto intro!: keeps_stmt export_log_keeps simp: assms(1))
qed

lemma reading_requests_keep:
  assumes "stable I w" "\<forall>p \<in> set (su_permissions su). may p"
  shows "keeps (stable I) (admin_list_users env su q n k) w" "keeps (stable I) (admin_get_user env su uid) w"
    "keeps (stable I) (admin_list_audit env su sid verb n k) w" "keeps (stable I) (admin_list_reports env su status n k) w"
    "keeps (stable I) (admin_list_pending_photos env su n k) w" "keeps (stable I) (admin_list_csam_hits env su status n k) w"
    "keeps (stable I) (admin_list_entitlements env su uid) w" "keeps (stable I) (admin_list_data_requests env su status n k) w"
    "keeps (stable I) (admin_list_flags env su) w" "keeps (stable I) (admin_list_config env su) w"
    "keeps (stable I) (admin_list_plans env su) w" "keeps (stable I) (admin_list_plan_features env su code) w"
    "keeps (stable I) (admin_list_countries env su) w" "keeps (stable I) (admin_get_country env su code) w"
    "keeps (stable I) (admin_analytics_overview env su) w"
  unfolding admin_list_users_def admin_get_user_def admin_list_audit_def admin_list_reports_def admin_list_pending_photos_def
    admin_list_csam_hits_def admin_list_entitlements_def admin_list_data_requests_def admin_list_flags_def
    admin_list_config_def admin_list_plans_def admin_list_plan_features_def admin_list_countries_def admin_get_country_def admin_analytics_overview_def
    search_users_def count_users_by_status_def find_user_full_def search_audit_log_def list_report_rows_def
    list_pending_photo_rows_def list_csam_rows_def list_subscription_rows_def list_entitlement_rows_def
    list_data_request_rows_def list_feature_flags_def list_app_config_def list_plan_rows_def list_plan_features_def
    list_country_rows_def get_country_row_def get_analytics_overview_def Let_def
  by (rule after_permission [OF assms];
      auto intro!: keeps_bind keeps_query simp: assms(1) split: prod.split)+

lemma handler_keeps:
  assumes "stable I w" "\<forall>p \<in> set (su_permissions su). may p" "app_state env = st"
  shows "keeps (stable I) (admin_handler env su req) w"
  by (cases req; simp only: admin_handler.simps;
      rule reading_requests_keep [OF assms(1,2)] user_requests_keep [OF assms(1,2)] moderation_requests_keep [OF assms(1,2)]
        support_requests_keep [OF assms(1,2)] config_requests_keep [OF assms(1,2)] plan_requests_keep [OF assms]
        export_keeps [OF assms(1,2)] enterprise_keeps [OF assms(1,2)])

text \<open>The permission of the endpoint is the only one that counts.\<close>

lemma endpoint_keeps:
  assumes "stable I w" "needed req \<in> set (su_permissions su) \<Longrightarrow> may (needed req)" "app_state env = st"
  shows "keeps (stable I) (admin_handler env su req) w"
proof (cases "needed req \<in> set (su_permissions su)")
  case True
  then show ?thesis
    using handler_keeps [OF assms(1) _ assms(3), of "su\<lparr>su_permissions := [needed req]\<rparr>" req] assms(2)
    by (simp add: handler_narrow)
qed (simp add: handler_refuses assms(1))

end

text \<open>With the audit log, and with the statements of the staff login.\<close>

locale office_guarantee = admin_guarantee +
  assumes audit_keeps: "I d \<Longrightarrow> I (snd (insert_audit_sql sid sess verb aim justification basis t d))"
    and failure_keeps: "I d \<Longrightarrow> I (snd (increment_failed_login_sql sid t d))"
    and login_keeps: "I d \<Longrightarrow> I (snd (update_last_login_sql st sid ip t d))"
    and open_keeps: "I d \<Longrightarrow> I (snd (create_session_sql st sid ends ip agent t d))"
    and close_keeps: "I d \<Longrightarrow> I (end_session sess reason t d)"
begin

lemma admin_route_keeps:
  assumes "stable I w" "grants env h (needed req) \<Longrightarrow> may (needed req)" "app_state env = st"
  shows "keeps (stable I) (admin_route env h path req) w"
proof -
  have run: "keeps (stable I) (andthen (staff_auth env h) (\<lambda>su. admin_handler env su req)) v" if "stable I v" for v
    by (rule wp_bind [OF staff_auth_granted [OF that]]) (use endpoint_keeps [OF _ _ assms(3)] assms(2) in auto)
  then show ?thesis using assms(1) by (simp add: admin_route_def Let_def audit_mutation_keeps audit_keeps)
qed

lemma staff_login_keeps:
  assumes "stable I w" "app_state env = st"
  shows "keeps (stable I) (staff_login env forwarded real_ip email password) w"
  unfolding staff_login_def find_staff_by_email_def increment_failed_login_def update_last_login_def assms(2)
  using assms(1)
  by (intro keeps_bind) (auto intro!: keeps_bind keeps_query keeps_stmt failure_keeps login_keeps split: sum.split bool.split)

lemma two_factor_keeps:
  assumes "stable I w" "app_state env = st"
  shows "keeps (stable I) (two_factor env forwarded real_ip agent mfa code) w"
  unfolding two_factor_def check_totp_def find_staff_by_id_def get_role_permissions_def create_session_def staff_jwt_issue_def assms(2)
  using assms(1)
  by (intro keeps_bind) (auto intro!: keeps_bind keeps_query keeps_stmt open_keeps split: sum.split)

lemma staff_logout_keeps:
  assumes "stable I w" "app_state env = st"
  shows "keeps (stable I) (staff_logout env h sess) w"
  unfolding staff_logout_def revoke_session_def assms(2)
  using assms(1) by (intro keeps_bind) (auto intro!: keeps_update staff_auth_keeps close_keeps)

lemma staff_route_keeps:
  assumes "stable I w" "\<And>h path req. r = Admin h path req \<Longrightarrow> grants env h (needed req) \<Longrightarrow> may (needed req)" "app_state env = st"
  shows "keeps (stable I) (staff_route env r) w"
  using assms
  by (cases r) (auto intro!: keeps_bind staff_login_keeps two_factor_keeps staff_logout_keeps admin_route_keeps)

lemma office_steps_keep:
  assumes "(office_step env)\<^sup>*\<^sup>* w w'" "stable I w" "\<And>p. may p" "app_state env = st"
  shows "stable I w'"
  using assms(1,2)
proof (induction rule: rtranclp_induct)
  case (step v v')
  then show ?case
    by (elim office_stepE, simp only:) (rule keeps_final, rule staff_route_keeps [OF _ _ assms(4)], simp_all add: assms(3))
qed

end

end
