(* ===== verification/StaffSample.thy ===== *)
theory StaffSample
  imports StaffAuth
begin

text \<open>
  A concrete staff area: instances of the external code on which what the model assumes of it holds,
  and tables with one staff member, for the witnesses of the theories on the staff area.
\<close>

section \<open>Tokens\<close>

text \<open>Self-delimiting texts, for the tokens of the concrete environment.\<close>

definition pack :: "string \<Rightarrow> string" where
  "pack s = concat (map (\<lambda>c. [CHR ''x'', c]) s) @ ''.''"

fun unpack :: "string \<Rightarrow> (string \<times> string) option" where
  "unpack (a # rest) =
     (if a = CHR ''.'' then Some ([], rest)
      else case rest of
             [] \<Rightarrow> None
           | c # cs \<Rightarrow> (case unpack cs of None \<Rightarrow> None | Some (s, t) \<Rightarrow> Some (c # s, t)))"
| "unpack [] = None"

fun unpack_all :: "nat \<Rightarrow> string \<Rightarrow> string list option" where
  "unpack_all 0 s = None"
| "unpack_all (Suc n) s =
     (if s = [] then Some []
      else case unpack s of
             None \<Rightarrow> None
           | Some (x, t) \<Rightarrow> (case unpack_all n t of None \<Rightarrow> None | Some xs \<Rightarrow> Some (x # xs)))"

lemma unpack_pack [simp]: "unpack (pack s @ t) = Some (s, t)"
  by (induction s) (auto simp: pack_def)

lemma pack_nonempty [simp]: "pack s \<noteq> []"
  by (simp add: pack_def)

lemma length_pack [simp]: "length (pack s) = 2 * length s + 1"
  by (induction s) (auto simp: pack_def)

lemma unpack_all_pack: "length (concat (map pack xs)) < n \<Longrightarrow> unpack_all n (concat (map pack xs)) = Some xs"
proof (induction n arbitrary: xs)
  case (Suc n)
  then show ?case by (cases xs) auto
qed simp

definition token_fields :: "string \<Rightarrow> staff_claims \<Rightarrow> string list" where
  "token_fields k c = [k, sc_aud c, show_int (sc_iat c), show_int (sc_exp c), sc_sub c, sc_jti c, sc_staff_role c] @ sc_permissions c"

definition plain_encode :: "string \<Rightarrow> staff_claims \<Rightarrow> string option" where
  "plain_encode k c =
     (if 0 \<le> sc_iat c \<and> sc_iat c < 2 ^ 63 \<and> 0 \<le> sc_exp c \<and> sc_exp c < 2 ^ 63
      then Some (concat (map pack (token_fields k c))) else None)"

definition plain_decode :: "string \<Rightarrow> string \<Rightarrow> int \<Rightarrow> int \<Rightarrow> string \<Rightarrow> staff_claims option" where
  "plain_decode k aud leeway t tok =
     (case unpack_all (Suc (length tok)) tok of
        Some (k' # aud' # iat # ends # sub # jti # role # permissions) \<Rightarrow>
          (case (parse_i64 iat, parse_i64 ends) of
             (Some i, Some e) \<Rightarrow>
               if k' = k \<and> aud' = aud \<and> t \<le> e + leeway
               then Some \<lparr>sc_sub = sub, sc_aud = aud, sc_staff_role = role, sc_permissions = permissions,
                          sc_iat = i, sc_exp = e, sc_jti = jti\<rparr>
               else None
           | _ \<Rightarrow> None)
      | _ \<Rightarrow> None)"

text \<open>What the staff area relies on: a token that was encoded decodes, under the secret, for its audience and until the leeway after
  its expiry has passed, to the claims it was made from.\<close>

definition staff_tokens_ok :: "'t admin_env \<Rightarrow> bool" where
  "staff_tokens_ok env \<longleftrightarrow>
     (\<forall>k c tok leeway t. staff_encode env k c = Some tok \<longrightarrow> t \<le> sc_exp c + leeway \<longrightarrow>
        staff_decode env k (sc_aud c) leeway t tok = Some c)"

lemma plain_decode_encode:
  assumes "plain_encode k c = Some tok" "t \<le> sc_exp c + leeway"
  shows "plain_decode k (sc_aud c) leeway t tok = Some c"
proof -
  have tok: "tok = concat (map pack (token_fields k c))" and range: "0 \<le> sc_iat c" "sc_iat c < 2 ^ 63" "0 \<le> sc_exp c" "sc_exp c < 2 ^ 63"
    using assms(1) by (auto simp: plain_encode_def split: if_splits)
  have fields: "unpack_all (Suc (length tok)) tok = Some (token_fields k c)"
    unfolding tok by (rule unpack_all_pack) simp
  have times: "parse_i64 (show_int (sc_iat c)) = Some (sc_iat c)" "parse_i64 (show_int (sc_exp c)) = Some (sc_exp c)"
    using range by (intro parse_i64_show_int; simp)+
  show ?thesis
    unfolding plain_decode_def fields using assms(2) by (simp add: token_fields_def times)
qed

definition plain_argon :: argon_lib where
  "plain_argon = \<lparr>phc_new = (\<lambda>_. Inr ()), phc_hash = (\<lambda>_ p. Inr p), phc_verify = (\<lambda>h p. if h = p then Matches else Differs)\<rparr>"

text \<open>A cipher that keeps the plain text, and a code generator whose code is the secret.\<close>

definition sample_env :: "string admin_env" where
  "sample_env =
     \<lparr>app_state = sample_app, staff_encode = plain_encode, staff_decode = plain_decode, macs = plain_mac,
      argon = plain_argon, cipher = \<lparr>seal = (\<lambda>_ _ m. Some (m @ replicate 16 0)), unseal = (\<lambda>_ _ c. Some (take (length c - 16) c))\<rparr>,
      totp_at = (\<lambda>_. \<lparr>t_new = (\<lambda>_ _ _ s. Inr (bytes_to_text s)), t_check = (\<lambda>t code. Inr (code = t)), t_generate = Inr\<rparr>),
      std_base64 = (\<lambda>s. Inr (as_bytes s)), process_env = (\<lambda>v. if v = ''STAFF_TOTP_KEK'' then Some (replicate 32 CHR ''k'') else None),
      unicode_lower = map (\<lambda>c. if 65 \<le> (of_char c :: nat) \<and> (of_char c :: nat) \<le> 90 then char_of (of_char c + 32 :: nat) else c), error_text = (\<lambda>_. ''database error'')\<rparr>"

lemma sample_tokens_ok: "staff_tokens_ok sample_env"
  by (simp add: staff_tokens_ok_def sample_env_def plain_decode_encode)

text \<open>One staff member with one session, and a token for it.\<close>

definition clerk :: staff_rec where
  "clerk = \<lparr>sf_id = 1, sf_email = ''s@x.y'', sf_password_hash = ''pw'', sf_totp_secret_enc = replicate 12 0 @ [65] @ replicate 16 0,
     sf_recovery_codes_hash = [], sf_role = ''support'', sf_status = ''active'', sf_failed_login_count = 0,
     sf_locked_until = None, sf_last_login_at = None, sf_last_login_ip = None, sf_created_at = 0\<rparr>"

definition clerk_session :: staff_session where
  "clerk_session = \<lparr>ss_id = 2, ss_staff = 1, ss_expires_at = hours 8, ss_revoked_at = None, ss_revoked_reason = None,
     ss_ip = None, ss_user_agent = None, ss_last_seen_at = 0\<rparr>"

definition sample_office :: db where
  "sample_office = empty_db
     \<lparr>users := [new_user 0 ''a@b.c'' None None True 0],
      office := empty_office\<lparr>staff := [clerk], staff_sessions := [clerk_session],
        role_permissions := [\<lparr>pm_role = ''support'', pm_permission = ''user.ban'', pm_requires_justification = True\<rparr>]\<rparr>,
      next_id := 3\<rparr>"

definition clerk_claims :: "string list \<Rightarrow> staff_claims" where
  "clerk_claims permissions = \<lparr>sc_sub = ''1'', sc_aud = ''admin'', sc_staff_role = ''support'', sc_permissions = permissions,
     sc_iat = 0, sc_exp = 28800, sc_jti = ''2''\<rparr>"

definition clerk_header :: "string list \<Rightarrow> string option" where
  "clerk_header permissions = Some (''Bearer '' @ concat (map pack (token_fields ''k'' (clerk_claims permissions))))"

lemma clerk_decoded:
  "unpack_all (Suc (length (concat (map pack (token_fields k c))))) (concat (map pack (token_fields k c))) = Some (token_fields k c)"
  by (rule unpack_all_pack) simp

lemma sample_env_simps [simp]:
  "app_state sample_env = sample_app" "staff_decode sample_env = plain_decode" "admin_jwt_secret sample_env = ''k''"
  by (simp_all add: sample_env_def admin_jwt_secret_def sample_app_def)

lemma clerk_decodes:
  "plain_decode ''k'' ''admin'' 30 t (concat (map pack (token_fields ''k'' (clerk_claims ps))))
     = (if t \<le> 28830 then Some (clerk_claims ps) else None)"
proof -
  have times: "parse_i64 (show_int 0) = Some 0" "parse_i64 (show_int 28800) = Some 28800"
    by (intro parse_i64_show_int; simp)+
  show ?thesis
    unfolding plain_decode_def clerk_decoded by (simp add: token_fields_def clerk_claims_def times)
qed

lemma clerk_token: "Option.bind (clerk_header ps) (strip_prefix ''Bearer '') = Some (concat (map pack (token_fields ''k'' (clerk_claims ps))))"
  unfolding clerk_header_def bind.bind_lunit by (rule strip_prefix_append)

lemma clerk_authenticates:
  "staff_auth sample_env (clerk_header ps) (alone sample_office)
     = (Inr \<lparr>su_id = 1, su_role = ''support'', su_permissions = ps, su_session = 2\<rparr>, alone sample_office)"
proof -
  obtain h where h: "clerk_header ps = Some h" "strip_prefix ''Bearer '' h = Some (concat (map pack (token_fields ''k'' (clerk_claims ps))))"
    using clerk_token [of ps] by (auto simp: clerk_header_def simp del: strip_prefix_append)
  have parse: "uuid_parse sample_app ''1'' = Some 1" "uuid_parse sample_app ''2'' = Some 2"
    by (simp_all add: sample_app_def) code_simp+
  have row: "List.find (live_session 2 0) (staff_sessions (office sample_office)) = Some clerk_session"
    by (simp add: sample_office_def empty_db_def empty_office_def live_session_def clerk_session_def hours_def)
  show ?thesis
    unfolding staff_auth_def staff_jwt_verify_def find_active_session_def h(1)
    by (simp add: run_prog h(2) clerk_decodes unix_timestamp_def parse row)
       (simp add: run_prog clerk_claims_def parse row)
qed

end
