(* ===== verification/AdminProps.thy ===== *)
theory AdminProps
  imports AdminSafety StaffSample AuthSafety
begin

text \<open>
  Access control and accountability of the staff area: what a request without its permission can do,
  what the audit log keeps, what the end of a session means, and who changes the status of a user.
\<close>

lemmas office_statement_defs = update_user_status_sql_def set_user_def revoke_def set_report_def create_moderation_action_sql_def
  update_photo_moderation_sql_def mark_csam_reported_def grant_entitlement_sql_def disable_entitlement_def
  update_data_request_sql_def place_legal_hold_sql_def release_legal_hold_sql_def upsert_feature_flag_sql_def
  drop_feature_flag_def upsert_app_config_sql_def upsert_plan_feature_sql_def upsert_plan_price_sql_def put_country_def
  insert_audit_sql_def increment_failed_login_sql_def update_last_login_sql_def create_session_sql_def end_session_def
  set_staff_def set_session_def

section \<open>Permissions\<close>

text \<open>
  C6. Without its permission a staff request does nothing: if no decoding of the token in the header lists the
  permission the endpoint needs, the request is answered with an error and leaves every property of
  the tables as it was that the log entry of the attempt does not touch, whatever others do.
\<close>

theorem refused_without_permission:
  assumes "\<not> grants env h (needed req)" "stable I w"
    and "\<And>sid sess action target justification basis t d.
           I d \<Longrightarrow> I (snd (insert_audit_sql sid sess action target justification basis t d))"
  shows "isl (fst (admin_route env h path req w)) \<and> I (db (snd (admin_route env h path req w)))"
proof -
  let ?run = "andthen (staff_auth env h) (\<lambda>su. admin_handler env su req)"
  have run: "wp ?run (\<lambda>_ u. stable I u \<and> False) (\<lambda>_. stable I) v" if "stable I v" for v
  proof (rule wp_bind [OF staff_auth_granted [OF that]])
    fix su :: staff_user and u :: world
    assume su: "stable I u \<and> (\<forall>p \<in> set (su_permissions su). grants env h p)"
    then have "needed req \<notin> set (su_permissions su)" using assms(1) by blast
    then show "wp (admin_handler env su req) (\<lambda>_ u. stable I u \<and> False) (\<lambda>_. stable I) u"
      using su by (simp add: handler_refuses wp_throw)
  qed
  have "wp (admin_route env h path req) (\<lambda>_ u. stable I u \<and> False) (\<lambda>_. stable I) w"
    using audit_mutation_answers [where env = env and m = ?run and fine = False, OF assms(2)] run assms(2,3)
    by (simp add: admin_route_def Let_def)
  then show ?thesis by (auto simp: wp_def stable_db split: prod.splits sum.splits)
qed

lemma clerk_grants: "grants sample_env (clerk_header ps) p \<Longrightarrow> p \<in> set ps"
proof -
  assume "grants sample_env (clerk_header ps) p"
  then obtain token claims t where "Option.bind (clerk_header ps) (strip_prefix ''Bearer '') = Some token"
      "plain_decode ''k'' ''admin'' 30 t token = Some claims" "p \<in> set (sc_permissions claims)"
    unfolding grants_def by auto
  then show "p \<in> set ps" unfolding clerk_token by (auto simp: clerk_decodes split: if_splits) (simp add: clerk_claims_def)
qed

theorem refused_without_permission_witness:
  "users (db (snd (admin_route sample_env (clerk_header [''user.view'']) ''/p'' (BanUser 0 None) (alone sample_office))))
     = users sample_office"
proof -
  have no: "\<not> grants sample_env (clerk_header [''user.view'']) (needed (BanUser 0 None))"
    using clerk_grants by fastforce
  show ?thesis
    using refused_without_permission [OF no, of "\<lambda>d. users d = users sample_office" "alone sample_office" "''/p''"]
    by (simp add: insert_audit_sql_def)
qed

section \<open>The audit log\<close>

definition extends_log :: "audit_entry list \<Rightarrow> db \<Rightarrow> bool" where
  "extends_log A d \<longleftrightarrow> prefix A (audit_log (office d))"

interpretation log: office_guarantee st "extends_log A" "\<lambda>_. True" for st A
  by unfold_locales (auto simp: extends_log_def office_statement_defs prefix_prefix elim!: catalog_frameE split: sum.split option.split prod.split)

text \<open>
  C10. The audit log only grows: whatever the staff members do, in every interleaving with
  connections that do not rewrite it, every entry stays where it is and as it is.
\<close>

theorem audit_log_append_only:
  assumes "(office_step env)\<^sup>*\<^sup>* w w'"
    and "extends_log A (db w)" "\<And>t d. t \<in> set (turns w) \<Longrightarrow> extends_log A d \<Longrightarrow> extends_log A (others t d)"
  shows "prefix A (audit_log (office (db w')))"
proof -
  have "stable (extends_log A) w" using assms(2,3) by (simp add: stable_def)
  from stable_db [OF log.office_steps_keep [OF assms(1) this _ refl]] show ?thesis by (simp add: extends_log_def)
qed

definition noted :: audit_entry where
  "noted = \<lparr>au_id = 0, au_staff = None, au_session = None, au_action = ''seed'', au_target = None, au_justification = None,
     au_legal_basis = None, au_metadata = None, au_created_at = 0\<rparr>"

theorem audit_log_append_only_witness:
  "let w = alone (sample_office\<lparr>office := (office sample_office)\<lparr>audit_log := [noted]\<rparr>\<rparr>)
   in prefix [noted] (audit_log (office (db (snd (staff_route sample_env (Admin (clerk_header [''user.ban'']) ''/p'' (BanUser 0 None)) w)))))"
  unfolding Let_def
  by (rule audit_log_append_only [OF office_run]) (simp_all add: extends_log_def)

lemma handler_calm: "calm w \<Longrightarrow> keeps calm (admin_handler env su req) w"
  by (cases req; (simp only: admin_handler.simps enterprise_calm; fail)?; simp only: admin_handler.simps;
      simp only: admin_handler_defs admin_query_defs admin_statement_defs set_status_reply_def take_action_def need_permission_def Let_def;
      auto intro!: keeps_bind calm_stmt calm_query calm_update split: prod.split)

text \<open>In the tables \<open>ledger\<close> the log is \<open>A\<close> and the staff members and sessions are those with the given ids.\<close>

definition ledger :: "audit_entry list \<Rightarrow> uuid list \<Rightarrow> uuid list \<Rightarrow> db \<Rightarrow> bool" where
  "ledger A F S d \<longleftrightarrow> audit_log (office d) = A \<and> map sf_id (staff (office d)) = F \<and> map ss_id (staff_sessions (office d)) = S"

interpretation steady: admin_guarantee st "ledger A F S" "\<lambda>p. p \<noteq> ''legal.export''" for st A F S
  by unfold_locales (auto simp: ledger_def office_statement_defs elim!: catalog_frameE split: sum.split option.split prod.split)

lemma mutation_needs: "admin_verb req \<noteq> ''GET'' \<Longrightarrow> needed req \<noteq> ''legal.export'' \<and> admin_verb req \<in> set MUTATIONS"
  by (cases req) (auto simp: MUTATIONS_def dest!: enterprise_mutations)

lemma staff_auth_calm:
  assumes "calm w"
  shows "wp (staff_auth env h) (\<lambda>su v. calm v \<and> db v = db w \<and> su_session su \<in> ss_id ` set (staff_sessions (office (db w))))
           (\<lambda>_ v. calm v \<and> db v = db w) w"
  unfolding staff_auth_def staff_jwt_verify_def find_active_session_def
  using assms
  by (auto simp: wp_rules live_session_def intro!: wp_query_calm split: option.split dest!: find_SomeD)

lemma run_calm:
  assumes "calm w" "ledger A F S (db w)" "admin_verb req \<noteq> ''GET''"
  shows "keeps (\<lambda>v. calm v \<and> ledger A F S (db v)) (andthen (staff_auth env h) (\<lambda>su. admin_handler env su req)) w"
proof (rule wp_bind)
  show "keeps (\<lambda>v. calm v \<and> ledger A F S (db v)) (staff_auth env h) w"
    by (rule wp_mono [OF staff_auth_calm [OF assms(1)]]) (use assms(2) in auto)
next
  fix su :: staff_user and v :: world assume v: "calm v \<and> ledger A F S (db v)"
  have "keeps (stable (ledger A F S)) (admin_handler env su req) v"
    by (rule steady.endpoint_keeps [OF _ _ refl]) (use v mutation_needs [OF assms(3)] in \<open>auto simp: calm_stable\<close>)
  from wp_conj [OF handler_calm this] v
  show "keeps (\<lambda>v. calm v \<and> ledger A F S (db v)) (admin_handler env su req) v"
    by (auto simp: stable_db elim: wp_mono)
qed

text \<open>An accepted token: what the request does, then its entry.\<close>

lemma audit_mutation_accepted:
  assumes "staff_auth env h w = (Inr su, w1)" "verb \<in> set MUTATIONS"
  shows "wp (audit_mutation env verb path h m) Q E w =
    wp m (\<lambda>r. keeps (Q r) (stmt (insert_audit_sql (su_id su) (su_session su) (verb @ '':'' @ path) (ar_target r) (ar_justification r) None)))
         (\<lambda>e. keeps (E e) (stmt (insert_audit_sql (su_id su) (su_session su) (verb @ '':'' @ path) None None None))) w1"
proof -
  have "wp (staff_auth env h) X Y w = X su w1" for X Y using assms(1) by (simp add: wp_def)
  moreover have "wp (andthen (andthen (attempt q) (\<lambda>_ :: db_error + unit. ret ())) (\<lambda>_. ret x)) Q E = keeps (Q x) q"
    "wp (andthen (andthen (attempt q) (\<lambda>_ :: db_error + unit. ret ())) (\<lambda>_. throw e)) Q E = keeps (E e) q" for q x e
    by (simp_all add: fun_eq_iff wp_andthen wp_attempt wp_finish)
  ultimately show ?thesis using assms(2) by (simp add: audit_mutation_def wp_andthen [of "attempt _"] wp_attempt)
qed

text \<open>
  C9. Every change by a staff member is accounted for: when the database answers and nobody else writes,
  a request of one of the recorded methods whose token is accepted leaves exactly one new
  entry, the last one, with the staff member, the session, the method and the path, and with the target
  and the justification of the answer when the request succeeded, none when it failed.
\<close>

theorem mutation_audited:
  assumes "calm w" "admin_verb req \<noteq> ''GET''" "staff_auth env h w = (Inr su, w1)"
    and "su_id su \<in> sf_id ` set (staff (office (db w)))"
    and "admin_route env h path req w = (response, w')"
  shows "\<exists>e. audit_log (office (db w')) = audit_log (office (db w)) @ [e]
      \<and> au_staff e = Some (su_id su) \<and> au_session e = Some (su_session su) \<and> au_action e = admin_verb req @ '':'' @ path
      \<and> au_target e = (case response of Inl _ \<Rightarrow> None | Inr r \<Rightarrow> ar_target r)
      \<and> au_justification e = (case response of Inl _ \<Rightarrow> None | Inr r \<Rightarrow> ar_justification r)"
proof -
  let ?L = "ledger (audit_log (office (db w))) (map sf_id (staff (office (db w)))) (map ss_id (staff_sessions (office (db w))))"
  let ?run = "andthen (staff_auth env h) (\<lambda>su. admin_handler env su req)"
  let ?done = "\<lambda>x u. \<exists>e. audit_log (office (db u)) = audit_log (office (db w)) @ [e]
      \<and> au_staff e = Some (su_id su) \<and> au_session e = Some (su_session su) \<and> au_action e = admin_verb req @ '':'' @ path
      \<and> au_target e = (case x of Inl _ \<Rightarrow> None | Inr r \<Rightarrow> ar_target r)
      \<and> au_justification e = (case x of Inl _ \<Rightarrow> None | Inr r \<Rightarrow> ar_justification r)"
  have w1: "calm w1" "db w1 = db w" and sess: "su_session su \<in> ss_id ` set (staff_sessions (office (db w)))"
    using wp_returns [OF staff_auth_calm [OF assms(1)] assms(3)] by auto
  have keep: "keeps (\<lambda>v. calm v \<and> ?L (db v)) ?run w1"
    by (rule run_calm) (use w1 assms(2) in \<open>auto simp: ledger_def\<close>)
  have entry: "wp (stmt (insert_audit_sql (su_id su) (su_session su) (admin_verb req @ '':'' @ path)
         (case x of Inl _ \<Rightarrow> None | Inr r \<Rightarrow> ar_target r) (case x of Inl _ \<Rightarrow> None | Inr r \<Rightarrow> ar_justification r) None))
       (\<lambda>_. ?done x) (\<lambda>_. ?done x) u" if u: "calm u \<and> ?L (db u)" for x :: "status + admin_reply" and u
  proof (rule wp_stmt_calm)
    have "su_id su \<in> set (map sf_id (staff (office (db u))))" "su_session su \<in> set (map ss_id (staff_sessions (office (db u))))"
      using u sess assms(4) by (auto simp: ledger_def)
    then have "staff_by_id (su_id su) (db u) \<noteq> None" "list_ex (\<lambda>r. ss_id r = su_session su) (staff_sessions (office (db u)))"
      by (auto simp: staff_by_id_def find_NoneD list_ex_iff)
    then show "case insert_audit_sql (su_id su) (su_session su) (admin_verb req @ '':'' @ path)
         (case x of Inl _ \<Rightarrow> None | Inr r \<Rightarrow> ar_target r) (case x of Inl _ \<Rightarrow> None | Inr r \<Rightarrow> ar_justification r) None (now v) (db u)
        of (Inl e, d) \<Rightarrow> ?done x (v\<lparr>db := d\<rparr>) | (Inr _, d) \<Rightarrow> ?done x (v\<lparr>db := d\<rparr>)" for v
      using u by (simp add: insert_audit_sql_def ledger_def)
  qed (use u in simp)
  have "wp (audit_mutation env (admin_verb req) path h ?run) (\<lambda>r. ?done (Inr r)) (\<lambda>e. ?done (Inl e)) w"
    unfolding audit_mutation_accepted [OF assms(3) conjunct2 [OF mutation_needs [OF assms(2)]]]
    by (rule wp_mono [OF keep]) (use entry [of _ "Inr _"] entry [of _ "Inl _"] in simp_all)
  then show ?thesis using assms(2,5) by (auto simp: admin_route_def Let_def wp_def split: sum.splits)
qed

theorem mutation_audited_witness:
  "\<exists>e. audit_log (office (db (snd (admin_route sample_env (clerk_header [''user.ban'']) ''/p'' (BanUser 0 None) (alone sample_office))))) = [e]
      \<and> au_staff e = Some 1 \<and> au_session e = Some 2 \<and> au_action e = ''POST:/p''"
proof -
  let ?w = "alone sample_office"
  obtain response w' where run: "admin_route sample_env (clerk_header [''user.ban'']) ''/p'' (BanUser 0 None) ?w = (response, w')"
    by (cases "admin_route sample_env (clerk_header [''user.ban'']) ''/p'' (BanUser 0 None) ?w")
  have log: "audit_log (office (db ?w)) = []" "1 \<in> sf_id ` set (staff (office (db ?w)))"
    by (simp_all add: sample_office_def empty_office_def empty_db_def clerk_def)
  show ?thesis
    using mutation_audited [OF _ _ clerk_authenticates _ run] log by (auto simp: run)
qed

section \<open>The end of a session\<close>

definition closed :: "uuid \<Rightarrow> db \<Rightarrow> bool" where
  "closed S d \<longleftrightarrow> S < next_id d \<and> (\<forall>r \<in> set (staff_sessions (office d)). ss_id r = S \<longrightarrow> ss_revoked_at r \<noteq> None)"

interpretation ended: office_guarantee st "closed S" "\<lambda>_. True" for st S
  by unfold_locales (auto simp: closed_def office_statement_defs set_update_where elim!: catalog_frameE split: sum.split option.split prod.split)

text \<open>The token in the header, if it decodes at all, is for the session.\<close>

definition names_session :: "'t admin_env \<Rightarrow> string option \<Rightarrow> uuid \<Rightarrow> bool" where
  "names_session env h S \<longleftrightarrow>
     (\<forall>header token t claims. h = Some header \<longrightarrow> strip_prefix ''Bearer '' header = Some token \<longrightarrow>
        staff_decode env (admin_jwt_secret env) ''admin'' 30 t token = Some claims \<longrightarrow>
        uuid_parse (app_state env) (sc_jti claims) \<in> {None, Some S})"

lemma closed_dead: "closed S d \<Longrightarrow> List.find (live_session S t) (staff_sessions (office d)) = None"
  by (auto simp: closed_def live_session_def find_NoneD)

lemma closed_refused:
  assumes "stable (closed S) w" "names_session env h S"
  shows "wp (staff_auth env h) (\<lambda>_ _. False) (\<lambda>_. stable (closed S)) w"
  unfolding staff_auth_def staff_jwt_verify_def find_active_session_def wp_andthen wp_map_err
  using assms
  by (auto simp: wp_rules names_session_def intro!: wp_query_stable [where I = "closed S"] split: option.split)
     (metis closed_dead option.distinct(1) option.inject)

lemma turns_keep_stmt: "turns_keep J w \<Longrightarrow> keeps (turns_keep J) (stmt q) w"
  by (auto simp: wp_stmt Let_def turns_keep_take split: outcome.split prod.split sum.split)

lemma staff_auth_turns: "turns_keep J w \<Longrightarrow> keeps (turns_keep J) (staff_auth env h) w"
  unfolding staff_auth_def staff_jwt_verify_def find_active_session_def query_def
  by (auto intro!: keeps_bind turns_keep_stmt)

lemma end_session_closes: "S < next_id d \<Longrightarrow> closed S (end_session S reason t d)"
proof -
  have "ss_revoked_at r \<noteq> None" if "r \<in> set (staff_sessions (office (end_session S reason t d)))" "ss_id r = S" for r
  proof -
    have "r \<in> set (update_where (\<lambda>r. ss_id r = S) (\<lambda>r. r\<lparr>ss_revoked_at := Some t, ss_revoked_reason := Some reason\<rparr>) (staff_sessions (office d)))"
      using that(1) by (simp add: end_session_def set_session_def)
    then show ?thesis by (cases rule: in_update_whereE) (use that(2) in simp_all)
  qed
  then show "S < next_id d \<Longrightarrow> closed S (end_session S reason t d)"
    by (simp add: closed_def) (simp add: end_session_def set_session_def)
qed

lemma logout_closes:
  assumes "stable (\<lambda>d. S < next_id d) w" "turns_keep (closed S) w" "uuid_parse (app_state env) sess = Some S"
  shows "wp (staff_logout env h sess) (\<lambda>_. stable (closed S)) (\<lambda>_ _. True) w"
  unfolding staff_logout_def
proof (rule wp_bind)
  show "wp (staff_auth env h) (\<lambda>_ v. stable (\<lambda>d. S < next_id d) v \<and> turns_keep (closed S) v) (\<lambda>_ _. True) w"
    by (rule wp_mono [OF wp_conj [OF staff_auth_keeps [OF assms(1)] staff_auth_turns [OF assms(2)]]]) auto
next
  fix v assume v: "stable (\<lambda>d. S < next_id d) v \<and> turns_keep (closed S) v"
  then have "stable (\<lambda>d. S < next_id d) (take_turn v)" "turns_keep (closed S) (take_turn v)"
    by (auto intro: stable_take_turn turns_keep_take)
  then have "wp (revoke_session S ''logout'') (\<lambda>_. stable (closed S)) (\<lambda>_ _. True) v"
    unfolding revoke_session_def update_def wp_stmt Let_def
    by (simp add: stable_iff end_session_closes split: outcome.split)
  then show "wp (andthen (ok_or BAD_REQUEST (uuid_parse (app_state env) sess)) (\<lambda>sess.
          andthen (internal (revoke_session sess ''logout'')) (\<lambda>_. ret NO_CONTENT))) (\<lambda>_. stable (closed S)) (\<lambda>_ _. True) v"
    by (simp add: assms(3) wp_ok_or wp_andthen wp_map_err wp_finish)
qed

text \<open>
  C13. Logging out ends the session for good: once a logout has answered, no request whose token is for that
  session is let in, however long the token is still valid, after any further requests of staff members
  and in every interleaving with connections that do not lift a revocation.
\<close>

theorem logout_ends_session:
  assumes "staff_logout env h0 sess w = (Inr status, w1)" "uuid_parse (app_state env) sess = Some S"
    and "stable (\<lambda>d. S < next_id d) w" "turns_keep (closed S) w"
    and "(office_step env)\<^sup>*\<^sup>* w1 w2" "names_session env h S"
  shows "isl (fst (admin_route env h path req w2))"
proof -
  have "stable (closed S) w1" using wp_returns [OF logout_closes [OF assms(3,4,2)] assms(1)] .
  from ended.office_steps_keep [OF assms(5) this _ refl] have w2: "stable (closed S) w2" by simp
  let ?run = "andthen (staff_auth env h) (\<lambda>su. admin_handler env su req)"
  have run: "wp ?run (\<lambda>_ u. stable (closed S) u \<and> False) (\<lambda>_. stable (closed S)) v" if "stable (closed S) v" for v
    by (rule wp_bind [OF closed_refused [OF that assms(6)]]) simp
  have "wp (admin_route env h path req) (\<lambda>_ u. stable (closed S) u \<and> False) (\<lambda>_. stable (closed S)) w2"
    using audit_mutation_answers [where env = env and m = ?run and fine = False, OF w2] run w2
    by (simp add: admin_route_def Let_def ended.audit_keeps)
  then show ?thesis by (auto simp: wp_def split: prod.splits sum.splits)
qed

lemma clerk_names: "names_session sample_env (clerk_header ps) 2"
proof -
  have "uuid_parse sample_app ''2'' = Some 2" by (simp add: sample_app_def) code_simp
  moreover have "claims = clerk_claims ps"
    if "clerk_header ps = Some header" "strip_prefix ''Bearer '' header = Some token"
      "plain_decode ''k'' ''admin'' 30 t token = Some claims" for header token t claims
  proof -
    have "Some token = Some (concat (map pack (token_fields ''k'' (clerk_claims ps))))"
      using clerk_token [of ps] that(1,2) by simp
    then show ?thesis using that(3) by (simp add: clerk_decodes split: if_splits)
  qed
  ultimately show ?thesis
    unfolding names_session_def sample_env_simps by (metis (lifting) clerk_claims_def insertCI staff_claims.select_convs(7))
qed

theorem logout_ends_session_witness:
  "isl (fst (admin_route sample_env (clerk_header [''user.ban'']) ''/p'' (BanUser 0 None)
     (snd (staff_logout sample_env (clerk_header [''user.ban'']) ''2'' (alone sample_office)))))"
proof -
  have S: "uuid_parse (app_state sample_env) ''2'' = Some 2" by (simp add: sample_app_def) code_simp
  have run: "fst (staff_logout sample_env (clerk_header [''user.ban'']) ''2'' (alone sample_office)) = Inr NO_CONTENT"
    using S by (simp add: staff_logout_def run_prog clerk_authenticates revoke_session_def split: prod.split)
  show ?thesis
    by (rule logout_ends_session [OF _ S _ _ rtranclp.rtrancl_refl clerk_names])
       (use run in \<open>auto simp: turns_keep_def sample_office_def intro: prod_eqI\<close>)
qed

section \<open>The status of a user\<close>

definition statuses :: "(uuid \<times> string) list \<Rightarrow> db \<Rightarrow> bool" where
  "statuses X d \<longleftrightarrow> map (\<lambda>r. (u_id r, u_status r)) (users d) = X"

definition STATUS_PERMISSIONS :: "string list" where
  "STATUS_PERMISSIONS = [''user.ban'', ''user.suspend'', ''user.activate'', ''reports.resolve'']"

interpretation same_status: office_guarantee st "statuses X" "\<lambda>p. p \<notin> set STATUS_PERMISSIONS" for st X
  by unfold_locales (auto simp: statuses_def office_statement_defs may_set_status_def STATUS_PERMISSIONS_def elim!: catalog_frameE
        split: sum.split option.split prod.split)

text \<open>
  Only the four permissions change a status: a request of the staff area whose token grants
  none of them (a login, a second factor and a logout among them) leaves the status of every user as it is.
\<close>

theorem status_needs_permission:
  assumes "statuses X (db w)" "\<And>t d. t \<in> set (turns w) \<Longrightarrow> statuses X d \<Longrightarrow> statuses X (others t d)"
    and "\<And>h path req p. r = Admin h path req \<Longrightarrow> grants env h p \<Longrightarrow> p \<notin> set STATUS_PERMISSIONS"
  shows "map (\<lambda>r. (u_id r, u_status r)) (users (db (snd (staff_route env r w)))) = X"
proof -
  have "stable (statuses X) w" using assms(1,2) by (simp add: stable_def)
  then have "keeps (stable (statuses X)) (staff_route env r) w"
    by (rule same_status.staff_route_keeps [OF _ _ refl]) (rule assms(3))
  from stable_db [OF keeps_final [OF this]] show ?thesis by (simp add: statuses_def)
qed

theorem status_needs_permission_witness:
  "map (\<lambda>r. (u_id r, u_status r)) (users (db (snd (staff_route sample_env (Admin (clerk_header [''photos.moderate'']) ''/p'' (ApprovePhoto 7)) (alone sample_office)))))
     = [(0, ''active'')]"
proof (rule status_needs_permission)
  fix h path req p
  assume "Admin (clerk_header [''photos.moderate'']) ''/p'' (ApprovePhoto 7) = Admin h path req" "grants sample_env h p"
  then show "p \<notin> set STATUS_PERMISSIONS" using clerk_grants [of "[''photos.moderate'']" p] by (auto simp: STATUS_PERMISSIONS_def)
qed (simp_all add: statuses_def sample_office_def new_user_def)

end
