(* ===== verification/StaffLogin.thy ===== *)
theory StaffLogin
  imports AdminProps
begin

text \<open>
  The staff login: what five wrong passwords do, that a staff member with the right password and
  code gets in, and what the second factor does not count.
\<close>

section \<open>Wrong passwords\<close>

text \<open>The staff member that an address leads to.\<close>

definition at_door :: "app \<Rightarrow> string \<Rightarrow> staff_rec \<Rightarrow> world \<Rightarrow> bool" where
  "at_door st email s w \<longleftrightarrow> staff_by_email st email (db w) = Some s \<and> staff_by_id (sf_id s) (db w) = Some s"

lemma find_updated:
  assumes "List.find (\<lambda>r. k r = a) rs = Some s" "List.find (\<lambda>r. j r = j s) rs = Some s" "\<And>r. k (f r) = k r"
  shows "List.find (\<lambda>r. k r = a) (update_where (\<lambda>r. j r = j s) f rs) = Some (f s)"
  using assms by (induction rs) (auto split: if_splits dest: find_SomeD)

lemma set_staff_at_door:
  assumes "at_door st email s w" "\<And>r. sf_email (f r) = sf_email r" "\<And>r. sf_id (f r) = sf_id r"
  shows "at_door st email (f s) (w\<lparr>db := set_staff (sf_id s) f (db w)\<rparr>)"
  using assms find_updated [of "\<lambda>r. citext_key st (sf_email r)" "citext_key st email" "staff (office (db w))" s sf_id f]
    find_updated [of sf_id "sf_id s" "staff (office (db w))" s sf_id f]
  by (simp add: at_door_def staff_by_email_def staff_by_id_def set_staff_def)

lemma failed_login:
  assumes "calm w" "at_door (app_state env) email s w" "sf_status s = ''active''"
    and "\<And>until. sf_locked_until s = Some until \<Longrightarrow> until \<le> now (take_turn w)"
    and "password_verify (argon env) wrong (sf_password_hash s) = Inr False" "sf_failed_login_count s < 2147483647"
  shows "wp (staff_login env forwarded real_ip email wrong) (\<lambda>_ _. False)
           (\<lambda>e v. e = UNAUTHORIZED \<and> calm v \<and> at_door (app_state env) email (count_failure (now v) s) v) w"
proof -
  have s: "staff_by_email (app_state env) email (db w) = Some s" "staff_by_id (sf_id s) (db w) = Some s"
    using assms(2) by (simp_all add: at_door_def)
  have count: "wp (increment_failed_login (sf_id s)) (\<lambda>_ v. calm v \<and> at_door (app_state env) email (count_failure (now v) s) v) (\<lambda>_ _. False) u"
    if u: "calm u" "db u = db w" for u
    unfolding increment_failed_login_def
  proof (rule wp_stmt_calm [OF u(1)])
    fix v assume v: "calm v"
    have "at_door (app_state env) email (count_failure (now v) s) (v\<lparr>db := set_staff (sf_id s) (count_failure (now v)) (db w)\<rparr>)"
      using set_staff_at_door [of "app_state env" email s "v\<lparr>db := db w\<rparr>" "count_failure (now v)"] assms(2)
      by (simp add: at_door_def count_failure_def)
    then show "case increment_failed_login_sql (sf_id s) (now v) (db u) of (Inl e, d) \<Rightarrow> False
       | (Inr x, d) \<Rightarrow> calm (v\<lparr>db := d\<rparr>) \<and> at_door (app_state env) email (count_failure (now (v\<lparr>db := d\<rparr>)) s) (v\<lparr>db := d\<rparr>)"
      using v assms(6) s u by (simp add: increment_failed_login_sql_def)
  qed
  have "wp (find_staff_by_email (app_state env) email) (\<lambda>r v. r = Some s \<and> calm v \<and> db v = db w \<and> now v = now (take_turn w)) (\<lambda>_ _. False) w"
    using calm_turn [OF assms(1)] s by (auto simp: find_staff_by_email_def query_def wp_stmt Let_def)
  then show ?thesis
    unfolding staff_login_def
  proof (rule wp_call, elim conjE)
    fix r v assume v: "r = Some s" "calm v" "db v = db w" "now v = now (take_turn w)"
    show "wp (andthen (ok_or UNAUTHORIZED (case r of None \<Rightarrow> None | Some s \<Rightarrow> if sf_status s = ''active'' then Some s else None)) (\<lambda>s.
        andthen now_utc (\<lambda>t.
        andthen (reject_if (case sf_locked_until s of None \<Rightarrow> False | Some until \<Rightarrow> t < until) LOCKED) (\<lambda>_.
        case password_verify (argon env) wrong (sf_password_hash s) of
          Inl _ \<Rightarrow> throw INTERNAL_SERVER_ERROR
        | Inr False \<Rightarrow> andthen (attempt (increment_failed_login (sf_id s))) (\<lambda>_ :: db_error + timestamp option. throw UNAUTHORIZED)
        | Inr True \<Rightarrow>
            andthen (internal (update_last_login (app_state env) (sf_id s) (admin_client_ip forwarded real_ip))) (\<lambda>_.
            andthen now_utc (\<lambda>t'.
            ret (mfa_issue (macs env) (unix_timestamp t') (as_bytes (admin_jwt_secret env)) (uuid_text (app_state env) (sf_id s)))))))))
        (\<lambda>_ _. False) (\<lambda>e v. e = UNAUTHORIZED \<and> calm v \<and> at_door (app_state env) email (count_failure (now v) s) v) v"
      using v(1) assms(3,5) assms(4) [folded v(4)] wp_mono [OF count [OF v(2,3)]]
      by (auto simp: wp_rules split: option.split)
  qed simp
qed

lemma stmt_later: "T \<le> now v \<Longrightarrow> keeps (\<lambda>v. T \<le> now v) (stmt q) v"
  by (auto simp: wp_stmt Let_def take_turn_def split: outcome.split prod.split sum.split)

lemma locked_login:
  assumes "calm w" "at_door (app_state env) email s w" "sf_status s = ''active''"
    and "sf_locked_until s = Some until" "now (snd (staff_login env forwarded real_ip email password w)) < until"
  shows "fst (staff_login env forwarded real_ip email password w) = Inl LOCKED
     \<and> calm (snd (staff_login env forwarded real_ip email password w))
     \<and> at_door (app_state env) email s (snd (staff_login env forwarded real_ip email password w))"
proof -
  have "now (take_turn w) \<le> now (snd (staff_login env forwarded real_ip email password w))"
  proof -
    have "wp (query f) (\<lambda>_ v. now (take_turn w) \<le> now v) (\<lambda>_ v. now (take_turn w) \<le> now v) w" for f :: "timestamp \<Rightarrow> db \<Rightarrow> staff_rec option"
      by (auto simp: query_def wp_stmt Let_def split: outcome.split)
    then have "keeps (\<lambda>v. now (take_turn w) \<le> now v) (staff_login env forwarded real_ip email password) w"
      unfolding staff_login_def find_staff_by_email_def increment_failed_login_def update_last_login_def
      by (intro keeps_bind) (auto intro!: keeps_bind stmt_later split: sum.split bool.split)
    then show ?thesis by (rule keeps_final)
  qed
  then have t: "now (take_turn w) < until" using assms(5) by simp
  have "wp (staff_login env forwarded real_ip email password) (\<lambda>_ _. False)
      (\<lambda>e v. e = LOCKED \<and> calm v \<and> at_door (app_state env) email s v) w"
    unfolding staff_login_def find_staff_by_email_def query_def
    using assms(1-4) t calm_turn [OF assms(1)] by (simp add: wp_rules wp_stmt Let_def at_door_def)
  then show ?thesis by (auto simp: wp_def split: prod.splits sum.splits)
qed

text \<open>Attempts to log in one after the other: the two headers and the password of each, and their answers.\<close>

type_synonym login_attempt = "string option \<times> string option \<times> string"

fun try_logins :: "'t admin_env \<Rightarrow> string \<Rightarrow> login_attempt list \<Rightarrow> world \<Rightarrow> (status + string) list \<times> world" where
  "try_logins env email [] w = ([], w)"
| "try_logins env email ((forwarded, real_ip, password) # attempts) w =
     (case staff_login env forwarded real_ip email password w of
        (r, v) \<Rightarrow> (case try_logins env email attempts v of (rs, u) \<Rightarrow> (r # rs, u)))"

lemma try_logins_snd [simp]:
  "snd (try_logins env email ((f, i, p) # attempts) w) = snd (try_logins env email attempts (snd (staff_login env f i email p w)))"
  by (simp split: prod.split)

lemma failures_count:
  assumes "calm w" "at_door (app_state env) email s w" "sf_status s = ''active''" "sf_locked_until s = None" "attempts \<noteq> []"
    and "sf_failed_login_count s + int (length attempts) = 5" "0 \<le> sf_failed_login_count s"
    and "\<And>f i p. (f, i, p) \<in> set attempts \<Longrightarrow> password_verify (argon env) p (sf_password_hash s) = Inr False"
    and "try_logins env email attempts w = (rs, w5)"
  shows "set rs \<subseteq> {Inl UNAUTHORIZED} \<and> calm w5
     \<and> (\<exists>r. at_door (app_state env) email r w5 \<and> sf_status r = ''active'' \<and> sf_locked_until r = Some (now w5 + minutes 15))"
  using assms
proof (induction attempts arbitrary: w s rs)
  case (Cons a attempts)
  obtain f i p where a: "a = (f, i, p)" by (cases a)
  obtain e v where v: "staff_login env f i email p w = (e, v)" by fastforce
  have "wp (staff_login env f i email p) (\<lambda>_ _. False)
          (\<lambda>e v. e = UNAUTHORIZED \<and> calm v \<and> at_door (app_state env) email (count_failure (now v) s) v) w"
    by (rule failed_login [OF Cons.prems(1-3)]) (use Cons.prems(4,6,8) [unfolded a] in auto)
  then have v': "e = Inl UNAUTHORIZED" "calm v" "at_door (app_state env) email (count_failure (now v) s) v"
    using v by (auto simp: wp_def split: sum.splits)
  show ?case
  proof (cases "attempts = []")
    case True
    then show ?thesis
      using Cons.prems(3,6,9) a v v' by (auto simp: count_failure_def intro!: exI [of _ "count_failure (now v) s"])
  next
    case False
    then have few: "sf_failed_login_count s + 1 < 5" using Cons.prems(6) by (cases attempts) auto
    obtain x where x: "try_logins env email attempts v = (x, w5)" "rs = e # x"
      using Cons.prems(9) a v by (auto split: prod.splits)
    have "set x \<subseteq> {Inl UNAUTHORIZED} \<and> calm w5
     \<and> (\<exists>r. at_door (app_state env) email r w5 \<and> sf_status r = ''active'' \<and> sf_locked_until r = Some (now w5 + minutes 15))"
      by (rule Cons.IH [OF v'(2,3) _ _ False _ _ _ x(1)])
         (use few Cons.prems(3,4,6,7,8) in \<open>auto simp: count_failure_def\<close>)
    then show ?thesis using x(2) v'(1) by auto
  qed
qed simp

lemma try_logins_later: "now w \<le> now (snd (try_logins env email attempts w))"
proof (induction attempts arbitrary: w)
  case (Cons a attempts)
  obtain f i p where a: "a = (f, i, p)" by (cases a)
  have "keeps (\<lambda>v. now w \<le> now v) (staff_login env f i email p) w"
    unfolding staff_login_def find_staff_by_email_def query_def increment_failed_login_def update_last_login_def
    by (intro keeps_bind) (auto intro!: keeps_bind stmt_later split: sum.split bool.split)
  then have "now w \<le> now (snd (staff_login env f i email p w))" by (rule keeps_final)
  with Cons.IH [of "snd (staff_login env f i email p w)"] show ?case unfolding a try_logins_snd by simp
qed simp

lemma locked_attempts:
  assumes "calm w" "at_door (app_state env) email s w" "sf_status s = ''active''" "sf_locked_until s = Some until"
    and "try_logins env email attempts w = (rs, v)" "now v < until"
  shows "set rs \<subseteq> {Inl LOCKED}"
  using assms
proof (induction attempts arbitrary: w rs)
  case (Cons a attempts)
  obtain f i p where a: "a = (f, i, p)" by (cases a)
  let ?u = "snd (staff_login env f i email p w)"
  obtain x where x: "try_logins env email attempts ?u = (x, v)" "rs = fst (staff_login env f i email p w) # x"
    using Cons.prems(5) a by (auto split: prod.splits)
  have "now ?u < until" using try_logins_later [where w = ?u and env = env and email = email and attempts = attempts] x(1) Cons.prems(6) by simp
  from locked_login [OF Cons.prems(1-4) this]
  have "fst (staff_login env f i email p w) = Inl LOCKED" "calm ?u" "at_door (app_state env) email s ?u" by simp_all
  with Cons.IH [OF this(2,3) Cons.prems(3,4) x(1) Cons.prems(6)] x(2) show ?case by simp
qed simp

text \<open>
  C18. Five wrong passwords in a row, whichever and with whatever headers, lock an account for fifteen minutes, when nobody else
  writes and the database answers: they are answered with 401, and then every attempt
  that ends less than fifteen minutes after the fifth is answered with 423, however many there are and also with the right
  password. (The account was active, had no lock and no failures counted.)
\<close>

theorem five_failures_lock:
  assumes "calm w" "at_door (app_state env) email s w" "sf_status s = ''active''" "sf_locked_until s = None"
    and "sf_failed_login_count s = 0" "length attempts = 5"
    and "\<And>f i p. (f, i, p) \<in> set attempts \<Longrightarrow> password_verify (argon env) p (sf_password_hash s) = Inr False"
    and "try_logins env email attempts w = (rs, w5)" "try_logins env email later w5 = (qs, v)" "now v < now w5 + minutes 15"
  shows "set rs \<subseteq> {Inl UNAUTHORIZED} \<and> set qs \<subseteq> {Inl LOCKED}"
proof -
  have "set rs \<subseteq> {Inl UNAUTHORIZED} \<and> calm w5
     \<and> (\<exists>r. at_door (app_state env) email r w5 \<and> sf_status r = ''active'' \<and> sf_locked_until r = Some (now w5 + minutes 15))"
    by (rule failures_count [OF assms(1-4) _ _ _ assms(7,8)]) (use assms(5,6) in auto)
  with locked_attempts [OF _ _ _ _ assms(9,10)] show ?thesis by blast
qed

lemma clerk_at_door: "at_door (app_state sample_env) ''s@x.y'' clerk (alone sample_office)"
  by (simp add: at_door_def staff_by_email_def staff_by_id_def sample_office_def empty_db_def empty_office_def sample_app_def clerk_def)

theorem five_failures_lock_witness:
  "\<exists>rs w5 qs v.
     try_logins sample_env ''s@x.y'' [(None, None, ''a''), (Some ''1.2.3.4'', None, ''b''), (None, None, ''c''), (None, None, ''d''),
       (None, None, ''e'')] (alone sample_office) = (rs, w5)
     \<and> try_logins sample_env ''s@x.y'' [(None, None, ''f''), (None, None, ''pw''), (None, None, ''pw'')] w5 = (qs, v)
     \<and> set rs \<subseteq> {Inl UNAUTHORIZED} \<and> set qs \<subseteq> {Inl LOCKED}"
proof -
  let ?wrong = "[(None, None, ''a''), (Some ''1.2.3.4'', None, ''b''), (None, None, ''c''), (None, None, ''d''), (None, None, ''e'')]"
  let ?later = "[(None, None, ''f''), (None, None, ''pw''), (None, None, ''pw'')]"
  have wrong: "password_verify (argon sample_env) p (sf_password_hash clerk) = Inr False" if "(f, i, p) \<in> set ?wrong" for f i :: "string option" and p
    using that by (auto simp: password_verify_def sample_env_def plain_argon_def clerk_def)
  have quiet: "turns (snd (try_logins sample_env ''s@x.y'' as w)) = [] \<and> now (snd (try_logins sample_env ''s@x.y'' as w)) = now w"
    if "turns w = []" for as w
    using that
  proof (induction as arbitrary: w)
    case (Cons a as)
    obtain f i p where a: "a = (f, i, p)" by (cases a)
    have still: "keeps (\<lambda>v. turns v = [] \<and> now v = now w) (stmt q) v" if "turns v = [] \<and> now v = now w" for v and q :: "'x sql"
      using that by (auto simp: wp_def quiet_stmt split: prod.split sum.split)
    have "keeps (\<lambda>v. turns v = [] \<and> now v = now w) (staff_login sample_env f i ''s@x.y'' p) w"
      unfolding staff_login_def find_staff_by_email_def query_def increment_failed_login_def update_last_login_def
      using Cons.prems by (intro keeps_bind) (auto intro!: keeps_bind still split: sum.split bool.split)
    from keeps_final [OF this] Cons.IH show ?case unfolding a try_logins_snd by simp
  qed simp
  obtain rs w5 where w5: "try_logins sample_env ''s@x.y'' ?wrong (alone sample_office) = (rs, w5)" by fastforce
  obtain qs v where v: "try_logins sample_env ''s@x.y'' ?later w5 = (qs, v)" by fastforce
  have "turns w5 = []" using quiet [of "alone sample_office" ?wrong] w5 by simp
  then have "now v < now w5 + minutes 15" using quiet [of w5 ?later] v by (simp add: minutes_def)
  from five_failures_lock [OF _ clerk_at_door _ _ _ _ wrong w5 v this] have "set rs \<subseteq> {Inl UNAUTHORIZED} \<and> set qs \<subseteq> {Inl LOCKED}"
    by (simp add: clerk_def)
  with w5 v show ?thesis by blast
qed

section \<open>The second factor\<close>

text \<open>A code that the generator of no staff member accepts.\<close>

definition wrong_code :: "'t admin_env \<Rightarrow> db \<Rightarrow> string \<Rightarrow> bool" where
  "wrong_code env d code \<longleftrightarrow>
     (\<forall>s \<in> set (staff (office d)). \<forall>k raw t. kek_from_env (std_base64 env) (process_env env) = Inr k \<longrightarrow>
        decrypt_secret (cipher env) (kek_key k) (sf_totp_secret_enc s) = Inr raw \<longrightarrow>
        verify_code (totp_at env t) (raw_to_b32 raw) code 1 \<noteq> Inr True)"

lemma rejected_code:
  assumes "calm w" "wrong_code env (db w) code"
  shows "wp (two_factor env forwarded real_ip agent mfa code) (\<lambda>_ _. False) (\<lambda>_ v. calm v \<and> db v = db w) w"
proof -
  have stop: "wp (check_totp env s code) (\<lambda>_ _. False) (\<lambda>_ v. calm v \<and> db v = db w) u"
    if "calm u" "db u = db w" "s \<in> set (staff (office (db w)))" for s u
    unfolding check_totp_def using that assms(2) by (auto simp: wp_rules wrong_code_def split: sum.split)
  have find: "wp (find_staff_by_id sid) (\<lambda>r v. calm v \<and> db v = db w \<and> (\<forall>s. r = Some s \<longrightarrow> s \<in> set (staff (office (db w))))) (\<lambda>_ v. calm v \<and> db v = db w) w" for sid
    unfolding find_staff_by_id_def using assms(1)
    by (intro wp_query_calm) (auto simp: staff_by_id_def dest: find_SomeD)
  show ?thesis
    unfolding two_factor_def
    by (simp add: wp_andthen wp_now_utc wp_ok_or wp_reject_if wp_map_err assms(1) split: option.split)
       (auto intro!: wp_mono [OF find] wp_mono [OF stop] simp: wp_rules split: option.split)
qed

text \<open>
  The second factor is not counted: however many wrong codes are sent, for whatever mfa tokens, the database
  is as it was, so no account is ever locked by them and no later attempt is treated differently.
\<close>

theorem wrong_codes_leave_no_trace:
  assumes "calm w" "\<And>mfa code. (mfa, code) \<in> set attempts \<Longrightarrow> wrong_code env (db w) code"
  shows "db (fold (\<lambda>a w. snd (two_factor env forwarded real_ip agent (fst a) (snd a) w)) attempts w) = db w"
  using assms
proof (induction attempts arbitrary: w)
  case (Cons a attempts)
  have "wp (two_factor env forwarded real_ip agent (fst a) (snd a)) (\<lambda>_ _. False) (\<lambda>_ v. calm v \<and> db v = db w) w"
    by (rule rejected_code [OF Cons.prems(1)]) (use Cons.prems(2) [of "fst a" "snd a"] in auto)
  then have "calm (snd (two_factor env forwarded real_ip agent (fst a) (snd a) w))"
      "db (snd (two_factor env forwarded real_ip agent (fst a) (snd a) w)) = db w"
    by (auto simp: wp_def split: prod.splits sum.splits)
  with Cons.IH [OF this(1)] Cons.prems(2) show ?case by auto
qed simp

theorem wrong_codes_leave_no_trace_witness:
  "db (fold (\<lambda>a w. snd (two_factor sample_env None None None (fst a) (snd a) w))
     (replicate 100 (mfa_issue plain_mac 0 (as_bytes ''k'') ''1'', ''wrong'')) (alone sample_office)) = sample_office"
proof -
  have "decode_base32 (raw_to_b32 [65]) = Inr [65]" by (rule decode_raw_to_b32) simp
  then have "wrong_code sample_env sample_office ''wrong''"
    by (simp add: wrong_code_def sample_office_def empty_office_def clerk_def sample_env_def decrypt_secret_def NONCE_BYTES_def
        TAG_BYTES_def verify_code_def build_totp_def bytes_to_text_def)
  then show ?thesis
    using wrong_codes_leave_no_trace [of "alone sample_office" "replicate 100 (mfa_issue plain_mac 0 (as_bytes ''k'') ''1'', ''wrong'')" sample_env None None None]
    by auto
qed

section \<open>Getting in\<close>

text \<open>The times of a login in whole seconds.\<close>

lemma unix_later: "t \<le> t' \<Longrightarrow> unix_timestamp t \<le> unix_timestamp t'"
  by (simp add: unix_timestamp_def zdiv_mono1)

lemma unix_seconds: "unix_timestamp (t + seconds n) = unix_timestamp t + n"
  by (simp add: unix_timestamp_def seconds_def)

lemma as_usize_id: "0 \<le> n \<Longrightarrow> n < 2 ^ 64 \<Longrightarrow> as_usize n = n"
  by (simp add: as_usize_def)

text \<open>What the login relies on: identifiers parse back from their text, the libraries are sound, and a token can be made for
  times that fit.\<close>

definition staff_env_ok :: "'t admin_env \<Rightarrow> bool" where
  "staff_env_ok env \<longleftrightarrow> mac_ok (macs env) \<and> staff_tokens_ok env
     \<and> (\<forall>u. uuid_parse (app_state env) (uuid_text (app_state env) u) = Some u \<and> utf8_valid (as_bytes (uuid_text (app_state env) u)))
     \<and> (\<forall>k c. 0 \<le> sc_iat c \<and> sc_iat c < 2 ^ 62 \<and> 0 \<le> sc_exp c \<and> sc_exp c < 2 ^ 62 \<longrightarrow> staff_encode env k c \<noteq> None)"

text \<open>The code is the one the staff member's generator shows at the time.\<close>

definition right_code :: "'t admin_env \<Rightarrow> staff_rec \<Rightarrow> timestamp \<Rightarrow> string \<Rightarrow> bool" where
  "right_code env s t code \<longleftrightarrow>
     (\<exists>k raw. kek_from_env (std_base64 env) (process_env env) = Inr k
        \<and> decrypt_secret (cipher env) (kek_key k) (sf_totp_secret_enc s) = Inr raw
        \<and> verify_code (totp_at env (unix_timestamp t)) (raw_to_b32 raw) code 1 = Inr True)"

lemma right_login:
  assumes "turns w = []" "at_door (app_state env) email s w" "sf_status s = ''active''"
    and "\<And>until. sf_locked_until s = Some until \<Longrightarrow> until \<le> now w"
    and "password_verify (argon env) password (sf_password_hash s) = Inr True"
    and "cast_inet (app_state env) (admin_client_ip forwarded real_ip) = Inr ip"
  shows "\<exists>w1. staff_login env forwarded real_ip email password w
        = (Inr (mfa_issue (macs env) (unix_timestamp (now w)) (as_bytes (admin_jwt_secret env)) (uuid_text (app_state env) (sf_id s))), w1)
      \<and> turns w1 = [] \<and> next_id (db w1) = next_id (db w) \<and> role_permissions (office (db w1)) = role_permissions (office (db w))
      \<and> (\<exists>r. staff_by_id (sf_id s) (db w1) = Some r \<and> sf_id r = sf_id s \<and> sf_status r = ''active'' \<and> sf_role r = sf_role s
            \<and> sf_totp_secret_enc r = sf_totp_secret_enc s)"
proof -
  let ?f = "\<lambda>r. r\<lparr>sf_last_login_at := Some (now w), sf_last_login_ip := ip, sf_failed_login_count := 0\<rparr>"
  have "at_door (app_state env) email (?f s) (w\<lparr>db := set_staff (sf_id s) ?f (db w)\<rparr>)"
    by (rule set_staff_at_door [OF assms(2)]) simp_all
  moreover have "\<not> (case sf_locked_until s of None \<Rightarrow> False | Some until \<Rightarrow> now w < until)"
    using assms(4) by (auto split: option.split)
  ultimately show ?thesis
    using assms(1,2,3,5,6)
    by (simp add: staff_login_def run_prog find_staff_by_email_def update_last_login_def update_last_login_sql_def at_door_def)
       (simp add: set_staff_def)
qed

lemma right_factor:
  assumes env: "staff_env_ok env" and w: "turns w = []" "staff_by_id sid (db w) = Some s" "sf_status s = ''active''" "sf_id s = sid"
    and code: "right_code env s (now w) code"
    and times: "0 \<le> t0" "t0 \<le> now w" "now w \<le> t0 + seconds 900" "now w < 2 ^ 60"
    and ip: "cast_inet (app_state env) (admin_client_ip forwarded real_ip) = Inr ip"
  defines "mfa \<equiv> mfa_issue (macs env) (unix_timestamp t0) (as_bytes (admin_jwt_secret env)) (uuid_text (app_state env) sid)"
  defines "c \<equiv> \<lparr>sc_sub = uuid_text (app_state env) sid, sc_aud = ''admin'', sc_staff_role = sf_role s,
      sc_permissions = permissions_of (sf_role s) (db w), sc_iat = unix_timestamp (now w),
      sc_exp = unix_timestamp (now w) + 28800, sc_jti = uuid_text (app_state env) (next_id (db w))\<rparr>"
  shows "\<exists>access w2. two_factor env forwarded real_ip agent mfa code w = (Inr (access, uuid_text (app_state env) (next_id (db w))), w2)
      \<and> staff_encode env (admin_jwt_secret env) c = Some access
      \<and> turns w2 = [] \<and> (\<exists>r \<in> set (staff_sessions (office (db w2))). ss_id r = next_id (db w) \<and> ss_revoked_at r = None
            \<and> ss_expires_at r = now w + hours 8)"
proof -
  have unix: "0 \<le> unix_timestamp t0" "unix_timestamp t0 \<le> unix_timestamp (now w)" "unix_timestamp (now w) \<le> unix_timestamp t0 + 900"
      "unix_timestamp (now w) < 2 ^ 60"
    using times unix_later [OF times(2)] unix_later [OF times(3)] by (simp_all add: unix_seconds) (simp_all add: unix_timestamp_def)
  have mfa: "mfa_verify (macs env) (unix_timestamp (now w)) (as_bytes (admin_jwt_secret env)) mfa = Inr (uuid_text (app_state env) sid)"
    unfolding mfa_def by (subst mfa_token_window) (use env unix in \<open>auto simp: staff_env_ok_def TTL_SECONDS_def\<close>)
  obtain k raw where k: "kek_from_env (std_base64 env) (process_env env) = Inr k"
      "decrypt_secret (cipher env) (kek_key k) (sf_totp_secret_enc s) = Inr raw"
      "verify_code (totp_at env (unix_timestamp (now w))) (raw_to_b32 raw) code 1 = Inr True"
    using code by (auto simp: right_code_def)
  have usize: "as_usize (unix_timestamp (now w)) = unix_timestamp (now w)"
      "as_usize (unix_timestamp (now w + seconds 28800)) = unix_timestamp (now w) + 28800"
    using unix by (simp_all add: unix_seconds as_usize_id)
  obtain access where access: "staff_encode env (admin_jwt_secret env) c = Some access"
    using env unix unfolding staff_env_ok_def c_def by fastforce
  have parse: "uuid_parse (app_state env) (uuid_text (app_state env) u) = Some u" for u
    using env by (simp add: staff_env_ok_def)
  show ?thesis
    using w access ip
    by (simp add: two_factor_def run_prog mfa parse find_staff_by_id_def check_totp_def k get_role_permissions_def create_session_def
        create_session_sql_def staff_jwt_issue_def usize c_def permissions_of_def)
qed

text \<open>
  C17. A staff member can log in: when nobody else uses the database and it answers, with the right password on an active
  account without a running lock, the right code within fifteen minutes, and no forwarding header or one with an address in it,
  the login and the second factor answer, and the token they give is
  accepted for the next eight hours with the role of the account and the permissions its role has. (The libraries of the tokens,
  the codes and the hash keep what they document, and the clock is between 1970 and some millennia from now.)
\<close>

theorem staff_can_log_in:
  assumes "staff_env_ok env" "turns w = []"
    and "at_door (app_state env) email s w" "sf_status s = ''active''"
    and "\<And>until. sf_locked_until s = Some until \<Longrightarrow> until \<le> now w"
    and "password_verify (argon env) password (sf_password_hash s) = Inr True"
    and "cast_inet (app_state env) (admin_client_ip forwarded real_ip) = Inr ip"
    and "cast_inet (app_state env) (admin_client_ip forwarded' real_ip') = Inr ip'"
    and "0 \<le> now w" "now w \<le> t1" "t1 \<le> now w + seconds 900" "t1 < 2 ^ 60" "right_code env s t1 code"
    and "t1 \<le> t2" "t2 < t1 + hours 8"
  shows "\<exists>mfa w1 access sess w2.
      staff_login env forwarded real_ip email password w = (Inr mfa, w1)
    \<and> two_factor env forwarded' real_ip' agent mfa code (w1\<lparr>now := t1\<rparr>) = (Inr (access, sess), w2)
    \<and> (\<exists>su w3. staff_auth env (Some (''Bearer '' @ access)) (w2\<lparr>now := t2\<rparr>) = (Inr su, w3)
          \<and> su_id su = sf_id s \<and> su_role su = sf_role s \<and> su_permissions su = permissions_of (sf_role s) (db w)
          \<and> uuid_text (app_state env) (su_session su) = sess)"
proof -
  let ?mfa = "mfa_issue (macs env) (unix_timestamp (now w)) (as_bytes (admin_jwt_secret env)) (uuid_text (app_state env) (sf_id s))"
  obtain w1 r where w1: "staff_login env forwarded real_ip email password w = (Inr ?mfa, w1)" "turns w1 = []"
      "next_id (db w1) = next_id (db w)" "role_permissions (office (db w1)) = role_permissions (office (db w))"
    and r: "staff_by_id (sf_id s) (db w1) = Some r" "sf_id r = sf_id s" "sf_status r = ''active''" "sf_role r = sf_role s"
      "sf_totp_secret_enc r = sf_totp_secret_enc s"
    using right_login [OF assms(2-7)] by blast
  have code: "right_code env r t1 code" using assms(13) r(5) by (simp add: right_code_def)
  obtain access w2 x where w2: "two_factor env forwarded' real_ip' agent ?mfa code (w1\<lparr>now := t1\<rparr>)
        = (Inr (access, uuid_text (app_state env) (next_id (db w))), w2)" "turns w2 = []"
    and access: "staff_encode env (admin_jwt_secret env) \<lparr>sc_sub = uuid_text (app_state env) (sf_id s), sc_aud = ''admin'',
        sc_staff_role = sf_role s, sc_permissions = permissions_of (sf_role s) (db w), sc_iat = unix_timestamp t1,
        sc_exp = unix_timestamp t1 + 28800, sc_jti = uuid_text (app_state env) (next_id (db w))\<rparr> = Some access"
    and x: "x \<in> set (staff_sessions (office (db w2)))" "ss_id x = next_id (db w)" "ss_revoked_at x = None" "ss_expires_at x = t1 + hours 8"
    using right_factor [OF assms(1), of "w1\<lparr>now := t1\<rparr>" "sf_id s" r code "now w" forwarded' real_ip' ip' agent] w1 r code assms(8-12)
    by (auto simp: permissions_of_def)
  have "unix_timestamp t2 \<le> unix_timestamp (t1 + seconds 28800)"
    using assms(15) by (intro unix_later) (simp add: hours_def)
  then have "staff_decode env (admin_jwt_secret env) ''admin'' 30 (unix_timestamp t2) access = Some
      \<lparr>sc_sub = uuid_text (app_state env) (sf_id s), sc_aud = ''admin'',
        sc_staff_role = sf_role s, sc_permissions = permissions_of (sf_role s) (db w), sc_iat = unix_timestamp t1,
        sc_exp = unix_timestamp t1 + 28800, sc_jti = uuid_text (app_state env) (next_id (db w))\<rparr>"
    using assms(1) access unfolding staff_env_ok_def staff_tokens_ok_def unix_seconds by fastforce
  moreover have "List.find (live_session (next_id (db w)) t2) (staff_sessions (office (db w2))) \<noteq> None"
    using x assms(15) by (auto simp: find_NoneD live_session_def)
  moreover have "strip_prefix ''Bearer '' (''Bearer '' @ access) = Some access" by (rule strip_prefix_append)
  moreover have "uuid_parse (app_state env) (uuid_text (app_state env) u) = Some u" for u
    using assms(1) by (simp add: staff_env_ok_def)
  ultimately have "\<exists>su w3. staff_auth env (Some (''Bearer '' @ access)) (w2\<lparr>now := t2\<rparr>) = (Inr su, w3)
          \<and> su_id su = sf_id s \<and> su_role su = sf_role s \<and> su_permissions su = permissions_of (sf_role s) (db w)
          \<and> uuid_text (app_state env) (su_session su) = uuid_text (app_state env) (next_id (db w))"
    using w2(2) by (auto simp del: append.simps simp: staff_auth_def staff_jwt_verify_def run_prog find_active_session_def split: option.split)
  then show ?thesis using w1(1) w2(1) by blast
qed

lemma sample_env_ok: "staff_env_ok sample_env"
proof -
  have "utf8_valid (as_bytes (show_nat u))" for u
    using utf8_valid_show_int [of "int u"] by (simp add: show_int_def)
  then show ?thesis
    using sample_tokens_ok
    by (simp add: staff_env_ok_def sample_app_def) (simp add: sample_env_def plain_mac_ok plain_encode_def)
qed

lemma clerk_code: "right_code sample_env clerk t ''A''"
proof -
  have "decode_base32 (raw_to_b32 [65]) = Inr [65]" by (rule decode_raw_to_b32) simp
  moreover have "kek_from_env (std_base64 sample_env) (process_env sample_env) = Inr \<lparr>kek_key = as_bytes (replicate 32 CHR ''k''), kek_version = 1\<rparr>"
    unfolding sample_env_def by simp code_simp
  moreover have "CHR ''A'' = char_of (65 :: nat)" by (simp add: char_of_def bit_iff_odd)
  ultimately show ?thesis
    by (simp add: right_code_def)
       (simp add: sample_env_def clerk_def decrypt_secret_def NONCE_BYTES_def TAG_BYTES_def verify_code_def build_totp_def bytes_to_text_def)
qed

theorem staff_can_log_in_witness:
  "\<exists>mfa w1 access sess w2.
      staff_login sample_env (Some ''10.0.0.1'') None ''s@x.y'' ''pw'' (alone sample_office) = (Inr mfa, w1)
    \<and> two_factor sample_env None None None mfa ''A'' (w1\<lparr>now := seconds 60\<rparr>) = (Inr (access, sess), w2)
    \<and> (\<exists>su w3. staff_auth sample_env (Some (''Bearer '' @ access)) (w2\<lparr>now := hours 7\<rparr>) = (Inr su, w3)
          \<and> su_permissions su = [''user.ban''])"
proof -
  have perms: "permissions_of (sf_role clerk) sample_office = [''user.ban'']"
    by (simp add: permissions_of_def sample_office_def empty_office_def clerk_def)
  have pw: "password_verify (argon sample_env) ''pw'' (sf_password_hash clerk) = Inr True"
    by (simp add: password_verify_def sample_env_def plain_argon_def clerk_def)
  have inet: "cast_inet (app_state sample_env) (admin_client_ip (Some ''10.0.0.1'') None) = Inr (Some (utrim (hd (split_on CHR '','' ''10.0.0.1''))))"
    "cast_inet (app_state sample_env) (admin_client_ip None None) = Inr None"
    by (simp_all add: cast_inet_def admin_client_ip_def sample_app_def)
  show ?thesis
    using staff_can_log_in [OF sample_env_ok _ clerk_at_door _ _ pw inet _ _ _ _ clerk_code, where ?t1.0 = "seconds 60"
        and ?t2.0 = "hours 7" and agent = None] perms
    by (auto simp: clerk_def seconds_def hours_def)
qed

end
