(* ===== verification/DbGallery.thy ===== *)
theory DbGallery
  imports DbSocial
begin

text \<open>
  The queries on photos, albums, stories and verification: \<^verbatim>\<open>db/src/photos.rs\<close>, \<^verbatim>\<open>db/src/albums.rs\<close>,
  \<^verbatim>\<open>db/src/stories.rs\<close>, \<^verbatim>\<open>db/src/verification.rs\<close>, and the statements that \<^verbatim>\<open>api/src/media.rs\<close> and
  \<^verbatim>\<open>api/src/stories.rs\<close> hold themselves. A transaction is one atomic statement. Where the order of rows is not
  given by the query, it is the order of the table.
\<close>

section \<open>Photos\<close>

definition user_photos :: "uuid \<Rightarrow> db \<Rightarrow> photo list" where
  "user_photos uid d = filter (\<lambda>p. ph_user p = uid) (photos d)"

definition user_photo :: "uuid \<Rightarrow> uuid \<Rightarrow> db \<Rightarrow> photo option" where
  "user_photo uid pid d = List.find (\<lambda>p. ph_id p = pid \<and> ph_user p = uid) (photos d)"

definition list_user_photos :: "uuid \<Rightarrow> (world, db_error, photo list) prog" where
  "list_user_photos uid = query (\<lambda>_ d. sort_key (\<lambda>p. (\<not> ph_is_primary p, ph_position p)) (user_photos uid d))"

definition count_user_photos :: "uuid \<Rightarrow> (world, db_error, nat) prog" where
  "count_user_photos uid = query (\<lambda>_ d. length (user_photos uid d))"

definition new_photo :: "uuid \<Rightarrow> uuid \<Rightarrow> string \<Rightarrow> string option \<Rightarrow> int \<Rightarrow> bool \<Rightarrow> bool \<Rightarrow> timestamp \<Rightarrow> photo" where
  "new_photo pid uid key blur pos primary nsfw t =
     \<lparr>ph_id = pid, ph_user = uid, ph_r2_key = key, ph_blur_key = blur, ph_position = pos, ph_is_primary = primary,
      ph_is_nsfw = nsfw, ph_moderation_status = ''pending'', ph_created_at = t\<rparr>"

definition insert_photo_sql :: "uuid \<Rightarrow> string \<Rightarrow> string option \<Rightarrow> int \<Rightarrow> bool \<Rightarrow> bool \<Rightarrow> uuid sql" where
  "insert_photo_sql uid key blur pos primary nsfw t d =
     (if \<not> known_user uid d then (Inl ForeignKeyViolation, d)
      else (Inr (next_id d),
            d\<lparr>photos := photos d @ [new_photo (next_id d) uid key blur pos primary nsfw t], next_id := Suc (next_id d)\<rparr>))"

definition set_profile :: "uuid \<Rightarrow> (profile \<Rightarrow> profile) \<Rightarrow> db \<Rightarrow> db" where
  "set_profile uid f d = d\<lparr>profiles := update_where (\<lambda>p. p_user_id p = uid) f (profiles d)\<rparr>"

definition set_photo_key :: "uuid \<Rightarrow> string option \<Rightarrow> db \<Rightarrow> db" where
  "set_photo_key uid key = set_profile uid (p_profile_photo_key_update (\<lambda>_. key))"

text \<open>\<^verbatim>\<open>DELETE FROM photos\<close> with what its foreign keys do: the albums lose the photo, and a profile that
  pointed at it points at nothing.\<close>

definition drop_photo :: "uuid \<Rightarrow> uuid \<Rightarrow> db \<Rightarrow> db" where
  "drop_photo uid pid d =
     (if user_photo uid pid d = None then d
      else d\<lparr>photos := delete_where (\<lambda>p. ph_id p = pid \<and> ph_user p = uid) (photos d),
             gallery := album_photos_update (delete_where (\<lambda>r. ap_photo r = pid)) (gallery d),
             profiles := update_where (\<lambda>p. p_profile_photo_id p = Some pid) (p_profile_photo_id_update (\<lambda>_. None)) (profiles d)\<rparr>)"

definition set_primary_flag :: "(photo \<Rightarrow> bool) \<Rightarrow> bool \<Rightarrow> db \<Rightarrow> db" where
  "set_primary_flag p b d = d\<lparr>photos := update_where p (ph_is_primary_update (\<lambda>_. b)) (photos d)\<rparr>"

definition promote_next :: "uuid \<Rightarrow> db \<Rightarrow> db" where
  "promote_next uid d =
     (case max_by (\<lambda>p. - ph_position p) (user_photos uid d) of
        Some p \<Rightarrow> set_photo_key uid (Some (ph_r2_key p)) (set_primary_flag (\<lambda>r. ph_id r = ph_id p) True d)
      | None \<Rightarrow> set_photo_key uid None d)"

definition delete_photo_row :: "uuid \<Rightarrow> uuid \<Rightarrow> (world, db_error, bool) prog" where
  "delete_photo_row uid pid =
     andthen (query (\<lambda>_. user_photo uid pid)) (\<lambda>row.
       case row of
         None \<Rightarrow> ret False
       | Some p \<Rightarrow>
           andthen (update (\<lambda>_ d. let d' = drop_photo uid pid d in if ph_is_primary p then promote_next uid d' else d')) (\<lambda>_.
           ret True))"

definition make_primary :: "uuid \<Rightarrow> uuid \<Rightarrow> string \<Rightarrow> db \<Rightarrow> db" where
  "make_primary uid pid key d =
     set_photo_key uid (Some key) (set_primary_flag (\<lambda>p. ph_id p = pid) True (set_primary_flag (\<lambda>p. ph_user p = uid) False d))"

definition set_primary_photo_row :: "uuid \<Rightarrow> uuid \<Rightarrow> (world, db_error, bool) prog" where
  "set_primary_photo_row uid pid =
     andthen (query (\<lambda>_ d. map_option ph_r2_key (user_photo uid pid d))) (\<lambda>key.
       case key of
         None \<Rightarrow> ret False
       | Some k \<Rightarrow> andthen (update (\<lambda>_. make_primary uid pid k)) (\<lambda>_. ret True))"

section \<open>Albums\<close>

record album_row =
  ar_album :: album
  ar_photo_count :: nat
  ar_cover_photo_url :: "string option"

definition photo_by_id :: "uuid \<Rightarrow> db \<Rightarrow> photo option" where
  "photo_by_id pid d = List.find (\<lambda>p. ph_id p = pid) (photos d)"

definition album_entries :: "uuid \<Rightarrow> db \<Rightarrow> album_photo list" where
  "album_entries aid d = filter (\<lambda>r. ap_album r = aid) (album_photos (gallery d))"

definition cover_key :: "uuid \<Rightarrow> db \<Rightarrow> string option" where
  "cover_key aid d =
     map_option ph_r2_key
       (Option.bind (max_by (\<lambda>r. - ap_position r) (filter (\<lambda>r. photo_by_id (ap_photo r) d \<noteq> None) (album_entries aid d)))
          (\<lambda>r. photo_by_id (ap_photo r) d))"

definition album_row_of :: "db \<Rightarrow> album \<Rightarrow> album_row" where
  "album_row_of d a = \<lparr>ar_album = a, ar_photo_count = length (album_entries (al_id a) d), ar_cover_photo_url = cover_key (al_id a) d\<rparr>"

definition list_albums :: "uuid \<Rightarrow> (world, db_error, album_row list) prog" where
  "list_albums uid = query (\<lambda>_ d. map (album_row_of d) (newest_first al_created_at (filter (\<lambda>a. al_owner a = uid) (albums (gallery d)))))"

definition create_album_sql :: "uuid \<Rightarrow> string \<Rightarrow> string option \<Rightarrow> bool \<Rightarrow> uuid sql" where
  "create_album_sql uid name description private t d =
     (if \<not> known_user uid d then (Inl ForeignKeyViolation, d)
      else (Inr (next_id d),
            d\<lparr>gallery := albums_update (\<lambda>as. as @ [\<lparr>al_id = next_id d, al_owner = uid, al_name = Some name,
                al_description = description, al_is_private = private, al_created_at = t\<rparr>]) (gallery d),
              next_id := Suc (next_id d)\<rparr>))"

definition create_album_row :: "uuid \<Rightarrow> string \<Rightarrow> string option \<Rightarrow> bool \<Rightarrow> (world, db_error, uuid) prog" where
  "create_album_row uid name description private = stmt (create_album_sql uid name description private)"

definition coalesce :: "'a option \<Rightarrow> 'a option \<Rightarrow> 'a option" where
  "coalesce x y = (case x of None \<Rightarrow> y | Some _ \<Rightarrow> x)"

definition owned_album :: "uuid \<Rightarrow> uuid \<Rightarrow> album \<Rightarrow> bool" where
  "owned_album aid uid a \<longleftrightarrow> al_id a = aid \<and> al_owner a = uid"

definition update_album_sql ::
    "uuid \<Rightarrow> uuid \<Rightarrow> string option \<Rightarrow> string option \<Rightarrow> bool option \<Rightarrow> bool sql" where
  "update_album_sql aid uid name description private t d =
     (Inr (list_ex (owned_album aid uid) (albums (gallery d))),
      d\<lparr>gallery := albums_update (update_where (owned_album aid uid)
          (\<lambda>a. a\<lparr>al_name := coalesce name (al_name a), al_description := coalesce description (al_description a),
                al_is_private := (case private of None \<Rightarrow> al_is_private a | Some b \<Rightarrow> b)\<rparr>)) (gallery d)\<rparr>)"

definition update_album_row ::
    "uuid \<Rightarrow> uuid \<Rightarrow> string option \<Rightarrow> string option \<Rightarrow> bool option \<Rightarrow> (world, db_error, bool) prog" where
  "update_album_row aid uid name description private = stmt (update_album_sql aid uid name description private)"

text \<open>The delete cascades to the photos of the album (as entries, not the photos) and to its shares.\<close>

definition delete_album_sql :: "uuid \<Rightarrow> uuid \<Rightarrow> bool sql" where
  "delete_album_sql aid uid t d =
     (if list_ex (owned_album aid uid) (albums (gallery d))
      then (Inr True,
            d\<lparr>gallery := (gallery d)
               \<lparr>albums := delete_where (owned_album aid uid) (albums (gallery d)),
                album_photos := delete_where (\<lambda>r. ap_album r = aid) (album_photos (gallery d)),
                album_shares := delete_where (\<lambda>r. sh_album r = aid) (album_shares (gallery d))\<rparr>\<rparr>)
      else (Inr False, d))"

definition delete_album_row :: "uuid \<Rightarrow> uuid \<Rightarrow> (world, db_error, bool) prog" where
  "delete_album_row aid uid = stmt (delete_album_sql aid uid)"

definition album_by_id :: "uuid \<Rightarrow> db \<Rightarrow> album option" where
  "album_by_id aid d = List.find (\<lambda>a. al_id a = aid) (albums (gallery d))"

definition get_album_row :: "uuid \<Rightarrow> (world, db_error, album_row option) prog" where
  "get_album_row aid = query (\<lambda>_ d. map_option (album_row_of d) (album_by_id aid d))"

definition share_live :: "timestamp \<Rightarrow> album_share \<Rightarrow> bool" where
  "share_live t r \<longleftrightarrow> sh_revoked_at r = None \<and> (case sh_expires_at r of None \<Rightarrow> True | Some e \<Rightarrow> t < e)"

definition shared_with :: "uuid \<Rightarrow> uuid \<Rightarrow> timestamp \<Rightarrow> db \<Rightarrow> bool" where
  "shared_with aid uid t d \<longleftrightarrow>
     list_ex (\<lambda>r. sh_album r = aid \<and> sh_user r = uid \<and> share_live t r) (album_shares (gallery d))"

definition may_see_album :: "uuid \<Rightarrow> uuid \<Rightarrow> timestamp \<Rightarrow> db \<Rightarrow> bool" where
  "may_see_album aid uid t d \<longleftrightarrow> list_ex (owned_album aid uid) (albums (gallery d)) \<or> shared_with aid uid t d"

definition has_album_access :: "uuid \<Rightarrow> uuid \<Rightarrow> (world, db_error, bool) prog" where
  "has_album_access aid uid = query (may_see_album aid uid)"

text \<open>A photo with its position in the album.\<close>

definition photos_in_album :: "uuid \<Rightarrow> db \<Rightarrow> photo list" where
  "photos_in_album aid d =
     List.map_filter (\<lambda>r. map_option (ph_position_update (\<lambda>_. ap_position r)) (photo_by_id (ap_photo r) d))
       (sort_key ap_position (album_entries aid d))"

definition get_album_photos :: "uuid \<Rightarrow> (world, db_error, photo list) prog" where
  "get_album_photos aid = query (\<lambda>_. photos_in_album aid)"

text \<open>The loop of the transaction; an error undoes it all. The identifier of the photo is new, so the
  \<^verbatim>\<open>ON CONFLICT\<close> of the second insert never applies.\<close>

fun add_keys :: "uuid \<Rightarrow> uuid \<Rightarrow> string list \<Rightarrow> timestamp \<Rightarrow> db \<Rightarrow> db_error + db" where
  "add_keys aid uid [] t d = Inr d"
| "add_keys aid uid (key # keys) t d =
     (case insert_photo_sql uid key None 0 False False t d of
        (Inl e, _) \<Rightarrow> Inl e
      | (Inr pid, d') \<Rightarrow>
          if album_by_id aid d' = None then Inl ForeignKeyViolation
          else add_keys aid uid keys t
            (d'\<lparr>gallery := album_photos_update (\<lambda>rs. rs @ [\<lparr>ap_album = aid, ap_photo = pid, ap_position = 0\<rparr>]) (gallery d')\<rparr>))"

definition add_photos_sql :: "uuid \<Rightarrow> uuid \<Rightarrow> string list \<Rightarrow> nat sql" where
  "add_photos_sql aid uid keys t d =
     (case add_keys aid uid keys t d of Inl e \<Rightarrow> (Inl e, d) | Inr d' \<Rightarrow> (Inr (length keys), d'))"

definition add_photos_to_album :: "uuid \<Rightarrow> uuid \<Rightarrow> string list \<Rightarrow> (world, db_error, nat) prog" where
  "add_photos_to_album aid uid keys = (if keys = [] then ret 0 else stmt (add_photos_sql aid uid keys))"

definition remove_entry_sql :: "uuid \<Rightarrow> uuid \<Rightarrow> bool sql" where
  "remove_entry_sql aid pid t d =
     (Inr (list_ex (\<lambda>r. ap_album r = aid \<and> ap_photo r = pid) (album_photos (gallery d))),
      d\<lparr>gallery := album_photos_update (delete_where (\<lambda>r. ap_album r = aid \<and> ap_photo r = pid)) (gallery d)\<rparr>)"

definition remove_photo_from_album :: "uuid \<Rightarrow> uuid \<Rightarrow> (world, db_error, bool) prog" where
  "remove_photo_from_album aid pid = stmt (remove_entry_sql aid pid)"

definition share_key :: "uuid \<Rightarrow> uuid \<Rightarrow> album_share \<Rightarrow> bool" where
  "share_key aid uid r \<longleftrightarrow> sh_album r = aid \<and> sh_user r = uid"

definition share_album_sql :: "uuid \<Rightarrow> uuid \<Rightarrow> timestamp option \<Rightarrow> bool sql" where
  "share_album_sql aid uid expires t d =
     (if album_by_id aid d = None \<or> \<not> known_user uid d then (Inl ForeignKeyViolation, d)
      else (Inr True,
            d\<lparr>gallery := album_shares_update (\<lambda>rs.
                if list_ex (share_key aid uid) rs
                then update_where (share_key aid uid)
                       (\<lambda>r. r\<lparr>sh_revoked_at := None, sh_expires_at := coalesce expires (sh_expires_at r), sh_granted_at := t\<rparr>) rs
                else rs @ [\<lparr>sh_album = aid, sh_user = uid, sh_granted_at = t, sh_revoked_at = None, sh_expires_at = expires\<rparr>])
              (gallery d)\<rparr>))"

definition share_album_row :: "uuid \<Rightarrow> uuid \<Rightarrow> timestamp option \<Rightarrow> (world, db_error, bool) prog" where
  "share_album_row aid uid expires = stmt (share_album_sql aid uid expires)"

definition unshare_album_sql :: "uuid \<Rightarrow> uuid \<Rightarrow> bool sql" where
  "unshare_album_sql aid uid t d =
     (Inr (list_ex (\<lambda>r. share_key aid uid r \<and> sh_revoked_at r = None) (album_shares (gallery d))),
      d\<lparr>gallery := album_shares_update
          (update_where (\<lambda>r. share_key aid uid r \<and> sh_revoked_at r = None) (sh_revoked_at_update (\<lambda>_. Some t))) (gallery d)\<rparr>)"

definition unshare_album_row :: "uuid \<Rightarrow> uuid \<Rightarrow> (world, db_error, bool) prog" where
  "unshare_album_row aid uid = stmt (unshare_album_sql aid uid)"

definition list_shared_albums :: "uuid \<Rightarrow> (world, db_error, album_row list) prog" where
  "list_shared_albums uid =
     query (\<lambda>t d. map (album_row_of d) (newest_first al_created_at (filter (\<lambda>a. shared_with (al_id a) uid t d) (albums (gallery d)))))"

end
