(* ===== verification/Presign.thy ===== *)
theory Presign
  imports AuthHandlers "HOL-Library.List_Lexorder"
begin

text \<open>
  The first part of \<^verbatim>\<open>api/src/media.rs\<close>: the configuration of the object storage, the AWS signature version 4 of a
  URL, and the keys of uploaded objects. \<open>media_env\<close> holds the application state with the external code of
  the media endpoints.
\<close>

section \<open>Configuration\<close>

record r2_config =
  r2_endpoint :: string
  r2_access_key :: string
  r2_secret_key :: string
  r2_region :: string
  bucket_media :: string
  bucket_private :: string
  bucket_verification :: string

definition trim_end_slashes :: "string \<Rightarrow> string" where
  "trim_end_slashes s = rev (dropWhile (\<lambda>c. c = CHR ''/'') (rev s))"

definition r2_from_env :: "(string \<Rightarrow> string option) \<Rightarrow> r2_config option" where
  "r2_from_env var =
     (case (var ''R2_S3_ENDPOINT'', var ''R2_ACCESS_KEY_ID'', var ''R2_SECRET_ACCESS_KEY'') of
        (Some endpoint, Some key_id, Some secret) \<Rightarrow>
          if endpoint = [] \<or> key_id = [] \<or> secret = [] then None
          else Some \<lparr>r2_endpoint = trim_end_slashes endpoint, r2_access_key = key_id, r2_secret_key = secret,
            r2_region = (case var ''R2_REGION'' of None \<Rightarrow> ''auto'' | Some s \<Rightarrow> s),
            bucket_media = (case var ''R2_BUCKET_MEDIA'' of None \<Rightarrow> ''proyectox-media'' | Some s \<Rightarrow> s),
            bucket_private = (case var ''R2_BUCKET_PRIVATE'' of None \<Rightarrow> ''proyectox-private'' | Some s \<Rightarrow> s),
            bucket_verification = (case var ''R2_BUCKET_VERIFICATION'' of None \<Rightarrow> ''proyectox-verification'' | Some s \<Rightarrow> s)\<rparr>
      | _ \<Rightarrow> None)"

text \<open>
  External code of the media endpoints: HMAC-SHA-256 (key, message), the UTC calendar fields of a time, the text of a
  random UUID, the answers of the storage to a \<^verbatim>\<open>GET\<close> and a \<^verbatim>\<open>PUT\<close> (a draw stands for the storage at
  that moment), and \<^verbatim>\<open>generate_blur_rendition\<close> on the library \<^verbatim>\<open>image\<close>. \<open>NoReply\<close> is a failed request;
  a body may fail to arrive.
\<close>

record civil =
  c_year :: int
  c_month :: nat
  c_day :: nat
  c_hour :: nat
  c_minute :: nat
  c_second :: nat

datatype http_reply = NoReply | Reply nat "bytes option"

record media_env =
  media_app :: app
  r2 :: "r2_config option"
  hmac_sha256 :: "bytes \<Rightarrow> bytes \<Rightarrow> bytes"
  utc_fields :: "timestamp \<Rightarrow> civil"
  new_uuid_text :: "nat \<Rightarrow> string"
  http_get :: "nat \<Rightarrow> string \<Rightarrow> http_reply"
  http_put :: "nat \<Rightarrow> string \<Rightarrow> bytes \<Rightarrow> http_reply"
  generate_blur_rendition :: "bytes \<Rightarrow> bytes option"

section \<open>Encoding\<close>

definition hex_digit_upper :: "nat \<Rightarrow> char" where
  "hex_digit_upper n = ''0123456789ABCDEF'' ! n"

definition percent_byte :: "char \<Rightarrow> string" where
  "percent_byte c = (let n = (of_char c :: nat) in [CHR ''%'', hex_digit_upper (n div 16), hex_digit_upper (n mod 16)])"

definition is_alnum :: "char \<Rightarrow> bool" where
  "is_alnum c \<longleftrightarrow> (let n = (of_char c :: nat) in (65 \<le> n \<and> n \<le> 90) \<or> (97 \<le> n \<and> n \<le> 122) \<or> (48 \<le> n \<and> n \<le> 57))"

definition unreserved :: "char \<Rightarrow> bool" where
  "unreserved c \<longleftrightarrow> is_alnum c \<or> c \<in> set ''-._~''"

definition uri_encode :: "string \<Rightarrow> bool \<Rightarrow> string" where
  "uri_encode s encode_slash =
     concat (map (\<lambda>c. if unreserved c then [c]
                      else if c = CHR ''/'' \<and> \<not> encode_slash then ''/'' else percent_byte c) s)"

text \<open>\<^verbatim>\<open>{:04}\<close> and \<^verbatim>\<open>{:02}\<close>: the sign counts in the width and stands before the zeros.\<close>

definition zero_pad :: "nat \<Rightarrow> int \<Rightarrow> string" where
  "zero_pad w n =
     (let digits = show_nat (nat \<bar>n\<bar>); sign = (if n < 0 then ''-'' else [])
      in sign @ replicate (w - length sign - length digits) (CHR ''0'') @ digits)"

definition amz_timestamps :: "civil \<Rightarrow> string \<times> string" where
  "amz_timestamps c =
     (let datestamp = zero_pad 4 (c_year c) @ zero_pad 2 (int (c_month c)) @ zero_pad 2 (int (c_day c))
      in (datestamp @ ''T'' @ zero_pad 2 (int (c_hour c)) @ zero_pad 2 (int (c_minute c))
            @ zero_pad 2 (int (c_second c)) @ ''Z'', datestamp))"

section \<open>The presigned URL\<close>

definition sha256_hex :: "media_env \<Rightarrow> string \<Rightarrow> string" where
  "sha256_hex env s = hex_lower (sha256 (media_app env) (as_bytes s))"

fun join_with :: "string \<Rightarrow> string list \<Rightarrow> string" where
  "join_with sep [] = []"
| "join_with sep [x] = x"
| "join_with sep (x # xs) = x @ sep @ join_with sep xs"

definition canonical_query :: "(string \<times> string) list \<Rightarrow> string" where
  "canonical_query params =
     join_with ''&'' (map (\<lambda>(k, v). uri_encode k True @ ''='' @ uri_encode v True) (sort_key fst params))"

definition signing_params :: "string \<Rightarrow> string \<Rightarrow> nat \<Rightarrow> (string \<times> string) list" where
  "signing_params credential amzdate expires =
     [(''X-Amz-Algorithm'', ''AWS4-HMAC-SHA256''), (''X-Amz-Content-Sha256'', ''UNSIGNED-PAYLOAD''),
      (''X-Amz-Credential'', credential), (''X-Amz-Date'', amzdate), (''X-Amz-Expires'', show_nat expires),
      (''X-Amz-SignedHeaders'', ''host'')]"

definition NL :: string where
  "NL = [CHR 0x0A]"

definition signing_key :: "media_env \<Rightarrow> r2_config \<Rightarrow> string \<Rightarrow> bytes" where
  "signing_key env cfg datestamp =
     (let k_date = hmac_sha256 env (as_bytes (''AWS4'' @ r2_secret_key cfg)) (as_bytes datestamp);
          k_region = hmac_sha256 env k_date (as_bytes (r2_region cfg));
          k_service = hmac_sha256 env k_region (as_bytes ''s3'')
      in hmac_sha256 env k_service (as_bytes ''aws4_request''))"

definition presign :: "media_env \<Rightarrow> r2_config \<Rightarrow> string \<Rightarrow> string \<Rightarrow> string \<Rightarrow> nat \<Rightarrow> timestamp \<Rightarrow> string" where
  "presign env cfg method bucket key expires t =
     (let host = (case strip_prefix ''https://'' (r2_endpoint cfg) of None \<Rightarrow> r2_endpoint cfg | Some h \<Rightarrow> h);
          (amzdate, datestamp) = amz_timestamps (utc_fields env t);
          scope = datestamp @ ''/'' @ r2_region cfg @ ''/s3/aws4_request'';
          credential = r2_access_key cfg @ ''/'' @ scope;
          canonical_uri = ''/'' @ bucket @ ''/'' @ uri_encode key False;
          query = canonical_query (signing_params credential amzdate expires);
          canonical_request = method @ NL @ canonical_uri @ NL @ query @ NL @ ''host:'' @ host @ NL @ NL
            @ ''host'' @ NL @ ''UNSIGNED-PAYLOAD'';
          string_to_sign = ''AWS4-HMAC-SHA256'' @ NL @ amzdate @ NL @ scope @ NL @ sha256_hex env canonical_request;
          signature = hex_lower (hmac_sha256 env (signing_key env cfg datestamp) (as_bytes string_to_sign))
      in r2_endpoint cfg @ canonical_uri @ ''?'' @ query @ ''&X-Amz-Signature='' @ signature)"

section \<open>Keys\<close>

text \<open>
  \<^verbatim>\<open>to_lowercase\<close> for a text that is compared with ASCII afterwards: of the characters outside ASCII only the Kelvin
  sign (in UTF-8 E2 84 AA) becomes an ASCII text, the others stay outside ASCII and are left as they are.
\<close>

definition ascii_lower :: "char \<Rightarrow> char" where
  "ascii_lower c = (let n = (of_char c :: nat) in if 65 \<le> n \<and> n \<le> 90 then char_of (n + 32) else c)"

fun to_lowercase :: "string \<Rightarrow> string" where
  "to_lowercase (a # b # c # s) =
     (if a = CHR 0xE2 \<and> b = CHR 0x84 \<and> c = CHR 0xAA then CHR ''k'' # to_lowercase s
      else ascii_lower a # to_lowercase (b # c # s))"
| "to_lowercase s = map ascii_lower s"

definition sanitize_ext :: "string option \<Rightarrow> string" where
  "sanitize_ext ext =
     (case ext of
        None \<Rightarrow> ''bin''
      | Some e \<Rightarrow>
          let e' = to_lowercase (dropWhile (\<lambda>c. c = CHR ''.'') e)
          in if e' \<noteq> [] \<and> length e' \<le> 5 \<and> list_all is_alnum e' then e' else ''bin'')"

definition bucket_for :: "r2_config \<Rightarrow> string \<Rightarrow> string option" where
  "bucket_for cfg kind =
     (if kind = ''profile'' then Some (bucket_media cfg)
      else if kind = ''album'' then Some (bucket_private cfg)
      else if kind = ''verification'' then Some (bucket_verification cfg)
      else if kind = ''story'' then Some (bucket_media cfg)
      else None)"

text \<open>Keys of the form \<^verbatim>\<open><kind>/<owner>/..\<close> without \<^verbatim>\<open>..\<close>, the check in front of three endpoints.\<close>

definition owner_prefix :: "media_env \<Rightarrow> string \<Rightarrow> uuid \<Rightarrow> string" where
  "owner_prefix env kind uid = kind @ ''/'' @ uuid_text (media_app env) uid @ ''/''"

definition owned_key :: "media_env \<Rightarrow> string \<Rightarrow> uuid \<Rightarrow> string \<Rightarrow> bool" where
  "owned_key env kind uid key \<longleftrightarrow> \<not> sublist ''..'' key \<and> prefix (owner_prefix env kind uid) key"

end
