(* ===== verification/MediaHandlers.thy ===== *)
theory MediaHandlers
  imports DbGallery Presign SocialHandlers
begin

text \<open>
  The endpoints of \<^verbatim>\<open>api/src/media.rs\<close> on uploaded objects and on the photos of a profile, with the statements
  that decide who may read an object.
\<close>

section \<open>Upload\<close>

record upload_url_response =
  uu_key :: string
  uu_bucket :: string
  uu_put_url :: string
  uu_get_url :: string
  uu_expires_in :: nat

definition upload_url :: "media_env \<Rightarrow> uuid \<Rightarrow> string \<Rightarrow> string option \<Rightarrow> (world, status, upload_url_response) prog" where
  "upload_url env uid kind ext =
     andthen (ok_or SERVICE_UNAVAILABLE (r2 env)) (\<lambda>cfg.
     andthen (ok_or BAD_REQUEST (bucket_for cfg kind)) (\<lambda>bucket.
     andthen (draw (new_uuid_text env)) (\<lambda>oid.
     let key = kind @ ''/'' @ uuid_text (media_app env) uid @ ''/'' @ oid @ ''.'' @ sanitize_ext ext
     in andthen now_utc (\<lambda>t.
        ret \<lparr>uu_key = key, uu_bucket = bucket, uu_put_url = presign env cfg ''PUT'' bucket key 300 t,
             uu_get_url = presign env cfg ''GET'' bucket key 3600 t, uu_expires_in = 300\<rparr>))))"

text \<open>\<^verbatim>\<open>StatusCode::is_success\<close>, and the two requests of \<open>create_photo\<close> to the storage.\<close>

definition is_success :: "nat \<Rightarrow> bool" where
  "is_success code \<longleftrightarrow> 200 \<le> code \<and> code \<le> 299"

definition download :: "media_env \<Rightarrow> string \<Rightarrow> (world, status, bytes) prog" where
  "download env url =
     andthen (draw (\<lambda>i. http_get env i url)) (\<lambda>reply.
       case reply of
         NoReply \<Rightarrow> throw BAD_GATEWAY
       | Reply code body \<Rightarrow> if is_success code then ok_or BAD_GATEWAY body else throw BAD_GATEWAY)"

definition upload :: "media_env \<Rightarrow> string \<Rightarrow> bytes \<Rightarrow> (world, status, unit) prog" where
  "upload env url body =
     andthen (draw (\<lambda>i. http_put env i url body)) (\<lambda>reply.
     andthen (send (Upload url body)) (\<lambda>_.
       case reply of
         NoReply \<Rightarrow> throw BAD_GATEWAY
       | Reply code _ \<Rightarrow> reject_if (\<not> is_success code) BAD_GATEWAY))"

text \<open>\<^verbatim>\<open>i64 as i32\<close>\<close>

definition as_i32 :: "nat \<Rightarrow> int" where
  "as_i32 n = sint (word_of_nat n :: 32 word)"

definition record_photo :: "uuid \<Rightarrow> string \<Rightarrow> string \<Rightarrow> string \<Rightarrow> bool \<Rightarrow> (world, status, uuid) prog" where
  "record_photo uid kind key blur_key nsfw =
     (if kind = ''profile'' then
        andthen (internal (count_user_photos uid)) (\<lambda>n.
        andthen (internal (stmt (insert_photo_sql uid key (Some blur_key) (as_i32 n) (n = 0) nsfw))) (\<lambda>pid.
        andthen (if n = 0 then internal (update (\<lambda>_. set_photo_key uid (Some key))) else ret ()) (\<lambda>_.
        ret pid)))
      else internal (stmt (insert_photo_sql uid key (Some blur_key) 0 False nsfw)))"

record create_photo_response =
  cp_id :: uuid
  cp_r2_key :: string
  cp_blur_key :: string
  cp_is_nsfw :: bool

definition create_photo :: "media_env \<Rightarrow> uuid \<Rightarrow> string \<Rightarrow> bool \<Rightarrow> (world, status, create_photo_response) prog" where
  "create_photo env uid key nsfw =
     andthen (ok_or SERVICE_UNAVAILABLE (r2 env)) (\<lambda>cfg.
     let kind = hd (split_on (CHR ''/'') key)
     in andthen (ok_or BAD_REQUEST (bucket_for cfg kind)) (\<lambda>bucket.
        andthen (reject_if (\<not> owned_key env kind uid key) FORBIDDEN) (\<lambda>_.
        andthen now_utc (\<lambda>t.
        andthen (download env (presign env cfg ''GET'' bucket key 300 t)) (\<lambda>image.
        andthen (ok_or INTERNAL_SERVER_ERROR (generate_blur_rendition env image)) (\<lambda>blur.
        let blur_key = key @ ''.blur.jpg''
        in andthen (upload env (presign env cfg ''PUT'' bucket blur_key 300 t) blur) (\<lambda>_.
           andthen (record_photo uid kind key blur_key nsfw) (\<lambda>pid.
           ret \<lparr>cp_id = pid, cp_r2_key = key, cp_blur_key = blur_key, cp_is_nsfw = nsfw\<rparr>))))))))"

section \<open>Who may read an object\<close>

definition blocked_ids :: "uuid \<Rightarrow> db \<Rightarrow> uuid list" where
  "blocked_ids uid d =
     map bl_target (filter (\<lambda>b. bl_user b = uid) (blocks d)) @ map bl_user (filter (\<lambda>b. bl_target b = uid) (blocks d))"

text \<open>The users that share a conversation with the caller and have no block either way.\<close>

definition connected_ids :: "uuid \<Rightarrow> db \<Rightarrow> uuid list" where
  "connected_ids uid d =
     remdups (concat (map (\<lambda>c1. if cm_user c1 \<noteq> uid then []
         else map cm_user (filter (\<lambda>c2. cm_conversation c2 = cm_conversation c1 \<and> cm_user c2 \<noteq> uid
                \<and> cm_user c2 \<notin> set (blocked_ids uid d)) (conversation_members d)))
       (conversation_members d)))"

definition profile_key_readable :: "string \<Rightarrow> uuid \<Rightarrow> db \<Rightarrow> bool" where
  "profile_key_readable key uid d \<longleftrightarrow>
     list_ex (\<lambda>p. ph_r2_key p = key \<and> (ph_moderation_status p = ''approved'' \<or> ph_user p = uid)) (photos d)"

definition album_photo_readable :: "string \<Rightarrow> uuid \<Rightarrow> timestamp \<Rightarrow> db \<Rightarrow> bool" where
  "album_photo_readable key uid t d \<longleftrightarrow>
     list_ex (\<lambda>p. ph_r2_key p = key
        \<and> (ph_user p = uid \<or> list_ex (\<lambda>r. ap_photo r = ph_id p \<and> shared_with (ap_album r) uid t d) (album_photos (gallery d)))
        \<and> (ph_moderation_status p = ''approved'' \<or> ph_user p = uid)) (photos d)"

definition chat_media_readable :: "string \<Rightarrow> uuid \<Rightarrow> db \<Rightarrow> bool" where
  "chat_media_readable key uid d \<longleftrightarrow>
     list_ex (\<lambda>m. ms_media_key m = Some key \<and> member_of (ms_conversation m) uid d) (messages d)"

definition story_key_readable :: "string \<Rightarrow> uuid \<Rightarrow> db \<Rightarrow> bool" where
  "story_key_readable key uid d \<longleftrightarrow>
     list_ex (\<lambda>s. so_media_key s = key \<and> (so_user s = uid \<or> so_user s \<in> set (connected_ids uid d))) (stories (gallery d))"

definition PRIVATE_PRESIGN_EXPIRY :: nat where "PRIVATE_PRESIGN_EXPIRY = 3600"

definition PUBLIC_PRESIGN_EXPIRY :: nat where "PUBLIC_PRESIGN_EXPIRY = 3600"

definition need_readable :: "(timestamp \<Rightarrow> db \<Rightarrow> bool) \<Rightarrow> nat \<Rightarrow> (world, status, nat) prog" where
  "need_readable p expiry =
     andthen (internal (query p)) (\<lambda>allowed.
     andthen (reject_if (\<not> allowed) FORBIDDEN) (\<lambda>_. ret expiry))"

definition check_access :: "media_env \<Rightarrow> uuid \<Rightarrow> string \<Rightarrow> string \<Rightarrow> (world, status, nat) prog" where
  "check_access env uid key kind =
     (if kind = ''verification'' then
        andthen (reject_if (\<not> prefix (owner_prefix env ''verification'' uid) key) FORBIDDEN) (\<lambda>_.
        ret PRIVATE_PRESIGN_EXPIRY)
      else if kind = ''profile'' then need_readable (\<lambda>_. profile_key_readable key uid) PUBLIC_PRESIGN_EXPIRY
      else if kind = ''album'' then
        need_readable (\<lambda>t d. album_photo_readable key uid t d \<or> chat_media_readable key uid d) PRIVATE_PRESIGN_EXPIRY
      else need_readable (\<lambda>_. story_key_readable key uid) PUBLIC_PRESIGN_EXPIRY)"

definition read_bucket :: "r2_config \<Rightarrow> string \<Rightarrow> string" where
  "read_bucket cfg kind =
     (if kind = ''profile'' then bucket_media cfg
      else if kind = ''album'' then bucket_private cfg
      else if kind = ''story'' then bucket_media cfg
      else bucket_verification cfg)"

definition MEDIA_KINDS :: "string list" where
  "MEDIA_KINDS = [''profile'', ''album'', ''verification'', ''story'']"

definition get_url :: "media_env \<Rightarrow> uuid \<Rightarrow> string \<Rightarrow> string \<Rightarrow> (world, status, string) prog" where
  "get_url env uid key kind =
     andthen (reject_if (kind \<notin> set MEDIA_KINDS) BAD_REQUEST) (\<lambda>_.
     andthen (reject_if (key = [] \<or> sublist ''..'' key) BAD_REQUEST) (\<lambda>_.
     andthen (reject_if (r2 env = None) SERVICE_UNAVAILABLE) (\<lambda>_.
     andthen (check_access env uid key kind) (\<lambda>expiry.
     andthen (ok_or SERVICE_UNAVAILABLE (r2 env)) (\<lambda>cfg.
     andthen now_utc (\<lambda>t.
     ret (presign env cfg ''GET'' (read_bucket cfg kind) key expiry t)))))))"

section \<open>The gallery\<close>

record gallery_photo_item =
  gp_id :: uuid
  gp_url :: string
  gp_is_primary :: bool
  gp_position :: int

definition list_photos :: "media_env \<Rightarrow> uuid \<Rightarrow> (world, status, gallery_photo_item list) prog" where
  "list_photos env uid =
     andthen (ok_or SERVICE_UNAVAILABLE (r2 env)) (\<lambda>cfg.
     andthen (internal (list_user_photos uid)) (\<lambda>rows.
     andthen now_utc (\<lambda>t.
     ret (map (\<lambda>p. \<lparr>gp_id = ph_id p, gp_url = presign env cfg ''GET'' (bucket_media cfg) (ph_r2_key p) 604800 t,
                    gp_is_primary = ph_is_primary p, gp_position = ph_position p\<rparr>) rows))))"

text \<open>\<^verbatim>\<open>true\<close> is 200, \<^verbatim>\<open>false\<close> is 404.\<close>

definition found_or_404 :: "status \<Rightarrow> bool \<Rightarrow> (world, status, status) prog" where
  "found_or_404 code b = (if b then ret code else throw NOT_FOUND)"

definition delete_photo :: "uuid \<Rightarrow> uuid \<Rightarrow> (world, status, status) prog" where
  "delete_photo uid pid = andthen (internal (delete_photo_row uid pid)) (found_or_404 OK)"

definition set_primary_photo :: "uuid \<Rightarrow> uuid \<Rightarrow> (world, status, status) prog" where
  "set_primary_photo uid pid = andthen (internal (set_primary_photo_row uid pid)) (found_or_404 OK)"

end
