(* ===== verification/AlbumHandlers.thy ===== *)
theory AlbumHandlers
  imports MediaHandlers
begin

text \<open>
  \<^verbatim>\<open>api/src/albums.rs\<close>: the endpoints of albums, their photos and their shares.
\<close>

record album_response =
  ab_id :: uuid
  ab_name :: "string option"
  ab_description :: "string option"
  ab_is_private :: bool
  ab_photo_count :: nat
  ab_cover_photo_url :: "string option"
  ab_created_at :: string

definition album_response_from :: "app \<Rightarrow> album_row \<Rightarrow> album_response" where
  "album_response_from st r =
     (let a = ar_album r
      in \<lparr>ab_id = al_id a, ab_name = al_name a, ab_description = al_description a, ab_is_private = al_is_private a,
          ab_photo_count = ar_photo_count r, ab_cover_photo_url = ar_cover_photo_url r,
          ab_created_at = time_display st (al_created_at a)\<rparr>)"

text \<open>The cover becomes a URL when the storage is configured and it is none yet. The clock is read per row in the
  code, which takes no time in the model.\<close>

definition with_cover_url :: "media_env \<Rightarrow> timestamp \<Rightarrow> album_response \<Rightarrow> album_response" where
  "with_cover_url env t r =
     (case (ab_cover_photo_url r, r2 env) of
        (Some cover, Some cfg) \<Rightarrow>
          if prefix ''http'' cover then r
          else r\<lparr>ab_cover_photo_url := Some (presign env cfg ''GET'' (bucket_media cfg) cover 604800 t)\<rparr>
      | _ \<Rightarrow> r)"

definition shown_albums :: "media_env \<Rightarrow> album_row list \<Rightarrow> (world, status, album_response list) prog" where
  "shown_albums env rows =
     andthen now_utc (\<lambda>t. ret (map (\<lambda>r. with_cover_url env t (album_response_from (media_app env) r)) rows))"

definition my_albums :: "media_env \<Rightarrow> uuid \<Rightarrow> (world, status, album_response list) prog" where
  "my_albums env uid = andthen (internal (list_albums uid)) (shown_albums env)"

definition too_long :: "nat \<Rightarrow> string option \<Rightarrow> bool" where
  "too_long n s \<longleftrightarrow> (case s of None \<Rightarrow> False | Some x \<Rightarrow> n < length x)"

definition create_album ::
    "uuid \<Rightarrow> string \<Rightarrow> string option \<Rightarrow> bool \<Rightarrow> (world, status, uuid \<times> string \<times> string option \<times> bool) prog" where
  "create_album uid name description private =
     andthen (reject_if (utrim name = []) BAD_REQUEST) (\<lambda>_.
     andthen (reject_if (100 < length name) BAD_REQUEST) (\<lambda>_.
     andthen (reject_if (too_long 500 description) BAD_REQUEST) (\<lambda>_.
     andthen (internal (create_album_row uid (utrim name) description private)) (\<lambda>aid.
     ret (aid, utrim name, description, private)))))"

definition update_album ::
    "uuid \<Rightarrow> uuid \<Rightarrow> string option \<Rightarrow> string option \<Rightarrow> bool option \<Rightarrow> (world, status, status) prog" where
  "update_album uid aid name description private =
     andthen (reject_if (too_long 100 name) BAD_REQUEST) (\<lambda>_.
     andthen (reject_if (too_long 500 description) BAD_REQUEST) (\<lambda>_.
     andthen (attempt (update_album_row aid uid name description private)) (\<lambda>r.
     ret (case r of Inr True \<Rightarrow> OK | Inr False \<Rightarrow> NOT_FOUND | Inl _ \<Rightarrow> INTERNAL_SERVER_ERROR))))"

definition gone_or_404 :: "db_error + bool \<Rightarrow> status" where
  "gone_or_404 r = (case r of Inr True \<Rightarrow> NO_CONTENT | Inr False \<Rightarrow> NOT_FOUND | Inl _ \<Rightarrow> INTERNAL_SERVER_ERROR)"

definition delete_album :: "uuid \<Rightarrow> uuid \<Rightarrow> (world, status, status) prog" where
  "delete_album uid aid = andthen (attempt (delete_album_row aid uid)) (\<lambda>r. ret (gone_or_404 r))"

record album_photo_response =
  aq_id :: uuid
  aq_r2_key :: string
  aq_photo_url :: string
  aq_blur_key :: "string option"
  aq_is_nsfw :: bool
  aq_position :: int

definition album_photo_shown :: "media_env \<Rightarrow> timestamp \<Rightarrow> photo \<Rightarrow> album_photo_response" where
  "album_photo_shown env t p =
     \<lparr>aq_id = ph_id p, aq_r2_key = ph_r2_key p,
      aq_photo_url = (case r2 env of None \<Rightarrow> [] | Some cfg \<Rightarrow> presign env cfg ''GET'' (bucket_media cfg) (ph_r2_key p) 604800 t),
      aq_blur_key = ph_blur_key p, aq_is_nsfw = ph_is_nsfw p, aq_position = ph_position p\<rparr>"

definition get_album :: "media_env \<Rightarrow> uuid \<Rightarrow> uuid \<Rightarrow> (world, status, album_response \<times> album_photo_response list) prog" where
  "get_album env uid aid =
     andthen (internal (get_album_row aid)) (\<lambda>found.
     andthen (ok_or NOT_FOUND found) (\<lambda>row.
     andthen (if al_owner (ar_album row) \<noteq> uid
              then andthen (internal (has_album_access aid uid)) (\<lambda>allowed. reject_if (\<not> allowed) FORBIDDEN)
              else ret ()) (\<lambda>_.
     andthen (internal (get_album_photos aid)) (\<lambda>rows.
     let is_owner = (al_owner (ar_album row) = uid)
     in andthen now_utc (\<lambda>t.
        ret (album_response_from (media_app env) row,
             map (album_photo_shown env t) (filter (\<lambda>p. is_owner \<or> ph_moderation_status p = ''approved'') rows)))))))"

text \<open>\<^verbatim>\<open>Verify ownership\<close>, in front of the endpoints that change an album.\<close>

definition need_album_owner :: "uuid \<Rightarrow> uuid \<Rightarrow> (world, status, unit) prog" where
  "need_album_owner uid aid =
     andthen (internal (get_album_row aid)) (\<lambda>found.
     andthen (ok_or NOT_FOUND found) (\<lambda>row.
     reject_if (al_owner (ar_album row) \<noteq> uid) FORBIDDEN))"

definition add_photos :: "uuid \<Rightarrow> uuid \<Rightarrow> string list \<Rightarrow> (world, status, nat) prog" where
  "add_photos uid aid keys =
     (if keys = [] then ret 0
      else andthen (need_album_owner uid aid) (\<lambda>_. internal (add_photos_to_album aid uid keys)))"

text \<open>These two endpoints return a bare status; an error of the model is the same status of the code.\<close>

definition remove_photo :: "uuid \<Rightarrow> uuid \<Rightarrow> uuid \<Rightarrow> (world, status, status) prog" where
  "remove_photo uid aid pid =
     andthen (need_album_owner uid aid) (\<lambda>_.
     andthen (attempt (remove_photo_from_album aid pid)) (\<lambda>r. ret (gone_or_404 r)))"

definition unshare_album :: "uuid \<Rightarrow> uuid \<Rightarrow> uuid \<Rightarrow> (world, status, status) prog" where
  "unshare_album uid aid target =
     andthen (need_album_owner uid aid) (\<lambda>_.
     andthen (attempt (unshare_album_row aid target)) (\<lambda>r. ret (gone_or_404 r)))"

definition share_album :: "app \<Rightarrow> uuid \<Rightarrow> uuid \<Rightarrow> uuid \<Rightarrow> string option \<Rightarrow> (world, status, uuid \<times> uuid) prog" where
  "share_album st uid aid target expires_at =
     andthen (need_album_owner uid aid) (\<lambda>_.
     andthen (case expires_at of
                None \<Rightarrow> ret None
              | Some s \<Rightarrow> andthen (ok_or BAD_REQUEST (parse_rfc3339 st s)) (\<lambda>e. ret (Some e))) (\<lambda>expires.
     andthen (internal (share_album_row aid target expires)) (\<lambda>_.
     ret (aid, target))))"

definition shared_albums :: "media_env \<Rightarrow> uuid \<Rightarrow> (world, status, album_response list) prog" where
  "shared_albums env uid = andthen (internal (list_shared_albums uid)) (shown_albums env)"

end
