(* ===== verification/DbProfiles.thy ===== *)
theory DbProfiles
  imports DbGallery DbOffice
begin

text \<open>
  \<^verbatim>\<open>db/src/profiles.rs\<close>: the profile of a user, its lists, and who viewed it; with \<^verbatim>\<open>upsert_location\<close> of
  \<^verbatim>\<open>db/src/geo.rs\<close>.
\<close>

section \<open>The row of a profile\<close>

definition POSITIONS :: "string list" where
  "POSITIONS = [''top'', ''bottom'', ''versatile'', ''side'', ''oral'', ''other'', ''vers_top'', ''vers_bottom'']"

definition position_ok :: "profile \<Rightarrow> bool" where
  "position_ok p \<longleftrightarrow> (case p_position p of None \<Rightarrow> True | Some x \<Rightarrow> x \<in> set POSITIONS)"

text \<open>The defaults of the columns.\<close>

definition default_prefs :: json where
  "default_prefs = JObj [(''new_messages'', JBool True), (''new_taps'', JBool True), (''promotions'', JBool False)]"

definition default_profile :: "uuid \<Rightarrow> timestamp \<Rightarrow> profile" where
  "default_profile uid t =
     \<lparr>p_user_id = uid, p_display_name = None, p_about = None, p_position = None, p_body_type = None, p_height_cm = None,
      p_weight_kg = None, p_relationship_status = None, p_gender_identity = None, p_pronouns = None, p_hiv_status = None,
      p_last_tested_on = None, p_prep = None, p_birthdate = None, p_ethnicity = None, p_profile_photo_id = None,
      p_profile_photo_key = None, p_details = JObj [], p_verified = False, p_incognito = False, p_accept_nsfw = False,
      p_show_age = True, p_show_role = True, p_show_tribes = True, p_show_position = True, p_show_ethnicity = True,
      p_show_relationship_status = True, p_show_social_links = True, p_multimedia_show_album_updates = True,
      p_multimedia_show_carousel = True, p_chat_mark_chatted = True, p_chat_sync = True, p_screen_keep_unlocked = False,
      p_visitor_status = 0, p_units = 0, p_verification_submitted_at = None, p_notification_prefs = Some default_prefs,
      p_idle_reminder_hours = None, p_created_at = t\<rparr>"

text \<open>
  \<^verbatim>\<open>INSERT INTO profiles .. ON CONFLICT (user_id) DO UPDATE SET ..\<close>, where \<open>f\<close> sets the columns: on the defaults in a new
  row, on the old values otherwise. The constraint is checked on the row proposed for insertion first.
\<close>

definition upsert_profile_with :: "uuid \<Rightarrow> (profile \<Rightarrow> profile) \<Rightarrow> unit sql" where
  "upsert_profile_with uid f t d =
     (if \<not> position_ok (f (default_profile uid t)) then (Inl CheckViolation, d)
      else if profile_of uid d \<noteq> None then (Inr (), set_profile uid f d)
      else if \<not> known_user uid d then (Inl ForeignKeyViolation, d)
      else (Inr (), d\<lparr>profiles := profiles d @ [f (default_profile uid t)]\<rparr>))"

record profile_fields =
  in_display_name :: "string option"
  in_bio :: "string option"
  in_birthdate :: "date option"
  in_height_cm :: "int option"
  in_weight_kg :: "int option"
  in_body_type :: "string option"
  in_relationship_status :: "string option"
  in_position :: "string option"
  in_ethnicity :: "string option"
  in_pronouns :: "string option"

definition fill_profile :: "profile_fields \<Rightarrow> profile \<Rightarrow> profile" where
  "fill_profile x p =
     p\<lparr>p_display_name := coalesce (in_display_name x) (p_display_name p), p_about := coalesce (in_bio x) (p_about p),
       p_birthdate := coalesce (in_birthdate x) (p_birthdate p), p_height_cm := coalesce (in_height_cm x) (p_height_cm p),
       p_weight_kg := coalesce (in_weight_kg x) (p_weight_kg p), p_body_type := coalesce (in_body_type x) (p_body_type p),
       p_relationship_status := coalesce (in_relationship_status x) (p_relationship_status p),
       p_position := coalesce (in_position x) (p_position p), p_ethnicity := coalesce (in_ethnicity x) (p_ethnicity p),
       p_pronouns := coalesce (in_pronouns x) (p_pronouns p)\<rparr>"

definition upsert_profile :: "uuid \<Rightarrow> profile_fields \<Rightarrow> (world, db_error, unit) prog" where
  "upsert_profile uid x = stmt (upsert_profile_with uid (fill_profile x))"

section \<open>Details and flags\<close>

record profile_flags =
  fl_show_age :: "bool option"
  fl_show_role :: "bool option"
  fl_show_tribes :: "bool option"
  fl_show_position :: "bool option"
  fl_show_ethnicity :: "bool option"
  fl_show_relationship_status :: "bool option"
  fl_show_social_links :: "bool option"

text \<open>One statement per given value, in the order of the code.\<close>

definition patch_column :: "uuid \<Rightarrow> ('a \<Rightarrow> profile \<Rightarrow> profile) \<Rightarrow> 'a option \<Rightarrow> (world, db_error, unit) prog" where
  "patch_column uid f v = (case v of None \<Rightarrow> ret () | Some x \<Rightarrow> update (\<lambda>_. set_profile uid (f x)))"

definition patch_profile_meta :: "uuid \<Rightarrow> json option \<Rightarrow> profile_flags \<Rightarrow> (world, db_error, unit) prog" where
  "patch_profile_meta uid details fl =
     andthen (patch_column uid (\<lambda>x. p_details_update (\<lambda>_. x)) details) (\<lambda>_.
     andthen (patch_column uid (\<lambda>b. p_show_age_update (\<lambda>_. b)) (fl_show_age fl)) (\<lambda>_.
     andthen (patch_column uid (\<lambda>b. p_show_role_update (\<lambda>_. b)) (fl_show_role fl)) (\<lambda>_.
     andthen (patch_column uid (\<lambda>b. p_show_tribes_update (\<lambda>_. b)) (fl_show_tribes fl)) (\<lambda>_.
     andthen (patch_column uid (\<lambda>b. p_show_position_update (\<lambda>_. b)) (fl_show_position fl)) (\<lambda>_.
     andthen (patch_column uid (\<lambda>b. p_show_ethnicity_update (\<lambda>_. b)) (fl_show_ethnicity fl)) (\<lambda>_.
     andthen (patch_column uid (\<lambda>b. p_show_relationship_status_update (\<lambda>_. b)) (fl_show_relationship_status fl)) (\<lambda>_.
     patch_column uid (\<lambda>b. p_show_social_links_update (\<lambda>_. b)) (fl_show_social_links fl))))))))"

section \<open>Lists\<close>

text \<open>The transaction that replaces a list. The key of a row is the value itself, or its case folding for \<^verbatim>\<open>citext\<close>;
  a repeated key breaks the primary key and undoes the transaction.\<close>

definition replace_labels ::
    "(string \<Rightarrow> string) \<Rightarrow> uuid \<Rightarrow> string list \<Rightarrow> db \<Rightarrow> label_row list \<Rightarrow> db_error + label_row list" where
  "replace_labels key uid xs d rows =
     (let kept = delete_where (\<lambda>r. fst r = uid) rows
      in if xs = [] then Inr kept
         else if \<not> known_user uid d then Inl ForeignKeyViolation
         else if \<not> distinct (map key xs) then Inl UniqueViolation
         else Inr (kept @ map (\<lambda>x. (uid, x)) xs))"

definition replace_labels_sql ::
    "(people \<Rightarrow> label_row list) \<Rightarrow> (label_row list \<Rightarrow> people \<Rightarrow> people) \<Rightarrow> (string \<Rightarrow> string) \<Rightarrow> uuid \<Rightarrow> string list \<Rightarrow> unit sql" where
  "replace_labels_sql table put key uid xs t d =
     (case replace_labels key uid xs d (table (people d)) of
        Inl e \<Rightarrow> (Inl e, d)
      | Inr rows \<Rightarrow> (Inr (), d\<lparr>people := put rows (people d)\<rparr>))"

definition replace_profile_tribes :: "uuid \<Rightarrow> string list \<Rightarrow> (world, db_error, unit) prog" where
  "replace_profile_tribes uid xs = stmt (replace_labels_sql profile_tribes (\<lambda>rs. profile_tribes_update (\<lambda>_. rs)) id uid xs)"

definition replace_profile_looking_for :: "uuid \<Rightarrow> string list \<Rightarrow> (world, db_error, unit) prog" where
  "replace_profile_looking_for uid xs =
     stmt (replace_labels_sql profile_looking_for (\<lambda>rs. profile_looking_for_update (\<lambda>_. rs)) id uid xs)"

definition replace_profile_meet_at :: "uuid \<Rightarrow> string list \<Rightarrow> (world, db_error, unit) prog" where
  "replace_profile_meet_at uid xs = stmt (replace_labels_sql profile_meet_at (\<lambda>rs. profile_meet_at_update (\<lambda>_. rs)) id uid xs)"

definition replace_profile_tags :: "app \<Rightarrow> uuid \<Rightarrow> string list \<Rightarrow> (world, db_error, unit) prog" where
  "replace_profile_tags st uid xs =
     stmt (replace_labels_sql profile_tags (\<lambda>rs. profile_tags_update (\<lambda>_. rs)) (citext_key st) uid xs)"

definition labels_of :: "(people \<Rightarrow> label_row list) \<Rightarrow> (string \<Rightarrow> string) \<Rightarrow> uuid \<Rightarrow> db \<Rightarrow> string list" where
  "labels_of table order uid d = sort_key order (map snd (filter (\<lambda>r. fst r = uid) (table (people d))))"

definition get_profile_tribes :: "app \<Rightarrow> uuid \<Rightarrow> (world, db_error, string list) prog" where
  "get_profile_tribes st uid = query (\<lambda>_. labels_of profile_tribes (collation st) uid)"

definition get_profile_looking_for :: "app \<Rightarrow> uuid \<Rightarrow> (world, db_error, string list) prog" where
  "get_profile_looking_for st uid = query (\<lambda>_. labels_of profile_looking_for (collation st) uid)"

definition get_profile_meet_at :: "app \<Rightarrow> uuid \<Rightarrow> (world, db_error, string list) prog" where
  "get_profile_meet_at st uid = query (\<lambda>_. labels_of profile_meet_at (collation st) uid)"

definition get_profile_tags :: "app \<Rightarrow> uuid \<Rightarrow> (world, db_error, string list) prog" where
  "get_profile_tags st uid = query (\<lambda>_. labels_of profile_tags (\<lambda>x. collation st (citext_key st x)) uid)"

section \<open>Views\<close>

definition insert_view_sql :: "uuid \<Rightarrow> uuid \<Rightarrow> unit sql" where
  "insert_view_sql viewer target t d =
     (if \<not> known_user viewer d \<or> \<not> known_user target d then (Inl ForeignKeyViolation, d)
      else (Inr (), d\<lparr>people := profile_views_update (\<lambda>vs. vs @ [\<lparr>pw_id = next_id d, pw_viewer = viewer, pw_target = target,
                pw_viewed_at = t\<rparr>]) (people d), next_id := Suc (next_id d)\<rparr>))"

text \<open>The question for the column \<^verbatim>\<open>id\<close> (it is there after migration 0022) chooses between equal statements.\<close>

definition log_profile_view :: "uuid \<Rightarrow> uuid \<Rightarrow> (world, db_error, unit) prog" where
  "log_profile_view viewer target =
     (if viewer = target then ret ()
      else andthen (attempt (query (\<lambda>_ _. True))) (\<lambda>has_id.
             if has_id = Inr True then stmt (insert_view_sql viewer target) else stmt (insert_view_sql viewer target)))"

definition count_profile_views :: "uuid \<Rightarrow> (world, db_error, nat) prog" where
  "count_profile_views target =
     query (\<lambda>_ d. length (remdups (map pw_viewer (filter (\<lambda>v. pw_target v = target) (profile_views (people d))))))"

record profile_view_row =
  vw_viewer_id :: uuid
  vw_viewed_at :: timestamp
  vw_display_name :: "string option"
  vw_profile_photo_url :: "string option"

definition list_profile_view_rows :: "uuid \<Rightarrow> nat \<Rightarrow> (world, db_error, profile_view_row list) prog" where
  "list_profile_view_rows target n =
     query (\<lambda>_ d. map (\<lambda>v. \<lparr>vw_viewer_id = pw_viewer v, vw_viewed_at = pw_viewed_at v,
                          vw_display_name = display_name_of (pw_viewer v) d, vw_profile_photo_url = primary_key (pw_viewer v) d\<rparr>)
       (take n (newest_first pw_viewed_at (filter (\<lambda>v. pw_target v = target) (profile_views (people d))))))"

section \<open>Location\<close>

definition upsert_location_sql :: "uuid \<Rightarrow> rat \<Rightarrow> rat \<Rightarrow> unit sql" where
  "upsert_location_sql uid lon lat t d =
     (if list_ex (\<lambda>l. lo_user l = uid) (locations (people d))
      then (Inr (), d\<lparr>people := locations_update (update_where (\<lambda>l. lo_user l = uid)
              (\<lambda>l. l\<lparr>lo_lon := lon, lo_lat := lat, lo_updated_at := t\<rparr>)) (people d)\<rparr>)
      else if \<not> known_user uid d then (Inl ForeignKeyViolation, d)
      else (Inr (), d\<lparr>people := locations_update (\<lambda>ls. ls @ [\<lparr>lo_user = uid, lo_lon = lon, lo_lat = lat, lo_accuracy = None,
              lo_show_distance = True, lo_incognito = False, lo_updated_at = t\<rparr>]) (people d)\<rparr>))"

definition upsert_location :: "uuid \<Rightarrow> rat \<Rightarrow> rat \<Rightarrow> (world, db_error, unit) prog" where
  "upsert_location uid lon lat = stmt (upsert_location_sql uid lon lat)"

end
