(* ===== verification/StoryHandlers.thy ===== *)
theory StoryHandlers
  imports MediaHandlers
begin

text \<open>
  Stories and the verification of profiles: \<^verbatim>\<open>db/src/stories.rs\<close>, \<^verbatim>\<open>api/src/stories.rs\<close> and
  \<^verbatim>\<open>db/src/verification.rs\<close>.
\<close>

section \<open>Queries on stories\<close>

record story_row =
  sr_story :: story
  sr_display_name :: "string option"
  sr_avatar_key :: "string option"

definition create_story_sql :: "uuid \<Rightarrow> string \<Rightarrow> string \<Rightarrow> string option \<Rightarrow> uuid sql" where
  "create_story_sql uid key media_type caption t d =
     (if \<not> known_user uid d then (Inl ForeignKeyViolation, d)
      else (Inr (next_id d),
            d\<lparr>gallery := stories_update (\<lambda>ss. ss @ [\<lparr>so_id = next_id d, so_user = uid, so_media_key = key,
                so_media_type = media_type, so_caption = caption, so_created_at = t, so_expires_at = t + hours 24\<rparr>]) (gallery d),
              next_id := Suc (next_id d)\<rparr>))"

definition create_story_row :: "uuid \<Rightarrow> string \<Rightarrow> string \<Rightarrow> string option \<Rightarrow> (world, db_error, uuid) prog" where
  "create_story_row uid key media_type caption = stmt (create_story_sql uid key media_type caption)"

definition avatar_key_of :: "uuid \<Rightarrow> db \<Rightarrow> string option" where
  "avatar_key_of uid d =
     Option.bind (List.find (\<lambda>p. p_user_id p = uid) (profiles d)) (\<lambda>p.
     Option.bind (p_profile_photo_id p) (\<lambda>pid. map_option ph_r2_key (photo_by_id pid d)))"

definition story_row_of :: "db \<Rightarrow> story \<Rightarrow> story_row" where
  "story_row_of d s = \<lparr>sr_story = s, sr_display_name = display_name_of (so_user s) d, sr_avatar_key = avatar_key_of (so_user s) d\<rparr>"

definition active_story :: "timestamp \<Rightarrow> story \<Rightarrow> bool" where
  "active_story t s \<longleftrightarrow> t < so_expires_at s"

definition active_stories :: "uuid list \<Rightarrow> timestamp \<Rightarrow> db \<Rightarrow> story_row list" where
  "active_stories uids t d =
     map (story_row_of d)
       (sort_key (\<lambda>s. (so_user s, - so_created_at s))
          (filter (\<lambda>s. so_user s \<in> set uids \<and> active_story t s) (stories (gallery d))))"

definition get_active_stories :: "uuid list \<Rightarrow> (world, db_error, story_row list) prog" where
  "get_active_stories uids = query (active_stories uids)"

definition get_story_by_id :: "uuid \<Rightarrow> (world, db_error, story option) prog" where
  "get_story_by_id sid = query (\<lambda>_ d. List.find (\<lambda>s. so_id s = sid) (stories (gallery d)))"

text \<open>The delete cascades to the views of the story.\<close>

definition owned_story :: "uuid \<Rightarrow> uuid \<Rightarrow> story \<Rightarrow> bool" where
  "owned_story sid uid s \<longleftrightarrow> so_id s = sid \<and> so_user s = uid"

definition delete_story_sql :: "uuid \<Rightarrow> uuid \<Rightarrow> nat sql" where
  "delete_story_sql sid uid t d =
     (let n = length (filter (owned_story sid uid) (stories (gallery d)))
      in (Inr n,
          if n = 0 then d
          else d\<lparr>gallery := (gallery d)\<lparr>stories := delete_where (owned_story sid uid) (stories (gallery d)),
                 story_views := delete_where (\<lambda>v. sv_story v = sid) (story_views (gallery d))\<rparr>\<rparr>))"

definition delete_story_row :: "uuid \<Rightarrow> uuid \<Rightarrow> (world, db_error, nat) prog" where
  "delete_story_row sid uid = stmt (delete_story_sql sid uid)"

definition get_own_active_stories :: "uuid \<Rightarrow> (world, db_error, story_row list) prog" where
  "get_own_active_stories uid =
     query (\<lambda>t d. map (story_row_of d)
       (newest_first so_created_at (filter (\<lambda>s. so_user s = uid \<and> active_story t s) (stories (gallery d)))))"

definition seen_by :: "uuid \<Rightarrow> uuid \<Rightarrow> story_view \<Rightarrow> bool" where
  "seen_by sid uid v \<longleftrightarrow> sv_story v = sid \<and> sv_user v = uid"

definition mark_viewed_story_sql :: "uuid \<Rightarrow> uuid \<Rightarrow> unit sql" where
  "mark_viewed_story_sql sid uid t d =
     (if list_ex (seen_by sid uid) (story_views (gallery d)) then (Inr (), d)
      else if \<not> list_ex (\<lambda>s. so_id s = sid) (stories (gallery d)) \<or> \<not> known_user uid d then (Inl ForeignKeyViolation, d)
      else (Inr (), d\<lparr>gallery := story_views_update (\<lambda>vs. vs @ [\<lparr>sv_story = sid, sv_user = uid, sv_viewed_at = t\<rparr>]) (gallery d)\<rparr>))"

definition mark_viewed :: "uuid \<Rightarrow> uuid \<Rightarrow> (world, db_error, unit) prog" where
  "mark_viewed sid uid = stmt (mark_viewed_story_sql sid uid)"

definition has_viewed :: "uuid \<Rightarrow> uuid \<Rightarrow> (world, db_error, bool) prog" where
  "has_viewed sid uid = query (\<lambda>_ d. list_ex (seen_by sid uid) (story_views (gallery d)))"

definition views_of :: "uuid \<Rightarrow> db \<Rightarrow> nat" where
  "views_of sid d = length (filter (\<lambda>v. sv_story v = sid) (story_views (gallery d)))"

definition view_count :: "uuid \<Rightarrow> (world, db_error, nat) prog" where
  "view_count sid = query (\<lambda>_. views_of sid)"

definition get_connected_user_ids :: "uuid \<Rightarrow> (world, db_error, uuid list) prog" where
  "get_connected_user_ids uid = query (\<lambda>_. connected_ids uid)"

section \<open>Endpoints\<close>

definition create_story :: "media_env \<Rightarrow> uuid \<Rightarrow> string \<Rightarrow> string \<Rightarrow> string option \<Rightarrow> (world, status, uuid) prog" where
  "create_story env uid key media_type caption =
     andthen (reject_if (media_type \<notin> {''photo'', ''video''}) BAD_REQUEST) (\<lambda>_.
     andthen (reject_if (key = []) BAD_REQUEST) (\<lambda>_.
     andthen (reject_if (\<not> owned_key env ''story'' uid key) FORBIDDEN) (\<lambda>_.
     internal (create_story_row uid key media_type caption))))"

record story_json =
  sj_id :: uuid
  sj_user_id :: uuid
  sj_media_key :: string
  sj_media_type :: string
  sj_caption :: "string option"
  sj_display_name :: "string option"
  sj_avatar_key :: "string option"
  sj_created_at :: string
  sj_expires_at :: string
  sj_viewed :: bool
  sj_view_count :: nat

record story_group =
  sg_user_id :: uuid
  sg_display_name :: "string option"
  sg_avatar_key :: "string option"
  sg_stories :: "story_json list"
  sg_all_viewed :: bool

text \<open>The two batched queries; a failing one counts as no rows (\<^verbatim>\<open>unwrap_or_default\<close>).\<close>

definition or_no_rows :: "(world, db_error, 'a list) prog \<Rightarrow> (world, status, 'a list) prog" where
  "or_no_rows m = andthen (attempt m) (\<lambda>r. ret (case r of Inl _ \<Rightarrow> [] | Inr rows \<Rightarrow> rows))"

definition viewed_among :: "uuid \<Rightarrow> uuid list \<Rightarrow> (world, db_error, uuid list) prog" where
  "viewed_among uid sids =
     query (\<lambda>_ d. remdups (map sv_story (filter (\<lambda>v. sv_user v = uid \<and> sv_story v \<in> set sids) (story_views (gallery d)))))"

definition view_counts_among :: "uuid list \<Rightarrow> (world, db_error, (uuid \<times> nat) list) prog" where
  "view_counts_among sids =
     query (\<lambda>_ d. map (\<lambda>sid. (sid, views_of sid d))
       (remdups (map sv_story (filter (\<lambda>v. sv_story v \<in> set sids) (story_views (gallery d))))))"

definition story_json_of :: "app \<Rightarrow> uuid list \<Rightarrow> (uuid \<rightharpoonup> nat) \<Rightarrow> story_row \<Rightarrow> story_json" where
  "story_json_of st viewed counts r =
     (let s = sr_story r
      in \<lparr>sj_id = so_id s, sj_user_id = so_user s, sj_media_key = so_media_key s, sj_media_type = so_media_type s,
          sj_caption = so_caption s, sj_display_name = sr_display_name r, sj_avatar_key = sr_avatar_key r,
          sj_created_at = rfc3339_text st (so_created_at s), sj_expires_at = rfc3339_text st (so_expires_at s),
          sj_viewed = (so_id s \<in> set viewed), sj_view_count = (case counts (so_id s) of None \<Rightarrow> 0 | Some n \<Rightarrow> n)\<rparr>)"

text \<open>
  The loop that groups the stories. Its state is the stories of the current group, the user they are from and the
  groups that are finished; \<open>None\<close> stands for the panic of \<^verbatim>\<open>last_user_id.unwrap()\<close>.
\<close>

definition group_of :: "uuid \<Rightarrow> story_json list \<Rightarrow> story_group" where
  "group_of uid js =
     \<lparr>sg_user_id = uid, sg_display_name = sj_display_name (js ! 0), sg_avatar_key = sj_avatar_key (js ! 0),
      sg_stories = js, sg_all_viewed = list_all sj_viewed js\<rparr>"

fun group_loop :: "story_json list \<Rightarrow> story_json list \<Rightarrow> uuid option \<Rightarrow> story_group list \<Rightarrow>
    (story_json list \<times> uuid option \<times> story_group list) option" where
  "group_loop [] current last_user groups = Some (current, last_user, groups)"
| "group_loop (j # js) current last_user groups =
     (if last_user \<noteq> Some (sj_user_id j) then
        (if current \<noteq> [] then
           (case last_user of
              None \<Rightarrow> None
            | Some u \<Rightarrow> group_loop js [j] (Some (sj_user_id j)) (groups @ [group_of u current]))
         else group_loop js (current @ [j]) (Some (sj_user_id j)) groups)
      else group_loop js (current @ [j]) last_user groups)"

definition group_stories :: "story_json list \<Rightarrow> story_group list option" where
  "group_stories js =
     map_option (\<lambda>(current, last_user, groups).
       if current \<noteq> [] then (case last_user of None \<Rightarrow> groups | Some u \<Rightarrow> groups @ [group_of u current]) else groups)
       (group_loop js [] None [])"

text \<open>A panic would end the request with status 500.\<close>

definition list_stories :: "app \<Rightarrow> uuid \<Rightarrow> (world, status, story_json list \<times> story_group list) prog" where
  "list_stories st uid =
     andthen (internal (get_connected_user_ids uid)) (\<lambda>connected.
     andthen (internal (get_active_stories (connected @ [uid]))) (\<lambda>rows.
     let sids = map (\<lambda>r. so_id (sr_story r)) rows
     in andthen (if sids \<noteq> [] then or_no_rows (viewed_among uid sids) else ret []) (\<lambda>viewed.
        andthen (if sids \<noteq> [] then or_no_rows (view_counts_among sids) else ret []) (\<lambda>counts.
        andthen (ok_or INTERNAL_SERVER_ERROR (group_stories (map (story_json_of st viewed (map_of counts)) rows))) (\<lambda>groups.
        ret (concat (map sg_stories groups), groups))))))"

definition delete_story :: "uuid \<Rightarrow> uuid \<Rightarrow> (world, status, status) prog" where
  "delete_story uid sid =
     andthen (internal (delete_story_row sid uid)) (\<lambda>n.
     andthen (reject_if (n = 0) NOT_FOUND) (\<lambda>_.
     ret NO_CONTENT))"

definition view_story :: "uuid \<Rightarrow> uuid \<Rightarrow> (world, status, status) prog" where
  "view_story uid sid =
     andthen (internal (get_story_by_id sid)) (\<lambda>found.
     andthen (ok_or NOT_FOUND found) (\<lambda>s.
       if so_user s = uid then ret OK
       else andthen (internal (mark_viewed sid uid)) (\<lambda>_. ret OK)))"

section \<open>Verification of profiles\<close>

record verification_status =
  vs_verified :: bool
  vs_pending :: bool

definition submit_verification_sql :: "uuid \<Rightarrow> string \<Rightarrow> uuid sql" where
  "submit_verification_sql uid key t d =
     (if \<not> known_user uid d then (Inl ForeignKeyViolation, d)
      else (Inr (next_id d),
            set_profile uid (p_verification_submitted_at_update (\<lambda>_. Some t))
              (d\<lparr>gallery := verification_requests_update (\<lambda>rs. rs @ [\<lparr>vr_id = next_id d, vr_user = uid, vr_photo_key = key,
                   vr_status = ''pending'', vr_created_at = t, vr_reviewed_at = None\<rparr>]) (gallery d),
                 next_id := Suc (next_id d)\<rparr>)))"

definition submit_verification :: "uuid \<Rightarrow> string \<Rightarrow> (world, db_error, uuid) prog" where
  "submit_verification uid key = stmt (submit_verification_sql uid key)"

definition get_verification_status :: "uuid \<Rightarrow> (world, db_error, verification_status) prog" where
  "get_verification_status uid =
     andthen (query (\<lambda>_ d. map_option p_verified (List.find (\<lambda>p. p_user_id p = uid) (profiles d)))) (\<lambda>verified.
     andthen (query (\<lambda>_ d. list_ex (\<lambda>r. vr_user r = uid \<and> vr_status r = ''pending'') (verification_requests (gallery d)))) (\<lambda>pending.
     ret \<lparr>vs_verified = (case verified of None \<Rightarrow> False | Some b \<Rightarrow> b), vs_pending = pending\<rparr>))"

definition pending_request :: "uuid \<Rightarrow> verification_request \<Rightarrow> bool" where
  "pending_request rid r \<longleftrightarrow> vr_id r = rid \<and> vr_status r = ''pending''"

definition approve_verification_row :: "uuid \<Rightarrow> timestamp \<Rightarrow> db \<Rightarrow> db" where
  "approve_verification_row rid t d =
     (case List.find (pending_request rid) (verification_requests (gallery d)) of
        None \<Rightarrow> d
      | Some r \<Rightarrow>
          set_profile (vr_user r) (p_verified_update (\<lambda>_. True))
            (d\<lparr>gallery := verification_requests_update (update_where (pending_request rid)
                 (\<lambda>r. r\<lparr>vr_status := ''approved'', vr_reviewed_at := Some t\<rparr>)) (gallery d)\<rparr>))"

definition approve_verification :: "uuid \<Rightarrow> (world, db_error, unit) prog" where
  "approve_verification rid = update (approve_verification_row rid)"

end
