(* ===== verification/ProfileHandlers.thy ===== *)
theory ProfileHandlers
  imports DbProfiles MediaHandlers StoryHandlers AdminHandlers
begin

text \<open>
  Profiles as their owners and others see them: \<^verbatim>\<open>api/src/profile.rs\<close>, the endpoints of \<^verbatim>\<open>api/src/grindr_t1.rs\<close> on
  presence, views, health and verification, \<^verbatim>\<open>api/src/privacy.rs\<close>, and the export of \<^verbatim>\<open>api/src/me.rs\<close>.
\<close>

section \<open>A profile as JSON\<close>

text \<open>The \<^verbatim>\<open>Display\<close> form of a \<^verbatim>\<open>time::Date\<close>.\<close>

definition date_text :: "date \<Rightarrow> string" where
  "date_text x = zero_pad (if year x < 0 then 5 else 4) (year x) @ ''-'' @ zero_pad 2 (int (month x)) @ ''-'' @ zero_pad 2 (int (day x))"

definition json_remove :: "string \<Rightarrow> json \<Rightarrow> json" where
  "json_remove k v = (case v of JObj ms \<Rightarrow> JObj (filter (\<lambda>(k', _). k' \<noteq> k) ms) | _ \<Rightarrow> v)"

definition media_url :: "media_env \<Rightarrow> string \<Rightarrow> timestamp \<Rightarrow> string option" where
  "media_url env key t = map_option (\<lambda>cfg. presign env cfg ''GET'' (bucket_media cfg) key 604800 t) (r2 env)"

record profile_lists =
  ls_tribes :: "string list"
  ls_looking_for :: "string list"
  ls_meet_at :: "string list"
  ls_tags :: "string list"
  ls_photos :: "json list"

definition photo_url_of :: "media_env \<Rightarrow> user_full_row \<Rightarrow> timestamp \<Rightarrow> string option" where
  "photo_url_of env u t =
     (case uf_profile_photo_key u of Some key \<Rightarrow> media_url env key t | None \<Rightarrow> uf_profile_photo_url u)"

definition full_profile_json :: "media_env \<Rightarrow> user_full_row \<Rightarrow> profile_lists \<Rightarrow> timestamp \<Rightarrow> json" where
  "full_profile_json env u ls t =
     (let st = media_app env in JObj
       [(''id'', json_uuid st (u_id u)), (''email'', JStr (u_email u)), (''email_verified'', JBool (u_email_verified u)),
        (''verified'', JBool (uf_verified u)), (''status'', JStr (u_status u)), (''role'', JStr (u_role u)),
        (''created_at'', json_time st (u_created_at u)), (''display_name'', json_opt JStr (uf_display_name u)),
        (''bio'', json_opt JStr (uf_bio u)), (''birthdate'', json_opt (\<lambda>x. JStr (date_text x)) (uf_birthdate u)),
        (''height_cm'', json_opt json_int (uf_height_cm u)), (''weight_kg'', json_opt json_int (uf_weight_kg u)),
        (''body_type'', json_opt JStr (uf_body_type u)), (''relationship_status'', json_opt JStr (uf_relationship_status u)),
        (''position'', json_opt JStr (uf_position u)), (''ethnicity'', json_opt JStr (uf_ethnicity u)),
        (''pronouns'', json_opt JStr (uf_pronouns u)), (''profile_photo_id'', json_opt (json_uuid st) (uf_profile_photo_id u)),
        (''profile_photo_key'', json_opt JStr (uf_profile_photo_key u)),
        (''profile_photo_url'', json_opt JStr (photo_url_of env u t)), (''photos'', JArr (ls_photos ls)),
        (''tribes'', json_strs (ls_tribes ls)), (''looking_for'', json_strs (ls_looking_for ls)),
        (''meet_at'', json_strs (ls_meet_at ls)), (''tags'', json_strs (ls_tags ls)), (''details'', uf_details u),
        (''show_age'', JBool (uf_show_age u)), (''show_role'', JBool (uf_show_role u)),
        (''show_tribes'', JBool (uf_show_tribes u)), (''show_position'', JBool (uf_show_position u)),
        (''show_ethnicity'', JBool (uf_show_ethnicity u)),
        (''show_relationship_status'', JBool (uf_show_relationship_status u)),
        (''show_social_links'', JBool (uf_show_social_links u))])"

definition hide_unless :: "bool \<Rightarrow> string \<Rightarrow> json \<Rightarrow> json" where
  "hide_unless b k v = (if b then v else json_remove k v)"

definition hide_social :: "bool \<Rightarrow> json \<Rightarrow> json" where
  "hide_social b v =
     (if b then v
      else case json_get ''details'' v of Some x \<Rightarrow> json_set ''details'' (json_remove ''social'' x) v | None \<Rightarrow> v)"

definition privacy_filter :: "user_full_row \<Rightarrow> json \<Rightarrow> json" where
  "privacy_filter u v =
     hide_social (uf_show_social_links u)
       (hide_unless (uf_show_relationship_status u) ''relationship_status''
         (hide_unless (uf_show_ethnicity u) ''ethnicity''
           (hide_unless (uf_show_position u) ''position''
             (hide_unless (uf_show_tribes u) ''tribes''
               (hide_unless (uf_show_role u) ''role''
                 (hide_unless (uf_show_age u) ''birthdate''
                   (json_remove ''email_verified'' (json_remove ''email'' v))))))))"

definition profile_to_json :: "media_env \<Rightarrow> user_full_row \<Rightarrow> profile_lists \<Rightarrow> bool \<Rightarrow> timestamp \<Rightarrow> json" where
  "profile_to_json env u ls apply_privacy_filter t =
     (let v = full_profile_json env u ls t in if apply_privacy_filter then privacy_filter u v else v)"

definition approved_photos :: "uuid \<Rightarrow> db \<Rightarrow> photo list" where
  "approved_photos uid d =
     sort_key (\<lambda>p. (\<not> ph_is_primary p, ph_position p))
       (filter (\<lambda>p. ph_moderation_status p = ''approved'') (user_photos uid d))"

definition load_photos_json :: "media_env \<Rightarrow> uuid \<Rightarrow> uuid \<Rightarrow> (world, db_error, json list) prog" where
  "load_photos_json env target caller =
     andthen (if target = caller then list_user_photos target else query (\<lambda>_. approved_photos target)) (\<lambda>rows.
     andthen now_utc (\<lambda>t.
     ret (map (\<lambda>p. JObj [(''id'', json_uuid (media_app env) (ph_id p)),
                        (''url'', json_opt JStr (media_url env (ph_r2_key p) t))]) rows)))"

section \<open>Reading a profile\<close>

definition load_lists :: "media_env \<Rightarrow> uuid \<Rightarrow> uuid \<Rightarrow> (world, status, profile_lists) prog" where
  "load_lists env uid caller =
     (let st = media_app env in
      andthen (internal (get_profile_tribes st uid)) (\<lambda>tribes.
      andthen (internal (get_profile_looking_for st uid)) (\<lambda>looking_for.
      andthen (internal (get_profile_meet_at st uid)) (\<lambda>meet_at.
      andthen (internal (get_profile_tags st uid)) (\<lambda>tags.
      andthen (internal (load_photos_json env uid caller)) (\<lambda>ps.
      ret \<lparr>ls_tribes = tribes, ls_looking_for = looking_for, ls_meet_at = meet_at, ls_tags = tags, ls_photos = ps\<rparr>))))))"

definition get_own :: "media_env \<Rightarrow> uuid \<Rightarrow> (world, status, json) prog" where
  "get_own env uid =
     andthen (internal (find_user_full uid)) (\<lambda>found.
     andthen (ok_or NOT_FOUND found) (\<lambda>u.
     andthen (load_lists env uid uid) (\<lambda>ls.
     andthen now_utc (\<lambda>t.
     ret (JObj [(''user'', profile_to_json env u ls False t)])))))"

definition get_by_id :: "media_env \<Rightarrow> uuid \<Rightarrow> uuid \<Rightarrow> (world, status, json) prog" where
  "get_by_id env caller uid =
     andthen (internal (is_blocked caller uid)) (\<lambda>b.
     andthen (reject_if b NOT_FOUND) (\<lambda>_.
     andthen (internal (find_user_full uid)) (\<lambda>found.
     andthen (ok_or NOT_FOUND found) (\<lambda>u.
     andthen (load_lists env uid caller) (\<lambda>ls.
     andthen now_utc (\<lambda>t.
     ret (JObj [(''user'', profile_to_json env u ls True t)])))))))"

definition get_profile_views_count :: "uuid \<Rightarrow> (world, status, json) prog" where
  "get_profile_views_count uid = andthen (internal (count_profile_views uid)) (\<lambda>n. ret (JObj [(''count'', json_nat n)]))"

section \<open>Changing a profile\<close>

record update_profile_req =
  up_profile_photo_key :: "string option"
  up_fields :: profile_fields
  up_birthdate :: "string option"
  up_tribes :: "string list option"
  up_looking_for :: "string list option"
  up_meet_at :: "string list option"
  up_tags :: "string list option"
  up_details :: "json option option"
  up_flags :: profile_flags

definition over :: "nat \<Rightarrow> string option \<Rightarrow> bool" where
  "over n s \<longleftrightarrow> (case s of None \<Rightarrow> False | Some x \<Rightarrow> n < length x)"

definition fields_too_long :: "profile_fields \<Rightarrow> bool" where
  "fields_too_long x \<longleftrightarrow>
     over 50 (in_display_name x) \<or> over 500 (in_bio x) \<or> over 30 (in_body_type x) \<or> over 50 (in_ethnicity x)
     \<or> over 30 (in_pronouns x) \<or> over 30 (in_relationship_status x) \<or> over 30 (in_position x)"

definition parse_optional :: "('a \<Rightarrow> 'b option) \<Rightarrow> 'a option \<Rightarrow> (world, status, 'b option) prog" where
  "parse_optional f v = (case v of None \<Rightarrow> ret None | Some x \<Rightarrow> andthen (ok_or BAD_REQUEST (f x)) (\<lambda>y. ret (Some y)))"

definition DETAILS_MAX_BYTES :: nat where "DETAILS_MAX_BYTES = 8 * 1024"

text \<open>\<open>None\<close> is a request without the member, \<open>Some None\<close> one with \<^verbatim>\<open>null\<close>.\<close>

definition is_object :: "json \<Rightarrow> bool" where
  "is_object v \<longleftrightarrow> (case v of JObj _ \<Rightarrow> True | _ \<Rightarrow> False)"

definition check_details :: "app \<Rightarrow> json option option \<Rightarrow> (world, status, json option) prog" where
  "check_details st details =
     (case details of
        None \<Rightarrow> ret None
      | Some None \<Rightarrow> throw UNPROCESSABLE_ENTITY
      | Some (Some v) \<Rightarrow>
          andthen (reject_if (\<not> is_object v) UNPROCESSABLE_ENTITY) (\<lambda>_.
          andthen (reject_if (DETAILS_MAX_BYTES < json_size st v) PAYLOAD_TOO_LARGE) (\<lambda>_. ret (Some v))))"

definition when_given :: "'a option \<Rightarrow> ('a \<Rightarrow> (world, db_error, unit) prog) \<Rightarrow> (world, status, unit) prog" where
  "when_given v f = (case v of None \<Rightarrow> ret () | Some x \<Rightarrow> internal (f x))"

text \<open>The code runs the four replacements, and later the six reads, concurrently; they are on different tables,
  and the model runs them one after the other.\<close>

definition replace_lists :: "app \<Rightarrow> uuid \<Rightarrow> update_profile_req \<Rightarrow> (world, status, unit) prog" where
  "replace_lists st uid req =
     andthen (when_given (up_tribes req) (replace_profile_tribes uid)) (\<lambda>_.
     andthen (when_given (up_looking_for req) (replace_profile_looking_for uid)) (\<lambda>_.
     andthen (when_given (up_meet_at req) (replace_profile_meet_at uid)) (\<lambda>_.
     when_given (up_tags req) (replace_profile_tags st uid))))"

definition store_photo_key :: "media_env \<Rightarrow> uuid \<Rightarrow> string option \<Rightarrow> (world, status, unit) prog" where
  "store_photo_key env uid key =
     (case (key, r2 env) of
        (Some k, Some _) \<Rightarrow> internal (update (\<lambda>_. set_photo_key uid (Some k)))
      | _ \<Rightarrow> ret ())"

definition stored_fields :: "profile_fields \<Rightarrow> date option \<Rightarrow> profile_fields" where
  "stored_fields x birthdate = x\<lparr>in_birthdate := birthdate, in_position := map_option to_lowercase (in_position x)\<rparr>"

definition update_own :: "media_env \<Rightarrow> uuid \<Rightarrow> update_profile_req \<Rightarrow> (world, status, json) prog" where
  "update_own env uid req =
     (let st = media_app env in
      andthen (reject_if (fields_too_long (up_fields req)) UNPROCESSABLE_ENTITY) (\<lambda>_.
      andthen (parse_optional (parse_date st) (up_birthdate req)) (\<lambda>birthdate.
      andthen (check_details st (up_details req)) (\<lambda>details.
      andthen (internal (upsert_profile uid (stored_fields (up_fields req) birthdate))) (\<lambda>_.
      andthen (replace_lists st uid req) (\<lambda>_.
      andthen (store_photo_key env uid (up_profile_photo_key req)) (\<lambda>_.
      andthen (internal (patch_profile_meta uid details (up_flags req))) (\<lambda>_.
      andthen (internal (find_user_full uid)) (\<lambda>found.
      andthen (load_lists env uid uid) (\<lambda>ls.
      andthen (ok_or NOT_FOUND found) (\<lambda>u.
      andthen now_utc (\<lambda>t.
      ret (JObj [(''user'', profile_to_json env u ls False t)])))))))))))))"

section \<open>Presence, views, health, verification\<close>

definition show_user_status :: "app \<Rightarrow> uuid \<Rightarrow> uuid \<Rightarrow> (world, status, json) prog" where
  "show_user_status st caller uid =
     andthen (attempt (touch_last_seen caller)) (\<lambda>_.
     andthen (attempt (log_profile_view caller uid)) (\<lambda>_.
     andthen (internal (get_user_status uid)) (\<lambda>found.
     andthen (ok_or NOT_FOUND found) (\<lambda>s.
     ret (JObj [(''user_id'', json_uuid st (us_user_id s)), (''is_online'', JBool (us_is_online s)),
                (''last_seen_at'', json_opt (json_time st) (us_last_seen_at s))])))))"

definition list_profile_views :: "app \<Rightarrow> uuid \<Rightarrow> (world, status, json) prog" where
  "list_profile_views st uid =
     andthen (internal (list_profile_view_rows uid 50)) (\<lambda>rows.
     ret (JObj [(''viewers'', JArr (map (\<lambda>r. JObj
       [(''viewer_id'', json_uuid st (vw_viewer_id r)), (''viewed_at'', json_time st (vw_viewed_at r)),
        (''display_name'', json_opt JStr (vw_display_name r)), (''profile_photo_url'', json_opt JStr (vw_profile_photo_url r))]) rows))]))"

definition health_json :: "string option \<times> date option \<times> bool option \<Rightarrow> json" where
  "health_json row = (case row of (hiv, tested, prep) \<Rightarrow>
     JObj [(''hiv_status'', json_opt JStr hiv), (''last_tested_on'', json_opt (\<lambda>x. JStr (date_text x)) tested),
           (''prep'', json_opt JBool prep)])"

definition health_of :: "profile \<Rightarrow> string option \<times> date option \<times> bool option" where
  "health_of p = (p_hiv_status p, p_last_tested_on p, p_prep p)"

definition get_health :: "uuid \<Rightarrow> (world, status, json) prog" where
  "get_health uid =
     andthen (internal (query (\<lambda>_ d. map_option health_of (profile_of uid d)))) (\<lambda>row.
     ret (health_json (case row of None \<Rightarrow> (None, None, None) | Some r \<Rightarrow> r)))"

text \<open>\<^verbatim>\<open>INSERT .. ON CONFLICT DO NOTHING\<close>\<close>

definition ensure_profile :: "uuid \<Rightarrow> (world, db_error, unit) prog" where
  "ensure_profile uid = stmt (upsert_profile_with uid id)"

definition update_health ::
    "app \<Rightarrow> uuid \<Rightarrow> string option \<Rightarrow> string option \<Rightarrow> bool option \<Rightarrow> (world, status, json) prog" where
  "update_health st uid hiv tested prep =
     andthen (parse_optional (parse_date st) (if tested = Some [] then None else tested)) (\<lambda>tested_on.
     andthen (internal (ensure_profile uid)) (\<lambda>_.
     andthen (internal (update (\<lambda>_. set_profile uid
        (\<lambda>p. p\<lparr>p_hiv_status := hiv, p_last_tested_on := tested_on, p_prep := prep\<rparr>)))) (\<lambda>_.
     andthen (internal (query (\<lambda>_ d. map_option health_of (profile_of uid d)))) (\<lambda>row.
     andthen (ok_or INTERNAL_SERVER_ERROR row) (\<lambda>r.
     ret (health_json r))))))"

definition verify_profile :: "app \<Rightarrow> uuid \<Rightarrow> string \<Rightarrow> (world, status, json) prog" where
  "verify_profile st uid key =
     andthen (reject_if (utrim key = []) BAD_REQUEST) (\<lambda>_.
     andthen (internal (submit_verification uid key)) (\<lambda>rid.
     ret (JObj [(''id'', json_uuid st rid), (''status'', JStr ''pending'')])))"

definition show_verification_status :: "uuid \<Rightarrow> (world, status, json) prog" where
  "show_verification_status uid =
     andthen (internal (get_verification_status uid)) (\<lambda>s.
     ret (JObj [(''verified'', JBool (vs_verified s)), (''pending'', JBool (vs_pending s))]))"

definition export_data :: "app \<Rightarrow> uuid \<Rightarrow> (world, status, json) prog" where
  "export_data st uid =
     andthen (map_err (\<lambda>_. NOT_FOUND) (build_legal_dossier uid)) (\<lambda>v.
     ret (JObj [(''status'', JStr ''ok''), (''user_id'', json_uuid st uid), (''email'', JStr (u_email (ld_user v))),
       (''display_name'', json_opt JStr (Option.bind (ld_profile v) p_display_name)),
       (''photos_count'', json_nat (length (ld_photos v))), (''subscriptions_count'', json_nat (length (ld_subscriptions v))),
       (''reports_against_count'', json_nat (length (ld_reports_against v))),
       (''consent_records_count'', json_nat (length (ld_consent_records v)))]))"

section \<open>Preferences\<close>

record privacy_preferences =
  pr_multimedia_show_album_updates :: bool
  pr_multimedia_show_carousel :: bool
  pr_chat_mark_chatted :: bool
  pr_chat_sync :: bool
  pr_screen_keep_unlocked :: bool
  pr_visitor_status :: int
  pr_units :: int
  pr_incognito :: bool

record update_privacy_preferences =
  upr_multimedia_show_album_updates :: "bool option"
  upr_multimedia_show_carousel :: "bool option"
  upr_chat_mark_chatted :: "bool option"
  upr_chat_sync :: "bool option"
  upr_screen_keep_unlocked :: "bool option"
  upr_visitor_status :: "int option"
  upr_units :: "int option"
  upr_incognito :: "bool option"

datatype privacy_pref_error = InvalidVisitorStatus | InvalidUnits | PrefDb

fun privacy_pref_status :: "privacy_pref_error \<Rightarrow> status" where
  "privacy_pref_status InvalidVisitorStatus = UNPROCESSABLE_ENTITY"
| "privacy_pref_status InvalidUnits = UNPROCESSABLE_ENTITY"
| "privacy_pref_status PrefDb = INTERNAL_SERVER_ERROR"

definition row_to_prefs :: "profile \<Rightarrow> privacy_preferences" where
  "row_to_prefs p =
     \<lparr>pr_multimedia_show_album_updates = p_multimedia_show_album_updates p,
      pr_multimedia_show_carousel = p_multimedia_show_carousel p, pr_chat_mark_chatted = p_chat_mark_chatted p,
      pr_chat_sync = p_chat_sync p, pr_screen_keep_unlocked = p_screen_keep_unlocked p,
      pr_visitor_status = p_visitor_status p, pr_units = p_units p, pr_incognito = p_incognito p\<rparr>"

definition read_preferences :: "uuid \<Rightarrow> (world, privacy_pref_error, privacy_preferences) prog" where
  "read_preferences uid =
     andthen (map_err (\<lambda>_. PrefDb) (query (\<lambda>_. profile_of uid))) (\<lambda>row.
     andthen (ok_or PrefDb row) (\<lambda>p. ret (row_to_prefs p)))"

definition get_preferences :: "uuid \<Rightarrow> (world, privacy_pref_error, privacy_preferences) prog" where
  "get_preferences uid = andthen (map_err (\<lambda>_. PrefDb) (ensure_profile uid)) (\<lambda>_. read_preferences uid)"

definition keep_or :: "'a option \<Rightarrow> 'a \<Rightarrow> 'a" where
  "keep_or x old = (case x of None \<Rightarrow> old | Some v \<Rightarrow> v)"

definition apply_preferences :: "update_privacy_preferences \<Rightarrow> profile \<Rightarrow> profile" where
  "apply_preferences req p =
     p\<lparr>p_multimedia_show_album_updates := keep_or (upr_multimedia_show_album_updates req) (p_multimedia_show_album_updates p),
       p_multimedia_show_carousel := keep_or (upr_multimedia_show_carousel req) (p_multimedia_show_carousel p),
       p_chat_mark_chatted := keep_or (upr_chat_mark_chatted req) (p_chat_mark_chatted p),
       p_chat_sync := keep_or (upr_chat_sync req) (p_chat_sync p),
       p_screen_keep_unlocked := keep_or (upr_screen_keep_unlocked req) (p_screen_keep_unlocked p),
       p_visitor_status := keep_or (upr_visitor_status req) (p_visitor_status p),
       p_units := keep_or (upr_units req) (p_units p), p_incognito := keep_or (upr_incognito req) (p_incognito p)\<rparr>"

definition out_of_range :: "int \<Rightarrow> int option \<Rightarrow> bool" where
  "out_of_range hi v \<longleftrightarrow> (case v of None \<Rightarrow> False | Some n \<Rightarrow> n < 0 \<or> hi < n)"

definition update_preferences ::
    "uuid \<Rightarrow> update_privacy_preferences \<Rightarrow> (world, privacy_pref_error, privacy_preferences) prog" where
  "update_preferences uid req =
     andthen (reject_if (out_of_range 2 (upr_visitor_status req)) InvalidVisitorStatus) (\<lambda>_.
     andthen (reject_if (out_of_range 1 (upr_units req)) InvalidUnits) (\<lambda>_.
     andthen (map_err (\<lambda>_. PrefDb) (ensure_profile uid)) (\<lambda>_.
     andthen (map_err (\<lambda>_. PrefDb) (update (\<lambda>_. set_profile uid (apply_preferences req)))) (\<lambda>_.
     read_preferences uid))))"

end
