(* ===== verification/Onboarding.thy ===== *)
theory Onboarding
  imports ProfileHandlers
begin

text \<open>
  \<^verbatim>\<open>api/src/onboarding.rs\<close>: the cards a new user completes or skips, and when the account becomes visible.
\<close>

section \<open>Cards\<close>

definition REQUIRED_CARDS :: "(string \<times> string \<times> string) list" where
  "REQUIRED_CARDS =
     [(''profile_photo'', ''Profile photo'', ''Add a photo''), (''display_name'', ''Display name'', ''Set your name''),
      (''age'', ''Age'', ''Confirm your age''), (''gender_position'', ''Gender & position'', ''Set your gender and position'')]"

definition OPTIONAL_CARDS :: "(string \<times> string \<times> string) list" where
  "OPTIONAL_CARDS =
     [(''looking_for'', ''Looking for'', ''What are you looking for''), (''tribes'', ''Tribes'', ''Pick your tribes''),
      (''vaccines'', ''Health & vaccines'', ''Share your health info''), (''practices'', ''Practices'', ''Add your practices''),
      (''about_me'', ''About me'', ''Write a short bio''), (''height'', ''Height'', ''Add your height''),
      (''weight'', ''Weight'', ''Add your weight''), (''relationship_status'', ''Relationship status'', ''Set your status''),
      (''position_preference'', ''Position preference'', ''Set your position''), (''ethnicity'', ''Ethnicity'', ''Add your ethnicity'')]"

record onboarding_card =
  oc_id :: string
  oc_label :: string
  oc_kind :: string
  oc_completed :: bool
  oc_skipped_at :: "timestamp option"
  oc_cta_label :: string

record onboarding_state =
  os_completed :: bool
  os_completed_at :: "timestamp option"
  os_cards :: "onboarding_card list"

record user_profile_snapshot =
  sn_has_profile_photo :: bool
  sn_display_name :: string
  sn_dob :: "date option"
  sn_gender :: "string option"
  sn_position :: "string option"
  sn_has_looking_for :: bool
  sn_has_tribes :: bool
  sn_details :: "json option"
  sn_about_me :: "string option"
  sn_height_cm :: "int option"
  sn_weight_kg :: "int option"
  sn_relationship_status :: "string option"
  sn_position_preference :: "string option"
  sn_ethnicity :: "string option"

text \<open>\<^verbatim>\<open>details->>'key'\<close>; only whether the text is empty matters, so any value but a text stands for its JSON form, which
  is not empty.\<close>

definition json_member_text :: "string \<Rightarrow> json \<Rightarrow> string option" where
  "json_member_text k v =
     (case json_get k v of None \<Rightarrow> None | Some JNull \<Rightarrow> None | Some (JStr s) \<Rightarrow> Some s | Some _ \<Rightarrow> Some ''json'')"

definition has_label :: "label_row list \<Rightarrow> uuid \<Rightarrow> bool" where
  "has_label rows uid \<longleftrightarrow> list_ex (\<lambda>r. fst r = uid) rows"

definition snapshot_of :: "user_rec \<Rightarrow> db \<Rightarrow> user_profile_snapshot" where
  "snapshot_of u d =
     (let uid = u_id u; p = profile_of uid d
      in \<lparr>sn_has_profile_photo = (user_photos uid d \<noteq> []), sn_display_name = or_empty (Option.bind p p_display_name),
          sn_dob = u_dob u, sn_gender = Option.bind p p_gender_identity, sn_position = Option.bind p p_position,
          sn_has_looking_for = has_label (profile_looking_for (people d)) uid,
          sn_has_tribes = has_label (profile_tribes (people d)) uid, sn_details = map_option p_details p,
          sn_about_me = Option.bind p p_about, sn_height_cm = Option.bind p p_height_cm,
          sn_weight_kg = Option.bind p p_weight_kg, sn_relationship_status = Option.bind p p_relationship_status,
          sn_position_preference = Option.bind p (\<lambda>x. json_member_text ''position_preference'' (p_details x)),
          sn_ethnicity = Option.bind p p_ethnicity\<rparr>)"

definition filled_array :: "string \<Rightarrow> json option \<Rightarrow> bool" where
  "filled_array k details \<longleftrightarrow>
     (case Option.bind details (json_get k) of Some (JArr xs) \<Rightarrow> xs \<noteq> [] | _ \<Rightarrow> False)"

definition filled_text :: "string option \<Rightarrow> bool" where
  "filled_text x \<longleftrightarrow> (case x of None \<Rightarrow> False | Some s \<Rightarrow> s \<noteq> [])"

definition card_completed :: "user_profile_snapshot \<Rightarrow> string \<Rightarrow> bool" where
  "card_completed s cid \<longleftrightarrow>
     (if cid = ''profile_photo'' then sn_has_profile_photo s
      else if cid = ''display_name'' then sn_display_name s \<noteq> []
      else if cid = ''age'' then sn_dob s \<noteq> None
      else if cid = ''gender_position'' then sn_gender s \<noteq> None \<and> sn_position s \<noteq> None
      else if cid = ''looking_for'' then sn_has_looking_for s
      else if cid = ''tribes'' then sn_has_tribes s
      else if cid = ''vaccines'' then filled_array ''vaccines'' (sn_details s)
      else if cid = ''practices'' then filled_array ''practices'' (sn_details s)
      else if cid = ''about_me'' then filled_text (sn_about_me s)
      else if cid = ''height'' then sn_height_cm s \<noteq> None
      else if cid = ''weight'' then sn_weight_kg s \<noteq> None
      else if cid = ''relationship_status'' then sn_relationship_status s \<noteq> None
      else if cid = ''position_preference'' then filled_text (sn_position_preference s)
      else if cid = ''ethnicity'' then sn_ethnicity s \<noteq> None
      else False)"

definition skipped_ids :: "json \<Rightarrow> string list" where
  "skipped_ids v = (case v of JArr xs \<Rightarrow> List.map_filter (\<lambda>x. Option.bind (json_get ''card_id'' x) json_str) xs | _ \<Rightarrow> [])"

definition card_of :: "user_profile_snapshot \<Rightarrow> string \<Rightarrow> string \<times> string \<times> string \<Rightarrow> onboarding_card" where
  "card_of s kind c = (case c of (cid, label, cta) \<Rightarrow>
     \<lparr>oc_id = cid, oc_label = label, oc_kind = kind, oc_completed = card_completed s cid, oc_skipped_at = None, oc_cta_label = cta\<rparr>)"

definition cards_of :: "user_profile_snapshot \<Rightarrow> string list \<Rightarrow> onboarding_card list" where
  "cards_of s skipped =
     map (card_of s ''required'') REQUIRED_CARDS
     @ map (card_of s ''optional'') (filter (\<lambda>(cid, _). cid \<notin> set skipped) OPTIONAL_CARDS)"

definition get_onboarding :: "uuid \<Rightarrow> (world, status, onboarding_state) prog" where
  "get_onboarding uid =
     andthen (internal (query (\<lambda>_. user_by_id uid))) (\<lambda>row.
     andthen (ok_or INTERNAL_SERVER_ERROR row) (\<lambda>u.
     andthen (internal (query (\<lambda>_ d. map_option (\<lambda>u. snapshot_of u d) (user_by_id uid d)))) (\<lambda>found.
     andthen (ok_or INTERNAL_SERVER_ERROR found) (\<lambda>s.
     ret \<lparr>os_completed = (u_onboarding_completed_at u \<noteq> None), os_completed_at = u_onboarding_completed_at u,
          os_cards = cards_of s (skipped_ids (u_onboarding_skipped_cards u))\<rparr>))))"

section \<open>When onboarding is complete\<close>

definition ready_to_show :: "uuid \<Rightarrow> db \<Rightarrow> user_rec \<Rightarrow> bool" where
  "ready_to_show uid d u \<longleftrightarrow>
     u_id u = uid \<and> u_onboarding_completed_at u = None \<and> user_photos uid d \<noteq> []
     \<and> list_ex (\<lambda>p. p_user_id p = uid \<and> or_empty (p_display_name p) \<noteq> []) (profiles d)
     \<and> u_dob u \<noteq> None
     \<and> list_ex (\<lambda>p. p_user_id p = uid \<and> p_gender_identity p \<noteq> None \<and> p_position p \<noteq> None) (profiles d)"

definition complete_if_ready :: "uuid \<Rightarrow> timestamp \<Rightarrow> db \<Rightarrow> db" where
  "complete_if_ready uid t d =
     d\<lparr>users := update_where (ready_to_show uid d) (u_onboarding_completed_at_update (\<lambda>_. Some t)) (users d)\<rparr>"

definition try_complete_onboarding :: "uuid \<Rightarrow> (world, status, unit) prog" where
  "try_complete_onboarding uid = internal (update (complete_if_ready uid))"

section \<open>Reading a card's body\<close>

text \<open>
  \<^verbatim>\<open>serde_json::from_value\<close> into a struct takes an object (its members by name, others ignored) or an array (its
  fields in order, no more). A number is an \<^verbatim>\<open>i32\<close> when it is an integer of that range.
\<close>

definition struct_fields :: "string list \<Rightarrow> json \<Rightarrow> json option list option" where
  "struct_fields ks v =
     (case v of
        JObj ms \<Rightarrow> Some (map (map_of ms) ks)
      | JArr xs \<Rightarrow> if length xs \<le> length ks then Some (map Some xs @ replicate (length ks - length xs) None) else None
      | _ \<Rightarrow> None)"

definition json_bool :: "json \<Rightarrow> bool option" where
  "json_bool v = (case v of JBool b \<Rightarrow> Some b | _ \<Rightarrow> None)"

definition json_i32 :: "json \<Rightarrow> int option" where
  "json_i32 v =
     (case v of
        JNum q \<Rightarrow> if of_int \<lfloor>q\<rfloor> = q \<and> - (2 ^ 31) \<le> \<lfloor>q\<rfloor> \<and> \<lfloor>q\<rfloor> < 2 ^ 31 then Some \<lfloor>q\<rfloor> else None
      | _ \<Rightarrow> None)"

fun all_some :: "'a option list \<Rightarrow> 'a list option" where
  "all_some [] = Some []"
| "all_some (x # xs) = Option.bind x (\<lambda>v. map_option (\<lambda>vs. v # vs) (all_some xs))"

definition json_strings :: "json \<Rightarrow> string list option" where
  "json_strings v = (case v of JArr xs \<Rightarrow> all_some (map json_str xs) | _ \<Rightarrow> None)"

definition one_field :: "string \<Rightarrow> (json \<Rightarrow> 'a option) \<Rightarrow> json \<Rightarrow> 'a option" where
  "one_field k f v = (case struct_fields [k] v of Some [Some x] \<Rightarrow> f x | _ \<Rightarrow> None)"

definition photo_body :: "json \<Rightarrow> (string \<times> bool) option" where
  "photo_body v =
     (case struct_fields [''r2_key'', ''is_nsfw''] v of
        Some [Some key, nsfw] \<Rightarrow>
          Option.bind (json_str key) (\<lambda>k.
          map_option (\<lambda>b. (k, b)) (case nsfw of None \<Rightarrow> Some False | Some x \<Rightarrow> json_bool x))
      | _ \<Rightarrow> None)"

definition gender_position_body :: "json \<Rightarrow> (string \<times> string) option" where
  "gender_position_body v =
     (case struct_fields [''gender'', ''position''] v of
        Some [Some g, Some p] \<Rightarrow> Option.bind (json_str g) (\<lambda>x. map_option (\<lambda>y. (x, y)) (json_str p))
      | _ \<Rightarrow> None)"

section \<open>Completing a card\<close>

text \<open>\<^verbatim>\<open>Date::from_calendar_date\<close>, and the approximate date of birth of the age card.\<close>

definition leap_year :: "int \<Rightarrow> bool" where
  "leap_year y \<longleftrightarrow> y mod 4 = 0 \<and> (y mod 100 \<noteq> 0 \<or> y mod 400 = 0)"

definition days_in_month :: "int \<Rightarrow> nat \<Rightarrow> nat" where
  "days_in_month y m = (if m = 2 then if leap_year y then 29 else 28 else if m \<in> {4, 6, 9, 11} then 30 else 31)"

definition calendar_date :: "int \<Rightarrow> nat \<Rightarrow> nat \<Rightarrow> date option" where
  "calendar_date y m dd =
     (if - 9999 \<le> y \<and> y \<le> 9999 \<and> 1 \<le> m \<and> m \<le> 12 \<and> 1 \<le> dd \<and> dd \<le> days_in_month y m
      then Some \<lparr>year = y, month = m, day = dd\<rparr> else None)"

definition dob_for_age :: "int \<Rightarrow> date \<Rightarrow> date option" where
  "dob_for_age n today =
     (let y = year today - n
      in case calendar_date y (month today) (day today) of Some x \<Rightarrow> Some x | None \<Rightarrow> calendar_date y (month today) 28)"

text \<open>\<^verbatim>\<open>jsonb_set\<close> of one member: an error unless the old value is an object.\<close>

definition set_detail_sql :: "uuid \<Rightarrow> string \<Rightarrow> json \<Rightarrow> unit sql" where
  "set_detail_sql uid k v t d =
     (case profile_of uid d of
        Some p \<Rightarrow>
          if is_object (p_details p) then (Inr (), set_profile uid (p_details_update (json_set k v)) d) else (Inl DataException, d)
      | None \<Rightarrow> upsert_profile_with uid (p_details_update (json_set k v)) t d)"

definition set_column :: "uuid \<Rightarrow> (profile \<Rightarrow> profile) \<Rightarrow> (world, status, unit) prog" where
  "set_column uid f = internal (stmt (upsert_profile_with uid f))"

definition set_detail :: "uuid \<Rightarrow> string \<Rightarrow> json \<Rightarrow> (world, status, unit) prog" where
  "set_detail uid k v = internal (stmt (set_detail_sql uid k v))"

definition with_body :: "'a option \<Rightarrow> ('a \<Rightarrow> (world, status, unit) prog) \<Rightarrow> (world, status, unit) prog" where
  "with_body v f = andthen (ok_or BAD_REQUEST v) f"

definition complete_age :: "app \<Rightarrow> uuid \<Rightarrow> int \<Rightarrow> (world, status, unit) prog" where
  "complete_age st uid n =
     andthen (reject_if (n < 18 \<or> 120 < n) UNPROCESSABLE_ENTITY) (\<lambda>_.
     andthen now_utc (\<lambda>t.
     andthen (ok_or INTERNAL_SERVER_ERROR (dob_for_age n (date_of st t))) (\<lambda>dob.
     internal (update (\<lambda>_. set_user uid (u_dob_update (\<lambda>_. Some dob)))))))"

definition between :: "int \<Rightarrow> int \<Rightarrow> int \<Rightarrow> bool" where
  "between lo hi n \<longleftrightarrow> lo \<le> n \<and> n \<le> hi"

definition card_action :: "app \<Rightarrow> uuid \<Rightarrow> string \<Rightarrow> json \<Rightarrow> (world, status, unit) prog" where
  "card_action st uid cid raw =
     (if cid = ''profile_photo'' then
        with_body (photo_body raw) (\<lambda>(key, nsfw).
          andthen (internal (stmt (insert_photo_sql uid key (Some (key @ ''.blur.jpg'')) 0 False nsfw))) (\<lambda>_. ret ()))
      else if cid = ''display_name'' then
        with_body (one_field ''display_name'' json_str raw) (\<lambda>name.
          andthen (reject_if (utrim name = []) BAD_REQUEST) (\<lambda>_. set_column uid (p_display_name_update (\<lambda>_. Some name))))
      else if cid = ''age'' then with_body (one_field ''age'' json_i32 raw) (complete_age st uid)
      else if cid = ''gender_position'' then
        with_body (gender_position_body raw) (\<lambda>(gender, pos).
          set_column uid (\<lambda>p. p\<lparr>p_gender_identity := Some gender, p_position := Some (to_lowercase pos)\<rparr>))
      else if cid = ''looking_for'' then
        with_body (one_field ''looking_for'' json_strings raw) (\<lambda>xs.
          andthen (reject_if (xs = []) BAD_REQUEST) (\<lambda>_. internal (replace_profile_looking_for uid xs)))
      else if cid = ''tribes'' then
        with_body (one_field ''tribes'' json_strings raw) (\<lambda>xs.
          andthen (reject_if (xs = []) BAD_REQUEST) (\<lambda>_. internal (replace_profile_tribes uid xs)))
      else if cid = ''vaccines'' then
        with_body (one_field ''vaccines'' json_strings raw) (\<lambda>xs. set_detail uid ''vaccines'' (json_strs xs))
      else if cid = ''practices'' then
        with_body (one_field ''practices'' json_strings raw) (\<lambda>xs. set_detail uid ''practices'' (json_strs xs))
      else if cid = ''about_me'' then
        with_body (one_field ''bio'' json_str raw) (\<lambda>bio. set_column uid (p_about_update (\<lambda>_. Some bio)))
      else if cid = ''height'' then
        with_body (one_field ''height_cm'' json_i32 raw) (\<lambda>n.
          andthen (reject_if (\<not> between 50 272 n) BAD_REQUEST) (\<lambda>_. set_column uid (p_height_cm_update (\<lambda>_. Some n))))
      else if cid = ''weight'' then
        with_body (one_field ''weight_kg'' json_i32 raw) (\<lambda>n.
          andthen (reject_if (\<not> between 20 500 n) BAD_REQUEST) (\<lambda>_. set_column uid (p_weight_kg_update (\<lambda>_. Some n))))
      else if cid = ''relationship_status'' then
        with_body (one_field ''relationship_status'' json_str raw) (\<lambda>s. set_column uid (p_relationship_status_update (\<lambda>_. Some s)))
      else if cid = ''position_preference'' then
        with_body (one_field ''position'' json_str raw) (\<lambda>s. set_detail uid ''position_preference'' (JStr s))
      else if cid = ''ethnicity'' then
        with_body (one_field ''ethnicity'' json_str raw) (\<lambda>s. set_column uid (p_ethnicity_update (\<lambda>_. Some s)))
      else throw NOT_FOUND)"

definition complete_card :: "app \<Rightarrow> uuid \<Rightarrow> string \<Rightarrow> json \<Rightarrow> (world, status, json) prog" where
  "complete_card st uid cid raw =
     andthen (card_action st uid cid raw) (\<lambda>_.
     andthen (try_complete_onboarding uid) (\<lambda>_.
     ret (JObj [(''card_id'', JStr cid), (''completed'', JBool True)])))"

section \<open>Skipping\<close>

text \<open>\<^verbatim>\<open>a || b\<close> on \<^verbatim>\<open>jsonb\<close>: arrays are concatenated, anything else is taken as an array of one (the right side is an array here).\<close>

definition json_concat :: "json \<Rightarrow> json list \<Rightarrow> json" where
  "json_concat v ys = (case v of JArr xs \<Rightarrow> JArr (xs @ ys) | _ \<Rightarrow> JArr (v # ys))"

definition skip_cards :: "app \<Rightarrow> uuid \<Rightarrow> string list \<Rightarrow> (world, status, json) prog" where
  "skip_cards st uid cards =
     andthen (reject_if (\<not> list_all (\<lambda>c. c \<in> set (map fst OPTIONAL_CARDS)) cards) BAD_REQUEST) (\<lambda>_.
     andthen now_utc (\<lambda>t.
     let entries = map (\<lambda>c. JObj [(''card_id'', JStr c), (''skipped_at'', JStr (time_json st t))]) cards
     in andthen (internal (update (\<lambda>_. set_user uid
           (u_onboarding_skipped_cards_update (\<lambda>v. json_concat v entries))))) (\<lambda>_.
        ret (JObj [(''skipped'', json_strs cards)]))))"

definition force_complete :: "app \<Rightarrow> uuid \<Rightarrow> (world, status, json) prog" where
  "force_complete st uid =
     andthen now_utc (\<lambda>t.
     andthen (internal (update (\<lambda>_ d. d\<lparr>users := update_where (\<lambda>u. u_id u = uid \<and> u_onboarding_completed_at u = None)
        (u_onboarding_completed_at_update (\<lambda>_. Some t)) (users d)\<rparr>))) (\<lambda>_.
     ret (JObj [(''onboarding_completed_at'', JStr (time_json st t))])))"

end
