(* ===== verification/Geo.thy ===== *)
theory Geo
  imports ProfileHandlers
begin

text \<open>
  Where users are shown: \<^verbatim>\<open>api/src/travel.rs\<close>, \<^verbatim>\<open>db/src/geo.rs\<close>, \<^verbatim>\<open>api/src/grid.rs\<close> and
  \<^verbatim>\<open>api/src/discover.rs\<close>.
\<close>

section \<open>Numbers and distances\<close>

text \<open>An \<^verbatim>\<open>f64\<close>; finite ones are rationals, and the arithmetic on them is exact.\<close>

datatype f64 = NaN | NegInf | PosInf | Finite rat

text \<open>PostgreSQL's order of \<^verbatim>\<open>float8\<close>: NaN above everything.\<close>

fun f64_rank :: "f64 \<Rightarrow> nat \<times> rat" where
  "f64_rank NegInf = (0, 0)"
| "f64_rank (Finite q) = (1, q)"
| "f64_rank PosInf = (2, 0)"
| "f64_rank NaN = (3, 0)"

definition within_range :: "rat \<Rightarrow> f64 \<Rightarrow> bool" where
  "within_range b x \<longleftrightarrow> (case x of Finite q \<Rightarrow> - b \<le> q \<and> q \<le> b | _ \<Rightarrow> False)"

text \<open>The check of latitude and longitude: finite, -90 to 90 and -180 to 180.\<close>

definition coordinates_ok :: "f64 \<Rightarrow> f64 \<Rightarrow> bool" where
  "coordinates_ok lat lon \<longleftrightarrow> within_range 90 lat \<and> within_range 180 lon"

text \<open>
  External code: PostGIS's distance from a stored point (longitude, latitude) to a given one, its test whether the
  distance is at most a radius (\<open>None\<close> when PostGIS raises an error), and the years of \<^verbatim>\<open>AGE(birthdate)\<close> at a time.
\<close>

type_synonym point = "f64 \<times> f64"

record geo_env =
  geo_media :: media_env
  st_distance :: "rat \<times> rat \<Rightarrow> point \<Rightarrow> f64"
  st_dwithin :: "rat \<times> rat \<Rightarrow> point \<Rightarrow> f64 \<Rightarrow> bool option"
  age_years :: "timestamp \<Rightarrow> date \<Rightarrow> int"

definition DISTANCE_BUCKET_M :: rat where "DISTANCE_BUCKET_M = 100"

text \<open>\<^verbatim>\<open>f64::round\<close> rounds half away from zero; here the argument is not negative.\<close>

definition round_half_up :: "rat \<Rightarrow> int" where
  "round_half_up q = \<lfloor>q + 1 / 2\<rfloor>"

fun fuzz_distance :: "f64 \<Rightarrow> rat" where
  "fuzz_distance (Finite q) =
     (if q \<le> 0 then DISTANCE_BUCKET_M
      else max (of_int (round_half_up (q / DISTANCE_BUCKET_M)) * DISTANCE_BUCKET_M) DISTANCE_BUCKET_M)"
| "fuzz_distance _ = DISTANCE_BUCKET_M"

section \<open>Travel pass\<close>

definition MAX_TRAVEL_HOURS :: rat where "MAX_TRAVEL_HOURS = 24"

definition travel_hours :: "rat \<Rightarrow> rat" where
  "travel_hours h = (if h \<le> 0 then MAX_TRAVEL_HOURS else if MAX_TRAVEL_HOURS < h then MAX_TRAVEL_HOURS else h)"

text \<open>The numbers of a JSON body are finite. \<^verbatim>\<open>as i64\<close> truncates.\<close>

definition set_travel_pass :: "rat option \<Rightarrow> rat option \<Rightarrow> string option \<Rightarrow> timestamp option \<Rightarrow> user_rec \<Rightarrow> user_rec" where
  "set_travel_pass lat lon city expires u =
     u\<lparr>u_travel_lat := lat, u_travel_lon := lon, u_travel_city_name := city, u_travel_expires_at := expires\<rparr>"

definition set_travel :: "app \<Rightarrow> uuid \<Rightarrow> rat \<Rightarrow> rat \<Rightarrow> string option \<Rightarrow> rat \<Rightarrow> (world, status, json) prog" where
  "set_travel st uid lat lon city expires_in =
     andthen (reject_if (\<not> coordinates_ok (Finite lat) (Finite lon)) BAD_REQUEST) (\<lambda>_.
     let h = travel_hours expires_in
     in andthen now_utc (\<lambda>t.
        let expires = t + seconds \<lfloor>h * 3600\<rfloor>
        in andthen (internal (update (\<lambda>_. set_user uid (set_travel_pass (Some lat) (Some lon) city (Some expires))))) (\<lambda>_.
           ret (JObj [(''status'', JStr ''ok''), (''lat'', JNum lat), (''lon'', JNum lon), (''city_name'', json_opt JStr city),
                      (''expires_at'', json_time st expires), (''expires_in_hours'', JNum h)]))))"

record travel_pass =
  tv_lat :: rat
  tv_lon :: rat
  tv_city_name :: "string option"
  tv_expires_at :: timestamp

definition travel_pass_of :: "timestamp \<Rightarrow> user_rec \<Rightarrow> travel_pass option" where
  "travel_pass_of t u =
     (case (u_travel_lat u, u_travel_lon u, u_travel_expires_at u) of
        (Some lat, Some lon, Some e) \<Rightarrow>
          if t < e then Some \<lparr>tv_lat = lat, tv_lon = lon, tv_city_name = u_travel_city_name u, tv_expires_at = e\<rparr> else None
      | _ \<Rightarrow> None)"

definition active_pass :: "uuid \<Rightarrow> timestamp \<Rightarrow> db \<Rightarrow> travel_pass option" where
  "active_pass uid t d = Option.bind (user_by_id uid d) (travel_pass_of t)"

definition get_travel :: "app \<Rightarrow> uuid \<Rightarrow> (world, status, json) prog" where
  "get_travel st uid =
     andthen (internal (query (active_pass uid))) (\<lambda>row.
     andthen (ok_or NOT_FOUND row) (\<lambda>r.
     andthen now_utc (\<lambda>t.
     let remaining = (if t < tv_expires_at r then of_int (whole_seconds (tv_expires_at r - t)) / 3600 else 0 :: rat)
     in ret (JObj [(''lat'', JNum (tv_lat r)), (''lon'', JNum (tv_lon r)), (''city_name'', json_opt JStr (tv_city_name r)),
          (''expires_at'', json_time st (tv_expires_at r)),
          (''expires_in_hours'', JNum (of_int (round_half_up (remaining * 100)) / 100))]))))"

definition delete_travel :: "uuid \<Rightarrow> (world, status, json) prog" where
  "delete_travel uid =
     andthen (internal (update (\<lambda>_. set_user uid (set_travel_pass None None None None)))) (\<lambda>_.
     ret (JObj [(''status'', JStr ''ok'')]))"

definition resolve_travel_location :: "uuid \<Rightarrow> (world, db_error, (rat \<times> rat) option) prog" where
  "resolve_travel_location uid =
     query (\<lambda>t d. map_option (\<lambda>r. (tv_lat r, tv_lon r)) (active_pass uid t d))"

text \<open>The first step of grid and discover: the coordinates given, else those of the travel pass, as (longitude, latitude).\<close>

definition effective_point :: "uuid \<Rightarrow> f64 option \<Rightarrow> f64 option \<Rightarrow> (world, status, point) prog" where
  "effective_point uid lat lon =
     (case (lon, lat) of
        (Some x, Some y) \<Rightarrow> ret (x, y)
      | _ \<Rightarrow>
          andthen (internal (resolve_travel_location uid)) (\<lambda>travel.
          andthen (ok_or BAD_REQUEST travel) (\<lambda>(tlat, tlon). ret (Finite tlon, Finite tlat))))"

section \<open>Nearby users\<close>

record nearby_filters =
  nf_min_age :: "int option"
  nf_max_age :: "int option"
  nf_tribe :: "string option"
  nf_looking_for :: "string option"
  nf_body_type :: "string option"
  nf_q :: "string option"
  nf_favorites_only :: bool
  nf_online_only :: bool
  nf_right_now :: bool
  nf_photos_only :: bool
  nf_position :: "string option"
  nf_not_chatted :: bool

record nearby_user =
  nu_id :: uuid
  nu_display_name :: "string option"
  nu_bio :: "string option"
  nu_profile_photo_id :: "uuid option"
  nu_profile_photo_key :: "string option"
  nu_distance_m :: f64
  nu_profile_photo_url :: "string option"
  nu_verified :: bool

text \<open>A row of the join of users, profiles and locations.\<close>

type_synonym placed_user = "user_rec \<times> profile \<times> location_row"

definition placed_users :: "db \<Rightarrow> placed_user list" where
  "placed_users d =
     concat (map (\<lambda>u. concat (map (\<lambda>p. map (\<lambda>l. (u, p, l)) (filter (\<lambda>l. lo_user l = u_id u) (locations (people d))))
       (filter (\<lambda>p. p_user_id p = u_id u) (profiles d)))) (users d))"

definition place_of :: "location_row \<Rightarrow> rat \<times> rat" where
  "place_of l = (lo_lon l, lo_lat l)"

text \<open>\<^verbatim>\<open>string_to_array(x, ',')\<close>\<close>

definition string_to_array :: "string \<Rightarrow> string list" where
  "string_to_array s = (if s = [] then [] else split_on (CHR '','') s)"

definition unless :: "'a option \<Rightarrow> ('a \<Rightarrow> bool) \<Rightarrow> bool" where
  "unless x p \<longleftrightarrow> (case x of None \<Rightarrow> True | Some v \<Rightarrow> p v)"

definition seen_within :: "int \<Rightarrow> timestamp \<Rightarrow> user_rec \<Rightarrow> bool" where
  "seen_within m t u \<longleftrightarrow> (case u_last_seen_at u of None \<Rightarrow> False | Some s \<Rightarrow> t - minutes m < s)"

text \<open>What grid and discover both demand of a user.\<close>

definition visible_to :: "uuid \<Rightarrow> db \<Rightarrow> placed_user \<Rightarrow> bool" where
  "visible_to viewer d r \<longleftrightarrow> (case r of (u, p, _) \<Rightarrow>
     u_status u = ''active'' \<and> u_onboarding_completed_at u \<noteq> None \<and> \<not> p_incognito p \<and> u_id u \<noteq> viewer
     \<and> u_id u \<notin> set (map bl_target (filter (\<lambda>b. bl_user b = viewer) (blocks d)))
     \<and> u_id u \<notin> set (map bl_user (filter (\<lambda>b. bl_target b = viewer) (blocks d))))"

definition primary_photo_of :: "uuid \<Rightarrow> db \<Rightarrow> photo option" where
  "primary_photo_of uid d = List.find (\<lambda>p. ph_user p = uid \<and> ph_is_primary p) (photos d)"

definition passes_filters :: "geo_env \<Rightarrow> nearby_filters \<Rightarrow> uuid \<Rightarrow> timestamp \<Rightarrow> db \<Rightarrow> placed_user \<Rightarrow> bool" where
  "passes_filters env f viewer t d r \<longleftrightarrow> (case r of (u, p, _) \<Rightarrow>
     let st = media_app (geo_media env); uid = u_id u
     in unless (nf_min_age f) (\<lambda>n. unless (p_birthdate p) (\<lambda>b. n \<le> age_years env t b))
      \<and> unless (nf_max_age f) (\<lambda>n. unless (p_birthdate p) (\<lambda>b. age_years env t b \<le> n))
      \<and> unless (nf_tribe f) (\<lambda>x. list_ex (\<lambda>r. fst r = uid \<and> snd r \<in> set (string_to_array x)) (profile_tribes (people d)))
      \<and> unless (nf_looking_for f) (\<lambda>x. list_ex (\<lambda>r. fst r = uid \<and> snd r \<in> set (string_to_array x)) (profile_looking_for (people d)))
      \<and> unless (nf_body_type f) (\<lambda>x. p_body_type p = Some x)
      \<and> unless (nf_q f) (\<lambda>x. (case p_display_name p of None \<Rightarrow> False | Some n \<Rightarrow> contains_text st n x)
                            \<or> (case p_about p of None \<Rightarrow> False | Some n \<Rightarrow> contains_text st n x))
      \<and> (\<not> nf_favorites_only f \<or> list_ex (\<lambda>v. fv_user v = viewer \<and> fv_target v = uid) (favorites d))
      \<and> (\<not> nf_online_only f \<or> seen_within 5 t u) \<and> (\<not> nf_right_now f \<or> seen_within 30 t u)
      \<and> (\<not> nf_photos_only f \<or> primary_photo_of uid d \<noteq> None)
      \<and> unless (nf_position f) (\<lambda>x. p_position p = Some x)
      \<and> (\<not> nf_not_chatted f \<or> \<not> list_ex (\<lambda>c. cm_user c = viewer \<and> member_of (cm_conversation c) uid d) (conversation_members d)))"

definition nearby_row :: "geo_env \<Rightarrow> point \<Rightarrow> db \<Rightarrow> placed_user \<Rightarrow> nearby_user" where
  "nearby_row env pt d r = (case r of (u, p, l) \<Rightarrow>
     \<lparr>nu_id = u_id u, nu_display_name = p_display_name p, nu_bio = p_about p,
      nu_profile_photo_id = map_option ph_id (primary_photo_of (u_id u) d), nu_profile_photo_key = p_profile_photo_key p,
      nu_distance_m = st_distance env (place_of l) pt, nu_profile_photo_url = primary_key (u_id u) d, nu_verified = p_verified p\<rparr>)"

definition is_near :: "geo_env \<Rightarrow> point \<Rightarrow> f64 \<Rightarrow> placed_user \<Rightarrow> bool" where
  "is_near env pt radius r \<longleftrightarrow> (case r of (_, _, l) \<Rightarrow> st_dwithin env (place_of l) pt radius = Some True)"

text \<open>An error of PostGIS on a row fails the statement; the model takes it to be evaluated on every row of the join.\<close>

definition distance_fails :: "geo_env \<Rightarrow> point \<Rightarrow> f64 \<Rightarrow> db \<Rightarrow> bool" where
  "distance_fails env pt radius d \<longleftrightarrow> list_ex (\<lambda>(_, _, l). st_dwithin env (place_of l) pt radius = None) (placed_users d)"

definition nearby_users ::
    "geo_env \<Rightarrow> point \<Rightarrow> f64 \<Rightarrow> uuid \<Rightarrow> nat \<Rightarrow> nat \<Rightarrow> nearby_filters \<Rightarrow> timestamp \<Rightarrow> db \<Rightarrow> nearby_user list" where
  "nearby_users env pt radius viewer n k f t d =
     page_of n k (sort_key (\<lambda>x. f64_rank (nu_distance_m x)) (map (nearby_row env pt d)
       (filter (\<lambda>r. visible_to viewer d r \<and> is_near env pt radius r \<and> passes_filters env f viewer t d r) (placed_users d))))"

definition find_nearby_users ::
    "geo_env \<Rightarrow> point \<Rightarrow> f64 \<Rightarrow> uuid \<Rightarrow> nat \<Rightarrow> nat \<Rightarrow> nearby_filters \<Rightarrow> (world, db_error, nearby_user list) prog" where
  "find_nearby_users env pt radius viewer n k f =
     stmt (\<lambda>t d. (if distance_fails env pt radius d then Inl DataException else Inr (nearby_users env pt radius viewer n k f t d), d))"

section \<open>The answer\<close>

definition candidate_key :: "nearby_user \<Rightarrow> string option" where
  "candidate_key r = (case nu_profile_photo_key r of Some k \<Rightarrow> Some k | None \<Rightarrow> nu_profile_photo_url r)"

definition approved_keys :: "string list \<Rightarrow> (world, status, string list) prog" where
  "approved_keys keys =
     (if keys = [] then ret []
      else or_no_rows (query (\<lambda>_ d. remdups (map ph_r2_key
             (filter (\<lambda>p. ph_r2_key p \<in> set keys \<and> ph_moderation_status p = ''approved'') (photos d))))))"

text \<open>
  The serialized row (the email is not serialized, an absent URL is left out), with distance and URL replaced.
\<close>

definition nearby_json :: "geo_env \<Rightarrow> string list \<Rightarrow> timestamp \<Rightarrow> nearby_user \<Rightarrow> json" where
  "nearby_json env approved t r =
     (let env' = geo_media env; st = media_app env';
          url = (case candidate_key r of
                   None \<Rightarrow> nu_profile_photo_url r
                 | Some key \<Rightarrow>
                     if key \<in> set approved then (case media_url env' key t of Some u \<Rightarrow> Some u | None \<Rightarrow> nu_profile_photo_url r)
                     else None)
      in JObj [(''id'', json_uuid st (nu_id r)), (''display_name'', json_opt JStr (nu_display_name r)),
               (''bio'', json_opt JStr (nu_bio r)), (''profile_photo_id'', json_opt (json_uuid st) (nu_profile_photo_id r)),
               (''profile_photo_key'', json_opt JStr (nu_profile_photo_key r)),
               (''distance_m'', JNum (fuzz_distance (nu_distance_m r))), (''profile_photo_url'', json_opt JStr url),
               (''verified'', JBool (nu_verified r))])"

definition nearby_answer :: "geo_env \<Rightarrow> nearby_user list \<Rightarrow> (world, status, json) prog" where
  "nearby_answer env rows =
     andthen (approved_keys (List.map_filter candidate_key rows)) (\<lambda>approved.
     andthen now_utc (\<lambda>t.
     ret (JObj [(''users'', JArr (map (nearby_json env approved t) rows))])))"

definition clamp_page :: "int \<Rightarrow> nat" where
  "clamp_page n = nat (max 1 (min 200 n))"

record nearby_query =
  nq_lat :: "f64 option"
  nq_lon :: "f64 option"
  nq_radius_m :: f64
  nq_limit :: int
  nq_offset :: int
  nq_filters :: nearby_filters

definition grid_nearby :: "geo_env \<Rightarrow> uuid \<Rightarrow> nearby_query \<Rightarrow> (world, status, json) prog" where
  "grid_nearby env uid q =
     andthen (effective_point uid (nq_lat q) (nq_lon q)) (\<lambda>(lon, lat).
     andthen (reject_if (\<not> coordinates_ok lat lon) BAD_REQUEST) (\<lambda>_.
     andthen (internal (find_nearby_users env (lon, lat) (nq_radius_m q) uid (clamp_page (nq_limit q))
                (nat (max 0 (nq_offset q))) (nq_filters q))) (\<lambda>rows.
     nearby_answer env rows)))"

section \<open>Discover\<close>

text \<open>The query selects no \<^verbatim>\<open>verified\<close>, so every row has the default.\<close>

definition discover_row :: "geo_env \<Rightarrow> point \<Rightarrow> db \<Rightarrow> placed_user \<Rightarrow> nearby_user" where
  "discover_row env pt d r = (nearby_row env pt d r)\<lparr>nu_bio := None, nu_verified := False\<rparr>"

definition has_profile_photo :: "db \<Rightarrow> placed_user \<Rightarrow> bool" where
  "has_profile_photo d r \<longleftrightarrow> (case r of (u, p, _) \<Rightarrow> p_profile_photo_key p \<noteq> None \<or> primary_photo_of (u_id u) d \<noteq> None)"

definition last_seen_key :: "placed_user \<Rightarrow> bool \<times> timestamp" where
  "last_seen_key r = (case r of (u, _, _) \<Rightarrow> (case u_last_seen_at u of None \<Rightarrow> (True, 0) | Some s \<Rightarrow> (False, - s)))"

definition discovered_users :: "geo_env \<Rightarrow> point \<Rightarrow> f64 \<Rightarrow> uuid \<Rightarrow> nat \<Rightarrow> db \<Rightarrow> nearby_user list" where
  "discovered_users env pt radius viewer n d =
     map (discover_row env pt d) (take n (sort_key last_seen_key
       (filter (\<lambda>r. visible_to viewer d r \<and> is_near env pt radius r \<and> has_profile_photo d r) (placed_users d))))"

definition discover :: "geo_env \<Rightarrow> uuid \<Rightarrow> f64 option \<Rightarrow> f64 option \<Rightarrow> f64 \<Rightarrow> int \<Rightarrow> (world, status, json) prog" where
  "discover env uid lat lon radius limit =
     andthen (effective_point uid lat lon) (\<lambda>pt.
     andthen (internal (stmt (\<lambda>t d. (if distance_fails env pt radius d then Inl DataException
                                      else Inr (discovered_users env pt radius uid (clamp_page limit) d), d)))) (\<lambda>rows.
     nearby_answer env rows))"

end
