(* ===== verification/Events.thy ===== *)
theory Events
  imports Geo
begin

text \<open>
  Events: \<^verbatim>\<open>db/src/events.rs\<close> and \<^verbatim>\<open>api/src/events.rs\<close>.
\<close>

section \<open>Queries\<close>

record event_with_count =
  ec_event :: event_rec
  ec_attendee_count :: nat
  ec_distance_m :: "f64 option"

record create_event_req =
  ce_title :: string
  ce_description :: "string option"
  ce_location_name :: string
  ce_lat :: rat
  ce_lon :: rat
  ce_starts_at :: string
  ce_ends_at :: "string option"
  ce_max_attendees :: "int option"

definition new_event :: "uuid \<Rightarrow> uuid \<Rightarrow> create_event_req \<Rightarrow> timestamp \<Rightarrow> timestamp option \<Rightarrow> int \<Rightarrow> timestamp \<Rightarrow> event_rec" where
  "new_event eid uid req starts ends capacity t =
     \<lparr>evt_id = eid, evt_creator = uid, evt_title = utrim (ce_title req), evt_description = ce_description req,
      evt_location_name = utrim (ce_location_name req), evt_lat = ce_lat req, evt_lon = ce_lon req, evt_starts_at = starts,
      evt_ends_at = ends, evt_max_attendees = capacity, evt_created_at = t\<rparr>"

definition create_event_sql :: "uuid \<Rightarrow> create_event_req \<Rightarrow> timestamp \<Rightarrow> timestamp option \<Rightarrow> int \<Rightarrow> uuid sql" where
  "create_event_sql uid req starts ends capacity t d =
     (if \<not> known_user uid d then (Inl ForeignKeyViolation, d)
      else (Inr (next_id d),
            d\<lparr>gallery := events_update (\<lambda>es. es @ [new_event (next_id d) uid req starts ends capacity t]) (gallery d),
              next_id := Suc (next_id d)\<rparr>))"

definition create_event_row ::
    "uuid \<Rightarrow> create_event_req \<Rightarrow> timestamp \<Rightarrow> timestamp option \<Rightarrow> int \<Rightarrow> (world, db_error, uuid) prog" where
  "create_event_row uid req starts ends capacity = stmt (create_event_sql uid req starts ends capacity)"

text \<open>Those who go or may go count.\<close>

definition counts_as_attending :: "attendee \<Rightarrow> bool" where
  "counts_as_attending a \<longleftrightarrow> att_status a = ''going'' \<or> att_status a = ''maybe''"

definition attendee_count :: "uuid \<Rightarrow> db \<Rightarrow> nat" where
  "attendee_count eid d = length (filter (\<lambda>a. att_event a = eid \<and> counts_as_attending a) (event_attendees (gallery d)))"

definition event_place :: "event_rec \<Rightarrow> rat \<times> rat" where
  "event_place e = (evt_lon e, evt_lat e)"

text \<open>The condition as it is written: \<^verbatim>\<open>a OR b AND c AND d\<close>.\<close>

definition event_listed :: "geo_env \<Rightarrow> point \<Rightarrow> f64 \<Rightarrow> timestamp \<Rightarrow> event_rec \<Rightarrow> bool" where
  "event_listed env pt radius t e \<longleftrightarrow>
     evt_ends_at e = None
     \<or> (case evt_ends_at e of None \<Rightarrow> False | Some x \<Rightarrow> t < x) \<and> t - hours 24 < evt_starts_at e
       \<and> st_dwithin env (event_place e) pt radius = Some True"

definition nearby_events :: "geo_env \<Rightarrow> point \<Rightarrow> f64 \<Rightarrow> nat \<Rightarrow> timestamp \<Rightarrow> db \<Rightarrow> event_with_count list" where
  "nearby_events env pt radius n t d =
     take n (sort_key (\<lambda>r. (f64_rank (st_distance env (event_place (ec_event r)) pt), evt_starts_at (ec_event r)))
       (map (\<lambda>e. \<lparr>ec_event = e, ec_attendee_count = attendee_count (evt_id e) d,
                  ec_distance_m = Some (st_distance env (event_place e) pt)\<rparr>)
         (filter (event_listed env pt radius t) (events (gallery d)))))"

definition find_nearby_events :: "geo_env \<Rightarrow> point \<Rightarrow> f64 \<Rightarrow> nat \<Rightarrow> (world, db_error, event_with_count list) prog" where
  "find_nearby_events env pt radius n =
     stmt (\<lambda>t d. (if list_ex (\<lambda>e. st_dwithin env (event_place e) pt radius = None) (events (gallery d)) then Inl DataException
                  else Inr (nearby_events env pt radius n t d), d))"

definition event_by_id :: "uuid \<Rightarrow> db \<Rightarrow> event_rec option" where
  "event_by_id eid d = List.find (\<lambda>e. evt_id e = eid) (events (gallery d))"

definition get_event_by_id :: "uuid \<Rightarrow> (world, db_error, event_with_count option) prog" where
  "get_event_by_id eid =
     query (\<lambda>_ d. map_option (\<lambda>e. \<lparr>ec_event = e, ec_attendee_count = attendee_count eid d, ec_distance_m = None\<rparr>) (event_by_id eid d))"

definition own_event :: "uuid \<Rightarrow> uuid \<Rightarrow> event_rec \<Rightarrow> bool" where
  "own_event eid uid e \<longleftrightarrow> evt_id e = eid \<and> evt_creator e = uid"

definition delete_event_sql :: "uuid \<Rightarrow> uuid \<Rightarrow> nat sql" where
  "delete_event_sql eid uid t d =
     (let n = length (filter (own_event eid uid) (events (gallery d)))
      in (Inr n,
          if n = 0 then d
          else d\<lparr>gallery := (gallery d)\<lparr>events := delete_where (own_event eid uid) (events (gallery d)),
                 event_attendees := delete_where (\<lambda>a. att_event a = eid) (event_attendees (gallery d))\<rparr>\<rparr>))"

definition delete_event_row :: "uuid \<Rightarrow> uuid \<Rightarrow> (world, db_error, nat) prog" where
  "delete_event_row eid uid = stmt (delete_event_sql eid uid)"

definition attends :: "uuid \<Rightarrow> uuid \<Rightarrow> attendee \<Rightarrow> bool" where
  "attends eid uid a \<longleftrightarrow> att_event a = eid \<and> att_user a = uid"

definition upsert_attendee_sql :: "uuid \<Rightarrow> uuid \<Rightarrow> string \<Rightarrow> unit sql" where
  "upsert_attendee_sql eid uid status t d =
     (if list_ex (attends eid uid) (event_attendees (gallery d))
      then (Inr (), d\<lparr>gallery := event_attendees_update (update_where (attends eid uid) (att_status_update (\<lambda>_. status))) (gallery d)\<rparr>)
      else if event_by_id eid d = None \<or> \<not> known_user uid d then (Inl ForeignKeyViolation, d)
      else (Inr (), d\<lparr>gallery := event_attendees_update
              (\<lambda>as. as @ [\<lparr>att_event = eid, att_user = uid, att_status = status, att_created_at = t\<rparr>]) (gallery d)\<rparr>))"

definition upsert_attendee :: "uuid \<Rightarrow> uuid \<Rightarrow> string \<Rightarrow> (world, db_error, unit) prog" where
  "upsert_attendee eid uid status = stmt (upsert_attendee_sql eid uid status)"

definition get_attendee_status :: "uuid \<Rightarrow> uuid \<Rightarrow> (world, db_error, string option) prog" where
  "get_attendee_status eid uid =
     query (\<lambda>_ d. map_option att_status (List.find (attends eid uid) (event_attendees (gallery d))))"

definition event_full :: "uuid \<Rightarrow> db \<Rightarrow> bool" where
  "event_full eid d \<longleftrightarrow>
     (case event_by_id eid d of
        None \<Rightarrow> False
      | Some e \<Rightarrow> 0 < evt_max_attendees e \<and> evt_max_attendees e \<le> int (attendee_count eid d))"

definition is_event_full :: "uuid \<Rightarrow> (world, db_error, bool) prog" where
  "is_event_full eid = query (\<lambda>_. event_full eid)"

section \<open>Endpoints\<close>

record event_response =
  er_event :: event_rec
  er_starts_at :: string
  er_ends_at :: "string option"
  er_created_at :: string
  er_attendee_count :: nat
  er_distance_m :: "f64 option"
  er_my_status :: "string option"

definition event_response_from :: "app \<Rightarrow> event_with_count \<Rightarrow> string option \<Rightarrow> event_response" where
  "event_response_from st r my_status =
     (let e = ec_event r
      in \<lparr>er_event = e, er_starts_at = time_display st (evt_starts_at e),
          er_ends_at = map_option (time_display st) (evt_ends_at e), er_created_at = time_display st (evt_created_at e),
          er_attendee_count = ec_attendee_count r, er_distance_m = ec_distance_m r, er_my_status = my_status\<rparr>)"

definition my_statuses :: "uuid \<Rightarrow> uuid list \<Rightarrow> (world, db_error, (uuid \<times> string) list) prog" where
  "my_statuses uid eids =
     query (\<lambda>_ d. map (\<lambda>a. (att_event a, att_status a))
       (filter (\<lambda>a. att_user a = uid \<and> att_event a \<in> set eids) (event_attendees (gallery d))))"

definition list_nearby_events ::
    "geo_env \<Rightarrow> uuid \<Rightarrow> f64 \<Rightarrow> f64 \<Rightarrow> f64 \<Rightarrow> int \<Rightarrow> (world, status, event_response list) prog" where
  "list_nearby_events env uid lat lon radius limit =
     andthen (reject_if (\<not> coordinates_ok lat lon) BAD_REQUEST) (\<lambda>_.
     andthen (internal (find_nearby_events env (lon, lat) radius (clamp_page limit))) (\<lambda>rows.
     let eids = map (\<lambda>r. evt_id (ec_event r)) rows
     in andthen (if eids \<noteq> [] then or_no_rows (my_statuses uid eids) else ret []) (\<lambda>statuses.
        ret (map (\<lambda>r. event_response_from (media_app (geo_media env)) r (map_of statuses (evt_id (ec_event r)))) rows))))"

definition create_event :: "app \<Rightarrow> uuid \<Rightarrow> create_event_req \<Rightarrow> (world, status, uuid) prog" where
  "create_event st uid req =
     andthen (reject_if (utrim (ce_title req) = []) BAD_REQUEST) (\<lambda>_.
     andthen (reject_if (utrim (ce_location_name req) = []) BAD_REQUEST) (\<lambda>_.
     andthen (reject_if (200 < length (ce_title req)) BAD_REQUEST) (\<lambda>_.
     andthen (reject_if (over 2000 (ce_description req)) BAD_REQUEST) (\<lambda>_.
     andthen (reject_if (200 < length (ce_location_name req)) BAD_REQUEST) (\<lambda>_.
     andthen (ok_or BAD_REQUEST (parse_rfc3339 st (ce_starts_at req))) (\<lambda>starts.
     andthen (parse_optional (parse_rfc3339 st) (if ce_ends_at req = Some [] then None else ce_ends_at req)) (\<lambda>ends.
     internal (create_event_row uid req starts ends (max 0 (keep_or (ce_max_attendees req) 0))))))))))"

definition get_event :: "app \<Rightarrow> uuid \<Rightarrow> uuid \<Rightarrow> (world, status, event_response) prog" where
  "get_event st uid eid =
     andthen (internal (get_event_by_id eid)) (\<lambda>found.
     andthen (ok_or NOT_FOUND found) (\<lambda>r.
     andthen (attempt (get_attendee_status eid uid)) (\<lambda>mine.
     ret (event_response_from st r (case mine of Inl _ \<Rightarrow> None | Inr x \<Rightarrow> x)))))"

definition attend :: "uuid \<Rightarrow> uuid \<Rightarrow> string \<Rightarrow> (world, status, string) prog" where
  "attend uid eid status =
     andthen (reject_if (status \<notin> {''going'', ''maybe''}) BAD_REQUEST) (\<lambda>_.
     andthen (internal (get_event_by_id eid)) (\<lambda>found.
     andthen (ok_or NOT_FOUND found) (\<lambda>_.
     andthen (if status = ''going'' then andthen (internal (is_event_full eid)) (\<lambda>full. reject_if full GONE) else ret ()) (\<lambda>_.
     andthen (internal (upsert_attendee eid uid status)) (\<lambda>_.
     ret status)))))"

definition delete_event :: "uuid \<Rightarrow> uuid \<Rightarrow> (world, status, status) prog" where
  "delete_event uid eid =
     andthen (attempt (delete_event_row eid uid)) (\<lambda>r.
     ret (case r of Inr n \<Rightarrow> if 0 < n then NO_CONTENT else NOT_FOUND | Inl _ \<Rightarrow> INTERNAL_SERVER_ERROR))"

end
