(* ===== verification/Extras.thy ===== *)
theory Extras
  imports ProfileHandlers
begin

text \<open>
  The smaller features: \<^verbatim>\<open>db/src/tier2.rs\<close>, \<^verbatim>\<open>api/src/tier2.rs\<close> (boosts, phrases, places, the roam preference),
  \<^verbatim>\<open>db/src/tier3.rs\<close>, \<^verbatim>\<open>api/src/tier3.rs\<close> (right-now intents, sessions, screenshot alerts, reminders),
  \<^verbatim>\<open>db/src/notifications.rs\<close>, \<^verbatim>\<open>api/src/notifications.rs\<close>, and the catalog of \<^verbatim>\<open>api/src/shop.rs\<close>.
\<close>

section \<open>Boosts\<close>

definition create_boost_sql :: "uuid \<Rightarrow> int \<Rightarrow> string \<Rightarrow> uuid sql" where
  "create_boost_sql uid secs source t d =
     (if source \<notin> {''manual'', ''package'', ''trial''} then (Inl CheckViolation, d)
      else if \<not> known_user uid d then (Inl ForeignKeyViolation, d)
      else (Inr (next_id d),
            d\<lparr>people := boosts_update (\<lambda>bs. bs @ [\<lparr>bo_id = next_id d, bo_user = uid, bo_started_at = t,
                bo_expires_at = t + seconds secs, bo_source = source\<rparr>]) (people d), next_id := Suc (next_id d)\<rparr>))"

definition create_boost_row :: "uuid \<Rightarrow> int \<Rightarrow> string \<Rightarrow> (world, db_error, uuid) prog" where
  "create_boost_row uid secs source = stmt (create_boost_sql uid secs source)"

definition running_boosts :: "uuid \<Rightarrow> timestamp \<Rightarrow> db \<Rightarrow> boost list" where
  "running_boosts uid t d = filter (\<lambda>b. bo_user b = uid \<and> t < bo_expires_at b) (boosts (people d))"

definition list_active_boosts :: "timestamp \<Rightarrow> (world, db_error, (uuid \<times> timestamp) list) prog" where
  "list_active_boosts t =
     query (\<lambda>_ d. map (\<lambda>b. (bo_user b, bo_expires_at b))
       (newest_first bo_expires_at (filter (\<lambda>b. t < bo_expires_at b) (boosts (people d)))))"

definition is_user_boosted :: "uuid \<Rightarrow> timestamp \<Rightarrow> (world, db_error, bool) prog" where
  "is_user_boosted uid t = query (\<lambda>_ d. running_boosts uid t d \<noteq> [])"

definition BOOST_DURATION_SECS :: int where "BOOST_DURATION_SECS = 30 * 60"

definition create_boost :: "app \<Rightarrow> uuid \<Rightarrow> (world, status, json) prog" where
  "create_boost st uid =
     andthen (internal (create_boost_row uid BOOST_DURATION_SECS ''manual'')) (\<lambda>bid.
     andthen now_utc (\<lambda>t.
     ret (JObj [(''id'', json_uuid st bid), (''user_id'', json_uuid st uid), (''duration_secs'', json_int BOOST_DURATION_SECS),
                (''started_at'', json_time st t), (''expires_at'', json_time st (t + seconds BOOST_DURATION_SECS)),
                (''source'', JStr ''manual'')])))"

text \<open>\<^verbatim>\<open>MAX\<close> over no rows is \<^verbatim>\<open>NULL\<close>: the boost may have ended between the statements.\<close>

definition latest_boost :: "uuid \<Rightarrow> timestamp \<Rightarrow> db \<Rightarrow> timestamp option" where
  "latest_boost uid t d = map_option bo_expires_at (max_by bo_expires_at (running_boosts uid t d))"

definition boost_active :: "uuid \<Rightarrow> (world, status, json) prog" where
  "boost_active uid =
     andthen now_utc (\<lambda>t.
     andthen (internal (is_user_boosted uid t)) (\<lambda>boosted.
     andthen (if boosted then internal (query (\<lambda>_. latest_boost uid t)) else ret None) (\<lambda>latest.
     let remaining = (case latest of None \<Rightarrow> 0 | Some e \<Rightarrow> max 0 (whole_seconds (e - t)))
     in ret (JObj [(''is_boosted'', JBool boosted), (''remaining_secs'', json_int remaining)]))))"

section \<open>Saved phrases\<close>

definition phrases_of :: "uuid \<Rightarrow> db \<Rightarrow> saved_phrase list" where
  "phrases_of uid d = filter (\<lambda>p. sp_user p = uid) (saved_phrases (people d))"

definition list_saved_phrases :: "uuid \<Rightarrow> (world, db_error, saved_phrase list) prog" where
  "list_saved_phrases uid = query (\<lambda>_ d. sort_key (\<lambda>p. (sp_position p, sp_created_at p)) (phrases_of uid d))"

text \<open>\<^verbatim>\<open>COALESCE(MAX(position), -1) + 1\<close> in 32 bits.\<close>

definition next_position :: "uuid \<Rightarrow> db \<Rightarrow> int" where
  "next_position uid d =
     (case max_by sp_position (phrases_of uid d) of None \<Rightarrow> 0 | Some p \<Rightarrow> sp_position p + 1)"

definition add_phrase_sql :: "uuid \<Rightarrow> string \<Rightarrow> uuid sql" where
  "add_phrase_sql uid phrase t d =
     (if 2 ^ 31 \<le> next_position uid d then (Inl DataException, d)
      else if \<not> known_user uid d then (Inl ForeignKeyViolation, d)
      else (Inr (next_id d),
            d\<lparr>people := saved_phrases_update (\<lambda>ps. ps @ [\<lparr>sp_id = next_id d, sp_user = uid, sp_phrase = phrase,
                sp_position = next_position uid d, sp_created_at = t\<rparr>]) (people d), next_id := Suc (next_id d)\<rparr>))"

definition add_saved_phrase :: "uuid \<Rightarrow> string \<Rightarrow> (world, db_error, uuid) prog" where
  "add_saved_phrase uid phrase = stmt (add_phrase_sql uid phrase)"

definition own_phrase :: "uuid \<Rightarrow> uuid \<Rightarrow> saved_phrase \<Rightarrow> bool" where
  "own_phrase pid uid p \<longleftrightarrow> sp_id p = pid \<and> sp_user p = uid"

definition delete_saved_phrase :: "uuid \<Rightarrow> uuid \<Rightarrow> (world, db_error, unit) prog" where
  "delete_saved_phrase uid pid =
     update (\<lambda>_ d. d\<lparr>people := saved_phrases_update (delete_where (own_phrase pid uid)) (people d)\<rparr>)"

text \<open>The loop of the transaction; the index is cast to \<^verbatim>\<open>i32\<close>.\<close>

fun reorder_from :: "nat \<Rightarrow> uuid \<Rightarrow> uuid list \<Rightarrow> saved_phrase list \<Rightarrow> saved_phrase list" where
  "reorder_from i uid [] ps = ps"
| "reorder_from i uid (pid # pids) ps =
     reorder_from (Suc i) uid pids (update_where (own_phrase pid uid) (sp_position_update (\<lambda>_. as_i32 i)) ps)"

definition reorder_saved_phrases :: "uuid \<Rightarrow> uuid list \<Rightarrow> (world, db_error, unit) prog" where
  "reorder_saved_phrases uid pids =
     update (\<lambda>_ d. d\<lparr>people := saved_phrases_update (reorder_from 0 uid pids) (people d)\<rparr>)"

definition list_phrases :: "app \<Rightarrow> uuid \<Rightarrow> (world, status, json) prog" where
  "list_phrases st uid =
     andthen (internal (list_saved_phrases uid)) (\<lambda>rows.
     ret (JObj [(''phrases'', JArr (map (\<lambda>r. JObj
       [(''id'', json_uuid st (sp_id r)), (''phrase'', JStr (sp_phrase r)), (''position'', json_int (sp_position r)),
        (''created_at'', json_time st (sp_created_at r))]) rows))]))"

definition add_phrase :: "app \<Rightarrow> uuid \<Rightarrow> string \<Rightarrow> (world, status, json) prog" where
  "add_phrase st uid phrase =
     andthen (reject_if (utrim phrase = []) BAD_REQUEST) (\<lambda>_.
     andthen (internal (add_saved_phrase uid (utrim phrase))) (\<lambda>pid.
     ret (JObj [(''id'', json_uuid st pid), (''phrase'', JStr (utrim phrase))])))"

definition delete_phrase :: "uuid \<Rightarrow> uuid \<Rightarrow> (world, status, status) prog" where
  "delete_phrase uid pid = andthen (internal (delete_saved_phrase uid pid)) (\<lambda>_. ret NO_CONTENT)"

definition reorder_phrases :: "uuid \<Rightarrow> uuid list \<Rightarrow> (world, status, json) prog" where
  "reorder_phrases uid pids =
     andthen (internal (reorder_saved_phrases uid pids)) (\<lambda>_.
     ret (JObj [(''ok'', JBool True), (''count'', json_nat (length pids))]))"

section \<open>Saved places and the roam preference\<close>

definition list_saved_places :: "uuid \<Rightarrow> (world, db_error, saved_place list) prog" where
  "list_saved_places uid =
     query (\<lambda>_ d. sort_key (\<lambda>p. (\<not> sl_is_default p, sl_created_at p)) (filter (\<lambda>p. sl_user p = uid) (saved_places (people d))))"

definition add_place_sql :: "uuid \<Rightarrow> string \<Rightarrow> rat \<Rightarrow> rat \<Rightarrow> uuid sql" where
  "add_place_sql uid name lat lon t d =
     (if \<not> known_user uid d then (Inl ForeignKeyViolation, d)
      else (Inr (next_id d),
            d\<lparr>people := saved_places_update (\<lambda>ps. ps @ [\<lparr>sl_id = next_id d, sl_user = uid, sl_name = name, sl_lat = lat,
                sl_lon = lon, sl_is_default = False, sl_created_at = t\<rparr>]) (people d), next_id := Suc (next_id d)\<rparr>))"

definition add_saved_place :: "uuid \<Rightarrow> string \<Rightarrow> rat \<Rightarrow> rat \<Rightarrow> (world, db_error, uuid) prog" where
  "add_saved_place uid name lat lon = stmt (add_place_sql uid name lat lon)"

definition delete_saved_place :: "uuid \<Rightarrow> uuid \<Rightarrow> (world, db_error, unit) prog" where
  "delete_saved_place uid pid =
     update (\<lambda>_ d. d\<lparr>people := saved_places_update (delete_where (\<lambda>p. sl_id p = pid \<and> sl_user p = uid)) (people d)\<rparr>)"

definition get_roam_pref :: "uuid \<Rightarrow> (world, db_error, location_pref option) prog" where
  "get_roam_pref uid = query (\<lambda>_ d. List.find (\<lambda>r. lp_user r = uid) (user_location_pref (people d)))"

definition set_roam_sql :: "uuid \<Rightarrow> rat \<Rightarrow> rat \<Rightarrow> string option \<Rightarrow> bool \<Rightarrow> unit sql" where
  "set_roam_sql uid lat lon name roam t d =
     (let r = \<lparr>lp_user = uid, lp_lat = lat, lp_lon = lon, lp_place_name = name, lp_is_roam = roam, lp_updated_at = t\<rparr>
      in if list_ex (\<lambda>x. lp_user x = uid) (user_location_pref (people d))
         then (Inr (), d\<lparr>people := user_location_pref_update (update_where (\<lambda>x. lp_user x = uid) (\<lambda>_. r)) (people d)\<rparr>)
         else if \<not> known_user uid d then (Inl ForeignKeyViolation, d)
         else (Inr (), d\<lparr>people := user_location_pref_update (\<lambda>rs. rs @ [r]) (people d)\<rparr>))"

definition set_roam_pref :: "uuid \<Rightarrow> rat \<Rightarrow> rat \<Rightarrow> string option \<Rightarrow> bool \<Rightarrow> (world, db_error, unit) prog" where
  "set_roam_pref uid lat lon name roam = stmt (set_roam_sql uid lat lon name roam)"

definition clear_roam_pref :: "uuid \<Rightarrow> (world, db_error, unit) prog" where
  "clear_roam_pref uid = update (\<lambda>_ d. d\<lparr>people := user_location_pref_update (delete_where (\<lambda>r. lp_user r = uid)) (people d)\<rparr>)"

definition list_places :: "app \<Rightarrow> uuid \<Rightarrow> (world, status, json) prog" where
  "list_places st uid =
     andthen (internal (list_saved_places uid)) (\<lambda>rows.
     ret (JObj [(''places'', JArr (map (\<lambda>r. JObj
       [(''id'', json_uuid st (sl_id r)), (''name'', JStr (sl_name r)), (''lat'', JNum (sl_lat r)), (''lon'', JNum (sl_lon r)),
        (''is_default'', JBool (sl_is_default r)), (''created_at'', json_time st (sl_created_at r))]) rows))]))"

definition add_place :: "app \<Rightarrow> uuid \<Rightarrow> string \<Rightarrow> rat \<Rightarrow> rat \<Rightarrow> (world, status, json) prog" where
  "add_place st uid name lat lon =
     andthen (reject_if (utrim name = []) BAD_REQUEST) (\<lambda>_.
     andthen (internal (add_saved_place uid (utrim name) lat lon)) (\<lambda>pid.
     ret (JObj [(''id'', json_uuid st pid), (''name'', JStr (utrim name)), (''lat'', JNum lat), (''lon'', JNum lon)])))"

definition delete_place :: "uuid \<Rightarrow> uuid \<Rightarrow> (world, status, status) prog" where
  "delete_place uid pid = andthen (internal (delete_saved_place uid pid)) (\<lambda>_. ret NO_CONTENT)"

definition get_location :: "app \<Rightarrow> uuid \<Rightarrow> (world, status, json) prog" where
  "get_location st uid =
     andthen (internal (get_roam_pref uid)) (\<lambda>row.
     ret (case row of
            Some r \<Rightarrow> JObj [(''lat'', JNum (lp_lat r)), (''lon'', JNum (lp_lon r)), (''place_name'', json_opt JStr (lp_place_name r)),
                           (''is_roam'', JBool (lp_is_roam r)), (''updated_at'', json_time st (lp_updated_at r))]
          | None \<Rightarrow> JObj [(''lat'', JNull), (''lon'', JNull), (''place_name'', JNull), (''is_roam'', JBool False)]))"

definition nonblank :: "string option \<Rightarrow> string option" where
  "nonblank name = (case name of None \<Rightarrow> None | Some s \<Rightarrow> if utrim s = [] then None else Some (utrim s))"

definition set_location :: "uuid \<Rightarrow> rat \<Rightarrow> rat \<Rightarrow> string option \<Rightarrow> bool \<Rightarrow> (world, status, json) prog" where
  "set_location uid lat lon name roam =
     andthen (internal (set_roam_pref uid lat lon (nonblank name) roam)) (\<lambda>_.
     ret (JObj [(''ok'', JBool True), (''lat'', JNum lat), (''lon'', JNum lon), (''place_name'', json_opt JStr (nonblank name)),
                (''is_roam'', JBool roam)]))"

section \<open>Right now\<close>

definition create_intent_sql :: "uuid \<Rightarrow> string \<Rightarrow> timestamp \<Rightarrow> uuid sql" where
  "create_intent_sql uid body expires t d =
     (if \<not> known_user uid d then (Inl ForeignKeyViolation, d)
      else (Inr (next_id d),
            d\<lparr>people := right_now_intents_update (\<lambda>rs. rs @ [\<lparr>rn_id = next_id d, rn_user = uid, rn_body = body,
                rn_expires_at = expires, rn_created_at = t\<rparr>]) (people d), next_id := Suc (next_id d)\<rparr>))"

definition create_intent_row :: "uuid \<Rightarrow> string \<Rightarrow> timestamp \<Rightarrow> (world, db_error, uuid) prog" where
  "create_intent_row uid body expires = stmt (create_intent_sql uid body expires)"

definition list_nearby_intents :: "timestamp \<Rightarrow> nat \<Rightarrow> (world, db_error, right_now_intent list) prog" where
  "list_nearby_intents t n =
     query (\<lambda>_ d. take n (newest_first rn_created_at (filter (\<lambda>r. t < rn_expires_at r) (right_now_intents (people d)))))"

definition delete_intent_row :: "uuid \<Rightarrow> uuid \<Rightarrow> (world, db_error, unit) prog" where
  "delete_intent_row uid iid =
     update (\<lambda>_ d. d\<lparr>people := right_now_intents_update (delete_where (\<lambda>r. rn_id r = iid \<and> rn_user r = uid)) (people d)\<rparr>)"

definition DEFAULT_INTENT_MINUTES :: int where "DEFAULT_INTENT_MINUTES = 30"

definition NEARBY_INTENT_LIMIT :: nat where "NEARBY_INTENT_LIMIT = 100"

text \<open>\<^verbatim>\<open>now + Duration::minutes(m)\<close> panics when the result is no \<^verbatim>\<open>OffsetDateTime\<close>: \<open>None\<close>. The request then ends
  without an answer of the handler, which the model writes as status 500.\<close>

definition plus_minutes :: "app \<Rightarrow> timestamp \<Rightarrow> int \<Rightarrow> timestamp option" where
  "plus_minutes st t m = (if from_unix st (unix_timestamp (t + minutes m)) = None then None else Some (t + minutes m))"

definition create_intent :: "app \<Rightarrow> uuid \<Rightarrow> string \<Rightarrow> int option \<Rightarrow> (world, status, json) prog" where
  "create_intent st uid body mins =
     (let text = utrim body; m = (case mins of None \<Rightarrow> DEFAULT_INTENT_MINUTES | Some n \<Rightarrow> n) in
      andthen (reject_if (text = []) BAD_REQUEST) (\<lambda>_.
      andthen (reject_if (m \<le> 0) BAD_REQUEST) (\<lambda>_.
      andthen now_utc (\<lambda>t.
      andthen (ok_or INTERNAL_SERVER_ERROR (plus_minutes st t m)) (\<lambda>expires.
      andthen (internal (create_intent_row uid text expires)) (\<lambda>iid.
      ret (JObj [(''id'', json_uuid st iid), (''user_id'', json_uuid st uid), (''body'', JStr text),
                 (''expires_at'', json_time st expires), (''created_at'', json_time st t)])))))))"

definition list_intents :: "app \<Rightarrow> (world, status, json) prog" where
  "list_intents st =
     andthen now_utc (\<lambda>t.
     andthen (internal (list_nearby_intents t NEARBY_INTENT_LIMIT)) (\<lambda>rows.
     ret (JObj [(''intents'', JArr (map (\<lambda>r. JObj
       [(''id'', json_uuid st (rn_id r)), (''user_id'', json_uuid st (rn_user r)), (''body'', JStr (rn_body r)),
        (''expires_at'', json_time st (rn_expires_at r)), (''created_at'', json_time st (rn_created_at r))]) rows))])))"

definition delete_intent :: "uuid \<Rightarrow> uuid \<Rightarrow> (world, status, status) prog" where
  "delete_intent uid iid = andthen (internal (delete_intent_row uid iid)) (\<lambda>_. ret NO_CONTENT)"

section \<open>Sessions\<close>

definition live_tokens :: "uuid \<Rightarrow> timestamp \<Rightarrow> db \<Rightarrow> refresh_token list" where
  "live_tokens uid t d = filter (\<lambda>r. rt_user_id r = uid \<and> rt_revoked_at r = None \<and> t < rt_expires_at r) (refresh_tokens d)"

definition list_active_sessions :: "uuid \<Rightarrow> (world, db_error, refresh_token list) prog" where
  "list_active_sessions uid =
     andthen now_utc (\<lambda>t. query (\<lambda>_ d. newest_first rt_issued_at (live_tokens uid t d)))"

definition revoke_one :: "uuid \<Rightarrow> uuid \<Rightarrow> timestamp \<Rightarrow> db \<Rightarrow> db" where
  "revoke_one uid sid t d =
     d\<lparr>refresh_tokens := update_where (\<lambda>r. rt_id r = sid \<and> rt_user_id r = uid \<and> rt_revoked_at r = None)
         (rt_revoked_at_update (\<lambda>_. Some t)) (refresh_tokens d)\<rparr>"

definition revoke_user_session :: "uuid \<Rightarrow> uuid \<Rightarrow> (world, db_error, unit) prog" where
  "revoke_user_session uid sid = update (revoke_one uid sid)"

definition list_sessions :: "app \<Rightarrow> uuid \<Rightarrow> (world, status, json) prog" where
  "list_sessions st uid =
     andthen (internal (list_active_sessions uid)) (\<lambda>rows.
     ret (JObj [(''sessions'', JArr (map (\<lambda>r. JObj
       [(''id'', json_uuid st (rt_id r)), (''device_id'', json_opt (json_uuid st) (rt_device_id r)),
        (''issued_at'', json_time st (rt_issued_at r)), (''expires_at'', json_time st (rt_expires_at r)),
        (''revoked_at'', json_opt (json_time st) (rt_revoked_at r))]) rows))]))"

definition end_user_session :: "uuid \<Rightarrow> uuid \<Rightarrow> (world, status, status) prog" where
  "end_user_session uid sid = andthen (internal (revoke_user_session uid sid)) (\<lambda>_. ret NO_CONTENT)"

section \<open>Screenshot alerts\<close>

definition log_alert_sql :: "uuid \<Rightarrow> uuid \<Rightarrow> uuid sql" where
  "log_alert_sql uid cid t d =
     (if \<not> known_user uid d \<or> \<not> list_ex (\<lambda>c. cv_id c = cid) (conversations d) then (Inl ForeignKeyViolation, d)
      else (Inr (next_id d),
            d\<lparr>people := screenshot_alerts_update (\<lambda>rs. rs @ [\<lparr>sa_id = next_id d, sa_user = uid, sa_conversation = cid,
                sa_reported_at = t\<rparr>]) (people d), next_id := Suc (next_id d)\<rparr>))"

definition log_screenshot_alert :: "uuid \<Rightarrow> uuid \<Rightarrow> (world, db_error, uuid) prog" where
  "log_screenshot_alert uid cid = stmt (log_alert_sql uid cid)"

definition list_screenshot_alerts :: "uuid \<Rightarrow> (world, db_error, screenshot_alert list) prog" where
  "list_screenshot_alerts uid =
     query (\<lambda>_ d. newest_first sa_reported_at
       (filter (\<lambda>r. member_of (sa_conversation r) uid d \<and> sa_user r \<noteq> uid) (screenshot_alerts (people d))))"

definition log_screenshot :: "app \<Rightarrow> uuid \<Rightarrow> uuid \<Rightarrow> (world, status, json) prog" where
  "log_screenshot st uid cid =
     andthen (internal (log_screenshot_alert uid cid)) (\<lambda>aid.
     ret (JObj [(''id'', json_uuid st aid), (''user_id'', json_uuid st uid), (''conversation_id'', json_uuid st cid)]))"

definition list_screenshots :: "app \<Rightarrow> uuid \<Rightarrow> (world, status, json) prog" where
  "list_screenshots st uid =
     andthen (internal (list_screenshot_alerts uid)) (\<lambda>rows.
     ret (JObj [(''alerts'', JArr (map (\<lambda>r. JObj
       [(''id'', json_uuid st (sa_id r)), (''user_id'', json_uuid st (sa_user r)),
        (''conversation_id'', json_uuid st (sa_conversation r)), (''reported_at'', json_time st (sa_reported_at r))]) rows))]))"

section \<open>The reminder\<close>

definition set_idle_reminder_hours :: "uuid \<Rightarrow> int option \<Rightarrow> (world, db_error, unit) prog" where
  "set_idle_reminder_hours uid n = stmt (upsert_profile_with uid (p_idle_reminder_hours_update (\<lambda>_. n)))"

definition get_idle_reminder_hours :: "uuid \<Rightarrow> (world, db_error, int option) prog" where
  "get_idle_reminder_hours uid = query (\<lambda>_ d. Option.bind (profile_of uid d) p_idle_reminder_hours)"

definition get_idle_reminder :: "uuid \<Rightarrow> (world, status, json) prog" where
  "get_idle_reminder uid = andthen (internal (get_idle_reminder_hours uid)) (\<lambda>n. ret (JObj [(''hours'', json_opt json_int n)]))"

definition set_idle_reminder :: "uuid \<Rightarrow> int option \<Rightarrow> (world, status, json) prog" where
  "set_idle_reminder uid n =
     andthen (reject_if (case n of None \<Rightarrow> False | Some h \<Rightarrow> h \<le> 0) BAD_REQUEST) (\<lambda>_.
     andthen (internal (set_idle_reminder_hours uid n)) (\<lambda>_.
     ret (JObj [(''ok'', JBool True), (''hours'', json_opt json_int n)])))"

section \<open>Notifications\<close>

definition PLATFORMS :: "string list" where "PLATFORMS = [''ios'', ''android'', ''web'']"

definition same_device :: "uuid \<Rightarrow> string \<Rightarrow> device \<Rightarrow> bool" where
  "same_device uid token v \<longleftrightarrow> dv_user v = uid \<and> dv_push_token v = Some token"

definition register_device_sql :: "uuid \<Rightarrow> string \<Rightarrow> string \<Rightarrow> uuid sql" where
  "register_device_sql uid token platform t d =
     (if platform \<notin> set PLATFORMS then (Inl CheckViolation, d)
      else case List.find (same_device uid token) (devices (office d)) of
        Some v \<Rightarrow>
          (Inr (dv_id v), d\<lparr>office := devices_update (update_where (same_device uid token)
             (\<lambda>v. v\<lparr>dv_platform := Some platform, dv_last_seen_at := Some t\<rparr>)) (office d)\<rparr>)
      | None \<Rightarrow>
          if \<not> known_user uid d then (Inl ForeignKeyViolation, d)
          else (Inr (next_id d),
                d\<lparr>office := devices_update (\<lambda>vs. vs @ [\<lparr>dv_id = next_id d, dv_user = uid, dv_platform = Some platform,
                    dv_push_token = Some token, dv_last_seen_at = Some t, dv_created_at = t\<rparr>]) (office d),
                  next_id := Suc (next_id d)\<rparr>))"

definition register_device_row :: "uuid \<Rightarrow> string \<Rightarrow> string \<Rightarrow> (world, db_error, uuid) prog" where
  "register_device_row uid token platform = stmt (register_device_sql uid token platform)"

definition list_user_devices :: "uuid \<Rightarrow> (world, db_error, device list) prog" where
  "list_user_devices uid = query (\<lambda>_ d. newest_first dv_created_at (filter (\<lambda>v. dv_user v = uid) (devices (office d))))"

definition get_notification_prefs :: "uuid \<Rightarrow> (world, db_error, json) prog" where
  "get_notification_prefs uid =
     query (\<lambda>_ d. case Option.bind (profile_of uid d) p_notification_prefs of None \<Rightarrow> default_prefs | Some v \<Rightarrow> v)"

definition update_notification_prefs :: "uuid \<Rightarrow> json \<Rightarrow> (world, db_error, unit) prog" where
  "update_notification_prefs uid v =
     andthen (ensure_profile uid) (\<lambda>_.
     update (\<lambda>_. set_profile uid (p_notification_prefs_update (\<lambda>_. Some v))))"

definition register_device :: "app \<Rightarrow> uuid \<Rightarrow> string \<Rightarrow> string \<Rightarrow> (world, status, json) prog" where
  "register_device st uid token platform =
     andthen (reject_if (to_lowercase platform \<notin> set PLATFORMS) BAD_REQUEST) (\<lambda>_.
     andthen (reject_if (utrim token = []) BAD_REQUEST) (\<lambda>_.
     andthen (internal (register_device_row uid token (to_lowercase platform))) (\<lambda>did.
     ret (JObj [(''device_id'', json_uuid st did)]))))"

definition get_notification_preferences :: "uuid \<Rightarrow> (world, status, json) prog" where
  "get_notification_preferences uid = internal (get_notification_prefs uid)"

record update_preferences_request =
  un_new_messages :: "bool option"
  un_new_taps :: "bool option"
  un_promotions :: "bool option"

definition insert_flag :: "string \<Rightarrow> bool option \<Rightarrow> json \<Rightarrow> json" where
  "insert_flag k b v = (case b of None \<Rightarrow> v | Some x \<Rightarrow> json_set k (JBool x) v)"

definition merge_prefs :: "json \<Rightarrow> update_preferences_request \<Rightarrow> json" where
  "merge_prefs current req =
     insert_flag ''promotions'' (un_promotions req)
       (insert_flag ''new_taps'' (un_new_taps req)
         (insert_flag ''new_messages'' (un_new_messages req) (if is_object current then current else JObj [])))"

definition update_notification_preferences :: "uuid \<Rightarrow> update_preferences_request \<Rightarrow> (world, status, json) prog" where
  "update_notification_preferences uid req =
     andthen (internal (get_notification_prefs uid)) (\<lambda>current.
     andthen (internal (update_notification_prefs uid (merge_prefs current req))) (\<lambda>_.
     ret (merge_prefs current req)))"

section \<open>Shop\<close>

record shop_product =
  pd_id :: string
  pd_name :: string
  pd_description :: "string option"
  pd_price_cents :: int
  pd_type :: string

text \<open>The identifier of RevenueCat is the identifier of the product; prices are in cents.\<close>

definition catalog :: "shop_product list" where
  "catalog =
     [\<lparr>pd_id = ''boost_1h'', pd_name = ''1 Hour Boost'', pd_description = Some ''Get seen by 10x more profiles'',
       pd_price_cents = 199, pd_type = ''boost''\<rparr>,
      \<lparr>pd_id = ''boost_4h'', pd_name = ''4 Hour Boost'', pd_description = None, pd_price_cents = 499, pd_type = ''boost''\<rparr>,
      \<lparr>pd_id = ''boost_24h'', pd_name = ''24 Hour Boost'', pd_description = None, pd_price_cents = 999, pd_type = ''boost''\<rparr>,
      \<lparr>pd_id = ''highlight_1w'', pd_name = ''Profile Highlight'',
       pd_description = Some ''Stand out with a highlighted profile card'', pd_price_cents = 399, pd_type = ''highlight''\<rparr>,
      \<lparr>pd_id = ''tribe_extra'', pd_name = ''Extra Tribe Slot'', pd_description = Some ''Add one more tribe to your profile'',
       pd_price_cents = 99, pd_type = ''tribe_slot''\<rparr>]"

definition list_products :: "shop_product list" where "list_products = catalog"

definition purchase :: "json \<Rightarrow> (world, status, shop_product) prog" where
  "purchase body =
     andthen (ok_or BAD_REQUEST (Option.bind (json_get ''product_id'' body) json_str)) (\<lambda>pid.
     ok_or NOT_FOUND (List.find (\<lambda>p. pd_id p = pid) catalog))"

end
