(* ===== verification/Members.thy ===== *)
theory Members
  imports AlbumHandlers Onboarding Events Extras ChatSafety
begin

text \<open>
  What every request on media, albums, stories, profiles, onboarding, travel, events and the smaller features
  guarantees to the tables. The contract \<open>member_guarantee\<close> lists the statements the requests of one user issue
  and what their checks establish (\<open>shares\<close> restricts with whom they share an album); its instances are in \<open>AlbumProps\<close> and \<open>Platform\<close>.
\<close>

section \<open>The requests that write\<close>

datatype member_request =
    CreatePhoto string bool
  | DeletePhoto uuid
  | SetPrimaryPhoto uuid
  | CreateAlbum string "string option" bool
  | UpdateAlbum uuid "string option" "string option" "bool option"
  | DeleteAlbum uuid
  | AddPhotos uuid "string list"
  | RemovePhoto uuid uuid
  | ShareAlbum uuid uuid "string option"
  | UnshareAlbum uuid uuid
  | CreateStory string string "string option"
  | DeleteStory uuid
  | ViewStory uuid
  | SubmitVerification string
  | UpdateOwn update_profile_req
  | ShowUserStatus uuid
  | UpdateHealth "string option" "string option" "bool option"
  | GetPreferences
  | UpdatePreferences update_privacy_preferences
  | CompleteCard string json
  | SkipCards "string list"
  | ForceComplete
  | SetTravel rat rat "string option" rat
  | DeleteTravel
  | CreateEvent create_event_req
  | Attend uuid string
  | DeleteEvent uuid
  | CreateBoost
  | AddPhrase string
  | DeletePhrase uuid
  | ReorderPhrases "uuid list"
  | AddPlace string rat rat
  | DeletePlace uuid
  | SetLocation rat rat "string option" bool
  | CreateIntent string "int option"
  | DeleteIntent uuid
  | EndSession uuid
  | LogScreenshot uuid
  | SetIdleReminder "int option"
  | RegisterDevice string string
  | UpdateNotificationPreferences update_preferences_request

fun member_handler :: "media_env \<Rightarrow> uuid \<Rightarrow> member_request \<Rightarrow> (world, status, unit) prog" where
  "member_handler env uid (CreatePhoto key nsfw) = finish (create_photo env uid key nsfw)"
| "member_handler env uid (DeletePhoto pid) = finish (delete_photo uid pid)"
| "member_handler env uid (SetPrimaryPhoto pid) = finish (set_primary_photo uid pid)"
| "member_handler env uid (CreateAlbum name description private) = finish (create_album uid name description private)"
| "member_handler env uid (UpdateAlbum aid name description private) = finish (update_album uid aid name description private)"
| "member_handler env uid (DeleteAlbum aid) = finish (delete_album uid aid)"
| "member_handler env uid (AddPhotos aid keys) = finish (add_photos uid aid keys)"
| "member_handler env uid (RemovePhoto aid pid) = finish (remove_photo uid aid pid)"
| "member_handler env uid (ShareAlbum aid target expires) = finish (share_album (media_app env) uid aid target expires)"
| "member_handler env uid (UnshareAlbum aid target) = finish (unshare_album uid aid target)"
| "member_handler env uid (CreateStory key media_type caption) = finish (create_story env uid key media_type caption)"
| "member_handler env uid (DeleteStory sid) = finish (delete_story uid sid)"
| "member_handler env uid (ViewStory sid) = finish (view_story uid sid)"
| "member_handler env uid (SubmitVerification key) = finish (verify_profile (media_app env) uid key)"
| "member_handler env uid (UpdateOwn req) = finish (update_own env uid req)"
| "member_handler env uid (ShowUserStatus target) = finish (show_user_status (media_app env) uid target)"
| "member_handler env uid (UpdateHealth hiv tested prep) = finish (update_health (media_app env) uid hiv tested prep)"
| "member_handler env uid GetPreferences = map_err privacy_pref_status (finish (get_preferences uid))"
| "member_handler env uid (UpdatePreferences req) = map_err privacy_pref_status (finish (update_preferences uid req))"
| "member_handler env uid (CompleteCard cid raw) = finish (complete_card (media_app env) uid cid raw)"
| "member_handler env uid (SkipCards cards) = finish (skip_cards (media_app env) uid cards)"
| "member_handler env uid ForceComplete = finish (force_complete (media_app env) uid)"
| "member_handler env uid (SetTravel lat lon city expires_in) = finish (set_travel (media_app env) uid lat lon city expires_in)"
| "member_handler env uid DeleteTravel = finish (delete_travel uid)"
| "member_handler env uid (CreateEvent req) = finish (create_event (media_app env) uid req)"
| "member_handler env uid (Attend eid state) = finish (attend uid eid state)"
| "member_handler env uid (DeleteEvent eid) = finish (delete_event uid eid)"
| "member_handler env uid CreateBoost = finish (create_boost (media_app env) uid)"
| "member_handler env uid (AddPhrase phrase) = finish (add_phrase (media_app env) uid phrase)"
| "member_handler env uid (DeletePhrase pid) = finish (delete_phrase uid pid)"
| "member_handler env uid (ReorderPhrases pids) = finish (reorder_phrases uid pids)"
| "member_handler env uid (AddPlace name lat lon) = finish (add_place (media_app env) uid name lat lon)"
| "member_handler env uid (DeletePlace pid) = finish (delete_place uid pid)"
| "member_handler env uid (SetLocation lat lon name roam) = finish (set_location uid lat lon name roam)"
| "member_handler env uid (CreateIntent body mins) = finish (create_intent (media_app env) uid body mins)"
| "member_handler env uid (DeleteIntent iid) = finish (delete_intent uid iid)"
| "member_handler env uid (EndSession sid) = finish (end_user_session uid sid)"
| "member_handler env uid (LogScreenshot cid) = finish (log_screenshot (media_app env) uid cid)"
| "member_handler env uid (SetIdleReminder n) = finish (set_idle_reminder uid n)"
| "member_handler env uid (RegisterDevice token platform) = finish (register_device (media_app env) uid token platform)"
| "member_handler env uid (UpdateNotificationPreferences req) = finish (update_notification_preferences uid req)"

definition member_route :: "media_env \<Rightarrow> string option \<Rightarrow> member_request \<Rightarrow> (world, status, unit) prog" where
  "member_route env header req = andthen (auth_user (media_app env) header) (\<lambda>uid. member_handler env uid req)"

section \<open>Changes of a row\<close>

text \<open>A profile as its columns and the checks of the endpoints allow it: a position of the list, the details an
  object, the preferences in their range.\<close>

definition profile_typed :: "profile \<Rightarrow> bool" where
  "profile_typed p \<longleftrightarrow>
     position_ok p \<and> is_object (p_details p) \<and> 0 \<le> p_visitor_status p \<and> p_visitor_status p \<le> 2
     \<and> 0 \<le> p_units p \<and> p_units p \<le> 1"

definition profile_change :: "(profile \<Rightarrow> profile) \<Rightarrow> bool" where
  "profile_change f \<longleftrightarrow>
     (\<forall>p. p_user_id (f p) = p_user_id p \<and> p_profile_photo_id (f p) = p_profile_photo_id p
          \<and> (profile_typed p \<longrightarrow> profile_typed (f p)))"

text \<open>What no request of these components changes of an account.\<close>

definition account_change :: "(user_rec \<Rightarrow> user_rec) \<Rightarrow> bool" where
  "account_change f \<longleftrightarrow>
     (\<forall>u. u_id (f u) = u_id u \<and> u_email (f u) = u_email u \<and> u_status (f u) = u_status u
          \<and> u_role (f u) = u_role u \<and> u_password_hash (f u) = u_password_hash u
          \<and> u_subscription_tier (f u) = u_subscription_tier u)"

text \<open>The four lists of a profile with their columns.\<close>

inductive label_table :: "(people \<Rightarrow> label_row list) \<Rightarrow> (label_row list \<Rightarrow> people \<Rightarrow> people) \<Rightarrow> bool" where
  "label_table profile_tribes (\<lambda>rs. profile_tribes_update (\<lambda>_. rs))"
| "label_table profile_looking_for (\<lambda>rs. profile_looking_for_update (\<lambda>_. rs))"
| "label_table profile_meet_at (\<lambda>rs. profile_meet_at_update (\<lambda>_. rs))"
| "label_table profile_tags (\<lambda>rs. profile_tags_update (\<lambda>_. rs))"

lemma fill_profile_change: "position_ok (fill_profile x (default_profile uid t)) \<Longrightarrow> profile_change (fill_profile x)"
  by (auto simp: profile_change_def profile_typed_def fill_profile_def position_ok_def default_profile_def coalesce_def
      split: option.splits)

lemma preferences_change:
  "\<not> out_of_range 2 (upr_visitor_status req) \<Longrightarrow> \<not> out_of_range 1 (upr_units req) \<Longrightarrow> profile_change (apply_preferences req)"
  by (auto simp: profile_change_def profile_typed_def apply_preferences_def position_ok_def keep_or_def out_of_range_def
      split: option.splits)

section \<open>The contract\<close>

locale member_guarantee =
  fixes I :: "db \<Rightarrow> bool"
    and uid :: uuid
    and mine :: "uuid \<Rightarrow> bool"
    and shares :: "uuid \<Rightarrow> uuid \<Rightarrow> bool"
  assumes album_seen: "I d \<Longrightarrow> album_by_id aid d = Some a \<Longrightarrow> al_owner a = uid \<Longrightarrow> mine aid"
    and photo_keeps: "I d \<Longrightarrow> I (snd (insert_photo_sql uid key blur pos primary nsfw t d))"
    and drop_photo_keeps: "I d \<Longrightarrow> I (drop_photo uid pid d)"
    and primary_keeps: "I d \<Longrightarrow> I (set_primary_flag p b d)"
    and profile_keeps: "I d \<Longrightarrow> profile_change f \<Longrightarrow> I (set_profile uid f d)"
    and upsert_keeps: "I d \<Longrightarrow> (position_ok (f (default_profile uid t)) \<Longrightarrow> profile_change f) \<Longrightarrow> I (snd (upsert_profile_with uid f t d))"
    and account_keeps: "I d \<Longrightarrow> account_change g \<Longrightarrow> (\<And>u. q u \<Longrightarrow> u_id u = uid) \<Longrightarrow> I (d\<lparr>users := update_where q g (users d)\<rparr>)"
    and create_album_keeps: "I d \<Longrightarrow> I (snd (create_album_sql uid name description private t d))"
    and update_album_keeps: "I d \<Longrightarrow> I (snd (update_album_sql aid uid name' description hidden t d))"
    and delete_album_keeps: "I d \<Longrightarrow> I (snd (delete_album_sql aid uid t d))"
    and add_photos_keeps: "I d \<Longrightarrow> mine aid \<Longrightarrow> I (snd (add_photos_sql aid uid keys t d))"
    and remove_entry_keeps: "I d \<Longrightarrow> mine aid \<Longrightarrow> I (snd (remove_entry_sql aid pid t d))"
    and share_keeps: "I d \<Longrightarrow> mine aid \<Longrightarrow> shares aid target \<Longrightarrow> I (snd (share_album_sql aid target expires t d))"
    and unshare_keeps: "I d \<Longrightarrow> mine aid \<Longrightarrow> I (snd (unshare_album_sql aid target t d))"
    and story_keeps: "I d \<Longrightarrow> media_type \<in> {''photo'', ''video''} \<Longrightarrow> I (snd (create_story_sql uid key media_type caption t d))"
    and delete_story_keeps: "I d \<Longrightarrow> I (snd (delete_story_sql sid uid t d))"
    and seen_story_keeps: "I d \<Longrightarrow> I (snd (mark_viewed_story_sql sid uid t d))"
    and verification_keeps: "I d \<Longrightarrow> I (snd (submit_verification_sql uid key t d))"
    and labels_keeps: "I d \<Longrightarrow> label_table table put \<Longrightarrow> I (snd (replace_labels_sql table put k uid xs t d))"
    and view_keeps: "I d \<Longrightarrow> I (snd (insert_view_sql uid target t d))"
    and event_keeps: "I d \<Longrightarrow> 0 \<le> capacity \<Longrightarrow> I (snd (create_event_sql uid req starts ends capacity t d))"
    and attend_keeps: "I d \<Longrightarrow> state \<in> {''going'', ''maybe''} \<Longrightarrow> I (snd (upsert_attendee_sql eid uid state t d))"
    and delete_event_keeps: "I d \<Longrightarrow> I (snd (delete_event_sql eid uid t d))"
    and boost_keeps: "I d \<Longrightarrow> I (snd (create_boost_sql uid secs source t d))"
    and phrase_keeps: "I d \<Longrightarrow> I (snd (add_phrase_sql uid phrase t d))"
    and phrases_keep: "I d \<Longrightarrow> (\<And>ps. map sp_id (h ps) = map sp_id ps \<and> map sp_user (h ps) = map sp_user ps
                         \<or> (\<exists>q. h ps = delete_where q ps)) \<Longrightarrow> I (d\<lparr>people := saved_phrases_update h (people d)\<rparr>)"
    and place_keeps: "I d \<Longrightarrow> I (snd (add_place_sql uid place lat lon t d))"
    and drop_place_keeps: "I d \<Longrightarrow> I (d\<lparr>people := saved_places_update (delete_where q') (people d)\<rparr>)"
    and roam_keeps: "I d \<Longrightarrow> I (snd (set_roam_sql uid lat lon label roam t d))"
    and intent_keeps: "I d \<Longrightarrow> I (snd (create_intent_sql uid body expiry t d))"
    and drop_intent_keeps: "I d \<Longrightarrow> I (d\<lparr>people := right_now_intents_update (delete_where q'') (people d)\<rparr>)"
    and session_keeps: "I d \<Longrightarrow> I (revoke_one uid sid t d)"
    and alert_keeps: "I d \<Longrightarrow> I (snd (log_alert_sql uid cid t d))"
    and device_keeps: "I d \<Longrightarrow> I (snd (register_device_sql uid token platform t d))"
begin

lemma finish_keeps: "keeps (stable I) m w \<Longrightarrow> keeps (stable I) (finish m) w"
  unfolding finish_def by (rule keeps_bind) auto

lemma photo_key_keeps: "I d \<Longrightarrow> I (set_photo_key uid key d)"
  unfolding set_photo_key_def
  by (rule profile_keeps) (auto simp: profile_change_def profile_typed_def position_ok_def)

lemma promote_keeps: "I d \<Longrightarrow> I (promote_next uid d)"
  by (auto simp: promote_next_def split: option.split intro: photo_key_keeps primary_keeps)

lemma transfer_keeps: "stable I w \<Longrightarrow> keeps (stable I) (download env url) w" "stable I w \<Longrightarrow> keeps (stable I) (upload env url body) w"
  unfolding download_def upload_def
  by (auto simp: wp_rules split: http_reply.split option.split)

lemma create_photo_keeps: "stable I w \<Longrightarrow> keeps (stable I) (create_photo env uid key nsfw) w"
  unfolding create_photo_def record_photo_def count_user_photos_def Let_def
  by (auto intro!: wp_need keeps_bind transfer_keeps keeps_query keeps_stmt keeps_update photo_keeps photo_key_keeps)

lemma delete_photo_keeps: "stable I w \<Longrightarrow> keeps (stable I) (delete_photo uid pid) w"
  unfolding delete_photo_def delete_photo_row_def found_or_404_def
  by (auto split: option.split intro!: keeps_bind keeps_query keeps_update drop_photo_keeps promote_keeps simp: Let_def)

lemma set_primary_keeps: "stable I w \<Longrightarrow> keeps (stable I) (set_primary_photo uid pid) w"
  unfolding set_primary_photo_def set_primary_photo_row_def found_or_404_def make_primary_def
  by (auto split: option.split intro!: keeps_bind keeps_query keeps_update photo_key_keeps primary_keeps)

text \<open>Albums.\<close>

lemma owner_seen:
  assumes "stable I w"
  shows "wp (need_album_owner uid aid) (\<lambda>_ v. stable I v \<and> mine aid) (\<lambda>_. stable I) w"
proof -
  have "wp (get_album_row aid) (\<lambda>found v. stable I v \<and> (\<forall>r. found = Some r \<longrightarrow> al_owner (ar_album r) = uid \<longrightarrow> mine aid))
          (\<lambda>_. stable I) w"
    unfolding get_album_row_def using assms
    by (rule wp_query_stable [where I = I]) (auto simp: album_row_of_def intro: album_seen)
  then show ?thesis
    unfolding need_album_owner_def by (rule wp_call) (auto simp: wp_rules split: option.split)
qed

lemma album_requests_keep:
  assumes "stable I w"
  shows "keeps (stable I) (create_album uid name description private) w"
    and "keeps (stable I) (update_album uid aid name' description hidden) w"
    and "keeps (stable I) (delete_album uid aid) w"
    and "keeps (stable I) (add_photos uid aid keys) w"
    and "keeps (stable I) (remove_photo uid aid pid) w"
    and "keeps (stable I) (unshare_album uid aid target) w"
    and "(mine aid \<Longrightarrow> shares aid target) \<Longrightarrow> keeps (stable I) (share_album st uid aid target expires) w"
proof -
  show "keeps (stable I) (create_album uid name description private) w"
    unfolding create_album_def create_album_row_def using assms
    by (intro keeps_bind) (auto intro!: keeps_stmt create_album_keeps)
  show "keeps (stable I) (update_album uid aid name' description hidden) w"
    unfolding update_album_def update_album_row_def using assms
    by (intro keeps_bind) (auto intro!: keeps_stmt update_album_keeps)
  show "keeps (stable I) (delete_album uid aid) w"
    unfolding delete_album_def delete_album_row_def using assms
    by (intro keeps_bind) (auto intro!: keeps_stmt delete_album_keeps)
  show "keeps (stable I) (add_photos uid aid keys) w"
    unfolding add_photos_def add_photos_to_album_def using assms
    by (auto intro!: wp_bind [OF owner_seen] keeps_stmt add_photos_keeps)
  show "keeps (stable I) (remove_photo uid aid pid) w"
    unfolding remove_photo_def remove_photo_from_album_def
    by (rule wp_bind [OF owner_seen [OF assms]]) (auto intro!: keeps_bind keeps_stmt remove_entry_keeps)
  show "keeps (stable I) (unshare_album uid aid target) w"
    unfolding unshare_album_def unshare_album_row_def
    by (rule wp_bind [OF owner_seen [OF assms]]) (auto intro!: keeps_bind keeps_stmt unshare_keeps)
  show "keeps (stable I) (share_album st uid aid target expires) w" if "mine aid \<Longrightarrow> shares aid target"
    unfolding share_album_def share_album_row_def
    by (rule wp_bind [OF owner_seen [OF assms]])
       (auto split: option.split intro!: keeps_bind keeps_stmt share_keeps that)
qed


text \<open>Stories, profiles, onboarding.\<close>

lemma story_requests_keep:
  assumes "stable I w"
  shows "keeps (stable I) (create_story env uid key media_type caption) w"
    and "keeps (stable I) (delete_story uid sid) w"
    and "keeps (stable I) (view_story uid sid) w"
    and "keeps (stable I) (verify_profile st uid key) w"
proof -
  show "keeps (stable I) (create_story env uid key media_type caption) w"
    unfolding create_story_def create_story_row_def using assms
    by (intro wp_guard) (auto intro!: keeps_stmt story_keeps)
  show "keeps (stable I) (delete_story uid sid) w"
    unfolding delete_story_def delete_story_row_def using assms
    by (intro keeps_bind) (auto intro!: keeps_stmt delete_story_keeps)
  show "keeps (stable I) (view_story uid sid) w"
    unfolding view_story_def get_story_by_id_def mark_viewed_def using assms
    by (auto intro!: keeps_bind keeps_query keeps_stmt seen_story_keeps)
  show "keeps (stable I) (verify_profile st uid key) w"
    unfolding verify_profile_def submit_verification_def using assms
    by (intro keeps_bind) (auto intro!: keeps_stmt verification_keeps)
qed

lemma upsert_change_keeps: "stable I w \<Longrightarrow> profile_change f \<Longrightarrow> keeps (stable I) (stmt (upsert_profile_with uid f)) w"
  by (intro keeps_stmt upsert_keeps)

lemma labels_keep:
  assumes "stable I w"
  shows "keeps (stable I) (replace_profile_tribes uid xs) w" "keeps (stable I) (replace_profile_looking_for uid xs) w"
    "keeps (stable I) (replace_profile_meet_at uid xs) w" "keeps (stable I) (replace_profile_tags st uid xs) w"
  unfolding replace_profile_tribes_def replace_profile_looking_for_def replace_profile_meet_at_def replace_profile_tags_def
  using assms by (auto intro!: keeps_stmt labels_keeps label_table.intros)

lemma patch_keeps:
  assumes "stable I w" "\<And>x. v = Some x \<Longrightarrow> profile_change (f x)"
  shows "keeps (stable I) (patch_column uid f v) w"
  using assms by (auto simp: patch_column_def split: option.split intro!: keeps_update profile_keeps)

lemma patch_meta_keeps:
  assumes "stable I w" "\<And>v. details = Some v \<Longrightarrow> is_object v"
  shows "keeps (stable I) (patch_profile_meta uid details fl) w"
  unfolding patch_profile_meta_def using assms
  by (intro keeps_bind patch_keeps) (auto simp: profile_change_def profile_typed_def position_ok_def)

lemma find_full_keeps: "stable I w \<Longrightarrow> keeps (stable I) (find_user_full u) w"
  unfolding find_user_full_def by (rule keeps_query)

lemma load_lists_keeps:
  assumes "stable I w"
  shows "keeps (stable I) (load_lists env u caller) w"
  unfolding load_lists_def load_photos_json_def get_profile_tribes_def get_profile_looking_for_def get_profile_meet_at_def
    get_profile_tags_def list_user_photos_def Let_def
  using assms by (intro keeps_bind) (auto intro!: keeps_bind keeps_query)

lemma check_details_object:
  "wp (check_details st details) (\<lambda>v w'. stable I w' \<and> (\<forall>x. v = Some x \<longrightarrow> is_object x)) (\<lambda>_. stable I) w = stable I w"
  by (auto simp: check_details_def wp_rules split: option.split)

lemma when_given_keeps: "stable I w \<Longrightarrow> (\<And>x. keeps (stable I) (f x) w) \<Longrightarrow> keeps (stable I) (when_given v f) w"
  by (simp add: when_given_def split: option.split)

lemma update_own_keeps:
  assumes "stable I w"
  shows "keeps (stable I) (update_own env uid req) w"
proof -
  have fields: "keeps (stable I) (upsert_profile uid x) v" if "stable I v" for x v
    unfolding upsert_profile_def using that by (intro keeps_stmt upsert_keeps fill_profile_change)
  have lists: "keeps (stable I) (replace_lists st uid req) v" if "stable I v" for st v
    unfolding replace_lists_def using that by (intro keeps_bind when_given_keeps labels_keep)
  have photo: "keeps (stable I) (store_photo_key env uid key) v" if "stable I v" for key v
    unfolding store_photo_key_def using that by (auto split: option.split intro!: keeps_update photo_key_keeps)
  have parse: "keeps (stable I) (parse_optional f x) v" if "stable I v" for f x v
    unfolding parse_optional_def using that by (auto split: option.split intro!: keeps_bind)
  have rest: "keeps (stable I) (andthen (internal (upsert_profile uid x)) (\<lambda>_.
      andthen (replace_lists st uid req) (\<lambda>_.
      andthen (store_photo_key env uid (up_profile_photo_key req)) (\<lambda>_.
      andthen (internal (patch_profile_meta uid details (up_flags req))) (\<lambda>_.
      andthen (internal (find_user_full uid)) (\<lambda>found.
      andthen (load_lists env uid uid) (\<lambda>ls.
      andthen (ok_or NOT_FOUND found) (\<lambda>u.
      andthen now_utc (\<lambda>t.
      ret (JObj [(''user'', profile_to_json env u ls False t)])))))))))) v"
    if "stable I v" "\<forall>y. details = Some y \<longrightarrow> is_object y" for x st details v
    using that
    by (intro keeps_bind) (auto intro!: fields lists photo patch_meta_keeps find_full_keeps load_lists_keeps)
  show ?thesis
    unfolding update_own_def Let_def
    by (rule wp_guard, simp add: assms, rule keeps_bind, rule parse [OF assms], rule wp_bind, subst check_details_object, assumption)
       (use rest in auto)
qed

lemma status_keeps: "stable I w \<Longrightarrow> keeps (stable I) (show_user_status st uid target) w"
  unfolding show_user_status_def touch_last_seen_def log_profile_view_def get_user_status_def set_user_def
  by (intro keeps_bind)
     (auto intro!: keeps_bind keeps_update keeps_query keeps_stmt account_keeps view_keeps simp: account_change_def)

lemma ensure_keeps: "stable I w \<Longrightarrow> keeps (stable I) (ensure_profile uid) w"
  unfolding ensure_profile_def by (rule upsert_change_keeps) (auto simp: profile_change_def)

lemma health_keeps: "stable I w \<Longrightarrow> keeps (stable I) (update_health st uid hiv tested prep) w"
  unfolding update_health_def parse_optional_def
  by (intro keeps_bind)
     (auto split: option.split intro!: keeps_bind ensure_keeps keeps_update keeps_query profile_keeps
       simp: profile_change_def profile_typed_def position_ok_def)

lemma preferences_keep:
  assumes "stable I w"
  shows "keeps (stable I) (get_preferences uid) w" "keeps (stable I) (update_preferences uid prefs) w"
proof -
  have read: "keeps (stable I) (read_preferences uid) v" if "stable I v" for v
    unfolding read_preferences_def using that by (intro keeps_bind) (auto intro: keeps_query)
  then show "keeps (stable I) (get_preferences uid) w"
    unfolding get_preferences_def using assms by (intro keeps_bind) (auto intro: ensure_keeps)
  show "keeps (stable I) (update_preferences uid prefs) w"
    unfolding update_preferences_def using assms
    by (intro wp_guard) (auto intro!: keeps_bind ensure_keeps read keeps_update profile_keeps preferences_change)
qed

lemma detail_keeps: "stable I w \<Longrightarrow> keeps (stable I) (set_detail uid k v) w"
  unfolding set_detail_def keeps_simps
proof (rule keeps_stmt)
  fix t d assume d: "I d"
  have "profile_change (p_details_update (json_set k v))"
    by (auto simp: profile_change_def profile_typed_def position_ok_def is_object_def split: json.split)
  then show "I (snd (set_detail_sql uid k v t d))"
    using d by (auto simp: set_detail_sql_def split: option.split intro: profile_keeps upsert_keeps)
qed

lemma column_keeps: "stable I w \<Longrightarrow> profile_change f \<Longrightarrow> keeps (stable I) (set_column uid f) w"
  unfolding set_column_def by (simp add: upsert_change_keeps)

lemma gender_keeps: "stable I w \<Longrightarrow> keeps (stable I) (set_column uid (\<lambda>p. p\<lparr>p_gender_identity := Some g, p_position := Some s\<rparr>)) w"
  unfolding set_column_def keeps_simps
  by (rule keeps_stmt, assumption, rule upsert_keeps, assumption)
     (auto simp: profile_change_def profile_typed_def position_ok_def)

lemma body_keeps: "stable I w \<Longrightarrow> (\<And>x. keeps (stable I) (f x) w) \<Longrightarrow> keeps (stable I) (with_body v f) w"
  unfolding with_body_def by (rule wp_need) auto

lemma age_keeps: "stable I w \<Longrightarrow> keeps (stable I) (complete_age st uid n) w"
  unfolding complete_age_def set_user_def
  by (intro keeps_bind) (auto intro!: keeps_update account_keeps simp: account_change_def)

lemma keeps_if: "keeps J m w \<Longrightarrow> keeps J n w \<Longrightarrow> keeps J (if b then m else n) w"
  by simp

lemma card_keeps:
  assumes "stable I w"
  shows "keeps (stable I) (card_action st uid cid raw) w"
  unfolding card_action_def using assms
  by (intro keeps_if body_keeps;
      auto intro!: keeps_bind keeps_stmt photo_keeps column_keeps gender_keeps age_keeps labels_keep detail_keeps wp_guard
        simp: profile_change_def profile_typed_def position_ok_def split: prod.split)

lemma onboarding_requests_keep:
  assumes "stable I w"
  shows "keeps (stable I) (complete_card st uid cid raw) w" "keeps (stable I) (skip_cards st uid cards) w"
    "keeps (stable I) (force_complete st uid) w"
proof -
  have ready: "I d \<Longrightarrow> I (complete_if_ready uid t d)" for t d
    unfolding complete_if_ready_def by (rule account_keeps) (auto simp: account_change_def ready_to_show_def)
  then show "keeps (stable I) (complete_card st uid cid raw) w"
    unfolding complete_card_def try_complete_onboarding_def using assms
    by (intro keeps_bind) (auto intro!: card_keeps keeps_update)
  show "keeps (stable I) (skip_cards st uid cards) w"
    unfolding skip_cards_def Let_def set_user_def using assms
    by (intro keeps_bind) (auto intro!: keeps_bind keeps_update account_keeps simp: account_change_def)
  show "keeps (stable I) (force_complete st uid) w"
    unfolding force_complete_def using assms
    by (intro keeps_bind) (auto intro!: keeps_update account_keeps simp: account_change_def)
qed

text \<open>Travel, events and the rest.\<close>

lemma travel_requests_keep:
  assumes "stable I w"
  shows "keeps (stable I) (set_travel st uid lat lon city h) w" "keeps (stable I) (delete_travel uid) w"
  unfolding set_travel_def delete_travel_def Let_def set_user_def set_travel_pass_def using assms
  by (auto intro!: keeps_bind keeps_update account_keeps simp: account_change_def)

lemma event_requests_keep:
  assumes "stable I w"
  shows "keeps (stable I) (create_event st uid req) w" "keeps (stable I) (attend uid eid state) w"
    "keeps (stable I) (delete_event uid eid) w"
proof -
  show "keeps (stable I) (create_event st uid req) w"
    unfolding create_event_def create_event_row_def parse_optional_def using assms
    by (intro keeps_bind) (auto split: option.split intro!: keeps_bind keeps_stmt event_keeps)
  show "keeps (stable I) (attend uid eid state) w"
    unfolding attend_def get_event_by_id_def is_event_full_def upsert_attendee_def using assms
    by (intro wp_guard) (auto intro!: keeps_bind keeps_query keeps_stmt attend_keeps)
  show "keeps (stable I) (delete_event uid eid) w"
    unfolding delete_event_def delete_event_row_def using assms
    by (intro keeps_bind) (auto intro!: keeps_stmt delete_event_keeps)
qed

lemma reorder_same: "map sp_id (reorder_from i u pids ps) = map sp_id ps" "map sp_user (reorder_from i u pids ps) = map sp_user ps"
  by (induction i u pids ps rule: reorder_from.induct) (simp_all add: map_update_where_same)

lemma feature_requests_keep:
  assumes "stable I w"
  shows "keeps (stable I) (create_boost st uid) w" "keeps (stable I) (add_phrase st uid phrase) w"
    "keeps (stable I) (delete_phrase uid pid) w" "keeps (stable I) (reorder_phrases uid pids) w"
    "keeps (stable I) (add_place st uid place lat lon) w" "keeps (stable I) (delete_place uid pid) w"
    "keeps (stable I) (set_location uid lat lon label roam) w" "keeps (stable I) (create_intent st uid body mins) w"
    "keeps (stable I) (delete_intent uid iid) w" "keeps (stable I) (end_user_session uid sid) w"
    "keeps (stable I) (log_screenshot st uid cid) w"
  unfolding create_boost_def create_boost_row_def add_phrase_def add_saved_phrase_def delete_phrase_def delete_saved_phrase_def
    reorder_phrases_def reorder_saved_phrases_def add_place_def add_saved_place_def delete_place_def delete_saved_place_def
    set_location_def set_roam_pref_def create_intent_def create_intent_row_def delete_intent_def delete_intent_row_def
    end_user_session_def revoke_user_session_def log_screenshot_def log_screenshot_alert_def Let_def
  using assms reorder_same
  by (intro keeps_bind;
      force intro!: keeps_bind keeps_stmt keeps_update boost_keeps phrase_keeps phrases_keep place_keeps drop_place_keeps roam_keeps
        intent_keeps drop_intent_keeps session_keeps alert_keeps)+

lemma notification_requests_keep:
  assumes "stable I w"
  shows "keeps (stable I) (set_idle_reminder uid n) w" "keeps (stable I) (register_device st uid token platform) w"
    "keeps (stable I) (update_notification_preferences uid req) w"
  unfolding set_idle_reminder_def set_idle_reminder_hours_def register_device_def register_device_row_def
    update_notification_preferences_def get_notification_prefs_def update_notification_prefs_def
  using assms
  by (auto intro!: keeps_bind keeps_query keeps_stmt keeps_update upsert_change_keeps device_keeps ensure_keeps profile_keeps
      simp: profile_change_def profile_typed_def position_ok_def)

lemma handler_keeps:
  "stable I w \<Longrightarrow> (\<And>aid target e. req = ShareAlbum aid target e \<Longrightarrow> mine aid \<Longrightarrow> shares aid target) \<Longrightarrow>
     keeps (stable I) (member_handler env uid req) w"
  by (cases req; simp; intro finish_keeps;
      simp add: create_photo_keeps delete_photo_keeps set_primary_keeps album_requests_keep story_requests_keep update_own_keeps
        status_keeps health_keeps preferences_keep onboarding_requests_keep travel_requests_keep event_requests_keep
        feature_requests_keep notification_requests_keep)

end

end
