(* ===== verification/AlbumProps.thy ===== *)
theory AlbumProps
  imports Members
begin

text \<open>
  Access to albums and to stored objects: who was cut off an album stays out of it whatever others do, and a read URL
  needs a right at the time of its check.
\<close>

section \<open>Albums\<close>

text \<open>The album \<open>aid\<close> is of \<open>owner\<close> (or gone), and nothing of it is shared with \<open>target\<close>.\<close>

definition album_of :: "uuid \<Rightarrow> uuid \<Rightarrow> db \<Rightarrow> bool" where
  "album_of owner aid d \<longleftrightarrow>
     aid < next_id d \<and> (\<forall>a \<in> set (albums (gallery d)). al_id a = aid \<longrightarrow> al_owner a = owner)"

definition cut_off :: "uuid \<Rightarrow> uuid \<Rightarrow> uuid \<Rightarrow> db \<Rightarrow> bool" where
  "cut_off owner aid target d \<longleftrightarrow>
     album_of owner aid d
     \<and> (\<forall>r \<in> set (album_shares (gallery d)). share_key aid target r \<longrightarrow> sh_revoked_at r \<noteq> None)"

lemmas cut_off_defs = cut_off_def album_of_def share_key_def

lemma cut_off_frame:
  "cut_off owner aid target d \<Longrightarrow> gallery d' = gallery d \<Longrightarrow> next_id d \<le> next_id d' \<Longrightarrow> cut_off owner aid target d'"
  by (auto simp: cut_off_defs)

lemma cut_off_albums_frame:
  "cut_off owner aid target d \<Longrightarrow> albums (gallery d') = albums (gallery d) \<Longrightarrow>
     album_shares (gallery d') = album_shares (gallery d) \<Longrightarrow> next_id d \<le> next_id d' \<Longrightarrow> cut_off owner aid target d'"
  by (auto simp: cut_off_defs)

lemma add_keys_frame:
  "add_keys aid uid keys t d = Inr d' \<Longrightarrow>
     albums (gallery d') = albums (gallery d) \<and> album_shares (gallery d') = album_shares (gallery d) \<and> next_id d \<le> next_id d'"
  by (induction aid uid keys t d rule: add_keys.induct)
     (auto simp: insert_photo_sql_def split: sum.splits prod.splits if_splits)

interpretation cut: member_guarantee "cut_off owner aid target" uid "\<lambda>a. uid = owner \<or> a \<noteq> aid" "\<lambda>a u. a \<noteq> aid \<or> u \<noteq> target"
  for owner aid target uid
proof (unfold_locales, goal_cases)
  case (1 d a r)
  then show ?case by (auto simp: cut_off_defs album_by_id_def dest: find_SomeD)
next
  case (8 d nm ds pr t)
  then show ?case by (auto simp: cut_off_defs create_album_sql_def less_Suc_eq)
next
  case (9 d a name' description hidden t)
  then show ?case by (auto simp: cut_off_defs update_album_sql_def elim!: in_update_whereE)
next
  case (10 d a t)
  then show ?case by (auto simp: cut_off_defs delete_album_sql_def)
next
  case (11 d a keys t)
  then show ?case
    using add_keys_frame [of a uid keys t d]
    by (auto simp: add_photos_sql_def split: sum.split intro: cut_off_albums_frame)
next
  case (13 d a u e t)
  then show ?case by (auto simp: cut_off_defs share_album_sql_def elim!: in_update_whereE)
next
  case (14 d a u t)
  then show ?case by (auto simp: cut_off_defs unshare_album_sql_def elim!: in_update_whereE)
qed (erule cut_off_albums_frame;
     simp add: insert_photo_sql_def drop_photo_def set_primary_flag_def set_profile_def upsert_profile_with_def
       remove_entry_sql_def create_story_sql_def delete_story_sql_def Let_def mark_viewed_story_sql_def
       submit_verification_sql_def replace_labels_sql_def insert_view_sql_def create_event_sql_def upsert_attendee_sql_def
       delete_event_sql_def create_boost_sql_def add_phrase_sql_def add_place_sql_def set_roam_sql_def create_intent_sql_def
       revoke_one_def log_alert_sql_def register_device_sql_def split: sum.split option.split)+

text \<open>Requests of the other components change no album.\<close>

interpretation cut_auth: auth_guarantee st "cut_off owner aid target" "\<lambda>_. True" for st owner aid target
  by unfold_locales
     (simp_all, (erule cut_off_albums_frame;
        simp add: create_user_full_sql_def store_refresh_token_sql_def add_auth_identity_sql_def record_consent_sql_def
          issue_auth_code_sql_def consume_def revoke_def set_user_def)+)

interpretation cut_chat: chat_guarantee "cut_off owner aid target" uid "\<lambda>_. True" "\<lambda>_. True" for owner aid target uid
  by unfold_locales
     (simp_all, (erule cut_off_albums_frame;
        simp add: create_tap_sql_def add_favorite_sql_def drop_favorite_def block_user_sql_def drop_block_def drop_shared_def
          create_report_sql_def create_conversation_sql_def drop_conversations_def insert_message_sql_def Let_def
          set_messages_def set_last_read_def set_reaction_sql_def drop_reaction_def create_group_sql_def
          add_group_member_sql_def drop_member_def unsend_sql_def mark_messages_read_sql_def mark_viewed_sql_def)+)

text \<open>Any request of anyone, except that the owner shares the album with the target again.\<close>

inductive unshared_step :: "media_env \<Rightarrow> uuid \<Rightarrow> uuid \<Rightarrow> uuid \<Rightarrow> world \<Rightarrow> world \<Rightarrow> bool" for env owner aid target where
  "(\<And>e. uid = owner \<Longrightarrow> req \<noteq> ShareAlbum aid target e) \<Longrightarrow>
     unshared_step env owner aid target w (snd (member_handler env uid req w))"
| "unshared_step env owner aid target w (snd (route (media_app env) areq w))"
| "unshared_step env owner aid target w (snd (chat_route (media_app env) header creq w))"

lemma unshared_step_keeps:
  assumes "unshared_step env owner aid target w v" "stable (cut_off owner aid target) w"
  shows "stable (cut_off owner aid target) v"
  using assms
proof (cases rule: unshared_step.cases)
  case (1 uid req)
  have "keeps (stable (cut_off owner aid target)) (member_handler env uid req) w"
    using 1(2) assms(2) by (intro cut.handler_keeps) auto
  with 1(1) show ?thesis by (simp add: keeps_final)
next
  case (2 areq)
  with assms(2) show ?thesis by (simp add: keeps_final [OF cut_auth.route_keeps])
next
  case (3 header creq)
  have "keeps (stable (cut_off owner aid target)) (chat_route (media_app env) header creq) w"
    unfolding chat_route_def using assms(2)
    by (intro keeps_bind cut_auth.auth_user_keeps cut_chat.perform_keeps)
  with 3 show ?thesis by (simp add: keeps_final)
qed

lemma keeps_turns: "turns_keep I w \<Longrightarrow> keeps (turns_keep I) (stmt q) w"
  using turns_keep_take [of I w] by (auto simp: wp_stmt Let_def split: outcome.split prod.split sum.split)

lemma keeps_both: "keeps J m w \<Longrightarrow> keeps K m w \<Longrightarrow> keeps (\<lambda>v. J v \<and> K v) m w"
  by (auto simp: wp_def split: prod.splits sum.splits)

lemma unshare_cuts:
  assumes "stable (album_of owner aid) w" "turns_keep (cut_off owner aid target) w"
  shows "wp (unshare_album owner aid target) (\<lambda>code v. code = NO_CONTENT \<longrightarrow> stable (cut_off owner aid target) v) (\<lambda>_ _. True) w"
proof -
  let ?K = "\<lambda>v. stable (album_of owner aid) v \<and> turns_keep (cut_off owner aid target) v"
  have sql: "cut_off owner aid target d'" if "album_of owner aid d" "unshare_album_sql aid target t d = (x, d')" for t d d' x
    using that unfolding cut_off_def
    by (intro conjI ballI impI)
       (force simp: album_of_def unshare_album_sql_def, clarsimp simp: unshare_album_sql_def, erule in_update_whereE, simp_all)
  have owner: "keeps ?K (need_album_owner owner aid) w"
  proof -
    have "keeps ?K (query f) v" if "?K v" for f :: "timestamp \<Rightarrow> db \<Rightarrow> album_row option" and v
      using that by (elim conjE) (rule keeps_both, rule keeps_query, assumption, simp add: query_def keeps_turns)
    then show ?thesis
      unfolding need_album_owner_def get_album_row_def using assms by (intro keeps_bind) auto
  qed
  have "wp (andthen (attempt (unshare_album_row aid target)) (\<lambda>r. ret (gone_or_404 r)))
      (\<lambda>code v. code = NO_CONTENT \<longrightarrow> stable (cut_off owner aid target) v) (\<lambda>_ _. True) v" if "?K v" for v
    using that stable_db [OF stable_take_turn [of "album_of owner aid" v]] sql
    by (auto simp: unshare_album_row_def wp_rules wp_stmt Let_def stable_iff turns_keep_take gone_or_404_def
        split: outcome.split prod.split sum.split bool.split)
  then show ?thesis
    unfolding unshare_album_def by (intro wp_bind [OF wp_mono [OF owner]]) auto
qed

lemma cut_off_denied:
  assumes "stable (cut_off owner aid target) v" "target \<noteq> owner"
  shows "wp (has_album_access aid target) (\<lambda>ok _. \<not> ok) (\<lambda>_ _. True) v"
  unfolding has_album_access_def using assms(1)
  by (rule wp_query_stable [where I = "cut_off owner aid target"])
     (use assms(2) in \<open>auto simp: may_see_album_def shared_with_def share_live_def cut_off_defs list_ex_iff owned_album_def\<close>)

lemma cut_off_refused:
  assumes "stable (cut_off owner aid target) w" "target \<noteq> owner"
  shows "wp (get_album env target aid) (\<lambda>_ _. False) (\<lambda>_ _. True) w"
proof -
  have "wp (get_album_row aid) (\<lambda>found v. stable (cut_off owner aid target) v \<and> (\<forall>r. found = Some r \<longrightarrow> al_owner (ar_album r) = owner))
          (\<lambda>_ _. True) w"
    unfolding get_album_row_def using assms(1)
    by (rule wp_query_stable [where I = "cut_off owner aid target"])
       (auto simp: album_row_of_def album_by_id_def cut_off_defs dest: find_SomeD)
  then show ?thesis
    unfolding get_album_def using assms(2)
    by (elim wp_call, intro wp_need)
       (auto simp: wp_andthen wp_map_err wp_reject_if intro!: wp_mono [OF cut_off_denied])
qed

text \<open>
  C7. Whoever an album is no longer shared with is shut out of it: after the owner's \<^verbatim>\<open>unshare\<close> was answered 204, no
  request of that user for the album is answered with its photos, whatever anyone asks for in between, other
  clients included, until the owner shares it with him again.
\<close>

theorem unshare_cuts_off:
  assumes "stable (album_of owner aid) w" and "turns_keep (cut_off owner aid target) w" and "target \<noteq> owner"
    and "unshare_album owner aid target w = (Inr NO_CONTENT, w1)"
    and "(unshared_step env owner aid target)\<^sup>*\<^sup>* w1 w2"
  shows "\<exists>e. fst (get_album env target aid w2) = Inl e"
proof -
  have "stable (cut_off owner aid target) w1"
    using wp_returns [OF unshare_cuts [OF assms(1,2)] assms(4)] by simp
  with assms(5) have "stable (cut_off owner aid target) w2"
    by (induction rule: rtranclp_induct) (auto intro: unshared_step_keeps)
  from cut_off_refused [OF this assms(3), of env] show ?thesis
    by (auto simp: wp_def split: prod.splits sum.splits)
qed

definition sample_media :: media_env where
  "sample_media =
     \<lparr>media_app = sample_app,
      r2 = Some \<lparr>r2_endpoint = ''https://s'', r2_access_key = ''a'', r2_secret_key = ''k'', r2_region = ''auto'',
                 bucket_media = ''m'', bucket_private = ''p'', bucket_verification = ''v''\<rparr>,
      hmac_sha256 = (\<lambda>k x. k @ x),
      utc_fields = (\<lambda>_. \<lparr>c_year = 2026, c_month = 6, c_day = 26, c_hour = 12, c_minute = 0, c_second = 0\<rparr>),
      new_uuid_text = show_nat, http_get = (\<lambda>_ _. Reply 200 (Some [])), http_put = (\<lambda>_ _ _. Reply 200 None),
      generate_blur_rendition = Some\<rparr>"

definition shared_album_db :: db where
  "shared_album_db = empty_db
     \<lparr>users := [new_user 0 ''a@b.c'' None None True 0, new_user 1 ''d@e.f'' None None True 0], next_id := 3,
      gallery := empty_gallery
        \<lparr>albums := [\<lparr>al_id = 2, al_owner = 0, al_name = None, al_description = None, al_is_private = True, al_created_at = 0\<rparr>],
         album_shares := [\<lparr>sh_album = 2, sh_user = 1, sh_granted_at = 0, sh_revoked_at = None, sh_expires_at = None\<rparr>]\<rparr>\<rparr>"

theorem unshare_cuts_off_witness:
  "let w = snd (unshare_album 0 2 1 (alone shared_album_db))
   in \<exists>e. fst (get_album sample_media 1 2 (snd (member_handler sample_media 0 (AddPhotos 2 [''x'']) w))) = Inl e"
proof -
  let ?w = "alone shared_album_db"
  have "fst (unshare_album 0 2 1 ?w) = Inr NO_CONTENT"
    by (simp add: unshare_album_def need_album_owner_def get_album_row_def unshare_album_row_def unshare_album_sql_def run_prog
        alone_def shared_album_db_def empty_gallery_def album_by_id_def album_row_of_def share_key_def gone_or_404_def)
  then have run: "unshare_album 0 2 1 ?w = (Inr NO_CONTENT, snd (unshare_album 0 2 1 ?w))" by (metis prod.collapse)
  have step: "unshared_step sample_media 0 2 1 (snd (unshare_album 0 2 1 ?w))
      (snd (member_handler sample_media 0 (AddPhotos 2 [''x'']) (snd (unshare_album 0 2 1 ?w))))"
    by (rule unshared_step.intros(1)) simp
  have others: "stable (album_of 0 2) ?w" "turns_keep (cut_off 0 2 1) ?w"
    by (simp_all add: stable_def turns_keep_def alone_def shared_album_db_def album_of_def empty_gallery_def)
  show ?thesis
    unfolding Let_def by (rule unshare_cuts_off [OF others _ run], simp, rule r_into_rtranclp, rule step)
qed

section \<open>Stored objects\<close>

text \<open>What entitles a user to a read URL, per kind of object.\<close>

definition holds_share :: "uuid \<Rightarrow> timestamp \<Rightarrow> db \<Rightarrow> photo \<Rightarrow> bool" where
  "holds_share uid t d p \<longleftrightarrow>
     (\<exists>entry \<in> set (album_photos (gallery d)). \<exists>r \<in> set (album_shares (gallery d)).
        ap_photo entry = ph_id p \<and> sh_album r = ap_album entry \<and> sh_user r = uid
        \<and> sh_revoked_at r = None \<and> (\<forall>e. sh_expires_at r = Some e \<longrightarrow> t < e))"

definition in_contact :: "uuid \<Rightarrow> uuid \<Rightarrow> db \<Rightarrow> bool" where
  "in_contact uid v d \<longleftrightarrow> v \<noteq> uid \<and> (\<exists>c. member_of c uid d \<and> member_of c v d) \<and> \<not> blocked_pair uid v d"

definition may_read :: "media_env \<Rightarrow> string \<Rightarrow> string \<Rightarrow> uuid \<Rightarrow> timestamp \<Rightarrow> db \<Rightarrow> bool" where
  "may_read env kind key uid t d \<longleftrightarrow>
     (if kind = ''verification'' then prefix (''verification/'' @ uuid_text (media_app env) uid @ ''/'') key
      else if kind = ''profile'' then
        (\<exists>p \<in> set (photos d). ph_r2_key p = key \<and> (ph_user p = uid \<or> ph_moderation_status p = ''approved''))
      else if kind = ''album'' then
        (\<exists>p \<in> set (photos d). ph_r2_key p = key
           \<and> (ph_user p = uid \<or> ph_moderation_status p = ''approved'' \<and> holds_share uid t d p))
        \<or> (\<exists>m \<in> set (messages d). ms_media_key m = Some key \<and> member_of (ms_conversation m) uid d)
      else (\<exists>x \<in> set (stories (gallery d)). so_media_key x = key \<and> (so_user x = uid \<or> in_contact uid (so_user x) d)))"

lemma blocked_ids_pair: "v \<in> set (blocked_ids uid d) \<longleftrightarrow> blocked_pair uid v d"
  by (force simp: blocked_ids_def blocked_pair_def list_ex_iff)

lemma connected_in_contact: "v \<in> set (connected_ids uid d) \<longleftrightarrow> in_contact uid v d"
proof -
  have "v \<in> set (connected_ids uid d) \<longleftrightarrow>
      (\<exists>a \<in> set (conversation_members d). \<exists>b \<in> set (conversation_members d).
         cm_user a = uid \<and> cm_user b = v \<and> cm_conversation b = cm_conversation a \<and> v \<noteq> uid \<and> \<not> blocked_pair uid v d)"
    by (force simp: connected_ids_def blocked_ids_pair)
  then show ?thesis unfolding in_contact_def member_of_def list_ex_iff by blast
qed

lemma holds_share_entry:
  "holds_share uid t d p \<longleftrightarrow> (\<exists>r \<in> set (album_photos (gallery d)). ap_photo r = ph_id p \<and> shared_with (ap_album r) uid t d)"
proof -
  have "share_live t r \<longleftrightarrow> sh_revoked_at r = None \<and> (\<forall>e. sh_expires_at r = Some e \<longrightarrow> t < e)" for r
    by (auto simp: share_live_def split: option.splits)
  then show ?thesis unfolding holds_share_def shared_with_def list_ex_iff by blast
qed

lemma readable_may_read:
  "(\<lambda>_. profile_key_readable key uid) = may_read env ''profile'' key uid"
  "(\<lambda>t d. album_photo_readable key uid t d \<or> chat_media_readable key uid d) = may_read env ''album'' key uid"
  "(\<lambda>_. story_key_readable key uid) = may_read env ''story'' key uid"
  unfolding fun_eq_iff may_read_def profile_key_readable_def album_photo_readable_def chat_media_readable_def
    story_key_readable_def connected_in_contact holds_share_entry list_ex_iff
  by (intro allI; simp; blast)+

text \<open>A statement runs at or after the instant at which the request began.\<close>

lemma query_later:
  assumes "stable I w" "\<And>t d. I d \<Longrightarrow> now w \<le> t \<Longrightarrow> Q (f t d)"
  shows "wp (query f) (\<lambda>b _. Q b) (\<lambda>_ _. True) w"
proof -
  have "I (db (take_turn w))" "now w \<le> now (take_turn w)"
    using stable_db [OF stable_take_turn [OF assms(1)]] by (simp_all add: take_turn_def)
  then show ?thesis by (auto simp: query_def wp_stmt Let_def assms(2) split: outcome.split)
qed

lemma need_readable_denies:
  assumes "stable (\<lambda>d. \<forall>t \<ge> now w. \<not> p t d) w"
  shows "wp (need_readable p expiry) (\<lambda>_ _. False) (\<lambda>_ _. True) w"
proof -
  have "wp (query p) (\<lambda>b _. \<not> b) (\<lambda>_ _. True) w" by (rule query_later [OF assms]) blast
  then show ?thesis unfolding need_readable_def by (rule wp_call) (auto simp: wp_rules)
qed

lemma access_denied:
  assumes "stable (\<lambda>d. \<forall>t \<ge> now w. \<not> may_read env kind key uid t d) w" "kind \<in> set MEDIA_KINDS"
  shows "wp (check_access env uid key kind) (\<lambda>_ _. False) (\<lambda>_ _. True) w"
proof -
  consider "kind = ''verification''" | "kind = ''profile''" | "kind = ''album''" | "kind = ''story''"
    using assms(2) by (auto simp: MEDIA_KINDS_def)
  then show ?thesis
  proof cases
    case 1
    then have "\<not> prefix (owner_prefix env ''verification'' uid) key"
      using stable_db [OF assms(1)] by (auto simp: may_read_def owner_prefix_def)
    with 1 show ?thesis by (simp add: check_access_def wp_rules)
  qed (use assms(1) need_readable_denies [of w] in \<open>simp_all add: check_access_def readable_may_read [where env = env]\<close>)
qed

text \<open>
  C14. A read URL is only signed for whoever may read the object. While a user has no right to it, from the moment of the
  request on (the objects of a verification are his own; a profile photo is approved or his; an object of an album is his
  photo, an approved photo of an album shared with him by a share that is not revoked and not expired, or media of one of his
  conversations; a story is his or of a user he has a conversation and no block with), every
  request for its URL fails, whatever other clients do that gives him none.
\<close>

theorem read_url_needs_right:
  assumes "stable (\<lambda>d. \<forall>t \<ge> now w. \<not> may_read env kind key uid t d) w"
  shows "\<exists>e. fst (get_url env uid key kind w) = Inl e"
proof -
  have "wp (get_url env uid key kind) (\<lambda>_ _. False) (\<lambda>_ _. True) w"
  proof (cases "kind \<in> set MEDIA_KINDS")
    case True
    then show ?thesis
      unfolding get_url_def by (intro wp_guard TrueI, rule wp_bind [OF access_denied [OF assms]]) simp_all
  qed (simp add: get_url_def wp_rules)
  then show ?thesis by (auto simp: wp_def split: prod.splits sum.splits)
qed

text \<open>An approved photo in an album whose share expired at 5, asked for at 6.\<close>

definition expired_share_db :: db where
  "expired_share_db = shared_album_db
     \<lparr>photos := [(new_photo 3 0 ''album/0/x.jpg'' None 0 False False 0)\<lparr>ph_moderation_status := ''approved''\<rparr>], next_id := 4,
      gallery := (gallery shared_album_db)
        \<lparr>album_photos := [\<lparr>ap_album = 2, ap_photo = 3, ap_position = 0\<rparr>],
         album_shares := [\<lparr>sh_album = 2, sh_user = 1, sh_granted_at = 0, sh_revoked_at = None, sh_expires_at = Some 5\<rparr>]\<rparr>\<rparr>"

theorem read_url_needs_right_witness:
  "(\<exists>e. fst (get_url sample_media 1 ''album/0/x.jpg'' ''album'' ((alone expired_share_db)\<lparr>now := 6\<rparr>)) = Inl e)
   \<and> may_read sample_media ''album'' ''album/0/x.jpg'' 1 4 expired_share_db"
proof -
  have right: "may_read sample_media ''album'' ''album/0/x.jpg'' 1 t expired_share_db \<longleftrightarrow> t < 5" for t
    by (simp add: may_read_def expired_share_db_def shared_album_db_def empty_db_def new_photo_def holds_share_def)
  then have "stable (\<lambda>d. \<forall>t \<ge> now ((alone expired_share_db)\<lparr>now := 6\<rparr>). \<not> may_read sample_media ''album'' ''album/0/x.jpg'' 1 t d)
      ((alone expired_share_db)\<lparr>now := 6\<rparr>)"
    by (auto simp: stable_def)
  from read_url_needs_right [OF this] right [of 4] show ?thesis by simp
qed

end
