(* ===== verification/VisibilityProps.thy ===== *)
theory VisibilityProps
  imports AlbumProps
begin

text \<open>
  Which stories a user is shown and in what groups, and who never appears on the grid or in discovery.
\<close>

section \<open>Stories\<close>

text \<open>The loop from a state inside a group, on rows in the order of their users.\<close>

lemma group_loop_groups:
  assumes "current \<noteq> []" and "\<forall>j \<in> set current. sj_user_id j = u" and "sorted (u # map sj_user_id js)"
  shows "\<exists>c l g. group_loop js current (Some u) groups = Some (c, Some l, g) \<and> c \<noteq> []
     \<and> g @ [group_of l c] = groups @ map (\<lambda>v. group_of v (filter (\<lambda>j. sj_user_id j = v) (current @ js))) (remdups_adj (u # map sj_user_id js))"
  using assms
proof (induction js arbitrary: current u groups)
  case Nil
  then have "filter (\<lambda>j. sj_user_id j = u) current = current" by (simp add: filter_id_conv)
  with Nil show ?case by simp
next
  case (Cons j js)
  show ?case
  proof (cases "sj_user_id j = u")
    case True
    with Cons.prems show ?thesis using Cons.IH [of "current @ [j]" u groups] by simp
  next
    case False
    let ?v = "sj_user_id j"
    have later: "sj_user_id k \<noteq> u" if "k \<in> set (j # js)" for k
      using Cons.prems(3) False that by fastforce
    have own: "filter (\<lambda>k. sj_user_id k = u) (current @ j # js) = current"
      using Cons.prems(2) later by (simp add: filter_id_conv filter_empty_conv)
    have others: "filter (\<lambda>k. sj_user_id k = w) (current @ j # js) = filter (\<lambda>k. sj_user_id k = w) ([j] @ js)"
      if "w \<in> set (remdups_adj (?v # map sj_user_id js))" for w
    proof -
      from that have "w \<noteq> u" using later by auto
      then have "filter (\<lambda>k. sj_user_id k = w) current = []" using Cons.prems(2) by (auto simp: filter_empty_conv)
      then show ?thesis by simp
    qed
    have "remdups_adj (u # map sj_user_id (j # js)) = u # remdups_adj (?v # map sj_user_id js)"
      using False by simp
    with own others
    have "map (\<lambda>v. group_of v (filter (\<lambda>k. sj_user_id k = v) (current @ j # js))) (remdups_adj (u # map sj_user_id (j # js)))
        = group_of u current # map (\<lambda>v. group_of v (filter (\<lambda>k. sj_user_id k = v) ([j] @ js))) (remdups_adj (?v # map sj_user_id js))"
      by (simp only: list.map map_eq_conv) simp
    moreover have "group_loop (j # js) current (Some u) groups = group_loop js [j] (Some ?v) (groups @ [group_of u current])"
      using False Cons.prems(1) by simp
    moreover have "sorted (?v # map sj_user_id js)" using Cons.prems(3) by simp
    ultimately show ?thesis
      using Cons.IH [of "[j]" ?v "groups @ [group_of u current]"] by simp
  qed
qed

lemma group_stories_sorted:
  assumes "sorted (map sj_user_id js)"
  shows "group_stories js =
    Some (map (\<lambda>u. group_of u (filter (\<lambda>j. sj_user_id j = u) js)) (remdups_adj (map sj_user_id js)))"
proof (cases js)
  case (Cons j rest)
  with assms group_loop_groups [of "[j]" "sj_user_id j" rest "[]"] show ?thesis
    by (auto simp: group_stories_def)
qed (simp add: group_stories_def)

lemma concat_by_key:
  assumes "sorted (map k xs)"
  shows "concat (map (\<lambda>u. filter (\<lambda>x. k x = u) xs) (remdups_adj (map k xs))) = xs"
  using assms
proof (induction xs)
  case (Cons x xs)
  have later: "k x \<le> k y" if "y \<in> set xs" for y using Cons.prems that by simp
  show ?case
  proof (cases "xs \<noteq> [] \<and> k (hd xs) = k x")
    case True
    then obtain y ys where xs: "xs = y # ys" "k y = k x" by (cases xs) auto
    then obtain rest where r: "remdups_adj (map k xs) = k x # rest" "remdups_adj (map k (x # xs)) = k x # rest"
      by (cases "remdups_adj (map k ys)"; cases "k x = hd (remdups_adj (map k ys))") (auto simp: remdups_adj_Cons)
    then have "k x \<notin> set rest"
      using Cons.prems distinct_sorted_remdups_adj [of "map k xs"] by simp
    then have "concat (map (\<lambda>u. filter (\<lambda>z. k z = u) (x # xs)) rest) = concat (map (\<lambda>u. filter (\<lambda>z. k z = u) xs) rest)"
      by (intro arg_cong [of _ _ concat] map_cong) auto
    moreover have "concat (map (\<lambda>u. filter (\<lambda>z. k z = u) xs) (k x # rest)) = xs"
      using Cons r(1) by simp
    ultimately show ?thesis unfolding r(2) by simp
  next
    case False
    then have fresh: "k y \<noteq> k x" if "y \<in> set xs" for y
      using Cons.prems that by (cases xs) fastforce+
    have "filter (\<lambda>z. k z = k x) xs = []" by (auto simp: filter_empty_conv dest: fresh)
    moreover have "concat (map (\<lambda>u. filter (\<lambda>z. k z = u) (x # xs)) (remdups_adj (map k xs)))
        = concat (map (\<lambda>u. filter (\<lambda>z. k z = u) xs) (remdups_adj (map k xs)))"
      by (intro arg_cong [of _ _ concat] map_cong) (auto dest: fresh)
    moreover have "remdups_adj (map k (x # xs)) = k x # remdups_adj (map k xs)"
      using False by (cases xs) auto
    ultimately show ?thesis using Cons by simp
  qed
qed simp

text \<open>The rows of the query, as the loop sees them.\<close>

lemma active_stories_sorted: "sorted (map (\<lambda>r. so_user (sr_story r)) (active_stories uids t d))"
proof -
  have "sorted (map (\<lambda>s. (so_user s, - so_created_at s)) (sort_key (\<lambda>s. (so_user s, - so_created_at s)) ss))" for ss :: "story list"
    by (rule sorted_sort_key)
  then have "sorted (map so_user (sort_key (\<lambda>s. (so_user s, - so_created_at s)) ss))" for ss :: "story list"
    by (fastforce simp: sorted_map elim: sorted_wrt_mono_rel [rotated])
  then show ?thesis by (simp add: active_stories_def story_row_of_def comp_def)
qed

text \<open>What the list is to be: the live stories of the user and of those he has a conversation and no block with, a group for
  every author in the order of the identifiers, in each group the author's stories from the newest to the oldest.\<close>

definition story_visible :: "uuid \<Rightarrow> timestamp \<Rightarrow> db \<Rightarrow> story \<Rightarrow> bool" where
  "story_visible uid t d s \<longleftrightarrow> t < so_expires_at s \<and> (so_user s = uid \<or> in_contact uid (so_user s) d)"

definition story_entry :: "app \<Rightarrow> uuid \<Rightarrow> db \<Rightarrow> story \<Rightarrow> story_json" where
  "story_entry st uid d s =
     \<lparr>sj_id = so_id s, sj_user_id = so_user s, sj_media_key = so_media_key s, sj_media_type = so_media_type s,
      sj_caption = so_caption s, sj_display_name = display_name_of (so_user s) d, sj_avatar_key = avatar_key_of (so_user s) d,
      sj_created_at = rfc3339_text st (so_created_at s), sj_expires_at = rfc3339_text st (so_expires_at s),
      sj_viewed = list_ex (\<lambda>v. sv_story v = so_id s \<and> sv_user v = uid) (story_views (gallery d)),
      sj_view_count = length (filter (\<lambda>v. sv_story v = so_id s) (story_views (gallery d)))\<rparr>"

definition author_stories :: "uuid \<Rightarrow> timestamp \<Rightarrow> db \<Rightarrow> uuid \<Rightarrow> story list" where
  "author_stories uid t d u =
     sort_key (\<lambda>s. - so_created_at s) (filter (\<lambda>s. story_visible uid t d s \<and> so_user s = u) (stories (gallery d)))"

definition story_groups :: "app \<Rightarrow> uuid \<Rightarrow> timestamp \<Rightarrow> db \<Rightarrow> story_group list" where
  "story_groups st uid t d =
     map (\<lambda>u. let js = map (story_entry st uid d) (author_stories uid t d u)
              in \<lparr>sg_user_id = u, sg_display_name = display_name_of u d, sg_avatar_key = avatar_key_of u d, sg_stories = js,
                  sg_all_viewed = list_all sj_viewed js\<rparr>)
       (sorted_list_of_set (so_user ` {s \<in> set (stories (gallery d)). story_visible uid t d s}))"

lemma visible_rows:
  "filter (\<lambda>s. so_user s \<in> set (connected_ids uid d @ [uid]) \<and> active_story t s) ss = filter (story_visible uid t d) ss"
  by (rule filter_cong) (auto simp: story_visible_def active_story_def connected_in_contact)

lemma sort_key_same: "(\<And>x. x \<in> set xs \<Longrightarrow> k x = (u, f x)) \<Longrightarrow> sort_key k xs = sort_key f xs"
proof (induction xs)
  case (Cons x xs)
  have same: "insort_key k x ys = insort_key f x ys" if "\<And>y. y \<in> set ys \<Longrightarrow> k y = (u, f y)" for ys
    using that Cons.prems [of x] by (induction ys) auto
  have "insort_key k x (sort_key f xs) = insort_key f x (sort_key f xs)"
    by (rule same) (simp add: Cons.prems)
  then show ?case using Cons by simp
qed simp

lemma rows_of_author:
  "filter (\<lambda>r. so_user (sr_story r) = u) (active_stories (connected_ids uid d @ [uid]) t d)
     = map (story_row_of d) (author_stories uid t d u)"
proof -
  let ?vis = "filter (story_visible uid t d) (stories (gallery d))"
  have "filter (\<lambda>s. so_user s = u) (sort_key (\<lambda>s. (so_user s, - so_created_at s)) ?vis)
      = sort_key (\<lambda>s. (so_user s, - so_created_at s)) (filter (\<lambda>s. so_user s = u) ?vis)"
    by (rule filter_sort)
  also have "\<dots> = sort_key (\<lambda>s. - so_created_at s) (filter (\<lambda>s. so_user s = u) ?vis)"
    by (rule sort_key_same) simp
  finally show ?thesis
    unfolding active_stories_def visible_rows author_stories_def
    by (simp add: filter_map comp_def story_row_of_def conj_commute)
qed

lemma grouped_rows:
  assumes "rows = active_stories (connected_ids uid d @ [uid]) t d"
    and "\<And>s. s \<in> set (stories (gallery d)) \<Longrightarrow> story_visible uid t d s \<Longrightarrow> story_json_of st vs cs (story_row_of d s) = story_entry st uid d s"
  shows "group_stories (map (story_json_of st vs cs) rows) = Some (story_groups st uid t d)"
proof -
  let ?js = "map (story_json_of st vs cs) rows" and ?authors = "so_user ` {s \<in> set (stories (gallery d)). story_visible uid t d s}"
  have users: "map sj_user_id ?js = map (\<lambda>r. so_user (sr_story r)) rows" by (simp add: story_json_of_def Let_def)
  then have sorted: "sorted (map sj_user_id ?js)" unfolding assms using active_stories_sorted by metis
  have "set rows = story_row_of d ` {s \<in> set (stories (gallery d)). story_visible uid t d s}"
    unfolding assms active_stories_def visible_rows by auto
  then have "set (remdups_adj (map sj_user_id ?js)) = ?authors"
    unfolding users by (simp add: image_image story_row_of_def)
  then have authors: "remdups_adj (map sj_user_id ?js) = sorted_list_of_set ?authors"
    using sorted_list_of_set.idem_if_sorted_distinct [of "remdups_adj (map sj_user_id ?js)"] sorted
    by (simp add: distinct_sorted_remdups_adj)
  have group: "group_of u (filter (\<lambda>j. sj_user_id j = u) ?js)
      = (let js = map (story_entry st uid d) (author_stories uid t d u)
         in \<lparr>sg_user_id = u, sg_display_name = display_name_of u d, sg_avatar_key = avatar_key_of u d, sg_stories = js,
             sg_all_viewed = list_all sj_viewed js\<rparr>)" if "u \<in> ?authors" for u
  proof -
    have "filter (\<lambda>j. sj_user_id j = u) ?js = map (story_json_of st vs cs) (filter (\<lambda>r. so_user (sr_story r) = u) rows)"
      by (simp add: filter_map comp_def story_json_of_def Let_def)
    also have "\<dots> = map (story_entry st uid d) (author_stories uid t d u)"
      unfolding assms(1) rows_of_author using assms(2) by (simp add: author_stories_def)
    finally have js: "filter (\<lambda>j. sj_user_id j = u) ?js = map (story_entry st uid d) (author_stories uid t d u)" .
    from that obtain y where "y \<in> set (author_stories uid t d u)" by (auto simp: author_stories_def)
    then obtain x xs where "author_stories uid t d u = x # xs" by (cases "author_stories uid t d u") auto
    moreover from this have "x \<in> set (author_stories uid t d u)" by simp
    then have "so_user x = u" by (simp add: author_stories_def)
    ultimately show ?thesis unfolding js by (simp add: group_of_def Let_def story_entry_def)
  qed
  show ?thesis
    unfolding group_stories_sorted [OF sorted] authors story_groups_def using group by (simp add: Let_def)
qed

lemma viewed_entry:
  assumes "so_id s \<in> set sids"
  shows "story_json_of st (remdups (map sv_story (filter (\<lambda>v. sv_user v = uid \<and> sv_story v \<in> set sids) (story_views (gallery d)))))
      (map_of (map (\<lambda>sid. (sid, views_of sid d)) (remdups (map sv_story (filter (\<lambda>v. sv_story v \<in> set sids) (story_views (gallery d)))))))
      (story_row_of d s) = story_entry st uid d s"
proof -
  have "views_of (so_id s) d = 0" if "so_id s \<notin> sv_story ` {v \<in> set (story_views (gallery d)). sv_story v \<in> set sids}"
    using that assms unfolding views_of_def by (simp add: filter_empty_conv image_iff) metis
  then have "(case map_of (map (\<lambda>sid. (sid, views_of sid d)) (remdups (map sv_story (filter (\<lambda>v. sv_story v \<in> set sids) (story_views (gallery d)))))) (so_id s)
      of None \<Rightarrow> 0 | Some n \<Rightarrow> n) = views_of (so_id s) d"
    by (auto simp: map_of_map_restrict restrict_map_def)
  moreover have "so_id s \<in> sv_story ` {v \<in> set (story_views (gallery d)). sv_user v = uid \<and> sv_story v \<in> set sids}
      \<longleftrightarrow> list_ex (\<lambda>v. sv_story v = so_id s \<and> sv_user v = uid) (story_views (gallery d))"
    using assms by (auto simp: list_ex_iff intro: rev_image_eqI)
  ultimately show ?thesis
    by (simp add: story_json_of_def story_entry_def story_row_of_def Let_def views_of_def)
qed

lemma list_stories_calm:
  assumes "calm w"
  shows "wp (list_stories st uid) (\<lambda>(ss, gs) _. \<exists>t. now w \<le> t \<and> gs = story_groups st uid t (db w) \<and> ss = concat (map sg_stories gs))
    (\<lambda>_ _. False) w" (is "wp _ ?Q _ _")
proof -
  have connected: "wp (get_connected_user_ids uid) (\<lambda>c v. calm v \<and> now w \<le> now v \<and> db v = db w \<and> c = connected_ids uid (db w))
      (\<lambda>_ _. False) w"
    unfolding get_connected_user_ids_def by (rule wp_query_calm [OF assms]) auto
  have rows: "wp (get_active_stories uids) (\<lambda>rows v. calm v \<and> db v = db w \<and> (\<exists>t. now w \<le> t \<and> rows = active_stories uids t (db w)))
      (\<lambda>_ _. False) v" if "calm v" "now w \<le> now v" "db v = db w" for uids v
    unfolding get_active_stories_def
    by (rule wp_query_calm [OF that(1)]) (use that(2,3) in \<open>simp, metis order_trans\<close>)
  have batch: "wp (if b then or_no_rows (query (\<lambda>_. f)) else ret []) (\<lambda>x v. calm v \<and> db v = db w \<and> (b \<longrightarrow> x = f (db w))) (\<lambda>_ _. False) v"
    if "calm v" "db v = db w" for b v and f :: "db \<Rightarrow> 'x list"
    unfolding or_no_rows_def using that by (auto simp: wp_rules wp_andthen wp_attempt intro!: wp_query_calm)
  have rest: "wp (let sids = map (\<lambda>r. so_id (sr_story r)) rows
      in andthen (if sids \<noteq> [] then or_no_rows (viewed_among uid sids) else ret []) (\<lambda>viewed.
         andthen (if sids \<noteq> [] then or_no_rows (view_counts_among sids) else ret []) (\<lambda>counts.
         andthen (ok_or INTERNAL_SERVER_ERROR (group_stories (map (story_json_of st viewed (map_of counts)) rows))) (\<lambda>groups.
         ret (concat (map sg_stories groups), groups))))) ?Q (\<lambda>_ _. False) v"
    if v: "calm v" "db v = db w" "now w \<le> t" and rows: "rows = active_stories (connected_ids uid (db w) @ [uid]) t (db w)" for rows t v
  proof -
    let ?sids = "map (\<lambda>r. so_id (sr_story r)) rows"
    let ?viewed = "\<lambda>d. remdups (map sv_story (filter (\<lambda>v. sv_user v = uid \<and> sv_story v \<in> set ?sids) (story_views (gallery d))))"
    let ?counts = "\<lambda>d. map (\<lambda>sid. (sid, views_of sid d)) (remdups (map sv_story (filter (\<lambda>v. sv_story v \<in> set ?sids) (story_views (gallery d)))))"
    have groups: "group_stories (map (story_json_of st x (map_of y)) rows) = Some (story_groups st uid t (db w))"
      if "?sids \<noteq> [] \<longrightarrow> x = ?viewed (db w)" "?sids \<noteq> [] \<longrightarrow> y = ?counts (db w)" for x y
    proof (rule grouped_rows [OF rows])
      fix s assume "s \<in> set (stories (gallery (db w)))" "story_visible uid t (db w) s"
      then have "so_id s \<in> set ?sids" unfolding rows active_stories_def visible_rows by (simp add: image_image story_row_of_def)
      then show "story_json_of st x (map_of y) (story_row_of (db w) s) = story_entry st uid (db w) s"
        using that viewed_entry [of s ?sids st uid "db w"] by auto
    qed
    show ?thesis
      unfolding Let_def viewed_among_def view_counts_among_def wp_andthen
      by (rule wp_mono [OF batch [OF v(1,2)]], rule wp_mono [OF batch], simp, simp)
         (use groups v(3) in \<open>auto simp: wp_rules\<close>)
  qed
  show ?thesis
    unfolding list_stories_def
    by (rule wp_call [OF connected _ FalseE], elim conjE, rule wp_call [OF rows _ FalseE], assumption+, elim conjE exE, hypsubst, rule rest) simp_all
qed

text \<open>
  C20. When nobody else writes and the database answers, the story list is exactly what it is to be at the moment of the
  query: one group per author with a live story the user may see, the authors in the order of their identifiers, in each group
  exactly the live stories of the author from the newest to the oldest, each with whether the user saw it and how many views it
  has; and the flat list is the groups one after the other. The grouping never meets the case in which the code would panic.
\<close>

theorem stories_shown:
  assumes "calm w"
  shows "\<exists>t. now w \<le> t \<and> fst (list_stories st uid w)
           = Inr (concat (map sg_stories (story_groups st uid t (db w))), story_groups st uid t (db w))"
  using list_stories_calm [OF assms, of st uid] by (auto simp: wp_def split: prod.splits sum.splits)

text \<open>Two live stories of user 1, who shares a conversation with user 0, and an expired one of user 0.\<close>

definition sample_story :: "uuid \<Rightarrow> uuid \<Rightarrow> timestamp \<Rightarrow> timestamp \<Rightarrow> story" where
  "sample_story sid uid from ends = \<lparr>so_id = sid, so_user = uid, so_media_key = ''k'', so_media_type = ''photo'', so_caption = None,
     so_created_at = from, so_expires_at = ends\<rparr>"

definition story_db :: db where
  "story_db = empty_db
     \<lparr>users := [new_user 0 ''a@b.c'' None None True 0, new_user 1 ''d@e.f'' None None True 0], next_id := 6,
      conversation_members := [\<lparr>cm_conversation = 2, cm_user = 0, cm_last_read_at = None\<rparr>,
                               \<lparr>cm_conversation = 2, cm_user = 1, cm_last_read_at = None\<rparr>],
      gallery := empty_gallery
        \<lparr>stories := [sample_story 3 1 (- 5) 9, sample_story 4 0 (- 5) (- 1), sample_story 5 1 (- 3) 9],
         story_views := [\<lparr>sv_story = 3, sv_user = 0, sv_viewed_at = 0\<rparr>]\<rparr>\<rparr>"

theorem stories_shown_witness:
  "\<exists>t. 0 \<le> t \<and> fst (list_stories sample_app 0 (alone story_db))
         = Inr (concat (map sg_stories (story_groups sample_app 0 t story_db)), story_groups sample_app 0 t story_db)
     \<and> (t < 9 \<longrightarrow> map sg_user_id (story_groups sample_app 0 t story_db) = [1]
          \<and> map (\<lambda>j. (sj_id j, sj_viewed j)) (concat (map sg_stories (story_groups sample_app 0 t story_db))) = [(5, False), (3, True)])"
proof -
  have contact: "in_contact 0 1 story_db"
    by (auto simp: in_contact_def story_db_def member_of_def blocked_pair_def empty_db_def)
  have rows: "stories (gallery story_db) = [sample_story 3 1 (- 5) 9, sample_story 4 0 (- 5) (- 1), sample_story 5 1 (- 3) 9]"
    by (simp add: story_db_def)
  have views: "story_views (gallery story_db) = [\<lparr>sv_story = 3, sv_user = 0, sv_viewed_at = 0\<rparr>]" by (simp add: story_db_def)
  have fields: "so_id (sample_story i u t0 ends) = i" "so_user (sample_story i u t0 ends) = u"
    "so_created_at (sample_story i u t0 ends) = t0" "so_expires_at (sample_story i u t0 ends) = ends" for i u t0 ends
    by (simp_all add: sample_story_def)
  have "0 \<le> t \<and> t < 9 \<longrightarrow> map sg_user_id (story_groups sample_app 0 t story_db) = [1]
      \<and> map (\<lambda>j. (sj_id j, sj_viewed j)) (concat (map sg_stories (story_groups sample_app 0 t story_db))) = [(5, False), (3, True)]" for t
  proof (intro impI)
    assume t: "0 \<le> t \<and> t < 9"
    then have visible: "story_visible 0 t story_db (sample_story 3 1 (- 5) 9)" "story_visible 0 t story_db (sample_story 5 1 (- 3) 9)"
      "\<not> story_visible 0 t story_db (sample_story 4 0 (- 5) (- 1))"
      using contact by (simp_all add: story_visible_def fields)
    have "{s \<in> set (stories (gallery story_db)). story_visible 0 t story_db s} = {sample_story 3 1 (- 5) 9, sample_story 5 1 (- 3) 9}"
      using visible unfolding rows by auto
    then have authors: "so_user ` {s \<in> set (stories (gallery story_db)). story_visible 0 t story_db s} = {1}"
      by (simp add: fields)
    have mine: "author_stories 0 t story_db 1 = [sample_story 5 1 (- 3) 9, sample_story 3 1 (- 5) 9]"
      using visible unfolding author_stories_def rows by (simp add: fields)
    show "map sg_user_id (story_groups sample_app 0 t story_db) = [1]
      \<and> map (\<lambda>j. (sj_id j, sj_viewed j)) (concat (map sg_stories (story_groups sample_app 0 t story_db))) = [(5, False), (3, True)]"
      unfolding story_groups_def authors by (simp add: mine [unfolded One_nat_def] Let_def story_entry_def fields views)
  qed
  with stories_shown [of "alone story_db" sample_app 0] show ?thesis by (fastforce simp: calm_def)
qed

section \<open>Who is shown to whom\<close>

text \<open>Reasons not to show \<open>target\<close> to \<open>viewer\<close>, and whether an answer of grid or discover lists him.\<close>

definition hidden_from :: "uuid \<Rightarrow> uuid \<Rightarrow> db \<Rightarrow> bool" where
  "hidden_from viewer target d \<longleftrightarrow>
     viewer = target \<or> blocked_pair viewer target d
     \<or> (\<forall>u \<in> set (users d). u_id u = target \<longrightarrow> u_status u \<noteq> ''active'' \<or> u_onboarding_completed_at u = None)
     \<or> (\<forall>p \<in> set (profiles d). p_user_id p = target \<longrightarrow> p_incognito p)"

definition lists_user :: "app \<Rightarrow> uuid \<Rightarrow> json \<Rightarrow> bool" where
  "lists_user st target v \<longleftrightarrow>
     (case json_get ''users'' v of
        Some (JArr us) \<Rightarrow> list_ex (\<lambda>u. json_get ''id'' u = Some (json_uuid st target)) us
      | _ \<Rightarrow> False)"

lemma hidden_not_visible:
  assumes "hidden_from viewer target d" "(u, p, l) \<in> set (placed_users d)" "visible_to viewer d (u, p, l)"
  shows "u_id u \<noteq> target"
  using assms
  by (auto simp: hidden_from_def placed_users_def visible_to_def blocked_pair_def list_ex_iff image_iff)

lemma page_of_subset: "set (page_of n k rs) \<subseteq> set rs"
  by (auto simp: page_of_def dest: in_set_takeD in_set_dropD)

lemma hidden_rows:
  assumes "hidden_from viewer target d"
  shows "r \<in> set (nearby_users env pt radius viewer n k f t d) \<Longrightarrow> nu_id r \<noteq> target"
    and "r \<in> set (discovered_users env pt radius viewer n d) \<Longrightarrow> nu_id r \<noteq> target"
  using hidden_not_visible [OF assms] page_of_subset
  by (fastforce simp: nearby_users_def discovered_users_def nearby_row_def discover_row_def dest: in_set_takeD)+

lemma answer_lists_rows:
  assumes "inj (uuid_text (media_app (geo_media env)))" "\<forall>r \<in> set rows. nu_id r \<noteq> target"
  shows "wp (nearby_answer env rows) (\<lambda>v _. \<not> lists_user (media_app (geo_media env)) target v) (\<lambda>_ _. True) w"
proof -
  have "json_get ''id'' (nearby_json env keys t r) \<noteq> Some (json_uuid (media_app (geo_media env)) target)" if "r \<in> set rows" for keys t r
    using assms that by (auto simp: nearby_json_def Let_def json_uuid_def dest: injD)
  then show ?thesis
    unfolding nearby_answer_def
    by (intro wp_bind [where R = "\<lambda>_ _. True"])
       (auto simp: wp_ret lists_user_def list_ex_iff wp_def [of "approved_keys _"] wp_def [of now_utc] split: prod.split sum.split)
qed

lemma point_keeps: "stable I w \<Longrightarrow> keeps (stable I) (effective_point uid lat lon) w"
  unfolding effective_point_def resolve_travel_location_def
  by (auto split: option.split prod.split intro!: keeps_bind keeps_query)

lemma grid_hides:
  assumes "stable (hidden_from viewer target) w" "inj (uuid_text (media_app (geo_media env)))"
  shows "wp (grid_nearby env viewer q) (\<lambda>v _. \<not> lists_user (media_app (geo_media env)) target v) (\<lambda>_ _. True) w"
proof -
  have rows: "wp (find_nearby_users env pt radius viewer n k f) (\<lambda>rows _. \<forall>r \<in> set rows. nu_id r \<noteq> target) (\<lambda>_ _. True) v"
    if "stable (hidden_from viewer target) v" for pt radius n k f v
    unfolding find_nearby_users_def using that
    by (rule wp_stmt_stable [where I = "hidden_from viewer target"]) (auto dest: hidden_rows(1) split: if_splits)
  show ?thesis
    unfolding grid_nearby_def
    by (rule wp_bind [OF wp_mono [OF point_keeps [OF assms(1)]]], assumption, rule TrueI)
       (auto intro!: wp_guard wp_call [OF rows] answer_lists_rows [OF assms(2)])
qed

lemma discover_hides:
  assumes "stable (hidden_from viewer target) w" "inj (uuid_text (media_app (geo_media env)))"
  shows "wp (discover env viewer lat lon radius limit) (\<lambda>v _. \<not> lists_user (media_app (geo_media env)) target v) (\<lambda>_ _. True) w"
proof -
  have rows: "wp (stmt (\<lambda>t d. (if distance_fails env pt radius d then Inl DataException
                else Inr (discovered_users env pt radius viewer n d), d))) (\<lambda>rows _. \<forall>r \<in> set rows. nu_id r \<noteq> target) (\<lambda>_ _. True) v"
    if "stable (hidden_from viewer target) v" for pt n v
    using that
    by (rule wp_stmt_stable [where I = "hidden_from viewer target"]) (auto dest: hidden_rows(2) split: if_splits)
  show ?thesis
    unfolding discover_def
    by (rule wp_bind [OF wp_mono [OF point_keeps [OF assms(1)]]], assumption, rule TrueI)
       (auto intro!: wp_call [OF rows] answer_lists_rows [OF assms(2)])
qed

text \<open>
  C15. A user who is blocked either way, is not active, has not completed onboarding or is incognito is in no answer of
  the grid or of discover for the viewer, whatever the coordinates, the filters and the other clients are (as long as
  he stays so); nor is the viewer himself.
\<close>

theorem hidden_users_not_shown:
  assumes "stable (hidden_from viewer target) w" and "inj (uuid_text (media_app (geo_media env)))"
  shows "(\<forall>v. fst (grid_nearby env viewer q w) = Inr v \<longrightarrow> \<not> lists_user (media_app (geo_media env)) target v)
     \<and> (\<forall>v. fst (discover env viewer lat lon radius limit w) = Inr v \<longrightarrow> \<not> lists_user (media_app (geo_media env)) target v)"
  using grid_hides [OF assms, of q] discover_hides [OF assms, of lat lon radius limit]
  by (auto simp: wp_def split: prod.splits)

definition sample_geo :: geo_env where
  "sample_geo = \<lparr>geo_media = sample_media, st_distance = (\<lambda>(x, y) _. Finite (x * x + y * y)),
     st_dwithin = (\<lambda>_ _ _. Some True), age_years = (\<lambda>_ b. 2026 - year b)\<rparr>"

definition no_filters :: nearby_filters where
  "no_filters = \<lparr>nf_min_age = None, nf_max_age = None, nf_tribe = None, nf_looking_for = None, nf_body_type = None, nf_q = None,
     nf_favorites_only = False, nf_online_only = False, nf_right_now = False, nf_photos_only = False, nf_position = None,
     nf_not_chatted = False\<rparr>"

text \<open>Two users at one place, the second incognito.\<close>

definition incognito_db :: db where
  "incognito_db = empty_db
     \<lparr>users := [new_user 0 ''a@b.c'' None None True 0, (new_user 1 ''d@e.f'' None None True 0)\<lparr>u_onboarding_completed_at := Some 0\<rparr>],
      next_id := 2, profiles := [(default_profile 1 0)\<lparr>p_incognito := True\<rparr>],
      people := empty_people\<lparr>locations := [\<lparr>lo_user = 1, lo_lon = 1, lo_lat = 2, lo_accuracy = None, lo_show_distance = True,
                                            lo_incognito = False, lo_updated_at = 0\<rparr>]\<rparr>\<rparr>"

lemma show_nat_inj: "inj show_nat"
  by (metis injI option.inject parse_nat_show_nat)

theorem hidden_users_not_shown_witness:
  "let q = \<lparr>nq_lat = Some (Finite 1), nq_lon = Some (Finite 1), nq_radius_m = Finite 10, nq_limit = 50, nq_offset = 0,
            nq_filters = no_filters\<rparr>
   in (\<forall>v. fst (grid_nearby sample_geo 0 q (alone incognito_db)) = Inr v \<longrightarrow> \<not> lists_user sample_app 1 v)
      \<and> (\<forall>v. fst (discover sample_geo 0 None None (Finite 10) 5 (alone incognito_db)) = Inr v \<longrightarrow> \<not> lists_user sample_app 1 v)"
  unfolding Let_def
  using hidden_users_not_shown [of 0 1 "alone incognito_db" sample_geo] show_nat_inj
  by (simp add: hidden_from_def incognito_db_def sample_geo_def sample_media_def sample_app_def)

end
