(* ===== verification/ProfileProps.thy ===== *)
theory ProfileProps
  imports Members
begin

text \<open>
  Distances as users see them, and when onboarding completes an account.
\<close>

section \<open>Distances\<close>

lemma fuzz_bucket: "0 < q \<Longrightarrow> fuzz_distance (Finite q) = of_int (max (round_half_up (q / 100)) 1) * 100"
  by (simp add: DISTANCE_BUCKET_M_def max_def)

text \<open>
  The distance a user is told is a positive multiple of a hundred metres, at most half a bucket away from the real
  distance when that is at least fifty metres, and does not decrease with it; not a number counts as near.
\<close>

theorem distance_bounds:
  "(\<exists>n. 1 \<le> n \<and> fuzz_distance x = of_int n * 100)
   \<and> (50 \<le> q \<longrightarrow> \<bar>fuzz_distance (Finite q) - q\<bar> \<le> 50)
   \<and> (p \<le> q \<longrightarrow> fuzz_distance (Finite p) \<le> fuzz_distance (Finite q))"
proof (intro conjI impI)
  show "\<exists>n. 1 \<le> n \<and> fuzz_distance x = of_int n * 100"
  proof (cases x)
    case (Finite r)
    show ?thesis
    proof (cases "0 < r")
      case True
      then show ?thesis using fuzz_bucket [of r] Finite by (intro exI [of _ "max (round_half_up (r / 100)) 1"]) simp
    qed (use Finite in \<open>auto simp: DISTANCE_BUCKET_M_def intro: exI [of _ 1]\<close>)
  qed (auto simp: DISTANCE_BUCKET_M_def intro: exI [of _ 1])
  show "\<bar>fuzz_distance (Finite q) - q\<bar> \<le> 50" if "50 \<le> q"
  proof -
    let ?n = "round_half_up (q / 100)"
    have "of_int ?n \<le> q / 100 + 1 / 2" "q / 100 + 1 / 2 < of_int ?n + 1"
      unfolding round_half_up_def by linarith+
    moreover have "1 \<le> ?n" unfolding round_half_up_def using that by (simp add: le_floor_iff)
    ultimately show ?thesis using fuzz_bucket [of q] that by (simp add: max_def abs_le_iff)
  qed
  show "fuzz_distance (Finite p) \<le> fuzz_distance (Finite q)" if "p \<le> q"
  proof (cases "0 < p")
    case True
    have "round_half_up (p / 100) \<le> round_half_up (q / 100)"
      unfolding round_half_up_def using that by (intro floor_mono) simp
    then show ?thesis using True that fuzz_bucket by (simp del: fuzz_distance.simps)
  qed (auto simp: DISTANCE_BUCKET_M_def)
qed

theorem distance_bounds_witness:
  "\<bar>fuzz_distance (Finite 260) - 260\<bar> \<le> 50 \<and> fuzz_distance (Finite 240) \<le> fuzz_distance (Finite 260)"
  using distance_bounds [of "Finite 260" 260 240] by (simp del: fuzz_distance.simps)

section \<open>Onboarding\<close>

definition required_done :: "user_rec \<Rightarrow> db \<Rightarrow> bool" where
  "required_done u d \<longleftrightarrow> list_all (\<lambda>(cid, _). card_completed (snapshot_of u d) cid) REQUIRED_CARDS"

lemma profile_row_unique:
  assumes "distinct (map p_user_id (profiles d))"
  shows "list_ex (\<lambda>p. p_user_id p = uid \<and> Q p) (profiles d) \<longleftrightarrow> (case profile_of uid d of None \<Rightarrow> False | Some p \<Rightarrow> Q p)"
proof (cases "profile_of uid d")
  case None
  then have "\<forall>p \<in> set (profiles d). p_user_id p \<noteq> uid" by (simp add: profile_of_def find_NoneD)
  with None show ?thesis by (auto simp: list_ex_iff)
next
  case (Some p)
  have only: "r \<in> set (profiles d) \<and> p_user_id r = uid \<longleftrightarrow> r = p" for r
    using find_key_Some [OF assms, of uid r] Some by (metis option.inject profile_of_def)
  have "list_ex (\<lambda>p. p_user_id p = uid \<and> Q p) (profiles d) \<longleftrightarrow> (\<exists>r. (r \<in> set (profiles d) \<and> p_user_id r = uid) \<and> Q r)"
    by (auto simp: list_ex_iff)
  then show ?thesis using Some unfolding only by simp
qed

text \<open>The condition of the SQL statement is the one of the cards.\<close>

lemma ready_iff_required:
  assumes "distinct (map p_user_id (profiles d))"
  shows "ready_to_show uid d u \<longleftrightarrow> u_id u = uid \<and> u_onboarding_completed_at u = None \<and> required_done u d"
proof (cases "u_id u = uid")
  case True
  have "or_empty (Option.bind x f) \<noteq> [] \<longleftrightarrow> (case x of None \<Rightarrow> False | Some y \<Rightarrow> or_empty (f y) \<noteq> [])" for x :: "'x option" and f
    by (cases x) (simp_all add: or_empty_def)
  with True show ?thesis
    unfolding ready_to_show_def profile_row_unique [OF assms]
    by (auto simp: required_done_def REQUIRED_CARDS_def card_completed_def snapshot_of_def Let_def split: option.splits)
qed (simp add: ready_to_show_def)

text \<open>A card changes of the accounts at most the date of birth.\<close>

lemma card_users:
  assumes "stable (\<lambda>d. P (users d)) w" and dob: "\<And>us x. P us \<Longrightarrow> P (update_where (\<lambda>u. u_id u = uid) (u_dob_update (\<lambda>_. x)) us)"
  shows "keeps (stable (\<lambda>d. P (users d))) (card_action st uid cid raw) w"
proof -
  let ?I = "\<lambda>d. P (users d)"
  have same: "keeps (stable ?I) (stmt q) w" if "\<And>t d. users (snd (q t d)) = users d" for q :: "'x sql"
    using assms(1) that by (intro keeps_stmt) auto
  have row: "keeps (stable ?I) (stmt (upsert_profile_with uid f)) w" for f
    by (rule same) (simp add: upsert_profile_with_def set_profile_def)
  have photo: "keeps (stable ?I) (stmt (insert_photo_sql uid key blur pos b n)) w" for key blur pos b n
    by (rule same) (simp add: insert_photo_sql_def)
  have detail: "keeps (stable ?I) (set_detail uid k v) w" for k v
    unfolding set_detail_def keeps_simps
    by (rule same) (simp add: set_detail_sql_def upsert_profile_with_def set_profile_def split: option.split)
  have labels: "keeps (stable ?I) (stmt (replace_labels_sql table put k uid xs)) w" for table put k xs
    by (rule same) (simp add: replace_labels_sql_def split: sum.split)
  have age: "keeps (stable ?I) (complete_age st uid n) w" for n
    unfolding complete_age_def set_user_def using assms(1)
    by (intro keeps_bind) (auto intro!: keeps_update dob)
  have body: "keeps (stable ?I) (with_body v f) w" if "\<And>x. keeps (stable ?I) (f x) w" for v :: "'y option" and f
    unfolding with_body_def using assms(1) that by (intro wp_need) auto
  have col: "keeps (stable ?I) (set_column uid f) w" for f by (simp add: set_column_def row)
  have if_both: "keeps J m w \<Longrightarrow> keeps J n w \<Longrightarrow> keeps J (if b then m else n) w"
    for J b and m n :: "(world, status, unit) prog" by simp
  show ?thesis
    unfolding card_action_def replace_profile_tribes_def replace_profile_looking_for_def
    by (intro if_both body age detail col wp_guard;
        auto split: prod.split intro!: keeps_bind photo body col detail labels age wp_guard simp: assms(1))
qed

definition incomplete :: "uuid \<Rightarrow> user_rec list \<Rightarrow> bool" where
  "incomplete uid us \<longleftrightarrow> (\<forall>u \<in> set us. u_id u = uid \<longrightarrow> u_onboarding_completed_at u = None)"

lemma incomplete_dob: "incomplete uid us \<Longrightarrow> incomplete uid (update_where (\<lambda>u. u_id u = uid) (u_dob_update (\<lambda>_. x)) us)"
  unfolding incomplete_def by (induction us) auto

lemma completed_account:
  assumes "incomplete uid (users d)" "distinct (map p_user_id (profiles d))" "u \<in> set (users (complete_if_ready uid t d))" "u_id u = uid"
  shows "u_onboarding_completed_at u \<noteq> None \<longleftrightarrow> required_done u (complete_if_ready uid t d)"
proof -
  have frame: "required_done (v\<lparr>u_onboarding_completed_at := x\<rparr>) (complete_if_ready uid t d) = required_done v d" for v x
    by (simp add: required_done_def snapshot_of_def complete_if_ready_def profile_of_def user_photos_def Let_def)
  from assms(3) obtain v where v: "v \<in> set (users d)"
    and u: "u = (if ready_to_show uid d v then v\<lparr>u_onboarding_completed_at := Some t\<rparr> else v)"
    by (auto simp: complete_if_ready_def update_where_def)
  then have "u_id v = uid" using assms(4) by (auto split: if_splits)
  with v assms(1) have none: "u_onboarding_completed_at v = None" by (simp add: incomplete_def)
  show ?thesis
  proof (cases "ready_to_show uid d v")
    case True
    then show ?thesis using u frame [of "Some t" v] ready_iff_required [OF assms(2), of uid v] by simp
  next
    case False
    moreover have "v\<lparr>u_onboarding_completed_at := None\<rparr> = v" using none by simp
    then have "required_done v (complete_if_ready uid t d) = required_done v d" using frame [of None v] by metis
    ultimately show ?thesis using u none ready_iff_required [OF assms(2), of uid v] \<open>u_id v = uid\<close> by simp
  qed
qed

text \<open>The last statement of a program, which may break what was stable before it.\<close>

lemma wp_update_last:
  assumes "stable I w" "\<And>t d v. I d \<Longrightarrow> db v = f t d \<Longrightarrow> Q () v" "\<And>e v. E e v"
  shows "wp (update f) Q E w"
  using stable_db [OF stable_take_turn [OF assms(1)]] assms(2,3)
  by (auto simp: update_def wp_stmt Let_def split: outcome.split)

text \<open>
  C19. When a card was accepted, the account counts as onboarded (and is shown to others) exactly if all four required
  cards are complete, for an account that was not before and that no other request completes at the same time.
\<close>

theorem onboarded_iff_required_cards:
  assumes "stable (\<lambda>d. incomplete uid (users d)) w"
    and "complete_card st uid cid raw w = (Inr r, v)" and "distinct (map p_user_id (profiles (db v)))"
    and "u \<in> set (users (db v))" and "u_id u = uid"
  shows "u_onboarding_completed_at u \<noteq> None \<longleftrightarrow> required_done u (db v)"
proof -
  let ?I = "\<lambda>d. incomplete uid (users d)"
  have card: "keeps (stable ?I) (card_action st uid cid raw) w"
    using assms(1) by (rule card_users [where P = "incomplete uid"]) (rule incomplete_dob)
  have "wp (complete_card st uid cid raw) (\<lambda>_ v. \<exists>d t. incomplete uid (users d) \<and> db v = complete_if_ready uid t d) (\<lambda>_ _. True) w"
    unfolding complete_card_def try_complete_onboarding_def
    by (subst wp_andthen, rule wp_mono [OF card], unfold wp_rules, rule wp_update_last [where I = ?I], assumption) auto
  from wp_returns [OF this assms(2)] obtain d t where d: "incomplete uid (users d)" "db v = complete_if_ready uid t d"
    by blast
  moreover have "profiles d = profiles (db v)" unfolding d(2) by (simp add: complete_if_ready_def)
  ultimately show ?thesis using completed_account assms(3-5) by metis
qed

text \<open>A user who lacks nothing but the date of birth.\<close>

definition almost_done_db :: db where
  "almost_done_db = empty_db
     \<lparr>users := [new_user 1 ''a@b.c'' None None True 0], next_id := 3,
      photos := [\<lparr>ph_id = 2, ph_user = 1, ph_r2_key = ''k'', ph_blur_key = None, ph_position = 0, ph_is_primary = True,
                  ph_is_nsfw = False, ph_moderation_status = ''approved'', ph_created_at = 0\<rparr>],
      profiles := [(default_profile 1 0)\<lparr>p_display_name := Some ''A'', p_gender_identity := Some ''x'', p_position := Some ''top''\<rparr>]\<rparr>"

theorem onboarded_iff_required_cards_witness:
  "\<exists>r v u. complete_card sample_app 1 ''age'' (JObj [(''age'', JNum 30)]) (alone almost_done_db) = (Inr r, v)
     \<and> u \<in> set (users (db v)) \<and> u_onboarding_completed_at u \<noteq> None \<and> required_done u (db v)"
proof -
  let ?run = "complete_card sample_app 1 ''age'' (JObj [(''age'', JNum 30)]) (alone almost_done_db)"
  let ?d = "almost_done_db\<lparr>users := [(new_user 1 ''a@b.c'' None None True 0)
              \<lparr>u_dob := Some \<lparr>year = 1996, month = 6, day = 26\<rparr>, u_onboarding_completed_at := Some 0\<rparr>]\<rparr>"
  have run: "?run = (Inr (JObj [(''card_id'', JStr ''age''), (''completed'', JBool True)]), alone ?d)"
    by (simp add: complete_card_def card_action_def with_body_def one_field_def struct_fields_def json_i32_def complete_age_def run_prog
        dob_for_age_def calendar_date_def days_in_month_def Let_def sample_app_def set_user_def try_complete_onboarding_def complete_if_ready_def
        almost_done_db_def new_user_def ready_to_show_def user_photos_def or_empty_def default_profile_def empty_db_def alone_def
        sort_key_def)
  have "incomplete 1 (users almost_done_db)" by (simp add: incomplete_def almost_done_db_def new_user_def)
  then have "stable (\<lambda>d. incomplete 1 (users d)) (alone almost_done_db)" by simp
  then have "required_done (hd (users ?d)) ?d"
    using onboarded_iff_required_cards [OF _ run, of "hd (users ?d)"] by (simp add: almost_done_db_def empty_db_def default_profile_def new_user_def)
  then show ?thesis
    using run by (intro exI [of _ "JObj _"] exI [of _ "alone ?d"] exI [of _ "hd (users ?d)"]) (simp add: alone_def new_user_def)
qed

end
