(* ===== verification/PrivacyProps.thy ===== *)
theory PrivacyProps
  imports AlbumProps
begin

text \<open>
  What others see of a profile, who may attend an event, and the primary photo.
\<close>

section \<open>The profile others see\<close>

text \<open>The members of the owner's view that the flags hide from others.\<close>

definition hidden_member :: "user_full_row \<Rightarrow> string \<Rightarrow> bool" where
  "hidden_member u k \<longleftrightarrow>
     k \<in> {''email'', ''email_verified''} \<or> k = ''birthdate'' \<and> \<not> uf_show_age u \<or> k = ''role'' \<and> \<not> uf_show_role u
     \<or> k = ''tribes'' \<and> \<not> uf_show_tribes u \<or> k = ''position'' \<and> \<not> uf_show_position u
     \<or> k = ''ethnicity'' \<and> \<not> uf_show_ethnicity u \<or> k = ''relationship_status'' \<and> \<not> uf_show_relationship_status u"

definition shown_member :: "user_full_row \<Rightarrow> json \<Rightarrow> string \<Rightarrow> json option" where
  "shown_member u v k =
     (if hidden_member u k then None
      else if k = ''details'' \<and> \<not> uf_show_social_links u then map_option (json_remove ''social'') (json_get k v)
      else json_get k v)"

lemma map_of_without: "map_of (filter (\<lambda>(x, _). x \<noteq> k') ms) k = (if k = k' then None else map_of ms k)"
  by (induction ms) auto

lemma json_get_remove: "json_get k (json_remove k' v) = (if k = k' then None else json_get k v)"
  by (cases v) (simp_all add: json_remove_def map_of_without)

lemma json_get_hide: "json_get k (hide_unless b k' v) = (if k = k' \<and> \<not> b then None else json_get k v)"
  by (simp add: hide_unless_def json_get_remove)

lemma json_get_social:
  "json_get k (hide_social b v) = (if k = ''details'' \<and> \<not> b then map_option (json_remove ''social'') (json_get k v) else json_get k v)"
  by (auto simp: hide_social_def json_get_set split: option.split)

lemma privacy_filter_exact: "json_get k (privacy_filter u v) = shown_member u v k"
  by (auto simp: privacy_filter_def shown_member_def hidden_member_def json_get_social json_get_hide json_get_remove)

text \<open>The lists shown to \<open>caller\<close>: the labels of the account in the order of the collation, and its photos, of which others see the
  approved ones, the primary one first and then by position, with URLs signed at \<open>t\<close>.\<close>

definition photos_for :: "uuid \<Rightarrow> uuid \<Rightarrow> db \<Rightarrow> photo list" where
  "photos_for caller uid d =
     sort_key (\<lambda>p. (\<not> ph_is_primary p, ph_position p))
       (filter (\<lambda>p. ph_user p = uid \<and> (caller = uid \<or> ph_moderation_status p = ''approved'')) (photos d))"

definition lists_for :: "media_env \<Rightarrow> uuid \<Rightarrow> uuid \<Rightarrow> timestamp \<Rightarrow> db \<Rightarrow> profile_lists" where
  "lists_for env caller uid t d =
     (let st = media_app env; labels = (\<lambda>table order. sort_key order (map snd (filter (\<lambda>r. fst r = uid) (table (people d)))))
      in \<lparr>ls_tribes = labels profile_tribes (collation st), ls_looking_for = labels profile_looking_for (collation st),
          ls_meet_at = labels profile_meet_at (collation st),
          ls_tags = labels profile_tags (\<lambda>x. collation st (citext_key st x)),
          ls_photos = map (\<lambda>p. JObj [(''id'', json_uuid st (ph_id p)), (''url'', json_opt JStr (media_url env (ph_r2_key p) t))])
                        (photos_for caller uid d)\<rparr>)"

lemma photos_for_rows:
  "photos_for caller uid d =
     (if uid = caller then sort_key (\<lambda>p. (\<not> ph_is_primary p, ph_position p)) (user_photos uid d) else approved_photos uid d)"
  by (auto simp: photos_for_def approved_photos_def user_photos_def conj_commute)

lemma load_lists_calm:
  assumes "calm w"
  shows "wp (load_lists env uid caller)
    (\<lambda>ls v. now w \<le> now v \<and> ls = lists_for env caller uid (now v) (db w)) (\<lambda>_ _. False) w"
proof -
  have photos: "wp (andthen (internal (load_photos_json env uid caller)) k) Q E v"
    if "calm v" "db v = db w"
      and "\<And>x. now v \<le> now x \<Longrightarrow> wp (k (map (\<lambda>p. JObj [(''id'', json_uuid (media_app env) (ph_id p)),
             (''url'', json_opt JStr (media_url env (ph_r2_key p) (now x)))]) (photos_for caller uid (db w)))) Q E x" for k Q E v
    unfolding load_photos_json_def list_user_photos_def wp_andthen wp_map_err
    using that by (auto simp: wp_rules photos_for_rows intro!: wp_query_calm)
  show ?thesis
    unfolding load_lists_def Let_def get_profile_tribes_def get_profile_looking_for_def get_profile_meet_at_def get_profile_tags_def
    by (intro calm_query_then assms photos; (simp; fail)?)
       (auto simp: wp_rules lists_for_def labels_of_def Let_def intro: order_trans)
qed

text \<open>
  C16. When nobody else writes and the database answers, another user's profile is answered exactly when neither has blocked
  the other and the account exists, and with 404 otherwise. The answer is the full profile of that account, with its own labels
  and its approved photos only (all of them for the owner), without the mail address and without what the
  owner's flags hide, and every other member unchanged.
\<close>

theorem public_profile_exact:
  assumes "calm w"
  shows "case fst (get_by_id env caller uid w) of
           Inl e \<Rightarrow> e = NOT_FOUND \<and> (blocked_pair caller uid (db w) \<or> user_by_id uid (db w) = None)
         | Inr v \<Rightarrow> \<not> blocked_pair caller uid (db w)
             \<and> (\<exists>r x t. user_by_id uid (db w) = Some r \<and> v = JObj [(''user'', x)] \<and> now w \<le> t
                  \<and> (\<forall>k. json_get k x = shown_member (user_full_of r (db w))
                        (full_profile_json env (user_full_of r (db w)) (lists_for env caller uid t (db w)) t) k))"
proof -
  let ?E = "\<lambda>e _. e = NOT_FOUND \<and> (blocked_pair caller uid (db w) \<or> user_by_id uid (db w) = None)"
  let ?Q = "\<lambda>v _. \<not> blocked_pair caller uid (db w)
     \<and> (\<exists>r x t. user_by_id uid (db w) = Some r \<and> v = JObj [(''user'', x)] \<and> now w \<le> t
          \<and> (\<forall>k. json_get k x = shown_member (user_full_of r (db w))
                (full_profile_json env (user_full_of r (db w)) (lists_for env caller uid t (db w)) t) k))"
  have rest: "wp (andthen (load_lists env uid caller) (\<lambda>ls. andthen now_utc (\<lambda>t.
        ret (JObj [(''user'', profile_to_json env (user_full_of r (db w)) ls True t)])))) ?Q ?E v"
    if "calm v" "now w \<le> now v" "db v = db w" "\<not> blocked_pair caller uid (db w)" "user_by_id uid (db w) = Some r" for r v
    unfolding wp_andthen
    by (rule wp_mono [OF load_lists_calm [OF that(1)]])
       (use that(2-) in \<open>auto simp: wp_rules profile_to_json_def privacy_filter_exact Let_def intro: order_trans\<close>)
  have "wp (get_by_id env caller uid) ?Q ?E w"
    unfolding get_by_id_def is_blocked_def find_user_full_def
    by (intro calm_query_then wp_guard wp_need assms; (simp; fail)?; use rest in auto)
  then show ?thesis by (auto simp: wp_def split: prod.splits sum.splits)
qed

text \<open>A user who shows neither age nor social links, with a tribe, an approved photo and one that is not.\<close>

definition private_db :: db where
  "private_db = empty_db
     \<lparr>users := [new_user 1 ''a@b.c'' None None True 0], next_id := 4,
      profiles := [(default_profile 1 0)\<lparr>p_show_age := False, p_show_social_links := False\<rparr>],
      people := empty_people\<lparr>profile_tribes := [(1, ''bear''), (2, ''wolf'')]\<rparr>,
      photos := [new_photo 2 1 ''k'' None 0 True False 0, (new_photo 3 1 ''l'' None 1 False False 0)\<lparr>ph_moderation_status := ''approved''\<rparr>]\<rparr>"

theorem public_profile_exact_witness:
  "\<exists>v x url. fst (get_by_id sample_media 0 1 (alone private_db)) = Inr v \<and> json_get ''user'' v = Some x
     \<and> json_get ''email'' x = None \<and> json_get ''birthdate'' x = None \<and> json_get ''tribes'' x = Some (json_strs [''bear''])
     \<and> json_get ''photos'' x = Some (JArr [JObj [(''id'', json_uuid sample_app 3), (''url'', url)]])"
proof -
  have u: "user_by_id 1 private_db = Some (new_user 1 ''a@b.c'' None None True 0)" "\<not> blocked_pair 0 1 private_db"
    by (simp_all add: private_db_def empty_db_def user_by_id_def new_user_def blocked_pair_def)
  let ?u = "user_full_of (new_user 1 ''a@b.c'' None None True 0) private_db"
  have flags: "\<not> uf_show_age ?u" "uf_show_tribes ?u"
    by (simp_all add: user_full_of_def profile_of_def private_db_def default_profile_def new_user_def Let_def user_row.defs)
  have lists: "ls_tribes (lists_for sample_media 0 1 s private_db) = [''bear'']"
    "ls_photos (lists_for sample_media 0 1 s private_db)
       = [JObj [(''id'', json_uuid sample_app 3), (''url'', json_opt JStr (media_url sample_media ''l'' s))]]" for s
    by (simp_all add: lists_for_def photos_for_def private_db_def new_photo_def sample_media_def Let_def)
  show ?thesis
    using public_profile_exact [where w = "alone private_db" and env = sample_media and caller = 0 and uid = 1] u flags lists
    by (cases "fst (get_by_id sample_media 0 1 (alone private_db))")
       (auto simp: shown_member_def hidden_member_def full_profile_json_def Let_def)
qed

section \<open>Events\<close>

definition goes :: "uuid \<Rightarrow> uuid \<Rightarrow> db \<Rightarrow> bool" where
  "goes eid uid d \<longleftrightarrow> list_ex (\<lambda>a. attends eid uid a \<and> att_status a = ''going'') (event_attendees (gallery d))"

lemma attend_row_goes:
  assumes "upsert_attendee_sql eid uid status t d = (Inr (), d')"
  shows "list_ex (\<lambda>a. attends eid uid a \<and> att_status a = status) (event_attendees (gallery d'))"
proof -
  have "list_ex (\<lambda>a. attends eid uid a \<and> att_status a = status) (update_where (attends eid uid) (att_status_update (\<lambda>_. status)) xs)"
    if "list_ex (attends eid uid) xs" for xs
    using that by (induction xs) (auto simp: attends_def)
  then show ?thesis using assms by (auto simp: upsert_attendee_sql_def attends_def split: if_splits)
qed

lemma attend_row_counts:
  assumes "upsert_attendee_sql eid uid status t d = (Inr (), d')" "distinct (map (\<lambda>a. (att_event a, att_user a)) (event_attendees (gallery d)))"
  shows "attendee_count eid d' \<le> Suc (attendee_count eid d)"
proof (cases "list_ex (attends eid uid) (event_attendees (gallery d))")
  case True
  have "length (filter (\<lambda>a. att_event a = eid \<and> counts_as_attending a) (update_where (attends eid uid) (att_status_update (\<lambda>_. status)) xs))
      \<le> Suc (length (filter (\<lambda>a. att_event a = eid \<and> counts_as_attending a) xs))"
    if "distinct (map (\<lambda>a. (att_event a, att_user a)) xs)" for xs
    using that
  proof (induction xs)
    case (Cons a xs)
    have "update_where (attends eid uid) (att_status_update (\<lambda>_. status)) xs = xs" if "attends eid uid a"
      using that Cons.prems by (intro update_where_False) (auto simp: attends_def image_iff)
    then show ?case using Cons by (cases "attends eid uid a") auto
  qed simp
  then show ?thesis using assms True by (auto simp: upsert_attendee_sql_def attendee_count_def)
next
  case False
  then show ?thesis using assms by (auto simp: upsert_attendee_sql_def attendee_count_def split: if_splits)
qed

text \<open>
  C22. When nobody else writes and the database answers, a user who answers that they go to an existing event is turned away with 410
  when it is full, with nothing recorded, and recorded as going otherwise; the event then has at most as many attendees as it
  takes. (Check and record are two statements: answers at the same time can exceed the capacity.)
\<close>

theorem event_capacity_kept:
  assumes "calm w" and "distinct (map (\<lambda>a. (att_event a, att_user a)) (event_attendees (gallery (db w))))"
    and "event_by_id eid (db w) = Some e" and "known_user uid (db w)"
  shows "case attend uid eid ''going'' w of
           (Inl r, v) \<Rightarrow> r = GONE \<and> event_full eid (db w) \<and> db v = db w
         | (Inr _, v) \<Rightarrow> \<not> event_full eid (db w) \<and> goes eid uid (db v)
             \<and> (0 < evt_max_attendees e \<longrightarrow> int (attendee_count eid (db v)) \<le> evt_max_attendees e)"
proof -
  let ?E = "\<lambda>r v. r = GONE \<and> event_full eid (db w) \<and> db v = db w"
  let ?Q = "\<lambda>_ v. \<not> event_full eid (db w) \<and> goes eid uid (db v)
             \<and> (0 < evt_max_attendees e \<longrightarrow> int (attendee_count eid (db v)) \<le> evt_max_attendees e)"
  have saved: "wp (andthen (internal (upsert_attendee eid uid ''going'')) (\<lambda>_. ret ''going'')) ?Q ?E v"
    if v: "calm v" "db v = db w" and free: "\<not> event_full eid (db w)" for v
    unfolding upsert_attendee_def
  proof (rule calm_stmt_then [OF v(1)])
    fix x :: world
    obtain d where d: "upsert_attendee_sql eid uid ''going'' (now x) (db w) = (Inr (), d)"
      using assms(3,4) unfolding upsert_attendee_sql_def by (metis option.distinct(1))
    have "goes eid uid d" using attend_row_goes [OF d] by (simp add: goes_def)
    moreover have "0 < evt_max_attendees e \<longrightarrow> int (attendee_count eid d) \<le> evt_max_attendees e"
      using attend_row_counts [OF d assms(2)] free assms(3) by (auto simp: event_full_def)
    ultimately show "case upsert_attendee_sql eid uid ''going'' (now x) (db v) of
        (Inl e, d) \<Rightarrow> ?E INTERNAL_SERVER_ERROR (x\<lparr>db := d\<rparr>) | (Inr y, d) \<Rightarrow> wp (ret ''going'') ?Q ?E (x\<lparr>db := d\<rparr>)"
      using free by (simp add: v d wp_rules)
  qed
  have "wp (attend uid eid ''going'') ?Q ?E w"
    unfolding attend_def get_event_by_id_def is_event_full_def
  proof (rule wp_guard, simp, rule calm_query_then [OF assms(1)], rule wp_need, simp add: assms(3))
    fix v x assume v: "calm v" "db v = db w"
    show "wp (andthen (if ''going'' = ''going'' then andthen (internal (query (\<lambda>_. event_full eid))) (\<lambda>full. reject_if full GONE) else ret ())
        (\<lambda>_. andthen (internal (upsert_attendee eid uid ''going'')) (\<lambda>_. ret ''going''))) ?Q ?E v"
      unfolding if_P [OF refl] wp_andthen [of "andthen _ _"]
      by (rule calm_query_then [OF v(1)], unfold wp_reject_if) (use saved v in auto)
  qed
  then show ?thesis by (auto simp: wp_def split: prod.splits sum.splits)
qed

text \<open>An event for one, whom somebody may attend.\<close>

definition full_event_db :: db where
  "full_event_db = empty_db
     \<lparr>users := [new_user 0 ''a@b.c'' None None True 0, new_user 1 ''d@e.f'' None None True 0], next_id := 3,
      gallery := empty_gallery
        \<lparr>events := [\<lparr>evt_id = 2, evt_creator = 0, evt_title = ''t'', evt_description = None, evt_location_name = ''l'', evt_lat = 0,
                     evt_lon = 0, evt_starts_at = 9, evt_ends_at = None, evt_max_attendees = 1, evt_created_at = 0\<rparr>],
         event_attendees := [\<lparr>att_event = 2, att_user = 0, att_status = ''maybe'', att_created_at = 0\<rparr>]\<rparr>\<rparr>"

theorem event_capacity_kept_witness:
  "fst (attend 1 2 ''going'' (alone full_event_db)) = Inl GONE
   \<and> db (snd (attend 1 2 ''going'' (alone full_event_db))) = full_event_db"
proof -
  have "event_full 2 full_event_db"
    by (simp add: event_full_def event_by_id_def attendee_count_def counts_as_attending_def full_event_db_def empty_gallery_def)
  moreover have "\<exists>e. event_by_id 2 full_event_db = Some e" "known_user 1 full_event_db"
    by (simp_all add: event_by_id_def full_event_db_def empty_gallery_def known_user_def user_by_id_def new_user_def)
  ultimately show ?thesis
    using event_capacity_kept [of "alone full_event_db" 2 _ 1]
    by (cases "attend 1 2 ''going'' (alone full_event_db)") (auto simp: full_event_db_def empty_gallery_def split: sum.splits)
qed

section \<open>The primary photo\<close>

definition primary_ok :: "db \<Rightarrow> bool" where
  "primary_ok d \<longleftrightarrow>
     distinct (map ph_id (photos d)) \<and> list_all (\<lambda>p. ph_id p < next_id d) (photos d)
     \<and> distinct (map ph_user (filter ph_is_primary (photos d)))"

lemma user_photo_in:
  "user_photo uid pid d = Some p \<Longrightarrow> p \<in> set (photos d) \<and> ph_id p = pid \<and> ph_user p = uid"
  unfolding user_photo_def by (drule find_SomeD)

lemma primary_frame [simp]: "primary_ok (set_photo_key uid key d) = primary_ok d"
  by (simp add: primary_ok_def set_photo_key_def set_profile_def)

lemma insert_primary_ok:
  assumes "primary_ok d" "primary \<Longrightarrow> user_photos uid d = []"
  shows "primary_ok (snd (insert_photo_sql uid key blur pos primary nsfw t d))"
proof -
  have "uid \<notin> ph_user ` {p \<in> set (photos d). ph_is_primary p}" if primary
    using assms(2) that by (auto simp: user_photos_def filter_empty_conv)
  then show ?thesis
    using assms(1) by (auto simp: primary_ok_def insert_photo_sql_def new_photo_def list_all_iff)
qed

lemma drop_primary_ok: "primary_ok d \<Longrightarrow> primary_ok (drop_photo uid pid d)"
proof -
  have "distinct (map ph_user (filter ph_is_primary ps)) \<Longrightarrow> distinct (map ph_user (filter ph_is_primary (delete_where q ps)))" for q ps
    by (induction ps) (auto simp: delete_where_def)
  then show "primary_ok d \<Longrightarrow> primary_ok (drop_photo uid pid d)"
    by (auto simp: primary_ok_def drop_photo_def distinct_map_delete_where list_all_iff)
qed

text \<open>Of one user's photos the one with the given identifier becomes the primary one.\<close>

lemma flagged_users:
  "set (map ph_user (filter ph_is_primary (update_where (\<lambda>r. ph_id r = n) (ph_is_primary_update (\<lambda>_. True)) ps)))
     = ph_user ` {p \<in> set ps. ph_is_primary p \<or> ph_id p = n}"
  by (induction ps) auto

lemma flagged_distinct:
  "distinct (map ph_id ps) \<Longrightarrow> distinct (map ph_user (filter ph_is_primary ps)) \<Longrightarrow> p \<in> set ps \<Longrightarrow>
     (\<And>q. q \<in> set ps \<Longrightarrow> ph_user q = ph_user p \<Longrightarrow> \<not> ph_is_primary q) \<Longrightarrow>
     distinct (map ph_user (filter ph_is_primary (update_where (\<lambda>r. ph_id r = ph_id p) (ph_is_primary_update (\<lambda>_. True)) ps)))"
proof (induction ps)
  case (Cons a ps)
  show ?case
  proof (cases "a = p")
    case True
    then have "update_where (\<lambda>r. ph_id r = ph_id p) (ph_is_primary_update (\<lambda>_. True)) ps = ps"
      using Cons.prems(1) by (intro update_where_False) (auto simp: image_iff)
    moreover have "ph_user p \<notin> ph_user ` {q \<in> set ps. ph_is_primary q}" using Cons.prems(4) by force
    ultimately show ?thesis using Cons.prems(2) True by (auto split: if_splits)
  next
    case False
    then have p: "p \<in> set ps" "ph_id a \<noteq> ph_id p" using Cons.prems(1,3) by (auto simp: image_iff)
    have ih: "distinct (map ph_user (filter ph_is_primary (update_where (\<lambda>r. ph_id r = ph_id p) (ph_is_primary_update (\<lambda>_. True)) ps)))"
      using Cons p(1) by (intro Cons.IH) (auto split: if_splits)
    have "ph_user a \<notin> ph_user ` {q \<in> set ps. ph_is_primary q \<or> ph_id q = ph_id p}" if a: "ph_is_primary a"
    proof -
      have "ph_user a \<notin> ph_user ` {q \<in> set ps. ph_is_primary q}" using Cons.prems(2) a by auto
      moreover have "ph_user a \<noteq> ph_user p" using Cons.prems(4) [of a] a by auto
      moreover have "inj_on ph_id (set ps)" using Cons.prems(1) by (simp add: distinct_map)
      then have "\<forall>q \<in> set ps. ph_id q = ph_id p \<longrightarrow> q = p" using p(1) by (meson inj_onD)
      ultimately show ?thesis by blast
    qed
    then show ?thesis using ih p(2) flagged_users [of "ph_id p" ps] by auto
  qed
qed simp

lemma list_all_flag: "list_all (\<lambda>p. ph_id p < n) (update_where q (ph_is_primary_update f) ps) = list_all (\<lambda>p. ph_id p < n) ps"
  by (induction ps) auto

lemma choose_primary_ok:
  assumes "primary_ok d" "p \<in> set (photos d)"
    and "\<And>q. q \<in> set (photos d) \<Longrightarrow> ph_user q = ph_user p \<Longrightarrow> \<not> ph_is_primary q"
  shows "primary_ok (set_primary_flag (\<lambda>r. ph_id r = ph_id p) True d)"
proof -
  have "map ph_id (update_where (\<lambda>r. ph_id r = ph_id p) (ph_is_primary_update (\<lambda>_. True)) (photos d)) = map ph_id (photos d)"
    by (rule map_update_where_same) simp
  then show ?thesis
    using assms flagged_distinct [of "photos d" p]
    by (simp add: primary_ok_def set_primary_flag_def list_all_flag)
qed

lemma calm_stmt_kept:
  "calm w \<Longrightarrow> (\<And>t. I (snd (q t (db w)))) \<Longrightarrow> keeps (\<lambda>v. calm v \<and> I (db v)) (stmt q) w"
  by (rule wp_stmt_calm, assumption, simp split: prod.split sum.split, metis snd_conv)

lemma create_photo_primary:
  assumes "calm w" "primary_ok (db w)"
  shows "primary_ok (db (snd (create_photo env uid key nsfw w)))"
proof -
  let ?J = "\<lambda>v. calm v \<and> primary_ok (db v)"
  have ins: "?J v \<Longrightarrow> (primary \<Longrightarrow> user_photos uid (db v) = []) \<Longrightarrow> (\<And>x y. ?J x \<Longrightarrow> keeps ?J (f y) x) \<Longrightarrow>
      keeps ?J (andthen (internal (stmt (insert_photo_sql uid key blur pos primary nsfw))) f) v"
    for v blur pos primary and f :: "uuid \<Rightarrow> (world, status, 'z) prog"
  proof (rule calm_stmt_then)
    fix x :: world
    assume a: "?J v" "primary \<Longrightarrow> user_photos uid (db v) = []" "\<And>x y. ?J x \<Longrightarrow> keeps ?J (f y) x" "calm x"
    have "primary_ok (snd (insert_photo_sql uid key blur pos primary nsfw (now x) (db v)))"
      using a(1,2) by (intro insert_primary_ok) simp_all
    then show "case insert_photo_sql uid key blur pos primary nsfw (now x) (db v) of
        (Inl e, d) \<Rightarrow> ?J (x\<lparr>db := d\<rparr>) | (Inr y, d) \<Rightarrow> keeps ?J (f y) (x\<lparr>db := d\<rparr>)"
      using a(3,4) by (cases "insert_photo_sql uid key blur pos primary nsfw (now x) (db v)") (simp split: sum.split)
  qed simp
  have row: "keeps ?J (record_photo uid kind key blur nsfw) v" if v: "?J v" for kind blur v
  proof (cases "kind = ''profile''")
    case True
    show ?thesis
      unfolding record_photo_def count_user_photos_def if_P [OF True]
    proof (rule calm_query_then)
      fix x assume x: "calm x" "db x = db v"
      have key: "keeps ?J (andthen (if n = 0 then internal (update (\<lambda>_. set_photo_key uid (Some key))) else ret ()) (\<lambda>_. ret pid)) y"
        if "?J y" for n y and pid :: uuid
      proof -
        have "keeps ?J (update (\<lambda>_. set_photo_key uid (Some key))) y" by (rule wp_update_calm) (use that in auto)
        then show ?thesis using that by (intro keeps_bind) auto
      qed
      show "keeps ?J (andthen (internal (stmt (insert_photo_sql uid key (Some blur) (as_i32 (length (user_photos uid (db v))))
              (length (user_photos uid (db v)) = 0) nsfw)))
            (\<lambda>pid. andthen (if length (user_photos uid (db v)) = 0 then internal (update (\<lambda>_. set_photo_key uid (Some key))) else ret ())
              (\<lambda>_. ret pid))) x"
        by (rule ins, use x v in simp, use x in simp, rule key)
    qed (use v in simp)
  next
    case False
    then show ?thesis
      using calm_stmt_kept [where w = v and q = "insert_photo_sql uid key (Some blur) 0 False nsfw" and I = primary_ok] v insert_primary_ok
      by (simp add: record_photo_def)
  qed
  have "keeps ?J (download env url) v" "keeps ?J (upload env url body) v" if "?J v" for url body v
    using that by (auto simp: download_def upload_def wp_rules split: http_reply.split option.split)
  then have "keeps ?J (create_photo env uid key nsfw) w"
    unfolding create_photo_def Let_def using assms row by (auto intro!: wp_need keeps_bind)
  from keeps_final [OF this] show ?thesis by simp
qed

lemma promote_primary:
  assumes "primary_ok d" "\<And>q. q \<in> set (photos d) \<Longrightarrow> ph_user q = uid \<Longrightarrow> \<not> ph_is_primary q"
  shows "primary_ok (promote_next uid d)"
  using assms
  by (auto simp: promote_next_def user_photos_def split: option.split dest!: max_by_in intro!: choose_primary_ok)

lemma found_keeps: "wp (found_or_404 code b) (\<lambda>_. I) (\<lambda>_. I) = I"
  by (simp add: found_or_404_def fun_eq_iff)

lemma delete_photo_primary:
  assumes "calm w" "primary_ok (db w)"
  shows "primary_ok (db (snd (delete_photo uid pid w)))"
proof -
  have drop: "primary_ok (let d' = drop_photo uid pid (db w) in if ph_is_primary p then promote_next uid d' else d')"
    if p: "user_photo uid pid (db w) = Some p" for p
  proof -
    have inj: "inj_on ph_user {q \<in> set (photos (db w)). ph_is_primary q}"
      using assms(2) by (simp add: primary_ok_def distinct_map)
    have "\<not> ph_is_primary q" if "ph_is_primary p" "q \<in> set (photos (drop_photo uid pid (db w)))" "ph_user q = uid" for q
      using that p user_photo_in [OF p] inj_onD [OF inj, of p q] by (auto simp: drop_photo_def)
    then have "ph_is_primary p \<Longrightarrow> primary_ok (promote_next uid (drop_photo uid pid (db w)))"
      by (intro promote_primary drop_primary_ok assms(2))
    then show ?thesis using drop_primary_ok [OF assms(2), of uid pid] by (simp add: Let_def)
  qed
  have "wp (delete_photo_row uid pid) (\<lambda>_ v. primary_ok (db v)) (\<lambda>_ v. primary_ok (db v)) w"
    unfolding delete_photo_row_def wp_andthen
  proof (rule wp_query_calm [OF assms(1)])
    fix v assume v: "calm v" "db v = db w"
    show "keeps (\<lambda>v. primary_ok (db v)) (case user_photo uid pid (db w) of None \<Rightarrow> ret False
        | Some p \<Rightarrow> andthen (update (\<lambda>_ d. let d' = drop_photo uid pid d in if ph_is_primary p then promote_next uid d' else d')) (\<lambda>_. ret True)) v"
    proof (cases "user_photo uid pid (db w)")
      case (Some p)
      show ?thesis
        unfolding Some option.case wp_andthen
        by (rule wp_update_calm [OF v(1)]) (use drop [OF Some] in \<open>simp add: v(2)\<close>)
    qed (use assms(2) v in simp)
  qed
  then have "keeps (\<lambda>v. primary_ok (db v)) (delete_photo uid pid) w"
    by (simp add: delete_photo_def wp_andthen wp_map_err found_keeps)
  then show ?thesis by (rule keeps_final)
qed

lemma make_primary_ok:
  assumes "primary_ok d" "user_photo uid pid d = Some p"
  shows "primary_ok (make_primary uid pid (ph_r2_key p) d)"
proof -
  let ?d = "set_primary_flag (\<lambda>p. ph_user p = uid) False d"
  have "filter ph_is_primary (update_where (\<lambda>p. ph_user p = uid) (ph_is_primary_update (\<lambda>_. False)) ps)
      = filter (\<lambda>p. ph_user p \<noteq> uid) (filter ph_is_primary ps)" for ps
    by (induction ps) auto
  note cleared = this
  have "distinct (map ph_user (filter ph_is_primary (photos d)))" using assms(1) by (simp add: primary_ok_def)
  then have "distinct (map ph_user (filter ph_is_primary (photos ?d)))"
    by (simp add: set_primary_flag_def cleared distinct_map_filter del: filter_filter)
  then have ok: "primary_ok ?d"
    using assms(1) by (simp add: primary_ok_def set_primary_flag_def list_all_flag map_update_where_same)
  have p: "p\<lparr>ph_is_primary := False\<rparr> \<in> set (photos ?d)" "ph_id p = pid" "ph_user p = uid"
    using user_photo_in [OF assms(2)] by (auto simp: set_primary_flag_def set_update_where)
  have "\<forall>q \<in> set (update_where (\<lambda>p. ph_user p = uid) (ph_is_primary_update (\<lambda>_. False)) ps). ph_user q = uid \<longrightarrow> \<not> ph_is_primary q" for ps
    by (induction ps) auto
  then have "\<not> ph_is_primary q" if "q \<in> set (photos ?d)" "ph_user q = uid" for q
    using that by (auto simp: set_primary_flag_def)
  then show ?thesis
    using ok p choose_primary_ok [of ?d "p\<lparr>ph_is_primary := False\<rparr>"] by (simp add: make_primary_def)
qed

lemma set_primary_spec:
  assumes "calm w" "primary_ok (db w)"
  shows "wp (set_primary_photo uid pid)
     (\<lambda>_ v. \<exists>p. user_photo uid pid (db w) = Some p \<and> db v = make_primary uid pid (ph_r2_key p) (db w)) (\<lambda>e v. e = NOT_FOUND \<and> db v = db w) w"
  (is "wp _ ?Q ?E w")
proof -
  have "wp (set_primary_photo_row uid pid) (\<lambda>b v. if b then ?Q OK v else db v = db w) (\<lambda>_ _. False) w"
    unfolding set_primary_photo_row_def wp_andthen
  proof (rule wp_query_calm [OF assms(1)])
    fix v assume v: "calm v" "db v = db w"
    show "wp (case map_option ph_r2_key (user_photo uid pid (db w)) of None \<Rightarrow> ret False
          | Some k \<Rightarrow> andthen (update (\<lambda>_. make_primary uid pid k)) (\<lambda>_. ret True))
        (\<lambda>b v. if b then ?Q OK v else db v = db w) (\<lambda>_ _. False) v"
    proof (cases "user_photo uid pid (db w)")
      case (Some p)
      show ?thesis
        unfolding Some option.map option.case wp_andthen
        by (rule wp_update_calm [OF v(1)]) (simp add: wp_rules v(2))
    qed (simp add: wp_rules v)
  qed
  then show ?thesis
    unfolding set_primary_photo_def wp_andthen wp_map_err
    by (rule wp_mono) (auto simp: found_or_404_def wp_rules split: if_splits)
qed

lemma chosen_only:
  fixes ps uid pid
  defines "c \<equiv> \<lambda>qs. filter ph_is_primary (filter (\<lambda>p. ph_user p = uid)
      (update_where (\<lambda>p. ph_id p = pid) (ph_is_primary_update (\<lambda>_. True))
        (update_where (\<lambda>p. ph_user p = uid) (ph_is_primary_update (\<lambda>_. False)) qs)))"
  shows "pid \<notin> ph_id ` set ps \<Longrightarrow> c ps = []"
    and "distinct (map ph_id ps) \<Longrightarrow> p \<in> set ps \<Longrightarrow> ph_id p = pid \<Longrightarrow> ph_user p = uid \<Longrightarrow> c ps = [p\<lparr>ph_is_primary := True\<rparr>]"
proof -
  show none: "pid \<notin> ph_id ` set ps \<Longrightarrow> c ps = []" for ps unfolding c_def by (induction ps) auto
  have cons: "c (a # ps) = (if ph_user a = uid \<and> ph_id a = pid then a\<lparr>ph_is_primary := True\<rparr> # c ps else c ps)" for a ps
    by (simp add: c_def)
  show "distinct (map ph_id ps) \<Longrightarrow> p \<in> set ps \<Longrightarrow> ph_id p = pid \<Longrightarrow> ph_user p = uid \<Longrightarrow> c ps = [p\<lparr>ph_is_primary := True\<rparr>]"
  proof (induction ps)
    case (Cons a ps)
    show ?case
    proof (cases "a = p")
      case True
      then show ?thesis using Cons.prems none [of ps] by (simp add: cons)
    next
      case False
      then have "p \<in> set ps" "ph_id a \<noteq> pid" using Cons.prems by (auto simp: image_iff)
      then show ?thesis using Cons by (simp add: cons)
    qed
  qed simp
qed

lemma photo_key_set:
  "\<forall>q \<in> set (update_where (\<lambda>p. p_user_id p = uid) (p_profile_photo_key_update (\<lambda>_. key)) ps). p_user_id q = uid \<longrightarrow> p_profile_photo_key q = key"
  by (induction ps) auto

text \<open>
  C21. Adding, deleting and choosing photos leave a user at most one primary photo when nobody else writes; choosing
  makes exactly that photo the primary one and the photo of the profile.
\<close>

theorem primary_photo_unique:
  assumes "calm w" and "primary_ok (db w)"
  shows "primary_ok (db (snd (create_photo env uid key nsfw w)))
   \<and> primary_ok (db (snd (delete_photo uid pid w)))
   \<and> primary_ok (db (snd (set_primary_photo uid pid w)))
   \<and> (\<forall>r v. set_primary_photo uid pid w = (Inr r, v) \<longrightarrow>
        (\<exists>p. user_photo uid pid (db w) = Some p \<and> filter ph_is_primary (user_photos uid (db v)) = [p\<lparr>ph_is_primary := True\<rparr>]
           \<and> (\<forall>q \<in> set (profiles (db v)). p_user_id q = uid \<longrightarrow> p_profile_photo_key q = Some (ph_r2_key p))))"
proof (intro conjI allI impI)
  have "keeps (\<lambda>v. primary_ok (db v)) (set_primary_photo uid pid) w"
    by (rule wp_mono [OF set_primary_spec [OF assms]]) (auto simp: assms(2) dest: make_primary_ok [OF assms(2)])
  from keeps_final [OF this] show "primary_ok (db (snd (set_primary_photo uid pid w)))" .
  fix r v assume run: "set_primary_photo uid pid w = (Inr r, v)"
  from wp_returns [OF set_primary_spec [OF assms] this] obtain p
    where p: "user_photo uid pid (db w) = Some p" "db v = make_primary uid pid (ph_r2_key p) (db w)" by blast
  have "filter ph_is_primary (user_photos uid (db v)) = [p\<lparr>ph_is_primary := True\<rparr>]"
    using user_photo_in [OF p(1)] assms(2) chosen_only(2) [of "photos (db w)" p pid uid]
    by (simp add: p(2) make_primary_def user_photos_def set_primary_flag_def set_photo_key_def set_profile_def primary_ok_def del: filter_filter)
  moreover have "p_profile_photo_key q = Some (ph_r2_key p)" if "q \<in> set (profiles (db v))" "p_user_id q = uid" for q
    using that photo_key_set [of uid "Some (ph_r2_key p)"]
    by (auto simp: p(2) make_primary_def set_photo_key_def set_profile_def set_primary_flag_def)
  ultimately show "\<exists>p. user_photo uid pid (db w) = Some p \<and> filter ph_is_primary (user_photos uid (db v)) = [p\<lparr>ph_is_primary := True\<rparr>]
      \<and> (\<forall>q \<in> set (profiles (db v)). p_user_id q = uid \<longrightarrow> p_profile_photo_key q = Some (ph_r2_key p))"
    using p(1) by blast
qed (rule create_photo_primary [OF assms] delete_photo_primary [OF assms])+

definition two_photos_db :: db where
  "two_photos_db = empty_db
     \<lparr>users := [new_user 1 ''a@b.c'' None None True 0], next_id := 4,
      photos := [new_photo 2 1 ''k'' None 0 True False 0, new_photo 3 1 ''l'' None 1 False False 0]\<rparr>"

theorem primary_photo_unique_witness:
  "\<exists>r v. set_primary_photo 1 3 (alone two_photos_db) = (Inr r, v)
     \<and> filter ph_is_primary (user_photos 1 (db v)) = [new_photo 3 1 ''l'' None 1 True False 0]"
proof -
  have ok: "primary_ok (db (alone two_photos_db))"
    by (simp add: primary_ok_def two_photos_db_def new_photo_def)
  have "\<exists>r v. set_primary_photo 1 3 (alone two_photos_db) = (Inr r, v)"
    by (simp add: set_primary_photo_def set_primary_photo_row_def run_prog found_or_404_def two_photos_db_def user_photo_def new_photo_def alone_def)
  moreover have "user_photo 1 3 two_photos_db = Some (new_photo 3 1 ''l'' None 1 False False 0)"
    by (simp add: two_photos_db_def user_photo_def new_photo_def)
  ultimately show ?thesis
    using primary_photo_unique [OF _ ok, where env = sample_media and uid = 1 and pid = 3] by (auto simp: new_photo_def)
qed

end
