(* ===== verification/Links.thy ===== *)
theory Links
  imports AlbumProps
begin

text \<open>
  The references of the tables the members' requests share: who tapped, starred, blocked and reported whom, who created a
  group, the photo of a profile, the device of a session, the conversation of a screenshot alert. Every statement of
  authentication, chat and \<open>Members\<close> keeps them: the three contracts instantiated by \<open>links_wf\<close>.
\<close>

section \<open>The references\<close>

text \<open>The rows, given the next identifier \<open>n\<close>, the users \<open>U\<close>, conversations \<open>C\<close>, photos \<open>P\<close> and devices \<open>D\<close> there are.\<close>

definition refers :: "'k set \<Rightarrow> 'k option \<Rightarrow> bool" where
  "refers K k \<longleftrightarrow> (case k of None \<Rightarrow> True | Some i \<Rightarrow> i \<in> K)"

definition taps_ok :: "uuid \<Rightarrow> (uuid \<Rightarrow> bool) \<Rightarrow> tap list \<Rightarrow> bool" where
  "taps_ok n U rows \<longleftrightarrow> table_wf tp_id (\<lambda>r. tp_id r < n \<and> U (tp_from r) \<and> U (tp_to r)) rows"

definition favorites_ok :: "(uuid \<Rightarrow> bool) \<Rightarrow> favorite list \<Rightarrow> bool" where
  "favorites_ok U rows \<longleftrightarrow> list_all (\<lambda>r. U (fv_user r) \<and> U (fv_target r)) rows"

definition blocks_ok :: "(uuid \<Rightarrow> bool) \<Rightarrow> block list \<Rightarrow> bool" where
  "blocks_ok U rows \<longleftrightarrow> list_all (\<lambda>r. U (bl_user r) \<and> U (bl_target r)) rows"

definition reports_ok :: "uuid \<Rightarrow> (uuid \<Rightarrow> bool) \<Rightarrow> report list \<Rightarrow> bool" where
  "reports_ok n U rows \<longleftrightarrow>
     table_wf rp_id (\<lambda>r. rp_id r < n \<and> U (rp_reporter r) \<and> U (rp_target_user r)
                       \<and> rp_target_kind r \<in> set REPORT_KINDS \<and> rp_status r \<in> set REPORT_STATUSES) rows"

definition sessions_ok :: "uuid \<Rightarrow> uuid set \<Rightarrow> refresh_token list \<Rightarrow> bool" where
  "sessions_ok n D rows \<longleftrightarrow> table_wf rt_id (\<lambda>r. rt_id r < n \<and> refers D (rt_device_id r)) rows"

definition consents_ok :: "uuid \<Rightarrow> consent list \<Rightarrow> bool" where
  "consents_ok n rows \<longleftrightarrow> table_wf cr_id (\<lambda>r. cr_id r < n \<and> cr_kind r \<in> {''tos'', ''privacy'', ''age'', ''marketing''}) rows"

definition creators_ok :: "uuid set \<Rightarrow> conversation list \<Rightarrow> bool" where
  "creators_ok U rows \<longleftrightarrow> list_all (\<lambda>c. refers U (cv_created_by c)) rows"

definition alerts_ok :: "uuid set \<Rightarrow> screenshot_alert list \<Rightarrow> bool" where
  "alerts_ok C rows \<longleftrightarrow> list_all (\<lambda>a. sa_conversation a \<in> C) rows"

definition pictures_ok :: "uuid set \<Rightarrow> profile list \<Rightarrow> bool" where
  "pictures_ok P rows \<longleftrightarrow> list_all (\<lambda>p. refers P (p_profile_photo_id p)) rows"

definition links_wf :: "db \<Rightarrow> bool" where
  "links_wf d \<longleftrightarrow>
     (let n = next_id d; U = (\<lambda>u. user_exists u d)
      in taps_ok n U (taps d) \<and> favorites_ok U (favorites d) \<and> blocks_ok U (blocks d) \<and> reports_ok n U (reports d)
         \<and> sessions_ok n (dv_id ` set (devices (office d))) (refresh_tokens d) \<and> consents_ok n (consent_records d)
         \<and> creators_ok {u. U u} (conversations d) \<and> alerts_ok (cv_id ` set (conversations d)) (screenshot_alerts (people d))
         \<and> pictures_ok (ph_id ` set (photos d)) (profiles d))"

lemmas link_parts = taps_ok_def favorites_ok_def blocks_ok_def reports_ok_def sessions_ok_def consents_ok_def creators_ok_def
  alerts_ok_def pictures_ok_def

lemma links_wfD:
  assumes "links_wf d"
  shows "taps_ok (next_id d) (\<lambda>u. user_exists u d) (taps d)" "favorites_ok (\<lambda>u. user_exists u d) (favorites d)"
    "blocks_ok (\<lambda>u. user_exists u d) (blocks d)" "reports_ok (next_id d) (\<lambda>u. user_exists u d) (reports d)"
    "sessions_ok (next_id d) (dv_id ` set (devices (office d))) (refresh_tokens d)" "consents_ok (next_id d) (consent_records d)"
    "creators_ok {u. user_exists u d} (conversations d)"
    "alerts_ok (cv_id ` set (conversations d)) (screenshot_alerts (people d))"
    "pictures_ok (ph_id ` set (photos d)) (profiles d)"
  using assms by (simp_all add: links_wf_def Let_def)

lemma refers_mono: "refers K k \<Longrightarrow> K \<subseteq> L \<Longrightarrow> refers L k"
  by (auto simp: refers_def split: option.splits)

lemma refers_simps [simp]: "refers K None" "refers K (Some k) \<longleftrightarrow> k \<in> K"
  by (simp_all add: refers_def)

lemma link_parts_mono:
  assumes "n \<le> n'" "\<And>u. U u \<Longrightarrow> U' u"
  shows "taps_ok n U a \<Longrightarrow> taps_ok n' U' a" "favorites_ok U b \<Longrightarrow> favorites_ok U' b" "blocks_ok U c \<Longrightarrow> blocks_ok U' c"
    "reports_ok n U e \<Longrightarrow> reports_ok n' U' e" "sessions_ok n D f \<Longrightarrow> D \<subseteq> D' \<Longrightarrow> sessions_ok n' D' f"
    "consents_ok n g \<Longrightarrow> consents_ok n' g" "creators_ok {u. U u} h \<Longrightarrow> creators_ok {u. U' u} h"
    "alerts_ok C i \<Longrightarrow> C \<subseteq> C' \<Longrightarrow> alerts_ok C' i" "pictures_ok P j \<Longrightarrow> P \<subseteq> P' \<Longrightarrow> pictures_ok P' j"
  using assms unfolding link_parts by (auto elim!: table_mono refers_mono simp: list_all_iff)

lemma links_frame:
  assumes "links_wf d" "next_id d \<le> next_id d'" "\<And>u. user_exists u d \<Longrightarrow> user_exists u d'"
    and "taps d' = taps d" "favorites d' = favorites d" "blocks d' = blocks d" "reports d' = reports d"
    and "conversations d' = conversations d" "screenshot_alerts (people d') = screenshot_alerts (people d)"
    and "profiles d' = profiles d" "ph_id ` set (photos d) \<subseteq> ph_id ` set (photos d')"
    and "refresh_tokens d' = refresh_tokens d" "dv_id ` set (devices (office d)) \<subseteq> dv_id ` set (devices (office d'))"
    and "consent_records d' = consent_records d"
  shows "links_wf d'"
  using links_wfD [OF assms(1)] link_parts_mono [OF assms(2,3)] assms(4-) by (simp add: links_wf_def Let_def)

section \<open>The statements keep them\<close>

lemma image_update_where: "(\<And>r. p r \<Longrightarrow> g (f r) = g r) \<Longrightarrow> g ` set (update_where p f rs) = g ` set rs"
  by (metis list.set_map map_update_where_same)

lemma list_all_update_where: "list_all Q rs \<Longrightarrow> (\<And>r. p r \<Longrightarrow> Q r \<Longrightarrow> Q (f r)) \<Longrightarrow> list_all Q (update_where p f rs)"
  by (auto simp: list_all_iff set_update_where)

lemma user_exists_change:
  "(\<And>u. u_id (g u) = u_id u) \<Longrightarrow> user_exists u (d\<lparr>users := update_where q g (users d)\<rparr>) = user_exists u d"
  using image_update_where [where g = u_id and f = g] by (simp add: user_exists_def)

lemma users_links_wf:
  assumes "links_wf d" "\<And>u. u_id (g u) = u_id u"
  shows "links_wf (d\<lparr>users := update_where q g (users d)\<rparr>)"
  by (rule links_frame [OF assms(1)]) (simp_all add: user_exists_change assms(2))

text \<open>A new row takes the next identifier.\<close>

lemma links_next:
  assumes "links_wf d"
  shows "taps_ok (Suc (next_id d)) (\<lambda>u. user_exists u d) (taps d)" "reports_ok (Suc (next_id d)) (\<lambda>u. user_exists u d) (reports d)"
    "sessions_ok (Suc (next_id d)) (dv_id ` set (devices (office d))) (refresh_tokens d)"
    "consents_ok (Suc (next_id d)) (consent_records d)"
  using links_wfD(1,4,5,6) [OF assms] unfolding link_parts by (auto elim!: table_mono)

lemma user_exists_rows [simp]:
  "user_exists u (d\<lparr>taps := a\<rparr>) = user_exists u d" "user_exists u (d\<lparr>reports := b\<rparr>) = user_exists u d"
  "user_exists u (d\<lparr>refresh_tokens := c\<rparr>) = user_exists u d" "user_exists u (d\<lparr>consent_records := e\<rparr>) = user_exists u d"
  "user_exists u (d\<lparr>favorites := f\<rparr>) = user_exists u d" "user_exists u (d\<lparr>blocks := g\<rparr>) = user_exists u d"
  "user_exists u (d\<lparr>conversations := h\<rparr>) = user_exists u d" "user_exists u (d\<lparr>messages := m\<rparr>) = user_exists u d"
  "user_exists u (d\<lparr>conversation_members := i\<rparr>) = user_exists u d" "user_exists u (d\<lparr>message_reactions := j\<rparr>) = user_exists u d"
  "user_exists u (d\<lparr>photos := k\<rparr>) = user_exists u d" "user_exists u (d\<lparr>profiles := l\<rparr>) = user_exists u d"
  "user_exists u (d\<lparr>gallery := n\<rparr>) = user_exists u d" "user_exists u (d\<lparr>people := q\<rparr>) = user_exists u d"
  "user_exists u (d\<lparr>office := x\<rparr>) = user_exists u d" "user_exists u (d\<lparr>next_id := y\<rparr>) = user_exists u d"
  by (simp_all add: user_exists_def)

lemma store_links_wf:
  assumes "links_wf d"
  shows "links_wf (snd (store_refresh_token_sql uid th ends t d))" "links_wf (snd (record_consent_sql uid kind version t d))"
    "links_wf (revoke sel t d)" "links_wf (revoke_one uid sid t d)"
proof -
  note l = links_wfD [OF assms] and up = links_next [OF assms]
  have "sessions_ok (Suc (next_id d)) (dv_id ` set (devices (office d))) (refresh_tokens d @ [r])"
    if "rt_id r = next_id d" "rt_device_id r = None" for r
    using l(5) unfolding sessions_ok_def by (rule table_append) (use that in auto)
  then show "links_wf (snd (store_refresh_token_sql uid th ends t d))"
    using assms l up by (simp add: store_refresh_token_sql_def links_wf_def Let_def)
  have "consents_ok (Suc (next_id d)) (consent_records d @ [r])"
    if "cr_id r = next_id d" "cr_kind r \<in> {''tos'', ''privacy'', ''age'', ''marketing''}" for r
    using l(6) unfolding consents_ok_def by (rule table_append) (use that in auto)
  then show "links_wf (snd (record_consent_sql uid kind version t d))"
    using assms l up by (simp add: record_consent_sql_def links_wf_def Let_def)
  have "sessions_ok (next_id d) (dv_id ` set (devices (office d))) (update_where q (rt_revoked_at_update (\<lambda>_. Some t)) (refresh_tokens d))" for q
    using l(5) unfolding sessions_ok_def by (rule table_update) auto
  then show "links_wf (revoke sel t d)" "links_wf (revoke_one uid sid t d)"
    using l by (simp_all add: links_wf_def Let_def revoke_def revoke_one_def)
qed

lemma relation_links_wf:
  assumes "links_wf d"
  shows "links_wf (snd (create_tap_sql uid target ty t d))" "links_wf (snd (add_favorite_sql uid target t d))"
    "links_wf (drop_favorite uid target d)" "links_wf (snd (block_user_sql uid target reason t d))" "links_wf (drop_block uid target d)"
    "links_wf (snd (create_report_sql uid target kind tid reason t d))"
proof -
  note l = links_wfD [OF assms] and up = links_next [OF assms]
  have "taps_ok (Suc (next_id d)) (\<lambda>u. user_exists u d) (taps d @ [r])"
    if "tp_id r = next_id d" "user_exists (tp_from r) d" "user_exists (tp_to r) d" for r
    using l(1) unfolding taps_ok_def by (rule table_append) (use that in auto)
  then show "links_wf (snd (create_tap_sql uid target ty t d))"
    using assms l up by (simp add: create_tap_sql_def links_wf_def Let_def known_user_exists)
  have "reports_ok (Suc (next_id d)) (\<lambda>u. user_exists u d) (reports d @ [r])"
    if "rp_id r = next_id d" "user_exists (rp_reporter r) d" "user_exists (rp_target_user r) d"
      "rp_target_kind r \<in> set REPORT_KINDS" "rp_status r = ''open''" for r
    using l(4) unfolding reports_ok_def by (rule table_append) (use that in \<open>auto simp: REPORT_STATUSES_def\<close>)
  then show "links_wf (snd (create_report_sql uid target kind tid reason t d))"
    using assms l up by (simp add: create_report_sql_def links_wf_def Let_def known_user_exists)
  show "links_wf (snd (add_favorite_sql uid target t d))" "links_wf (snd (block_user_sql uid target reason t d))"
    using assms l by (simp_all add: add_favorite_sql_def block_user_sql_def links_wf_def Let_def favorites_ok_def blocks_ok_def known_user_exists)
  show "links_wf (drop_favorite uid target d)" "links_wf (drop_block uid target d)"
    using l by (simp_all add: drop_favorite_def drop_block_def links_wf_def Let_def favorites_ok_def blocks_ok_def list_all_iff)
qed

lemma conversation_links_wf:
  assumes "links_wf d"
  shows "links_wf (snd (create_conversation_sql uid target t d))" "links_wf (snd (create_group_sql uid name ids t d))"
    "links_wf (snd (insert_message_sql cid uid msg t d))" "links_wf (drop_conversations p d)"
    "links_wf (d\<lparr>conversations := update_where q (cv_name_update h) (conversations d)\<rparr>)" "links_wf (snd (log_alert_sql uid cid t d))"
proof -
  note l = links_wfD [OF assms] and up = links_next [OF assms]
  have more: "alerts_ok (insert c (cv_id ` set (conversations d))) (screenshot_alerts (people d))" for c
    using l(8) by (auto simp: alerts_ok_def list_all_iff)
  have creators: "creators_ok {u. user_exists u d} (conversations d @ [c])" if "refers {u. user_exists u d} (cv_created_by c)" for c
    using l(7) that by (simp add: creators_ok_def)
  show "links_wf (snd (create_conversation_sql uid target t d))"
    using assms l up more creators by (simp add: create_conversation_sql_def links_wf_def Let_def new_conversation_def)
  have "user_exists uid d" if "list_all (\<lambda>u. known_user u d) (remdups_adj (sort (uid # ids)))"
    using that by (simp only: list_all_iff remdups_adj_set set_sort known_user_exists) simp
  then show "links_wf (snd (create_group_sql uid name ids t d))"
    using assms l up more creators by (simp add: create_group_sql_def links_wf_def Let_def new_conversation_def)
  have "alerts_ok (cv_id ` set (conversations d)) (screenshot_alerts (people d) @ [a])" if "sa_conversation a \<in> cv_id ` set (conversations d)" for a
    using l(8) that by (simp add: alerts_ok_def)
  then show "links_wf (snd (log_alert_sql uid cid t d))"
    using assms l up by (auto simp: log_alert_sql_def links_wf_def Let_def list_ex_iff)
  have same: "cv_id ` set (update_where q f (conversations d)) = cv_id ` set (conversations d)"
    "creators_ok {u. user_exists u d} (update_where q f (conversations d))"
    if "\<And>c. cv_id (f c) = cv_id c \<and> cv_created_by (f c) = cv_created_by c" for q f
    using l(7) that unfolding creators_ok_def by (simp_all add: image_update_where list_all_update_where)
  show "links_wf (snd (insert_message_sql cid uid msg t d))" "links_wf (d\<lparr>conversations := update_where q (cv_name_update h) (conversations d)\<rparr>)"
    using assms l up same by (simp_all add: insert_message_sql_def links_wf_def Let_def)
  have "alerts_ok (cv_id ` {c \<in> set (conversations d). \<not> p (cv_id c)}) (delete_where (\<lambda>a. p (sa_conversation a)) (screenshot_alerts (people d)))"
    using l(8) by (auto simp: alerts_ok_def list_all_iff)
  moreover have "creators_ok {u. user_exists u d} (delete_where (\<lambda>c. p (cv_id c)) (conversations d))"
    using l(7) by (simp add: creators_ok_def list_all_iff)
  ultimately show "links_wf (drop_conversations p d)"
    using l by (simp add: drop_conversations_def links_wf_def Let_def)
qed

lemma photo_links_wf:
  assumes "links_wf d"
  shows "links_wf (snd (insert_photo_sql uid key blur pos primary nsfw t d))" "links_wf (drop_photo uid pid d)"
    "links_wf (set_primary_flag q b d)" "links_wf (snd (register_device_sql uid token platform t d))"
proof -
  note l = links_wfD [OF assms]
  show "links_wf (snd (insert_photo_sql uid key blur pos primary nsfw t d))"
    by (rule links_frame [OF assms]) (auto simp: insert_photo_sql_def user_exists_def)
  show "links_wf (set_primary_flag q b d)"
    by (rule links_frame [OF assms]) (simp_all add: set_primary_flag_def user_exists_def image_update_where)
  show "links_wf (snd (register_device_sql uid token platform t d))"
    by (rule links_frame [OF assms])
       (auto simp: register_device_sql_def user_exists_def image_update_where same_device_def split: option.split)
  show "links_wf (drop_photo uid pid d)"
    using assms l
    by (auto simp: drop_photo_def links_wf_def Let_def user_exists_def pictures_ok_def list_all_iff set_update_where refers_def split: option.splits)
qed

lemma profile_links_wf:
  assumes "links_wf d"
  shows "profile_change f \<Longrightarrow> links_wf (set_profile uid f d)"
    and "(position_ok (f (default_profile uid t)) \<Longrightarrow> profile_change f) \<Longrightarrow> links_wf (snd (upsert_profile_with uid f t d))"
proof -
  note l = links_wfD [OF assms]
  show set: "links_wf (set_profile uid f d)" if "profile_change f" for f
    using l that by (simp add: set_profile_def links_wf_def Let_def user_exists_def pictures_ok_def list_all_update_where profile_change_def)
  show "links_wf (snd (upsert_profile_with uid f t d))" if f: "position_ok (f (default_profile uid t)) \<Longrightarrow> profile_change f"
  proof (cases "position_ok (f (default_profile uid t))")
    case True
    then have "p_profile_photo_id (f (default_profile uid t)) = None"
      using f by (simp add: profile_change_def default_profile_def)
    then show ?thesis
      using assms l set f True by (auto simp: upsert_profile_with_def links_wf_def Let_def user_exists_def pictures_ok_def)
  qed (use assms in \<open>simp add: upsert_profile_with_def\<close>)
qed

section \<open>The contracts\<close>

interpretation links_auth: auth_guarantee st links_wf "\<lambda>_. True" for st
  by unfold_locales
     (simp_all add: store_links_wf set_user_def users_links_wf,
      (erule links_frame;
        simp add: create_user_full_sql_def add_auth_identity_sql_def issue_auth_code_sql_def consume_def user_exists_def)+)

interpretation links_chat: chat_guarantee links_wf uid "\<lambda>_. True" "\<lambda>_. True" for uid
  by unfold_locales
     (simp_all add: relation_links_wf conversation_links_wf drop_shared_def,
      (erule links_frame;
        simp add: unsend_sql_def mark_messages_read_sql_def set_messages_def set_last_read_def mark_viewed_sql_def
          set_reaction_sql_def drop_reaction_def add_group_member_sql_def drop_member_def)+)

lemma add_keys_links_wf: "add_keys aid uid keys t d = Inr d' \<Longrightarrow> links_wf d \<Longrightarrow> links_wf d'"
proof (induction aid uid keys t d rule: add_keys.induct)
  case (2 aid uid key keys t d)
  then obtain e where e: "insert_photo_sql uid key None 0 False False t d = (Inr (next_id d), e)"
    by (auto simp: insert_photo_sql_def split: if_splits)
  then have "links_wf e" using photo_links_wf(1) [OF 2(3), of uid key None 0 False False t] by simp
  then have wf: "links_wf (e\<lparr>gallery := album_photos_update (\<lambda>rs. rs @ [\<lparr>ap_album = aid, ap_photo = next_id d, ap_position = 0\<rparr>]) (gallery e)\<rparr>)"
    by (rule links_frame) simp_all
  have a: "album_by_id aid e \<noteq> None" using e 2(2) by (auto split: if_splits)
  then show ?case using 2(1) [OF e [symmetric] refl a _ wf] 2(2) e by (auto split: if_splits)
qed simp

lemma verification_links_wf:
  assumes "links_wf d"
  shows "links_wf (snd (submit_verification_sql uid key t d))"
proof -
  have "links_wf (d\<lparr>gallery := g, next_id := Suc (next_id d)\<rparr>)" for g
    by (rule links_frame [OF assms]) simp_all
  then show ?thesis
    using assms by (auto simp: submit_verification_sql_def profile_change_def profile_typed_def position_ok_def intro!: profile_links_wf(1))
qed

interpretation links_members: member_guarantee links_wf uid "\<lambda>_. True" "\<lambda>_ _. True" for uid
proof (unfold_locales, goal_cases)
  case (11 d aid keys t)
  then show ?case by (auto simp: add_photos_sql_def split: sum.split intro: add_keys_links_wf)
next
  case (18 d key t)
  then show ?case by (rule verification_links_wf)
next
  case (19 d table put k xs t)
  from 19(2,1) show ?case
    by (cases rule: label_table.cases) (auto simp: replace_labels_sql_def split: sum.split intro!: links_frame [OF 19(1)])
qed (simp_all add: photo_links_wf profile_links_wf store_links_wf conversation_links_wf users_links_wf account_change_def,
     (erule links_frame;
       simp add: create_album_sql_def update_album_sql_def delete_album_sql_def share_album_sql_def unshare_album_sql_def
       remove_entry_sql_def create_story_sql_def delete_story_sql_def Let_def mark_viewed_story_sql_def
       insert_view_sql_def create_event_sql_def upsert_attendee_sql_def
       delete_event_sql_def create_boost_sql_def add_phrase_sql_def add_place_sql_def set_roam_sql_def create_intent_sql_def)+)
end
