(* ===== verification/Platform.thy ===== *)
theory Platform
  imports Links
begin

text \<open>
  The tables of the members' features are well typed and their references hold, in every state that requests of any
  kind can reach: the contracts of authentication, chat and \<open>Members\<close> instantiated by one invariant.
\<close>

section \<open>The tables\<close>

text \<open>The tables, given the next identifier \<open>n\<close>, the users \<open>U\<close> and the photos \<open>P\<close> there are.\<close>

definition photos_ok :: "uuid \<Rightarrow> (uuid \<Rightarrow> bool) \<Rightarrow> photo list \<Rightarrow> bool" where
  "photos_ok n U rows \<longleftrightarrow> table_wf ph_id (\<lambda>p. ph_id p < n \<and> U (ph_user p)) rows"

definition profiles_ok :: "(uuid \<Rightarrow> bool) \<Rightarrow> profile list \<Rightarrow> bool" where
  "profiles_ok U rows \<longleftrightarrow> table_wf p_user_id (\<lambda>p. U (p_user_id p) \<and> profile_typed p) rows"

definition albums_ok :: "uuid \<Rightarrow> (uuid \<Rightarrow> bool) \<Rightarrow> uuid set \<Rightarrow> gallery \<Rightarrow> bool" where
  "albums_ok n U P g \<longleftrightarrow>
     table_wf al_id (\<lambda>a. al_id a < n \<and> U (al_owner a)) (albums g)
     \<and> table_wf (\<lambda>r. (ap_album r, ap_photo r)) (\<lambda>r. ap_album r \<in> al_id ` set (albums g) \<and> ap_photo r \<in> P) (album_photos g)
     \<and> table_wf (\<lambda>r. (sh_album r, sh_user r)) (\<lambda>r. sh_album r \<in> al_id ` set (albums g) \<and> U (sh_user r)) (album_shares g)"

definition stories_ok :: "uuid \<Rightarrow> (uuid \<Rightarrow> bool) \<Rightarrow> gallery \<Rightarrow> bool" where
  "stories_ok n U g \<longleftrightarrow>
     table_wf so_id (\<lambda>s. so_id s < n \<and> U (so_user s) \<and> so_media_type s \<in> {''photo'', ''video''}
                        \<and> so_expires_at s = so_created_at s + hours 24) (stories g)
     \<and> table_wf (\<lambda>v. (sv_story v, sv_user v)) (\<lambda>v. sv_story v \<in> so_id ` set (stories g) \<and> U (sv_user v)) (story_views g)"

definition events_ok :: "uuid \<Rightarrow> (uuid \<Rightarrow> bool) \<Rightarrow> gallery \<Rightarrow> bool" where
  "events_ok n U g \<longleftrightarrow>
     table_wf evt_id (\<lambda>e. evt_id e < n \<and> U (evt_creator e) \<and> 0 \<le> evt_max_attendees e) (events g)
     \<and> table_wf (\<lambda>a. (att_event a, att_user a))
         (\<lambda>a. att_event a \<in> evt_id ` set (events g) \<and> U (att_user a) \<and> att_status a \<in> {''going'', ''maybe''}) (event_attendees g)"

definition requests_ok :: "uuid \<Rightarrow> (uuid \<Rightarrow> bool) \<Rightarrow> gallery \<Rightarrow> bool" where
  "requests_ok n U g \<longleftrightarrow> table_wf vr_id (\<lambda>r. vr_id r < n \<and> U (vr_user r)) (verification_requests g)"

definition labels_ok :: "(uuid \<Rightarrow> bool) \<Rightarrow> people \<Rightarrow> bool" where
  "labels_ok U p \<longleftrightarrow>
     table_wf id (\<lambda>r. U (fst r)) (profile_tribes p) \<and> table_wf id (\<lambda>r. U (fst r)) (profile_looking_for p)
     \<and> table_wf id (\<lambda>r. U (fst r)) (profile_meet_at p) \<and> table_wf id (\<lambda>r. U (fst r)) (profile_tags p)"

definition people_ok :: "uuid \<Rightarrow> (uuid \<Rightarrow> bool) \<Rightarrow> people \<Rightarrow> bool" where
  "people_ok n U p \<longleftrightarrow>
     labels_ok U p
     \<and> table_wf pw_id (\<lambda>v. pw_id v < n \<and> U (pw_viewer v) \<and> U (pw_target v)) (profile_views p)
     \<and> table_wf lo_user (\<lambda>l. U (lo_user l)) (locations p)
     \<and> table_wf bo_id (\<lambda>b. bo_id b < n \<and> U (bo_user b) \<and> bo_source b \<in> {''manual'', ''package'', ''trial''}) (boosts p)
     \<and> table_wf sp_id (\<lambda>x. sp_id x < n \<and> U (sp_user x)) (saved_phrases p)
     \<and> table_wf sl_id (\<lambda>x. sl_id x < n \<and> U (sl_user x)) (saved_places p)
     \<and> table_wf lp_user (\<lambda>x. U (lp_user x)) (user_location_pref p)
     \<and> table_wf rn_id (\<lambda>x. rn_id x < n \<and> U (rn_user x)) (right_now_intents p)
     \<and> table_wf sa_id (\<lambda>x. sa_id x < n \<and> U (sa_user x)) (screenshot_alerts p)"

definition devices_ok :: "uuid \<Rightarrow> (uuid \<Rightarrow> bool) \<Rightarrow> device list \<Rightarrow> bool" where
  "devices_ok n U rows \<longleftrightarrow>
     table_wf dv_id (\<lambda>v. dv_id v < n \<and> U (dv_user v) \<and> (case dv_platform v of None \<Rightarrow> True | Some x \<Rightarrow> x \<in> set PLATFORMS)) rows"

definition member_wf :: "db \<Rightarrow> bool" where
  "member_wf d \<longleftrightarrow>
     (let n = next_id d; U = (\<lambda>u. user_exists u d)
      in photos_ok n U (photos d) \<and> profiles_ok U (profiles d) \<and> albums_ok n U (ph_id ` set (photos d)) (gallery d)
         \<and> stories_ok n U (gallery d) \<and> events_ok n U (gallery d) \<and> requests_ok n U (gallery d) \<and> people_ok n U (people d)
         \<and> devices_ok n U (devices (office d)))"

lemmas member_parts = photos_ok_def profiles_ok_def albums_ok_def stories_ok_def events_ok_def requests_ok_def
  labels_ok_def people_ok_def devices_ok_def

text \<open>More identifiers and more users keep the tables well formed.\<close>

lemma parts_mono:
  assumes "n \<le> n'" "\<And>u. U u \<Longrightarrow> U' u"
  shows "photos_ok n U ps \<Longrightarrow> photos_ok n' U' ps" "profiles_ok U qs \<Longrightarrow> profiles_ok U' qs"
    "albums_ok n U P g \<Longrightarrow> albums_ok n' U' P g" "stories_ok n U g \<Longrightarrow> stories_ok n' U' g" "events_ok n U g \<Longrightarrow> events_ok n' U' g"
    "requests_ok n U g \<Longrightarrow> requests_ok n' U' g" "people_ok n U p \<Longrightarrow> people_ok n' U' p" "devices_ok n U vs \<Longrightarrow> devices_ok n' U' vs"
  using assms unfolding member_parts by (auto elim!: table_mono)

lemma member_frame:
  assumes "member_wf d" "next_id d \<le> next_id d'" "\<And>u. user_exists u d \<Longrightarrow> user_exists u d'"
    and "photos d' = photos d" "profiles d' = profiles d" "gallery d' = gallery d" "people d' = people d"
    and "devices (office d') = devices (office d)"
  shows "member_wf d'"
  using assms parts_mono [OF assms(2,3)] by (simp add: member_wf_def Let_def)

section \<open>The statements keep them\<close>

lemma member_wfD:
  assumes "member_wf d"
  shows "photos_ok (next_id d) (\<lambda>u. user_exists u d) (photos d)" "profiles_ok (\<lambda>u. user_exists u d) (profiles d)"
    "albums_ok (next_id d) (\<lambda>u. user_exists u d) (ph_id ` set (photos d)) (gallery d)"
    "stories_ok (next_id d) (\<lambda>u. user_exists u d) (gallery d)" "events_ok (next_id d) (\<lambda>u. user_exists u d) (gallery d)"
    "requests_ok (next_id d) (\<lambda>u. user_exists u d) (gallery d)" "people_ok (next_id d) (\<lambda>u. user_exists u d) (people d)"
    "devices_ok (next_id d) (\<lambda>u. user_exists u d) (devices (office d))"
  using assms by (simp_all add: member_wf_def Let_def)

lemma parts_Suc:
  "photos_ok n U ps \<Longrightarrow> photos_ok (Suc n) U ps" "albums_ok n U P g \<Longrightarrow> albums_ok (Suc n) U P g"
  "stories_ok n U g \<Longrightarrow> stories_ok (Suc n) U g" "events_ok n U g \<Longrightarrow> events_ok (Suc n) U g"
  "requests_ok n U g \<Longrightarrow> requests_ok (Suc n) U g" "people_ok n U p \<Longrightarrow> people_ok (Suc n) U p"
  "devices_ok n U vs \<Longrightarrow> devices_ok (Suc n) U vs"
  by (simp_all add: parts_mono [of n "Suc n" U U])

lemma albums_ok_photos: "albums_ok n U P g \<Longrightarrow> P \<subseteq> P' \<Longrightarrow> albums_ok n U P' g"
  by (auto simp: albums_ok_def elim!: table_mono)

lemma insert_photo_member_wf:
  assumes "member_wf d"
  shows "member_wf (snd (insert_photo_sql uid key blur pos primary nsfw t d))"
proof (cases "known_user uid d")
  case True
  note w = member_wfD [OF assms]
  have "photos_ok (Suc (next_id d)) (\<lambda>u. user_exists u d) (photos d @ [new_photo (next_id d) uid key blur pos primary nsfw t])"
    using w(1) unfolding photos_ok_def by (rule table_append) (use True in \<open>auto simp: new_photo_def known_user_exists\<close>)
  moreover have "albums_ok (Suc (next_id d)) (\<lambda>u. user_exists u d) (insert (next_id d) (ph_id ` set (photos d))) (gallery d)"
    by (rule albums_ok_photos [OF parts_Suc(2) [OF w(3)]]) blast
  ultimately show ?thesis
    using True w(2,4-8) parts_Suc(3-7) by (simp add: insert_photo_sql_def member_wf_def Let_def new_photo_def)
qed (use assms in \<open>simp add: insert_photo_sql_def\<close>)

lemma drop_photo_member_wf: "member_wf d \<Longrightarrow> member_wf (drop_photo uid pid d)"
proof -
  assume wf: "member_wf d"
  note w = member_wfD [OF wf]
  let ?U = "\<lambda>u. user_exists u d" and ?kept = "delete_where (\<lambda>p. ph_id p = pid \<and> ph_user p = uid) (photos d)"
  show ?thesis
  proof (cases "user_photo uid pid d")
    case (Some p)
    have "photos_ok (next_id d) ?U ?kept" using w(1) by (simp add: photos_ok_def table_delete)
    moreover have "profiles_ok ?U (update_where (\<lambda>p. p_profile_photo_id p = Some pid) (p_profile_photo_id_update (\<lambda>_. None)) (profiles d))"
      using w(2) unfolding profiles_ok_def by (rule table_update) (auto simp: profile_typed_def position_ok_def)
    moreover have "albums_ok (next_id d) ?U (ph_id ` set ?kept) (album_photos_update (delete_where (\<lambda>r. ap_photo r = pid)) (gallery d))"
      using w(3) by (auto simp: albums_ok_def elim!: table_cascade)
    ultimately show ?thesis
      using Some w(4-8) by (simp add: drop_photo_def member_wf_def Let_def stories_ok_def events_ok_def requests_ok_def)
  qed (use wf in \<open>simp add: drop_photo_def\<close>)
qed

lemma flag_member_wf: "member_wf d \<Longrightarrow> member_wf (set_primary_flag p b d)"
proof -
  assume "member_wf d"
  note w = member_wfD [OF this]
  have "photos_ok (next_id d) (\<lambda>u. user_exists u d) (update_where p (ph_is_primary_update (\<lambda>_. b)) (photos d))"
    using w(1) unfolding photos_ok_def by (rule table_update) auto
  moreover have "ph_id ` set (update_where p (ph_is_primary_update (\<lambda>_. b)) (photos d)) = ph_id ` set (photos d)"
    by (rule image_update_where) simp
  ultimately show ?thesis using w by (simp add: set_primary_flag_def member_wf_def Let_def)
qed

lemma profile_member_wf:
  assumes "member_wf d"
  shows "profile_change f \<Longrightarrow> member_wf (set_profile uid f d)"
    and "(position_ok (f (default_profile uid t)) \<Longrightarrow> profile_change f) \<Longrightarrow> member_wf (snd (upsert_profile_with uid f t d))"
proof -
  note w = member_wfD [OF assms]
  show set: "member_wf (set_profile uid f d)" if f: "profile_change f" for f
  proof -
    have "profiles_ok (\<lambda>u. user_exists u d) (update_where (\<lambda>p. p_user_id p = uid) f (profiles d))"
      using w(2) unfolding profiles_ok_def by (rule table_update) (use f in \<open>auto simp: profile_change_def\<close>)
    then show ?thesis using w by (simp add: set_profile_def member_wf_def Let_def)
  qed
  show "member_wf (snd (upsert_profile_with uid f t d))" if f: "position_ok (f (default_profile uid t)) \<Longrightarrow> profile_change f"
  proof (cases "position_ok (f (default_profile uid t)) \<and> profile_of uid d = None \<and> known_user uid d")
    case True
    have "\<not> list_ex (\<lambda>p. p_user_id p = uid) (profiles d)"
      using True by (simp add: profile_of_def find_NoneD list_ex_iff)
    moreover have "profile_typed (default_profile uid t)"
      by (simp add: profile_typed_def default_profile_def position_ok_def is_object_def)
    ultimately have "profiles_ok (\<lambda>u. user_exists u d) (profiles d @ [f (default_profile uid t)])"
      using w(2) f True unfolding profiles_ok_def
      by (intro table_insert) (auto simp: profile_change_def default_profile_def known_user_exists)
    then show ?thesis using w True by (simp add: upsert_profile_with_def member_wf_def Let_def)
  next
    case False
    then show ?thesis using assms set f by (auto simp: upsert_profile_with_def)
  qed
qed

lemma account_member_wf:
  assumes "member_wf d" "\<And>u. u_id (g u) = u_id u"
  shows "member_wf (d\<lparr>users := update_where q g (users d)\<rparr>)"
proof -
  have "user_exists u (d\<lparr>users := update_where q g (users d)\<rparr>) = user_exists u d" for u
    using image_update_where [where g = u_id and f = g] assms(2) by (simp add: user_exists_def)
  then show ?thesis using assms(1) by (intro member_frame [OF assms(1)]) simp_all
qed

text \<open>Changes of the tables of \<open>gallery\<close>.\<close>

lemma gallery_member_wf:
  assumes "member_wf d" "next_id d \<le> n"
    and "albums_ok n (\<lambda>u. user_exists u d) (ph_id ` set (photos d)) g"
    and "stories_ok n (\<lambda>u. user_exists u d) g" "events_ok n (\<lambda>u. user_exists u d) g" "requests_ok n (\<lambda>u. user_exists u d) g"
  shows "member_wf (d\<lparr>gallery := g, next_id := n\<rparr>)"
  using assms member_wfD [OF assms(1)] parts_mono [OF assms(2), of "\<lambda>u. user_exists u d" "\<lambda>u. user_exists u d"]
  by (simp add: member_wf_def Let_def)

lemma gallery_member_wf_same:
  assumes "member_wf d" "albums_ok (next_id d) (\<lambda>u. user_exists u d) (ph_id ` set (photos d)) g"
    and "stories_ok (next_id d) (\<lambda>u. user_exists u d) g" "events_ok (next_id d) (\<lambda>u. user_exists u d) g"
    and "requests_ok (next_id d) (\<lambda>u. user_exists u d) g"
  shows "member_wf (d\<lparr>gallery := g\<rparr>)"
  using assms member_wfD [OF assms(1)] by (simp add: member_wf_def Let_def)

lemma gallery_parts_frame [simp]:
  "albums_ok n U P (stories_update ft g) = albums_ok n U P g" "albums_ok n U P (story_views_update fv g) = albums_ok n U P g"
  "albums_ok n U P (events_update fe g) = albums_ok n U P g" "albums_ok n U P (event_attendees_update fn g) = albums_ok n U P g"
  "albums_ok n U P (verification_requests_update fr g) = albums_ok n U P g" "stories_ok n U (albums_update fa g) = stories_ok n U g"
  "stories_ok n U (album_photos_update fp g) = stories_ok n U g" "stories_ok n U (album_shares_update fs g) = stories_ok n U g"
  "stories_ok n U (events_update fe g) = stories_ok n U g" "stories_ok n U (event_attendees_update fn g) = stories_ok n U g"
  "stories_ok n U (verification_requests_update fr g) = stories_ok n U g" "events_ok n U (albums_update fa g) = events_ok n U g"
  "events_ok n U (album_photos_update fp g) = events_ok n U g" "events_ok n U (album_shares_update fs g) = events_ok n U g"
  "events_ok n U (stories_update ft g) = events_ok n U g" "events_ok n U (story_views_update fv g) = events_ok n U g"
  "events_ok n U (verification_requests_update fr g) = events_ok n U g" "requests_ok n U (albums_update fa g) = requests_ok n U g"
  "requests_ok n U (album_photos_update fp g) = requests_ok n U g" "requests_ok n U (album_shares_update fs g) = requests_ok n U g"
  "requests_ok n U (stories_update ft g) = requests_ok n U g" "requests_ok n U (story_views_update fv g) = requests_ok n U g"
  "requests_ok n U (events_update fe g) = requests_ok n U g" "requests_ok n U (event_attendees_update fn g) = requests_ok n U g"
  by (simp_all add: albums_ok_def stories_ok_def events_ok_def requests_ok_def)

lemmas gallery_parts = albums_ok_def stories_ok_def events_ok_def requests_ok_def

lemma albums_member_wf:
  assumes "member_wf d"
  shows "member_wf (snd (create_album_sql uid nm ds pr t d))" "member_wf (snd (update_album_sql aid uid nm' ds hid t d))"
    "member_wf (snd (delete_album_sql aid uid t d))" "member_wf (snd (remove_entry_sql aid pid t d))"
    "member_wf (snd (share_album_sql aid target expires t d))" "member_wf (snd (unshare_album_sql aid target t d))"
proof -
  note w = member_wfD [OF assms] and same = gallery_member_wf_same [OF assms]
  note albums = w(3) [unfolded albums_ok_def] and rest = w(4-6) [unfolded gallery_parts]
  show "member_wf (snd (create_album_sql uid nm ds pr t d))"
  proof (cases "known_user uid d")
    case True
    let ?a = "\<lparr>al_id = next_id d, al_owner = uid, al_name = Some nm, al_description = ds, al_is_private = pr, al_created_at = t\<rparr>"
    have "table_wf al_id (\<lambda>a. al_id a < Suc (next_id d) \<and> user_exists (al_owner a) d) (albums (gallery d) @ [?a])"
      using True albums by (auto simp: known_user_exists intro: table_append)
    then have "albums_ok (Suc (next_id d)) (\<lambda>u. user_exists u d) (ph_id ` set (photos d))
        (albums_update (\<lambda>as. as @ [?a]) (gallery d))"
      using albums by (auto simp: albums_ok_def elim: table_mono)
    then show ?thesis
      using True w(4-6) parts_Suc(3-5)
      by (auto simp: create_album_sql_def intro!: gallery_member_wf [OF assms])
  qed (use assms in \<open>simp add: create_album_sql_def\<close>)
  show "member_wf (snd (update_album_sql aid uid nm' ds hid t d))"
    unfolding update_album_sql_def snd_conv
    by (rule same)
       (use albums rest in \<open>auto simp: gallery_parts image_update_where owned_album_def elim!: table_update\<close>)
  show "member_wf (snd (delete_album_sql aid uid t d))"
    using assms unfolding delete_album_sql_def
    by (auto intro!: same) (use albums rest in \<open>auto simp: gallery_parts owned_album_def elim!: table_cascade table_delete\<close>)
  show "member_wf (snd (remove_entry_sql aid pid t d))"
    unfolding remove_entry_sql_def snd_conv
    by (rule same) (use albums rest in \<open>auto simp: gallery_parts elim!: table_delete\<close>)
  show "member_wf (snd (share_album_sql aid target expires t d))"
  proof (cases "album_by_id aid d = None \<or> \<not> known_user target d")
    case False
    then obtain a where a: "a \<in> set (albums (gallery d))" "al_id a = aid"
      by (auto simp: album_by_id_def dest: find_SomeD)
    show ?thesis
      using False unfolding share_album_sql_def if_not_P [OF False] snd_conv
      by (intro same) (use albums rest a in \<open>auto simp: gallery_parts share_key_def known_user_exists list_ex_iff
        elim!: table_update intro!: table_insert\<close>)
  qed (use assms in \<open>simp add: share_album_sql_def\<close>)
  show "member_wf (snd (unshare_album_sql aid target t d))"
    unfolding unshare_album_sql_def snd_conv
    by (rule same) (use albums rest in \<open>auto simp: gallery_parts elim!: table_update\<close>)
qed

lemma stories_member_wf:
  assumes "member_wf d"
  shows "media_type \<in> {''photo'', ''video''} \<Longrightarrow> member_wf (snd (create_story_sql uid key media_type caption t d))"
    "member_wf (snd (delete_story_sql sid uid t d))" "member_wf (snd (mark_viewed_story_sql sid uid t d))"
proof -
  note w = member_wfD [OF assms] and same = gallery_member_wf_same [OF assms]
  note stories = w(4) [unfolded stories_ok_def]
  show "member_wf (snd (create_story_sql uid key media_type caption t d))" if m: "media_type \<in> {''photo'', ''video''}"
  proof (cases "known_user uid d")
    case True
    let ?s = "\<lparr>so_id = next_id d, so_user = uid, so_media_key = key, so_media_type = media_type, so_caption = caption,
      so_created_at = t, so_expires_at = t + hours 24\<rparr>"
    have "stories_ok (Suc (next_id d)) (\<lambda>u. user_exists u d) (stories_update (\<lambda>ss. ss @ [?s]) (gallery d))"
      using stories True m by (auto simp: stories_ok_def known_user_exists elim!: table_mono intro!: table_append [OF conjunct1 [OF stories]])
    then show ?thesis
      using True w(3,5,6) parts_Suc(2,4,5) by (auto simp: create_story_sql_def intro!: gallery_member_wf [OF assms])
  qed (use assms in \<open>simp add: create_story_sql_def\<close>)
  show "member_wf (snd (delete_story_sql sid uid t d))"
  proof -
    have "stories_ok (next_id d) (\<lambda>u. user_exists u d) ((gallery d)\<lparr>stories := delete_where (owned_story sid uid) (stories (gallery d)),
        story_views := delete_where (\<lambda>v. sv_story v = sid) (story_views (gallery d))\<rparr>)"
      using stories by (auto simp: stories_ok_def owned_story_def intro: table_delete elim!: table_cascade)
    then show ?thesis using assms w(3,5,6) by (auto simp: delete_story_sql_def Let_def intro!: same)
  qed
  show "member_wf (snd (mark_viewed_story_sql sid uid t d))"
  proof (cases "list_ex (seen_by sid uid) (story_views (gallery d)) \<or> \<not> list_ex (\<lambda>s. so_id s = sid) (stories (gallery d)) \<or> \<not> known_user uid d")
    case False
    then have "sid \<in> so_id ` set (stories (gallery d))" "user_exists uid d"
      by (auto simp: list_ex_iff known_user_exists)
    then have "stories_ok (next_id d) (\<lambda>u. user_exists u d)
        (story_views_update (\<lambda>vs. vs @ [\<lparr>sv_story = sid, sv_user = uid, sv_viewed_at = t\<rparr>]) (gallery d))"
      using False stories by (simp add: stories_ok_def seen_by_def [abs_def] table_insert)
    then show ?thesis using False w(3,5,6) by (auto simp: mark_viewed_story_sql_def intro!: same)
  qed (use assms in \<open>auto simp: mark_viewed_story_sql_def\<close>)
qed

lemma events_member_wf:
  assumes "member_wf d"
  shows "0 \<le> capacity \<Longrightarrow> member_wf (snd (create_event_sql uid req starts ends capacity t d))"
    "state \<in> {''going'', ''maybe''} \<Longrightarrow> member_wf (snd (upsert_attendee_sql eid uid state t d))"
    "member_wf (snd (delete_event_sql eid uid t d))"
proof -
  note w = member_wfD [OF assms] and same = gallery_member_wf_same [OF assms]
  note events = w(5) [unfolded events_ok_def]
  show "member_wf (snd (create_event_sql uid req starts ends capacity t d))" if c: "0 \<le> capacity"
  proof (cases "known_user uid d")
    case True
    let ?e = "new_event (next_id d) uid req starts ends capacity t"
    have "events_ok (Suc (next_id d)) (\<lambda>u. user_exists u d) (events_update (\<lambda>es. es @ [?e]) (gallery d))"
      using events True c
      by (auto simp: events_ok_def known_user_exists new_event_def elim!: table_mono intro!: table_append [OF conjunct1 [OF events]])
    then show ?thesis
      using True w(3,4,6) parts_Suc(2,3,5) by (auto simp: create_event_sql_def intro!: gallery_member_wf [OF assms])
  qed (use assms in \<open>simp add: create_event_sql_def\<close>)
  show "member_wf (snd (upsert_attendee_sql eid uid state t d))" if st: "state \<in> {''going'', ''maybe''}"
  proof (cases "list_ex (attends eid uid) (event_attendees (gallery d))")
    case True
    have "events_ok (next_id d) (\<lambda>u. user_exists u d)
        (event_attendees_update (update_where (attends eid uid) (att_status_update (\<lambda>_. state))) (gallery d))"
      using events st by (auto simp: events_ok_def elim!: table_update)
    then show ?thesis using True w(3,4,6) by (auto simp: upsert_attendee_sql_def intro!: same)
  next
    case False
    have "eid \<in> evt_id ` set (events (gallery d))" if "event_by_id eid d \<noteq> None"
      using that by (auto simp: event_by_id_def find_None_iff)
    then have "events_ok (next_id d) (\<lambda>u. user_exists u d)
        (event_attendees_update (\<lambda>as. as @ [\<lparr>att_event = eid, att_user = uid, att_status = state, att_created_at = t\<rparr>]) (gallery d))"
      if "event_by_id eid d \<noteq> None" "known_user uid d"
      using that events st False by (auto simp: events_ok_def known_user_exists attends_def list_ex_iff intro!: table_insert)
    then show ?thesis using assms False w(3,4,6) by (auto simp: upsert_attendee_sql_def intro!: same)
  qed
  show "member_wf (snd (delete_event_sql eid uid t d))"
  proof -
    have "events_ok (next_id d) (\<lambda>u. user_exists u d) ((gallery d)\<lparr>events := delete_where (own_event eid uid) (events (gallery d)),
        event_attendees := delete_where (\<lambda>a. att_event a = eid) (event_attendees (gallery d))\<rparr>)"
      using events by (auto simp: events_ok_def own_event_def intro: table_delete elim!: table_cascade)
    then show ?thesis using assms w(3,4,6) by (auto simp: delete_event_sql_def Let_def intro!: same)
  qed
qed

lemma verification_member_wf: "member_wf d \<Longrightarrow> member_wf (snd (submit_verification_sql uid key t d))"
proof (cases "known_user uid d")
  case True
  assume wf: "member_wf d"
  note w = member_wfD [OF this]
  let ?r = "\<lparr>vr_id = next_id d, vr_user = uid, vr_photo_key = key, vr_status = ''pending'', vr_created_at = t, vr_reviewed_at = None\<rparr>"
  have "requests_ok (Suc (next_id d)) (\<lambda>u. user_exists u d) (verification_requests_update (\<lambda>rs. rs @ [?r]) (gallery d))"
    using w(6) True by (auto simp: requests_ok_def known_user_exists intro: table_append)
  then have "member_wf (d\<lparr>gallery := verification_requests_update (\<lambda>rs. rs @ [?r]) (gallery d), next_id := Suc (next_id d)\<rparr>)"
    using w(3-5) parts_Suc(2-4) by (auto intro!: gallery_member_wf [OF wf])
  then have "member_wf (set_profile uid (p_verification_submitted_at_update (\<lambda>_. Some t))
      (d\<lparr>gallery := verification_requests_update (\<lambda>rs. rs @ [?r]) (gallery d), next_id := Suc (next_id d)\<rparr>))"
    by (rule profile_member_wf(1)) (simp add: profile_change_def profile_typed_def position_ok_def)
  then show ?thesis using True by (simp add: submit_verification_sql_def)
qed (simp add: submit_verification_sql_def)

lemma people_member_wf:
  assumes "member_wf d" "next_id d \<le> n" "people_ok n (\<lambda>u. user_exists u d) p"
  shows "member_wf (d\<lparr>people := p, next_id := n\<rparr>)"
  using assms member_wfD [OF assms(1)] parts_mono [OF assms(2), of "\<lambda>u. user_exists u d" "\<lambda>u. user_exists u d"]
  by (simp add: member_wf_def Let_def)

lemma people_member_wf_same:
  "member_wf d \<Longrightarrow> people_ok (next_id d) (\<lambda>u. user_exists u d) p \<Longrightarrow> member_wf (d\<lparr>people := p\<rparr>)"
  using people_member_wf [of d "next_id d" p] by simp

lemma labels_member_wf:
  assumes "member_wf d" "label_table table put"
  shows "member_wf (snd (replace_labels_sql table put k uid xs t d))"
proof -
  have w: "people_ok (next_id d) (\<lambda>u. user_exists u d) (people d)" using member_wfD(7) [OF assms(1)] .
  have new: "table_wf id (\<lambda>r. user_exists (fst r) d) rows'"
    if "replace_labels k uid xs d rows = Inr rows'" "table_wf id (\<lambda>r. user_exists (fst r) d) rows" for rows rows' :: "label_row list"
    using that
    by (auto simp: replace_labels_def Let_def table_wf_def known_user_exists list_all_iff distinct_map inj_on_def delete_where_def split: if_splits)
  show ?thesis
    using assms(2)
    by (cases rule: label_table.cases)
       (use assms(1) w in \<open>auto simp: replace_labels_sql_def people_ok_def labels_ok_def split: sum.split
          intro!: people_member_wf_same dest: new\<close>)
qed

lemma feature_member_wf:
  assumes "member_wf d"
  shows "member_wf (snd (insert_view_sql uid target t d))" "member_wf (snd (create_boost_sql uid secs source t d))"
    "member_wf (snd (add_phrase_sql uid phrase t d))" "member_wf (snd (add_place_sql uid place lat lon t d))"
    "member_wf (snd (set_roam_sql uid lat lon label roam t d))" "member_wf (snd (create_intent_sql uid body expiry t d))"
    "member_wf (snd (log_alert_sql uid cid t d))"
  using assms member_wfD(7) [OF assms]
  by (auto simp: insert_view_sql_def create_boost_sql_def add_phrase_sql_def add_place_sql_def set_roam_sql_def
      create_intent_sql_def log_alert_sql_def people_ok_def labels_ok_def known_user_exists list_ex_iff Let_def
      intro!: people_member_wf people_member_wf_same elim!: table_mono table_append table_update table_insert)

lemma phrases_member_wf:
  assumes "member_wf d"
    and "\<And>ps. map sp_id (h ps) = map sp_id ps \<and> map sp_user (h ps) = map sp_user ps \<or> (\<exists>q. h ps = delete_where q ps)"
  shows "member_wf (d\<lparr>people := saved_phrases_update h (people d)\<rparr>)"
proof -
  let ?P = "\<lambda>x. sp_id x < next_id d \<and> user_exists (sp_user x) d"
  have w: "people_ok (next_id d) (\<lambda>u. user_exists u d) (people d)" using member_wfD(7) [OF assms(1)] .
  have via: "list_all ?P ps \<longleftrightarrow> (\<forall>i \<in> set (map sp_id ps). i < next_id d) \<and> (\<forall>u \<in> set (map sp_user ps). user_exists u d)" for ps
    by (auto simp: list_all_iff)
  have "table_wf sp_id ?P (h ps)" if "table_wf sp_id ?P ps" for ps
    using assms(2) [of ps]
  proof
    assume "map sp_id (h ps) = map sp_id ps \<and> map sp_user (h ps) = map sp_user ps"
    then show ?thesis using that unfolding table_wf_def via by simp
  qed (use that in \<open>auto intro: table_delete\<close>)
  then show ?thesis using w by (auto simp: people_ok_def labels_ok_def intro!: people_member_wf_same [OF assms(1)])
qed

lemma drop_features_member_wf:
  assumes "member_wf d"
  shows "member_wf (d\<lparr>people := saved_places_update (delete_where q) (people d)\<rparr>)"
    "member_wf (d\<lparr>people := right_now_intents_update (delete_where q') (people d)\<rparr>)"
    "member_wf (revoke_one uid sid t d)"
  using assms member_wfD(7) [OF assms] member_frame [OF assms, of "revoke_one uid sid t d"]
  by (auto simp: people_ok_def labels_ok_def revoke_one_def intro!: people_member_wf_same table_delete)

lemma device_member_wf: "member_wf d \<Longrightarrow> member_wf (snd (register_device_sql uid token platform t d))"
proof -
  assume wf: "member_wf d"
  note w = member_wfD [OF wf]
  have keep: "devices_ok (next_id d) (\<lambda>u. user_exists u d)
      (update_where (same_device uid token) (\<lambda>v. v\<lparr>dv_platform := Some platform, dv_last_seen_at := Some t\<rparr>) (devices (office d)))"
    if "platform \<in> set PLATFORMS"
    using w(8) that unfolding devices_ok_def by (intro table_update) auto
  have add: "devices_ok (Suc (next_id d)) (\<lambda>u. user_exists u d) (devices (office d) @ [v])"
    if "platform \<in> set PLATFORMS" "dv_id v = next_id d" "user_exists (dv_user v) d" "dv_platform v = Some platform" for v
    using w(8) unfolding devices_ok_def by (rule table_append) (use that in auto)
  show ?thesis
    using wf w keep add parts_Suc
    by (auto simp: register_device_sql_def known_user_exists member_wf_def Let_def split: option.split)
qed

lemma add_photos_member_wf:
  assumes "member_wf d"
  shows "member_wf (snd (add_photos_sql aid uid keys t d))"
proof -
  have "add_keys aid uid keys t d = Inr d' \<Longrightarrow> member_wf d \<Longrightarrow> member_wf d'" for d d'
  proof (induction aid uid keys t d rule: add_keys.induct)
    case (2 aid uid key keys t d)
    then obtain e where e: "insert_photo_sql uid key None 0 False False t d = (Inr (next_id d), e)"
      by (auto simp: insert_photo_sql_def split: if_splits)
    then have wf: "member_wf e" using insert_photo_member_wf [OF 2(3), of uid key None 0 False False t] by simp
    from e 2(2) have a: "album_by_id aid e \<noteq> None" by (auto split: if_splits)
    let ?e = "e\<lparr>gallery := album_photos_update (\<lambda>rs. rs @ [\<lparr>ap_album = aid, ap_photo = next_id d, ap_position = 0\<rparr>]) (gallery e)\<rparr>"
    have "\<forall>r \<in> set (album_photos (gallery d)). ap_photo r < next_id d"
      using member_wfD(1,3) [OF 2(3)] by (auto simp: photos_ok_def albums_ok_def table_wf_def list_all_iff)
    then have new: "next_id d \<in> ph_id ` set (photos e)" "\<forall>r \<in> set (album_photos (gallery e)). ap_photo r \<noteq> next_id d"
      using e by (auto simp: insert_photo_sql_def new_photo_def split: if_splits dest: less_imp_neq)
    have "aid \<in> al_id ` set (albums (gallery e))" using a by (auto simp: album_by_id_def find_None_iff)
    with new have "albums_ok (next_id e) (\<lambda>u. user_exists u e) (ph_id ` set (photos e)) (gallery ?e)"
      using member_wfD(3) [OF wf] by (auto simp: albums_ok_def list_ex_iff intro!: table_insert)
    then have "member_wf ?e" using member_wfD(4-6) [OF wf] by (auto intro!: gallery_member_wf_same [OF wf])
    then show ?case using 2(1) [OF e [symmetric] refl a] 2(2) e a by simp
  qed simp
  then show ?thesis using assms by (auto simp: add_photos_sql_def split: sum.split)
qed

section \<open>The contracts\<close>

definition platform_wf :: "app \<Rightarrow> db \<Rightarrow> bool" where
  "platform_wf st d \<longleftrightarrow> service_wf st d \<and> member_wf d \<and> links_wf d"

lemma service_frame:
  assumes "service_wf st d" "users d' = users d" "auth_identities d' = auth_identities d" "refresh_tokens d' = refresh_tokens d"
    "consent_records d' = consent_records d" "auth_codes d' = auth_codes d" "conversations d' = conversations d"
    "conversation_members d' = conversation_members d" "messages d' = messages d" "message_reactions d' = message_reactions d"
    "favorites d' = favorites d" "blocks d' = blocks d" "taps d' = taps d" "next_id d \<le> next_id d'"
  shows "service_wf st d'"
  using assms auth_wf_frame [of st d d'] chat_wf_frame [of d d'] by (simp add: service_wf_def)

lemma account_service_wf:
  assumes "service_wf st d" "account_change g"
  shows "service_wf st (d\<lparr>users := update_where q g (users d)\<rparr>)"
proof -
  let ?d = "d\<lparr>users := update_where q g (users d)\<rparr>"
  have same: "map f (users ?d) = map f (users d)" if "\<And>u. f (g u) = f u" for f :: "user_rec \<Rightarrow> 'x"
    using that by (simp add: map_update_where_same)
  have exists: "user_exists u ?d = user_exists u d" for u
    using image_update_where [where g = u_id and f = g] assms(2) by (simp add: user_exists_def account_change_def)
  have "users_wf st ?d"
    using assms same [of u_id] same [of "\<lambda>u. citext_key st (u_email u)"]
    by (auto simp: service_wf_def auth_wf_def users_wf_def account_change_def set_update_where)
  then have "auth_wf st ?d"
    using assms(1) exists by (simp add: service_wf_def auth_wf_def tokens_wf_def identities_wf_def codes_wf_def)
  moreover have "chat_wf ?d"
    by (rule chat_wf_frame [of d]) (use assms image_update_where [where g = u_id and f = g] in \<open>auto simp: service_wf_def account_change_def\<close>)
  ultimately show ?thesis by (simp add: service_wf_def)
qed

lemma revoke_one_service_wf: "service_wf st d \<Longrightarrow> service_wf st (revoke_one uid sid t d)"
  using svc_auth.revoke_keeps [of st d "\<lambda>r. rt_id r = sid \<and> rt_user_id r = uid" t] by (simp add: revoke_one_def revoke_def conj_assoc)

interpretation members_auth: auth_guarantee st member_wf "\<lambda>_. True" for st
  by unfold_locales
     (simp_all, (erule member_frame;
        simp add: create_user_full_sql_def store_refresh_token_sql_def add_auth_identity_sql_def record_consent_sql_def
          issue_auth_code_sql_def consume_def revoke_def; fail)+, simp_all add: set_user_def account_member_wf)

lemma drop_conversations_member_wf: "member_wf d \<Longrightarrow> member_wf (drop_conversations p d)"
proof -
  assume wf: "member_wf d"
  have "member_wf (d\<lparr>people := screenshot_alerts_update (delete_where (\<lambda>a. p (sa_conversation a))) (people d)\<rparr>)"
    using member_wfD(7) [OF wf] by (auto simp: people_ok_def labels_ok_def intro!: people_member_wf_same [OF wf] table_delete)
  then show ?thesis by (rule member_frame) (simp_all add: drop_conversations_def user_exists_def)
qed

interpretation members_chat: chat_guarantee member_wf uid "\<lambda>_. True" "\<lambda>_. True" for uid
  by unfold_locales
     (simp_all add: drop_shared_def drop_conversations_member_wf,
      (erule member_frame;
        simp add: create_tap_sql_def add_favorite_sql_def drop_favorite_def block_user_sql_def drop_block_def
          create_report_sql_def create_conversation_sql_def insert_message_sql_def Let_def
          set_messages_def set_last_read_def set_reaction_sql_def drop_reaction_def create_group_sql_def
          add_group_member_sql_def drop_member_def unsend_sql_def mark_messages_read_sql_def mark_viewed_sql_def
          user_exists_def)+)

interpretation plat_auth: auth_guarantee st "platform_wf st" "\<lambda>_. True" for st
  by unfold_locales
     (simp_all add: platform_wf_def svc_auth.create_keeps svc_auth.store_keeps svc_auth.identity_keeps svc_auth.consent_keeps
       svc_auth.code_keeps svc_auth.consume_keeps svc_auth.revoke_keeps svc_auth.email_flag_keeps svc_auth.phone_flag_keeps
       svc_auth.password_keeps members_auth.create_keeps members_auth.store_keeps members_auth.identity_keeps
       members_auth.consent_keeps members_auth.code_keeps members_auth.consume_keeps members_auth.revoke_keeps
       members_auth.email_flag_keeps members_auth.phone_flag_keeps members_auth.password_keeps
       links_auth.create_keeps links_auth.store_keeps links_auth.identity_keeps
       links_auth.consent_keeps links_auth.code_keeps links_auth.consume_keeps links_auth.revoke_keeps
       links_auth.email_flag_keeps links_auth.phone_flag_keeps links_auth.password_keeps)

interpretation plat_chat: chat_guarantee "platform_wf st" uid "\<lambda>_. True" "\<lambda>_. True" for st uid
  by unfold_locales
     (simp_all add: platform_wf_def svc_chat.tap_keeps svc_chat.favorite_keeps svc_chat.unfavorite_keeps svc_chat.block_keeps
       svc_chat.shared_keeps svc_chat.unblock_keeps svc_chat.report_keeps svc_chat.conversation_keeps svc_chat.drop_keeps
       svc_chat.insert_keeps svc_chat.unsend_keeps svc_chat.read_keeps svc_chat.last_read_keeps svc_chat.viewed_keeps
       svc_chat.reaction_keeps svc_chat.unreact_keeps svc_chat.group_keeps svc_chat.add_keeps svc_chat.remove_keeps
       svc_chat.rename_keeps members_chat.tap_keeps members_chat.favorite_keeps members_chat.unfavorite_keeps
       members_chat.block_keeps members_chat.shared_keeps members_chat.unblock_keeps members_chat.report_keeps
       members_chat.conversation_keeps members_chat.drop_keeps members_chat.insert_keeps members_chat.unsend_keeps
       members_chat.read_keeps members_chat.last_read_keeps members_chat.viewed_keeps members_chat.reaction_keeps
       members_chat.unreact_keeps members_chat.group_keeps members_chat.add_keeps members_chat.remove_keeps members_chat.rename_keeps
       links_chat.tap_keeps links_chat.favorite_keeps links_chat.unfavorite_keeps
       links_chat.block_keeps links_chat.shared_keeps links_chat.unblock_keeps
       links_chat.report_keeps links_chat.conversation_keeps links_chat.drop_keeps links_chat.insert_keeps links_chat.unsend_keeps links_chat.read_keeps links_chat.last_read_keeps
       links_chat.viewed_keeps links_chat.reaction_keeps links_chat.unreact_keeps links_chat.group_keeps links_chat.add_keeps links_chat.remove_keeps links_chat.rename_keeps)

interpretation members: member_guarantee member_wf uid "\<lambda>_. True" "\<lambda>_ _. True" for uid
  by unfold_locales
     (simp_all add: insert_photo_member_wf drop_photo_member_wf flag_member_wf profile_member_wf account_member_wf account_change_def
       albums_member_wf add_photos_member_wf stories_member_wf verification_member_wf labels_member_wf feature_member_wf
       events_member_wf phrases_member_wf drop_features_member_wf device_member_wf)

lemma add_keys_service_wf: "add_keys aid uid keys t d = Inr d' \<Longrightarrow> service_wf st d \<Longrightarrow> service_wf st d'"
proof (induction aid uid keys t d rule: add_keys.induct)
  case (2 aid uid key keys t d)
  then obtain e where e: "insert_photo_sql uid key None 0 False False t d = (Inr (next_id d), e)"
    by (auto simp: insert_photo_sql_def split: if_splits)
  then have "service_wf st (e\<lparr>gallery := album_photos_update (\<lambda>rs. rs @ [\<lparr>ap_album = aid, ap_photo = next_id d, ap_position = 0\<rparr>]) (gallery e)\<rparr>)"
    using 2(3) by (auto simp: insert_photo_sql_def split: if_splits elim!: service_frame)
  note wf = this
  have a: "album_by_id aid e \<noteq> None" using e 2(2) by (auto split: if_splits)
  then show ?case using 2(1) [OF e [symmetric] refl a _ wf] 2(2) e by (auto split: if_splits)
qed simp

interpretation svc_members: member_guarantee "service_wf st" uid "\<lambda>_. True" "\<lambda>_ _. True" for st uid
proof (unfold_locales, goal_cases)
  case (11 d aid keys t)
  then show ?case by (auto simp: add_photos_sql_def split: sum.split intro: add_keys_service_wf)
qed (simp_all add: account_service_wf revoke_one_service_wf,
     (erule service_frame;
       simp add: insert_photo_sql_def drop_photo_def set_primary_flag_def set_profile_def upsert_profile_with_def
       create_album_sql_def update_album_sql_def delete_album_sql_def share_album_sql_def unshare_album_sql_def
       remove_entry_sql_def create_story_sql_def delete_story_sql_def Let_def mark_viewed_story_sql_def
       submit_verification_sql_def replace_labels_sql_def insert_view_sql_def create_event_sql_def upsert_attendee_sql_def
       delete_event_sql_def create_boost_sql_def add_phrase_sql_def add_place_sql_def set_roam_sql_def create_intent_sql_def
       log_alert_sql_def register_device_sql_def split: sum.split option.split)+)

interpretation plat: member_guarantee "platform_wf st" uid "\<lambda>_. True" "\<lambda>_ _. True" for st uid
  by unfold_locales
     (simp_all add: platform_wf_def svc_members.photo_keeps svc_members.drop_photo_keeps svc_members.primary_keeps
       svc_members.profile_keeps svc_members.upsert_keeps svc_members.account_keeps svc_members.create_album_keeps
       svc_members.update_album_keeps svc_members.delete_album_keeps svc_members.add_photos_keeps svc_members.remove_entry_keeps
       svc_members.share_keeps svc_members.unshare_keeps svc_members.story_keeps svc_members.delete_story_keeps
       svc_members.seen_story_keeps svc_members.verification_keeps svc_members.labels_keeps svc_members.view_keeps
       svc_members.event_keeps svc_members.attend_keeps svc_members.delete_event_keeps svc_members.boost_keeps
       svc_members.phrase_keeps svc_members.phrases_keep svc_members.place_keeps svc_members.drop_place_keeps
       svc_members.roam_keeps svc_members.intent_keeps svc_members.drop_intent_keeps svc_members.session_keeps
       svc_members.alert_keeps svc_members.device_keeps
       links_members.photo_keeps links_members.drop_photo_keeps links_members.primary_keeps
       links_members.profile_keeps links_members.upsert_keeps links_members.account_keeps links_members.create_album_keeps
       links_members.update_album_keeps links_members.delete_album_keeps links_members.add_photos_keeps links_members.remove_entry_keeps
       links_members.share_keeps links_members.unshare_keeps links_members.story_keeps links_members.delete_story_keeps
       links_members.seen_story_keeps links_members.verification_keeps links_members.labels_keeps links_members.view_keeps
       links_members.event_keeps links_members.attend_keeps links_members.delete_event_keeps links_members.boost_keeps
       links_members.phrase_keeps links_members.phrases_keep links_members.place_keeps links_members.drop_place_keeps
       links_members.roam_keeps links_members.intent_keeps links_members.drop_intent_keeps links_members.session_keeps
       links_members.alert_keeps links_members.device_keeps
       insert_photo_member_wf drop_photo_member_wf flag_member_wf profile_member_wf account_member_wf account_change_def
       albums_member_wf add_photos_member_wf stories_member_wf verification_member_wf labels_member_wf feature_member_wf
       events_member_wf phrases_member_wf drop_features_member_wf device_member_wf)

section \<open>The whole platform\<close>

text \<open>A request of any component, by anyone, from an empty database on.\<close>

inductive platform_step :: "media_env \<Rightarrow> world \<Rightarrow> world \<Rightarrow> bool" for env where
  service: "service_step (media_app env) w v \<Longrightarrow> platform_step env w v"
| member: "platform_step env w (snd (member_route env header req w))"

inductive_cases platform_stepE: "platform_step env w v"

definition platform_init :: "app \<Rightarrow> world \<Rightarrow> bool" where
  "platform_init st w \<longleftrightarrow> db w = empty_db \<and> (\<forall>t \<in> set (turns w). \<forall>d. platform_wf st d \<longrightarrow> platform_wf st (others t d))"

lemma empty_platform_wf: "platform_wf st empty_db"
  using empty_wf empty_chat_wf
  by (simp add: platform_wf_def service_wf_def member_wf_def member_parts links_wf_def link_parts table_wf_def Let_def empty_db_def empty_gallery_def
      empty_people_def empty_office_def)

interpretation platform: invariant_system "platform_init (media_app env)" "platform_step env" "stable (platform_wf (media_app env))" for env
proof unfold_locales
  let ?st = "media_app env"
  show "platform_init ?st w \<Longrightarrow> stable (platform_wf ?st) w" for w
    by (simp add: platform_init_def stable_def empty_platform_wf)
  show "stable (platform_wf ?st) v" if w: "stable (platform_wf ?st) w" and step: "platform_step env w v" for w v
    using step
  proof (rule platform_stepE)
    show "service_step ?st w v \<Longrightarrow> ?thesis"
    proof (erule service_stepE)
      show "v = snd (route ?st req w) \<Longrightarrow> ?thesis" for req
        using keeps_final [OF plat_auth.route_keeps [OF w]] by simp
      have "keeps (stable (platform_wf ?st)) (chat_route ?st header creq) w" for header creq
        unfolding chat_route_def using w by (intro keeps_bind plat_auth.auth_user_keeps plat_chat.perform_keeps)
      then show "v = snd (chat_route ?st header creq w) \<Longrightarrow> ?thesis" for header creq
        by (simp add: keeps_final)
      show "v = snd (socket_receive ?st uid msgs w) \<Longrightarrow> ?thesis" for uid msgs
        using keeps_final [OF plat_chat.socket_receive_keeps [OF w]] by simp
    qed
    have "keeps (stable (platform_wf ?st)) (member_route env header req) w" for header req
      unfolding member_route_def using w by (intro keeps_bind plat_auth.auth_user_keeps plat.handler_keeps) auto
    then show "v = snd (member_route env header req w) \<Longrightarrow> ?thesis" for header req
      by (simp add: keeps_final)
  qed
qed














end
