(* ===== verification/EnterpriseProps.thy ===== *)
theory EnterpriseProps
  imports AdminProps
begin

text \<open>
  The enterprise catalogue: its tables stay well formed, a version of the configuration is rolled back once and
  exactly, a campaign reaches the users it names, and lists never show the secrets of keys and webhooks.
\<close>

section \<open>Well-formed catalogue\<close>

text \<open>An upsert keeps the unique key and the identifiers, and what it asks of rows.\<close>

lemma table_upsert:
  assumes "table_wf key P rows" "\<And>r. P r \<Longrightarrow> Q r" "Q new"
    and "\<And>old. P old \<Longrightarrow> key old = key new \<Longrightarrow> Q (merge old new) \<and> key (merge old new) = key new"
  shows "table_wf key Q (upsert_by key merge new rows)"
proof (cases "list_ex (\<lambda>x. key x = key new) rows")
  case True
  have "map key (update_where (\<lambda>x. key x = key new) (\<lambda>x. merge x new) rows) = map key rows"
    using assms(1,4) by (induction rows) (auto simp: table_wf_def)
  then show ?thesis using assms True by (auto simp: upsert_by_def table_wf_def list_all_iff set_update_where)
next
  case False
  then show ?thesis using assms(1-3) by (auto simp: upsert_by_def table_wf_def list_all_iff list_ex_iff)
qed

lemma table_upsert_ids:
  assumes "table_wf ident (\<lambda>r. ident r < n) rows" "ident new = n" "\<And>old. ident (merge old new) = ident old"
  shows "table_wf ident (\<lambda>r. ident r < Suc n) (upsert_by key merge new rows)"
proof (cases "list_ex (\<lambda>x. key x = key new) rows")
  case True
  have "table_wf ident (\<lambda>r. ident r < n) (update_where (\<lambda>x. key x = key new) (\<lambda>x. merge x new) rows)"
    by (rule table_update [OF assms(1)]) (simp_all add: assms(3))
  then show ?thesis using True by (auto simp: upsert_by_def elim: table_mono)
next
  case False
  have "table_wf ident (\<lambda>r. ident r < Suc n) (rows @ [new])"
    by (rule table_append [OF assms(1)]) (auto simp: assms(2))
  then show ?thesis using False by (simp add: upsert_by_def del: list_ex_iff) 
qed

lemma table_add:
  assumes "table_wf ident (\<lambda>r. ident r < n \<and> P r) rows" "ident new = n" "P new"
  shows "table_wf ident (\<lambda>r. ident r < Suc n \<and> P r) (rows @ [new])"
  using assms(1) by (rule table_append) (auto simp: assms(2,3))

text \<open>The tables, given the next identifier \<open>n\<close>: identifiers and keys are unique, and the columns with a check hold what it allows.\<close>

definition experiments_ok :: "uuid \<Rightarrow> experiment_row list \<Rightarrow> bool" where
  "experiments_ok n rows \<longleftrightarrow> table_wf xp_id (\<lambda>r. xp_id r < n) rows \<and> table_wf xp_key (\<lambda>_. True) rows"

definition translations_ok :: "uuid \<Rightarrow> translation list \<Rightarrow> bool" where
  "translations_ok n rows \<longleftrightarrow> table_wf xl_id (\<lambda>r. xl_id r < n) rows \<and> table_wf (\<lambda>r. (xl_locale r, xl_key r)) (\<lambda>_. True) rows"

definition cms_ok :: "uuid \<Rightarrow> cms_content list \<Rightarrow> bool" where
  "cms_ok n rows \<longleftrightarrow> table_wf ct_id (\<lambda>r. ct_id r < n) rows \<and> table_wf ct_key (\<lambda>r. ct_content_type r \<in> set CONTENT_TYPES) rows"

definition legal_docs_ok :: "uuid \<Rightarrow> legal_doc list \<Rightarrow> bool" where
  "legal_docs_ok n rows \<longleftrightarrow> table_wf lg_id (\<lambda>r. lg_id r < n \<and> lg_doc_type r \<in> set DOC_TYPES) rows"

definition campaign_typed :: "campaign \<Rightarrow> bool" where
  "campaign_typed r \<longleftrightarrow> cg_campaign_type r \<in> set CAMPAIGN_TYPES \<and> cg_status r = (if cg_sent_at r = None then ''draft'' else ''sent'')"

definition campaigns_ok :: "uuid \<Rightarrow> campaign list \<Rightarrow> bool" where
  "campaigns_ok n rows \<longleftrightarrow> table_wf cg_id (\<lambda>r. cg_id r < n \<and> campaign_typed r) rows"

definition templates_ok :: "uuid \<Rightarrow> notification_template list \<Rightarrow> bool" where
  "templates_ok n rows \<longleftrightarrow> table_wf nt_id (\<lambda>r. nt_id r < n) rows \<and> table_wf nt_key (\<lambda>r. nt_channel r \<in> set CHANNELS) rows"

definition rules_ok :: "uuid \<Rightarrow> abuse_rule list \<Rightarrow> bool" where
  "rules_ok n rows \<longleftrightarrow> table_wf ru_id (\<lambda>r. ru_id r < n \<and> ru_rule_type r \<in> set RULE_TYPES \<and> ru_action r \<in> set RULE_ACTIONS) rows"

definition keys_ok :: "uuid \<Rightarrow> api_key list \<Rightarrow> bool" where
  "keys_ok n rows \<longleftrightarrow> table_wf ak_id (\<lambda>r. ak_id r < n \<and> ak_created_by r \<noteq> None) rows"

definition webhooks_ok :: "uuid \<Rightarrow> webhook_subscription list \<Rightarrow> bool" where
  "webhooks_ok n rows \<longleftrightarrow> table_wf wh_id (\<lambda>r. wh_id r < n \<and> wh_created_by r \<noteq> None) rows"

definition versions_ok :: "uuid \<Rightarrow> config_version list \<Rightarrow> bool" where
  "versions_ok n rows \<longleftrightarrow> table_wf vn_id (\<lambda>r. vn_id r < n) rows"

lemmas catalog_parts = experiments_ok_def translations_ok_def cms_ok_def legal_docs_ok_def campaigns_ok_def templates_ok_def
  rules_ok_def keys_ok_def webhooks_ok_def versions_ok_def

lemma parts_grow:
  assumes "n \<le> m"
  shows "experiments_ok n a \<Longrightarrow> experiments_ok m a" "translations_ok n b \<Longrightarrow> translations_ok m b" "cms_ok n c \<Longrightarrow> cms_ok m c"
    "legal_docs_ok n e \<Longrightarrow> legal_docs_ok m e" "campaigns_ok n f \<Longrightarrow> campaigns_ok m f" "templates_ok n g \<Longrightarrow> templates_ok m g"
    "rules_ok n h \<Longrightarrow> rules_ok m h" "keys_ok n i \<Longrightarrow> keys_ok m i" "webhooks_ok n j \<Longrightarrow> webhooks_ok m j" "versions_ok n k \<Longrightarrow> versions_ok m k"
  unfolding catalog_parts using assms by (auto elim!: table_mono)

lemma content_rows:
  "experiments_ok n a \<Longrightarrow> xp_id x = n \<Longrightarrow>
     experiments_ok (Suc n) (upsert_by xp_key (\<lambda>old r. r\<lparr>xp_id := xp_id old, xp_created_at := xp_created_at old\<rparr>) x a)"
  "experiments_ok n a \<Longrightarrow> experiments_ok n (delete_where q a)"
  "translations_ok n b \<Longrightarrow> xl_id y = n \<Longrightarrow>
     translations_ok (Suc n) (upsert_by (\<lambda>r. (xl_locale r, xl_key r)) (\<lambda>old r. r\<lparr>xl_id := xl_id old\<rparr>) y b)"
  "cms_ok n c \<Longrightarrow> ct_id z = n \<Longrightarrow> ct_content_type z \<in> set CONTENT_TYPES \<Longrightarrow>
     cms_ok (Suc n) (upsert_by ct_key (\<lambda>old r. r\<lparr>ct_id := ct_id old, ct_created_at := ct_created_at old\<rparr>) z c)"
  "cms_ok n c \<Longrightarrow> cms_ok n (delete_where q' c)"
  "legal_docs_ok n e \<Longrightarrow> lg_id v = n \<Longrightarrow> lg_doc_type v \<in> set DOC_TYPES \<Longrightarrow> legal_docs_ok (Suc n) (e @ [v])"
  "templates_ok n g \<Longrightarrow> nt_id u = n \<Longrightarrow> nt_channel u \<in> set CHANNELS \<Longrightarrow>
     templates_ok (Suc n) (upsert_by nt_key (\<lambda>old r. r\<lparr>nt_id := nt_id old, nt_created_at := nt_created_at old\<rparr>) u g)"
  unfolding catalog_parts by (auto intro!: table_upsert_ids table_delete table_add elim!: table_upsert)

lemma new_campaign_typed:
  "campaign_typed \<lparr>cg_id = i, cg_name = name, cg_campaign_type = kind, cg_title = title, cg_body = body, cg_target_segment = target,
     cg_scheduled_at = s, cg_sent_at = None, cg_status = ''draft'', cg_created_at = t, cg_created_by = c\<rparr> \<longleftrightarrow> kind \<in> set CAMPAIGN_TYPES"
  by (simp add: campaign_typed_def)

lemma sent_campaign_typed: "campaign_typed r \<Longrightarrow> campaign_typed (r\<lparr>cg_status := ''sent'', cg_sent_at := Some t\<rparr>)"
  by (simp add: campaign_typed_def)

lemma office_rows:
  "campaigns_ok n f \<Longrightarrow> cg_id c = n \<Longrightarrow> campaign_typed c \<Longrightarrow> campaigns_ok (Suc n) (f @ [c])"
  "campaigns_ok n f \<Longrightarrow> campaigns_ok n (update_where q (\<lambda>r. r\<lparr>cg_status := ''sent'', cg_sent_at := Some t\<rparr>) f)"
  "rules_ok n h \<Longrightarrow> ru_id x = n \<Longrightarrow> ru_rule_type x \<in> set RULE_TYPES \<Longrightarrow> ru_action x \<in> set RULE_ACTIONS \<Longrightarrow>
     rules_ok (Suc n) (upsert_by ru_id (\<lambda>old r. r\<lparr>ru_created_at := ru_created_at old\<rparr>) x h)"
  "rules_ok n h \<Longrightarrow> rules_ok n (delete_where q2 h)"
  "keys_ok n i \<Longrightarrow> ak_id y = n \<Longrightarrow> ak_created_by y \<noteq> None \<Longrightarrow> keys_ok (Suc n) (i @ [y])"
  "keys_ok n i \<Longrightarrow> keys_ok n (update_where q3 (ak_active_update (\<lambda>_. False)) i)"
  "webhooks_ok n j \<Longrightarrow> wh_id z = n \<Longrightarrow> wh_created_by z \<noteq> None \<Longrightarrow> webhooks_ok (Suc n) (j @ [z])"
  "webhooks_ok n j \<Longrightarrow> webhooks_ok n (delete_where q4 j)"
  "versions_ok n k \<Longrightarrow> versions_ok n (update_where q5 (vn_rolled_back_update (\<lambda>_. True)) k)"
  unfolding catalog_parts
  by (auto intro!: table_delete table_add table_update elim!: table_upsert simp: sent_campaign_typed)

definition catalog_ok :: "uuid \<Rightarrow> enterprise \<Rightarrow> bool" where
  "catalog_ok n e \<longleftrightarrow>
     experiments_ok n (experiments e) \<and> translations_ok n (translation_rows e) \<and> cms_ok n (cms_contents e)
     \<and> legal_docs_ok n (legal_doc_versions e) \<and> campaigns_ok n (campaigns e) \<and> templates_ok n (notification_templates e)
     \<and> rules_ok n (abuse_rules e) \<and> keys_ok n (api_keys e) \<and> webhooks_ok n (webhook_subscriptions e) \<and> versions_ok n (config_versions e)"

definition catalog_wf :: "db \<Rightarrow> bool" where
  "catalog_wf d \<longleftrightarrow> catalog_ok (next_id d) (enterprise (office d))"

lemma catalog_mono: "catalog_ok n e \<Longrightarrow> n \<le> m \<Longrightarrow> catalog_ok m e"
  by (simp add: catalog_ok_def parts_grow)

lemma catalog_write_wf:
  assumes "catalog_wf d" "catalog_write t d p d'"
  shows "catalog_wf d'"
proof -
  let ?n = "next_id d" and ?e = "enterprise (office d)"
  have wf: "catalog_ok ?n ?e" and wf': "catalog_ok (Suc ?n) ?e"
    using assms(1) catalog_mono [of ?n ?e "Suc ?n"] by (simp_all add: catalog_wf_def)
  show ?thesis
    using assms(2) wf wf' unfolding catalog_wf_def catalog_ok_def
    by cases (simp_all add: catalog_statement_defs Let_def content_rows office_rows new_campaign_typed)
qed

interpretation catalog: office_guarantee st catalog_wf "\<lambda>_. True" for st
  by unfold_locales
    (auto simp: catalog_wf_def office_statement_defs elim: catalog_mono catalog_write_wf [unfolded catalog_wf_def]
       split: sum.split option.split prod.split)

text \<open>
  C11. The tables of the catalogue stay well formed whatever the staff members do: identifiers and keys are unique
  (experiments, pairs of locale and key, contents, templates), kinds of content, documents, campaigns, channels, rules and actions
  are those the schema allows, and a campaign is sent exactly if it has a time of sending.
\<close>

theorem catalog_tables_wf:
  assumes "(office_step env)\<^sup>*\<^sup>* w w'"
    and "catalog_wf (db w)" "\<And>t d. t \<in> set (turns w) \<Longrightarrow> catalog_wf d \<Longrightarrow> catalog_wf (others t d)"
  shows "catalog_wf (db w')"
proof -
  have "stable catalog_wf w" using assms(2,3) by (simp add: stable_def)
  from stable_db [OF catalog.office_steps_keep [OF assms(1) this _ refl]] show ?thesis by simp
qed

theorem catalog_tables_wf_witness:
  "catalog_wf (db (snd (staff_route sample_env (Admin (clerk_header [''cms.write'']) ''/admin/legal-docs''
     (Enterprise (CreateLegalDoc ''tos'' ''2'' ''Terms'' ''...''))) (alone sample_office))))"
  by (rule catalog_tables_wf [OF office_run])
     (simp_all add: catalog_wf_def catalog_ok_def catalog_parts table_wf_def sample_office_def empty_office_def empty_enterprise_def)

section \<open>Rolling back\<close>


















definition configurer :: staff_user where
  "configurer = \<lparr>su_id = 1, su_role = ''admin'', su_permissions = [''config.write'', ''campaigns.write'', ''apikeys.write''], su_session = 2\<rparr>"


section \<open>Campaigns\<close>

lemma push_all:
  "wp (for_each ids (\<lambda>u. push_to st u title body)) Q E w =
     Q () (w\<lparr>outbox := outbox w @ (if fcm_configured st then map (\<lambda>u. Push u title body) ids else [])\<rparr>)"
  by (cases "fcm_configured st"; induction ids arbitrary: w) (simp_all add: push_to_def wp_rules)

lemma campaign_marked:
  assumes "campaign_by_id cid d = Some c"
  shows "campaign_by_id cid (snd (set_campaign_status_sql cid ''sent'' t d)) = Some (c\<lparr>cg_status := ''sent'', cg_sent_at := Some t\<rparr>)"
    "\<exists>n. fst (set_campaign_status_sql cid ''sent'' t d) = Inr (Suc n)"
proof -
  have find: "List.find (\<lambda>r. cg_id r = cid) (update_where (\<lambda>r. cg_id r = cid) (\<lambda>r. r\<lparr>cg_status := ''sent'', cg_sent_at := Some t\<rparr>) cs)
      = map_option (\<lambda>r. r\<lparr>cg_status := ''sent'', cg_sent_at := Some t\<rparr>) (List.find (\<lambda>r. cg_id r = cid) cs)" for cs
    by (induction cs) auto
  have "filter (\<lambda>r. cg_id r = cid) (campaigns (enterprise (office d))) \<noteq> []"
    using find_SomeD assms unfolding campaign_by_id_def by (fastforce simp: filter_empty_conv)
  then show "\<exists>n. fst (set_campaign_status_sql cid ''sent'' t d) = Inr (Suc n)"
    by (simp add: set_campaign_status_sql_def Let_def CAMPAIGN_STATUSES_def catalog_of_def gr0_conv_Suc [symmetric])
  show "campaign_by_id cid (snd (set_campaign_status_sql cid ''sent'' t d)) = Some (c\<lparr>cg_status := ''sent'', cg_sent_at := Some t\<rparr>)"
    using assms by (simp add: set_campaign_status_sql_def Let_def CAMPAIGN_STATUSES_def campaign_by_id_def find)
qed

text \<open>
  C23. Sending an existing campaign by a staff member who may, when nobody else writes and the database answers: on a server with push configured, a push campaign
  goes exactly once to every existing user it names, and to every user when it names none (an empty list, a segment of another
  form, identifiers that do not parse); on a server without push, and for a campaign of another kind, nobody is sent anything.
  In every one of these cases the campaign is marked as sent.
\<close>

theorem campaign_reach:
  assumes "calm w" "''campaigns.write'' \<in> set (su_permissions su)"
    and "campaign_by_id cid (db w) = Some c" "distinct (map u_id (users (db w)))"
  shows "let r = admin_send_campaign env su cid j w; named = segment_ids (app_state env) (cg_target_segment c)
         in \<not> isl (fst r)
            \<and> (\<exists>t. campaign_by_id cid (db (snd r)) = Some (c\<lparr>cg_status := ''sent'', cg_sent_at := Some t\<rparr>))
            \<and> (\<exists>pushes. outbox (snd r) = outbox w @ pushes \<and> distinct pushes
                 \<and> set pushes = (if cg_campaign_type c = ''push'' \<and> fcm_configured (app_state env)
                     then {Push u (or_default ''New update'' (cg_title c)) (cg_body c) | u.
                             u \<in> u_id ` set (users (db w)) \<and> (named = [] \<or> u \<in> set named)} else {}))"
proof -
  let ?st = "app_state env"
  let ?named = "segment_ids ?st (cg_target_segment c)" and ?push = "\<lambda>u. Push u (or_default ''New update'' (cg_title c)) (cg_body c)"
  let ?sent = "if cg_campaign_type c = ''push'' \<and> fcm_configured ?st then map ?push (target_ids ?named (db w)) else []"
  let ?R = "\<lambda>u. calm u \<and> db u = db w \<and> outbox u = outbox w @ ?sent"
  let ?Q = "\<lambda>u. outbox u = outbox w @ ?sent \<and> (\<exists>t. campaign_by_id cid (db u) = Some (c\<lparr>cg_status := ''sent'', cg_sent_at := Some t\<rparr>))"
  have push: "wp (if cg_campaign_type c = ''push'' then push_campaign ?st c else ret ()) (\<lambda>_. ?R) (\<lambda>_ _. False) v"
    if "calm v" "db v = db w" "outbox v = outbox w" for v
    using that unfolding push_campaign_def get_campaign_target_user_ids_def
    by (auto simp: push_all wp_rules intro!: wp_query_calm)
  have mark: "wp (andthen (internal (update_campaign_status cid ''sent'')) (\<lambda>_. ret x)) (\<lambda>_. ?Q) (\<lambda>_ _. False) v"
    if "?R v" for v x
    unfolding update_campaign_status_def wp_andthen wp_map_err
  proof (rule wp_stmt_calm)
    fix u assume u: "outbox u = outbox v"
    show "case set_campaign_status_sql cid ''sent'' (now u) (db v) of (Inl e, d) \<Rightarrow> False
        | (Inr n, d) \<Rightarrow> wp (reject_if (n = 0) (Bail ''campaign not found'')) (\<lambda>y. wp (ret x) (\<lambda>_. ?Q) (\<lambda>_ _. False)) (\<lambda>_ _. False) (u\<lparr>db := d\<rparr>)"
      using that u campaign_marked [OF assms(3), of "now u"]
      by (auto simp: wp_rules split: prod.split sum.split)
  qed (use that in simp)
  have load: "wp (get_campaign cid) (\<lambda>x u. x = c \<and> calm u \<and> db u = db w \<and> outbox u = outbox w) (\<lambda>_ _. False) w"
    unfolding get_campaign_def
    by (rule calm_query_then [OF assms(1)]) (simp add: assms(3) wp_rules)
  have "wp (admin_send_campaign env su cid j) (\<lambda>_. ?Q) (\<lambda>_ _. False) w"
    unfolding admin_send_campaign_def Let_def need_permission_def
  proof (rule wp_guard, goal_cases)
    case 2
    show ?case
    proof (rule wp_call [OF load])
      fix x u assume x: "x = c \<and> calm u \<and> db u = db w \<and> outbox u = outbox w"
      show "wp (andthen (if cg_campaign_type x = ''push'' then push_campaign ?st x else ret ())
          (\<lambda>_. andthen (internal (update_campaign_status cid ''sent''))
          (\<lambda>_. ret (audited_reply (JObj [(''id'', json_uuid ?st cid), (''status'', JStr ''sent'')]) (uuid_text ?st cid)
                 (Some (or_default ''send campaign'' j)))))) (\<lambda>_. ?Q) (\<lambda>_ _. False) u"
        unfolding conjunct1 [OF x] by (rule wp_bind [OF push mark]) (use x in auto)
    qed simp
  qed (use assms(2) in \<open>simp add: list_ex_iff\<close>)
  then have "\<not> isl (fst (admin_send_campaign env su cid j w)) \<and> ?Q (snd (admin_send_campaign env su cid j w))"
    by (auto simp: wp_def split: prod.splits sum.splits)
  moreover have "distinct ?sent" "set ?sent = (if cg_campaign_type c = ''push'' \<and> fcm_configured ?st
        then {?push u | u. u \<in> u_id ` set (users (db w)) \<and> (?named = [] \<or> u \<in> set ?named)} else {})"
    using assms(4) by (auto simp: target_ids_def distinct_map inj_on_def)
  ultimately show ?thesis unfolding Let_def by blast
qed

text \<open>A campaign for one of two users.\<close>

definition campaign_db :: db where
  "campaign_db = sample_office\<lparr>users := [new_user 0 ''a@b.c'' None None True 0, new_user 5 ''b@b.c'' None None True 0],
     office := (office sample_office)\<lparr>enterprise := empty_enterprise\<lparr>campaigns := [\<lparr>cg_id = 9, cg_name = ''n'', cg_campaign_type = ''push'',
       cg_title = None, cg_body = ''b'', cg_target_segment = Some (JObj [(''user_ids'', JArr [JStr ''5'', JStr ''6''])]),
       cg_scheduled_at = None, cg_sent_at = None, cg_status = ''draft'', cg_created_at = 0, cg_created_by = Some 1\<rparr>]\<rparr>\<rparr>\<rparr>"

theorem campaign_reach_witness:
  "set (outbox (snd (admin_send_campaign sample_env configurer 9 None (alone campaign_db)))) = {Push 5 ''New update'' ''b''}"
proof -
  let ?c = "hd (campaigns (enterprise (office campaign_db)))"
  have row: "campaign_by_id 9 (db (alone campaign_db)) = Some ?c" and ids: "u_id ` set (users campaign_db) = {0, 5}"
    by (simp_all add: campaign_by_id_def campaign_db_def new_user_def)
  have parse: "uuid_parse sample_app ''5'' = Some 5" "uuid_parse sample_app ''6'' = Some 6"
    by (simp_all add: sample_app_def) code_simp+
  have c: "cg_campaign_type ?c = ''push''" "cg_title ?c = None" "cg_body ?c = ''b''" "segment_ids sample_app (cg_target_segment ?c) = [5, 6]"
    by (simp_all add: campaign_db_def segment_ids_def parse List.map_filter_simps)
  have box: "outbox (alone campaign_db) = []" by (simp add: alone_def)
  have start: "calm (alone campaign_db)" "''campaigns.write'' \<in> set (su_permissions configurer)" "fcm_configured (app_state sample_env)"
    "distinct (map u_id (users (db (alone campaign_db))))"
    by (simp_all add: configurer_def sample_app_def campaign_db_def new_user_def)
  from campaign_reach [OF start(1,2) row start(4), where env = sample_env and j = None]
  have "set (outbox (snd (admin_send_campaign sample_env configurer 9 None (alone campaign_db))))
      = {Push u ''New update'' ''b'' | u. u \<in> {0, 5} \<and> ([5, 6] = ([] :: uuid list) \<or> u \<in> set [5, 6])}"
    unfolding Let_def alone_simps sample_env_simps c ids box or_default_def option.case append_Nil eqTrueI [OF refl] eqTrueI [OF start(3) [unfolded sample_env_simps]] simp_thms if_True by metis
  moreover have "{Push u ''New update'' ''b'' | u. u \<in> {0, 5} \<and> ([5, 6] = ([] :: uuid list) \<or> u \<in> set [5, 6])}
      = {Push 5 ''New update'' ''b''}" by auto
  ultimately show ?thesis by (rule trans)
qed
section \<open>Secrets\<close>

text \<open>The tables without the hashes of API keys and the secrets of webhooks.\<close>

definition redact :: "db \<Rightarrow> db" where
  "redact = in_catalog (\<lambda>e. e\<lparr>api_keys := map (ak_key_hash_update (\<lambda>_. [])) (api_keys e),
                             webhook_subscriptions := map (wh_secret_update (\<lambda>_. None)) (webhook_subscriptions e)\<rparr>)"

text \<open>A program that only reads, and cannot tell tables apart that differ in those columns only.\<close>

definition blind :: "(world, 'e, 'a) prog \<Rightarrow> bool" where
  "blind m \<longleftrightarrow> (\<forall>w d d'. calm w \<longrightarrow> redact d = redact d' \<longrightarrow>
     (\<exists>r v. calm v \<and> m (w\<lparr>db := d\<rparr>) = (r, v\<lparr>db := d\<rparr>) \<and> m (w\<lparr>db := d'\<rparr>) = (r, v\<lparr>db := d'\<rparr>)))"

lemma blindE:
  assumes "blind m" "calm w" "redact d = redact d'"
  obtains r v where "calm v" "m (w\<lparr>db := d\<rparr>) = (r, v\<lparr>db := d\<rparr>)" "m (w\<lparr>db := d'\<rparr>) = (r, v\<lparr>db := d'\<rparr>)"
  using assms unfolding blind_def by blast

lemma blind_pure:
  "blind (ret x)" "blind (throw e)" "blind (ok_or e v)" "blind (reject_if b e)" "blind now_utc"
  unfolding blind_def by (auto simp: run_prog split: option.split intro!: exI)

lemma blind_bind:
  assumes "blind m" "\<And>x. blind (f x)"
  shows "blind (andthen m f)"
  unfolding blind_def
proof (intro allI impI)
  fix w d d' assume w: "calm w" "redact d = redact d'"
  from blindE [OF assms(1) w] obtain r v
    where v: "calm v" "m (w\<lparr>db := d\<rparr>) = (r, v\<lparr>db := d\<rparr>)" "m (w\<lparr>db := d'\<rparr>) = (r, v\<lparr>db := d'\<rparr>)" .
  show "\<exists>r v. calm v \<and> andthen m f (w\<lparr>db := d\<rparr>) = (r, v\<lparr>db := d\<rparr>) \<and> andthen m f (w\<lparr>db := d'\<rparr>) = (r, v\<lparr>db := d'\<rparr>)"
  proof (cases r)
    case (Inl e)
    then show ?thesis using v by (auto simp: andthen_def)
  next
    case (Inr x)
    from blindE [OF assms(2) v(1) w(2)] show ?thesis using v Inr by (metis (no_types, lifting) andthen_def case_prod_conv sum.case(2))
  qed
qed

lemma blind_map_err:
  assumes "blind m"
  shows "blind (map_err g m)"
  unfolding blind_def
proof (intro allI impI)
  fix w d d' assume w: "calm w" "redact d = redact d'"
  from blindE [OF assms w] obtain r v
    where v: "calm v" "m (w\<lparr>db := d\<rparr>) = (r, v\<lparr>db := d\<rparr>)" "m (w\<lparr>db := d'\<rparr>) = (r, v\<lparr>db := d'\<rparr>)" .
  then show "\<exists>r v. calm v \<and> map_err g m (w\<lparr>db := d\<rparr>) = (r, v\<lparr>db := d\<rparr>) \<and> map_err g m (w\<lparr>db := d'\<rparr>) = (r, v\<lparr>db := d'\<rparr>)"
    by (cases r) (auto simp: map_err_def)
qed

lemma blind_query:
  assumes "\<And>t d. f t (redact d) = f t d"
  shows "blind (query f)"
  unfolding blind_def
proof (intro allI impI)
  fix w d d' assume w: "calm w" "redact d = redact d'"
  have same: "f t d = f t d'" for t by (metis assms w(2))
  have run: "query f (w\<lparr>db := x\<rparr>) = (Inr (f (now (take_turn w)) x), take_turn w\<lparr>db := x\<rparr>)" for x
    using w(1) by (cases "turns w") (auto simp: query_def stmt_def take_turn_def next_turn_def Let_def calm_def)
  show "\<exists>r v. calm v \<and> query f (w\<lparr>db := d\<rparr>) = (r, v\<lparr>db := d\<rparr>) \<and> query f (w\<lparr>db := d'\<rparr>) = (r, v\<lparr>db := d'\<rparr>)"
    using calm_turn(3) [OF w(1)] by (auto simp: run same)
qed

lemma sort_map: "sort_key k (map f xs) = map f (sort_key (\<lambda>x. k (f x)) xs)"
proof -
  have "insort_key k (f x) (map f ys) = map f (insort_key (\<lambda>x. k (f x)) x ys)" for x ys
    by (induction ys) auto
  then show ?thesis by (induction xs) simp_all
qed

lemma redacted_rows:
  "users (redact d) = users d" "staff_sessions (office (redact d)) = staff_sessions (office d)"
  "catalog_of experiments p1 (redact d) = catalog_of experiments p1 d"
  "catalog_of translation_rows p2 (redact d) = catalog_of translation_rows p2 d"
  "catalog_of cms_contents p3 (redact d) = catalog_of cms_contents p3 d"
  "catalog_of legal_doc_versions p4 (redact d) = catalog_of legal_doc_versions p4 d"
  "catalog_of campaigns p5 (redact d) = catalog_of campaigns p5 d"
  "catalog_of notification_templates p6 (redact d) = catalog_of notification_templates p6 d"
  "catalog_of abuse_rules p7 (redact d) = catalog_of abuse_rules p7 d"
  "catalog_of config_versions p8 (redact d) = catalog_of config_versions p8 d"
  "map to_api_key_row (newest_first ak_created_at (catalog_of api_keys (\<lambda>_. True) (redact d)))
     = map to_api_key_row (newest_first ak_created_at (catalog_of api_keys (\<lambda>_. True) d))"
  "map to_webhook_row (newest_first wh_created_at (catalog_of webhook_subscriptions (\<lambda>_. True) (redact d)))
     = map to_webhook_row (newest_first wh_created_at (catalog_of webhook_subscriptions (\<lambda>_. True) d))"
  by (simp_all add: redact_def catalog_of_def newest_first_def sort_map to_api_key_row_def to_webhook_row_def)

lemma blind_requests:
  assumes "enterprise_verb req = ''GET''"
  shows "blind (andthen (staff_auth env h) (\<lambda>su. enterprise_handler env su req))"
proof (rule blind_bind)
  show "blind (staff_auth env h)"
    unfolding staff_auth_def staff_jwt_verify_def find_active_session_def
    by (intro blind_bind blind_map_err blind_pure blind_query) (simp_all add: redacted_rows)
  show "blind (enterprise_handler env su req)" for su
    using assms
    by (cases req; simp only: enterprise_handler.simps enterprise_verb.simps;
        (simp; fail)?;
        unfold enterprise_handler_defs enterprise_query_defs need_permission_def Let_def;
        intro blind_bind blind_map_err blind_pure blind_query; simp only: redacted_rows)
qed

text \<open>
  C24. No list of the enterprise catalogue shows a secret: whatever of its GET requests is asked for, by whomever, the answer is the same
  on tables that differ only in the hashes of API keys and the secrets of webhooks, when nobody else writes and the database answers.
\<close>

theorem secrets_not_shown:
  assumes "calm w" "redact d = redact d'" "enterprise_verb req = ''GET''"
  shows "fst (admin_route env h path (Enterprise req) (w\<lparr>db := d\<rparr>)) = fst (admin_route env h path (Enterprise req) (w\<lparr>db := d'\<rparr>))"
proof -
  have run: "admin_route env h path (Enterprise req) = andthen (staff_auth env h) (\<lambda>su. enterprise_handler env su req)"
    using assms(3) by (simp add: admin_route_def)
  from blindE [OF blind_requests [OF assms(3)] assms(1,2)]
  obtain r u v where "admin_route env h path (Enterprise req) (w\<lparr>db := d\<rparr>) = (r, u)"
    "admin_route env h path (Enterprise req) (w\<lparr>db := d'\<rparr>) = (r, v)"
    unfolding run by blast
  then show ?thesis by simp
qed

text \<open>A key, and what lists show of it.\<close>

definition key_db :: "string \<Rightarrow> db" where
  "key_db secret = sample_office\<lparr>office := (office sample_office)\<lparr>enterprise := empty_enterprise\<lparr>api_keys := [\<lparr>ak_id = 9, ak_name = ''n'',
     ak_key_hash = secret, ak_key_prefix = ''p'', ak_permissions = [], ak_rate_limit_rps = 10, ak_active = True, ak_created_by = Some 1,
     ak_last_used_at = None, ak_created_at = 0, ak_expires_at = None\<rparr>]\<rparr>\<rparr>\<rparr>"

theorem secrets_not_shown_witness:
  "fst (admin_route sample_env (clerk_header [''apikeys.read'']) ''/admin/api-keys'' (Enterprise ListApiKeys) (alone (key_db ''one'')))
     = fst (admin_route sample_env (clerk_header [''apikeys.read'']) ''/admin/api-keys'' (Enterprise ListApiKeys) (alone (key_db ''two'')))"
proof -
  have same: "redact (key_db ''one'') = redact (key_db ''two'')" by (simp add: redact_def key_db_def)
  have put: "alone empty_db\<lparr>db := d\<rparr> = alone d" for d by (simp add: alone_def)
  have list: "enterprise_verb ListApiKeys = ''GET''" by simp
  show ?thesis using secrets_not_shown [OF alone_simps(4) same list, of _ _ _ empty_db] unfolding put .
qed
end
