(* ===== verification/Startup.thy ===== *)
theory Startup
  imports AdminHandlers MediaHandlers
begin

text \<open>
  How the server starts and what stands outside its handlers: the configuration (\<^verbatim>\<open>api/src/config.rs\<close>, \<^verbatim>\<open>main.rs\<close>,
  \<^verbatim>\<open>db/src/lib.rs\<close>), the notifier (\<^verbatim>\<open>auth/src/notify.rs\<close>), the check of identity tokens (\<^verbatim>\<open>auth/src/oauth.rs\<close>), the
  layers around the router (\<^verbatim>\<open>cors.rs\<close>, \<^verbatim>\<open>msgpack.rs\<close>, \<^verbatim>\<open>lib.rs\<close>) and the answers without a state
  (\<^verbatim>\<open>health.rs\<close>, \<^verbatim>\<open>meta.rs\<close>, \<^verbatim>\<open>well_known.rs\<close>).
\<close>

type_synonym getter = "string \<Rightarrow> string option"

definition var_or :: "getter \<Rightarrow> string \<Rightarrow> string \<Rightarrow> string" where
  "var_or get name b = (case get name of None \<Rightarrow> b | Some v \<Rightarrow> v)"

section \<open>Configuration\<close>

record config =
  database_url :: string
  bind_addr :: string
  config_jwt_secret :: string
  config_access_ttl :: int
  config_refresh_ttl :: int

text \<open>\<open>debug\<close> is \<^verbatim>\<open>cfg!(debug_assertions)\<close>; a lifetime that is no number is replaced by the default.\<close>

definition ttl_var :: "getter \<Rightarrow> string \<Rightarrow> int \<Rightarrow> int" where
  "ttl_var get name b = (case Option.bind (get name) parse_i64 of None \<Rightarrow> b | Some n \<Rightarrow> n)"

definition jwt_secret_var :: "bool \<Rightarrow> getter \<Rightarrow> string + string" where
  "jwt_secret_var debug get =
     (case get ''JWT_SECRET'' of
        Some s \<Rightarrow> Inr s
      | None \<Rightarrow> if debug then Inr ''dev-secret-change-me'' else Inl ''JWT_SECRET must be set'')"

definition config_from_getter :: "bool \<Rightarrow> getter \<Rightarrow> string + config" where
  "config_from_getter debug get =
     (case get ''DATABASE_URL'' of
        None \<Rightarrow> Inl ''DATABASE_URL must be set''
      | Some url \<Rightarrow>
          (case jwt_secret_var debug get of
             Inl e \<Rightarrow> Inl e
           | Inr secret \<Rightarrow> Inr \<lparr>database_url = url, bind_addr = var_or get ''BIND_ADDR'' ''0.0.0.0:8080'', config_jwt_secret = secret,
                config_access_ttl = ttl_var get ''ACCESS_TTL_SECS'' 900,
                config_refresh_ttl = ttl_var get ''REFRESH_TTL_SECS'' 2592000\<rparr>))"

text \<open>The pool: \<^verbatim>\<open>env_u32\<close> and the sizes.\<close>

definition parse_u32 :: "string \<Rightarrow> nat option" where
  "parse_u32 s =
     (if prefix ''-'' s then None
      else Option.bind (parse_i64 s) (\<lambda>n. if n < 2 ^ 32 then Some (nat n) else None))"

definition env_u32 :: "getter \<Rightarrow> string \<Rightarrow> nat \<Rightarrow> nat" where
  "env_u32 get key b = (case Option.bind (get key) parse_u32 of None \<Rightarrow> b | Some n \<Rightarrow> n)"

definition pool_sizes :: "getter \<Rightarrow> nat \<times> nat" where
  "pool_sizes get = (let mx = env_u32 get ''DB_MAX_CONNECTIONS'' 10 in (min (env_u32 get ''DB_MIN_CONNECTIONS'' 2) mx, mx))"

section \<open>Calls over the network\<close>

text \<open>What an HTTP call gives: no connection (with the text of the error), or a status code and a body.\<close>

datatype call_reply = Unreachable string | Answered nat string

section \<open>The notifier\<close>

record smtp =
  smtp_api_key :: string
  smtp_from :: string
  smtp_url :: string

definition smtp_from_env :: "getter \<Rightarrow> smtp option" where
  "smtp_from_env get =
     (case get ''SMTP_API_KEY'' of
        None \<Rightarrow> None
      | Some k \<Rightarrow> Some \<lparr>smtp_api_key = k, smtp_from = var_or get ''SMTP_FROM'' ''noreply@turnend.win'',
          smtp_url = var_or get ''SMTP_ENDPOINT'' ''https://api.mailgun.net/v3'' @ ''/''
                       @ var_or get ''SMTP_DOMAIN'' ''sandbox.mailgun.org'' @ ''/messages''\<rparr>)"

text \<open>A call of the mail service: URL, user, password and form fields. \<open>status_line\<close> is the \<^verbatim>\<open>Display\<close> form of a
  status code (the number and its reason).\<close>

type_synonym post_form = "string \<Rightarrow> string \<Rightarrow> string \<Rightarrow> (string \<times> string) list \<Rightarrow> call_reply"

definition smtp_send_email :: "(nat \<Rightarrow> string) \<Rightarrow> post_form \<Rightarrow> smtp \<Rightarrow> string \<Rightarrow> string \<Rightarrow> string \<Rightarrow> auth_fault + unit" where
  "smtp_send_email status_line post n rcpt subject body =
     (case post (smtp_url n) ''api'' (smtp_api_key n)
             [(''from'', smtp_from n), (''to'', rcpt), (''subject'', subject), (''text'', body)] of
        Unreachable e \<Rightarrow> Inl (NotifyError (''send failed: '' @ e))
      | Answered code text \<Rightarrow>
          if is_success code then Inr () else Inl (NotifyError (''API error '' @ status_line code @ '': '' @ text)))"

datatype notifier = DevNotifier | Smtp smtp

fun send_email :: "(nat \<Rightarrow> string) \<Rightarrow> post_form \<Rightarrow> notifier \<Rightarrow> string \<Rightarrow> string \<Rightarrow> string \<Rightarrow> auth_fault + unit" where
  "send_email status_line post DevNotifier rcpt subject body = Inr ()"
| "send_email status_line post (Smtp n) rcpt subject body = smtp_send_email status_line post n rcpt subject body"

definition send_sms :: "notifier \<Rightarrow> string \<Rightarrow> string \<Rightarrow> auth_fault + unit" where
  "send_sms n rcpt body = Inl (NotifyError ''SMS not implemented'')"

definition notifier_from_env :: "getter \<Rightarrow> notifier" where
  "notifier_from_env get = (case smtp_from_env get of None \<Rightarrow> DevNotifier | Some n \<Rightarrow> Smtp n)"

section \<open>Identity tokens\<close>

text \<open>
  External code of the check: the HTTP client, the JSON parser, and \<^verbatim>\<open>jsonwebtoken\<close>: the key id of a
  token's header, an RSA key from its components, and the claims of a token signed with RS256 by a key
  for an audience.
\<close>

record 'k oauth_lib =
  fetch_url :: "string \<Rightarrow> call_reply"
  parse_json :: "string \<Rightarrow> string + json"
  header_kid :: "string \<Rightarrow> string + string option"
  rsa_key :: "string \<Rightarrow> string \<Rightarrow> string + 'k"
  rs256_claims :: "'k \<Rightarrow> string \<Rightarrow> string \<Rightarrow> string + json"

text \<open>\<^verbatim>\<open>v[key].as_str()\<close>: indexing gives \<^verbatim>\<open>Null\<close> for what is not there.\<close>

definition text_member :: "string \<Rightarrow> json \<Rightarrow> string option" where
  "text_member k v = Option.bind (json_get k v) json_str"

definition need_member :: "string \<Rightarrow> string \<Rightarrow> json \<Rightarrow> auth_fault + string" where
  "need_member k what v = (case text_member k v of None \<Rightarrow> Inl (OAuthError what) | Some s \<Rightarrow> Inr s)"

definition dev_verify :: "string \<Rightarrow> auth_fault + oauth_identity" where
  "dev_verify tok =
     (case split_once CHR '':'' tok of
        None \<Rightarrow> Inl InvalidToken
      | Some (tag, rest) \<Rightarrow>
          (let (uid, email) = (case split_once CHR '':'' rest of None \<Rightarrow> (rest, None) | Some (u, e) \<Rightarrow> (u, Some e))
           in if tag = ''dev'' \<and> uid \<noteq> []
              then Inr \<lparr>provider_uid = uid, oauth_email = (case email of Some e \<Rightarrow> if e = [] then None else Some e | None \<Rightarrow> None)\<rparr>
              else Inl InvalidToken))"

text \<open>The client ids of the configuration: parts between commas, trimmed, the empty ones left out.\<close>

definition allowed_clients :: "string \<Rightarrow> string list" where
  "allowed_clients ids = filter (\<lambda>s. s \<noteq> []) (map utrim (split_on CHR '','' ids))"

definition google_url :: "string \<Rightarrow> string" where
  "google_url tok = ''https://oauth2.googleapis.com/tokeninfo?id_token='' @ tok"

definition google_identity :: "json \<Rightarrow> string \<Rightarrow> auth_fault + oauth_identity" where
  "google_identity payload client_id =
     (case need_member ''email'' ''no email'' payload of Inl e \<Rightarrow> Inl e | Inr email \<Rightarrow>
     (case need_member ''sub'' ''no sub'' payload of Inl e \<Rightarrow> Inl e | Inr sub \<Rightarrow>
     (case need_member ''aud'' ''no aud'' payload of Inl e \<Rightarrow> Inl e | Inr aud \<Rightarrow>
      if list_ex (\<lambda>c. c = aud) (allowed_clients client_id)
      then Inr \<lparr>provider_uid = sub, oauth_email = Some email\<rparr> else Inl (OAuthError ''aud mismatch''))))"

definition verify_google_token :: "'k oauth_lib \<Rightarrow> string \<Rightarrow> string \<Rightarrow> auth_fault + oauth_identity" where
  "verify_google_token L tok client_id =
     (case fetch_url L (google_url tok) of
        Unreachable e \<Rightarrow> Inl (OAuthError (''google: '' @ e))
      | Answered code body \<Rightarrow>
          if \<not> is_success code then Inl (OAuthError ''invalid google token'')
          else (case parse_json L body of
                  Inl e \<Rightarrow> Inl (OAuthError (''parse: '' @ e))
                | Inr payload \<Rightarrow> google_identity payload client_id))"

definition find_key :: "string \<Rightarrow> json \<Rightarrow> auth_fault + json" where
  "find_key kid jwks =
     (case json_get ''keys'' jwks of
        Some (JArr keys) \<Rightarrow>
          (case List.find (\<lambda>k. text_member ''kid'' k = Some kid) keys of
             None \<Rightarrow> Inl (OAuthError (''key not found for kid '' @ kid)) | Some k \<Rightarrow> Inr k)
      | _ \<Rightarrow> Inl (OAuthError ''jwks has no keys array''))"

definition apple_claims :: "'k oauth_lib \<Rightarrow> json \<Rightarrow> string \<Rightarrow> string \<Rightarrow> auth_fault + json" where
  "apple_claims L key client_id tok =
     (case need_member ''n'' ''key missing n'' key of Inl e \<Rightarrow> Inl e | Inr n \<Rightarrow>
     (case need_member ''e'' ''key missing e'' key of Inl e \<Rightarrow> Inl e | Inr ex \<Rightarrow>
     (case rsa_key L n ex of Inl e \<Rightarrow> Inl (OAuthError (''decoding key: '' @ e)) | Inr k \<Rightarrow>
     (case rs256_claims L k client_id tok of Inl e \<Rightarrow> Inl (OAuthError (''apple jwt verify: '' @ e)) | Inr claims \<Rightarrow> Inr claims))))"

definition verify_apple_token_with_jwks :: "'k oauth_lib \<Rightarrow> string \<Rightarrow> string \<Rightarrow> json \<Rightarrow> auth_fault + oauth_identity" where
  "verify_apple_token_with_jwks L tok client_id jwks =
     (case header_kid L tok of Inl e \<Rightarrow> Inl (OAuthError (''jwt header: '' @ e))
      | Inr None \<Rightarrow> Inl (OAuthError ''no kid in header'')
      | Inr (Some kid) \<Rightarrow>
     (case find_key kid jwks of Inl e \<Rightarrow> Inl e | Inr key \<Rightarrow>
     (case apple_claims L key client_id tok of Inl e \<Rightarrow> Inl e | Inr claims \<Rightarrow>
     (case need_member ''sub'' ''no sub in claims'' claims of Inl e \<Rightarrow> Inl e | Inr sub \<Rightarrow>
      Inr \<lparr>provider_uid = sub, oauth_email = Some (case text_member ''email'' claims of None \<Rightarrow> [] | Some e \<Rightarrow> e)\<rparr>))))"

definition verify_apple_token :: "'k oauth_lib \<Rightarrow> string \<Rightarrow> string \<Rightarrow> auth_fault + oauth_identity" where
  "verify_apple_token L tok client_id =
     (case fetch_url L ''https://appleid.apple.com/auth/keys'' of
        Unreachable e \<Rightarrow> Inl (OAuthError (''jwks fetch: '' @ e))
      | Answered _ body \<Rightarrow>
          (case parse_json L body of
             Inl e \<Rightarrow> Inl (OAuthError (''jwks parse: '' @ e))
           | Inr jwks \<Rightarrow> verify_apple_token_with_jwks L tok client_id jwks))"

datatype verifier = RealVerifier string string | DevVerifier

definition verifier_from_env :: "getter \<Rightarrow> verifier option" where
  "verifier_from_env get =
     (case get ''OAUTH_GOOGLE_CLIENT_ID'' of
        Some ids \<Rightarrow> Some (RealVerifier ids (var_or get ''OAUTH_APPLE_CLIENT_ID'' []))
      | None \<Rightarrow> if get ''DEV_OAUTH_ENABLED'' = Some ''true'' then Some DevVerifier else None)"

fun verify_identity :: "'k oauth_lib \<Rightarrow> verifier \<Rightarrow> string \<Rightarrow> string \<Rightarrow> auth_fault + oauth_identity" where
  "verify_identity L (RealVerifier google apple) provider tok =
     (if provider = ''google'' then verify_google_token L tok google
      else if provider = ''apple'' then verify_apple_token L tok apple
      else Inl (OAuthError ''unsupported provider''))"
| "verify_identity L DevVerifier provider tok = dev_verify tok"

section \<open>The start\<close>

text \<open>
  \<^verbatim>\<open>main\<close>: the first argument, connecting, migrating and binding are given by the host. A start ends with an error, with
  the migrations applied, with the exit code 1, or listening with its dependencies.
\<close>

record host =
  debug_build :: bool
  env_var :: getter
  first_arg :: "string option"
  db_connect :: "string \<Rightarrow> string option"
  db_migrate :: "string option"
  bind_listener :: "string \<Rightarrow> string option"

datatype start = StartError string | Migrated | ExitOne | Listening config notifier verifier

definition server_main :: "host \<Rightarrow> start" where
  "server_main h =
     (case config_from_getter (debug_build h) (env_var h) of Inl e \<Rightarrow> StartError e | Inr c \<Rightarrow>
     (case db_connect h (database_url c) of Some e \<Rightarrow> StartError e | None \<Rightarrow>
      if first_arg h = Some ''migrate'' then (case db_migrate h of Some e \<Rightarrow> StartError e | None \<Rightarrow> Migrated)
      else (case verifier_from_env (env_var h) of None \<Rightarrow> ExitOne | Some v \<Rightarrow>
           (case bind_listener h (bind_addr c) of Some e \<Rightarrow> StartError e
            | None \<Rightarrow> Listening c (notifier_from_env (env_var h)) v))))"

text \<open>The state of the application the handlers get: the configured part over the external functions of \<open>base\<close>.\<close>

definition deployed :: "'k oauth_lib \<Rightarrow> config \<Rightarrow> verifier \<Rightarrow> app \<Rightarrow> app" where
  "deployed L c v base = base\<lparr>jwt_secret := config_jwt_secret c, access_ttl_secs := config_access_ttl c,
     refresh_ttl_secs := config_refresh_ttl c,
     oauth_verify := (\<lambda>provider tok. case verify_identity L v provider tok of Inl _ \<Rightarrow> None | Inr x \<Rightarrow> Some x)\<rparr>"

section \<open>Layers around the router\<close>

definition DEFAULT_ORIGINS :: "string list" where
  "DEFAULT_ORIGINS = [''https://turnend.win'', ''https://www.turnend.win'', ''https://app.turnend.win'']"

definition is_localhost :: "bytes \<Rightarrow> bool" where
  "is_localhost origin =
     (case from_utf8 origin of
        None \<Rightarrow> False
      | Some s \<Rightarrow> s = ''http://localhost'' \<or> s = ''http://127.0.0.1'' \<or> prefix ''http://localhost:'' s \<or> prefix ''http://127.0.0.1:'' s)"

definition allowed_origins :: "getter \<Rightarrow> string list" where
  "allowed_origins get =
     (case get ''CORS_ALLOWED_ORIGINS'' of
        Some v \<Rightarrow> if utrim v \<noteq> [] then filter (\<lambda>s. s \<noteq> []) (map utrim (split_on CHR '','' v)) else DEFAULT_ORIGINS
      | None \<Rightarrow> DEFAULT_ORIGINS)"

definition cors_allows :: "getter \<Rightarrow> bytes \<Rightarrow> bool" where
  "cors_allows get origin \<longleftrightarrow> list_ex (\<lambda>c. as_bytes c = origin) (allowed_origins get) \<or> is_localhost origin"

definition security_headers :: "(string \<times> string) list \<Rightarrow> (string \<times> string) list" where
  "security_headers hs = AList.update ''x-frame-options'' ''DENY'' (AList.update ''x-content-type-options'' ''nosniff'' hs)"

text \<open>The format of an answer. A header that is no text counts as absent; \<open>pack\<close> is \<^verbatim>\<open>rmp_serde::to_vec\<close>.\<close>

definition to_ascii_lower :: "string \<Rightarrow> string" where
  "to_ascii_lower = map (\<lambda>c. let n = (of_char c :: nat) in if 65 \<le> n \<and> n \<le> 90 then char_of (n + 32) else c)"

definition accepts_msgpack :: "string option \<Rightarrow> bool" where
  "accepts_msgpack accept =
     (case accept of
        None \<Rightarrow> False
      | Some v \<Rightarrow> list_ex (\<lambda>part. to_ascii_lower (utrim part) = ''application/msgpack'') (split_on CHR '','' v))"

datatype response_body = Packed bytes | AsJson json

definition respond_with_status :: "(json \<Rightarrow> bytes option) \<Rightarrow> status \<Rightarrow> json \<Rightarrow> string option \<Rightarrow> status \<times> response_body" where
  "respond_with_status packer s body accept =
     (if accepts_msgpack accept
      then (case packer body of
              Some b \<Rightarrow> (s, Packed b)
            | None \<Rightarrow> (INTERNAL_SERVER_ERROR, AsJson (JObj [(''error'', JStr ''serialization failed'')])))
      else (s, AsJson body))"

definition respond :: "(json \<Rightarrow> bytes option) \<Rightarrow> json \<Rightarrow> string option \<Rightarrow> status \<times> response_body" where
  "respond packer body accept = respond_with_status packer OK body accept"

section \<open>Answers without a state\<close>

definition health :: "(json \<Rightarrow> bytes option) \<Rightarrow> string option \<Rightarrow> (world, 'e, status \<times> response_body) prog" where
  "health packer accept =
     andthen (attempt (query (\<lambda>_ _. ()))) (\<lambda>ping :: db_error + unit.
     ret (let up = \<not> isl ping
          in respond_with_status packer (if up then OK else SERVICE_UNAVAILABLE)
               (JObj [(''status'', JStr (if up then ''ok'' else ''degraded'')), (''db'', JStr (if up then ''up'' else ''down''))]) accept))"

definition get_filters :: json where
  "get_filters = JObj
     [(''tribes'', json_strs [''Bear'', ''Otter'', ''Twink'', ''Jock'', ''Daddy'', ''Geek'', ''Muscle'', ''Chub'', ''Leather'', ''Trans'', ''Queer'']),
      (''looking_for'', json_strs [''Chat'', ''Dates'', ''Friends'', ''Networking'', ''Relationship'', ''Right Now'']),
      (''body_types'', json_strs [''Slim'', ''Average'', ''Athletic'', ''Muscular'', ''Curvy'', ''Stocky'', ''Large'']),
      (''relationship_statuses'', json_strs [''Single'', ''Dating'', ''Partnered'', ''Married'', ''Open Relationship'']),
      (''genders'', json_strs [''Man'', ''Woman'', ''Non-Binary'', ''Trans Man'', ''Trans Woman'']),
      (''positions'', json_strs [''Top'', ''Bottom'', ''Versatile'', ''Side''])]"

definition apple_site_association :: "getter \<Rightarrow> json" where
  "apple_site_association get = JObj [(''applinks'', JObj
     [(''apps'', JArr []),
      (''details'', JArr [JObj [(''appID'', JStr (var_or get ''APPLE_TEAM_ID'' ''CHANGE_ME_APPLE_TEAM_ID'' @ ''.com.proyectox.app'')),
                              (''paths'', json_strs [''/profile/*'', ''/chat/*'', ''/''])]])])]"

definition assetlinks :: "getter \<Rightarrow> json" where
  "assetlinks get = JArr [JObj
     [(''relation'', json_strs [''delegate_permission/common.handle_all_urls'']),
      (''target'', JObj [(''namespace'', JStr ''android_app''), (''package_name'', JStr ''com.proyectox.app''),
                       (''sha256_cert_fingerprints'', json_strs [var_or get ''ANDROID_SHA256_FINGERPRINT'' ''CHANGE_ME''])])]]"

end
