(* ===== verification/StartupProps.thy ===== *)
theory StartupProps
  imports Startup AuthProps
begin

text \<open>
  What a started server promises about the accounts it opens to tokens of an identity provider: the composition of
  \<^verbatim>\<open>main.rs\<close>, \<^verbatim>\<open>oauth.rs\<close> and the sign-in endpoint.
\<close>

section \<open>Who signs in with a provider\<close>

text \<open>What it means that Google, or Apple, vouches for an identity.\<close>

definition google_vouches :: "'k oauth_lib \<Rightarrow> string \<Rightarrow> string \<Rightarrow> oauth_identity \<Rightarrow> bool" where
  "google_vouches L ids tok ident \<longleftrightarrow>
     (\<exists>code body payload aud. fetch_url L (google_url tok) = Answered code body \<and> is_success code \<and> parse_json L body = Inr payload
        \<and> text_member ''sub'' payload = Some (provider_uid ident) \<and> text_member ''email'' payload = oauth_email ident
        \<and> text_member ''aud'' payload = Some aud \<and> aud \<in> set (allowed_clients ids))"

definition apple_vouches :: "'k oauth_lib \<Rightarrow> string \<Rightarrow> string \<Rightarrow> oauth_identity \<Rightarrow> bool" where
  "apple_vouches L client tok ident \<longleftrightarrow>
     (\<exists>code body jwks keys kid key n e k claims. fetch_url L ''https://appleid.apple.com/auth/keys'' = Answered code body
        \<and> parse_json L body = Inr jwks \<and> json_get ''keys'' jwks = Some (JArr keys) \<and> key \<in> set keys
        \<and> header_kid L tok = Inr (Some kid) \<and> text_member ''kid'' key = Some kid
        \<and> text_member ''n'' key = Some n \<and> text_member ''e'' key = Some e \<and> rsa_key L n e = Inr k
        \<and> rs256_claims L k client tok = Inr claims \<and> text_member ''sub'' claims = Some (provider_uid ident))"

definition dev_vouches :: "string \<Rightarrow> oauth_identity \<Rightarrow> bool" where
  "dev_vouches tok ident \<longleftrightarrow> prefix (''dev:'' @ provider_uid ident) tok \<and> provider_uid ident \<noteq> []"

lemma split_once_prefix: "split_once c s = Some (a, b) \<Longrightarrow> s = a @ c # b"
  by (induction s arbitrary: a b) (auto split: if_splits option.splits prod.splits)

lemma google_sound: "verify_google_token L tok ids = Inr ident \<Longrightarrow> google_vouches L ids tok ident"
  by (auto simp: verify_google_token_def google_identity_def need_member_def google_vouches_def list_ex_iff
      split: call_reply.splits sum.splits option.splits if_splits)

lemma apple_sound: "verify_apple_token L tok client = Inr ident \<Longrightarrow> apple_vouches L client tok ident"
  by (auto simp: verify_apple_token_def verify_apple_token_with_jwks_def find_key_def apple_claims_def need_member_def apple_vouches_def
      dest!: find_SomeD split: call_reply.splits sum.splits option.splits if_splits json.splits)

lemma dev_sound: "dev_verify tok = Inr ident \<Longrightarrow> dev_vouches tok ident"
  by (auto simp: dev_verify_def dev_vouches_def Let_def dest!: split_once_prefix split: option.splits prod.splits if_splits)

lemma verifier_sound:
  assumes "verifier_from_env get = Some v" "verify_identity L v provider tok = Inr ident"
  shows "(\<exists>ids. get ''OAUTH_GOOGLE_CLIENT_ID'' = Some ids
            \<and> (provider = ''google'' \<and> google_vouches L ids tok ident
               \<or> provider = ''apple'' \<and> apple_vouches L (var_or get ''OAUTH_APPLE_CLIENT_ID'' []) tok ident))
         \<or> get ''OAUTH_GOOGLE_CLIENT_ID'' = None \<and> get ''DEV_OAUTH_ENABLED'' = Some ''true'' \<and> dev_vouches tok ident"
  using assms by (auto simp: verifier_from_env_def split: option.splits if_splits dest: google_sound apple_sound dev_sound)

definition linked :: "string \<Rightarrow> string \<Rightarrow> uuid \<Rightarrow> db \<Rightarrow> bool" where
  "linked provider puid uid d \<longleftrightarrow> \<lparr>ai_user_id = uid, ai_provider = provider, ai_provider_uid = puid\<rparr> \<in> set (auth_identities d)"

lemma owner_linked: "identity_owner provider puid d = Some uid \<Longrightarrow> linked provider puid uid d"
  by (auto simp: identity_owner_def linked_def dest!: find_SomeD) (metis auth_identity.surjective old.unit.exhaust)

lemma pair_for:
  assumes "calm w" "linked provider puid uid (db w)"
  shows "wp (issue_pair st uid) (\<lambda>pair v. linked provider puid uid (db v)
           \<and> (\<exists>n. jwt_encode st (jwt_secret st) \<lparr>cl_sub = uuid_text st uid, cl_exp = n + access_ttl_secs st, cl_iat = n\<rparr> = Some (access pair)))
           (\<lambda>_ _. True) w"
  unfolding issue_pair_def issue_access_def generate_refresh_def store_refresh_token_def Let_def
  using assms
  by (auto simp: wp_rules store_refresh_token_sql_def linked_def intro!: wp_stmt_calm split: option.split prod.split sum.split if_splits)

lemma account_for:
  assumes "calm w" "identity_owner provider puid (db w) = found" "puid = provider_uid ident"
  shows "wp (oauth_account st provider ident found) (\<lambda>uid v. calm v \<and> linked provider puid uid (db v)) (\<lambda>_ _. True) w"
proof (cases found)
  case (Some uid)
  then show ?thesis
    using assms owner_linked [of provider puid "db w" uid]
    by (auto simp: oauth_account_def active_account_def user_status_def wp_rules intro!: wp_query_calm split: option.split)
next
  case None
  show ?thesis
    unfolding oauth_account_def None option.case create_user_full_def add_auth_identity_def using assms
    by (auto simp: wp_rules create_user_full_sql_def add_auth_identity_sql_def linked_def intro!: wp_stmt_calm split: prod.split sum.split if_splits)
qed

text \<open>
  C4. Signing in with a provider gives tokens only for the account linked to an identity somebody vouches for: whenever, with nobody else
  writing and a database that answers, a started server answers with a pair, the server has client ids for Google and Google confirmed the token for one of them, or the token is
  signed by a key of Apple for the configured client, or the server has no client ids, was started for
  development, and the token names its identity. The access token is that of the account the identity is linked to.
\<close>

theorem provider_sign_in_verified:
  assumes "server_main h = Listening c n v" "st = deployed L c v base" "calm w"
    and "oauth st provider tok w = (Inr pair, w')"
  shows "\<exists>ident uid k. linked provider (provider_uid ident) uid (db w')
     \<and> jwt_encode st (jwt_secret st) \<lparr>cl_sub = uuid_text st uid, cl_exp = k + access_ttl_secs st, cl_iat = k\<rparr> = Some (access pair)
     \<and> (case env_var h ''OAUTH_GOOGLE_CLIENT_ID'' of
          Some ids \<Rightarrow> provider = ''google'' \<and> google_vouches L ids tok ident
             \<or> provider = ''apple'' \<and> apple_vouches L (var_or (env_var h) ''OAUTH_APPLE_CLIENT_ID'' []) tok ident
        | None \<Rightarrow> env_var h ''DEV_OAUTH_ENABLED'' = Some ''true'' \<and> dev_vouches tok ident)"
proof -
  have v: "verifier_from_env (env_var h) = Some v"
    using assms(1) by (auto simp: server_main_def split: sum.splits option.splits if_splits)
  let ?Q = "\<lambda>pair u. \<exists>ident uid k. oauth_verify st provider tok = Some ident \<and> linked provider (provider_uid ident) uid (db u)
     \<and> jwt_encode st (jwt_secret st) \<lparr>cl_sub = uuid_text st uid, cl_exp = k + access_ttl_secs st, cl_iat = k\<rparr> = Some (access pair)"
  have "wp (oauth st provider tok) ?Q (\<lambda>_ _. True) w"
    unfolding oauth_def find_auth_identity_def
  proof (rule wp_guard, simp, rule wp_need, simp, rule calm_query_then [OF assms(3)])
    fix ident u assume id: "oauth_verify st provider tok = Some ident" and u: "calm u" "db u = db w"
    show "wp (andthen (oauth_account st provider ident (identity_owner provider (provider_uid ident) (db w))) (issue_pair st)) ?Q (\<lambda>_ _. True) u"
    proof (rule wp_bind [OF account_for [OF u(1) _ refl]])
      fix uid x assume "calm x \<and> linked provider (provider_uid ident) uid (db x)"
      then show "wp (issue_pair st uid) ?Q (\<lambda>_ _. True) x"
        using wp_mono [OF pair_for [of x provider "provider_uid ident" uid st], of ?Q "\<lambda>_ _. True"] id by blast
    qed (simp add: u)
  qed
  from wp_returns [OF this assms(4)] obtain ident uid k where ident: "oauth_verify st provider tok = Some ident"
      "linked provider (provider_uid ident) uid (db w')"
      "jwt_encode st (jwt_secret st) \<lparr>cl_sub = uuid_text st uid, cl_exp = k + access_ttl_secs st, cl_iat = k\<rparr> = Some (access pair)"
    by blast
  have "verify_identity L v provider tok = Inr ident"
    using ident(1) unfolding assms(2) deployed_def by (simp split: sum.splits)
  from verifier_sound [OF v this] ident(2,3) show ?thesis by (fastforce split: option.splits)
qed

text \<open>A server with one client id, and a Google that confirms every token for it.\<close>

definition shop_host :: host where
  "shop_host = \<lparr>debug_build = False,
     env_var = (\<lambda>k. if k = ''DATABASE_URL'' then Some ''db'' else if k = ''JWT_SECRET'' then Some ''k''
                   else if k = ''OAUTH_GOOGLE_CLIENT_ID'' then Some '' app, web'' else None),
     first_arg = None, db_connect = (\<lambda>_. None), db_migrate = None, bind_listener = (\<lambda>_. None)\<rparr>"

definition shop_google :: "unit oauth_lib" where
  "shop_google = \<lparr>fetch_url = (\<lambda>_. Answered 200 ''b''), parse_json = (\<lambda>_. Inr (JObj [(''email'', JStr ''a@b.c''), (''sub'', JStr ''7''), (''aud'', JStr ''web'')])),
     header_kid = (\<lambda>_. Inr None), rsa_key = (\<lambda>_ _. Inr ()), rs256_claims = (\<lambda>_ _ _. Inl ''none'')\<rparr>"

definition shop_config :: config where
  "shop_config = \<lparr>database_url = ''db'', bind_addr = ''0.0.0.0:8080'', config_jwt_secret = ''k'', config_access_ttl = 900, config_refresh_ttl = 2592000\<rparr>"

theorem provider_sign_in_verified_witness:
  "\<exists>ident uid.
     linked ''google'' (provider_uid ident) uid (db (snd (oauth
       (deployed shop_google shop_config (RealVerifier '' app, web'' []) sample_app) ''google'' ''t'' (alone empty_db))))
     \<and> google_vouches shop_google '' app, web'' ''t'' ident"
proof -
  let ?v = "RealVerifier '' app, web'' []"
  let ?run = "oauth (deployed shop_google shop_config ?v sample_app) ''google'' ''t'' (alone empty_db)"
  have start: "server_main shop_host = Listening shop_config DevNotifier ?v" by code_simp
  have "\<not> isl (fst ?run)" by code_simp
  then obtain pair where "fst ?run = Inr pair" by (cases "fst ?run") (simp_all del: fst_conv)
  then have run: "?run = (Inr pair, snd ?run)" by (metis prod.collapse)
  have env: "env_var shop_host ''OAUTH_GOOGLE_CLIENT_ID'' = Some '' app, web''" by (simp add: shop_host_def)
  from provider_sign_in_verified [OF start refl alone_simps(4) run] show ?thesis unfolding env by auto
qed

end
