(* ===== verification/Fcm.thy ===== *)
theory Fcm
  imports Startup Extras
begin

text \<open>
  The client of Firebase Cloud Messaging (\<^verbatim>\<open>api/src/fcm.rs\<close>): its credentials, the access token it keeps for
  the next calls, one push message, and the messages to all devices of a user.
\<close>

section \<open>The client\<close>

record fcm_client =
  project_id :: string
  client_email :: string
  private_key :: string

text \<open>
  External code: the signature (an RSA key from its PEM text, a signed assertion), the two calls over the
  network (the \<open>n\<close>th call may answer differently from the one before), the parser of the token answer, the text
  forms of a status code and of a database error.
\<close>

record 'k fcm_lib =
  pem_key :: "string \<Rightarrow> string + 'k"
  sign_claims :: "'k \<Rightarrow> json \<Rightarrow> string + string"
  token_call :: "nat \<Rightarrow> string \<Rightarrow> call_reply"
  token_body :: "string \<Rightarrow> string + (string \<times> int)"
  message_call :: "nat \<Rightarrow> string \<Rightarrow> string \<Rightarrow> json \<Rightarrow> call_reply"
  code_line :: "nat \<Rightarrow> string"
  sql_text :: "db_error \<Rightarrow> string"

definition DEFAULT_ACCOUNT_FILE :: string where
  "DEFAULT_ACCOUNT_FILE = ''firebase/foxy-85ecb-firebase-adminsdk-fbsvc-686e30c5f3.json''"

definition fcm_from_env :: "(string \<Rightarrow> json option) \<Rightarrow> (string \<Rightarrow> string option) \<Rightarrow> getter \<Rightarrow> fcm_client option" where
  "fcm_from_env from_str read_file get =
     Option.bind
       (case get ''FIREBASE_SERVICE_ACCOUNT_JSON'' of
          Some s \<Rightarrow> Some s
        | None \<Rightarrow> read_file (var_or get ''FIREBASE_SERVICE_ACCOUNT'' DEFAULT_ACCOUNT_FILE)) (\<lambda>s.
     Option.bind (from_str s) (\<lambda>v.
     Option.bind (text_member ''project_id'' v) (\<lambda>p.
     Option.bind (text_member ''client_email'' v) (\<lambda>e.
     Option.bind (text_member ''private_key'' v) (\<lambda>k.
     Some \<lparr>project_id = p, client_email = e, private_key = k\<rparr>)))))"

section \<open>The access token\<close>

text \<open>
  The state of the client: the world, and the kept token with the second it expires. A program of the world runs on its
  part. Seconds are integers: \<^verbatim>\<open>expires_in\<close> is an \<^verbatim>\<open>i64\<close> and added to the clock unchecked.
\<close>

type_synonym token_cache = "(string \<times> int) option"
type_synonym ('e, 'a) fcm_prog = "(world \<times> token_cache, 'e, 'a) prog"

definition on_world :: "(world, 'e, 'a) prog \<Rightarrow> ('e, 'a) fcm_prog" where
  "on_world m s = (case m (fst s) of (r, w) \<Rightarrow> (r, (w, snd s)))"

definition cached :: "('e, token_cache) fcm_prog" where
  "cached s = (Inr (snd s), s)"

definition set_cache :: "token_cache \<Rightarrow> ('e, unit) fcm_prog" where
  "set_cache c s = (Inr (), (fst s, c))"

definition unix_now :: "('e, int) fcm_prog" where
  "unix_now s = (Inr (unix_timestamp (now (fst s))), s)"

definition fcm_claims :: "fcm_client \<Rightarrow> int \<Rightarrow> json" where
  "fcm_claims f n = JObj
     [(''iss'', JStr (client_email f)), (''scope'', JStr ''https://www.googleapis.com/auth/firebase.messaging''),
      (''aud'', JStr ''https://oauth2.googleapis.com/token''), (''exp'', json_int (n + 3600)), (''iat'', json_int n)]"

definition assertion :: "'k fcm_lib \<Rightarrow> fcm_client \<Rightarrow> int \<Rightarrow> string + string" where
  "assertion L f n =
     (case pem_key L (private_key f) of
        Inl e \<Rightarrow> Inl (''invalid private key: '' @ e)
      | Inr k \<Rightarrow> (case sign_claims L k (fcm_claims f n) of Inl e \<Rightarrow> Inl (''jwt encode: '' @ e) | Inr a \<Rightarrow> Inr a))"

definition token_answer :: "'k fcm_lib \<Rightarrow> call_reply \<Rightarrow> string + (string \<times> int)" where
  "token_answer L r =
     (case r of
        Unreachable e \<Rightarrow> Inl (''token request failed: '' @ e)
      | Answered code text \<Rightarrow>
          if \<not> is_success code then Inl (''token API error '' @ code_line L code @ '': '' @ text)
          else (case token_body L text of Inl e \<Rightarrow> Inl (''token parse: '' @ e) | Inr t \<Rightarrow> Inr t))"

definition lift_result :: "'e + 'a \<Rightarrow> ('s, 'e, 'a) prog" where
  "lift_result r s = (r, s)"

definition fetch_new_token :: "'k fcm_lib \<Rightarrow> fcm_client \<Rightarrow> (string, string \<times> int) fcm_prog" where
  "fetch_new_token L f =
     andthen unix_now (\<lambda>n.
     andthen (lift_result (assertion L f n)) (\<lambda>a.
     andthen (on_world (draw (\<lambda>i. token_call L i a))) (\<lambda>r.
     lift_result (token_answer L r))))"

definition refresh_access_token :: "'k fcm_lib \<Rightarrow> fcm_client \<Rightarrow> (string, string) fcm_prog" where
  "refresh_access_token L f =
     andthen (fetch_new_token L f) (\<lambda>(tok, expires_in).
     andthen unix_now (\<lambda>n.
     andthen (set_cache (Some (tok, n + expires_in))) (\<lambda>_.
     ret tok)))"

definition get_access_token :: "'k fcm_lib \<Rightarrow> fcm_client \<Rightarrow> (string, string) fcm_prog" where
  "get_access_token L f =
     andthen cached (\<lambda>c.
     andthen unix_now (\<lambda>n.
     case c of
       Some (tok, expiry) \<Rightarrow> if n < expiry - 60 then ret tok else refresh_access_token L f
     | None \<Rightarrow> refresh_access_token L f))"

section \<open>One message\<close>

definition push_payload :: "string \<Rightarrow> string \<Rightarrow> string \<Rightarrow> (string \<times> json) list option \<Rightarrow> json" where
  "push_payload device_token heading body data = JObj [(''message'', JObj
     ([(''token'', JStr device_token), (''notification'', JObj [(''title'', JStr heading), (''body'', JStr body)])]
       @ (case data of None \<Rightarrow> [] | Some m \<Rightarrow> [(''data'', JObj m)])))]"

definition messages_url :: "fcm_client \<Rightarrow> string" where
  "messages_url f = ''https://fcm.googleapis.com/v1/projects/'' @ project_id f @ ''/messages:send''"

definition fcm_send ::
    "'k fcm_lib \<Rightarrow> fcm_client \<Rightarrow> string \<Rightarrow> string \<Rightarrow> string \<Rightarrow> (string \<times> json) list option \<Rightarrow> (string, unit) fcm_prog" where
  "fcm_send L f device_token heading body data =
     andthen (get_access_token L f) (\<lambda>tok.
     andthen (on_world (draw (\<lambda>i. message_call L i (messages_url f) tok (push_payload device_token heading body data)))) (\<lambda>r.
     case r of
       Unreachable e \<Rightarrow> throw (''fcm send failed: '' @ e)
     | Answered code text \<Rightarrow>
         if is_success code then ret ()
         else andthen (if code = 401 \<or> code = 403 then set_cache None else ret ()) (\<lambda>_.
              throw (''FCM API error '' @ code_line L code @ '': '' @ text))))"

section \<open>All devices of a user\<close>

text \<open>A deleted device is forgotten by the refresh tokens that name it (\<^verbatim>\<open>ON DELETE SET NULL\<close>).\<close>

definition touch_device :: "uuid \<Rightarrow> timestamp \<Rightarrow> db \<Rightarrow> db" where
  "touch_device did t d =
     d\<lparr>office := devices_update (update_where (\<lambda>v. dv_id v = did) (\<lambda>v. v\<lparr>dv_last_seen_at := Some t\<rparr>)) (office d)\<rparr>"

definition drop_device :: "uuid \<Rightarrow> db \<Rightarrow> db" where
  "drop_device did d =
     d\<lparr>office := devices_update (filter (\<lambda>v. dv_id v \<noteq> did)) (office d),
       refresh_tokens := update_where (\<lambda>r. rt_device_id r = Some did) (\<lambda>r. r\<lparr>rt_device_id := None\<rparr>) (refresh_tokens d)\<rparr>"

definition unregistered :: "string \<Rightarrow> bool" where
  "unregistered e \<longleftrightarrow> sublist ''NOT_FOUND'' e \<or> sublist ''UNREGISTERED'' e"

definition push_device :: "'k fcm_lib \<Rightarrow> fcm_client \<Rightarrow> string \<Rightarrow> string \<Rightarrow> device \<Rightarrow> (string, unit) fcm_prog" where
  "push_device L f heading body v =
     (case dv_push_token v of
        None \<Rightarrow> ret ()
      | Some tok \<Rightarrow>
          if tok = [] then ret ()
          else andthen (attempt (fcm_send L f tok heading body None)) (\<lambda>r.
            case r of
              Inr _ \<Rightarrow> andthen (attempt (on_world (update (touch_device (dv_id v))))) (\<lambda>_ :: db_error + unit. ret ())
            | Inl e \<Rightarrow>
                if unregistered e
                then andthen (attempt (on_world (update (\<lambda>_. drop_device (dv_id v))))) (\<lambda>_ :: db_error + unit. ret ())
                else ret ()))"

definition send_to_user :: "'k fcm_lib \<Rightarrow> fcm_client \<Rightarrow> uuid \<Rightarrow> string \<Rightarrow> string \<Rightarrow> (string, unit) fcm_prog" where
  "send_to_user L f uid heading body =
     andthen (map_err (\<lambda>e. ''loading devices: '' @ sql_text L e) (on_world (list_user_devices uid))) (\<lambda>vs.
     for_each vs (push_device L f heading body))"

end
