(* ===== verification/FcmProps.thy ===== *)
theory FcmProps
  imports Fcm
begin

text \<open>
  What a push to all devices of a user does to the table of devices: the answers of Firebase decide it, row by row.
\<close>

section \<open>What a push leaves of the devices\<close>

lemma wp_on_world [wp_rules]: "wp (on_world m) Q E s = wp m (\<lambda>x w. Q x (w, snd s)) (\<lambda>e w. E e (w, snd s)) (fst s)"
  by (auto simp: wp_def on_world_def split: prod.splits sum.splits)

lemma wp_cached [wp_rules]: "wp cached Q E s = Q (snd s) s"
  by (simp add: wp_def cached_def)

lemma wp_set_cache [wp_rules]: "wp (set_cache c) Q E s = Q () (fst s, c)"
  by (simp add: wp_def set_cache_def)

lemma wp_unix_now [wp_rules]: "wp unix_now Q E s = Q (unix_timestamp (now (fst s))) s"
  by (simp add: wp_def unix_now_def)

lemma wp_lift_result [wp_rules]: "wp (lift_result r) Q E s = (case r of Inl e \<Rightarrow> E e s | Inr x \<Rightarrow> Q x s)"
  by (simp add: wp_def lift_result_def split: sum.split)

text \<open>A message leaves the tables and the other connections alone; it only uses answers of the network.\<close>

definition after_calls :: "world \<Rightarrow> world \<times> token_cache \<Rightarrow> bool" where
  "after_calls w s \<longleftrightarrow> db (fst s) = db w \<and> turns (fst s) = turns w \<and> draws w \<le> draws (fst s)"

lemma token_calls: "after_calls w s \<Longrightarrow> keeps (after_calls w) (get_access_token L f) s"
  unfolding get_access_token_def refresh_access_token_def fetch_new_token_def
  by (auto simp: wp_rules after_calls_def split: option.split sum.split)

lemma message_calls: "after_calls w s \<Longrightarrow> keeps (after_calls w) (fcm_send L f tok heading body data) s"
  unfolding fcm_send_def
  by (rule keeps_bind [OF token_calls]) (auto simp: wp_rules after_calls_def split: call_reply.split)

lemma message_frame: "after_calls (fst s) (snd (fcm_send L f tok heading body data s))"
  by (rule keeps_final [OF message_calls]) (simp add: after_calls_def)

text \<open>
  What becomes of a device: nothing when it has no push token; else what the answer to its message says,
  which came between the \<open>n\<close>th and the \<open>m\<close>th call.
\<close>

definition device_fate ::
    "'k fcm_lib \<Rightarrow> fcm_client \<Rightarrow> string \<Rightarrow> string \<Rightarrow> nat \<Rightarrow> nat \<Rightarrow> device \<Rightarrow> device option \<Rightarrow> bool" where
  "device_fate L f heading body n m v x \<longleftrightarrow>
     (case dv_push_token v of
        None \<Rightarrow> x = Some v
      | Some tok \<Rightarrow>
          if tok = [] then x = Some v
          else \<exists>s r s'. n \<le> draws (fst s) \<and> draws (fst s') \<le> m \<and> fcm_send L f tok heading body None s = (r, s')
                 \<and> (case r of
                      Inr _ \<Rightarrow> \<exists>t. x = Some (v\<lparr>dv_last_seen_at := Some t\<rparr>)
                    | Inl e \<Rightarrow> x = (if unregistered e then None else Some v)))"

lemma fate_mono: "device_fate L f h b n m v x \<Longrightarrow> n' \<le> n \<Longrightarrow> m \<le> m' \<Longrightarrow> device_fate L f h b n' m' v x"
  unfolding device_fate_def by (cases "dv_push_token v") (auto, (meson le_trans)+)

lemma fate_id: "device_fate L f h b n m v (Some y) \<Longrightarrow> dv_id y = dv_id v"
  unfolding device_fate_def by (auto split: option.splits if_splits sum.splits)

definition change_row :: "uuid \<Rightarrow> device option \<Rightarrow> device list \<Rightarrow> device list" where
  "change_row did x = List.map_filter (\<lambda>u. if dv_id u = did then x else Some u)"

lemma change_row_simps [simp]:
  "change_row did x [] = []"
  "change_row did x (u # us) = (if dv_id u = did then (case x of None \<Rightarrow> [] | Some y \<Rightarrow> [y]) else [u]) @ change_row did x us"
  by (simp_all add: change_row_def List.map_filter_simps split: option.split)

lemma change_absent: "did \<notin> dv_id ` set vs \<Longrightarrow> change_row did x vs = vs"
  by (induction vs) auto

lemma update_absent: "did \<notin> dv_id ` set vs \<Longrightarrow> update_where (\<lambda>u. dv_id u = did) g vs = vs"
  by (induction vs) auto

lemma change_same: "distinct (map dv_id vs) \<Longrightarrow> v \<in> set vs \<Longrightarrow> change_row (dv_id v) (Some v) vs = vs"
  by (induction vs) (auto simp: change_absent)

lemma change_drop: "filter (\<lambda>u. dv_id u \<noteq> did) vs = change_row did None vs"
  by (induction vs) auto

lemma change_touch:
  "distinct (map dv_id vs) \<Longrightarrow> v \<in> set vs \<Longrightarrow>
   update_where (\<lambda>u. dv_id u = dv_id v) (\<lambda>u. u\<lparr>dv_last_seen_at := t\<rparr>) vs = change_row (dv_id v) (Some (v\<lparr>dv_last_seen_at := t\<rparr>)) vs"
  by (induction vs) (auto simp: change_absent update_absent)

lemma change_ids:
  "(\<And>y. x = Some y \<Longrightarrow> dv_id y = did) \<Longrightarrow> distinct (map dv_id vs) \<Longrightarrow>
   distinct (map dv_id (change_row did x vs)) \<and> dv_id ` set (change_row did x vs) \<subseteq> dv_id ` set vs"
  by (induction vs) (auto split: option.split)

lemma change_keeps: "v \<in> set vs \<Longrightarrow> dv_id v \<noteq> did \<Longrightarrow> v \<in> set (change_row did x vs)"
  by (induction vs) auto

lemma wp_result: "m s = (r, t) \<Longrightarrow> wp m Q E s = (case r of Inl e \<Rightarrow> E e t | Inr x \<Rightarrow> Q x t)"
  by (simp add: wp_def)

abbreviation table :: "world \<times> token_cache \<Rightarrow> device list" where
  "table s \<equiv> devices (office (db (fst s)))"

lemma push_device_fate:
  assumes "calm (fst s)" "v \<in> set (table s)" "distinct (map dv_id (table s))"
  shows "wp (push_device L f h b v) (\<lambda>_ s'. calm (fst s') \<and> draws (fst s) \<le> draws (fst s')
           \<and> (\<exists>x. device_fate L f h b (draws (fst s)) (draws (fst s')) v x \<and> table s' = change_row (dv_id v) x (table s)))
           (\<lambda>_ _. False) s"
proof (cases "dv_push_token v = None \<or> dv_push_token v = Some []")
  case True
  then show ?thesis
    using assms change_same [OF assms(3,2)] by (auto simp: push_device_def device_fate_def wp_rules intro!: exI [of _ "Some v"])
next
  case False
  then obtain tok where tok: "dv_push_token v = Some tok" "tok \<noteq> []" by auto
  obtain r s1 where sent: "fcm_send L f tok h b None s = (r, s1)" by (cases "fcm_send L f tok h b None s")
  then have "after_calls (fst s) s1" using message_frame [of s L f tok h b None] by simp
  then have s1: "db (fst s1) = db (fst s)" "calm (fst s1)" "draws (fst s) \<le> draws (fst s1)"
    using assms(1) by (simp_all add: after_calls_def calm_def)
  have fate: "device_fate L f h b (draws (fst s)) (draws (fst s1)) v x"
    if "case r of Inr _ \<Rightarrow> \<exists>t. x = Some (v\<lparr>dv_last_seen_at := Some t\<rparr>) | Inl e \<Rightarrow> x = (if unregistered e then None else Some v)" for x
    unfolding device_fate_def tok option.case if_not_P [OF tok(2)] using sent that by blast
  let ?Q = "\<lambda>s'. calm (fst s') \<and> draws (fst s) \<le> draws (fst s')
           \<and> (\<exists>x. device_fate L f h b (draws (fst s)) (draws (fst s')) v x \<and> table s' = change_row (dv_id v) x (table s))"
  have after: "wp (update g) (\<lambda>_ u. ?Q (u, snd s1)) (\<lambda>_ u. ?Q (u, snd s1)) (fst s1)"
    if "\<And>t. (case r of Inr _ \<Rightarrow> \<exists>ta. x t = Some (v\<lparr>dv_last_seen_at := Some ta\<rparr>) | Inl e \<Rightarrow> x t = (if unregistered e then None else Some v))
           \<and> devices (office (g t (db (fst s)))) = change_row (dv_id v) (x t) (table s)"
    for g and x :: "timestamp \<Rightarrow> device option"
  proof (rule wp_update_calm [OF s1(2)])
    fix u assume "calm u" "draws u = draws (fst s1)" "db u = g (now u) (db (fst s1))"
    then show "?Q (u, snd s1)" using that [of "now u"] fate [of "x (now u)"] s1 by auto
  qed
  show ?thesis
  proof (cases r)
    case (Inr y)
    have "wp (update (touch_device (dv_id v))) (\<lambda>_ u. ?Q (u, snd s1)) (\<lambda>_ u. ?Q (u, snd s1)) (fst s1)"
      by (rule after [of "\<lambda>t. Some (v\<lparr>dv_last_seen_at := Some t\<rparr>)"])
         (use Inr in \<open>auto simp: touch_device_def change_touch [OF assms(3,2)]\<close>)
    then show ?thesis
      using Inr by (simp add: push_device_def tok wp_rules wp_result [of "fcm_send L f tok h b None", OF sent])
  next
    case (Inl e)
    then show ?thesis
      using after [of "\<lambda>_. None" "\<lambda>_. drop_device (dv_id v)"] fate [of "Some v"] change_same [OF assms(3,2)] s1
      by (auto simp: push_device_def tok wp_rules wp_result [of "fcm_send L f tok h b None", OF sent] drop_device_def change_drop)
  qed
qed

lemma filter_change: "List.map_filter g (change_row did x vs) = List.map_filter (\<lambda>u. Option.bind (if dv_id u = did then x else Some u) g) vs"
  by (induction vs) (auto simp: List.map_filter_simps split: option.split)

lemma map_filter_cong: "(\<And>u. u \<in> set vs \<Longrightarrow> g u = k u) \<Longrightarrow> List.map_filter g vs = List.map_filter k vs"
  by (induction vs) (auto simp: List.map_filter_simps split: option.split)

definition fates ::
    "'k fcm_lib \<Rightarrow> fcm_client \<Rightarrow> string \<Rightarrow> string \<Rightarrow> nat \<Rightarrow> nat \<Rightarrow> device list \<Rightarrow> (device \<Rightarrow> device option) \<Rightarrow> bool" where
  "fates L f h b n m vs fate \<longleftrightarrow>
     (\<forall>u. dv_id u \<notin> dv_id ` set vs \<longrightarrow> fate u = Some u) \<and> (\<forall>v \<in> set vs. device_fate L f h b n m v (fate v))"

lemma fates_cons:
  assumes x: "device_fate L f h b n k v x" and g: "fates L f h b k m vs g" and le: "n \<le> k" "k \<le> m"
    and D: "distinct (map dv_id D)" "v \<in> set D" and new: "dv_id v \<notin> dv_id ` set vs"
  shows "\<exists>fate. fates L f h b n m (v # vs) fate \<and> List.map_filter g (change_row (dv_id v) x D) = List.map_filter fate D"
proof (intro exI conjI)
  let ?g = "\<lambda>u. if dv_id u = dv_id v then (if u = v then x else Some u) else g u"
  have one: "Option.bind x g = x"
  proof (cases x)
    case (Some z)
    then have "dv_id z = dv_id v" using fate_id x by simp
    then have "g z = Some z" using g new unfolding fates_def by metis
    then show ?thesis unfolding Some by simp
  qed simp
  have "u = v" if "u \<in> set D" "dv_id u = dv_id v" for u using that D by (auto simp: distinct_map dest: inj_onD)
  then show "List.map_filter g (change_row (dv_id v) x D) = List.map_filter ?g D"
    unfolding filter_change by (intro map_filter_cong) (use one in auto)
  have "device_fate L f h b n m u (?g u)" if "u \<in> set (v # vs)" for u
  proof (cases "u = v")
    case True
    then show ?thesis using fate_mono [OF x le_refl le(2)] by simp
  next
    case False
    with that have u: "u \<in> set vs" by simp
    then have "dv_id u \<noteq> dv_id v" using new by (metis image_eqI)
    moreover have "device_fate L f h b k m u (g u)" using g u by (simp add: fates_def)
    ultimately show ?thesis using fate_mono [OF _ le(1) le_refl] by simp
  qed
  then show "fates L f h b n m (v # vs) ?g" using g by (auto simp: fates_def)
qed

lemma change_rest: "v \<in> set D \<Longrightarrow> set vs \<subseteq> set D \<Longrightarrow> dv_id v \<notin> dv_id ` set vs \<Longrightarrow> set vs \<subseteq> set (change_row (dv_id v) x D)"
  by (metis change_keeps image_eqI subsetD subsetI)

lemma push_all_fates:
  assumes "calm (fst s)" "distinct (map dv_id (table s))" "set vs \<subseteq> set (table s)" "distinct (map dv_id vs)"
  shows "wp (for_each vs (push_device L f h b)) (\<lambda>_ s'. calm (fst s') \<and> draws (fst s) \<le> draws (fst s')
           \<and> (\<exists>fate. fates L f h b (draws (fst s)) (draws (fst s')) vs fate \<and> table s' = List.map_filter fate (table s)))
           (\<lambda>_ _. False) s"
  using assms
proof (induction vs arbitrary: s)
  case Nil
  have "List.map_filter Some us = us" for us :: "device list" by (induction us) (simp_all add: List.map_filter_simps)
  then show ?case using Nil by (auto simp: wp_rules fates_def intro!: exI [of _ Some])
next
  case (Cons v vs)
  have v: "v \<in> set (table s)" "dv_id v \<notin> dv_id ` set vs" using Cons.prems by auto
  show ?case unfolding for_each.simps
  proof (rule wp_bind [OF push_device_fate [OF Cons.prems(1) v(1) Cons.prems(2), of L f h b]])
    fix y t
    assume "calm (fst t) \<and> draws (fst s) \<le> draws (fst t)
      \<and> (\<exists>x. device_fate L f h b (draws (fst s)) (draws (fst t)) v x \<and> table t = change_row (dv_id v) x (table s))"
    then obtain x where t: "calm (fst t)" "draws (fst s) \<le> draws (fst t)"
      and x: "device_fate L f h b (draws (fst s)) (draws (fst t)) v x" "table t = change_row (dv_id v) x (table s)" by auto
    have same: "dv_id z = dv_id v" if "x = Some z" for z using fate_id x(1) that by simp
    have d: "distinct (map dv_id (table t))" using change_ids [OF same Cons.prems(2)] x(2) by simp
    have sub: "set vs \<subseteq> set (table t)" unfolding x(2) by (rule change_rest) (use v Cons.prems(3) in auto)
    have rest: "distinct (map dv_id vs)" using Cons.prems(4) by simp
    from Cons.IH [OF t(1) d sub rest]
    show "wp (for_each vs (push_device L f h b)) (\<lambda>_ s'. calm (fst s') \<and> draws (fst s) \<le> draws (fst s')
           \<and> (\<exists>fate. fates L f h b (draws (fst s)) (draws (fst s')) (v # vs) fate \<and> table s' = List.map_filter fate (table s)))
           (\<lambda>_ _. False) t"
    proof (rule wp_mono)
      fix y s'
      assume "calm (fst s') \<and> draws (fst t) \<le> draws (fst s')
        \<and> (\<exists>fate. fates L f h b (draws (fst t)) (draws (fst s')) vs fate \<and> table s' = List.map_filter fate (table t))"
      then obtain g where s': "calm (fst s')" "draws (fst t) \<le> draws (fst s')"
        and g: "fates L f h b (draws (fst t)) (draws (fst s')) vs g" "table s' = List.map_filter g (table t)" by blast
      obtain fate where "fates L f h b (draws (fst s)) (draws (fst s')) (v # vs) fate"
        "List.map_filter g (change_row (dv_id v) x (table s)) = List.map_filter fate (table s)"
        using fates_cons [OF x(1) g(1) t(2) s'(2) Cons.prems(2) v] by blast
      then show "calm (fst s') \<and> draws (fst s) \<le> draws (fst s')
        \<and> (\<exists>fate. fates L f h b (draws (fst s)) (draws (fst s')) (v # vs) fate \<and> table s' = List.map_filter fate (table s))"
        using s' t(2) unfolding g(2) x(2) by (intro conjI exI [of _ fate]) simp_all
    qed
  qed
qed

section \<open>The devices after a push\<close>

text \<open>
  C25. A push that the provider refuses never fails the caller, and touches the table of devices only as the answers say. When nobody
  else writes and the database answers (a failing load of the devices is an error for the caller) and identifiers are
  distinct, \<open>send_to_user\<close> returns, and the table afterwards is the one before with each row kept, stamped or removed, in its place:
  rows of other users and rows without a token are kept as they are; a row of the user is removed exactly when the attempt
  to its token failed with a text that names \<open>NOT_FOUND\<close> or \<open>UNREGISTERED\<close>, and stamped exactly when the attempt succeeded.
\<close>

theorem push_devices_kept:
  assumes "calm w" "distinct (map dv_id (devices (office (db w))))"
  shows "\<exists>w' c' fate. send_to_user L f uid heading body (w, c) = (Inr (), (w', c'))
     \<and> devices (office (db w')) = List.map_filter fate (devices (office (db w)))
     \<and> (\<forall>v \<in> set (devices (office (db w))).
          if dv_user v = uid then device_fate L f heading body (draws w) (draws w') v (fate v) else fate v = Some v)"
proof -
  let ?D = "devices (office (db w))"
  let ?vs = "newest_first dv_created_at (filter (\<lambda>v. dv_user v = uid) ?D)"
  have vs: "set ?vs = {v \<in> set ?D. dv_user v = uid}" by (auto simp: newest_first_def)
  have "distinct (map dv_id (filter (\<lambda>v. dv_user v = uid) ?D))" using assms(2) by (rule distinct_map_filter)
  then have d: "distinct (map dv_id ?vs)" by (simp add: newest_first_def distinct_map)
  have "wp (send_to_user L f uid heading body) (\<lambda>_ s'. \<exists>fate. fates L f heading body (draws w) (draws (fst s')) ?vs fate
          \<and> table s' = List.map_filter fate ?D) (\<lambda>_ _. False) (w, c)"
    unfolding send_to_user_def list_user_devices_def wp_andthen wp_map_err wp_on_world fst_conv snd_conv
  proof (rule wp_query_calm [OF assms(1)])
    fix u assume u: "calm u" "draws u = draws w" "db u = db w"
    show "wp (for_each ?vs (push_device L f heading body)) (\<lambda>_ s'. \<exists>fate. fates L f heading body (draws w) (draws (fst s')) ?vs fate
          \<and> table s' = List.map_filter fate ?D) (\<lambda>_ _. False) (u, c)"
      by (rule wp_mono [OF push_all_fates]) (use u assms(2) d vs in auto)
  qed
  then obtain w' c' fate where run: "send_to_user L f uid heading body (w, c) = (Inr (), (w', c'))"
      and fate: "fates L f heading body (draws w) (draws w') ?vs fate" "devices (office (db w')) = List.map_filter fate ?D"
    by (cases "send_to_user L f uid heading body (w, c)") (auto simp: wp_def split: sum.splits)
  have "if dv_user v = uid then device_fate L f heading body (draws w) (draws w') v (fate v) else fate v = Some v"
    if v: "v \<in> set ?D" for v
  proof (cases "dv_user v = uid")
    case True
    then show ?thesis using v vs fate(1) by (simp add: fates_def)
  next
    case False
    then have "dv_id v \<notin> dv_id ` set ?vs" using v assms(2) unfolding vs by (auto simp: distinct_map dest: inj_onD)
    then show ?thesis using False fate(1) by (simp add: fates_def)
  qed
  with run fate(2) show ?thesis by blast
qed

text \<open>Two phones, one of them sold: the messages are number 1 and 2, the token call number 0.\<close>

definition phone :: "uuid \<Rightarrow> uuid \<Rightarrow> string \<Rightarrow> device" where
  "phone did uid tok = \<lparr>dv_id = did, dv_user = uid, dv_platform = Some ''ios'', dv_push_token = Some tok,
     dv_last_seen_at = None, dv_created_at = int did\<rparr>"

definition phones_db :: db where
  "phones_db = empty_db\<lparr>office := empty_office\<lparr>devices := [phone 1 7 ''old'', phone 2 8 ''hers'', phone 3 7 ''new'']\<rparr>\<rparr>"

definition sample_fcm :: "unit fcm_lib" where
  "sample_fcm = \<lparr>pem_key = (\<lambda>_. Inr ()), sign_claims = (\<lambda>_ _. Inr ''a''), token_call = (\<lambda>_ _. Answered 200 ''t''),
     token_body = (\<lambda>t. Inr (t, 3600)),
     message_call = (\<lambda>i _ _ _. if i = 2 then Answered 404 ''UNREGISTERED'' else Answered 200 []),
     code_line = (\<lambda>_. ''404 Not Found''), sql_text = (\<lambda>_. [])\<rparr>"

theorem push_devices_kept_witness:
  "distinct (map dv_id (devices (office phones_db)))
   \<and> fst (send_to_user sample_fcm \<lparr>project_id = ''p'', client_email = ''e'', private_key = ''k''\<rparr> 7 ''hi'' ''tap'' (alone phones_db, None)) = Inr ()
   \<and> map dv_id (devices (office (db (fst (snd (send_to_user sample_fcm \<lparr>project_id = ''p'', client_email = ''e'', private_key = ''k''\<rparr> 7 ''hi'' ''tap'' (alone phones_db, None))))))) = [2, 3]"
proof -
  let ?f = "\<lparr>project_id = ''p'', client_email = ''e'', private_key = ''k''\<rparr>"
  have d: "distinct (map dv_id (devices (office phones_db)))" by code_simp
  have ids: "map dv_id (devices (office (db (fst (snd (send_to_user sample_fcm ?f 7 ''hi'' ''tap'' (alone phones_db, None))))))) = [2, 3]"
    by code_simp
  have "distinct (map dv_id (devices (office (db (alone phones_db)))))" using d by simp
  from push_devices_kept [OF alone_simps(4) this, of sample_fcm ?f 7 "''hi''" "''tap''" None] d ids show ?thesis by auto
qed

end
