(* ===== verification/Broker.thy ===== *)
theory Broker
  imports ChatContacts
begin

text \<open>
  The way of a chat frame from the handler that publishes it to the sockets (\<^verbatim>\<open>api/src/chat_broker.rs\<close> and the
  forwarding task of \<^verbatim>\<open>api/src/chat.rs\<close>), on texts: Redis or a broadcast channel of the process.
\<close>

section \<open>The broker\<close>

text \<open>\<^verbatim>\<open>redis::Client::open\<close> accepts an address or not; the channel in memory has a capacity.\<close>

datatype chat_broker = Redis string | InMemory nat

definition redis_from_env :: "(string \<Rightarrow> bool) \<Rightarrow> (string \<Rightarrow> string option) \<Rightarrow> string option" where
  "redis_from_env client_open get =
     Option.bind (get ''REDIS_URL'') (\<lambda>url. if client_open url then Some url else None)"

definition broker_from_env_or :: "(string \<Rightarrow> bool) \<Rightarrow> (string \<Rightarrow> string option) \<Rightarrow> nat \<Rightarrow> chat_broker" where
  "broker_from_env_or client_open get capacity =
     (case redis_from_env client_open get of Some url \<Rightarrow> Redis url | None \<Rightarrow> InMemory capacity)"

text \<open>
  What \<^verbatim>\<open>recv\<close> of the channel in memory gives: a message, that the receiver lagged (so many messages are lost),
  or that the channel is closed. The stream has a text for each, the empty one for a lag, until the end, and
  leaves out the empty texts.
\<close>

datatype received = Received string | Lagged nat | Closed

fun recv_texts :: "received list \<Rightarrow> string list" where
  "recv_texts [] = []"
| "recv_texts (Received m # rs) = m # recv_texts rs"
| "recv_texts (Lagged n # rs) = [] # recv_texts rs"
| "recv_texts (Closed # rs) = []"

definition memory_stream :: "received list \<Rightarrow> string list" where
  "memory_stream rs = filter (\<lambda>m. m \<noteq> []) (recv_texts rs)"

text \<open>What Redis gives: the subscription fails, or messages come, whose payload may be no text.\<close>

definition redis_stream :: "string + string option list \<Rightarrow> string list" where
  "redis_stream sub =
     (case sub of Inl _ \<Rightarrow> [] | Inr payloads \<Rightarrow> map (\<lambda>p. case p of None \<Rightarrow> [] | Some s \<Rightarrow> s) payloads)"

section \<open>The forwarding task\<close>

text \<open>
  Each text comes with whether the client's socket takes it, if it is sent; a text that is no JSON is dropped before
  anything else happens. \<open>from_str\<close> is \<^verbatim>\<open>serde_json::from_str\<close>.
\<close>

definition socket_frames :: "(string \<Rightarrow> json option) \<Rightarrow> (string \<times> bool) list \<Rightarrow> (json \<times> bool) list" where
  "socket_frames from_str texts = List.map_filter (\<lambda>(s, accepts). map_option (\<lambda>v. (v, accepts)) (from_str s)) texts"

definition forward_task ::
    "(string \<Rightarrow> json option) \<Rightarrow> app \<Rightarrow> uuid \<Rightarrow> string list \<Rightarrow> bool list \<Rightarrow> (world, unit, json list) prog" where
  "forward_task from_str st uid texts accepts = socket_forward st uid (\<lambda>_. None) (socket_frames from_str (zip texts accepts))"

section \<open>From the channel in memory to a socket\<close>

text \<open>
  The documented behaviour of \<^verbatim>\<open>tokio::sync::broadcast\<close>: a receiver gets the messages that were sent since it subscribed,
  in order; when it is too slow it is told how many it missed and goes on after them; it may stop at any
  time, and the channel closes after the last message.
\<close>

inductive broadcast_view :: "string list \<Rightarrow> received list \<Rightarrow> bool" where
  stops: "broadcast_view ms []"
| closes: "broadcast_view [] [Closed]"
| gets: "broadcast_view ms rs \<Longrightarrow> broadcast_view (m # ms) (Received m # rs)"
| lags: "0 < n \<Longrightarrow> n \<le> length ms \<Longrightarrow> broadcast_view (drop n ms) rs \<Longrightarrow> broadcast_view ms (Lagged n # rs)"

definition got :: "received list \<Rightarrow> nat" where
  "got rs = length (filter (\<lambda>r. case r of Received _ \<Rightarrow> True | _ \<Rightarrow> False) rs)"

lemma got_simps [simp]:
  "got [] = 0" "got (Received m # rs) = Suc (got rs)" "got (Lagged n # rs) = got rs" "got (Closed # rs) = got rs"
  by (simp_all add: got_def)

lemma view_bound: "broadcast_view ms rs \<Longrightarrow> got rs \<le> length ms"
  by (induction rule: broadcast_view.induct) auto

lemma view_subseq: "broadcast_view ms rs \<Longrightarrow> subseq (memory_stream rs) ms"
proof (induction rule: broadcast_view.induct)
  case (lags n ms rs)
  have "subseq (memory_stream rs) (take n ms @ drop n ms)" using lags.IH by (rule list_emb_append2)
  then show ?case by (simp add: memory_stream_def)
qed (auto simp: memory_stream_def)

lemma view_all: "broadcast_view ms rs \<Longrightarrow> got rs = length ms \<Longrightarrow> memory_stream rs = filter (\<lambda>m. m \<noteq> []) ms"
proof (induction rule: broadcast_view.induct)
  case (lags n ms rs)
  from view_bound [OF lags.hyps(3)] lags.hyps(1,2) lags.prems have False by simp
  then show ?case ..
qed (auto simp: memory_stream_def)

lemma subseq_map_filter: "subseq xs ys \<Longrightarrow> subseq (List.map_filter f xs) (List.map_filter f ys)"
  by (induction rule: list_emb.induct) (auto simp: List.map_filter_simps split: option.split)

lemma frames_subseq: "subseq (map fst (socket_frames from_str (zip texts accepts))) (List.map_filter from_str texts)"
proof (induction texts arbitrary: accepts)
  case (Cons t texts)
  then show ?case by (cases accepts) (auto simp: socket_frames_def List.map_filter_simps split: option.split)
qed (simp add: socket_frames_def List.map_filter_simps)

lemma frames_all:
  "set accepts \<subseteq> {True} \<Longrightarrow> length texts \<le> length accepts \<Longrightarrow>
   socket_frames from_str (zip texts accepts) = map (\<lambda>v. (v, True)) (List.map_filter from_str texts)"
proof (induction texts arbitrary: accepts)
  case (Cons t texts)
  then obtain accepts' where "accepts = True # accepts'" by (cases accepts) auto
  with Cons show ?case by (auto simp: socket_frames_def List.map_filter_simps split: option.split)
qed (simp add: socket_frames_def List.map_filter_simps)

lemma delivery_subseq: "subseq (delivery st u d frames) (filter (deliverable st u d) (map fst frames))"
  by (induction frames) (auto simp: delivery_def)

lemma delivery_all: "delivery st u d (map (\<lambda>v. (v, True)) vs) = filter (deliverable st u d) vs"
  by (induction vs) (auto simp: delivery_def)

lemma parsed_nonempty: "from_str [] = None \<Longrightarrow> List.map_filter from_str (filter (\<lambda>m. m \<noteq> []) ms) = List.map_filter from_str ms"
  by (induction ms) (auto simp: List.map_filter_simps split: option.split)

text \<open>
  C33. When no membership changes and the database answers every check, a client gets through the broker of the process,
  whatever a lagging receiver misses, only frames that were published, in
  their order, each at most as often as it was published, and only those of conversations the user is a member of; and it gets all
  of these when the receiver missed nothing and the socket takes every frame.
\<close>

theorem broker_delivers:
  assumes "calm w" "broadcast_view published rs"
  shows "\<exists>sent. fst (forward_task from_str st u (memory_stream rs) accepts w) = Inr sent
     \<and> subseq sent (filter (deliverable st u (db w)) (List.map_filter from_str published))
     \<and> (from_str [] = None \<and> got rs = length published \<and> set accepts \<subseteq> {True} \<and> length published \<le> length accepts
          \<longrightarrow> sent = filter (deliverable st u (db w)) (List.map_filter from_str published))"
proof -
  let ?frames = "socket_frames from_str (zip (memory_stream rs) accepts)"
  let ?see = "filter (deliverable st u (db w))"
  have "wp (forward_task from_str st u (memory_stream rs) accepts) (\<lambda>sent _. sent = delivery st u (db w) ?frames) (\<lambda>_ _. False) w"
    unfolding forward_task_def by (rule socket_forward_calm [OF assms(1)]) (simp add: cache_right_def)
  then have run: "fst (forward_task from_str st u (memory_stream rs) accepts w) = Inr (delivery st u (db w) ?frames)"
    by (auto simp: wp_def split: prod.splits sum.splits)
  have "subseq (?see (map fst ?frames)) (?see (List.map_filter from_str published))"
    using subseq_order.trans [OF frames_subseq subseq_map_filter [OF view_subseq [OF assms(2)]]] by (rule subseq_filter)
  then have sub: "subseq (delivery st u (db w) ?frames) (?see (List.map_filter from_str published))"
    by (rule subseq_order.trans [OF delivery_subseq])
  have all: "delivery st u (db w) ?frames = ?see (List.map_filter from_str published)"
    if "from_str [] = None" "got rs = length published" "set accepts \<subseteq> {True}" "length published \<le> length accepts"
  proof -
    have stream: "memory_stream rs = filter (\<lambda>m. m \<noteq> []) published" using view_all [OF assms(2) that(2)] .
    then have "length (memory_stream rs) \<le> length accepts" using le_trans [OF length_filter_le that(4)] by simp
    from frames_all [OF that(3) this] show ?thesis unfolding stream by (simp add: delivery_all parsed_nonempty that(1))
  qed
  show ?thesis by (intro exI [of _ "delivery st u (db w) ?frames"] conjI impI run sub) (elim conjE, rule all)
qed

text \<open>A slow receiver: of three messages of a conversation of the user it misses the second.\<close>

definition sample_from_str :: "string \<Rightarrow> json option" where
  "sample_from_str s = (if s = [] then None else Some (sample_frame s))"

theorem broker_delivers_witness:
  "(\<exists>sent. fst (forward_task sample_from_str sample_app 2 (memory_stream [Received ''4'', Lagged 1, Received ''4'']) [True, True] (alone sample_chat)) = Inr sent
     \<and> subseq sent [sample_frame ''4'', sample_frame ''4''])
   \<and> fst (forward_task sample_from_str sample_app 2 (memory_stream (map Received [''4'', ''3'', ''4''])) [True, True, True] (alone sample_chat))
       = Inr [sample_frame ''4'', sample_frame ''4'']"
proof -
  have view: "broadcast_view [''4'', ''3'', ''4''] [Received ''4'', Lagged 1, Received ''4'']"
    "broadcast_view [''4'', ''3'', ''4''] [Received ''4'', Received ''3'', Received ''4'']"
    by (intro broadcast_view.intros; simp add: gets stops)+
  have seen: "filter (deliverable sample_app 2 (db (alone sample_chat))) (List.map_filter sample_from_str [''4'', ''3'', ''4''])
      = [sample_frame ''4'', sample_frame ''4'']"
    unfolding alone_simps by code_simp
  from broker_delivers [OF alone_simps(4) view(1), of sample_from_str sample_app 2 "[True, True]" sample_chat]
    broker_delivers [OF alone_simps(4) view(2), of sample_from_str sample_app 2 "[True, True, True]" sample_chat]
  show ?thesis unfolding seen by (auto simp: sample_from_str_def)
qed

end
