(* ===== verification/Seed.thy ===== *)
theory Seed
  imports DbProfiles DbSocial Geo
begin

text \<open>
  The seed for development (\<^verbatim>\<open>api/src/dev.rs\<close>): twenty users with profiles and places, some taps and favourites. It is
  routed in every build and refused at the time of the request unless the environment allows it.
\<close>

section \<open>What is chosen from\<close>

definition seed_names :: "string list" where
  "seed_names =
    [''Carlos'', ''Miguel'', ''Alejandro'', ''Fernando'', ''Diego'', ''Santiago'', ''Mateo'', ''Andres'', ''Gabriel'',
     ''Luis'', ''Valentina'', ''Camila'', ''Sofia'', ''Isabella'', ''Ximena'', ''Renata'', ''Regina'', ''Paula'',
     ''Mia'', ''Abril'']"

definition seed_bios :: "string list" where
  "seed_bios =
    [''Amante del cafe y los atardeceres'', ''Fitness lover y aventurero'', ''Cinefilo buscando maratonear'',
     ''Chef en fin de semana, ingeniero entre semana'', ''Viajero con pasaporte lleno'',
     ''Musico y creativo de corazon'', ''Amante de los perros y la naturaleza'', ''Yogui y lector empedernido'',
     ''CEO de mi propio destino'', ''Amante del arte y la buena conversacion'', ''Sushi lover y viajera frecuente'',
     ''Runner y amante del yoga'', ''Fotografa aficionada buscando musa'', ''Escritora de corazones rotos'',
     ''Disenadora grafica y foodie'', ''Bailarina de salsa y bachata'', ''Arquitecta de suenos raros'',
     ''Medica de profesion, artista de corazon'', ''Emprendedora y cafeinodependiente'',
     ''Programadora por el dia, DJ por la noche'']"

definition seed_body_types :: "string list" where
  "seed_body_types =
    [''slim'', ''athletic'', ''average'', ''muscular'', ''curvy'', ''bear'', ''fit'']"

definition seed_positions :: "string list" where
  "seed_positions =
    [''top'', ''vers_top'', ''versatile'', ''vers_bottom'', ''bottom'', ''side'']"

definition seed_relationships :: "string list" where
  "seed_relationships =
    [''single'', ''open'', ''dating'', ''divorced'', ''married'']"

definition seed_tribes :: "string list" where
  "seed_tribes =
    [''bear'', ''otter'', ''twink'', ''jock'', ''geek'', ''daddy'', ''leather'', ''military'', ''pup'', ''muscle'',
     ''chub'', ''diverse'']"

definition seed_looking_for :: "string list" where
  "seed_looking_for =
    [''chat'', ''friends'', ''dates'', ''relationship'', ''networking'', ''hookup'', ''travel_buddy'']"

definition seed_tap_types :: "string list" where
  "seed_tap_types =
    [''fire'', ''wave'', ''smile'', ''hello'']"

section \<open>The seed\<close>

text \<open>
  The generator of random numbers: the \<open>i\<close>th draw gives an index below a bound, or a number between 0 and 1.
\<close>

record seed_rng =
  gen_index :: "nat \<Rightarrow> nat \<Rightarrow> nat"
  gen_unit :: "nat \<Rightarrow> rat"

definition pick :: "seed_rng \<Rightarrow> string list \<Rightarrow> (world, 'e, string) prog" where
  "pick R xs = draw (\<lambda>i. xs ! gen_index R i (length xs))"

fun pick_labels :: "seed_rng \<Rightarrow> string list \<Rightarrow> nat \<Rightarrow> string list \<Rightarrow> (world, 'e, string list) prog" where
  "pick_labels R pool 0 xs = ret xs"
| "pick_labels R pool (Suc n) xs =
     andthen (pick R pool) (\<lambda>x. pick_labels R pool n (if x \<in> set xs then xs else xs @ [x]))"

definition some_labels :: "seed_rng \<Rightarrow> string list \<Rightarrow> (world, 'e, string list) prog" where
  "some_labels R pool = andthen (draw (\<lambda>i. 1 + gen_index R i 3)) (\<lambda>n. pick_labels R pool n [])"

text \<open>\<^verbatim>\<open>INSERT INTO users .. ON CONFLICT (email) DO UPDATE\<close>.\<close>

definition seed_user_sql :: "app \<Rightarrow> string \<Rightarrow> uuid sql" where
  "seed_user_sql st email t d =
     (let mark = (\<lambda>r. r\<lparr>u_age_verified := True, u_email_verified := True\<rparr>)
      in case user_by_email st email d of
           Some r \<Rightarrow> (Inr (u_id r), set_user (u_id r) mark d)
         | None \<Rightarrow> (Inr (next_id d),
             d\<lparr>users := users d @ [mark (new_user (next_id d) email None None True t)], next_id := Suc (next_id d)\<rparr>))"

definition seed_user :: "app \<Rightarrow> string \<Rightarrow> (world, db_error, uuid) prog" where
  "seed_user st email = stmt (seed_user_sql st email)"

definition seed_fields :: "nat \<Rightarrow> string \<Rightarrow> string \<Rightarrow> string \<Rightarrow> profile_fields" where
  "seed_fields i body rel pos =
     \<lparr>in_display_name = Some (seed_names ! i), in_bio = Some (seed_bios ! i), in_birthdate = None, in_height_cm = None, in_weight_kg = None,
      in_body_type = Some body, in_relationship_status = Some rel, in_position = Some pos, in_ethnicity = None, in_pronouns = None\<rparr>"

definition near :: "rat \<Rightarrow> rat \<Rightarrow> rat" where
  "near base g = base + (g - 1/2) * (1/5)"

definition seed_one :: "seed_rng \<Rightarrow> app \<Rightarrow> nat \<Rightarrow> (world, status, uuid) prog" where
  "seed_one R st i =
     andthen (internal (seed_user st (''dev_user_'' @ show_nat i @ ''@vibra.test''))) (\<lambda>uid.
     andthen (attempt (set_email_verified uid)) (\<lambda>_ :: db_error + unit.
     andthen (pick R seed_body_types) (\<lambda>body.
     andthen (pick R seed_positions) (\<lambda>pos.
     andthen (pick R seed_relationships) (\<lambda>rel.
     andthen (internal (upsert_profile uid (seed_fields i body rel pos))) (\<lambda>_.
     andthen (some_labels R seed_tribes) (\<lambda>tribes.
     andthen (internal (replace_profile_tribes uid tribes)) (\<lambda>_.
     andthen (some_labels R seed_looking_for) (\<lambda>looking.
     andthen (internal (replace_profile_looking_for uid looking)) (\<lambda>_.
     andthen (draw (\<lambda>i. near (194/10) (gen_unit R i))) (\<lambda>lat.
     andthen (draw (\<lambda>i. near (- 991/10) (gen_unit R i))) (\<lambda>lon.
     andthen (internal (upsert_location uid lon lat)) (\<lambda>_.
     ret uid)))))))))))))"

fun seed_users :: "seed_rng \<Rightarrow> app \<Rightarrow> nat list \<Rightarrow> (world, status, uuid list) prog" where
  "seed_users R st [] = ret []"
| "seed_users R st (i # is) = andthen (seed_one R st i) (\<lambda>uid. andthen (seed_users R st is) (\<lambda>uids. ret (uid # uids)))"

definition seed_tap :: "seed_rng \<Rightarrow> uuid list \<Rightarrow> nat \<Rightarrow> (world, status, unit) prog" where
  "seed_tap R uids i =
     andthen (pick R seed_tap_types) (\<lambda>kind.
     andthen (internal (create_tap_row (uids ! i) (uids ! (10 + i)) kind)) (\<lambda>_. ret ()))"

definition do_seed :: "seed_rng \<Rightarrow> app \<Rightarrow> (world, status, json) prog" where
  "do_seed R st =
     andthen (seed_users R st [0..<20]) (\<lambda>uids.
     andthen (for_each [0..<10] (seed_tap R uids)) (\<lambda>_.
     andthen (for_each [0..<5] (\<lambda>i. internal (add_favorite_row (uids ! i) (uids ! (5 + i))))) (\<lambda>_.
     ret (JObj [(''message'', JStr ''Seeded 20 users''), (''user_count'', json_nat (length uids))]))))"

definition seed_inner :: "(string \<Rightarrow> string option) \<Rightarrow> seed_rng \<Rightarrow> app \<Rightarrow> (world, status, json) prog" where
  "seed_inner get R st =
     andthen (reject_if (get ''DEV_SEED_ENABLED'' \<noteq> Some ''true'') NOT_FOUND) (\<lambda>_. do_seed R st)"

section \<open>What it leaves\<close>

text \<open>Without the flag of the environment the seed answers 404 and does nothing.\<close>

lemma seed_refused: "get ''DEV_SEED_ENABLED'' \<noteq> Some ''true'' \<Longrightarrow> seed_inner get R st w = (Inl NOT_FOUND, w)"
  by (simp add: seed_inner_def run_prog)

text \<open>Nobody becomes visible by it: the users with completed cards are among those there were.\<close>

definition onboarded_within :: "uuid set \<Rightarrow> db \<Rightarrow> bool" where
  "onboarded_within S d \<longleftrightarrow> (\<forall>u \<in> set (users d). u_onboarding_completed_at u \<noteq> None \<longrightarrow> u_id u \<in> S)"

lemma onboarded_frame: "users d' = users d \<Longrightarrow> onboarded_within S d' = onboarded_within S d"
  by (simp add: onboarded_within_def)

lemma seed_statements:
  assumes "onboarded_within S d"
  shows "onboarded_within S (snd (seed_user_sql st email t d))"
    "onboarded_within S (set_user uid (u_email_verified_update (\<lambda>_. True)) d)"
    "onboarded_within S (snd (upsert_profile_with uid f t d))"
    "onboarded_within S (snd (replace_labels_sql table put key uid xs t d))"
    "onboarded_within S (snd (upsert_location_sql uid lon lat t d))"
    "onboarded_within S (snd (create_tap_sql a b kind t d))"
    "onboarded_within S (snd (add_favorite_sql a b t d))"
  using assms
  by (auto simp: seed_user_sql_def upsert_profile_with_def replace_labels_sql_def upsert_location_sql_def create_tap_sql_def
      add_favorite_sql_def Let_def set_user_def set_profile_def onboarded_within_def new_user_def set_update_where
      split: option.split sum.split)

lemma keeps_pick [simp]: "keeps (stable I) (pick R xs) w = stable I w"
  by (simp add: pick_def)

lemma keeps_labels: "stable I w \<Longrightarrow> keeps (stable I) (pick_labels R pool n xs) w"
  by (induction n arbitrary: xs w) (auto intro!: keeps_bind)

lemma keeps_some_labels: "stable I w \<Longrightarrow> keeps (stable I) (some_labels R pool) w"
  unfolding some_labels_def by (auto intro!: keeps_bind keeps_labels)

lemma seed_one_keeps:
  "stable (onboarded_within S) w \<Longrightarrow> keeps (stable (onboarded_within S)) (seed_one R st i) w"
  unfolding seed_one_def seed_user_def set_email_verified_def upsert_profile_def replace_profile_tribes_def
    replace_profile_looking_for_def upsert_location_def
  by (auto intro!: keeps_bind keeps_stmt keeps_update keeps_some_labels seed_statements)

lemma seed_users_keeps:
  "stable (onboarded_within S) w \<Longrightarrow> keeps (stable (onboarded_within S)) (seed_users R st is) w"
  by (induction "is" arbitrary: w) (auto intro!: keeps_bind seed_one_keeps)

lemma seed_shows_nobody:
  assumes "stable (onboarded_within S) w"
  shows "keeps (stable (onboarded_within S)) (seed_inner get R st) w"
  unfolding seed_inner_def do_seed_def seed_tap_def create_tap_row_def add_favorite_row_def using assms
  by (auto intro!: keeps_bind keeps_stmt keeps_for_each seed_users_keeps seed_statements)

end
