(* ===== verification/Spec2Isabelle.thy ===== *)
theory Spec2Isabelle
  imports Prelude Text Validation Totp StaffTokens RateLimit Tarpit AuthSafety Account BillingProps
    ChatContacts ChatHistory StaffLogin VisibilityProps ProfileProps PrivacyProps Platform
    EnterpriseProps StartupProps FcmProps Broker Seed
begin

text \<open>
  The backend of SXCAR (\<^verbatim>\<open>src/backend\<close>, Rust), a dating application with staff administration:
  an axum server (\<^verbatim>\<open>crates/api\<close>) over PostgreSQL (\<^verbatim>\<open>crates/db\<close>, \<^verbatim>\<open>migrations\<close>), with libraries for
  user authentication (\<^verbatim>\<open>crates/auth\<close>) and staff authentication (\<^verbatim>\<open>crates/auth_admin\<close>).

  \<^bold>\<open>How the parts interact.\<close> A request passes the trap for crawlers (\<^verbatim>\<open>tarpit.rs\<close>) and, on the
  authentication routes, the rate limiter (\<^verbatim>\<open>ratelimit.rs\<close>). Its handler reads the \<^verbatim>\<open>Authorization\<close>
  header (\<^verbatim>\<open>auth/mod.rs\<close>), checks the status of the account in the database, issues one SQL statement
  after the other and answers. Nothing but single statements is atomic, unless the source opens a
  transaction. Chat frames are published to a broker and every open socket filters what it gets.
  Subscriptions change by the webhook of the payment provider.

  \<^bold>\<open>The model of execution.\<close> A handler is a program \<open>('s, 'e, 'a) prog\<close> of \<open>Prelude\<close>: from a state to
  an error or a value and the next state; a raised error keeps the effects before it. Its state is
  \<open>world\<close> (\<open>World\<close>): the tables as lists of rows (\<open>db\<close>), the clock in microseconds, the number of
  random draws, the messages sent (mail, SMS, push, frames) and the turns to come. Before each statement a turn
  is taken: time may pass, other connections may change the tables in any way (\<open>others\<close>), and the
  statement may be refused or executed with its answer lost (\<open>outcome\<close>). So a theorem about all
  worlds is about every interleaving at the granularity of statements. \<open>stable I\<close> says that the other
  connections keep \<open>I\<close>; \<open>calm\<close> that they do nothing and the database answers. What is external
  (hash functions, JWT codec, UUID and date texts, case folding, collation, randomness, OAuth
  verification) is a field of \<open>app\<close> and an argument of every handler; \<open>sample_app\<close> is an instance for
  the witnesses. A constraint of the schema is a branch of the statement that would break it.

  \<^bold>\<open>Theories and sources.\<close>
  \<^item> \<open>Prelude\<close>, \<open>Text\<close>, \<open>Json\<close>: programs and their weakest preconditions, HTTP status codes, tables as
    lists, reachable states; Rust's string operations on bytes; \<^verbatim>\<open>serde_json::Value\<close>.
  \<^item> \<open>Validation\<close> (\<^verbatim>\<open>px_core/validation.rs\<close>), \<open>Totp\<close> and \<open>StaffTokens\<close> (\<^verbatim>\<open>auth_admin/src\<close>): password and age
    rules, the hand-written base32 on its 64-bit buffer, the AES envelope, MFA tokens, recovery codes.
  \<^item> \<open>RateLimit\<close>, \<open>Tarpit\<close> (\<^verbatim>\<open>api/src/ratelimit.rs\<close>, \<^verbatim>\<open>tarpit.rs\<close>): the edge. \<open>Startup\<close>: configuration and start
    of the server, notifier, identity providers, layers and answers without a state (\<^verbatim>\<open>config.rs\<close>, \<^verbatim>\<open>main.rs\<close>, \<^verbatim>\<open>lib.rs\<close>,
    \<^verbatim>\<open>cors.rs\<close>, \<^verbatim>\<open>msgpack.rs\<close>, \<^verbatim>\<open>health.rs\<close>, \<^verbatim>\<open>meta.rs\<close>, \<^verbatim>\<open>well_known.rs\<close>, \<^verbatim>\<open>auth/src/notify.rs\<close>, \<^verbatim>\<open>oauth.rs\<close>); \<open>StartupProps\<close> its theorem.
  \<^item> \<open>World\<close> with \<open>GalleryTables\<close>, \<open>PeopleTables\<close>, \<open>OfficeTables\<close>, \<open>EnterpriseTables\<close>: the tables of
    \<^verbatim>\<open>migrations\<close>, statements, turns.
  \<^item> \<open>DbUsers\<close> (\<^verbatim>\<open>db/src/users.rs\<close>), \<open>AuthHandlers\<close> (\<^verbatim>\<open>auth/src\<close>, \<^verbatim>\<open>api/src/auth\<close>): sign-up, login,
    OAuth, refresh, logout, one-time codes, password reset. \<open>AuthSafety\<close> and \<open>AuthProps\<close> hold the
    theorems. \<open>Account\<close>: deletion of an account and presence (\<^verbatim>\<open>api/src/me.rs\<close>, \<^verbatim>\<open>grindr_t1.rs\<close>).
  \<^item> \<open>Billing\<close>, \<open>Webhook\<close>, \<open>BillingProps\<close>: plans, tiers, purchases and the RevenueCat webhook
    (\<^verbatim>\<open>db/src/plans.rs\<close>, \<^verbatim>\<open>api/src/premium.rs\<close>, \<^verbatim>\<open>api/src/billing\<close>).
  \<^item> \<open>DbSocial\<close>, \<open>SocialHandlers\<close> (\<^verbatim>\<open>db/src/social.rs\<close>, \<^verbatim>\<open>api/src/social.rs\<close>): taps, favourites, blocks, reports.
  \<^item> \<open>DbChat\<close>, \<open>ChatHandlers\<close> (\<^verbatim>\<open>db/src/chat.rs\<close>, \<^verbatim>\<open>api/src/chat.rs\<close>): conversations, messages, receipts,
    reactions, groups and both halves of a WebSocket. \<open>ChatSafety\<close>, \<open>ChatProps\<close>, \<open>ChatContacts\<close> and
    \<open>ChatHistory\<close> hold the theorems. \<open>Broker\<close> (\<^verbatim>\<open>chat_broker.rs\<close>): the way of a frame to the sockets.
  \<^item> \<open>Presign\<close>, \<open>DbGallery\<close>, \<open>MediaHandlers\<close>, \<open>AlbumHandlers\<close>, \<open>StoryHandlers\<close> (\<^verbatim>\<open>api/src/media.rs\<close>, \<^verbatim>\<open>albums.rs\<close>,
    \<^verbatim>\<open>stories.rs\<close>, \<^verbatim>\<open>db/src/photos.rs\<close>, \<^verbatim>\<open>albums.rs\<close>, \<^verbatim>\<open>stories.rs\<close>, \<^verbatim>\<open>verification.rs\<close>): signed URLs of the
    object storage, photos, albums and their shares, stories, verification.
  \<^item> \<open>DbProfiles\<close>, \<open>ProfileHandlers\<close>, \<open>Onboarding\<close>, \<open>Geo\<close>, \<open>Events\<close>, \<open>Extras\<close> (\<^verbatim>\<open>db/src/profiles.rs\<close>, \<^verbatim>\<open>geo.rs\<close>,
    \<^verbatim>\<open>events.rs\<close>, \<^verbatim>\<open>tier2.rs\<close>, \<^verbatim>\<open>tier3.rs\<close>, \<^verbatim>\<open>notifications.rs\<close> and the files of \<^verbatim>\<open>api/src\<close> on them): profiles and
    their flags, the cards of a new account, grid, discovery and travel, events, the smaller features. \<open>Seed\<close> (\<^verbatim>\<open>dev.rs\<close>): the seed
    for development.
  \<^item> \<open>Members\<close>: the requests of the features above with their contract. \<open>AlbumProps\<close>, \<open>VisibilityProps\<close>, \<open>ProfileProps\<close>
    and \<open>PrivacyProps\<close> hold the theorems, \<open>Links\<close> the references between the tables of different features, and
    \<open>Platform\<close> the invariant of all tables of the members.
  \<^item> \<open>Fcm\<close>, \<open>FcmProps\<close> (\<^verbatim>\<open>api/src/fcm.rs\<close>): push notifications.
  \<^item> \<open>DbStaff\<close>, \<open>DbOffice\<close>, \<open>DbSupport\<close> (\<^verbatim>\<open>db/src/staff.rs\<close>, \<^verbatim>\<open>moderation.rs\<close>, \<^verbatim>\<open>support.rs\<close>, \<^verbatim>\<open>config.rs\<close>),
    \<open>StaffAuth\<close>, \<open>AdminHandlers\<close>, \<open>AdminSupport\<close> (\<^verbatim>\<open>auth_admin/src/jwt.rs\<close>, \<^verbatim>\<open>api/src/admin\<close>): the staff area, its
    login with second factor, permissions and audit log. \<open>DbEnterprise\<close>, \<open>EnterpriseHandlers\<close>
    (\<^verbatim>\<open>db/src/enterprise.rs\<close>, \<^verbatim>\<open>handlers_enterprise.rs\<close>): experiments, translations, contents, campaigns, keys, webhooks,
    the history of the configuration. \<open>EnterpriseSafety\<close> and \<open>AdminSafety\<close> hold the routers and the contracts,
    \<open>AdminProps\<close>, \<open>EnterpriseProps\<close> and \<open>StaffLogin\<close> the theorems, \<open>StaffSample\<close> a concrete staff area.

  \<^bold>\<open>The interfaces.\<close> \<open>invariant_system\<close> (\<open>Prelude\<close>) is the rule for reachable states, interpreted by the
  limiter, the trap, the authentication service, the service with chat and the whole platform. \<open>codec\<close> is the contract of a
  bit codec on unbounded numbers. \<open>auth_guarantee\<close>, \<open>chat_guarantee\<close> and \<open>member_guarantee\<close> list the statements that
  requests of each kind issue: whoever shows that each of them keeps an invariant, given what the checks before it
  establish, has that every request keeps it under interference. Instances: well-formedness of all tables, the references between
  them (\<open>links_wf\<close>), the live tokens of accounts that are not active, spent refresh tokens, users shut out of a conversation or cut off an album.
  \<open>catalog_guarantee\<close> does the same for the endpoints of the enterprise catalogue, each statement under the permission that guards
  it; \<open>admin_guarantee\<close> extends it to all endpoints of the staff area and \<open>office_guarantee\<close> by the login and the
  audit log. Instances: the log that only grows, the ledger of a request, a session that has ended, the statuses of the
  users, the well-formed catalogue.

  \<^bold>\<open>What the groups of lemmas show.\<close> The tables are well formed in every reachable state of the platform.
  A refresh token is claimed once, a request begun while an account is inactive gets it no token, a code is good for one guess,
  a registration writes its rows and no other; a sign-in with a
  provider opens only an account linked to an identity that the provider vouches for.
  Who is not a member neither reads nor changes a conversation; the forwarding loop of a socket and the broker before it
  deliver what their specifications say; pages give the history; a block cuts contact over REST. Who was cut off an album stays out,
  a read URL needs a right, hidden users are not listed, a profile shows others what its flags allow. The
  staff area does nothing for a token without the permission, records every change, keeps an ended session
  ended and locks an account after five wrong passwords; the second factor counts nothing. A version of the configuration is
  rolled back exactly once, a campaign reaches whom it names, lists do not depend on secrets, a push changes the devices
  as its answers say. The tier is the best of the active subscriptions and redeliveries change nothing. The limiter's window
  bound and the trap's capacity hold, and a trapped connection ends. Several theorems record what the
  code does although its comments say otherwise; the manifest lists them as findings. A theorem that assumes \<open>calm\<close> says so in
  its text: where the code issues several statements without a transaction, requests at the same time may undo what it states.

  \<^bold>\<open>Bounds and recursion.\<close> Every loop of the modelled code is structural recursion on its input (frames,
  rows, characters), or ends by a measure; \<open>walk_back\<close>, a client's walk through pages, takes the
  number of pages, and \<open>pages_give_history\<close> states how many are enough. Identifiers are numbers drawn
  from a counter of the database; the 64-bit buffer of base32, the lengths of the trap and the
  counters of the limiter keep their widths.

  \<^bold>\<open>Not modelled.\<close> The image work (\<^verbatim>\<open>media/renditions.rs\<close> and \<^verbatim>\<open>nsfw.rs\<close> of the mobile application: decoding, scaling on floating
  point sizes, blurring and a neural network, all in third-party libraries), the code generated for the bridge of the mobile
  application (\<^verbatim>\<open>frb_generated.rs\<close>), and what Redis, PostgreSQL, Firebase, the mail service and the identity providers do
  behind the calls: their answers are arguments. A single statement is atomic in the model, also one with a subquery (the update that
  consumes a code picks its row in one, which two transactions at the isolation level of the server might both pick); finite
  floating point numbers are exact rationals, in the limiter and in the distances; a connection of the trap has an identifier of its own. The figures of the database that only its planner sees (indexes, the pool's
  time-outs) have no counterpart. A routing table is modelled as a dispatch on requests; matching of paths is left to axum.
\<close>

end
